(* ===== verification/Prelude.thy ===== *)
theory Prelude
  imports Main
begin

text \<open>
  Shared vocabulary of the development: Python values that travel through requests (JSON,
  exceptions), the session monad in which every handler is written, table operations with their
  laws, and the generic interfaces (locales) of guarded machines and conflict-free inserts.

  A handler is a function of type \<open>('db, 'a) act\<close>: it takes the world of one request (the
  session's view of the database, the committed database, the environment) and returns either
  the exception it raised or its result, with the new world. The environment is arbitrary: a
  clock read at every tick, a supply of random identifiers, and a fault oracle that may make any
  statement, commit or rollback raise. Theorems quantify over it.
\<close>

section \<open>Python values and exceptions\<close>

text \<open>JSON documents (request payloads, response bodies, JSON columns). \<open>JUuid\<close> and \<open>JTime\<close>
  are the textual forms of a UUID and of a timestamp.\<close>

datatype json =
    JNull
  | JBool bool
  | JInt int
  | JStr string
  | JUuid nat
  | JTime int
  | JList "json list"
  | JObj "(string \<times> json) list"

text \<open>Python truthiness of such values.\<close>

fun truthy :: "json \<Rightarrow> bool" where
  "truthy JNull = False"
| "truthy (JBool b) = b"
| "truthy (JInt i) = (i \<noteq> 0)"
| "truthy (JStr s) = (s \<noteq> [])"
| "truthy (JUuid u) = True"
| "truthy (JTime t) = True"
| "truthy (JList xs) = (xs \<noteq> [])"
| "truthy (JObj kvs) = (kvs \<noteq> [])"

text \<open>Python's \<open>a or b\<close>.\<close>

definition py_or :: "json \<Rightarrow> json \<Rightarrow> json" where
  "py_or a b = (if truthy a then a else b)"

datatype detail =
    Text string
  | Fmt string "int list"
  | Quote string string
  | Errors "detail list"

text \<open>The exceptions the code raises or lets through. \<open>DBAPIError inv nm\<close> carries whether the
  connection was invalidated and the class name of the driver's error.\<close>

datatype exc =
    HTTPException int detail
  | IntegrityError
  | MultipleResultsFound
  | PendingRollbackError
  | OperationalError
  | DBAPIError bool string
  | TypeError
  | AttributeError
  | KeyError
  | IndexError
  | ValueError
  | UnboundLocalError
  | RuntimeError detail
  | ConnectionError
  | TimeoutError
  | OSError
  | CircuitOpenError
  | CancelledError
  | QueueFull

text \<open>\<open>d.get(k, default)\<close>: an AttributeError when \<open>d\<close> is not a dict.\<close>

fun json_get :: "string \<Rightarrow> json \<Rightarrow> json \<Rightarrow> exc + json" where
  "json_get k dflt (JObj kvs) = (case map_of kvs k of None \<Rightarrow> Inr dflt | Some v \<Rightarrow> Inr v)"
| "json_get k dflt _ = Inl AttributeError"

text \<open>Statement results: SQLAlchemy's \<open>one_or_none\<close> and \<open>scalar_one_or_none\<close> (rows are already
  projected), \<open>first\<close>, and Python's \<open>rows[0]\<close>.\<close>

fun one_or_none :: "'a list \<Rightarrow> exc + 'a option" where
  "one_or_none [] = Inr None"
| "one_or_none [x] = Inr (Some x)"
| "one_or_none (x # y # zs) = Inl MultipleResultsFound"

fun first_row :: "'a list \<Rightarrow> 'a option" where
  "first_row [] = None"
| "first_row (x # xs) = Some x"

fun index0 :: "'a list \<Rightarrow> exc + 'a" where
  "index0 [] = Inl IndexError"
| "index0 (x # xs) = Inr x"

text \<open>Python's truth test of an optional integer column.\<close>

fun truthy_id :: "nat option \<Rightarrow> bool" where
  "truthy_id None = False"
| "truthy_id (Some n) = (n \<noteq> 0)"

section \<open>The session monad\<close>

record environment =
  clock :: "nat \<Rightarrow> int"
  fault :: "nat \<Rightarrow> exc option"
  uuids :: "nat \<Rightarrow> nat"
  tokens :: "nat \<Rightarrow> string"

record 'db world =
  db :: 'db
  committed :: 'db
  aborted :: bool
  ticks :: nat
  seqs :: "string \<Rightarrow> nat"
  env :: environment
  queue :: "(string \<times> json) list"

type_synonym ('db, 'a) act = "'db world \<Rightarrow> (exc + 'a) \<times> 'db world"

definition retM :: "'a \<Rightarrow> ('db, 'a) act" where
  "retM x = (\<lambda>w. (Inr x, w))"

definition raiseM :: "exc \<Rightarrow> ('db, 'a) act" where
  "raiseM e = (\<lambda>w. (Inl e, w))"

definition liftM :: "exc + 'a \<Rightarrow> ('db, 'a) act" where
  "liftM r = (\<lambda>w. (r, w))"

definition letM :: "('db, 'a) act \<Rightarrow> ('a \<Rightarrow> ('db, 'b) act) \<Rightarrow> ('db, 'b) act" where
  "letM m k = (\<lambda>w. case m w of (r, w') \<Rightarrow> (case r of Inl e \<Rightarrow> (Inl e, w') | Inr x \<Rightarrow> k x w'))"

definition doM :: "('db, 'a) act \<Rightarrow> ('db, 'b) act \<Rightarrow> ('db, 'b) act" where
  "doM m n = letM m (\<lambda>_. n)"

definition whenM :: "bool \<Rightarrow> ('db, unit) act \<Rightarrow> ('db, unit) act" where
  "whenM b m = (if b then m else retM ())"

text \<open>\<open>try: m except e: h(e)\<close> with a handler that decides what to do with each exception
  (\<open>raiseM e\<close> for those it does not catch), and \<open>try: m finally: f\<close>.\<close>

definition tryM :: "('db, 'a) act \<Rightarrow> (exc \<Rightarrow> ('db, 'a) act) \<Rightarrow> ('db, 'a) act" where
  "tryM m h = (\<lambda>w. case m w of (r, w') \<Rightarrow> (case r of Inl e \<Rightarrow> h e w' | Inr x \<Rightarrow> (Inr x, w')))"

definition finallyM :: "('db, 'a) act \<Rightarrow> ('db, unit) act \<Rightarrow> ('db, 'a) act" where
  "finallyM m f = (\<lambda>w. case m w of (r, w') \<Rightarrow>
     (case f w' of (r', w'') \<Rightarrow> (case r' of Inl e \<Rightarrow> (Inl e, w'') | Inr _ \<Rightarrow> (r, w''))))"

primrec forM :: "'x list \<Rightarrow> ('x \<Rightarrow> ('db, unit) act) \<Rightarrow> ('db, unit) act" where
  "forM [] f = retM ()"
| "forM (x # xs) f = doM (f x) (forM xs f)"

primrec mapM :: "('x \<Rightarrow> ('db, 'y) act) \<Rightarrow> 'x list \<Rightarrow> ('db, 'y list) act" where
  "mapM f [] = retM []"
| "mapM f (x # xs) = letM (f x) (\<lambda>y. letM (mapM f xs) (\<lambda>ys. retM (y # ys)))"

lemma letM_assoc: "letM (letM m k) h = letM m (\<lambda>x. letM (k x) h)"
  by (rule ext) (auto simp: letM_def split: prod.split sum.split)

lemma letM_ret: "letM (retM x) k = k x"
  by (rule ext) (simp add: letM_def retM_def)

section \<open>Sessions: statements, commit, rollback\<close>

definition tick :: "'db world \<Rightarrow> 'db world" where
  "tick w = w\<lparr>ticks := Suc (ticks w)\<rparr>"

text \<open>One statement on the session's view. A session whose transaction has failed refuses every
  further statement until it is rolled back; the fault oracle may make the statement raise.\<close>

definition exec :: "('db \<Rightarrow> exc + ('a \<times> 'db)) \<Rightarrow> ('db, 'a) act" where
  "exec f = (\<lambda>w.
     if aborted w then (Inl PendingRollbackError, tick w)
     else case fault (env w) (ticks w) of
            Some e \<Rightarrow> (Inl e, tick (w\<lparr>aborted := True\<rparr>))
          | None \<Rightarrow> (case f (db w) of
                Inl e \<Rightarrow> (Inl e, tick (w\<lparr>aborted := True\<rparr>))
              | Inr (x, d) \<Rightarrow> (Inr x, tick (w\<lparr>db := d\<rparr>))))"

definition query :: "('db \<Rightarrow> 'a) \<Rightarrow> ('db, 'a) act" where
  "query f = exec (\<lambda>d. Inr (f d, d))"

definition modify :: "('db \<Rightarrow> 'db) \<Rightarrow> ('db, unit) act" where
  "modify f = exec (\<lambda>d. Inr ((), f d))"

text \<open>\<open>nextval\<close> of a table's id sequence: never rolled back, ids start at 1.\<close>

definition next_id :: "string \<Rightarrow> ('db, nat) act" where
  "next_id t = (\<lambda>w. (Inr (Suc (seqs w t)), w\<lparr>seqs := (seqs w)(t := Suc (seqs w t))\<rparr>))"

definition commit :: "('db, unit) act" where
  "commit = (\<lambda>w.
     if aborted w then (Inl PendingRollbackError, tick w)
     else case fault (env w) (ticks w) of
            Some e \<Rightarrow> (Inl e, tick (w\<lparr>aborted := True\<rparr>))
          | None \<Rightarrow> (Inr (), tick (w\<lparr>committed := db w\<rparr>)))"

definition rollback :: "('db, unit) act" where
  "rollback = (\<lambda>w.
     case fault (env w) (ticks w) of
            Some e \<Rightarrow> (Inl e, tick (w\<lparr>aborted := True\<rparr>))
          | None \<Rightarrow> (Inr (), tick (w\<lparr>db := committed w, aborted := False\<rparr>)))"

text \<open>\<open>async with async_session() as session\<close>: a fresh view on entry; leaving the block discards
  what was not committed.\<close>

definition with_session :: "('db, 'a) act \<Rightarrow> ('db, 'a) act" where
  "with_session m = (\<lambda>w.
     case m (w\<lparr>db := committed w, aborted := False\<rparr>) of
       (r, w') \<Rightarrow> (r, w'\<lparr>db := committed w', aborted := False\<rparr>))"

text \<open>\<open>async with session.begin()\<close>: commit on a normal exit, discard on an exception.\<close>

definition begin_tx :: "('db, 'a) act \<Rightarrow> ('db, 'a) act" where
  "begin_tx m = (\<lambda>w. case letM m (\<lambda>x. doM commit (retM x)) w of
     (Inr x, w') \<Rightarrow> (Inr x, w')
   | (Inl e, w') \<Rightarrow> (Inl e, w'\<lparr>db := committed w', aborted := False\<rparr>))"

definition now :: "('db, int) act" where
  "now = (\<lambda>w. (Inr (clock (env w) (ticks w)), tick w))"

definition uuid7 :: "('db, nat) act" where
  "uuid7 = (\<lambda>w. (Inr (uuids (env w) (ticks w)), tick w))"

definition random_token :: "('db, string) act" where
  "random_token = (\<lambda>w. (Inr (tokens (env w) (ticks w)), tick w))"

text \<open>Time is in microseconds, as \<open>datetime\<close> counts it.\<close>

definition seconds :: "int \<Rightarrow> int" where "seconds n = n * 1000000"
definition minutes :: "int \<Rightarrow> int" where "minutes n = seconds (60 * n)"
definition days :: "int \<Rightarrow> int" where "days n = seconds (86400 * n)"

section \<open>Reasoning about handlers\<close>

text \<open>\<open>wp m Q E w\<close>: from \<open>w\<close>, the handler \<open>m\<close> either returns with \<open>Q\<close> or raises with \<open>E\<close>. The
  collection \<open>wp_simps\<close> runs a handler symbolically.\<close>

definition wp :: "('db, 'a) act \<Rightarrow> ('a \<Rightarrow> 'db world \<Rightarrow> bool) \<Rightarrow> (exc \<Rightarrow> 'db world \<Rightarrow> bool)
    \<Rightarrow> 'db world \<Rightarrow> bool" where
  "wp m Q E w = (case m w of (r, w') \<Rightarrow> (case r of Inl e \<Rightarrow> E e w' | Inr x \<Rightarrow> Q x w'))"

named_theorems wp_simps \<open>symbolic execution of handlers\<close>
named_theorems keeps_intros \<open>handlers that keep a predicate of the database\<close>
named_theorems uncommitted_intros \<open>handlers that never commit\<close>

lemma wp_ret [wp_simps]: "wp (retM x) Q E = Q x"
  by (rule ext) (simp add: wp_def retM_def)

lemma wp_raise [wp_simps]: "wp (raiseM e) Q E = E e"
  by (rule ext) (simp add: wp_def raiseM_def)

lemma wp_lift [wp_simps]: "wp (liftM r) Q E w = (case r of Inl e \<Rightarrow> E e w | Inr x \<Rightarrow> Q x w)"
  by (simp add: wp_def liftM_def split: sum.split)

lemma wp_let [wp_simps]: "wp (letM m k) Q E = wp m (\<lambda>x. wp (k x) Q E) E"
  by (rule ext) (auto simp: wp_def letM_def split: prod.split sum.split)

lemma wp_do [wp_simps]: "wp (doM m n) Q E = wp m (\<lambda>_. wp n Q E) E"
  by (simp add: doM_def wp_let)

lemma wp_when [wp_simps]: "wp (whenM b m) Q E w = (if b then wp m Q E w else Q () w)"
  by (simp add: whenM_def wp_ret)

lemma wp_try [wp_simps]: "wp (tryM m h) Q E = wp m Q (\<lambda>e. wp (h e) Q E)"
  by (rule ext) (auto simp: wp_def tryM_def split: prod.split sum.split)

lemma wp_finally [wp_simps]:
  "wp (finallyM m f) Q E w =
     wp m (\<lambda>x. wp f (\<lambda>_. Q x) E) (\<lambda>e. wp f (\<lambda>_. E e) E) w"
  by (auto simp: wp_def finallyM_def split: prod.split sum.split)

lemma wp_for_Nil [wp_simps]: "wp (forM [] f) Q E w = Q () w"
  by (simp add: wp_ret)

lemma wp_for_Cons [wp_simps]: "wp (forM (x # xs) f) Q E w = wp (f x) (\<lambda>_. wp (forM xs f) Q E) E w"
  by (simp add: wp_do)

lemma wp_mapM_Nil [wp_simps]: "wp (mapM f []) Q E w = Q [] w"
  by (simp add: wp_ret)

lemma wp_mapM_Cons [wp_simps]:
  "wp (mapM f (x # xs)) Q E w = wp (f x) (\<lambda>y. wp (mapM f xs) (\<lambda>ys. Q (y # ys)) E) E w"
  by (auto simp: wp_def letM_def retM_def split: prod.splits sum.splits)

lemma wp_now [wp_simps]: "wp now Q E w = Q (clock (env w) (ticks w)) (tick w)"
  by (simp add: wp_def now_def)

lemma wp_uuid7 [wp_simps]: "wp uuid7 Q E w = Q (uuids (env w) (ticks w)) (tick w)"
  by (simp add: wp_def uuid7_def)

lemma wp_random_token [wp_simps]: "wp random_token Q E w = Q (tokens (env w) (ticks w)) (tick w)"
  by (simp add: wp_def random_token_def)

lemma wp_next_id [wp_simps]:
  "wp (next_id t) Q E w = Q (Suc (seqs w t)) (w\<lparr>seqs := (seqs w)(t := Suc (seqs w t))\<rparr>)"
  by (simp add: wp_def next_id_def)

lemma wp_if [wp_simps]: "wp (if b then m else n) Q E w = (if b then wp m Q E w else wp n Q E w)"
  by simp

lemma wp_case_option [wp_simps]:
  "wp (case x of None \<Rightarrow> m | Some y \<Rightarrow> n y) Q E w =
     (case x of None \<Rightarrow> wp m Q E w | Some y \<Rightarrow> wp (n y) Q E w)"
  by (simp split: option.split)

lemma wp_case_prod [wp_simps]:
  "wp (case x of (a, b) \<Rightarrow> n a b) Q E w = (case x of (a, b) \<Rightarrow> wp (n a b) Q E w)"
  by (simp split: prod.split)

lemma wp_case_sum [wp_simps]:
  "wp (case x of Inl a \<Rightarrow> m a | Inr b \<Rightarrow> n b) Q E w =
     (case x of Inl a \<Rightarrow> wp (m a) Q E w | Inr b \<Rightarrow> wp (n b) Q E w)"
  by (simp split: sum.split)

lemma wp_exec:
  "wp (exec f) Q E w =
     (if aborted w then E PendingRollbackError (tick w)
      else case fault (env w) (ticks w) of
             Some e \<Rightarrow> E e (tick (w\<lparr>aborted := True\<rparr>))
           | None \<Rightarrow> (case f (db w) of
                 Inl e \<Rightarrow> E e (tick (w\<lparr>aborted := True\<rparr>))
               | Inr (x, d) \<Rightarrow> Q x (tick (w\<lparr>db := d\<rparr>))))"
  by (auto simp: wp_def exec_def split: option.split sum.split prod.split)

lemma wp_mono:
  assumes "wp m Q E w"
    and "\<And>x w'. Q x w' \<Longrightarrow> Q' x w'" and "\<And>e w'. E e w' \<Longrightarrow> E' e w'"
  shows "wp m Q' E' w"
  using assms by (auto simp: wp_def split: prod.splits sum.splits)

lemma wp_result:
  "wp m (\<lambda>x w'. x = r \<and> P w') (\<lambda>_ _. False) w \<Longrightarrow> fst (m w) = Inr r \<and> P (snd (m w))"
  by (auto simp: wp_def split: prod.splits sum.splits)

lemma wp_runs: "wp m Q (\<lambda>_ _. False) w \<Longrightarrow> \<exists>x v. m w = (Inr x, v) \<and> Q x v"
  by (auto simp: wp_def split: prod.splits sum.splits)

lemma wp_raises:
  "wp m (\<lambda>_ _. False) (\<lambda>e w'. e = x \<and> P w') w \<Longrightarrow> fst (m w) = Inl x \<and> P (snd (m w))"
  by (auto simp: wp_def split: prod.splits sum.splits)

lemma wp_state: "wp m (\<lambda>_. P) (\<lambda>_. P) w = P (snd (m w))"
  by (auto simp: wp_def split: prod.splits sum.splits)


lemma wp_modify:
  "wp (modify f) Q E w =
     (if aborted w then E PendingRollbackError (tick w)
      else case fault (env w) (ticks w) of
             Some e \<Rightarrow> E e (tick (w\<lparr>aborted := True\<rparr>))
           | None \<Rightarrow> Q () (tick (w\<lparr>db := f (db w)\<rparr>)))"
  by (simp add: modify_def wp_exec split: option.split)

lemma wp_commit:
  "wp commit Q E w =
     (if aborted w then E PendingRollbackError (tick w)
      else case fault (env w) (ticks w) of
             Some e \<Rightarrow> E e (tick (w\<lparr>aborted := True\<rparr>))
           | None \<Rightarrow> Q () (tick (w\<lparr>committed := db w\<rparr>)))"
  by (auto simp: wp_def commit_def split: option.split)

lemma wp_rollback:
  "wp rollback Q E w =
     (case fault (env w) (ticks w) of
        Some e \<Rightarrow> E e (tick (w\<lparr>aborted := True\<rparr>))
      | None \<Rightarrow> Q () (tick (w\<lparr>db := committed w, aborted := False\<rparr>)))"
  by (auto simp: wp_def rollback_def split: option.split)

lemma wp_with_session [wp_simps]:
  "wp (with_session m) Q E w =
     wp m (\<lambda>x w'. Q x (w'\<lparr>db := committed w', aborted := False\<rparr>))
       (\<lambda>e w'. E e (w'\<lparr>db := committed w', aborted := False\<rparr>))
       (w\<lparr>db := committed w, aborted := False\<rparr>)"
  by (auto simp: wp_def with_session_def split: prod.split sum.split)

lemma wp_begin_tx [wp_simps]:
  "wp (begin_tx m) Q E w =
     wp m (\<lambda>x. wp commit (\<lambda>_. Q x) (\<lambda>e w'. E e (w'\<lparr>db := committed w', aborted := False\<rparr>)))
       (\<lambda>e w'. E e (w'\<lparr>db := committed w', aborted := False\<rparr>)) w"
  by (auto simp: wp_def begin_tx_def letM_def doM_def retM_def split: prod.split sum.split)

text \<open>Every operation ticks; ticking touches nothing else.\<close>

lemma tick_fields [simp]:
  "db (tick w) = db w" "committed (tick w) = committed w" "aborted (tick w) = aborted w"
  "seqs (tick w) = seqs w" "env (tick w) = env w" "queue (tick w) = queue w"
  "ticks (tick w) = Suc (ticks w)"
  by (simp_all add: tick_def)

subsection \<open>Quiet worlds: no faults\<close>

definition quiet :: "'db world \<Rightarrow> bool" where
  "quiet w \<longleftrightarrow> \<not> aborted w \<and> (\<forall>n. fault (env w) n = None)"

lemma quiet_fields [simp]:
  "quiet (tick w) = quiet w"
  "quiet (w\<lparr>db := d\<rparr>) = quiet w"
  "quiet (w\<lparr>committed := d\<rparr>) = quiet w"
  "quiet (w\<lparr>seqs := q\<rparr>) = quiet w"
  "quiet (w\<lparr>queue := qu\<rparr>) = quiet w"
  by (simp_all add: quiet_def)

lemma quiet_not_aborted: "quiet w \<Longrightarrow> \<not> aborted w"
  by (simp add: quiet_def)

lemma quiet_reset: "quiet w \<Longrightarrow> quiet (w\<lparr>db := d, aborted := False\<rparr>)"
  by (simp add: quiet_def)

lemma wp_exec_quiet [wp_simps]:
  "quiet w \<Longrightarrow> wp (exec f) Q E w =
     (case f (db w) of Inl e \<Rightarrow> E e (tick (w\<lparr>aborted := True\<rparr>))
                     | Inr (x, d) \<Rightarrow> Q x (tick (w\<lparr>db := d\<rparr>)))"
  by (simp add: wp_exec quiet_def)

lemma wp_query_quiet [wp_simps]: "quiet w \<Longrightarrow> wp (query f) Q E w = Q (f (db w)) (tick w)"
  by (simp add: query_def wp_exec_quiet)

lemma wp_modify_quiet [wp_simps]:
  "quiet w \<Longrightarrow> wp (modify f) Q E w = Q () (tick (w\<lparr>db := f (db w)\<rparr>))"
  by (simp add: modify_def wp_exec_quiet)

lemma wp_commit_quiet [wp_simps]:
  "quiet w \<Longrightarrow> wp commit Q E w = Q () (tick (w\<lparr>committed := db w\<rparr>))"
  by (simp add: wp_commit quiet_def)

lemma wp_rollback_quiet [wp_simps]:
  "quiet w \<Longrightarrow> wp rollback Q E w = Q () (tick (w\<lparr>db := committed w, aborted := False\<rparr>))"
  by (simp add: wp_rollback quiet_def)

subsection \<open>What a handler that returns has done, whatever could have failed\<close>

text \<open>\<open>returns m Q w\<close>: if \<open>m\<close> returns from \<open>w\<close>, then \<open>Q\<close> holds. Nothing is said of the runs that
  raise, so the rules have no branches for faults.\<close>

definition returns :: "('db, 'a) act \<Rightarrow> ('a \<Rightarrow> 'db world \<Rightarrow> bool) \<Rightarrow> 'db world \<Rightarrow> bool" where
  "returns m Q w \<longleftrightarrow> (\<forall>x w'. m w = (Inr x, w') \<longrightarrow> Q x w')"

named_theorems returns_simps \<open>symbolic execution of handlers that return\<close>

lemma returnsD: "returns m Q w \<Longrightarrow> m w = (Inr x, w') \<Longrightarrow> Q x w'"
  by (simp add: returns_def)

lemma returns_ret [returns_simps]: "returns (retM x) Q = Q x"
  by (rule ext) (simp add: returns_def retM_def)

lemma returns_raise [returns_simps]: "returns (raiseM e) Q = (\<lambda>_. True)"
  by (rule ext) (simp add: returns_def raiseM_def)

lemma returns_lift [returns_simps]: "returns (liftM r) Q w = (\<forall>x. r = Inr x \<longrightarrow> Q x w)"
  by (auto simp: returns_def liftM_def)

lemma returns_let [returns_simps]: "returns (letM m k) Q = returns m (\<lambda>x. returns (k x) Q)"
  by (rule ext) (auto simp: returns_def letM_def split: prod.splits sum.splits)

lemma returns_do [returns_simps]: "returns (doM m n) Q = returns m (\<lambda>_. returns n Q)"
  by (simp add: doM_def returns_let)

lemma returns_when [returns_simps]:
  "returns (whenM b m) Q w = (if b then returns m Q w else Q () w)"
  by (simp add: whenM_def returns_ret)

lemma returns_if [returns_simps]:
  "returns (if b then m else n) Q w = (if b then returns m Q w else returns n Q w)"
  by simp

lemma returns_case_option [returns_simps]:
  "returns (case x of None \<Rightarrow> m | Some y \<Rightarrow> n y) Q w =
     (case x of None \<Rightarrow> returns m Q w | Some y \<Rightarrow> returns (n y) Q w)"
  by (simp split: option.split)

lemma returns_case_prod [returns_simps]:
  "returns (case x of (a, b) \<Rightarrow> n a b) Q w = (case x of (a, b) \<Rightarrow> returns (n a b) Q w)"
  by (simp split: prod.split)

lemma returns_now [returns_simps]: "returns now Q w = Q (clock (env w) (ticks w)) (tick w)"
  by (simp add: returns_def now_def)

lemma returns_uuid7 [returns_simps]: "returns uuid7 Q w = Q (uuids (env w) (ticks w)) (tick w)"
  by (simp add: returns_def uuid7_def)

lemma returns_random_token [returns_simps]:
  "returns random_token Q w = Q (tokens (env w) (ticks w)) (tick w)"
  by (simp add: returns_def random_token_def)

lemma returns_next_id [returns_simps]:
  "returns (next_id t) Q w = Q (Suc (seqs w t)) (w\<lparr>seqs := (seqs w)(t := Suc (seqs w t))\<rparr>)"
  by (simp add: returns_def next_id_def)

lemma returns_exec [returns_simps]:
  "returns (exec f) Q w \<longleftrightarrow>
     (\<not> aborted w \<longrightarrow> fault (env w) (ticks w) = None \<longrightarrow>
       (\<forall>x d. f (db w) = Inr (x, d) \<longrightarrow> Q x (tick (w\<lparr>db := d\<rparr>))))"
  by (auto simp: returns_def exec_def split: option.split sum.split prod.split)

lemma returns_query [returns_simps]:
  "returns (query f) Q w \<longleftrightarrow>
     (\<not> aborted w \<longrightarrow> fault (env w) (ticks w) = None \<longrightarrow> Q (f (db w)) (tick w))"
  by (simp add: query_def returns_exec)

lemma returns_modify [returns_simps]:
  "returns (modify f) Q w \<longleftrightarrow>
     (\<not> aborted w \<longrightarrow> fault (env w) (ticks w) = None \<longrightarrow> Q () (tick (w\<lparr>db := f (db w)\<rparr>)))"
  by (simp add: modify_def returns_exec)

lemma returns_commit [returns_simps]:
  "returns commit Q w \<longleftrightarrow>
     (\<not> aborted w \<longrightarrow> fault (env w) (ticks w) = None \<longrightarrow> Q () (tick (w\<lparr>committed := db w\<rparr>)))"
  by (auto simp: returns_def commit_def split: option.split)

lemma returns_rollback [returns_simps]:
  "returns rollback Q w \<longleftrightarrow>
     (fault (env w) (ticks w) = None \<longrightarrow> Q () (tick (w\<lparr>db := committed w, aborted := False\<rparr>)))"
  by (auto simp: returns_def rollback_def split: option.split)

lemma returns_with_session [returns_simps]:
  "returns (with_session m) Q w =
     returns m (\<lambda>x w'. Q x (w'\<lparr>db := committed w', aborted := False\<rparr>)) (w\<lparr>db := committed w, aborted := False\<rparr>)"
  by (auto simp: returns_def with_session_def split: prod.splits)

text \<open>A \<open>try\<close> returns either the body's result or, from wherever the body raised, the handler's.\<close>

lemma returns_try:
  "wp m Q (\<lambda>e. returns (h e) Q) w \<Longrightarrow> returns (tryM m h) Q w"
  by (auto simp: wp_def returns_def tryM_def split: prod.splits sum.splits)

text \<open>Loops: an invariant of the world, and for \<open>mapM\<close> what each element's result satisfies.\<close>

lemma returns_for:
  assumes "I w" and "\<And>x v. x \<in> set xs \<Longrightarrow> I v \<Longrightarrow> returns (f x) (\<lambda>_. I) v"
  shows "returns (forM xs f) (\<lambda>_. I) w"
  using assms
proof (induction xs arbitrary: w)
  case Nil
  then show ?case by (simp add: returns_ret)
next
  case (Cons x xs)
  have "returns (f x) (\<lambda>_. returns (forM xs f) (\<lambda>_. I)) w"
    using Cons.prems Cons.IH unfolding returns_def by (metis list.set_intros)
  then show ?case by (simp add: returns_do)
qed

lemma returns_mono: "returns m Q w \<Longrightarrow> (\<And>x w'. Q x w' \<Longrightarrow> Q' x w') \<Longrightarrow> returns m Q' w"
  by (auto simp: returns_def)

lemma returns_mapM:
  assumes "I w" and "\<And>x v. x \<in> set xs \<Longrightarrow> I v \<Longrightarrow> returns (f x) (\<lambda>y v'. P x y \<and> I v') v"
  shows "returns (mapM f xs) (\<lambda>ys w'. list_all2 P xs ys \<and> I w') w"
  using assms
proof (induction xs arbitrary: w)
  case Nil
  then show ?case by (simp add: returns_ret)
next
  case (Cons x xs)
  have "returns (f x) (\<lambda>y v. P x y \<and> returns (mapM f xs) (\<lambda>ys w'. list_all2 P xs ys \<and> I w') v) w"
    using Cons.prems Cons.IH by (intro returns_mono [OF Cons.prems(2) [of x w]]) auto
  then show ?case
    by (auto simp: returns_let returns_ret elim!: returns_mono)
qed

subsection \<open>Handlers that keep a predicate of the database\<close>

definition keeps :: "('db \<Rightarrow> bool) \<Rightarrow> ('db, 'a) act \<Rightarrow> bool" where
  "keeps J m \<longleftrightarrow> (\<forall>w. J (db w) \<longrightarrow> J (committed w) \<longrightarrow>
     J (db (snd (m w))) \<and> J (committed (snd (m w))))"

lemma keepsD: "keeps J m \<Longrightarrow> J (db w) \<Longrightarrow> J (committed w) \<Longrightarrow> J (committed (snd (m w)))"
  by (simp add: keeps_def)

lemma keeps_ret [keeps_intros]: "keeps J (retM x)"
  by (simp add: keeps_def retM_def)

lemma keeps_raise [keeps_intros]: "keeps J (raiseM x)"
  by (simp add: keeps_def raiseM_def)

lemma keeps_lift [keeps_intros]: "keeps J (liftM x)"
  by (simp add: keeps_def liftM_def)

lemma keeps_let [keeps_intros]: "keeps J m \<Longrightarrow> (\<And>x. keeps J (k x)) \<Longrightarrow> keeps J (letM m k)"
  by (auto simp: keeps_def letM_def split: prod.split sum.split)

lemma keeps_do [keeps_intros]: "keeps J m \<Longrightarrow> keeps J n \<Longrightarrow> keeps J (doM m n)"
  by (simp add: doM_def keeps_let)

lemma keeps_when [keeps_intros]: "(b \<Longrightarrow> keeps J m) \<Longrightarrow> keeps J (whenM b m)"
  by (simp add: whenM_def keeps_ret)

lemma keeps_try [keeps_intros]: "keeps J m \<Longrightarrow> (\<And>e. keeps J (h e)) \<Longrightarrow> keeps J (tryM m h)"
  by (auto simp: keeps_def tryM_def split: prod.split sum.split)

lemma keeps_finally [keeps_intros]: "keeps J m \<Longrightarrow> keeps J f \<Longrightarrow> keeps J (finallyM m f)"
  by (auto simp: keeps_def finallyM_def split: prod.split sum.split)

lemma keeps_for [keeps_intros]: "(\<And>x. keeps J (f x)) \<Longrightarrow> keeps J (forM xs f)"
  by (induction xs) (simp_all add: keeps_ret keeps_do)

lemma keeps_mapM [keeps_intros]: "(\<And>x. keeps J (f x)) \<Longrightarrow> keeps J (mapM f xs)"
  by (induction xs) (simp_all add: keeps_ret keeps_let)

lemma keeps_now [keeps_intros]: "keeps J now" "keeps J uuid7" "keeps J random_token"
  by (simp_all add: keeps_def now_def uuid7_def random_token_def)

lemma keeps_next_id [keeps_intros]: "keeps J (next_id t)"
  by (simp add: keeps_def next_id_def)

lemma keeps_if [keeps_intros]:
  "(b \<Longrightarrow> keeps J m) \<Longrightarrow> (\<not> b \<Longrightarrow> keeps J n) \<Longrightarrow> keeps J (if b then m else n)"
  by simp

lemma keeps_case_option [keeps_intros]:
  "(x = None \<Longrightarrow> keeps J m) \<Longrightarrow> (\<And>y. x = Some y \<Longrightarrow> keeps J (n y)) \<Longrightarrow>
     keeps J (case x of None \<Rightarrow> m | Some y \<Rightarrow> n y)"
  by (simp split: option.split)

lemma keeps_case_prod [keeps_intros]:
  "(\<And>a b. x = (a, b) \<Longrightarrow> keeps J (n a b)) \<Longrightarrow> keeps J (case x of (a, b) \<Rightarrow> n a b)"
  by (simp split: prod.split)

lemma keeps_exec:
  "(\<And>d x d'. J d \<Longrightarrow> f d = Inr (x, d') \<Longrightarrow> J d') \<Longrightarrow> keeps J (exec f)"
  by (auto simp: keeps_def exec_def split: option.split sum.split)

lemma keeps_query [keeps_intros]: "keeps J (query f)"
  by (auto simp: query_def intro: keeps_exec)

text \<open>A query reads a database that satisfies the predicate; a lifted result is the one computed.\<close>

lemma keeps_let_query: "(\<And>d. J d \<Longrightarrow> keeps J (k (f d))) \<Longrightarrow> keeps J (letM (query f) k)"
  by (auto simp: keeps_def letM_def query_def exec_def split: option.split)

lemma keeps_let_lift: "(\<And>x. r = Inr x \<Longrightarrow> keeps J (k x)) \<Longrightarrow> keeps J (letM (liftM r) k)"
  by (auto simp: keeps_def letM_def liftM_def split: sum.split)

lemma keeps_let_returns:
  assumes "keeps J m" and "\<And>w. returns m (\<lambda>x _. R x) w" and "\<And>x. R x \<Longrightarrow> keeps J (k x)"
  shows "keeps J (letM m k)"
  unfolding keeps_def
proof (intro allI impI)
  fix w :: "'a world" assume w: "J (db w)" "J (committed w)"
  show "J (db (snd (letM m k w))) \<and> J (committed (snd (letM m k w)))"
  proof (cases "m w")
    case (Pair r v)
    then have "J (db v)" "J (committed v)"
      using assms(1) w by (auto simp: keeps_def)
    moreover have "r = Inr x \<Longrightarrow> R x" for x
      using assms(2) [of w] Pair by (auto simp: returns_def)
    ultimately show ?thesis
      using assms(3) Pair by (auto simp: letM_def keeps_def split: sum.split)
  qed
qed

lemma keeps_conj: "keeps A m \<Longrightarrow> keeps B m \<Longrightarrow> keeps (\<lambda>d. A d \<and> B d) m"
  by (auto simp: keeps_def)

lemma keeps_modify: "(\<And>d. J d \<Longrightarrow> J (f d)) \<Longrightarrow> keeps J (modify f)"
  by (auto simp: modify_def intro: keeps_exec)

lemma keeps_commit [keeps_intros]: "keeps J commit"
  by (auto simp: keeps_def commit_def split: option.split)

lemma keeps_rollback [keeps_intros]: "keeps J rollback"
  by (auto simp: keeps_def rollback_def split: option.split)

lemma keeps_with_session [keeps_intros]:
  assumes "keeps J m"
  shows "keeps J (with_session m)"
proof -
  have "J (committed (snd (m (w\<lparr>db := committed w, aborted := False\<rparr>))))" if "J (committed w)" for w
    by (rule keepsD [OF assms]) (simp_all add: that)
  then show ?thesis
    by (auto simp: keeps_def with_session_def split: prod.split) (metis snd_conv)+
qed

lemma keeps_begin_tx [keeps_intros]:
  assumes "keeps J m"
  shows "keeps J (begin_tx m)"
proof -
  have "keeps J (letM m (\<lambda>x. doM commit (retM x)))"
    by (intro keeps_intros assms)
  then show ?thesis
    by (auto simp: keeps_def begin_tx_def split: prod.split sum.split)
qed

text \<open>One request: the handler in its own session. Only the world survives.\<close>

definition serve :: "('db, 'a) act \<Rightarrow> 'db world \<Rightarrow> 'db world" where
  "serve m w = snd (with_session m w)"

lemma serve_keeps: "keeps J m \<Longrightarrow> J (committed w) \<Longrightarrow> J (committed (serve m w))"
  using keepsD [of J m "w\<lparr>db := committed w, aborted := False\<rparr>"]
  by (simp add: serve_def with_session_def case_prod_beta)

subsection \<open>Handlers that never commit\<close>

definition uncommitted :: "('db, 'a) act \<Rightarrow> bool" where
  "uncommitted m \<longleftrightarrow> (\<forall>w. committed (snd (m w)) = committed w)"

lemma uncommittedD: "uncommitted m \<Longrightarrow> committed (snd (m w)) = committed w"
  by (simp add: uncommitted_def)

lemma uncommitted_basic [uncommitted_intros]:
  "uncommitted (retM x)" "uncommitted (raiseM e)" "uncommitted (liftM r)"
  "uncommitted now" "uncommitted uuid7" "uncommitted random_token" "uncommitted (next_id t)"
  "uncommitted rollback"
  by (simp_all add: uncommitted_def retM_def raiseM_def liftM_def now_def uuid7_def
      random_token_def next_id_def rollback_def split: option.split)

lemma uncommitted_exec [uncommitted_intros]:
  "uncommitted (exec f)" "uncommitted (query g)" "uncommitted (modify h)"
  by (simp_all add: uncommitted_def exec_def query_def modify_def split: option.split sum.split prod.split)

lemma uncommitted_let [uncommitted_intros]:
  "uncommitted m \<Longrightarrow> (\<And>x. uncommitted (k x)) \<Longrightarrow> uncommitted (letM m k)"
  by (auto simp: uncommitted_def letM_def split: prod.split sum.split) (metis snd_conv)+

lemma uncommitted_do [uncommitted_intros]:
  "uncommitted m \<Longrightarrow> uncommitted n \<Longrightarrow> uncommitted (doM m n)"
  by (simp add: doM_def uncommitted_let)

lemma uncommitted_when [uncommitted_intros]: "uncommitted m \<Longrightarrow> uncommitted (whenM b m)"
  by (simp add: whenM_def uncommitted_basic)

lemma uncommitted_try [uncommitted_intros]:
  "uncommitted m \<Longrightarrow> (\<And>e. uncommitted (h e)) \<Longrightarrow> uncommitted (tryM m h)"
  by (auto simp: uncommitted_def tryM_def split: prod.split sum.split) (metis snd_conv)+

lemma uncommitted_for [uncommitted_intros]: "(\<And>x. uncommitted (f x)) \<Longrightarrow> uncommitted (forM xs f)"
  by (induction xs) (simp_all add: uncommitted_basic uncommitted_do)

lemma uncommitted_mapM [uncommitted_intros]: "(\<And>x. uncommitted (f x)) \<Longrightarrow> uncommitted (mapM f xs)"
  by (induction xs) (simp_all add: uncommitted_basic uncommitted_let)

lemma uncommitted_if [uncommitted_intros]:
  "(b \<Longrightarrow> uncommitted m) \<Longrightarrow> (\<not> b \<Longrightarrow> uncommitted n) \<Longrightarrow> uncommitted (if b then m else n)"
  by simp

lemma uncommitted_case_option [uncommitted_intros]:
  "(x = None \<Longrightarrow> uncommitted m) \<Longrightarrow> (\<And>y. x = Some y \<Longrightarrow> uncommitted (n y)) \<Longrightarrow>
     uncommitted (case x of None \<Rightarrow> m | Some y \<Rightarrow> n y)"
  by (simp split: option.split)

lemma uncommitted_case_prod [uncommitted_intros]:
  "(\<And>a b. x = (a, b) \<Longrightarrow> uncommitted (n a b)) \<Longrightarrow> uncommitted (case x of (a, b) \<Rightarrow> n a b)"
  by (simp split: prod.split)

text \<open>A handler that never commits, run in its own session, leaves the database as it was.\<close>

lemma wp_uncommitted:
  "uncommitted m \<Longrightarrow> wp m (\<lambda>_ w'. committed w' = committed w) (\<lambda>_ w'. committed w' = committed w) w"
  by (simp add: wp_state uncommitted_def)

text \<open>A handler that cannot return: what follows it is never reached.\<close>

lemma uncommitted_never_returns:
  assumes "uncommitted m" and "\<And>w. returns m (\<lambda>_ _. False) w"
  shows "uncommitted (letM m k)" and "returns (letM m k) Q w"
proof -
  have raises: "\<exists>e v. m w = (Inl e, v)" for w
    using assms(2) [of w] by (cases "m w"; cases "fst (m w)") (auto simp: returns_def)
  show "uncommitted (letM m k)"
    using assms(1) raises by (auto simp: uncommitted_def letM_def split: prod.split sum.split) (metis snd_conv Inl_Inr_False fst_conv)+
  show "returns (letM m k) Q w"
    using raises [of w] by (auto simp: returns_def letM_def)
qed

subsection \<open>Id sequences only grow\<close>

definition grows :: "('db, 'a) act \<Rightarrow> bool" where
  "grows m \<longleftrightarrow> (\<forall>w s. seqs w s \<le> seqs (snd (m w)) s)"

named_theorems grows_intros \<open>handlers that never set an id sequence back\<close>

lemma growsD: "grows m \<Longrightarrow> m w = (r, w') \<Longrightarrow> seqs w s \<le> seqs w' s"
  unfolding grows_def by (metis snd_conv)

lemma wp_grows:
  "grows m \<Longrightarrow> wp m Q E w \<Longrightarrow>
     wp m (\<lambda>x v. Q x v \<and> (\<forall>s. seqs w s \<le> seqs v s)) (\<lambda>e v. E e v \<and> (\<forall>s. seqs w s \<le> seqs v s)) w"
  by (auto simp: wp_def dest: growsD split: prod.splits sum.splits)

lemma grows_basic [grows_intros]:
  "grows (retM x)" "grows (raiseM e)" "grows (liftM r)" "grows now" "grows uuid7" "grows random_token"
  "grows (next_id t)" "grows rollback" "grows commit" "grows (exec f)" "grows (query g)" "grows (modify h)"
  by (auto simp: grows_def retM_def raiseM_def liftM_def now_def uuid7_def random_token_def next_id_def
      rollback_def commit_def exec_def query_def modify_def split: option.split sum.split prod.split)

lemma grows_let [grows_intros]: "grows m \<Longrightarrow> (\<And>x. grows (k x)) \<Longrightarrow> grows (letM m k)"
  by (auto simp: grows_def letM_def split: prod.split sum.split) (metis le_trans snd_conv)+

lemma grows_do [grows_intros]: "grows m \<Longrightarrow> grows n \<Longrightarrow> grows (doM m n)"
  by (simp add: doM_def grows_let)

lemma grows_when [grows_intros]: "grows m \<Longrightarrow> grows (whenM b m)"
  by (simp add: whenM_def grows_basic)

lemma grows_try [grows_intros]: "grows m \<Longrightarrow> (\<And>e. grows (h e)) \<Longrightarrow> grows (tryM m h)"
  by (auto simp: grows_def tryM_def split: prod.split sum.split) (metis le_trans snd_conv)+

lemma grows_for [grows_intros]: "(\<And>x. grows (f x)) \<Longrightarrow> grows (forM xs f)"
  by (induction xs) (simp_all add: grows_basic grows_do)

lemma grows_cases [grows_intros]:
  "(b \<Longrightarrow> grows m) \<Longrightarrow> (\<not> b \<Longrightarrow> grows n) \<Longrightarrow> grows (if b then m else n)"
  "(x = None \<Longrightarrow> grows m) \<Longrightarrow> (\<And>y. x = Some y \<Longrightarrow> grows (f y)) \<Longrightarrow>
     grows (case x of None \<Rightarrow> m | Some y \<Rightarrow> f y)"
  "(\<And>c d. z = (c, d) \<Longrightarrow> grows (g c d)) \<Longrightarrow> grows (case z of (c, d) \<Rightarrow> g c d)"
  by (auto split: option.split prod.split)

subsection \<open>Atomic handlers\<close>

text \<open>A handler is atomic when raising means that it has committed nothing. The only commit of such
  a handler is its last statement.\<close>

definition atomic :: "('db, 'a) act \<Rightarrow> bool" where
  "atomic m \<longleftrightarrow> (\<forall>w e w'. m w = (Inl e, w') \<longrightarrow> committed w' = committed w)"

named_theorems atomic_intros \<open>handlers that commit only at the end\<close>

lemma atomicD: "atomic m \<Longrightarrow> m w = (Inl e, w') \<Longrightarrow> committed w' = committed w"
  by (simp add: atomic_def)

lemma atomic_uncommitted: "uncommitted m \<Longrightarrow> atomic m"
  unfolding atomic_def uncommitted_def by (metis snd_conv)

lemma atomic_commit [atomic_intros]: "atomic commit" "atomic (doM commit (retM x))"
  by (auto simp: atomic_def commit_def doM_def letM_def retM_def split: if_splits option.splits sum.splits)

lemma atomic_let [atomic_intros]:
  assumes "uncommitted m" and "\<And>x. atomic (k x)"
  shows "atomic (letM m k)"
  unfolding atomic_def
proof (intro allI impI)
  fix w e w' assume run: "letM m k w = (Inl e, w')"
  obtain r v where m: "m w = (r, v)" by (cases "m w")
  then have v: "committed v = committed w" using assms(1) by (metis uncommittedD snd_conv)
  show "committed w' = committed w"
  proof (cases r)
    case (Inl f)
    with run m v show ?thesis by (simp add: letM_def)
  next
    case (Inr x)
    with run m have "k x v = (Inl e, w')" by (simp add: letM_def)
    then show ?thesis using assms(2) v by (simp add: atomic_def)
  qed
qed

lemma atomic_do [atomic_intros]: "uncommitted m \<Longrightarrow> atomic n \<Longrightarrow> atomic (doM m n)"
  by (simp add: doM_def atomic_let)

lemma atomic_if [atomic_intros]: "(b \<Longrightarrow> atomic m) \<Longrightarrow> (\<not> b \<Longrightarrow> atomic n) \<Longrightarrow> atomic (if b then m else n)"
  by simp

lemma atomic_case_option [atomic_intros]:
  "(x = None \<Longrightarrow> atomic m) \<Longrightarrow> (\<And>y. x = Some y \<Longrightarrow> atomic (n y)) \<Longrightarrow>
     atomic (case x of None \<Rightarrow> m | Some y \<Rightarrow> n y)"
  by (simp split: option.split)

lemma atomic_case_prod [atomic_intros]:
  "(\<And>a b. x = (a, b) \<Longrightarrow> atomic (n a b)) \<Longrightarrow> atomic (case x of (a, b) \<Rightarrow> n a b)"
  by (simp split: prod.split)

lemma wp_atomic: "atomic m \<Longrightarrow> returns m Q w \<Longrightarrow> wp m Q (\<lambda>_ v. committed v = committed w) w"
  by (auto simp: wp_def returns_def atomic_def split: prod.splits sum.splits)

section \<open>Tables\<close>

text \<open>A table is the list of its rows in insertion order.\<close>

definition upd :: "('r \<Rightarrow> bool) \<Rightarrow> ('r \<Rightarrow> 'r) \<Rightarrow> 'r list \<Rightarrow> 'r list" where
  "upd p f t = map (\<lambda>r. if p r then f r else r) t"

definition del :: "('r \<Rightarrow> bool) \<Rightarrow> 'r list \<Rightarrow> 'r list" where
  "del p t = filter (\<lambda>r. \<not> p r) t"

text \<open>A (partial) unique index: rows whose key is \<open>None\<close> (a NULL column, or outside the index's
  WHERE clause) never conflict.\<close>

fun keys_of :: "('r \<Rightarrow> 'k option) \<Rightarrow> 'r list \<Rightarrow> 'k list" where
  "keys_of key [] = []"
| "keys_of key (r # rs) =
     (case key r of None \<Rightarrow> keys_of key rs | Some k \<Rightarrow> k # keys_of key rs)"

definition unique_on :: "('r \<Rightarrow> 'k option) \<Rightarrow> 'r list \<Rightarrow> bool" where
  "unique_on key t = distinct (keys_of key t)"

definition conflict :: "('r \<Rightarrow> 'k option) \<Rightarrow> 'r \<Rightarrow> 'r list \<Rightarrow> bool" where
  "conflict key r t = (case key r of None \<Rightarrow> False | Some k \<Rightarrow> k \<in> set (keys_of key t))"

text \<open>\<open>INSERT ... ON CONFLICT DO NOTHING\<close>.\<close>

definition insert_nothing :: "('r \<Rightarrow> 'k option) \<Rightarrow> 'r \<Rightarrow> 'r list \<Rightarrow> 'r list" where
  "insert_nothing key r t = (if conflict key r t then t else t @ [r])"

lemma upd_simps [simp]:
  "upd p f [] = []"
  "upd p f (r # rs) = (if p r then f r else r) # upd p f rs"
  "upd p f (xs @ ys) = upd p f xs @ upd p f ys"
  "length (upd p f t) = length t"
  by (simp_all add: upd_def)

lemma del_simps [simp]:
  "del p [] = []"
  "del p (r # rs) = (if p r then del p rs else r # del p rs)"
  "set (del p t) = {r \<in> set t. \<not> p r}"
  by (auto simp: del_def)

lemma set_upd: "set (upd p f t) = {r \<in> set t. \<not> p r} \<union> f ` {r \<in> set t. p r}"
  by (auto simp: upd_def)

lemma upd_none [simp]: "(\<And>r. r \<in> set t \<Longrightarrow> \<not> p r) \<Longrightarrow> upd p f t = t"
  by (induction t) auto

lemma set_upd_cases: "x \<in> set (upd p f t) \<Longrightarrow> x \<in> set t \<or> (\<exists>r \<in> set t. p r \<and> x = f r)"
  by (auto simp: set_upd)

lemma one_or_none_mem: "one_or_none xs = Inr (Some x) \<Longrightarrow> x \<in> set xs"
  by (cases xs rule: one_or_none.cases) auto

lemma one_or_none_None: "one_or_none xs = Inr None \<longleftrightarrow> xs = []"
  by (cases xs rule: one_or_none.cases) auto

lemma one_or_none_Some: "one_or_none xs = Inr (Some y) \<longleftrightarrow> xs = [y]"
  by (cases xs rule: one_or_none.cases) auto

lemma filter_upd_same:
  "(\<And>r. p r \<Longrightarrow> q (f r) = q r) \<Longrightarrow> filter q (upd p f t) = upd p f (filter q t)"
  by (induction t) auto

lemma filter_upd_other:
  "(\<And>r. q r \<Longrightarrow> \<not> p r) \<Longrightarrow> (\<And>r. p r \<Longrightarrow> \<not> q (f r)) \<Longrightarrow> filter q (upd p f t) = filter q t"
  by (induction t) auto

lemma map_upd_same: "(\<And>r. p r \<Longrightarrow> g (f r) = g r) \<Longrightarrow> map g (upd p f t) = map g t"
  by (induction t) auto

lemma keys_of_append [simp]: "keys_of key (xs @ ys) = keys_of key xs @ keys_of key ys"
  by (induction xs) (auto split: option.split)

lemma keys_of_total: "keys_of (Some \<circ> f) t = map f t"
  by (induction t) auto

lemma set_keys_of: "set (keys_of key t) = {k. \<exists>r \<in> set t. key r = Some k}"
  by (induction t) (auto split: option.split)

lemma keys_of_upd:
  "(\<And>r. r \<in> set t \<Longrightarrow> p r \<Longrightarrow> key (f r) = key r) \<Longrightarrow> keys_of key (upd p f t) = keys_of key t"
  by (induction t) (auto split: option.split)

lemma conflict_iff: "conflict key r t \<longleftrightarrow> (\<exists>k. key r = Some k \<and> (\<exists>x \<in> set t. key x = Some k))"
  by (auto simp: conflict_def set_keys_of split: option.split)

lemma unique_on_Nil [simp]: "unique_on key []"
  by (simp add: unique_on_def)

lemma unique_on_snoc: "unique_on key t \<Longrightarrow> \<not> conflict key r t \<Longrightarrow> unique_on key (t @ [r])"
  by (auto simp: unique_on_def conflict_def split: option.splits)

lemma unique_on_upd:
  "unique_on key t \<Longrightarrow> (\<And>r. r \<in> set t \<Longrightarrow> p r \<Longrightarrow> key (f r) = key r) \<Longrightarrow> unique_on key (upd p f t)"
  by (simp add: unique_on_def keys_of_upd)

text \<open>Rows may leave the index (a session deactivated) but not change their key.\<close>

lemma unique_on_upd_drop:
  assumes "unique_on key t" and "\<And>r. r \<in> set t \<Longrightarrow> p r \<Longrightarrow> key (f r) = key r \<or> key (f r) = None"
  shows "unique_on key (upd p f t)"
  using assms
proof (induction t)
  case Nil
  then show ?case by simp
next
  case (Cons r rs)
  have sub: "set (keys_of key (upd p f rs)) \<subseteq> set (keys_of key rs)"
    using Cons.prems(2) by (force simp: set_keys_of dest!: set_upd_cases)
  have "unique_on key (upd p f rs)"
    using Cons.prems by (intro Cons.IH) (auto simp: unique_on_def split: option.splits)
  with sub Cons.prems show ?case
    by (fastforce simp: unique_on_def split: option.splits)
qed

lemma unique_onD:
  assumes "unique_on key t" and "x \<in> set t" and "y \<in> set t"
    and "key x = Some k" and "key y = Some k"
  shows "x = y"
  using assms
proof (induction t)
  case Nil
  then show ?case by simp
next
  case (Cons r rs)
  have "k \<notin> set (keys_of key rs)" if "key r = Some k"
    using Cons.prems(1) that by (simp add: unique_on_def)
  then have fresh: "key z \<noteq> Some k" if "key r = Some k" "z \<in> set rs" for z
    using that by (auto simp: set_keys_of)
  have "unique_on key rs"
    using Cons.prems(1) by (auto simp: unique_on_def split: option.splits)
  with Cons fresh show ?case by auto
qed

lemma filter_key_Nil: "k \<notin> set (keys_of key t) \<Longrightarrow> filter (\<lambda>r. key r = Some k) t = []"
  by (auto simp: set_keys_of filter_empty_conv)

lemma unique_filter_cases:
  "unique_on key t \<Longrightarrow>
     filter (\<lambda>r. key r = Some k) t = [] \<or> (\<exists>x. filter (\<lambda>r. key r = Some k) t = [x] \<and> key x = Some k)"
proof (induction t)
  case Nil
  then show ?case by simp
next
  case (Cons r rs)
  have "filter (\<lambda>r. key r = Some k) rs = []" if "key r = Some k"
    using Cons.prems that by (intro filter_key_Nil) (simp add: unique_on_def)
  with Cons show ?case by (auto simp: unique_on_def split: option.splits)
qed

lemma distinct_filter_cases:
  "distinct (map f t) \<Longrightarrow> filter (\<lambda>r. f r = k) t = [] \<or> (\<exists>x. filter (\<lambda>r. f r = k) t = [x] \<and> f x = k)"
  using unique_filter_cases [of "Some \<circ> f" t k]
  by (simp add: unique_on_def keys_of_total)

text \<open>A SQL join, written as a list comprehension, filters before it pairs.\<close>

lemma comprehension_filter:
  "concat (map (\<lambda>x. if P x then h x else []) xs) = concat (map h (filter P xs))"
  by (induction xs) auto

text \<open>Looking a unique key up finds at most one row, so \<open>one_or_none\<close> does not raise.\<close>

lemma one_or_none_unique:
  "unique_on key t \<Longrightarrow>
     one_or_none (filter (\<lambda>r. key r = Some k) t) = Inr (find (\<lambda>r. key r = Some k) t)"
proof (induction t)
  case Nil
  then show ?case by simp
next
  case (Cons r rs)
  show ?case
  proof (cases "key r = Some k")
    case True
    with Cons.prems have "filter (\<lambda>r. key r = Some k) rs = []"
      by (intro filter_key_Nil) (simp add: unique_on_def)
    with True show ?thesis by simp
  next
    case False
    with Cons show ?thesis by (auto simp: unique_on_def split: option.splits)
  qed
qed

section \<open>Interfaces\<close>

text \<open>What a table promises to a client that inserts with \<open>ON CONFLICT DO NOTHING\<close>: a fresh key
  is appended, a known key leaves the table alone. Clients get uniqueness, idempotence and the
  persistence of rows, for single inserts and for whole runs.\<close>

locale conflict_store =
  fixes key :: "'r \<Rightarrow> 'k option"
    and ins :: "'r \<Rightarrow> 'r list \<Rightarrow> 'r list"
  assumes ins_fresh: "\<not> conflict key r t \<Longrightarrow> ins r t = t @ [r]"
    and ins_known: "conflict key r t \<Longrightarrow> ins r t = t"
begin

lemma ins_unique: "unique_on key t \<Longrightarrow> unique_on key (ins r t)"
  by (cases "conflict key r t") (simp_all add: ins_fresh ins_known unique_on_snoc)

lemma ins_keeps_rows: "x \<in> set t \<Longrightarrow> x \<in> set (ins r t)"
  by (cases "conflict key r t") (simp_all add: ins_fresh ins_known)

lemma ins_key_present: "key r = Some k \<Longrightarrow> k \<in> set (keys_of key (ins r t))"
  by (cases "conflict key r t") (auto simp: ins_fresh ins_known conflict_def)

lemma ins_idem: "key r = Some k \<Longrightarrow> key r' = Some k \<Longrightarrow> ins r' (ins r t) = ins r t"
  by (rule ins_known) (simp add: conflict_def ins_key_present)

lemma run_unique: "unique_on key t \<Longrightarrow> unique_on key (fold ins rs t)"
  by (induction rs arbitrary: t) (simp_all add: ins_unique)

lemma ins_rows: "x \<in> set (ins r t) \<Longrightarrow> x = r \<or> x \<in> set t"
  by (cases "conflict key r t") (auto simp: ins_fresh ins_known)

lemma run_rows: "x \<in> set (fold ins rs t) \<Longrightarrow> x \<in> set rs \<or> x \<in> set t"
  by (induction rs arbitrary: t) (auto dest: ins_rows)

lemma ins_keeps_keys: "k \<in> set (keys_of key t) \<Longrightarrow> k \<in> set (keys_of key (ins r t))"
  by (auto simp: set_keys_of dest: ins_keeps_rows)

lemma run_keeps_keys: "k \<in> set (keys_of key t) \<Longrightarrow> k \<in> set (keys_of key (fold ins rs t))"
  by (induction rs arbitrary: t) (simp_all add: ins_keeps_keys)

lemma run_key_present: "r \<in> set rs \<Longrightarrow> key r = Some k \<Longrightarrow> k \<in> set (keys_of key (fold ins rs t))"
  by (induction rs arbitrary: t) (auto simp: run_keeps_keys ins_key_present)

lemma run_keeps_rows: "x \<in> set t \<Longrightarrow> x \<in> set (fold ins rs t)"
  by (induction rs arbitrary: t) (simp_all add: ins_keeps_rows)

end

text \<open>A machine whose steps keep an invariant: so do its runs.\<close>

locale guarded_machine =
  fixes step :: "'e \<Rightarrow> 's \<Rightarrow> 's"
    and inv :: "'s \<Rightarrow> bool"
  assumes step_inv: "inv s \<Longrightarrow> inv (step e s)"
begin

lemma run_inv: "inv s \<Longrightarrow> inv (fold step es s)"
  by (induction es arbitrary: s) (simp_all add: step_inv)

end

text \<open>... and one that moreover never lets a rank decrease.\<close>

locale monotone_machine = guarded_machine step inv
  for step :: "'e \<Rightarrow> 's \<Rightarrow> 's" and inv :: "'s \<Rightarrow> bool" +
  fixes rank :: "'s \<Rightarrow> 'o::preorder"
  assumes step_rank: "inv s \<Longrightarrow> rank s \<le> rank (step e s)"
begin

lemma run_rank: "inv s \<Longrightarrow> rank s \<le> rank (fold step es s)"
proof (induction es arbitrary: s)
  case Nil
  then show ?case by simp
next
  case (Cons e es)
  have "rank s \<le> rank (step e s)" using Cons.prems by (rule step_rank)
  also have "\<dots> \<le> rank (fold step es (step e s))"
    using Cons.prems by (intro Cons.IH step_inv)
  finally show ?case by simp
qed

end

text \<open>The generic insert provides the first interface, for every key.\<close>

interpretation insert_nothing: conflict_store key "insert_nothing key" for key
  by unfold_locales (simp_all add: insert_nothing_def)

end
