(* ===== verification/Schema.thy ===== *)
theory Schema
  imports Prelude
begin

text \<open>
  The data model, \<open>backend/schema/full_schema.py\<close>: status enumerations with their stored integer
  values, one record per table class (columns the code reads or writes; a nullable column is an
  option), the unique indexes as key functions, and the database as the record of all tables.
  Times are integers (microseconds), public ids (UUIDs) and row ids natural numbers, JSON columns
  \<open>json\<close> values. Foreign keys are not enforced by the model: every id the code stores was read
  from the referenced table.
\<close>

section \<open>Status enumerations\<close>

datatype order_status =
  OS_PENDING_PAYMENT | OS_CONFIRMED | OS_CANCELLED | OS_FULFILLED | OS_OUT_FOR_DELIVERY
  | OS_DELIVERED | OS_RETURNED

fun order_status_value :: "order_status \<Rightarrow> int" where
  "order_status_value OS_PENDING_PAYMENT = 10"
| "order_status_value OS_CONFIRMED = 20"
| "order_status_value OS_CANCELLED = 30"
| "order_status_value OS_FULFILLED = 40"
| "order_status_value OS_OUT_FOR_DELIVERY = 50"
| "order_status_value OS_DELIVERED = 60"
| "order_status_value OS_RETURNED = 70"

datatype reserve_status = RS_ACTIVE | RS_COMMITED | RS_RELEASED | RS_EXPIRED

fun reserve_status_value :: "reserve_status \<Rightarrow> int" where
  "reserve_status_value RS_ACTIVE = 0"
| "reserve_status_value RS_COMMITED = 10"
| "reserve_status_value RS_RELEASED = 20"
| "reserve_status_value RS_EXPIRED = 30"

text \<open>Nothing uses the status of a checkout.\<close>

datatype checkout_status = CHS_PROGRESS | CHS_DONE

fun checkout_status_value :: "checkout_status \<Rightarrow> int" where
  "checkout_status_value CHS_PROGRESS = 0"
| "checkout_status_value CHS_DONE = 1"

datatype idempotency_status = IS_PENDING | IS_SUCCESS | IS_FAILURE

fun idempotency_status_value :: "idempotency_status \<Rightarrow> int" where
  "idempotency_status_value IS_PENDING = 0"
| "idempotency_status_value IS_SUCCESS = 10"
| "idempotency_status_value IS_FAILURE = 20"

datatype payment_status =
  PS_PENDING | PS_ACCEPTED | PS_AUTHORIZED | PS_FAILED | PS_CAPTURED | PS_REFUNDED

fun payment_status_value :: "payment_status \<Rightarrow> int" where
  "payment_status_value PS_PENDING = 0"
| "payment_status_value PS_ACCEPTED = 5"
| "payment_status_value PS_AUTHORIZED = 10"
| "payment_status_value PS_FAILED = 20"
| "payment_status_value PS_CAPTURED = 30"
| "payment_status_value PS_REFUNDED = 40"

datatype attempt_status = AS_PENDING | AS_UNKNOWN | AS_RETRYING | AS_SUCCESS | AS_FAILED

fun attempt_status_value :: "attempt_status \<Rightarrow> int" where
  "attempt_status_value AS_PENDING = 0"
| "attempt_status_value AS_UNKNOWN = 10"
| "attempt_status_value AS_RETRYING = 20"
| "attempt_status_value AS_SUCCESS = 30"
| "attempt_status_value AS_FAILED = 40"

datatype event_status =
  ES_RECEIVED | ES_INCONSISTENT | ES_AUTHORIZED | ES_CAPTURED | ES_FAILED | ES_PROCESSED

fun event_status_value :: "event_status \<Rightarrow> int" where
  "event_status_value ES_RECEIVED = 0"
| "event_status_value ES_INCONSISTENT = 10"
| "event_status_value ES_AUTHORIZED = 20"
| "event_status_value ES_CAPTURED = 30"
| "event_status_value ES_FAILED = 50"
| "event_status_value ES_PROCESSED = 60"

datatype outbox_status = OB_PENDING | OB_SENT | OB_DONE | OB_FAILED

fun outbox_status_value :: "outbox_status \<Rightarrow> int" where
  "outbox_status_value OB_PENDING = 0"
| "outbox_status_value OB_SENT = 10"
| "outbox_status_value OB_DONE = 20"
| "outbox_status_value OB_FAILED = 30"

datatype commit_intent_status = CI_PENDING | CI_PROCESSING | CI_FAILED | CI_DONE

fun commit_intent_status_value :: "commit_intent_status \<Rightarrow> int" where
  "commit_intent_status_value CI_PENDING = 0"
| "commit_intent_status_value CI_PROCESSING = 10"
| "commit_intent_status_value CI_FAILED = 20"
| "commit_intent_status_value CI_DONE = 30"

datatype credential_type = CT_PASSWORD | CT_OAUTH

datatype auth_method = AM_PASSWORD | AM_PHONE | AM_OAUTH

datatype image_upload_status =
  IU_PENDING_UPLOADED | IU_UPLOADED | IU_PROCESSING | IU_READY | IU_FAILED

text \<open>The IntEnums compare by value; stored statuses are compared with \<open><\<close>.\<close>

lemma payment_status_value_inj: "payment_status_value a = payment_status_value b \<Longrightarrow> a = b"
  by (cases a; cases b) simp_all

instantiation payment_status :: linorder
begin

definition less_eq_payment_status :: "payment_status \<Rightarrow> payment_status \<Rightarrow> bool" where
  "less_eq_payment_status a b = (payment_status_value a \<le> payment_status_value b)"

definition less_payment_status :: "payment_status \<Rightarrow> payment_status \<Rightarrow> bool" where
  "less_payment_status a b = (payment_status_value a < payment_status_value b)"

instance
  by standard (auto simp: less_eq_payment_status_def less_payment_status_def
      intro: payment_status_value_inj)

end

lemma commit_intent_status_value_inj:
  "commit_intent_status_value a = commit_intent_status_value b \<Longrightarrow> a = b"
  by (cases a; cases b) simp_all

instantiation commit_intent_status :: linorder
begin

definition less_eq_commit_intent_status :: "commit_intent_status \<Rightarrow> commit_intent_status \<Rightarrow> bool" where
  "less_eq_commit_intent_status a b = (commit_intent_status_value a \<le> commit_intent_status_value b)"

definition less_commit_intent_status :: "commit_intent_status \<Rightarrow> commit_intent_status \<Rightarrow> bool" where
  "less_commit_intent_status a b = (commit_intent_status_value a < commit_intent_status_value b)"

instance
  by standard (auto simp: less_eq_commit_intent_status_def less_commit_intent_status_def
      intro: commit_intent_status_value_inj)

end

section \<open>Users, roles, credentials, sessions\<close>

record user_role =
  ur_id :: nat
  ur_user_id :: nat
  ur_role_id :: nat

record user =
  u_id :: nat
  u_public_id :: nat
  u_email :: "string option"
  u_name :: "string option"
  u_role_version :: int
  u_created_at :: int
  u_updated_at :: int
  u_deleted_at :: "int option"

record user_media =
  um_id :: nat
  um_user_id :: nat
  um_profile_image_url :: "string option"
  um_profile_image_thumb_url :: "string option"

record role_permission =
  rp_id :: nat
  rp_role_id :: nat
  rp_permission_id :: nat

record role =
  role_id :: nat
  role_name :: string

record permission =
  perm_id :: nat
  perm_name :: string

record credential =
  cred_id :: nat
  cred_user_id :: nat
  cred_type :: credential_type
  cred_provider :: string
  cred_provider_user_id :: "string option"
  cred_password_hash :: "string option"
  cred_created_at :: int
  cred_updated_at :: int
  cred_revoked_at :: "int option"

record device_session =
  ds_id :: nat
  ds_session_token_hash :: string
  ds_user_id :: "nat option"
  ds_public_id :: nat
  ds_device_name :: "string option"
  ds_device_type :: "string option"
  ds_user_agent_snippet :: "string option"
  ds_ip_first_seen :: "string option"
  ds_last_seen_ip :: "string option"
  ds_last_activity_at :: "int option"
  ds_created_at :: int
  ds_revoked_at :: "int option"
  ds_session_expires_at :: int

record device_auth_token =
  dt_id :: nat
  dt_device_session_id :: nat
  dt_user_id :: nat
  dt_token_hash :: string
  dt_issued_at :: int
  dt_expires_at :: int
  dt_revoked_at :: "int option"
  dt_revoked_by :: "string option"
  dt_auth_method :: auth_method

section \<open>Products and images\<close>

record product_category_link =
  pcl_id :: nat
  pcl_product_id :: nat
  pcl_category_id :: nat

record product =
  p_id :: nat
  p_public_id :: nat
  p_stock_qty :: int
  p_sku :: "string option"
  p_name :: string
  p_description :: "string option"
  p_base_price :: int
  p_specs :: json
  p_owner_id :: "nat option"
  p_created_at :: int
  p_updated_at :: int
  p_deleted_at :: "int option"

record product_image =
  pi_id :: nat
  pi_product_id :: nat
  pi_content_id :: "nat option"
  pi_public_id :: nat
  pi_storage_key :: "string option"
  pi_mime_type :: "string option"
  pi_file_size :: "int option"
  pi_status :: image_upload_status
  pi_orig_filename :: "string option"
  pi_sort_order :: int

record image_content =
  ic_id :: nat
  ic_checksum :: string
  ic_public_id :: nat
  ic_provider_public_id :: json
  ic_url :: json

record product_category =
  pc_id :: nat
  pc_name :: string

record uploads_webhook_event =
  ue_id :: nat
  ue_provider_event_id :: string
  ue_payload :: json
  ue_processed_at :: "int option"
  ue_attempts :: "int option"

section \<open>Carts, checkout, orders\<close>

record cart =
  c_id :: nat
  c_user_id :: "nat option"
  c_session_id :: "nat option"

record cart_item =
  cit_id :: nat
  cit_cart_id :: "nat option"
  cit_product_id :: nat
  cit_quantity :: int

record order =
  o_id :: nat
  o_public_id :: nat
  o_ik_id :: nat
  o_user_id :: nat
  o_status :: int
  o_subtotal :: int
  o_tax :: int
  o_shipping :: int
  o_discount :: int
  o_total :: int
  o_created_at :: int
  o_updated_at :: int
  o_placed_at :: int

record order_item =
  oi_id :: nat
  oi_order_id :: nat
  oi_product_id :: nat
  oi_quantity :: int
  oi_unit_price_snapshot :: int
  oi_tax_snapshot :: int
  oi_discount_snapshot :: int

text \<open>One line of a cart snapshot, the dict built by \<open>capture_cart_snapshot\<close> and stored in
  \<open>cart_snapshot\<close>.\<close>

record snapshot_item =
  cart_item_id :: nat
  product_id :: nat
  quantity :: int
  prod_base_price :: int
  product_stock :: int

record checkout_session =
  cs_id :: nat
  cs_public_id :: nat
  cs_user_id :: nat
  cs_cart_snapshot :: "snapshot_item list option"
  cs_selected_payment_method :: "string option"
  cs_is_active :: bool
  cs_expires_at :: int
  cs_created_at :: int
  cs_updated_at :: int

record inventory_reservation =
  ir_id :: nat
  ir_product_id :: nat
  ir_checkout_id :: nat
  ir_order_id :: "nat option"
  ir_quantity :: int
  ir_reserved_until :: int
  ir_status :: int
  ir_created_at :: int

record idempotency_key =
  ik_id :: nat
  ik_key :: string
  ik_cs_id :: nat
  ik_created_by :: nat
  ik_owner_type :: "string option"
  ik_owner_id :: "nat option"
  ik_response_code :: "int option"
  ik_response_body :: json
  ik_status :: int
  ik_created_at :: int
  ik_expires_at :: int

section \<open>Payments, events, intents\<close>

record payment =
  pay_id :: nat
  pay_public_id :: nat
  pay_order_id :: nat
  pay_provider :: string
  pay_provider_payment_id :: "json option"
  pay_provider_order_id :: "json option"
  pay_status :: int
  pay_amount :: int
  pay_paid_at :: "int option"

record payment_attempt =
  pa_id :: nat
  pa_payment_id :: nat
  pa_attempt_no :: int
  pa_status :: int
  pa_provider_response :: json
  pa_created_at :: int

record payment_webhook_event =
  we_id :: nat
  we_provider :: string
  we_provider_event_id :: "string option"
  we_order_id :: "nat option"
  we_payload :: json
  we_status :: int
  we_attempts :: int
  we_last_error :: "string option"
  we_processed_at :: "int option"
  we_created_at :: int

record outbox_event =
  ob_id :: nat
  ob_topic :: string
  ob_payload :: json
  ob_aggregate_type :: string
  ob_aggregate_id :: nat
  ob_status :: int
  ob_attempts :: int
  ob_next_retry_at :: "int option"
  ob_created_at :: int

text \<open>A commit intent's payload is the dict \<open>{order_id, items: [{product_id, quantity}]}\<close>.\<close>

record commit_intent =
  ci_id :: nat
  ci_aggregate_type :: string
  ci_aggregate_id :: nat
  ci_reason :: string
  ci_status :: int
  ci_payload :: "nat \<times> (nat \<times> int) list"
  ci_attempts :: int
  ci_next_retry_at :: "int option"
  ci_created_at :: int

section \<open>Unique indexes\<close>

definition user_email_key :: "user \<Rightarrow> string option" where
  "user_email_key u = u_email u"

definition user_role_key :: "user_role \<Rightarrow> (nat \<times> nat) option" where
  "user_role_key r = Some (ur_user_id r, ur_role_id r)"

definition user_media_key :: "user_media \<Rightarrow> nat option" where
  "user_media_key m = Some (um_user_id m)"

definition credential_user_provider_key :: "credential \<Rightarrow> (nat \<times> string) option" where
  "credential_user_provider_key c = Some (cred_user_id c, cred_provider c)"

definition device_session_token_key :: "device_session \<Rightarrow> string option" where
  "device_session_token_key s = Some (ds_session_token_hash s)"

definition device_session_pid_key :: "device_session \<Rightarrow> nat option" where
  "device_session_pid_key s = Some (ds_public_id s)"

definition device_auth_token_key :: "device_auth_token \<Rightarrow> string option" where
  "device_auth_token_key t = Some (dt_token_hash t)"

definition product_name_key :: "product \<Rightarrow> string option" where
  "product_name_key p = Some (p_name p)"

definition category_link_key :: "product_category_link \<Rightarrow> (nat \<times> nat) option" where
  "category_link_key l = Some (pcl_product_id l, pcl_category_id l)"

definition image_content_key :: "image_content \<Rightarrow> string option" where
  "image_content_key c = Some (ic_checksum c)"

definition cart_user_key :: "cart \<Rightarrow> nat option" where
  "cart_user_key c = c_user_id c"

definition cart_session_key :: "cart \<Rightarrow> nat option" where
  "cart_session_key c = c_session_id c"

definition cart_item_key :: "cart_item \<Rightarrow> (nat \<times> nat) option" where
  "cart_item_key i = map_option (\<lambda>c. (c, cit_product_id i)) (cit_cart_id i)"

definition order_ik_key :: "order \<Rightarrow> nat option" where
  "order_ik_key r = Some (o_ik_id r)"

definition order_item_key :: "order_item \<Rightarrow> (nat \<times> nat) option" where
  "order_item_key i = Some (oi_order_id i, oi_product_id i)"

definition checkout_active_key :: "checkout_session \<Rightarrow> nat option" where
  "checkout_active_key c = (if cs_is_active c then Some (cs_user_id c) else None)"

definition reservation_key :: "inventory_reservation \<Rightarrow> (nat \<times> nat) option" where
  "reservation_key r = Some (ir_product_id r, ir_checkout_id r)"

definition idempotency_key_key :: "idempotency_key \<Rightarrow> string option" where
  "idempotency_key_key k = Some (ik_key k)"

definition payment_order_key :: "payment \<Rightarrow> nat option" where
  "payment_order_key p = Some (pay_order_id p)"

definition payment_provider_order_key :: "payment \<Rightarrow> (string \<times> json) option" where
  "payment_provider_order_key p = map_option (\<lambda>j. (pay_provider p, j)) (pay_provider_order_id p)"

definition payment_provider_payment_key :: "payment \<Rightarrow> (string \<times> json) option" where
  "payment_provider_payment_key p = map_option (\<lambda>j. (pay_provider p, j)) (pay_provider_payment_id p)"

definition webhook_event_key :: "payment_webhook_event \<Rightarrow> (string \<times> string) option" where
  "webhook_event_key e = map_option (\<lambda>i. (we_provider e, i)) (we_provider_event_id e)"

definition outbox_key :: "outbox_event \<Rightarrow> (string \<times> string \<times> nat) option" where
  "outbox_key e = Some (ob_topic e, ob_aggregate_type e, ob_aggregate_id e)"

definition commit_intent_key :: "commit_intent \<Rightarrow> (string \<times> string \<times> nat) option" where
  "commit_intent_key i = Some (ci_reason i, ci_aggregate_type i, ci_aggregate_id i)"

lemmas index_defs =
  user_email_key_def user_role_key_def user_media_key_def credential_user_provider_key_def
  device_session_token_key_def device_session_pid_key_def device_auth_token_key_def
  product_name_key_def category_link_key_def image_content_key_def
  cart_user_key_def cart_session_key_def cart_item_key_def order_ik_key_def
  order_item_key_def checkout_active_key_def reservation_key_def idempotency_key_key_def
  payment_order_key_def payment_provider_order_key_def payment_provider_payment_key_def
  webhook_event_key_def outbox_key_def commit_intent_key_def

section \<open>The database\<close>

record database =
  db_users :: "user list"
  db_user_roles :: "user_role list"
  db_user_media :: "user_media list"
  db_roles :: "role list"
  db_permissions :: "permission list"
  db_role_permissions :: "role_permission list"
  db_credentials :: "credential list"
  db_device_sessions :: "device_session list"
  db_auth_tokens :: "device_auth_token list"
  db_products :: "product list"
  db_category_links :: "product_category_link list"
  db_categories :: "product_category list"
  db_product_images :: "product_image list"
  db_image_contents :: "image_content list"
  db_upload_events :: "uploads_webhook_event list"
  db_carts :: "cart list"
  db_cart_items :: "cart_item list"
  db_orders :: "order list"
  db_order_items :: "order_item list"
  db_checkouts :: "checkout_session list"
  db_reservations :: "inventory_reservation list"
  db_idempotency :: "idempotency_key list"
  db_payments :: "payment list"
  db_attempts :: "payment_attempt list"
  db_webhook_events :: "payment_webhook_event list"
  db_outbox :: "outbox_event list"
  db_commit_intents :: "commit_intent list"

type_synonym state = "database world"
type_synonym 'a handler = "(database, 'a) act"

definition empty_db :: database where
  "empty_db = \<lparr>db_users = [], db_user_roles = [], db_user_media = [], db_roles = [],
     db_permissions = [], db_role_permissions = [], db_credentials = [], db_device_sessions = [],
     db_auth_tokens = [], db_products = [], db_category_links = [], db_categories = [],
     db_product_images = [], db_image_contents = [], db_upload_events = [], db_carts = [],
     db_cart_items = [], db_orders = [], db_order_items = [], db_checkouts = [],
     db_reservations = [], db_idempotency = [], db_payments = [], db_attempts = [],
     db_webhook_events = [], db_outbox = [], db_commit_intents = []\<rparr>"

text \<open>A quiet environment for examples: no faults, constant clock, numbered tokens.\<close>

definition still :: "int \<Rightarrow> environment" where
  "still t = \<lparr>clock = (\<lambda>_. t), fault = (\<lambda>_. None), uuids = id, tokens = (\<lambda>n. replicate n (CHR ''x''))\<rparr>"

definition start :: "int \<Rightarrow> database \<Rightarrow> state" where
  "start t d = \<lparr>db = d, committed = d, aborted = False, ticks = 0, seqs = (\<lambda>_. 100), env = still t,
     queue = []\<rparr>"

lemma still_fields [simp]:
  "clock (still t) n = t" "fault (still t) n = None" "uuids (still t) n = n"
  "tokens (still t) n = replicate n (CHR ''x'')"
  by (simp_all add: still_def)

lemma start_fields [simp]:
  "db (start t d) = d" "committed (start t d) = d" "aborted (start t d) = False"
  "ticks (start t d) = 0" "seqs (start t d) s = 100" "env (start t d) = still t" "queue (start t d) = []"
  by (simp_all add: start_def)

lemma quiet_start [simp]: "quiet (start t d)"
  by (simp add: quiet_def start_def still_def)

end
