(* ===== verification/Pricing.thy ===== *)
theory Pricing
  imports Schema "HOL-Library.Word"
begin

text \<open>
  Order arithmetic (\<open>backend/orders/utils.py\<close>, \<open>compute_final_total\<close> of
  \<open>backend/orders/repository.py\<close>). The tax is \<open>int(subtotal * 0.02)\<close>, a product in IEEE double
  precision truncated to an integer: the model computes that product bit by bit (\<open>0.02\<close> is the
  double \<open>5764607523034235 / 2^58\<close>) and the lemmas show where it agrees with the exact fiftieth.
  The last section is the 64-bit advisory-lock key.
\<close>

section \<open>Truncated multiplication by the double 0.02\<close>

text \<open>Python's \<open>int.bit_length\<close> of a non-negative integer.\<close>

function bit_length :: "int \<Rightarrow> nat" where
  "bit_length x = (if x \<le> 0 then 0 else Suc (bit_length (x div 2)))"
  by pat_completeness auto
termination
  by (relation "measure nat") auto

declare bit_length.simps [simp del]

text \<open>Round \<open>x / 2^e\<close> to the nearest integer, ties to even, and round a non-negative integer to 53
  significant bits.\<close>

definition round_half_even :: "int \<Rightarrow> nat \<Rightarrow> int" where
  "round_half_even x e =
     (let q = x div 2 ^ e; r = x mod 2 ^ e
      in if 2 * r < 2 ^ e \<or> (2 * r = 2 ^ e \<and> even q) then q else q + 1)"

definition round53 :: "int \<Rightarrow> int" where
  "round53 x = (let e = bit_length x - 53 in round_half_even x e * 2 ^ e)"

definition fl002_mantissa :: int where
  "fl002_mantissa = 5764607523034235"

text \<open>\<open>int(n * 0.02)\<close>: convert to double, multiply, round, truncate toward zero.\<close>

definition mul_002 :: "int \<Rightarrow> int" where
  "mul_002 n = sgn n * (round53 (round53 \<bar>n\<bar> * fl002_mantissa) div 2 ^ 58)"

lemma bit_length_0 [simp]: "bit_length 0 = 0"
  by (simp add: bit_length.simps [of 0])

lemma bit_length_bounds:
  "0 \<le> x \<Longrightarrow> x < 2 ^ bit_length x \<and> (0 < x \<longrightarrow> 2 ^ (bit_length x - 1) \<le> x)"
proof (induction x rule: bit_length.induct)
  case (1 x)
  show ?case
  proof (cases "x \<le> 0")
    case True
    with "1.prems" show ?thesis by (simp add: bit_length.simps [of x])
  next
    case False
    note IH = "1.IH" [OF False]
    from False have half: "0 \<le> x div 2" by simp
    have len: "bit_length x = Suc (bit_length (x div 2))"
      using False by (simp add: bit_length.simps [of x])
    have upper: "x < 2 * 2 ^ bit_length (x div 2)"
      using IH half by presburger
    have lower: "2 ^ bit_length (x div 2) \<le> x"
    proof (cases "x div 2 = 0")
      case True
      with False show ?thesis by simp
    next
      case nz: False
      with half have pos: "0 < x div 2" by simp
      then have "bit_length (x div 2) = Suc (bit_length (x div 2) - 1)"
        by (simp add: bit_length.simps [of "x div 2"])
      then have "(2::int) ^ bit_length (x div 2) = 2 * 2 ^ (bit_length (x div 2) - 1)"
        by (metis power_Suc)
      with IH half pos show ?thesis by linarith
    qed
    from upper lower len show ?thesis by simp
  qed
qed

lemma bit_length_le: "0 \<le> x \<Longrightarrow> x < 2 ^ n \<Longrightarrow> bit_length x \<le> n"
proof (cases "x = 0")
  case True
  then show ?thesis by simp
next
  case False
  assume x: "0 \<le> x" "x < 2 ^ n"
  with False bit_length_bounds [of x] have "(2::int) ^ (bit_length x - 1) < 2 ^ n" by linarith
  then have "bit_length x - 1 < n" by simp
  then show ?thesis by linarith
qed

lemma round_half_even_bounds:
  "x div 2 ^ e \<le> round_half_even x e" "2 * (round_half_even x e * 2 ^ e) \<le> 2 * x + 2 ^ e"
proof -
  show "x div 2 ^ e \<le> round_half_even x e"
    by (simp add: round_half_even_def Let_def)
  have x: "x = (x div 2 ^ e) * 2 ^ e + x mod 2 ^ e"
    by (rule div_mult_mod_eq [symmetric])
  have m: "0 \<le> x mod 2 ^ e" by simp
  show "2 * (round_half_even x e * 2 ^ e) \<le> 2 * x + 2 ^ e"
  proof (cases "2 * (x mod 2 ^ e) < 2 ^ e \<or> (2 * (x mod 2 ^ e) = 2 ^ e \<and> even (x div 2 ^ e))")
    case True
    then have "round_half_even x e = x div 2 ^ e" by (simp add: round_half_even_def Let_def)
    then show ?thesis using x m
      by (metis (no_types, opaque_lifting) add_increasing2 mult_left_mono le_add_same_cancel1
          zero_le_numeral zero_le_power)
  next
    case False
    then have "round_half_even x e * 2 ^ e = (x div 2 ^ e) * 2 ^ e + 2 ^ e"
      by (simp add: round_half_even_def Let_def algebra_simps)
    moreover have "2 ^ e \<le> 2 * (x mod 2 ^ e)" using False by linarith
    ultimately show ?thesis using x by linarith
  qed
qed

lemma round53_small: "0 \<le> x \<Longrightarrow> x < 2 ^ 53 \<Longrightarrow> round53 x = x"
  using bit_length_le [of x 53] by (simp add: round53_def round_half_even_def)

text \<open>Rounding does not go below a multiple of a large power of two, and adds at most half an ulp.\<close>

lemma round53_bounds:
  assumes "0 \<le> x" and "x < 2 ^ (53 + e)" and "e \<le> k" and "y * 2 ^ k \<le> x"
  shows "y * 2 ^ k \<le> round53 x" and "2 * round53 x \<le> 2 * x + 2 ^ e"
proof -
  define f where "f = bit_length x - 53"
  have "bit_length x \<le> 53 + e" using assms(1,2) by (rule bit_length_le)
  then have f: "f \<le> e" by (simp add: f_def)
  have r: "round53 x = round_half_even x f * 2 ^ f" by (simp add: round53_def f_def Let_def)
  have k: "(2::int) ^ k = 2 ^ (k - f) * 2 ^ f"
    using f assms(3) by (simp flip: power_add)
  have "y * 2 ^ (k - f) \<le> x div 2 ^ f"
    using assms(4) by (simp add: k zdiv_mono1 [of "y * 2 ^ (k - f) * 2 ^ f" x "2 ^ f", simplified] mult.assoc)
  also have "\<dots> \<le> round_half_even x f" by (rule round_half_even_bounds)
  finally have "y * 2 ^ (k - f) * 2 ^ f \<le> round_half_even x f * 2 ^ f"
    by (rule mult_right_mono) simp
  then show "y * 2 ^ k \<le> round53 x" by (simp add: r k mult.assoc)
  have "2 * round53 x \<le> 2 * x + 2 ^ f" using round_half_even_bounds(2) [of x f] by (simp add: r)
  also have "\<dots> \<le> 2 * x + 2 ^ e" using f by simp
  finally show "2 * round53 x \<le> 2 * x + 2 ^ e" .
qed

lemma mul_002_fiftieth:
  assumes "0 \<le> n" and "n < 2 ^ 50"
  shows "mul_002 n = n div 50"
proof -
  define q r x where "q = n div 50" and "r = n mod 50" and "x = n * fl002_mantissa"
  have n: "n = 50 * q + r" and r: "0 \<le> r" "r \<le> 49" and q: "0 \<le> q" "50 * q < 2 ^ 50"
    using assms by (auto simp: q_def r_def)
  have x: "x = q * 2 ^ 58 + 6 * q + r * fl002_mantissa"
    by (simp add: x_def n fl002_mantissa_def algebra_simps)
  have low: "q * 2 ^ 58 \<le> x" using q r by (simp add: x fl002_mantissa_def)
  have "0 \<le> x" using assms by (simp add: x_def fl002_mantissa_def)
  moreover have "x < 2 ^ (53 + 50)"
    using assms by (simp add: x_def fl002_mantissa_def)
  ultimately have b: "q * 2 ^ 58 \<le> round53 x" "2 * round53 x \<le> 2 * x + 2 ^ 50"
    using round53_bounds [of x 50 58 q] low by simp_all
  have "round53 x < (q + 1) * 2 ^ 58"
    using b(2) x q r by (simp add: fl002_mantissa_def)
  with b(1) have "round53 x div 2 ^ 58 = q"
    by (intro int_div_pos_eq [where r = "round53 x - q * 2 ^ 58"]) (simp_all add: algebra_simps)
  moreover have "round53 \<bar>n\<bar> = n" using assms round53_small [of n] by simp
  moreover have "sgn n * q = q" using assms by (cases "n = 0") (simp_all add: q_def)
  ultimately show ?thesis
    by (simp add: mul_002_def x_def q_def)
qed

section \<open>Order totals\<close>

record order_totals =
  ot_items :: "snapshot_item list"
  ot_subtotal :: int
  ot_tax :: int
  ot_shipping :: int
  ot_cod_fee :: int
  ot_discount :: int
  ot_total :: int

record order_summary = order_totals +
  os_checkout_id :: nat
  os_selected_payment_method :: string

definition line_price :: "snapshot_item \<Rightarrow> int" where
  "line_price it = prod_base_price it * quantity it"

text \<open>The totals shown by the order-summary endpoint. (The code also extends a local copy of the
  expiry for UPI, which it does not return.)\<close>

definition compute_order_totals :: "snapshot_item list \<Rightarrow> string \<Rightarrow> nat \<Rightarrow> order_summary" where
  "compute_order_totals items payment_method checkout_public_id =
     (let subtotal = sum_list (map line_price items);
          tax = mul_002 subtotal;
          shipping = 50;
          discount = 0;
          cod_fee = (if payment_method = ''COD'' then 50 else 0);
          total = subtotal + tax + shipping + cod_fee - discount
      in \<lparr>ot_items = items, ot_subtotal = subtotal, ot_tax = tax, ot_shipping = shipping,
          ot_cod_fee = cod_fee, ot_discount = discount, ot_total = total,
          os_checkout_id = checkout_public_id, os_selected_payment_method = payment_method\<rparr>)"

text \<open>The totals charged when the order is placed.\<close>

primrec add_lines :: "int \<Rightarrow> snapshot_item list \<Rightarrow> int" where
  "add_lines acc [] = acc"
| "add_lines acc (it # its) = add_lines (acc + prod_base_price it * quantity it) its"

definition compute_final_total :: "snapshot_item list \<Rightarrow> string \<Rightarrow> order_totals" where
  "compute_final_total items payment_method =
     (let subtotal = add_lines 0 items;
          tax = mul_002 subtotal;
          shipping = 0;
          discount = 0;
          cod_fee = (if payment_method = ''COD'' then 50 else 0);
          total = subtotal + tax + shipping + cod_fee - discount
      in \<lparr>ot_items = items, ot_subtotal = subtotal, ot_tax = tax, ot_shipping = shipping,
          ot_cod_fee = cod_fee, ot_discount = discount, ot_total = total\<rparr>)"

text \<open>\<open>tax_snapshot\<close> of one order item.\<close>

definition line_tax :: "snapshot_item \<Rightarrow> int" where
  "line_tax it = mul_002 (prod_base_price it * quantity it)"

lemma add_lines_sum: "add_lines acc items = acc + sum_list (map line_price items)"
  by (induction items arbitrary: acc) (simp_all add: line_price_def)

lemma sum_div_bounds:
  fixes xs :: "int list"
  shows "sum_list (map (\<lambda>x. x div 50) xs) \<le> sum_list xs div 50"
    and "xs \<noteq> [] \<Longrightarrow> sum_list xs div 50 < sum_list (map (\<lambda>x. x div 50) xs) + int (length xs)"
proof -
  show "sum_list (map (\<lambda>x. x div 50) xs) \<le> sum_list xs div 50"
    by (induction xs) auto
  have "50 * sum_list (map (\<lambda>x. x div 50) xs) + 49 * int (length xs) \<ge> sum_list xs"
    by (induction xs) auto
  then show "xs \<noteq> [] \<Longrightarrow> sum_list xs div 50 < sum_list (map (\<lambda>x. x div 50) xs) + int (length xs)"
    by (cases xs) auto
qed

lemma sum_nonneg_elem_le:
  fixes xs :: "int list"
  shows "(\<And>x. x \<in> set xs \<Longrightarrow> 0 \<le> x) \<Longrightarrow> y \<in> set xs \<Longrightarrow> y \<le> sum_list xs"
  by (induction xs) (auto simp: add_increasing add_increasing2 sum_list_nonneg)

lemma sum_line_tax:
  assumes "\<forall>it \<in> set items. 0 \<le> line_price it" and "sum_list (map line_price items) < 2 ^ 50"
  shows "sum_list (map line_tax items) = sum_list (map (\<lambda>x. x div 50) (map line_price items))"
proof -
  have "line_tax it = line_price it div 50" if it: "it \<in> set items" for it
  proof -
    have "line_price it \<le> sum_list (map line_price items)"
      using assms(1) it by (intro sum_nonneg_elem_le) auto
    with assms it have "mul_002 (line_price it) = line_price it div 50"
      by (intro mul_002_fiftieth) auto
    then show ?thesis by (simp add: line_tax_def line_price_def)
  qed
  then show ?thesis by (simp add: comp_def cong: map_cong)
qed

section \<open>Advisory-lock key\<close>

text \<open>\<open>int.from_bytes(h, "big")\<close> of the first eight bytes of a SHA-256 digest (the hash is an
  argument), reduced to a signed 64-bit integer.\<close>

definition from_bytes_big :: "8 word list \<Rightarrow> int" where
  "from_bytes_big bs = fold (\<lambda>b acc. acc * 256 + uint b) bs 0"

definition idempotency_lock_key :: "(string \<Rightarrow> 8 word list) \<Rightarrow> string \<Rightarrow> int" where
  "idempotency_lock_key sha256 ikey =
     (let h = take 8 (sha256 ikey);
          val = from_bytes_big h
      in if val > 2 ^ 63 - 1 then val - 2 ^ 64 else val)"

lemma fold_bytes_bounds:
  "0 \<le> acc \<Longrightarrow> acc < 256 ^ m \<Longrightarrow>
     0 \<le> fold (\<lambda>b acc. acc * 256 + uint b) (bs :: 8 word list) acc \<and>
     fold (\<lambda>b acc. acc * 256 + uint b) bs acc < 256 ^ (m + length bs)"
proof (induction bs arbitrary: acc m)
  case Nil
  then show ?case by simp
next
  case (Cons b bs)
  have b: "0 \<le> uint b" "uint b < 256" using uint_lt2p [of b] by simp_all
  have "0 \<le> acc * 256 + uint b" "acc * 256 + uint b < 256 ^ Suc m"
    using Cons.prems b by simp_all
  from Cons.IH [OF this] show ?case by simp
qed

lemma from_bytes_big_bounds: "length bs \<le> 8 \<Longrightarrow> 0 \<le> from_bytes_big bs \<and> from_bytes_big bs < 2 ^ 64"
proof -
  assume len: "length bs \<le> 8"
  have "0 \<le> from_bytes_big bs \<and> from_bytes_big bs < 256 ^ length bs"
    using fold_bytes_bounds [of 0 0 bs] by (simp add: from_bytes_big_def)
  moreover have "(256::int) ^ length bs \<le> 256 ^ 8" using len by (rule power_increasing) simp
  ultimately show ?thesis by simp
qed

lemma signed64:
  assumes "0 \<le> v" and "v < 2 ^ 64"
  shows "sint (word_of_int v :: 64 word) = (if v > 2 ^ 63 - 1 then v - 2 ^ 64 else v)"
proof -
  have "sint (word_of_int v :: 64 word) = (v + 2 ^ 63) mod 2 ^ 64 - 2 ^ 63"
    by (simp add: sint_uint signed_take_bit_eq_take_bit_shift take_bit_eq_mod unsigned_of_int mod_simps)
  also have "\<dots> = (if v > 2 ^ 63 - 1 then v - 2 ^ 64 else v)"
  proof (cases "v > 2 ^ 63 - 1")
    case True
    then have "(v + 2 ^ 63) mod 2 ^ 64 = v + 2 ^ 63 - 2 ^ 64"
      using assms by (intro int_mod_pos_eq [where q = 1]) auto
    with True show ?thesis by simp
  next
    case False
    with assms show ?thesis by simp
  qed
  finally show ?thesis .
qed

section \<open>Properties\<close>

text \<open>C16: the tax charged on an order, computed in double precision, is the exact fiftieth of the
  subtotal rounded down, for every subtotal from 0 up to 2^50.\<close>

theorem tax_is_fiftieth:
  assumes "0 \<le> sum_list (map line_price items)" and "sum_list (map line_price items) < 2 ^ 50"
  shows "ot_tax (compute_final_total items payment_method) = sum_list (map line_price items) div 50"
  using mul_002_fiftieth [OF assms]
  by (simp add: compute_final_total_def Let_def add_lines_sum)

definition sample_item :: snapshot_item where
  "sample_item = \<lparr>cart_item_id = 1, product_id = 7, quantity = 3, prod_base_price = 499, product_stock = 10\<rparr>"

theorem tax_is_fiftieth_witness: "ot_tax (compute_final_total [sample_item] ''UPI'') = 29"
  using tax_is_fiftieth [of "[sample_item]" "''UPI''"] by (simp add: line_price_def sample_item_def)

text \<open>the total shown in the order summary exceeds the total charged at confirmation by exactly
  50 (the shipping line), whatever the items and the payment method.\<close>

theorem summary_exceeds_charge:
  "ot_total (compute_order_totals items payment_method checkout_id) =
     ot_total (compute_final_total items payment_method) + 50"
  by (simp add: compute_final_total_def compute_order_totals_def Let_def add_lines_sum)

text \<open>the tax snapshots of the order items add up to at most the order's tax, and fall short of
  it by less than the number of items.\<close>

theorem item_taxes_vs_order_tax:
  assumes "items \<noteq> []" and "\<forall>it \<in> set items. 0 \<le> line_price it"
    and "sum_list (map line_price items) < 2 ^ 50"
  shows "sum_list (map line_tax items) \<le> ot_tax (compute_final_total items payment_method) \<and>
    ot_tax (compute_final_total items payment_method) < sum_list (map line_tax items) + int (length items)"
proof (intro conjI)
  have "0 \<le> sum_list (map line_price items)"
    using assms(2) by (intro sum_list_nonneg) auto
  then have tax: "ot_tax (compute_final_total items payment_method) = sum_list (map line_price items) div 50"
    using mul_002_fiftieth assms(3) by (simp add: compute_final_total_def Let_def add_lines_sum)
  show "sum_list (map line_tax items) \<le> ot_tax (compute_final_total items payment_method)"
    by (simp only: tax sum_line_tax [OF assms(2,3)] sum_div_bounds(1))
  show "ot_tax (compute_final_total items payment_method)
          < sum_list (map line_tax items) + int (length items)"
    using sum_div_bounds(2) [of "map line_price items"] assms(1)
    by (simp only: tax sum_line_tax [OF assms(2,3)]) simp
qed

theorem item_taxes_vs_order_tax_witness:
  "sum_list (map line_tax [sample_item, sample_item]) \<le> ot_tax (compute_final_total [sample_item, sample_item] ''COD'')"
  using item_taxes_vs_order_tax [of "[sample_item, sample_item]" "''COD''"]
  by (simp add: line_price_def sample_item_def)

text \<open>the advisory-lock key is the two's-complement reading of the first eight digest bytes, so
  it always fits PostgreSQL's signed 64-bit argument.\<close>

theorem lock_key_is_signed64:
  "idempotency_lock_key sha256 ikey
     = sint (word_of_int (from_bytes_big (take 8 (sha256 ikey))) :: 64 word) \<and>
   - (2 ^ 63) \<le> idempotency_lock_key sha256 ikey \<and> idempotency_lock_key sha256 ikey < 2 ^ 63"
proof -
  have b: "0 \<le> from_bytes_big (take 8 (sha256 ikey))" "from_bytes_big (take 8 (sha256 ikey)) < 2 ^ 64"
    using from_bytes_big_bounds [of "take 8 (sha256 ikey)"] by simp_all
  then show ?thesis
    using signed64 [OF b] by (simp add: idempotency_lock_key_def Let_def)
qed

end
