(* ===== verification/Cart.thy ===== *)
theory Cart
  imports Schema
begin

text \<open>
  Carts, \<open>backend/cart/repository.py\<close> and the \<open>add_to_cart\<close> route of \<open>backend/cart/routes.py\<close>:
  finding or creating the cart of a user or of a guest session (with the unique indexes on both
  columns), and adding one unit of a product.
\<close>

section \<open>Operations\<close>

text \<open>\<open>session.add(cart); await session.commit()\<close>: the INSERT is flushed by the commit and raises
  IntegrityError when either partial unique index is hit.\<close>

definition insert_cart :: "nat option \<Rightarrow> nat option \<Rightarrow> nat handler" where
  "insert_cart user_id session_id =
     letM (next_id ''cart'') (\<lambda>i.
     letM (exec (\<lambda>d.
        let row = \<lparr>c_id = i, c_user_id = user_id, c_session_id = session_id\<rparr> in
        if conflict cart_user_key row (db_carts d) \<or> conflict cart_session_key row (db_carts d)
        then Inl IntegrityError
        else Inr (i, d\<lparr>db_carts := db_carts d @ [row]\<rparr>))) (\<lambda>c.
     doM commit (retM c)))"

definition cart_of_user :: "nat \<Rightarrow> nat option handler" where
  "cart_of_user user_id =
     letM (query (\<lambda>d. map c_id (filter (\<lambda>c. c_user_id c = Some user_id) (db_carts d)))) (\<lambda>rows.
     liftM (one_or_none rows))"

definition cart_of_session :: "nat \<Rightarrow> nat option handler" where
  "cart_of_session session_id =
     letM (query (\<lambda>d. map c_id (filter (\<lambda>c. c_session_id c = Some session_id) (db_carts d)))) (\<lambda>rows.
     liftM (one_or_none rows))"

definition get_or_create_cart :: "nat option \<Rightarrow> nat option \<Rightarrow> nat option handler" where
  "get_or_create_cart user_id session_id =
     (case user_id of
        Some u \<Rightarrow>
          letM (cart_of_user u) (\<lambda>found.
          if truthy_id found then retM found
          else tryM (letM (insert_cart (Some u) session_id) (\<lambda>c. retM (Some c)))
                 (\<lambda>e. if e = IntegrityError then doM rollback (cart_of_user u) else raiseM e))
      | None \<Rightarrow> (case session_id of
          Some s \<Rightarrow>
            letM (cart_of_session s) (\<lambda>found.
            if found \<noteq> None then retM found
            else tryM (letM (insert_cart None (Some s)) (\<lambda>c. retM (Some c)))
                   (\<lambda>e. if e = IntegrityError then doM rollback (cart_of_session s) else raiseM e))
        | None \<Rightarrow> raiseM (HTTPException 400 (Text ''Either session id or user id is required''))))"

record product_data =
  pd_id :: nat
  pd_base_price :: int
  pd_stock_qty :: int

definition get_product_data :: "nat \<Rightarrow> product_data handler" where
  "get_product_data product_pid =
     letM (query (\<lambda>d. map (\<lambda>p. \<lparr>pd_id = p_id p, pd_base_price = p_base_price p, pd_stock_qty = p_stock_qty p\<rparr>)
                        (filter (\<lambda>p. p_public_id p = product_pid) (db_products d)))) (\<lambda>rows.
     letM (liftM (one_or_none rows)) (\<lambda>row.
     case row of
       None \<Rightarrow> raiseM (HTTPException 404 (Text ''Product not found''))
     | Some p \<Rightarrow> retM p))"

text \<open>The new quantity of an item already in the cart. The assignment for a sold-out product is
  overwritten by the next statement, as in the source.\<close>

definition bumped_qty :: "int \<Rightarrow> int \<Rightarrow> int \<Rightarrow> int" where
  "bumped_qty stock existing_qty max_item_qty =
     (let new_qty = (if stock = 0 then existing_qty else 0);
          new_qty = existing_qty + 1
      in if new_qty > max_item_qty then max_item_qty else new_qty)"

definition add_item_to_cart :: "nat \<Rightarrow> product_data \<Rightarrow> int \<Rightarrow> ((nat \<times> int) \<times> bool) handler" where
  "add_item_to_cart cart_id prd max_item_qty =
     letM (query (\<lambda>d. take 1 (filter (\<lambda>i. cit_cart_id i = Some cart_id \<and> cit_product_id i = pd_id prd)
                                      (db_cart_items d)))) (\<lambda>rows.
     letM (liftM (one_or_none rows)) (\<lambda>row.
     case row of
       Some it \<Rightarrow>
         (let new_qty = bumped_qty (pd_stock_qty prd) (cit_quantity it) max_item_qty in
          doM (modify (db_cart_items_update (upd (\<lambda>i. cit_id i = cit_id it) (\<lambda>i. i\<lparr>cit_quantity := new_qty\<rparr>))))
         (doM commit
         (retM ((cit_id it, new_qty), False))))
     | None \<Rightarrow>
         letM (next_id ''cartitem'') (\<lambda>i.
         letM (exec (\<lambda>d.
            let r = \<lparr>cit_id = i, cit_cart_id = Some cart_id, cit_product_id = pd_id prd, cit_quantity = 1\<rparr> in
            if conflict cart_item_key r (db_cart_items d) then Inl IntegrityError
            else Inr ((), d\<lparr>db_cart_items := db_cart_items d @ [r]\<rparr>))) (\<lambda>_.
         doM commit
         (retM ((i, 1), True))))))"

record cart_response =
  cr_cart_id :: nat
  cr_item_id :: nat
  cr_product_id :: nat
  cr_quantity :: int
  cr_created :: bool

text \<open>The route: \<open>POST /cart/items/{product_public_id}\<close>; the default cap is 1000 units.\<close>

definition add_to_cart :: "nat option \<Rightarrow> nat option \<Rightarrow> nat \<Rightarrow> cart_response handler" where
  "add_to_cart user_id sid product_public_id =
     letM (get_product_data product_public_id) (\<lambda>prd.
     letM (get_or_create_cart user_id sid) (\<lambda>cart.
     if \<not> truthy_id cart then raiseM (HTTPException 500 (Text ''Cart could not be created''))
     else
       letM (add_item_to_cart (the cart) prd 1000) (\<lambda>(cart_item, created). case cart_item of (item_id, qty) \<Rightarrow>
       retM \<lparr>cr_cart_id = the cart, cr_item_id = item_id, cr_product_id = pd_id prd,
             cr_quantity = qty, cr_created = created\<rparr>)))"

section \<open>Invariant: unique carts and items, bounded quantities\<close>

definition carts_ok :: "cart list \<Rightarrow> cart_item list \<Rightarrow> bool" where
  "carts_ok carts items \<longleftrightarrow>
     unique_on cart_user_key carts \<and> unique_on cart_session_key carts \<and>
     unique_on cart_item_key items \<and>
     (\<forall>i \<in> set items. 1 \<le> cit_quantity i \<and> cit_quantity i \<le> 1000)"

definition cart_ok :: "database \<Rightarrow> bool" where
  "cart_ok d \<longleftrightarrow> carts_ok (db_carts d) (db_cart_items d)"

lemmas cart_ok_defs = cart_ok_def carts_ok_def

lemma bumped_qty_min: "bumped_qty stock q cap = min cap (q + 1)"
  by (simp add: bumped_qty_def)

lemma bumped_qty_range:
  "1 \<le> q \<Longrightarrow> 1 \<le> bumped_qty stock q 1000 \<and> bumped_qty stock q 1000 \<le> 1000"
  by (simp add: bumped_qty_min)

lemma keeps_cart_of [keeps_intros]: "keeps J (cart_of_user u)" "keeps J (cart_of_session s)"
  by (auto simp: cart_of_user_def cart_of_session_def intro!: keeps_intros)

lemma keeps_get_product_data [keeps_intros]: "keeps J (get_product_data p)"
  by (auto simp: get_product_data_def intro!: keeps_intros)

lemma keeps_insert_cart: "keeps cart_ok (insert_cart u s)"
  unfolding insert_cart_def
  by (intro keeps_intros keeps_exec)
    (auto simp: cart_ok_defs Let_def unique_on_snoc split: if_splits)

lemma keeps_get_or_create_cart: "keeps cart_ok (get_or_create_cart u s)"
  unfolding get_or_create_cart_def by (intro keeps_intros keeps_insert_cart)

lemma keeps_add_item_to_cart: "keeps cart_ok (add_item_to_cart c prd 1000)"
proof -
  have set_qty: "cart_ok (db_cart_items_update (upd p (\<lambda>i. i\<lparr>cit_quantity := bumped_qty s q 1000\<rparr>)) d)"
    if "cart_ok d" "1 \<le> q" for d p q s
    using that bumped_qty_range [of q s]
    by (auto simp: cart_ok_defs cart_item_key_def intro!: unique_on_upd dest!: set_upd_cases)
  have read: "1 \<le> cit_quantity it"
    if "cart_ok d" "one_or_none (take 1 (filter P (db_cart_items d))) = Inr (Some it)" for d it P
    using that by (auto simp: cart_ok_defs dest!: one_or_none_mem in_set_takeD)
  have fresh: "keeps cart_ok (letM (next_id t) (\<lambda>i.
      letM (exec (\<lambda>d.
         let r = \<lparr>cit_id = i, cit_cart_id = Some c, cit_product_id = p, cit_quantity = 1\<rparr> in
         if conflict cart_item_key r (db_cart_items d) then Inl IntegrityError
         else Inr ((), d\<lparr>db_cart_items := db_cart_items d @ [r]\<rparr>))) (\<lambda>_. doM commit (retM ((i, 1), True)))))"
    for t p
    by (intro keeps_intros keeps_exec)
      (auto simp: cart_ok_defs Let_def unique_on_snoc split: if_splits)
  show ?thesis
    unfolding add_item_to_cart_def Let_def
    by (rule keeps_let_query, rule keeps_let_lift)
      (intro keeps_case_option keeps_do keeps_modify set_qty read keeps_commit keeps_ret
        fresh [unfolded Let_def]; assumption?; simp)
qed

lemma keeps_add_to_cart: "keeps cart_ok (add_to_cart u s p)"
  unfolding add_to_cart_def
  by (intro keeps_intros keeps_get_or_create_cart keeps_add_item_to_cart)

text \<open>A run of requests: each is the user, the session and the product of one \<open>POST\<close>.\<close>

type_synonym cart_request = "nat option \<times> nat option \<times> nat"

definition serve_cart :: "cart_request \<Rightarrow> state \<Rightarrow> state" where
  "serve_cart r w = (case r of (u, s, p) \<Rightarrow> serve (add_to_cart u s p) w)"

interpretation cart_runs: guarded_machine serve_cart "\<lambda>w. cart_ok (committed w)"
  by unfold_locales
    (auto simp: serve_cart_def intro!: serve_keeps keeps_add_to_cart split: prod.split)

section \<open>Properties\<close>

text \<open>C15: However requests to add products to carts are sequenced, and whichever statements or
  commits fail along the way, the committed database has at most one cart per user and per guest
  session, at most one item per cart and product, and every quantity between 1 and the cap of
  1000.\<close>

theorem cart_runs_ok:
  "cart_ok (committed w) \<Longrightarrow> cart_ok (committed (fold serve_cart reqs w))"
  by (rule cart_runs.run_inv)

definition sample_product :: "nat \<Rightarrow> int \<Rightarrow> product" where
  "sample_product i stock = \<lparr>p_id = i, p_public_id = 1000 + i, p_stock_qty = stock, p_sku = None,
     p_name = replicate i (CHR ''p''), p_description = None, p_base_price = 250, p_specs = JNull,
     p_owner_id = None, p_created_at = 0, p_updated_at = 0, p_deleted_at = None\<rparr>"

definition cart_db :: database where
  "cart_db = empty_db\<lparr>
     db_products := [sample_product 1 0, sample_product 2 5],
     db_carts := [\<lparr>c_id = 3, c_user_id = None, c_session_id = Some 8\<rparr>,
                  \<lparr>c_id = 4, c_user_id = Some 7, c_session_id = None\<rparr>],
     db_cart_items := [\<lparr>cit_id = 1, cit_cart_id = Some 4, cit_product_id = 1, cit_quantity = 2\<rparr>]\<rparr>"

lemma cart_runs_ok_witness:
  "cart_ok (committed (fold serve_cart [(Some 7, None, 1001), (None, Some 8, 1002), (None, None, 1001)]
      (start 0 cart_db)))"
  by (rule cart_runs_ok)
    (simp add: start_def cart_db_def empty_db_def cart_ok_defs index_defs unique_on_def)

text \<open>Adding a product that is already in the user's cart adds one unit up to the cap, whatever
  the stock: the assignment that was to keep the quantity of a sold-out product is overwritten.
  The item's row is the only one that changes and the change is committed.\<close>

theorem add_to_cart_bumps:
  assumes "quiet w"
    and "filter (\<lambda>p. p_public_id p = pid) (db_products (db w)) = [p]"
    and "filter (\<lambda>c. c_user_id c = Some u) (db_carts (db w)) = [c]" and "c_id c \<noteq> 0"
    and "filter (\<lambda>i. cit_cart_id i = Some (c_id c) \<and> cit_product_id i = p_id p)
           (db_cart_items (db w)) = [it]"
  shows "fst (add_to_cart (Some u) s pid w) =
           Inr \<lparr>cr_cart_id = c_id c, cr_item_id = cit_id it, cr_product_id = p_id p,
                cr_quantity = min 1000 (cit_quantity it + 1), cr_created = False\<rparr> \<and>
         committed (snd (add_to_cart (Some u) s pid w)) =
           db_cart_items_update (upd (\<lambda>i. cit_id i = cit_id it)
             (\<lambda>i. i\<lparr>cit_quantity := min 1000 (cit_quantity it + 1)\<rparr>)) (db w)"
  using assms
  by (intro wp_result)
    (simp add: wp_simps add_to_cart_def get_product_data_def get_or_create_cart_def cart_of_user_def
      add_item_to_cart_def bumped_qty_min Let_def)

lemma add_to_cart_bumps_witness:
  "fst (add_to_cart (Some 7) (Some 8) 1001 (start 0 cart_db)) =
     Inr \<lparr>cr_cart_id = 4, cr_item_id = 1, cr_product_id = 1, cr_quantity = 3, cr_created = False\<rparr>"
  using add_to_cart_bumps [of "start 0 cart_db" 1001 "sample_product 1 0" 7
      "\<lparr>c_id = 4, c_user_id = Some 7, c_session_id = None\<rparr>"
      "\<lparr>cit_id = 1, cit_cart_id = Some 4, cit_product_id = 1, cit_quantity = 2\<rparr>" "Some 8"]
  by (simp add: start_def quiet_def still_def cart_db_def empty_db_def sample_product_def)

text \<open>A user without a cart whose session already owns a guest cart cannot add anything: the
  INSERT of the user's cart carries the session id and violates the session index, the second
  lookup finds no cart of the user, and the route answers 500 without changing the database.\<close>

theorem guest_cart_blocks_user:
  assumes "quiet w" and "db w = committed w"
    and "filter (\<lambda>p. p_public_id p = pid) (db_products (db w)) = [p]"
    and "filter (\<lambda>c. c_user_id c = Some u) (db_carts (db w)) = []"
    and "c \<in> set (db_carts (db w))" and "c_session_id c = Some s"
  shows "fst (add_to_cart (Some u) (Some s) pid w) =
           Inl (HTTPException 500 (Text ''Cart could not be created'')) \<and>
         committed (snd (add_to_cart (Some u) (Some s) pid w)) = committed w"
proof -
  have hit: "conflict cart_session_key \<lparr>c_id = i, c_user_id = Some u, c_session_id = Some s\<rparr> (db_carts (committed w))" for i
    using assms by (auto simp: conflict_iff cart_session_key_def)
  from assms(1) have "quiet (w\<lparr>aborted := False\<rparr>)" by (simp add: quiet_def)
  with assms hit show ?thesis
    by (intro wp_raises)
      (simp add: wp_simps add_to_cart_def get_product_data_def get_or_create_cart_def cart_of_user_def
        insert_cart_def Let_def wp_rollback quiet_def tick_def)
qed

lemma guest_cart_blocks_user_witness:
  "fst (add_to_cart (Some 9) (Some 8) 1002 (start 0 cart_db)) =
     Inl (HTTPException 500 (Text ''Cart could not be created''))"
  using guest_cart_blocks_user [of "start 0 cart_db" 1002 "sample_product 2 5" 9
      "\<lparr>c_id = 3, c_user_id = None, c_session_id = Some 8\<rparr>" 8]
  by (simp add: start_def quiet_def still_def cart_db_def empty_db_def sample_product_def)

end
