(* ===== verification/Checkout.thy ===== *)
theory Checkout
  imports Cart Pricing "HOL-Library.AList"
begin

text \<open>
  Checkout sessions and stock reservations: the first half of \<open>backend/orders/repository.py\<close>,
  \<open>validate_items_avblty\<close> of \<open>backend/orders/services.py\<close>, and the endpoints \<open>initiate_buy_now\<close>
  and \<open>get_order_summary\<close> of \<open>backend/orders/routes.py\<close>. SQL joins list their rows in table
  order; row locks have no effect on a single request. Python dicts are association lists.
\<close>

section \<open>Cart snapshot and availability\<close>

definition RESERVATION_TTL_MINUTES :: int where "RESERVATION_TTL_MINUTES = 60"

record cart_snapshot =
  snap_cart_id :: nat
  snap_items :: "snapshot_item list"

definition cart_rows :: "nat \<Rightarrow> database \<Rightarrow> (nat \<times> snapshot_item) list" where
  "cart_rows user_id d =
     [(c_id c, \<lparr>cart_item_id = cit_id i, product_id = p_id p, quantity = cit_quantity i,
               prod_base_price = p_base_price p, product_stock = p_stock_qty p\<rparr>).
        i \<leftarrow> db_cart_items d,
        c \<leftarrow> db_carts d, Some (c_id c) = cit_cart_id i \<and> c_user_id c = Some user_id,
        p \<leftarrow> db_products d, p_id p = cit_product_id i]"

definition capture_cart_snapshot :: "nat \<Rightarrow> cart_snapshot handler" where
  "capture_cart_snapshot user_id =
     letM (query (cart_rows user_id)) (\<lambda>rows.
     letM (liftM (index0 rows)) (\<lambda>first.
     retM \<lparr>snap_cart_id = fst first, snap_items = map snd rows\<rparr>))"

definition remove_items_from_cart :: "snapshot_item list \<Rightarrow> unit handler" where
  "remove_items_from_cart items =
     forM items (\<lambda>item.
       doM (modify (db_cart_items_update (del (\<lambda>i. cit_id i = cart_item_id item))))
       commit)"

text \<open>The quantity of a product under active, unexpired reservations, and the grouped query that
  computes it for the products of a checkout (products without any reservation have no group).\<close>

definition reserved :: "int \<Rightarrow> database \<Rightarrow> nat \<Rightarrow> int" where
  "reserved t d pid =
     sum_list (map (\<lambda>r. if ir_status r = reserve_status_value RS_ACTIVE \<and> ir_reserved_until r > t
                       then ir_quantity r else 0)
                (filter (\<lambda>r. ir_product_id r = pid) (db_reservations d)))"

definition reserved_groups :: "int \<Rightarrow> nat list \<Rightarrow> database \<Rightarrow> (nat \<times> int) list" where
  "reserved_groups t product_ids d =
     map (\<lambda>pid. (pid, reserved t d pid))
       (remdups (filter (\<lambda>pid. pid \<in> set product_ids) (map ir_product_id (db_reservations d))))"

record stock_request =
  stock_qty :: int
  requested_qty :: int

definition availability_error :: "nat \<Rightarrow> int \<Rightarrow> int \<Rightarrow> detail" where
  "availability_error pid requested avbl =
     Fmt ''Not enough stock for product {}: requested={}, available={}'' [int pid, requested, avbl]"

definition item_errors :: "(nat \<times> int) list \<Rightarrow> (nat \<times> stock_request) list \<Rightarrow> detail list" where
  "item_errors reserved_map product_data =
     concat (map (\<lambda>(pid, prod_dict).
       let reserved_qty = (case map_of reserved_map pid of None \<Rightarrow> 0 | Some q \<Rightarrow> q);
           avbl = max 0 (stock_qty prod_dict - reserved_qty)
       in if requested_qty prod_dict > avbl
          then [availability_error pid (requested_qty prod_dict) avbl] else []) product_data)"

definition items_avblty :: "nat list \<Rightarrow> (nat \<times> stock_request) list \<Rightarrow> unit handler" where
  "items_avblty product_ids product_data =
     letM now (\<lambda>t.
     letM (query (reserved_groups t product_ids)) (\<lambda>reserved_map.
     let item_errs = item_errors reserved_map product_data in
     if item_errs \<noteq> [] then raiseM (HTTPException 409 (Errors item_errs)) else retM ()))"

definition validate_items_avblty :: "snapshot_item list \<Rightarrow> unit handler" where
  "validate_items_avblty cart_items =
     items_avblty (map product_id cart_items)
       (fold (\<lambda>it. AList.update (product_id it) \<lparr>stock_qty = product_stock it, requested_qty = quantity it\<rparr>)
          cart_items [])"

section \<open>Checkout sessions\<close>

definition update_checkout_activeness :: "nat \<Rightarrow> bool \<Rightarrow> unit handler" where
  "update_checkout_activeness i active =
     doM (modify (db_checkouts_update (upd (\<lambda>c. cs_id c = i) (\<lambda>c. c\<lparr>cs_is_active := active\<rparr>))))
     commit"

definition get_checkout_session :: "nat \<Rightarrow> nat option handler" where
  "get_checkout_session user_id =
     letM (query (\<lambda>d. filter (\<lambda>c. cs_user_id c = user_id \<and> cs_is_active c) (db_checkouts d))) (\<lambda>rows.
     letM (liftM (one_or_none rows)) (\<lambda>cs.
     case cs of
       None \<Rightarrow> retM None
     | Some c \<Rightarrow>
         letM now (\<lambda>t.
         if cs_expires_at c < t
         then doM (update_checkout_activeness (cs_id c) False)
                (raiseM (HTTPException 410 (Text ''checkout session expired'')))
         else retM (Some (cs_public_id c)))))"

definition get_or_create_checkout_session :: "nat \<Rightarrow> int \<Rightarrow> nat handler" where
  "get_or_create_checkout_session user_id reserved_until =
     letM uuid7 (\<lambda>pid.
     letM now (\<lambda>created.
     letM now (\<lambda>updated.
     letM (next_id ''checkoutsession'') (\<lambda>i.
     let row = \<lparr>cs_id = i, cs_public_id = pid, cs_user_id = user_id, cs_cart_snapshot = None,
                cs_selected_payment_method = None, cs_is_active = True,
                cs_expires_at = reserved_until, cs_created_at = created, cs_updated_at = updated\<rparr> in
     letM (exec (\<lambda>d. Inr (if conflict checkout_active_key row (db_checkouts d) then None else Some pid,
                          db_checkouts_update (insert_nothing checkout_active_key row) d))) (\<lambda>checkout_pid.
     case checkout_pid of
       Some p \<Rightarrow> retM p
     | None \<Rightarrow>
         letM (get_checkout_session user_id) (\<lambda>existing.
         case existing of
           Some p \<Rightarrow> retM p
         | None \<Rightarrow> raiseM (HTTPException 409 (Text ''Could not create checkout session please retry''))))))))"

text \<open>The rows to insert, and one multi-row \<open>INSERT ... ON CONFLICT DO NOTHING\<close>.\<close>

definition reservation_rows ::
    "snapshot_item list \<Rightarrow> nat \<Rightarrow> int \<Rightarrow> inventory_reservation list handler" where
  "reservation_rows cart_items checkout_id reserved_until =
     mapM (\<lambda>it.
        letM (next_id ''inventoryreservation'') (\<lambda>i.
        letM now (\<lambda>t.
        retM \<lparr>ir_id = i, ir_product_id = product_id it, ir_checkout_id = checkout_id, ir_order_id = None,
              ir_quantity = quantity it, ir_reserved_until = reserved_until,
              ir_status = reserve_status_value RS_ACTIVE, ir_created_at = t\<rparr>))) cart_items"

definition reserve_inventory :: "snapshot_item list \<Rightarrow> nat \<Rightarrow> int \<Rightarrow> unit handler" where
  "reserve_inventory cart_items checkout_id reserved_until =
     letM (reservation_rows cart_items checkout_id reserved_until) (\<lambda>to_insert.
     modify (db_reservations_update (fold (insert_nothing reservation_key) to_insert)))"

definition if_cart_exists :: "nat \<Rightarrow> unit handler" where
  "if_cart_exists user_id =
     letM (query (\<lambda>d. take 1 [c_id c. c \<leftarrow> db_carts d, i \<leftarrow> db_cart_items d,
                                 cit_cart_id i = Some (c_id c), c_user_id c = Some user_id])) (\<lambda>rows.
     letM (liftM (one_or_none rows)) (\<lambda>row.
     if \<not> truthy_id row then raiseM (HTTPException 404 (Text ''Cart not found or Cart is empty''))
     else retM ()))"

definition get_checkout_details :: "nat \<Rightarrow> nat \<Rightarrow> checkout_session handler" where
  "get_checkout_details checkout_id user_id =
     letM (query (\<lambda>d. filter (\<lambda>c. cs_user_id c = user_id \<and> cs_is_active c \<and> cs_public_id c = checkout_id)
                             (db_checkouts d))) (\<lambda>rows.
     letM (liftM (one_or_none rows)) (\<lambda>cs.
     case cs of
       None \<Rightarrow> raiseM (HTTPException 403 (Text ''checkout session not found''))
     | Some c \<Rightarrow>
         letM now (\<lambda>t.
         if cs_expires_at c < t
         then doM (update_checkout_activeness (cs_id c) False)
                (raiseM (HTTPException 410 (Text ''checkout session expired'')))
         else retM c)))"

definition update_checkout_cart_n_paymethod ::
    "nat \<Rightarrow> string \<Rightarrow> snapshot_item list \<Rightarrow> unit handler" where
  "update_checkout_cart_n_paymethod i payment_method items =
     modify (db_checkouts_update (upd (\<lambda>c. cs_id c = i)
       (\<lambda>c. c\<lparr>cs_selected_payment_method := Some payment_method, cs_cart_snapshot := Some items\<rparr>)))"

section \<open>Endpoints\<close>

record checkout_response =
  cr_checkout_id :: nat
  cr_reserved_until :: int

definition initiate_buy_now :: "nat \<Rightarrow> checkout_response handler" where
  "initiate_buy_now user_identifier =
     letM now (\<lambda>t.
     let reserved_until = t + minutes RESERVATION_TTL_MINUTES in
     doM (if_cart_exists user_identifier)
     (letM (get_or_create_checkout_session user_identifier reserved_until) (\<lambda>checkout_public_id.
      doM commit
      (retM \<lparr>cr_checkout_id = checkout_public_id, cr_reserved_until = reserved_until\<rparr>))))"

definition get_order_summary :: "nat \<Rightarrow> nat \<Rightarrow> string option \<Rightarrow> order_summary handler" where
  "get_order_summary user_identifier checkout_id payment_method =
     (if payment_method \<notin> {Some ''UPI'', Some ''COD''}
      then raiseM (HTTPException 400 (Text ''payment_method must be UPI or COD''))
      else
        letM (get_checkout_details checkout_id user_identifier) (\<lambda>cs.
        let items = (case cs_cart_snapshot cs of None \<Rightarrow> [] | Some its \<Rightarrow> its);
            pay_method = (case cs_selected_payment_method cs of None \<Rightarrow> [] | Some m \<Rightarrow> m) in
        if items \<noteq> [] \<and> pay_method \<noteq> []
        then retM (compute_order_totals items pay_method checkout_id)
        else
          letM (capture_cart_snapshot user_identifier) (\<lambda>cart_data.
          let cart_items = snap_items cart_data in
          doM (validate_items_avblty cart_items)
         (doM (reserve_inventory cart_items (cs_id cs) (cs_expires_at cs))
         (doM (update_checkout_cart_n_paymethod (cs_id cs) (the payment_method) cart_items)
         (doM commit
         (retM (compute_order_totals cart_items (the payment_method) checkout_id))))))))"

section \<open>Availability\<close>

lemma reserved_none: "pid \<notin> ir_product_id ` set (db_reservations d) \<Longrightarrow> reserved t d pid = 0"
  by (auto simp: reserved_def filter_empty_conv intro!: arg_cong [where f = sum_list, of _ "[]", simplified])

lemma reserved_groups_lookup:
  assumes "pid \<in> set pids"
  shows "(case map_of (reserved_groups t pids d) pid of None \<Rightarrow> 0 | Some q \<Rightarrow> q) = reserved t d pid"
proof -
  have "map_of (reserved_groups t pids d) pid =
      (if pid \<in> ir_product_id ` set (db_reservations d) then Some (reserved t d pid) else None)"
    using assms by (auto simp: reserved_groups_def map_of_map_keys map_of_eq_None_iff
        intro!: map_of_is_SomeI simp: distinct_map inj_on_def comp_def)
  then show ?thesis by (simp add: reserved_none)
qed

lemma update_fresh: "k \<notin> fst ` set al \<Longrightarrow> AList.update k v al = al @ [(k, v)]"
  by (induction al) auto

lemma product_data_dict:
  "distinct (map product_id items) \<Longrightarrow> product_id ` set items \<inter> fst ` set al = {} \<Longrightarrow>
   fold (\<lambda>it. AList.update (product_id it) (f it)) items al = al @ map (\<lambda>it. (product_id it, f it)) items"
proof (induction items arbitrary: al)
  case Nil
  then show ?case by simp
next
  case (Cons it its)
  then show ?case by (auto simp: update_fresh)
qed

text \<open>The reference answer: the errors of the lines that exceed what is available.\<close>

definition available :: "int \<Rightarrow> database \<Rightarrow> snapshot_item \<Rightarrow> int" where
  "available t d it = max 0 (product_stock it - reserved t d (product_id it))"

definition shortages :: "int \<Rightarrow> database \<Rightarrow> snapshot_item list \<Rightarrow> detail list" where
  "shortages t d items =
     [availability_error (product_id it) (quantity it) (available t d it).
        it \<leftarrow> items, quantity it > available t d it]"


lemma item_errors_shortages:
  assumes "distinct (map product_id items)"
  shows "item_errors (reserved_groups t (map product_id items) d)
      (fold (\<lambda>it. AList.update (product_id it) \<lparr>stock_qty = product_stock it, requested_qty = quantity it\<rparr>)
          items []) = shortages t d items"
proof -
  define rm where "rm = reserved_groups t (map product_id items) d"
  have "(case map_of rm (product_id it) of None \<Rightarrow> 0 | Some q \<Rightarrow> q) = reserved t d (product_id it)"
    if "it \<in> set items" for it
    unfolding rm_def by (rule reserved_groups_lookup) (simp add: that)
  then show ?thesis
    using assms unfolding rm_def [symmetric]
    by (auto simp: item_errors_def shortages_def available_def product_data_dict Let_def comp_def
        intro!: arg_cong [where f = concat] map_cong)
qed

section \<open>Reservations\<close>

definition nonneg_reservations :: "database \<Rightarrow> bool" where
  "nonneg_reservations d \<longleftrightarrow> (\<forall>r \<in> set (db_reservations d). 0 \<le> ir_quantity r)"




lemma nonneg_inserts:
  "nonneg_reservations d \<Longrightarrow> \<forall>r \<in> set rs. 0 \<le> ir_quantity r \<Longrightarrow>
   nonneg_reservations (db_reservations_update (fold (insert_nothing reservation_key) rs) d)"
  by (auto simp: nonneg_reservations_def dest: insert_nothing.run_rows)

text \<open>The rows a reservation inserts, one for each item of the snapshot.\<close>

definition reserves :: "nat \<Rightarrow> int \<Rightarrow> snapshot_item \<Rightarrow> inventory_reservation \<Rightarrow> bool" where
  "reserves cs until it r \<longleftrightarrow> ir_product_id r = product_id it \<and> ir_quantity r = quantity it \<and>
     ir_checkout_id r = cs \<and> ir_reserved_until r = until \<and> ir_status r = reserve_status_value RS_ACTIVE"


lemma reserves_nonneg:
  "list_all2 (reserves cs until) items rs \<Longrightarrow> \<forall>it \<in> set items. 0 \<le> quantity it \<Longrightarrow>
     \<forall>r \<in> set rs. 0 \<le> ir_quantity r"
  by (induction items rs rule: list_all2_induct) (auto simp: reserves_def)

lemma returns_reservation_rows:
  "returns (reservation_rows items cs until) (\<lambda>rows v. list_all2 (reserves cs until) items rows \<and>
     db v = db w \<and> committed v = committed w \<and> env v = env w \<and> ticks w \<le> ticks v) w"
  unfolding reservation_rows_def
  by (rule returns_mapM) (auto simp: returns_simps reserves_def)





lemma snapshot_line:
  assumes "row \<in> set (cart_rows u d)"
  shows "\<exists>p \<in> set (db_products d). p_id p = product_id (snd row) \<and> p_stock_qty p = product_stock (snd row) \<and>
     p_base_price p = prod_base_price (snd row)"
    and "cart_ok d \<Longrightarrow> 1 \<le> quantity (snd row)"
  using assms by (auto simp: cart_rows_def cart_ok_defs split: if_splits)

section \<open>Properties\<close>

text \<open>C14: For a cart snapshot without duplicate products, the availability check raises 409 exactly
  when some line asks for more than the stock minus the active reservations, and the error lists
  those lines in order, each with its product, the quantity requested and the quantity left. It
  does not change the database.\<close>

theorem availability_exact:
  assumes "quiet w" and "distinct (map product_id items)"
  shows "fst (validate_items_avblty items w) =
      (let errs = shortages (clock (env w) (ticks w)) (db w) items
       in if errs = [] then Inr () else Inl (HTTPException 409 (Errors errs))) \<and>
     db (snd (validate_items_avblty items w)) = db w"
proof -
  have "wp (validate_items_avblty items)
      (\<lambda>x v. shortages (clock (env w) (ticks w)) (db w) items = [] \<and> db v = db w)
      (\<lambda>e v. shortages (clock (env w) (ticks w)) (db w) items \<noteq> [] \<and>
         e = HTTPException 409 (Errors (shortages (clock (env w) (ticks w)) (db w) items)) \<and> db v = db w) w"
    using assms
    by (simp add: validate_items_avblty_def items_avblty_def wp_simps item_errors_shortages Let_def)
  then show ?thesis
    by (auto simp: wp_def Let_def split: prod.splits sum.splits)
qed

definition line :: "nat \<Rightarrow> int \<Rightarrow> int \<Rightarrow> snapshot_item" where
  "line pid qty stock = \<lparr>cart_item_id = pid, product_id = pid, quantity = qty, prod_base_price = 250,
     product_stock = stock\<rparr>"

definition reservation :: "nat \<Rightarrow> nat \<Rightarrow> int \<Rightarrow> int \<Rightarrow> inventory_reservation" where
  "reservation pid cs qty until = \<lparr>ir_id = pid, ir_product_id = pid, ir_checkout_id = cs, ir_order_id = None,
     ir_quantity = qty, ir_reserved_until = until, ir_status = 0, ir_created_at = 0\<rparr>"

lemma availability_exact_witness:
  "fst (validate_items_avblty [line 1 2 5, line 2 3 5]
      (start 50 (empty_db\<lparr>db_reservations := [reservation 2 9 3 100, reservation 2 8 2 50]\<rparr>))) =
     Inl (HTTPException 409 (Errors [availability_error 2 3 2]))"
  using availability_exact [of "start 50 (empty_db\<lparr>db_reservations := [reservation 2 9 3 100, reservation 2 8 2 50]\<rparr>)"
      "[line 1 2 5, line 2 3 5]"]
  by (simp add: start_def still_def quiet_def line_def reservation_def shortages_def available_def
      reserved_def empty_db_def)








definition checkout_row :: "nat \<Rightarrow> nat \<Rightarrow> nat \<Rightarrow> int \<Rightarrow> checkout_session" where
  "checkout_row i pid u until = \<lparr>cs_id = i, cs_public_id = pid, cs_user_id = u, cs_cart_snapshot = None,
     cs_selected_payment_method = None, cs_is_active = True, cs_expires_at = until, cs_created_at = 0,
     cs_updated_at = 0\<rparr>"

definition checkout_db :: database where
  "checkout_db = empty_db\<lparr>
     db_products := [sample_product 1 4, sample_product 2 5],
     db_carts := [\<lparr>c_id = 4, c_user_id = Some 7, c_session_id = None\<rparr>],
     db_cart_items := [\<lparr>cit_id = 1, cit_cart_id = Some 4, cit_product_id = 1, cit_quantity = 2\<rparr>],
     db_checkouts := [checkout_row 9 90 7 5000],
     db_reservations := [reservation 1 3 2 6000]\<rparr>"



section \<open>Invariant: one active session per user, one reservation per product and checkout\<close>

definition checkout_ok :: "database \<Rightarrow> bool" where
  "checkout_ok d \<longleftrightarrow> cart_ok d \<and> unique_on checkout_active_key (db_checkouts d) \<and>
     unique_on reservation_key (db_reservations d) \<and> nonneg_reservations d"

lemmas checkout_ok_tables = checkout_ok_def cart_ok_def nonneg_reservations_def

lemma keeps_update_activeness [keeps_intros]: "keeps checkout_ok (update_checkout_activeness i False)"
  unfolding update_checkout_activeness_def
  by (intro keeps_intros keeps_modify)
    (auto simp: checkout_ok_tables checkout_active_key_def intro!: unique_on_upd_drop)

lemma keeps_get_checkout_session [keeps_intros]: "keeps checkout_ok (get_checkout_session u)"
  unfolding get_checkout_session_def by (intro keeps_intros)

lemma keeps_get_or_create_checkout [keeps_intros]:
  "keeps checkout_ok (get_or_create_checkout_session u t)"
  unfolding get_or_create_checkout_session_def Let_def
  by (intro keeps_intros keeps_exec)
    (auto simp: checkout_ok_tables insert_nothing.ins_unique)

lemma keeps_if_cart_exists [keeps_intros]: "keeps J (if_cart_exists u)"
  unfolding if_cart_exists_def by (intro keeps_intros)

lemma keeps_initiate [keeps_intros]: "keeps checkout_ok (initiate_buy_now u)"
  unfolding initiate_buy_now_def Let_def by (intro keeps_intros)

lemma keeps_get_checkout_details [keeps_intros]: "keeps checkout_ok (get_checkout_details cid u)"
  unfolding get_checkout_details_def by (intro keeps_intros)

lemma keeps_validate_items_avblty [keeps_intros]: "keeps J (validate_items_avblty items)"
  unfolding validate_items_avblty_def items_avblty_def Let_def by (intro keeps_intros)

lemma keeps_reserve_inventory:
  assumes "\<forall>it \<in> set items. 0 \<le> quantity it"
  shows "keeps checkout_ok (reserve_inventory items cs until)"
  unfolding reserve_inventory_def
proof (rule keeps_let_returns)
  show "keeps checkout_ok (reservation_rows items cs until)"
    unfolding reservation_rows_def by (intro keeps_intros)
  show "returns (reservation_rows items cs until) (\<lambda>rows _. list_all2 (reserves cs until) items rows) w" for w
    by (rule returns_mono [OF returns_reservation_rows]) simp
next
  fix rows assume "list_all2 (reserves cs until) items rows"
  then have "\<forall>r \<in> set rows. 0 \<le> ir_quantity r" using assms by (rule reserves_nonneg)
  then show "keeps checkout_ok (modify (db_reservations_update (fold (insert_nothing reservation_key) rows)))"
    by (intro keeps_modify) (auto simp: checkout_ok_def cart_ok_def nonneg_inserts insert_nothing.run_unique)
qed

lemma keeps_update_checkout_cart [keeps_intros]:
  "keeps checkout_ok (update_checkout_cart_n_paymethod i m items)"
  unfolding update_checkout_cart_n_paymethod_def
  by (intro keeps_modify)
    (auto simp: checkout_ok_tables checkout_active_key_def intro!: unique_on_upd)

lemma keeps_get_order_summary [keeps_intros]: "keeps checkout_ok (get_order_summary u cid m)"
proof -
  have tail: "keeps checkout_ok (doM (validate_items_avblty items)
     (doM (reserve_inventory items i until) (doM (update_checkout_cart_n_paymethod i pm items)
     (doM commit (retM r)))))"
    if "\<forall>it \<in> set items. 0 \<le> quantity it" for items i until pm and r :: order_summary
    by (intro keeps_intros keeps_reserve_inventory that)
  have nonneg: "0 \<le> quantity it" if "checkout_ok d" "it \<in> snd ` set (cart_rows u d)" for it d
    using that snapshot_line(2) by (fastforce simp: checkout_ok_def)
  have "keeps checkout_ok (letM (capture_cart_snapshot u) (\<lambda>cart_data.
      doM (validate_items_avblty (snap_items cart_data))
     (doM (reserve_inventory (snap_items cart_data) i until)
     (doM (update_checkout_cart_n_paymethod i pm (snap_items cart_data))
     (doM commit (retM (compute_order_totals (snap_items cart_data) pm' cid)))))))" for i until pm pm'
    unfolding capture_cart_snapshot_def letM_assoc
    by (rule keeps_let_query) (auto intro!: keeps_let keeps_lift tail nonneg simp: letM_ret)
  then show ?thesis
    unfolding get_order_summary_def Let_def
    by (intro keeps_if keeps_let [OF keeps_get_checkout_details] keeps_raise keeps_ret)
qed

text \<open>What a user gets on starting a checkout: their active session if it has not expired (no
  second one is made); 410 if it has expired, and then the session is deactivated and the change
  committed, so that the next attempt succeeds; a fresh session otherwise. The response always
  carries the expiry of a fresh session, even when it names an existing one.\<close>

theorem initiate_spec:
  assumes "quiet w" and "unique_on checkout_active_key (db_checkouts (db w))"
    and "c \<in> set (db_carts (db w))" and "i \<in> set (db_cart_items (db w))"
    and "c_user_id c = Some u" and "cit_cart_id i = Some (c_id c)" and "\<forall>c \<in> set (db_carts (db w)). c_id c \<noteq> 0"
  shows "let t = (\<lambda>n. clock (env w) (ticks w + n));
             response = (\<lambda>pid. \<lparr>cr_checkout_id = pid, cr_reserved_until = t 0 + minutes 60\<rparr>);
             pid = uuids (env w) (ticks w + 2);
             result = fst (initiate_buy_now u w);
             sessions = db_checkouts (committed (snd (initiate_buy_now u w)))
         in case find (\<lambda>s. checkout_active_key s = Some u) (db_checkouts (db w)) of
              None \<Rightarrow> result = Inr (response pid) \<and>
                sessions = db_checkouts (db w) @
                  [\<lparr>cs_id = Suc (seqs w ''checkoutsession''), cs_public_id = pid, cs_user_id = u,
                    cs_cart_snapshot = None, cs_selected_payment_method = None, cs_is_active = True,
                    cs_expires_at = t 0 + minutes 60, cs_created_at = t 3, cs_updated_at = t 4\<rparr>]
            | Some s \<Rightarrow>
                if cs_expires_at s < t 7
                then result = Inl (HTTPException 410 (Text ''checkout session expired'')) \<and>
                  sessions = upd (\<lambda>x. cs_id x = cs_id s) (\<lambda>x. x\<lparr>cs_is_active := False\<rparr>) (db_checkouts (db w))
                else result = Inr (response (cs_public_id s)) \<and> sessions = db_checkouts (db w)"
proof -
  define rows where "rows = [c_id c. c \<leftarrow> db_carts (db w), i \<leftarrow> db_cart_items (db w),
                              cit_cart_id i = Some (c_id c), c_user_id c = Some u]"
  have "c_id c \<in> set rows" using assms(3-6) by (force simp: rows_def)
  moreover have "\<forall>k \<in> set rows. k \<noteq> 0" using assms(7) by (auto simp: rows_def split: if_splits)
  ultimately obtain k where k: "take (Suc 0) rows = [k]" "k \<noteq> 0" by (cases rows) auto
  have active: "filter (\<lambda>s. cs_user_id s = u \<and> cs_is_active s) (db_checkouts (db w)) =
      filter (\<lambda>s. checkout_active_key s = Some u) (db_checkouts (db w))"
    by (rule filter_cong) (auto simp: checkout_active_key_def)
  define active_row where "active_row = find (\<lambda>s. checkout_active_key s = Some u) (db_checkouts (db w))"
  have hit: "conflict checkout_active_key
        \<lparr>cs_id = a, cs_public_id = b, cs_user_id = u, cs_cart_snapshot = None, cs_selected_payment_method = None,
         cs_is_active = True, cs_expires_at = x, cs_created_at = y, cs_updated_at = z\<rparr> (db_checkouts (db w)) \<longleftrightarrow>
      active_row \<noteq> None" for a b x y z
    by (auto simp: conflict_iff checkout_active_key_def active_row_def find_None_iff)
  note run = initiate_buy_now_def if_cart_exists_def get_or_create_checkout_session_def
    get_checkout_session_def update_checkout_activeness_def RESERVATION_TTL_MINUTES_def
    wp_simps rows_def [symmetric] k active active_row_def [symmetric] one_or_none_unique [OF assms(2)] assms(1) hit
    insert_nothing_def Let_def
  show ?thesis
  proof (cases active_row)
    case None
    then have "wp (initiate_buy_now u)
      (\<lambda>x v. x = \<lparr>cr_checkout_id = uuids (env w) (ticks w + 2), cr_reserved_until = clock (env w) (ticks w) + minutes 60\<rparr> \<and>
         db_checkouts (committed v) = db_checkouts (db w) @
                  [\<lparr>cs_id = Suc (seqs w ''checkoutsession''), cs_public_id = uuids (env w) (ticks w + 2), cs_user_id = u,
                    cs_cart_snapshot = None, cs_selected_payment_method = None, cs_is_active = True,
                    cs_expires_at = clock (env w) (ticks w) + minutes 60, cs_created_at = clock (env w) (ticks w + 3),
                    cs_updated_at = clock (env w) (ticks w + 4)\<rparr>]) (\<lambda>_ _. False) w"
      by (simp add: run numeral_eq_Suc)
    from wp_result [OF this] None show ?thesis by (simp add: active_row_def [symmetric])
  next
    case (Some s)
    show ?thesis
    proof (cases "cs_expires_at s < clock (env w) (ticks w + 7)")
      case True
      with Some have "wp (initiate_buy_now u) (\<lambda>_ _. False)
        (\<lambda>e v. e = HTTPException 410 (Text ''checkout session expired'') \<and> db_checkouts (committed v) =
            upd (\<lambda>x. cs_id x = cs_id s) (\<lambda>x. x\<lparr>cs_is_active := False\<rparr>) (db_checkouts (db w))) w"
        by (simp add: run numeral_eq_Suc)
      from wp_raises [OF this] Some True show ?thesis by (simp add: active_row_def [symmetric])
    next
      case False
      with Some have "wp (initiate_buy_now u)
        (\<lambda>x v. x = \<lparr>cr_checkout_id = cs_public_id s, cr_reserved_until = clock (env w) (ticks w) + minutes 60\<rparr> \<and>
           db_checkouts (committed v) = db_checkouts (db w)) (\<lambda>_ _. False) w"
        by (simp add: run numeral_eq_Suc)
      from wp_result [OF this] Some False show ?thesis by (simp add: active_row_def [symmetric])
    qed
  qed
qed

lemma initiate_spec_witness:
  "fst (initiate_buy_now 7 (start 10 checkout_db)) =
     Inr \<lparr>cr_checkout_id = 90, cr_reserved_until = 10 + minutes 60\<rparr>"
  using initiate_spec [of "start 10 checkout_db" "\<lparr>c_id = 4, c_user_id = Some 7, c_session_id = None\<rparr>"
      "\<lparr>cit_id = 1, cit_cart_id = Some 4, cit_product_id = 1, cit_quantity = 2\<rparr>" 7]
  by (simp add: start_def still_def quiet_def checkout_db_def checkout_row_def empty_db_def
      checkout_active_key_def unique_on_def Let_def)

text \<open>Once a checkout has its snapshot and payment method, asking for its summary again returns
  the same totals, for the method chosen first whatever the client now sends, and changes nothing.\<close>

theorem summary_stable:
  assumes "quiet w" and "unique_on checkout_active_key (db_checkouts (db w))"
    and "s \<in> set (db_checkouts (db w))" and "cs_is_active s"
    and "cs_cart_snapshot s = Some items" and "items \<noteq> []"
    and "cs_selected_payment_method s = Some pm" and "pm \<noteq> []"
    and "clock (env w) (Suc (ticks w)) \<le> cs_expires_at s"
    and "m = Some ''UPI'' \<or> m = Some ''COD''"
  shows "fst (get_order_summary (cs_user_id s) (cs_public_id s) m w) =
      Inr (compute_order_totals items pm (cs_public_id s)) \<and>
    db (snd (get_order_summary (cs_user_id s) (cs_public_id s) m w)) = db w \<and>
    committed (snd (get_order_summary (cs_user_id s) (cs_public_id s) m w)) = committed w"
proof -
  let ?p = "\<lambda>c. cs_user_id c = cs_user_id s \<and> cs_is_active c \<and> cs_public_id c = cs_public_id s"
  have "filter ?p (db_checkouts (db w)) =
      filter (\<lambda>c. cs_public_id c = cs_public_id s)
        (filter (\<lambda>c. checkout_active_key c = Some (cs_user_id s)) (db_checkouts (db w)))"
    by (auto simp: checkout_active_key_def intro!: filter_cong)
  moreover have "s \<in> set (filter (\<lambda>c. checkout_active_key c = Some (cs_user_id s)) (db_checkouts (db w)))"
    using assms(3,4) by (simp add: checkout_active_key_def)
  then have "filter (\<lambda>c. checkout_active_key c = Some (cs_user_id s)) (db_checkouts (db w)) = [s]"
    using unique_filter_cases [OF assms(2), of "cs_user_id s"] by (auto simp del: set_filter)
  ultimately have row: "filter ?p (db_checkouts (db w)) = [s]"
    by (simp del: filter_filter)
  show ?thesis
    using assms by (intro wp_result)
      (auto simp: get_order_summary_def get_checkout_details_def wp_simps row Let_def)
qed

lemma summary_stable_witness:
  "fst (get_order_summary 7 90 (Some ''COD'') (start 10 (empty_db\<lparr>db_checkouts :=
      [(checkout_row 9 90 7 5000)\<lparr>cs_cart_snapshot := Some [line 1 2 4], cs_selected_payment_method := Some ''UPI''\<rparr>]\<rparr>))) =
    Inr (compute_order_totals [line 1 2 4] ''UPI'' 90)"
  using summary_stable [of "start 10 (empty_db\<lparr>db_checkouts :=
      [(checkout_row 9 90 7 5000)\<lparr>cs_cart_snapshot := Some [line 1 2 4], cs_selected_payment_method := Some ''UPI''\<rparr>]\<rparr>)"
      "(checkout_row 9 90 7 5000)\<lparr>cs_cart_snapshot := Some [line 1 2 4], cs_selected_payment_method := Some ''UPI''\<rparr>"
      "[line 1 2 4]" "''UPI''" "Some ''COD''"]
  by (simp add: start_def still_def quiet_def checkout_row_def empty_db_def
      checkout_active_key_def unique_on_def)

end
