(* ===== verification/Payments.thy ===== *)
theory Payments
  imports Checkout
begin

text \<open>
  Payment intents at the payment service provider: \<open>create_psp_order\<close>, \<open>retry_payments\<close> and
  \<open>create_payment_intent\<close> of \<open>backend/orders/services.py\<close> with the statements they use in
  \<open>backend/orders/repository.py\<close>. The provider is a parameter \<open>psp\<close>: the outcome of the HTTP call
  for each request and attempt. Waiting between attempts does not change the state.
\<close>

section \<open>The provider call\<close>

text \<open>What the HTTP call may do: a decoded response, one of the transient transport errors, an
  HTTP error status (status code, response text, message), or any other exception.\<close>

datatype psp_outcome =
    PspOk json
  | PspTransient string
  | PspHttpError "int option" string string
  | PspOther string

record psp_request =
  rq_amount :: int
  rq_currency :: string
  rq_receipt :: nat
  rq_notes :: json
  rq_idempotency_header :: "string option"

text \<open>\<open>create_psp_order\<close>: the request sent. (The receipt is the text \<open>order_\<close> followed by the
  first 20 characters of the order's public id.)\<close>

definition create_psp_order :: "(psp_request \<Rightarrow> int \<Rightarrow> psp_outcome) \<Rightarrow> int \<Rightarrow> string \<Rightarrow> nat \<Rightarrow> json \<Rightarrow>
    string \<Rightarrow> int \<Rightarrow> psp_outcome" where
  "create_psp_order psp amount_paise currency receipt notes idempotency_key =
     psp \<lparr>rq_amount = amount_paise, rq_currency = currency, rq_receipt = receipt,
          rq_notes = py_or notes (JObj []),
          rq_idempotency_header = (if idempotency_key \<noteq> [] then Some idempotency_key else None)\<rparr>"

definition DEFAULT_RETRIES :: int where "DEFAULT_RETRIES = 3"

datatype failure = PspFailure psp_outcome | CodeFailure exc

text \<open>The text of a failure in the error detail (a code failure never reaches it: its transaction
  is aborted and the next statement raises).\<close>

fun failure_text :: "failure \<Rightarrow> string" where
  "failure_text (PspFailure (PspOk j)) = []"
| "failure_text (PspFailure (PspTransient s)) = s"
| "failure_text (PspFailure (PspHttpError c body msg)) = msg"
| "failure_text (PspFailure (PspOther s)) = s"
| "failure_text (CodeFailure e) = []"

section \<open>Statements\<close>

definition record_payment_attempt :: "nat option \<Rightarrow> int \<Rightarrow> attempt_status \<Rightarrow> nat handler" where
  "record_payment_attempt payment_id attempt_no st =
     letM now (\<lambda>t.
     letM (next_id ''paymentattempt'') (\<lambda>i.
     exec (\<lambda>d. case payment_id of
         None \<Rightarrow> Inl IntegrityError
       | Some p \<Rightarrow> Inr (i, d\<lparr>db_attempts := db_attempts d @
           [\<lparr>pa_id = i, pa_payment_id = p, pa_attempt_no = attempt_no, pa_status = attempt_status_value st,
             pa_provider_response = JNull, pa_created_at = t\<rparr>]\<rparr>))))"

definition update_payment_attempt_resp :: "nat \<Rightarrow> attempt_status \<Rightarrow> json \<Rightarrow> unit handler" where
  "update_payment_attempt_resp attempt_id st psp_response =
     modify (db_attempts_update (upd (\<lambda>a. pa_id a = attempt_id)
       (\<lambda>a. a\<lparr>pa_status := attempt_status_value st, pa_provider_response := psp_response\<rparr>)))"

definition pay_id_by_public_payid :: "nat \<Rightarrow> nat option handler" where
  "pay_id_by_public_payid pay_pid =
     letM (query (\<lambda>d. map pay_id (filter (\<lambda>p. pay_public_id p = pay_pid) (db_payments d)))) (\<lambda>rows.
     liftM (one_or_none rows))"

text \<open>An UPDATE is refused when it would leave two rows with the same unique key.\<close>

definition update_payment_status_nprovider :: "nat \<Rightarrow> json \<Rightarrow> unit handler" where
  "update_payment_status_nprovider i provider_order_id =
     exec (\<lambda>d.
       let ps = upd (\<lambda>p. pay_id p = i)
                  (\<lambda>p. p\<lparr>pay_provider_order_id := Some provider_order_id,
                         pay_status := payment_status_value PS_ACCEPTED\<rparr>) (db_payments d) in
       if unique_on payment_provider_order_key ps then Inr ((), d\<lparr>db_payments := ps\<rparr>)
       else Inl IntegrityError)"

definition update_idempotent_response :: "string \<Rightarrow> int \<Rightarrow> json \<Rightarrow> unit handler" where
  "update_idempotent_response key code body =
     modify (db_idempotency_update (upd (\<lambda>k. ik_key k = key)
       (\<lambda>k. k\<lparr>ik_response_code := Some code, ik_response_body := body\<rparr>)))"

section \<open>Retries\<close>

text \<open>Response, non-retryable failure, last retryable failure, number of the last attempt.\<close>

record psp_result =
  pr_resp :: "json option"
  pr_non_retryable :: "failure option"
  pr_retryable :: "failure option"
  pr_attempt :: int

fun server_error :: "int option \<Rightarrow> bool" where
  "server_error None = False"
| "server_error (Some c) = (500 \<le> c \<and> c < 600)"

definition http_json :: "int option \<Rightarrow> string \<Rightarrow> string \<Rightarrow> json" where
  "http_json code kind body =
     JObj [(''http_status'', case code of None \<Rightarrow> JNull | Some c \<Rightarrow> JInt c), (''body'', JStr (kind @ body))]"

text \<open>The loop over the attempt numbers that are left. Each outcome of the call is recorded on the
  attempt's row; an exception of that UPDATE after a successful call lands in the last
  \<open>except\<close> clause.\<close>

primrec retry_loop :: "(int \<Rightarrow> psp_outcome) \<Rightarrow> nat option \<Rightarrow> int \<Rightarrow> int list \<Rightarrow> failure option \<Rightarrow>
    psp_result handler" where
  "retry_loop call payment_id max_retries [] retryable =
     retM \<lparr>pr_resp = None, pr_non_retryable = None, pr_retryable = retryable, pr_attempt = max_retries\<rparr>"
| "retry_loop call payment_id max_retries (i # is) retryable =
     letM (record_payment_attempt payment_id i AS_PENDING) (\<lambda>attempt_id.
     case call i of
       PspOk resp \<Rightarrow>
         tryM (doM (update_payment_attempt_resp attempt_id AS_SUCCESS resp)
                (retM \<lparr>pr_resp = Some resp, pr_non_retryable = None, pr_retryable = None, pr_attempt = i\<rparr>))
           (\<lambda>e. if e = CancelledError then raiseM e
                else doM (update_payment_attempt_resp attempt_id AS_FAILED (JStr (failure_text (CodeFailure e))))
                       (retM \<lparr>pr_resp = None, pr_non_retryable = Some (CodeFailure e),
                              pr_retryable = retryable, pr_attempt = i\<rparr>))
     | PspTransient text \<Rightarrow>
         doM (update_payment_attempt_resp attempt_id AS_RETRYING (JStr text))
             (retry_loop call payment_id max_retries is (Some (PspFailure (call i))))
     | PspHttpError code body msg \<Rightarrow>
         if server_error code
         then doM (update_payment_attempt_resp attempt_id AS_RETRYING (http_json code ''5xx: '' body))
                  (retry_loop call payment_id max_retries is (Some (PspFailure (call i))))
         else doM (update_payment_attempt_resp attempt_id AS_FAILED (http_json code ''4xx: '' body))
                  (retM \<lparr>pr_resp = None, pr_non_retryable = Some (PspFailure (call i)),
                         pr_retryable = retryable, pr_attempt = i\<rparr>)
     | PspOther text \<Rightarrow>
         doM (update_payment_attempt_resp attempt_id AS_FAILED (JStr text))
             (retM \<lparr>pr_resp = None, pr_non_retryable = Some (PspFailure (call i)),
                    pr_retryable = retryable, pr_attempt = i\<rparr>))"

definition retry_payments :: "(int \<Rightarrow> psp_outcome) \<Rightarrow> nat option \<Rightarrow> int \<Rightarrow> psp_result handler" where
  "retry_payments call payment_id max_retries = retry_loop call payment_id max_retries [1..max_retries] None"

section \<open>Payment intents\<close>

text \<open>The dict returned by \<open>place_order_with_items\<close>.\<close>

record order_data =
  od_order_public_id :: nat
  od_order_id :: nat
  od_status :: int
  od_pay_public_id :: "nat option"

definition client_payload :: "json \<Rightarrow> json \<Rightarrow> json" where
  "client_payload provider_order_id psp_resp =
     JObj [(''provider'', JStr ''razorpay''), (''provider_order_id'', provider_order_id),
       (''provider_raw'', psp_resp),
       (''checkout_hint'', JObj [(''type'', JStr ''provider_order''), (''order_id'', provider_order_id),
          (''note'', JStr ''Use Razorpay Checkout or construct UPI deeplink / checkout flow using provider SDK'')])]"

definition intent_response :: "order_data \<Rightarrow> nat \<Rightarrow> json \<Rightarrow> json \<Rightarrow> json" where
  "intent_response order_data pay_pid provider_order_id psp_resp =
     JObj [(''order_public_id'', JUuid (od_order_public_id order_data)),
       (''order_id'', JInt (int (od_order_id order_data))),
       (''payment_public_id'', JUuid pay_pid),
       (''payment_provider_id'', provider_order_id),
       (''payment_client_payload'', client_payload provider_order_id psp_resp),
       (''status'', JStr ''PENDING''),
       (''message'', JStr ''Provider order created; client should open provider checkout/deeplink.'')]"

text \<open>What follows the call: failures become HTTP errors, a response without an order id is recorded
  as an attempt of unknown outcome, and a provider order is stored with the reply for replays.\<close>

definition settle_payment_intent :: "string \<Rightarrow> order_data \<Rightarrow> nat \<Rightarrow> nat option \<Rightarrow> psp_result \<Rightarrow> json handler" where
  "settle_payment_intent idempotency_key order_data pay_pid pay_int_id r =
     (case pr_non_retryable r of
        Some f \<Rightarrow> raiseM (HTTPException 400 (Quote ''Payment attempts failed due to '' (failure_text f)))
      | None \<Rightarrow> (case pr_retryable r of
        Some f \<Rightarrow> raiseM (HTTPException 502 (Quote ''Payment failed due to '' (failure_text f)))
      | None \<Rightarrow> (case pr_resp r of
        None \<Rightarrow> raiseM AttributeError
      | Some psp_resp \<Rightarrow>
          letM (liftM (json_get ''id'' JNull psp_resp)) (\<lambda>provider_order_id.
          if provider_order_id = JNull
          then letM (record_payment_attempt pay_int_id (pr_attempt r + 1) AS_UNKNOWN) (\<lambda>_.
               raiseM (HTTPException 502
                 (Text ''Payment provider unreachable;order and payment in pending state'')))
          else
            doM (update_payment_status_nprovider (the pay_int_id) provider_order_id)
           (let response_body = intent_response order_data pay_pid provider_order_id psp_resp in
            doM (update_idempotent_response idempotency_key 200 response_body)
           (doM commit
           (retM response_body)))))))"

definition create_payment_intent :: "(psp_request \<Rightarrow> int \<Rightarrow> psp_outcome) \<Rightarrow> string \<Rightarrow> order_totals \<Rightarrow>
    order_data \<Rightarrow> nat \<Rightarrow> json handler" where
  "create_payment_intent psp idempotency_key order_totals order_data pay_pid =
     (let amount_in_paise = ot_total order_totals * 100;
          notes = JObj [(''order_public_id'', JUuid (od_order_public_id order_data)),
                        (''payment_public_id'', JUuid pay_pid)];
          call = create_psp_order psp amount_in_paise ''INR'' (od_order_public_id order_data) notes idempotency_key
      in
      letM (pay_id_by_public_payid pay_pid) (\<lambda>pay_int_id.
      letM (retry_payments call pay_int_id DEFAULT_RETRIES) (\<lambda>r.
      settle_payment_intent idempotency_key order_data pay_pid pay_int_id r)))"

section \<open>What the retries record\<close>

text \<open>The reference: status and response recorded for one outcome, the log of a run of attempts, and
  its verdict.\<close>

fun recorded :: "psp_outcome \<Rightarrow> attempt_status \<times> json" where
  "recorded (PspOk resp) = (AS_SUCCESS, resp)"
| "recorded (PspTransient text) = (AS_RETRYING, JStr text)"
| "recorded (PspHttpError code body msg) =
     (if server_error code then (AS_RETRYING, http_json code ''5xx: '' body)
      else (AS_FAILED, http_json code ''4xx: '' body))"
| "recorded (PspOther text) = (AS_FAILED, JStr text)"

definition retryable_outcome :: "psp_outcome \<Rightarrow> bool" where
  "retryable_outcome oc = (fst (recorded oc) = AS_RETRYING)"

primrec attempt_log :: "(int \<Rightarrow> psp_outcome) \<Rightarrow> int list \<Rightarrow> (int \<times> attempt_status \<times> json) list" where
  "attempt_log call [] = []"
| "attempt_log call (i # is) =
     (i, recorded (call i)) # (if retryable_outcome (call i) then attempt_log call is else [])"

primrec psp_verdict :: "(int \<Rightarrow> psp_outcome) \<Rightarrow> int \<Rightarrow> int list \<Rightarrow> failure option \<Rightarrow> psp_result" where
  "psp_verdict call n [] r =
     \<lparr>pr_resp = None, pr_non_retryable = None, pr_retryable = r, pr_attempt = n\<rparr>"
| "psp_verdict call n (i # is) r =
     (if retryable_outcome (call i) then psp_verdict call n is (Some (PspFailure (call i)))
      else case call i of
        PspOk resp \<Rightarrow> \<lparr>pr_resp = Some resp, pr_non_retryable = None, pr_retryable = None, pr_attempt = i\<rparr>
      | _ \<Rightarrow> \<lparr>pr_resp = None, pr_non_retryable = Some (PspFailure (call i)), pr_retryable = r, pr_attempt = i\<rparr>)"

definition attempt_columns :: "payment_attempt \<Rightarrow> nat \<times> int \<times> int \<times> json" where
  "attempt_columns a = (pa_payment_id a, pa_attempt_no a, pa_status a, pa_provider_response a)"

definition log_columns :: "nat \<Rightarrow> int \<times> attempt_status \<times> json \<Rightarrow> nat \<times> int \<times> int \<times> json" where
  "log_columns p l = (p, fst l, attempt_status_value (fst (snd l)), snd (snd l))"

text \<open>Nothing but the attempts table has changed.\<close>

definition only_attempts :: "database \<Rightarrow> database \<Rightarrow> bool" where
  "only_attempts d d' \<longleftrightarrow> d' = d\<lparr>db_attempts := db_attempts d'\<rparr>"

lemma only_attempts_refl [simp]: "only_attempts d d"
  by (simp add: only_attempts_def)

lemma only_attempts_update [simp]: "only_attempts d (db_attempts_update f e) = only_attempts d e"
  by (cases d; cases e) (simp add: only_attempts_def)

lemma only_attempts_trans: "only_attempts d d' \<Longrightarrow> only_attempts d' d'' \<Longrightarrow> only_attempts d d''"
  by (cases d; cases d'; cases d'') (simp add: only_attempts_def)

lemma only_attempts_payments: "only_attempts d d' \<Longrightarrow> db_payments d' = db_payments d"
  by (cases d; cases d') (simp add: only_attempts_def)

definition attempts_fresh :: "state \<Rightarrow> bool" where
  "attempts_fresh w \<longleftrightarrow> (\<forall>a \<in> set (db_attempts (db w)). pa_id a \<le> seqs w ''paymentattempt'')"

lemma attempts_untouched:
  "attempts_fresh w \<Longrightarrow> upd (\<lambda>a. pa_id a = Suc (seqs w ''paymentattempt'')) f (db_attempts (db w)) = db_attempts (db w)"
  by (rule upd_none) (auto simp: attempts_fresh_def)

lemma wp_one_attempt:
  assumes "quiet w" and "attempts_fresh w"
    and "\<And>v. quiet v \<Longrightarrow> attempts_fresh v \<Longrightarrow> committed v = committed w \<Longrightarrow>
      only_attempts (db w) (db v) \<Longrightarrow>
      map attempt_columns (db_attempts (db v)) = map attempt_columns (db_attempts (db w)) @ [log_columns p (i, st, j)] \<Longrightarrow>
      Q () v"
  shows "wp (record_payment_attempt (Some p) i AS_PENDING)
      (\<lambda>a. wp (update_payment_attempt_resp a st j) Q (E\<^sub>1 a)) E\<^sub>2 w"
proof -
  have old: "\<forall>a \<in> set (db_attempts (db w)). pa_id a \<le> Suc (seqs w ''paymentattempt'')"
    using assms(2) by (auto simp: attempts_fresh_def le_SucI)
  show ?thesis
    using assms(1) old attempts_untouched [OF assms(2)]
    by (auto simp: record_payment_attempt_def update_payment_attempt_resp_def wp_simps
        attempts_fresh_def attempt_columns_def log_columns_def only_attempts_def intro!: assms(3))
qed

lemma retry_loop_quiet:
  "quiet w \<Longrightarrow> attempts_fresh w \<Longrightarrow>
   wp (retry_loop call (Some p) n is r)
     (\<lambda>res v. quiet v \<and> attempts_fresh v \<and> committed v = committed w \<and> res = psp_verdict call n is r \<and>
        only_attempts (db w) (db v) \<and>
        map attempt_columns (db_attempts (db v)) =
          map attempt_columns (db_attempts (db w)) @ map (log_columns p) (attempt_log call is))
     (\<lambda>_ _. False) w"
proof (induction "is" arbitrary: w r)
  case Nil
  then show ?case by (simp add: wp_simps)
next
  case (Cons i "is")
  note step = wp_one_attempt [OF Cons.prems(1,2)]
  have more: "wp (retry_loop call (Some p) n is (Some (PspFailure (call i))))
     (\<lambda>res v. quiet v \<and> attempts_fresh v \<and> committed v = committed w \<and> res = psp_verdict call n (i # is) r \<and>
        only_attempts (db w) (db v) \<and>
        map attempt_columns (db_attempts (db v)) =
          map attempt_columns (db_attempts (db w)) @ map (log_columns p) (attempt_log call (i # is)))
     (\<lambda>_ _. False) v"
    if "retryable_outcome (call i)" "quiet v" "attempts_fresh v" "committed v = committed w"
      "only_attempts (db w) (db v)"
      "map attempt_columns (db_attempts (db v)) =
         map attempt_columns (db_attempts (db w)) @ [log_columns p (i, recorded (call i))]" for v
    using that(1,4-) by (intro wp_mono [OF Cons.IH [OF that(2,3)]])
      (auto elim: only_attempts_trans)
  show ?case
  proof (cases "call i")
    case (PspOk j)
    then show ?thesis by (auto simp: wp_simps retryable_outcome_def intro!: step)
  next
    case (PspTransient t)
    then show ?thesis using more by (auto simp: wp_simps retryable_outcome_def intro!: step)
  next
    case (PspHttpError c b m)
    then show ?thesis using more by (auto simp: wp_simps retryable_outcome_def intro!: step)
  next
    case (PspOther t)
    then show ?thesis by (auto simp: wp_simps retryable_outcome_def intro!: step)
  qed
qed

lemma psp_verdict_success:
  assumes "\<forall>i \<in> set before. retryable_outcome (call i)" and "call k = PspOk resp"
  shows "psp_verdict call n (before @ k # rest) r =
      \<lparr>pr_resp = Some resp, pr_non_retryable = None, pr_retryable = None, pr_attempt = k\<rparr>"
    and "attempt_log call (before @ k # rest) =
      map (\<lambda>i. (i, AS_RETRYING, snd (recorded (call i)))) before @ [(k, AS_SUCCESS, resp)]"
  using assms
  by (induction before arbitrary: r) (auto simp: retryable_outcome_def prod_eq_iff)

lemma attempt_log_length: "length (attempt_log call is) \<le> length is"
  by (induction "is") auto

lemma uncommitted_payment_statements [uncommitted_intros]:
  "uncommitted (record_payment_attempt p i st)" "uncommitted (update_payment_attempt_resp a st j)"
  "uncommitted (pay_id_by_public_payid pid)" "uncommitted (update_payment_status_nprovider q j)"
  "uncommitted (update_idempotent_response k c b)"
  by (auto simp: record_payment_attempt_def update_payment_attempt_resp_def pay_id_by_public_payid_def
      update_payment_status_nprovider_def update_idempotent_response_def intro!: uncommitted_intros)

lemma uncommitted_retry_loop [uncommitted_intros]: "uncommitted (retry_loop call p n is r)"
proof (induction "is" arbitrary: r)
  case Nil
  then show ?case by (simp add: uncommitted_intros)
next
  case (Cons i "is")
  have "uncommitted (case call i of
       PspOk resp \<Rightarrow>
         tryM (doM (update_payment_attempt_resp a AS_SUCCESS resp)
                (retM \<lparr>pr_resp = Some resp, pr_non_retryable = None, pr_retryable = None, pr_attempt = i\<rparr>))
           (\<lambda>e. if e = CancelledError then raiseM e
                else doM (update_payment_attempt_resp a AS_FAILED (JStr (failure_text (CodeFailure e))))
                       (retM \<lparr>pr_resp = None, pr_non_retryable = Some (CodeFailure e),
                              pr_retryable = r, pr_attempt = i\<rparr>))
     | PspTransient text \<Rightarrow>
         doM (update_payment_attempt_resp a AS_RETRYING (JStr text))
             (retry_loop call p n is (Some (PspFailure (call i))))
     | PspHttpError code body msg \<Rightarrow>
         if server_error code
         then doM (update_payment_attempt_resp a AS_RETRYING (http_json code ''5xx: '' body))
                  (retry_loop call p n is (Some (PspFailure (call i))))
         else doM (update_payment_attempt_resp a AS_FAILED (http_json code ''4xx: '' body))
                  (retM \<lparr>pr_resp = None, pr_non_retryable = Some (PspFailure (call i)),
                         pr_retryable = r, pr_attempt = i\<rparr>)
     | PspOther text \<Rightarrow>
         doM (update_payment_attempt_resp a AS_FAILED (JStr text))
             (retM \<lparr>pr_resp = None, pr_non_retryable = Some (PspFailure (call i)),
                    pr_retryable = r, pr_attempt = i\<rparr>))" for a
    by (cases "call i") (auto intro!: uncommitted_intros Cons.IH)
  then show ?case by (simp add: uncommitted_intros)
qed

lemma atomic_create_payment_intent: "atomic (create_payment_intent psp k t od pid)"
  unfolding create_payment_intent_def settle_payment_intent_def retry_payments_def Let_def
  by (intro atomic_intros uncommitted_intros atomic_uncommitted [OF uncommitted_basic(2)]
      atomic_uncommitted [OF uncommitted_let])

text \<open>Whatever fails on the way, attempts that return have changed the attempts table only.\<close>

lemma returns_record_attempt:
  "only_attempts d (db w) \<Longrightarrow> returns (record_payment_attempt p i st) (\<lambda>a v. only_attempts d (db v)) w"
  by (auto simp: record_payment_attempt_def returns_simps split: option.splits)

lemma returns_update_attempt:
  "only_attempts d (db w) \<Longrightarrow> returns (update_payment_attempt_resp a st j) (\<lambda>_ v. only_attempts d (db v)) w"
  by (auto simp: update_payment_attempt_resp_def returns_simps)

lemma returns_attempt_succeeded:
  assumes "only_attempts d (db w)"
  shows "returns (tryM (doM (update_payment_attempt_resp a st j) (retM x))
      (\<lambda>e. if e = CancelledError then raiseM e
           else doM (update_payment_attempt_resp a st' (j' e)) (retM (y e)))) (\<lambda>_ v. only_attempts d (db v)) w"
  using assms
  by (intro returns_try)
    (auto simp: wp_do wp_ret wp_modify update_payment_attempt_resp_def returns_simps
      split: option.split)

lemma no_payment_no_return: "returns (retry_loop call None n (i # is) r) (\<lambda>_ _. False) w"
  by (simp add: returns_let) (simp add: record_payment_attempt_def returns_simps)

lemma returns_retry_loop:
  "only_attempts d (db w) \<Longrightarrow> returns (retry_loop call p n is r) (\<lambda>_ v. only_attempts d (db v)) w"
proof (induction "is" arbitrary: w r)
  case Nil
  then show ?case by (simp add: returns_ret)
next
  case (Cons i "is")
  show ?case
    unfolding retry_loop.simps returns_let
  proof (rule returns_mono [OF returns_record_attempt [OF Cons.prems]])
    fix a and v :: state
    assume v: "only_attempts d (db v)"
    note upd = returns_update_attempt [OF v, THEN returns_mono]
    show "returns (case call i of
       PspOk resp \<Rightarrow>
         tryM (doM (update_payment_attempt_resp a AS_SUCCESS resp)
                (retM \<lparr>pr_resp = Some resp, pr_non_retryable = None, pr_retryable = None, pr_attempt = i\<rparr>))
           (\<lambda>e. if e = CancelledError then raiseM e
                else doM (update_payment_attempt_resp a AS_FAILED (JStr (failure_text (CodeFailure e))))
                       (retM \<lparr>pr_resp = None, pr_non_retryable = Some (CodeFailure e),
                              pr_retryable = r, pr_attempt = i\<rparr>))
     | PspTransient text \<Rightarrow>
         doM (update_payment_attempt_resp a AS_RETRYING (JStr text))
             (retry_loop call p n is (Some (PspFailure (call i))))
     | PspHttpError code body msg \<Rightarrow>
         if server_error code
         then doM (update_payment_attempt_resp a AS_RETRYING (http_json code ''5xx: '' body))
                  (retry_loop call p n is (Some (PspFailure (call i))))
         else doM (update_payment_attempt_resp a AS_FAILED (http_json code ''4xx: '' body))
                  (retM \<lparr>pr_resp = None, pr_non_retryable = Some (PspFailure (call i)),
                         pr_retryable = r, pr_attempt = i\<rparr>)
     | PspOther text \<Rightarrow>
         doM (update_payment_attempt_resp a AS_FAILED (JStr text))
             (retM \<lparr>pr_resp = None, pr_non_retryable = Some (PspFailure (call i)),
                    pr_retryable = r, pr_attempt = i\<rparr>)) (\<lambda>_ v. only_attempts d (db v)) v"
      by (cases "call i")
        (auto simp: returns_do returns_ret returns_if intro!: upd Cons.IH returns_attempt_succeeded [OF v])
  qed
qed

text \<open>A payment intent that returns has accepted the payment and stored the reply, and has committed
  nothing else than that and its attempts.\<close>

definition intent_made :: "string \<Rightarrow> nat \<Rightarrow> json \<Rightarrow> database \<Rightarrow> database \<Rightarrow> bool" where
  "intent_made key pid r d d' \<longleftrightarrow>
     (\<exists>i j. map pay_id (filter (\<lambda>p. pay_public_id p = pid) (db_payments d)) = [i] \<and>
        db_payments d' = upd (\<lambda>p. pay_id p = i)
          (\<lambda>p. p\<lparr>pay_provider_order_id := Some j, pay_status := payment_status_value PS_ACCEPTED\<rparr>) (db_payments d)) \<and>
     db_idempotency d' = upd (\<lambda>k. ik_key k = key)
       (\<lambda>k. k\<lparr>ik_response_code := Some 200, ik_response_body := r\<rparr>) (db_idempotency d) \<and>
     db_orders d' = db_orders d \<and> db_order_items d' = db_order_items d \<and> db_checkouts d' = db_checkouts d"

lemma only_attempts_tables:
  "only_attempts d d' \<Longrightarrow> db_orders d' = db_orders d \<and> db_order_items d' = db_order_items d \<and>
     db_payments d' = db_payments d \<and> db_checkouts d' = db_checkouts d \<and> db_idempotency d' = db_idempotency d"
  by (cases d; cases d') (simp add: only_attempts_def)

lemma returns_settle:
  assumes "map pay_id (filter (\<lambda>p. pay_public_id p = pid) (db_payments d)) = [i]" and "only_attempts d (db w)"
  shows "returns (settle_payment_intent key od pid (Some i) r)
      (\<lambda>x v. intent_made key pid x d (db v) \<and> committed v = db v) w"
  using assms only_attempts_tables [OF assms(2)]
  by (auto simp: settle_payment_intent_def returns_simps update_payment_status_nprovider_def
      update_idempotent_response_def record_payment_attempt_def intent_made_def Let_def
      split: option.split if_splits)

lemma returns_create_payment_intent:
  "returns (create_payment_intent psp key t od pid)
     (\<lambda>x v. intent_made key pid x (db w) (db v) \<and> committed v = db v) w"
proof (cases "one_or_none (map pay_id (filter (\<lambda>p. pay_public_id p = pid) (db_payments (db w))))")
  case (Inl e)
  then show ?thesis by (simp add: create_payment_intent_def pay_id_by_public_payid_def returns_simps Let_def)
next
  case (Inr r)
  show ?thesis
  proof (cases r)
    case None
    have "[1..DEFAULT_RETRIES] = 1 # [2..3]" by (simp add: DEFAULT_RETRIES_def upto.simps)
    with Inr None show ?thesis
      using returns_mono [OF no_payment_no_return]
      by (simp add: create_payment_intent_def pay_id_by_public_payid_def returns_simps Let_def
          retry_payments_def)
  next
    case (Some i)
    with Inr have i: "map pay_id (filter (\<lambda>p. pay_public_id p = pid) (db_payments (db w))) = [i]"
      by (cases "map pay_id (filter (\<lambda>p. pay_public_id p = pid) (db_payments (db w)))" rule: one_or_none.cases) auto
    show ?thesis
      unfolding create_payment_intent_def pay_id_by_public_payid_def Let_def returns_let returns_query returns_lift
        retry_payments_def
      by (auto simp: i intro!: returns_mono [OF returns_retry_loop [of "db w"]] returns_settle [OF i])
  qed
qed

section \<open>Properties\<close>

text \<open>A payment intent that fails for whatever reason (the provider refuses, stays unreachable,
  answers without an order id, or a statement fails) has committed nothing: neither the payment's
  status nor any record of the attempts made survives, although every attempt was written.\<close>

theorem failed_intent_leaves_nothing:
  "create_payment_intent psp key totals od pid w = (Inl e, w') \<Longrightarrow> committed w' = committed w"
  by (rule atomicD [OF atomic_create_payment_intent])

definition payment_row :: "nat \<Rightarrow> nat \<Rightarrow> nat \<Rightarrow> int \<Rightarrow> payment" where
  "payment_row i pid ord st = \<lparr>pay_id = i, pay_public_id = pid, pay_order_id = ord, pay_provider = ''razorpay'',
     pay_provider_payment_id = None, pay_provider_order_id = None, pay_status = st, pay_amount = 510,
     pay_paid_at = None\<rparr>"

definition payment_db :: database where
  "payment_db = empty_db\<lparr>db_payments := [payment_row 5 77 3 0]\<rparr>"

definition flaky :: "psp_request \<Rightarrow> int \<Rightarrow> psp_outcome" where
  "flaky rq i = (if i < 3 then PspHttpError (Some 503) ''busy'' ''Server error'' else PspOk (JObj [(''id'', JStr ''order_X'')]))"

definition sample_order :: order_data where
  "sample_order = \<lparr>od_order_public_id = 60, od_order_id = 3, od_status = 10, od_pay_public_id = Some 77\<rparr>"

lemma failed_intent_leaves_nothing_witness:
  "let run = create_payment_intent (\<lambda>_ _. PspTransient ''timeout'') ''k'' (compute_final_total [line 1 2 4] ''UPI'')
      sample_order 77 (start 10 payment_db)
   in fst run = Inl (HTTPException 502 (Quote ''Payment failed due to '' ''timeout'')) \<and> committed (snd run) = payment_db"
proof -
  let ?run = "create_payment_intent (\<lambda>_ _. PspTransient ''timeout'') ''k'' (compute_final_total [line 1 2 4] ''UPI'')
      sample_order 77 (start 10 payment_db)"
  have e: "fst ?run = Inl (HTTPException 502 (Quote ''Payment failed due to '' ''timeout''))" by code_simp
  then have "?run = (Inl (HTTPException 502 (Quote ''Payment failed due to '' ''timeout'')), snd ?run)"
    by (metis prod.collapse)
  from failed_intent_leaves_nothing [OF this] have "committed (snd ?run) = committed (start 10 payment_db)" .
  then show ?thesis unfolding Let_def e by (simp add: start_def)
qed

text \<open>C11: When the provider accepts at attempt \<open>k\<close> after retryable failures only (transport errors or
  5xx), the intent succeeds: the response names the provider's order, the payment is committed as
  ACCEPTED with that order id, and the attempts log gets one row per attempt, in order: RETRYING
  with its error for each failed one, SUCCESS with the response for the last.\<close>

theorem intent_after_retries:
  assumes "quiet w" and "attempts_fresh w"
    and "filter (\<lambda>p. pay_public_id p = pid) (db_payments (db w)) = [p]"
    and "call = create_psp_order psp (ot_total totals * 100) ''INR'' (od_order_public_id od)
       (JObj [(''order_public_id'', JUuid (od_order_public_id od)), (''payment_public_id'', JUuid pid)]) key"
    and "k \<in> {1..3}" and "\<forall>i \<in> {1..<k}. retryable_outcome (call i)"
    and "call k = PspOk (JObj kvs)" and "map_of kvs ''id'' = Some j" and "j \<noteq> JNull"
    and "payments = upd (\<lambda>x. pay_id x = pay_id p)
       (\<lambda>x. x\<lparr>pay_provider_order_id := Some j, pay_status := payment_status_value PS_ACCEPTED\<rparr>) (db_payments (db w))"
    and "unique_on payment_provider_order_key payments"
  shows "let run = create_payment_intent psp key totals od pid w; d = committed (snd run) in
     fst run = Inr (intent_response od pid j (JObj kvs)) \<and> db_payments d = payments \<and>
     map attempt_columns (db_attempts d) = map attempt_columns (db_attempts (db w)) @
       map (\<lambda>i. (pay_id p, i, attempt_status_value AS_RETRYING, snd (recorded (call i)))) [1..k - 1] @
       [(pay_id p, k, attempt_status_value AS_SUCCESS, JObj kvs)]"
proof -
  have split: "[1..3] = [1..k - 1] @ k # [k + 1..3]" and pre: "\<forall>i \<in> set [1..k - 1]. retryable_outcome (call i)"
    using assms(5,6) upto_split2 [of 1 k 3] upto_rec2 [of 1 k] by auto
  note verdict = psp_verdict_success [OF pre assms(7)]
  have "wp (create_payment_intent psp key totals od pid) (\<lambda>x v.
      x = intent_response od pid j (JObj kvs) \<and> db_payments (committed v) = payments \<and>
      map attempt_columns (db_attempts (committed v)) = map attempt_columns (db_attempts (db w)) @
       map (log_columns (pay_id p)) (attempt_log call [1..3])) (\<lambda>_ _. False) w"
    unfolding create_payment_intent_def retry_payments_def assms(4) [symmetric] Let_def wp_let
      pay_id_by_public_payid_def wp_query_quiet [OF assms(1)] assms(3) DEFAULT_RETRIES_def
  proof (simp add: wp_lift, rule wp_mono [OF retry_loop_quiet])
    show "quiet (tick w)" "attempts_fresh (tick w)"
      using assms(1,2) by (simp_all add: attempts_fresh_def)
  next
    fix r v
    assume v: "quiet v \<and> attempts_fresh v \<and> committed v = committed (tick w) \<and>
        r = psp_verdict call 3 [1..3] None \<and> only_attempts (db (tick w)) (db v) \<and>
        map attempt_columns (db_attempts (db v)) =
          map attempt_columns (db_attempts (db (tick w))) @ map (log_columns (pay_id p)) (attempt_log call [1..3])"
    then have "r = \<lparr>pr_resp = Some (JObj kvs), pr_non_retryable = None, pr_retryable = None, pr_attempt = k\<rparr>"
      using verdict(1) [of 3 "[k + 1..3]" None] by (simp only: split)
    moreover have "db_payments (db v) = db_payments (db w)"
      using v by (simp add: only_attempts_payments)
    ultimately show "wp (settle_payment_intent key od pid (Some (pay_id p)) r) (\<lambda>x v.
      x = intent_response od pid j (JObj kvs) \<and> db_payments (committed v) = payments \<and>
      map attempt_columns (db_attempts (committed v)) = map attempt_columns (db_attempts (db w)) @
       map (log_columns (pay_id p)) (attempt_log call [1..3])) (\<lambda>_ _. False) v"
      using assms(8-11) v
      by (simp add: settle_payment_intent_def wp_simps update_payment_status_nprovider_def
          update_idempotent_response_def Let_def)
  qed simp
  from wp_result [OF this] show ?thesis
    unfolding Let_def split verdict(2) by (simp add: log_columns_def comp_def)
qed

lemma intent_after_retries_witness:
  "fst (create_payment_intent flaky ''k'' (compute_final_total [line 1 2 4] ''UPI'') sample_order 77
      (start 10 payment_db)) =
     Inr (intent_response sample_order 77 (JStr ''order_X'') (JObj [(''id'', JStr ''order_X'')]))"
  using intent_after_retries [of "start 10 payment_db" 77 "payment_row 5 77 3 0"
      "create_psp_order flaky (ot_total (compute_final_total [line 1 2 4] ''UPI'') * 100) ''INR'' (od_order_public_id sample_order)
       (JObj [(''order_public_id'', JUuid (od_order_public_id sample_order)), (''payment_public_id'', JUuid 77)]) ''k''"
      flaky "compute_final_total [line 1 2 4] ''UPI''" sample_order "''k''" 3 "[(''id'', JStr ''order_X'')]" "JStr ''order_X''"]
  by (simp add: start_def still_def quiet_def attempts_fresh_def payment_db_def empty_db_def payment_row_def
      create_psp_order_def flaky_def retryable_outcome_def unique_on_def payment_provider_order_key_def Let_def)

end
