(* ===== verification/Place_Order.thy ===== *)
theory Place_Order
  imports Payments
begin

text \<open>
  Placing an order: the idempotency records, \<open>place_order_with_items\<close> and the statements it uses
  in \<open>backend/orders/repository.py\<close>, and the \<open>place_order\<close> endpoint of
  \<open>backend/orders/routes.py\<close>. The provider (\<open>psp\<close>), SHA-256 and the outcome of the advisory lock
  are parameters; the endpoint does not use the lock's outcome.
\<close>

section \<open>Idempotency records\<close>

text \<open>The dict built from the stored record; also the replayed response.\<close>

record stored_order =
  so_response_body :: json
  so_response_code :: "int option"
  so_ik_id :: nat
  so_cs_id :: nat

definition spc_by_ikey :: "string \<Rightarrow> nat \<Rightarrow> stored_order option handler" where
  "spc_by_ikey i_key user_id =
     letM (query (\<lambda>d. filter (\<lambda>k. ik_key k = i_key \<and> ik_created_by k = user_id) (db_idempotency d))) (\<lambda>rows.
     letM (liftM (one_or_none rows)) (\<lambda>res.
     case res of
       None \<Rightarrow> retM None
     | Some k \<Rightarrow>
         letM now (\<lambda>t.
         if ik_expires_at k < t + seconds 40
         then raiseM (HTTPException 410 (Text ''Checkout and order idempotency already expired''))
         else retM (Some \<lparr>so_response_body = ik_response_body k, so_response_code = ik_response_code k,
                          so_ik_id = ik_id k, so_cs_id = ik_cs_id k\<rparr>))))"

definition response_by_ikey :: "string \<Rightarrow> nat \<Rightarrow> stored_order option handler" where
  "response_by_ikey idempotency_key user_identifier =
     letM (spc_by_ikey idempotency_key user_identifier) (\<lambda>order_npay_data.
     case order_npay_data of
       None \<Rightarrow> retM None
     | Some r \<Rightarrow> if so_response_body r \<noteq> JNull then retM (Some r) else retM None)"

definition record_order_idempotency :: "string \<Rightarrow> nat \<Rightarrow> nat \<Rightarrow> nat option handler" where
  "record_order_idempotency idempotency_key user_identifier checkout =
     letM now (\<lambda>now_ts.
     letM (next_id ''idempotencykey'') (\<lambda>i.
     let row = \<lparr>ik_id = i, ik_key = idempotency_key, ik_cs_id = checkout, ik_created_by = user_identifier,
                ik_owner_type = None, ik_owner_id = None, ik_response_code = None, ik_response_body = JNull,
                ik_status = idempotency_status_value IS_PENDING, ik_created_at = now_ts,
                ik_expires_at = now_ts + days 1\<rparr> in
     exec (\<lambda>d. Inr (if conflict idempotency_key_key row (db_idempotency d) then None else Some i,
                    db_idempotency_update (insert_nothing idempotency_key_key row) d))))"

section \<open>The order and its payment\<close>

definition validate_checkout_get_items_paymethod ::
    "nat \<Rightarrow> nat \<Rightarrow> (nat \<times> snapshot_item list \<times> string) handler" where
  "validate_checkout_get_items_paymethod checkout_id user_id =
     letM (query (\<lambda>d. filter (\<lambda>c. cs_user_id c = user_id \<and> cs_is_active c \<and> cs_public_id c = checkout_id)
                             (db_checkouts d))) (\<lambda>rows.
     letM (liftM (one_or_none rows)) (\<lambda>cs.
     case cs of
       None \<Rightarrow> raiseM (HTTPException 403 (Text ''Checkout session not found or unauthorized''))
     | Some c \<Rightarrow>
         letM now (\<lambda>t.
         if cs_expires_at c < t + seconds 40
         then doM (update_checkout_activeness (cs_id c) False)
                (raiseM (HTTPException 410 (Text ''Checkout session expired'')))
         else
           (let payment_method = (case cs_selected_payment_method c of None \<Rightarrow> [] | Some m \<Rightarrow> m);
                items = (case cs_cart_snapshot c of None \<Rightarrow> [] | Some its \<Rightarrow> its)
            in if payment_method = []
               then raiseM (HTTPException 409 (Text ''Payment method not selected''))
               else if items = []
               then raiseM (HTTPException 409 (Text ''Checkout has no items''))
               else retM (cs_id c, items, payment_method)))))"

text \<open>\<open>session.add(order); await session.flush()\<close>: refused when the key's row already has an order.\<close>

definition insert_order :: "nat \<Rightarrow> string \<Rightarrow> order_totals \<Rightarrow> nat \<Rightarrow> order handler" where
  "insert_order user_id payment_method totals i_key =
     letM now (\<lambda>placed. letM now (\<lambda>created. letM now (\<lambda>updated.
     letM uuid7 (\<lambda>pid.
     letM (next_id ''orders'') (\<lambda>i.
     let row = \<lparr>o_id = i, o_public_id = pid, o_ik_id = i_key, o_user_id = user_id,
                o_status = order_status_value (if payment_method = ''UPI'' then OS_PENDING_PAYMENT else OS_CONFIRMED),
                o_subtotal = ot_subtotal totals, o_tax = ot_tax totals, o_shipping = ot_shipping totals,
                o_discount = ot_discount totals, o_total = ot_total totals,
                o_created_at = created, o_updated_at = updated, o_placed_at = placed\<rparr> in
     exec (\<lambda>d. if conflict order_ik_key row (db_orders d) then Inl IntegrityError
               else Inr (row, d\<lparr>db_orders := db_orders d @ [row]\<rparr>)))))))"

definition insert_order_item :: "nat \<Rightarrow> snapshot_item \<Rightarrow> unit handler" where
  "insert_order_item order_id it =
     letM (next_id ''orderitem'') (\<lambda>i.
     let row = \<lparr>oi_id = i, oi_order_id = order_id, oi_product_id = product_id it, oi_quantity = quantity it,
                oi_unit_price_snapshot = prod_base_price it, oi_tax_snapshot = line_tax it,
                oi_discount_snapshot = 0\<rparr> in
     exec (\<lambda>d. if conflict order_item_key row (db_order_items d) then Inl IntegrityError
               else Inr ((), d\<lparr>db_order_items := db_order_items d @ [row]\<rparr>)))"

definition record_payment_init_pending :: "nat \<Rightarrow> int \<Rightarrow> string \<Rightarrow> nat handler" where
  "record_payment_init_pending order_id order_total provider =
     letM uuid7 (\<lambda>pid.
     letM (next_id ''payment'') (\<lambda>i.
     let row = \<lparr>pay_id = i, pay_public_id = pid, pay_order_id = order_id, pay_provider = provider,
                pay_provider_payment_id = None, pay_provider_order_id = None,
                pay_status = payment_status_value PS_PENDING, pay_amount = order_total, pay_paid_at = None\<rparr> in
     exec (\<lambda>d. if conflict payment_order_key row (db_payments d) then Inl IntegrityError
               else Inr (pid, d\<lparr>db_payments := db_payments d @ [row]\<rparr>))))"

text \<open>\<open>json.dumps\<close> accepts the values of JSON but no UUID.\<close>

fun json_dumps :: "json \<Rightarrow> exc + unit" where
  "json_dumps (JUuid u) = Inl TypeError"
| "json_dumps (JTime t) = Inl TypeError"
| "json_dumps (JList xs) = (if \<exists>x \<in> set xs. json_dumps x = Inl TypeError then Inl TypeError else Inr ())"
| "json_dumps (JObj kvs) = (if \<exists>kv \<in> set kvs. json_dumps (snd kv) = Inl TypeError then Inl TypeError else Inr ())"
| "json_dumps _ = Inr ()"

definition update_order_idempotency_record ::
    "nat \<Rightarrow> nat \<Rightarrow> nat \<Rightarrow> int option \<Rightarrow> json \<Rightarrow> string \<Rightarrow> unit handler" where
  "update_order_idempotency_record user_id i owner_id response_code response_body owner_type =
     doM (whenM (truthy response_body) (liftM (json_dumps response_body)))
    (modify (db_idempotency_update (upd (\<lambda>k. ik_id k = i \<and> ik_created_by k = user_id)
       (\<lambda>k. k\<lparr>ik_owner_id := Some owner_id, ik_owner_type := Some owner_type,
              ik_response_body := response_body, ik_response_code := response_code\<rparr>))))"

definition order_response :: "order \<Rightarrow> json" where
  "order_response ord = JObj [(''order_public_id'', JUuid (o_public_id ord)),
     (''order_id'', JInt (int (o_id ord))), (''status'', JInt (o_status ord))]"

definition place_order_with_items ::
    "nat \<Rightarrow> string \<Rightarrow> order_totals \<Rightarrow> nat \<Rightarrow> order_data handler" where
  "place_order_with_items user_id payment_method totals i_key =
     letM (insert_order user_id payment_method totals i_key) (\<lambda>ord.
     doM (forM (ot_items totals) (insert_order_item (o_id ord)))
     (let response = (\<lambda>pay. \<lparr>od_order_public_id = o_public_id ord, od_order_id = o_id ord,
                             od_status = o_status ord, od_pay_public_id = pay\<rparr>) in
      if payment_method = ''UPI''
      then
        letM (record_payment_init_pending (o_id ord) (ot_total totals) ''razorpay'') (\<lambda>pid.
        doM (update_order_idempotency_record user_id i_key (o_id ord) None JNull ''pay_now'')
        (retM (response (Some pid))))
      else
        doM (update_order_idempotency_record user_id i_key (o_id ord) (Some 200) (order_response ord)
               ''order_confirm'')
        (retM (response None))))"

section \<open>The endpoint\<close>

datatype order_reply =
    Replayed stored_order
  | PaymentIntent json
  | OrderPlaced order_data

definition acquire_pglock :: "bool \<Rightarrow> int \<Rightarrow> bool handler" where
  "acquire_pglock outcome lock_key = query (\<lambda>_. outcome)"

text \<open>From the idempotency row on: order, items, payment and idempotency record in one commit, then the
  payment intent for UPI, then the checkout is closed.\<close>

definition finish_order :: "(psp_request \<Rightarrow> int \<Rightarrow> psp_outcome) \<Rightarrow> nat \<Rightarrow> nat \<Rightarrow> snapshot_item list \<Rightarrow>
    string \<Rightarrow> string \<Rightarrow> nat \<Rightarrow> order_reply handler" where
  "finish_order psp user_identifier checkout items payment_method idempotency_key k =
     (let totals = compute_final_total items payment_method in
      letM (place_order_with_items user_identifier payment_method totals k) (\<lambda>resp.
      doM commit
      (case od_pay_public_id resp of
         Some pid \<Rightarrow>
           letM (create_payment_intent psp idempotency_key totals resp pid) (\<lambda>r.
           doM (update_checkout_activeness checkout False)
           (retM (PaymentIntent r)))
       | None \<Rightarrow> retM (OrderPlaced resp))))"

text \<open>Claim the key. When another row holds it, wait and read it again: its answer is replayed, its
  row is reused, and subscripting \<open>None\<close> is a TypeError when the row is another user's.\<close>

definition claim_key :: "(psp_request \<Rightarrow> int \<Rightarrow> psp_outcome) \<Rightarrow> nat \<Rightarrow> nat \<Rightarrow> snapshot_item list \<Rightarrow>
    string \<Rightarrow> string \<Rightarrow> order_reply handler" where
  "claim_key psp user_identifier checkout items payment_method idempotency_key =
     letM (record_order_idempotency idempotency_key user_identifier checkout) (\<lambda>claimed.
     case claimed of
       Some k \<Rightarrow> finish_order psp user_identifier checkout items payment_method idempotency_key k
     | None \<Rightarrow>
         letM (spc_by_ikey idempotency_key user_identifier) (\<lambda>again.
         case again of
           None \<Rightarrow> raiseM TypeError
         | Some r \<Rightarrow>
             if so_response_body r \<noteq> JNull then retM (Replayed r)
             else finish_order psp user_identifier checkout items payment_method idempotency_key (so_ik_id r)))"

definition place_order :: "(psp_request \<Rightarrow> int \<Rightarrow> psp_outcome) \<Rightarrow> (string \<Rightarrow> 8 word list) \<Rightarrow> bool \<Rightarrow>
    nat \<Rightarrow> nat \<Rightarrow> string \<Rightarrow> order_reply handler" where
  "place_order psp sha256 lock user_identifier checkout_id idempotency_key =
     (if idempotency_key = []
      then raiseM (HTTPException 400 (Text ''Idempotency-Key header is required for order confirm''))
      else
        letM (validate_checkout_get_items_paymethod checkout_id user_identifier)
          (\<lambda>(checkout, items, payment_method).
        letM (acquire_pglock lock (idempotency_lock_key sha256 idempotency_key)) (\<lambda>got_lock.
        letM (spc_by_ikey idempotency_key user_identifier) (\<lambda>order_data_by_ik.
        case order_data_by_ik of
          Some r \<Rightarrow>
            if so_cs_id r \<noteq> checkout
            then raiseM (HTTPException 400 (Text ''Unauthorized checkout session for provided idempotency key''))
            else if so_response_body r \<noteq> JNull then retM (Replayed r)
            else claim_key psp user_identifier checkout items payment_method idempotency_key
        | None \<Rightarrow> claim_key psp user_identifier checkout items payment_method idempotency_key))))"

section \<open>Invariant: one order per key, one payment per order\<close>

definition order_ok :: "database \<Rightarrow> bool" where
  "order_ok d \<longleftrightarrow> unique_on order_ik_key (db_orders d) \<and> unique_on order_item_key (db_order_items d) \<and>
     unique_on idempotency_key_key (db_idempotency d) \<and>
     unique_on payment_order_key (db_payments d) \<and> unique_on payment_provider_order_key (db_payments d)"

lemma keeps_spc_by_ikey [keeps_intros]: "keeps J (spc_by_ikey k u)"
  unfolding spc_by_ikey_def by (intro keeps_intros)

lemma keeps_record_order_idempotency [keeps_intros]: "keeps order_ok (record_order_idempotency k u i)"
  unfolding record_order_idempotency_def Let_def
  by (intro keeps_intros keeps_exec) (auto simp: order_ok_def insert_nothing.ins_unique)

lemma keeps_order_activeness [keeps_intros]: "keeps order_ok (update_checkout_activeness i b)"
  unfolding update_checkout_activeness_def
  by (intro keeps_intros keeps_modify) (simp add: order_ok_def)

lemma keeps_validate_checkout [keeps_intros]:
  "keeps order_ok (validate_checkout_get_items_paymethod cid u)"
  unfolding validate_checkout_get_items_paymethod_def Let_def by (intro keeps_intros)

lemma keeps_insert_order [keeps_intros]: "keeps order_ok (insert_order u m t k)"
  unfolding insert_order_def Let_def
  by (intro keeps_intros keeps_exec) (auto simp: order_ok_def unique_on_snoc split: if_splits)

lemma keeps_insert_order_item [keeps_intros]: "keeps order_ok (insert_order_item i it)"
  unfolding insert_order_item_def Let_def
  by (intro keeps_intros keeps_exec) (auto simp: order_ok_def unique_on_snoc split: if_splits)

lemma keeps_record_payment_init_pending [keeps_intros]: "keeps order_ok (record_payment_init_pending i t p)"
  unfolding record_payment_init_pending_def Let_def
  by (intro keeps_intros keeps_exec)
    (auto simp: order_ok_def unique_on_snoc conflict_def payment_provider_order_key_def split: if_splits)

lemma keeps_update_order_idempotency_record [keeps_intros]:
  "keeps order_ok (update_order_idempotency_record u i own c b ty)"
  unfolding update_order_idempotency_record_def
  by (intro keeps_intros keeps_modify)
    (auto simp: order_ok_def idempotency_key_key_def intro!: unique_on_upd)

lemma keeps_place_order_with_items [keeps_intros]: "keeps order_ok (place_order_with_items u m t k)"
  unfolding place_order_with_items_def Let_def by (intro keeps_intros)

lemma keeps_attempts [keeps_intros]:
  "keeps order_ok (record_payment_attempt p i st)" "keeps order_ok (update_payment_attempt_resp a st j)"
  unfolding record_payment_attempt_def update_payment_attempt_resp_def
  by (intro keeps_intros keeps_exec keeps_modify; auto simp: order_ok_def split: option.splits)+

lemma keeps_retry_loop [keeps_intros]: "keeps order_ok (retry_loop call p n is r)"
proof (induction "is" arbitrary: r)
  case Nil
  then show ?case by (simp add: keeps_ret)
next
  case (Cons i "is")
  then show ?case
    by (cases "call i") (auto intro!: keeps_intros)
qed

lemma keeps_create_payment_intent [keeps_intros]: "keeps order_ok (create_payment_intent psp k t od pid)"
  unfolding create_payment_intent_def settle_payment_intent_def retry_payments_def Let_def
    pay_id_by_public_payid_def update_payment_status_nprovider_def update_idempotent_response_def
  by (intro keeps_intros keeps_exec keeps_modify)
    (auto simp: order_ok_def idempotency_key_key_def payment_order_key_def intro!: unique_on_upd split: if_splits)

lemma keeps_place_order [keeps_intros]: "keeps order_ok (place_order psp sha256 lock u cid key)"
  unfolding place_order_def claim_key_def finish_order_def acquire_pglock_def Let_def
  by (intro keeps_intros)

lemma returns_validate_checkout:
  assumes "\<And>c items pm. c \<in> set (db_checkouts (db w)) \<Longrightarrow> cs_user_id c = u \<Longrightarrow> cs_is_active c \<Longrightarrow>
      cs_public_id c = cid \<Longrightarrow> cs_cart_snapshot c = Some items \<Longrightarrow> items \<noteq> [] \<Longrightarrow>
      cs_selected_payment_method c = Some pm \<Longrightarrow> pm \<noteq> [] \<Longrightarrow> Q (cs_id c, items, pm) (tick (tick w))"
  shows "returns (validate_checkout_get_items_paymethod cid u) Q w"
proof -
  have found: "returns (letM now (\<lambda>t. if cs_expires_at c < t + seconds 40
         then doM (update_checkout_activeness (cs_id c) False)
                (raiseM (HTTPException 410 (Text ''Checkout session expired'')))
         else
           (let payment_method = (case cs_selected_payment_method c of None \<Rightarrow> [] | Some m \<Rightarrow> m);
                items = (case cs_cart_snapshot c of None \<Rightarrow> [] | Some its \<Rightarrow> its)
            in if payment_method = []
               then raiseM (HTTPException 409 (Text ''Payment method not selected''))
               else if items = []
               then raiseM (HTTPException 409 (Text ''Checkout has no items''))
               else retM (cs_id c, items, payment_method)))) Q (tick w)"
    if "c \<in> set (filter (\<lambda>c. cs_user_id c = u \<and> cs_is_active c \<and> cs_public_id c = cid) (db_checkouts (db w)))" for c
    using that assms [of c]
    by (auto simp: returns_simps update_checkout_activeness_def Let_def split: option.split)
  show ?thesis
  proof (cases "one_or_none (filter (\<lambda>c. cs_user_id c = u \<and> cs_is_active c \<and> cs_public_id c = cid) (db_checkouts (db w)))")
    case (Inl e)
    then show ?thesis by (simp add: validate_checkout_get_items_paymethod_def returns_simps)
  next
    case (Inr r)
    show ?thesis
    proof (cases r)
      case None
      with Inr show ?thesis by (simp add: validate_checkout_get_items_paymethod_def returns_simps)
    next
      case (Some c)
      with Inr found [OF one_or_none_mem] show ?thesis
        by (auto simp: validate_checkout_get_items_paymethod_def returns_simps update_checkout_activeness_def)
    qed
  qed
qed

section \<open>Cash on delivery\<close>

lemma uncommitted_order_statements [uncommitted_intros]:
  "uncommitted (spc_by_ikey key u)" "uncommitted (record_order_idempotency key u i)"
  "uncommitted (insert_order u m t k)" "uncommitted (insert_order_item i it)"
  "uncommitted (record_payment_init_pending i n p)"
  "uncommitted (update_order_idempotency_record u i own c b ty)"
  "uncommitted (place_order_with_items u m t k)" "uncommitted (acquire_pglock l n)"
  by (auto simp: spc_by_ikey_def record_order_idempotency_def insert_order_def insert_order_item_def
      record_payment_init_pending_def update_order_idempotency_record_def place_order_with_items_def
      acquire_pglock_def Let_def intro!: uncommitted_intros)

lemma order_response_not_json: "json_dumps (order_response ord) = Inl TypeError"
  by (simp add: order_response_def)

lemma cod_order_never_returns:
  assumes "m \<noteq> ''UPI''"
  shows "returns (place_order_with_items u m t k) (\<lambda>_ _. False) w"
proof -
  have never: "returns (update_order_idempotency_record u k i c (order_response ord) ty) Q v" for i c ord ty Q v
    by (simp add: update_order_idempotency_record_def order_response_not_json returns_simps)
      (simp add: order_response_def)
  have any: "(\<And>x v. Q x v) \<Longrightarrow> returns m' Q v" for m' :: "'a handler" and Q v
    by (simp add: returns_def)
  show ?thesis
    unfolding place_order_with_items_def Let_def returns_let returns_do
    by (rule any, rule any) (simp add: assms returns_do returns_ret never)
qed

lemma cod_finish_order:
  assumes "m \<noteq> ''UPI''"
  shows "uncommitted (finish_order psp u i items m key k)"
    and "returns (finish_order psp u i items m key k) (\<lambda>_ _. False) w"
  unfolding finish_order_def Let_def
  using cod_order_never_returns [OF assms]
  by (intro uncommitted_never_returns uncommitted_intros; assumption)+

text \<open>No reply but a replay, and no commit, once the checkout's method is not UPI.\<close>

lemma cod_claim_key:
  assumes "m \<noteq> ''UPI''"
  shows "uncommitted (claim_key psp u i items m key)"
    and "returns (claim_key psp u i items m key) (\<lambda>r _. \<exists>so. r = Replayed so) w"
proof -
  show "uncommitted (claim_key psp u i items m key)"
    unfolding claim_key_def by (intro uncommitted_intros cod_finish_order assms)
  have never: "returns (finish_order psp u i items m key k) (\<lambda>r _. \<exists>so. r = Replayed so) v" for k v
    by (rule returns_mono [OF cod_finish_order(2) [OF assms]]) simp
  have any: "(\<And>x v. Q x v) \<Longrightarrow> returns m' Q v" for m' :: "'a handler" and Q v
    by (simp add: returns_def)
  show "returns (claim_key psp u i items m key) (\<lambda>r _. \<exists>so. r = Replayed so) w"
  proof -
    have inner: "returns (letM (spc_by_ikey key u) (\<lambda>again.
         case again of
           None \<Rightarrow> raiseM TypeError
         | Some r \<Rightarrow>
             if so_response_body r \<noteq> JNull then retM (Replayed r)
             else finish_order psp u i items m key (so_ik_id r))) (\<lambda>r _. \<exists>so. r = Replayed so) v" for v
      unfolding returns_let
      by (rule any) (auto simp: returns_raise returns_ret never split: option.split)
    show ?thesis
      unfolding claim_key_def returns_let [of "record_order_idempotency key u i"]
      by (rule any) (auto simp: never inner split: option.split)
  qed
qed

text \<open>C12: A checkout whose payment method is not UPI (cash on delivery) can never be turned into an
  order: serialising the reply with its UUID raises a TypeError before the commit, so under any
  faults the endpoint returns nothing but the replay of a stored answer, and no order, order item,
  payment or idempotency record is ever committed.\<close>

theorem cod_never_ordered:
  assumes "place_order psp sha256 lock u cid key w = (r, w')" and "db w = committed w"
    and "\<forall>c \<in> set (db_checkouts (db w)). cs_public_id c = cid \<longrightarrow> cs_selected_payment_method c \<noteq> Some ''UPI''"
  shows "(case r of Inl _ \<Rightarrow> True | Inr reply \<Rightarrow> \<exists>so. reply = Replayed so) \<and>
    db_orders (committed w') = db_orders (committed w) \<and>
    db_order_items (committed w') = db_order_items (committed w) \<and>
    db_payments (committed w') = db_payments (committed w) \<and>
    db_idempotency (committed w') = db_idempotency (committed w)"
proof (cases "key = []")
  case True
  with assms(1) show ?thesis by (auto simp: place_order_def raiseM_def)
next
  case False
  let ?same = "\<lambda>d. db_orders d = db_orders (committed w) \<and> db_order_items d = db_order_items (committed w) \<and>
    db_payments d = db_payments (committed w) \<and> db_idempotency d = db_idempotency (committed w)"
  obtain rv v where v: "validate_checkout_get_items_paymethod cid u w = (rv, v)" by fastforce
  have kept: "keeps ?same (validate_checkout_get_items_paymethod cid u)"
    unfolding validate_checkout_get_items_paymethod_def update_checkout_activeness_def Let_def
    by (intro keeps_intros keeps_modify) simp
  have same: "?same (committed v)"
    using keepsD [OF kept, of w] v assms(2) by simp
  show ?thesis
  proof (cases rv)
    case (Inl e)
    with v False assms(1) same show ?thesis by (auto simp: place_order_def letM_def)
  next
    case (Inr x)
    obtain i items m where x: "x = (i, items, m)" by (cases x)
    have "returns (validate_checkout_get_items_paymethod cid u) (\<lambda>(i, items, m) _. m \<noteq> ''UPI'') w"
      by (rule returns_validate_checkout) (use assms(3) in auto)
    with v Inr x have m: "m \<noteq> ''UPI''" by (auto dest: returnsD)
    define rest where "rest =
        letM (acquire_pglock lock (idempotency_lock_key sha256 key)) (\<lambda>got_lock.
        letM (spc_by_ikey key u) (\<lambda>order_data_by_ik.
        case order_data_by_ik of
          Some r \<Rightarrow>
            if so_cs_id r \<noteq> i
            then raiseM (HTTPException 400 (Text ''Unauthorized checkout session for provided idempotency key''))
            else if so_response_body r \<noteq> JNull then retM (Replayed r)
            else claim_key psp u i items m key
        | None \<Rightarrow> claim_key psp u i items m key))"
    have "rest v = (r, w')"
      using assms(1) v Inr x False by (simp add: place_order_def letM_def rest_def)
    moreover have "uncommitted rest"
      unfolding rest_def by (intro uncommitted_intros cod_claim_key m)
    moreover have "returns rest (\<lambda>r _. \<exists>so. r = Replayed so) v"
      unfolding rest_def acquire_pglock_def
      using cod_claim_key(2) [OF m]
      by (auto simp: returns_simps spc_by_ikey_def split: option.split)
    ultimately show ?thesis
      using same uncommittedD [of rest v] by (auto split: sum.split dest: returnsD)
  qed
qed

definition cod_db :: database where
  "cod_db = empty_db\<lparr>db_checkouts :=
     [(checkout_row 9 90 7 500000000)\<lparr>cs_cart_snapshot := Some [line 1 2 4], cs_selected_payment_method := Some ''COD''\<rparr>]\<rparr>"

lemma cod_never_ordered_witness:
  "let run = place_order flaky (\<lambda>_. [1, 2, 3, 4, 5, 6, 7, 8]) True 7 90 ''k'' (start 10 cod_db)
   in fst run = Inl TypeError \<and> db_orders (committed (snd run)) = []"
proof -
  let ?run = "place_order flaky (\<lambda>_. [1, 2, 3, 4, 5, 6, 7, 8]) True 7 90 ''k'' (start 10 cod_db)"
  have e: "fst ?run = Inl TypeError" by code_simp
  then have "?run = (Inl TypeError, snd ?run)" by (metis prod.collapse)
  from cod_never_ordered [OF this] have "db_orders (committed (snd ?run)) = []"
    by (simp add: start_def cod_db_def empty_db_def)
  with e show ?thesis by (simp only: Let_def simp_thms)
qed

section \<open>A UPI order from end to end\<close>

text \<open>What each step leaves behind when it returns.\<close>

definition order_of :: "nat \<Rightarrow> order_totals \<Rightarrow> nat \<Rightarrow> order \<Rightarrow> bool" where
  "order_of u totals k ord \<longleftrightarrow> o_user_id ord = u \<and> o_ik_id ord = k \<and>
     o_status ord = order_status_value OS_PENDING_PAYMENT \<and> o_total ord = ot_total totals"

definition has_items :: "order_item list \<Rightarrow> nat \<Rightarrow> snapshot_item list \<Rightarrow> bool" where
  "has_items ois i items \<longleftrightarrow> (\<forall>it \<in> set items. \<exists>oi \<in> set ois.
     oi_order_id oi = i \<and> oi_product_id oi = product_id it \<and> oi_quantity oi = quantity it \<and>
     oi_unit_price_snapshot oi = prod_base_price it)"

lemma has_items_mono: "has_items ois i items \<Longrightarrow> has_items (ois @ later) i items"
  by (fastforce simp: has_items_def)

lemma returns_insert_order:
  "returns (insert_order u ''UPI'' t k) (\<lambda>ord v. order_of u t k ord \<and>
     db v = (db w)\<lparr>db_orders := db_orders (db w) @ [ord]\<rparr>) w"
  by (auto simp: insert_order_def returns_simps Let_def order_of_def split: if_splits)

lemma returns_insert_items:
  "returns (forM items (insert_order_item i)) (\<lambda>_ v. \<exists>ois.
     db v = (db w)\<lparr>db_order_items := db_order_items (db w) @ ois\<rparr> \<and> has_items (db_order_items (db w) @ ois) i items) w"
proof (induction items arbitrary: w)
  case Nil
  have "db w = (db w)\<lparr>db_order_items := db_order_items (db w) @ []\<rparr>" by simp
  then show ?case unfolding forM.simps returns_ret has_items_def by (intro exI [of _ "[]"]) simp
next
  case (Cons it its)
  have one: "returns (insert_order_item i it) (\<lambda>_ v. \<exists>oi.
     db v = (db w)\<lparr>db_order_items := db_order_items (db w) @ [oi]\<rparr> \<and>
     has_items (db_order_items (db w) @ [oi]) i [it]) w"
    by (auto simp: insert_order_item_def returns_simps Let_def has_items_def split: if_splits)
  show ?case
    unfolding forM.simps returns_do
  proof (rule returns_mono [OF one])
    fix v :: state
    assume "\<exists>oi. db v = (db w)\<lparr>db_order_items := db_order_items (db w) @ [oi]\<rparr> \<and>
      has_items (db_order_items (db w) @ [oi]) i [it]"
    then obtain oi where v: "db v = (db w)\<lparr>db_order_items := db_order_items (db w) @ [oi]\<rparr>"
      "has_items (db_order_items (db w) @ [oi]) i [it]" by blast
    show "returns (forM its (insert_order_item i)) (\<lambda>_ v. \<exists>ois.
     db v = (db w)\<lparr>db_order_items := db_order_items (db w) @ ois\<rparr> \<and> has_items (db_order_items (db w) @ ois) i (it # its)) v"
    proof (rule returns_mono [OF Cons.IH], elim exE conjE)
      fix u :: state and ois
      assume "db u = (db v)\<lparr>db_order_items := db_order_items (db v) @ ois\<rparr>"
        and "has_items (db_order_items (db v) @ ois) i its"
      then show "\<exists>ois. db u = (db w)\<lparr>db_order_items := db_order_items (db w) @ ois\<rparr> \<and>
          has_items (db_order_items (db w) @ ois) i (it # its)"
        using has_items_mono [OF v(2), of ois] v(1)
        by (intro exI [of _ "oi # ois"]) (simp add: has_items_def)
    qed
  qed
qed

text \<open>The database after \<open>place_order_with_items\<close>: the new order, its items, its pending payment,
  and the idempotency row marked as owned by the order.\<close>

definition order_placed :: "nat \<Rightarrow> order_totals \<Rightarrow> nat \<Rightarrow> order_data \<Rightarrow> database \<Rightarrow> database \<Rightarrow> bool" where
  "order_placed u totals k resp d d' \<longleftrightarrow>
     (\<exists>ord \<in> set (db_orders d'). order_of u totals k ord \<and> o_id ord = od_order_id resp \<and>
        has_items (db_order_items d') (o_id ord) (ot_items totals) \<and>
        (\<exists>p \<in> set (db_payments d'). Some (pay_public_id p) = od_pay_public_id resp \<and>
           pay_order_id p = o_id ord \<and> pay_amount p = o_total ord)) \<and>
     db_checkouts d' = db_checkouts d \<and>
     map (\<lambda>k. (ik_id k, ik_key k, ik_created_by k)) (db_idempotency d') =
       map (\<lambda>k. (ik_id k, ik_key k, ik_created_by k)) (db_idempotency d)"

lemma returns_place_order_with_items:
  "returns (place_order_with_items u ''UPI'' totals k) (\<lambda>resp v. order_placed u totals k resp (db w) (db v)) w"
  unfolding place_order_with_items_def returns_let [of "insert_order u ''UPI'' totals k"]
proof (rule returns_mono [OF returns_insert_order], unfold returns_do, rule returns_mono [OF returns_insert_items], elim exE conjE)
  fix ord and v v' :: state and ois
  assume ord: "order_of u totals k ord" and v: "db v = (db w)\<lparr>db_orders := db_orders (db w) @ [ord]\<rparr>"
    and v': "db v' = (db v)\<lparr>db_order_items := db_order_items (db v) @ ois\<rparr>"
    and items: "has_items (db_order_items (db v) @ ois) (o_id ord) (ot_items totals)"
  have total: "o_total ord = ot_total totals" using ord by (simp add: order_of_def)
  show "returns (let response = (\<lambda>pay. \<lparr>od_order_public_id = o_public_id ord, od_order_id = o_id ord,
                             od_status = o_status ord, od_pay_public_id = pay\<rparr>) in
      if ''UPI'' = ''UPI''
      then
        letM (record_payment_init_pending (o_id ord) (ot_total totals) ''razorpay'') (\<lambda>pid.
        doM (update_order_idempotency_record u k (o_id ord) None JNull ''pay_now'')
        (retM (response (Some pid))))
      else
        doM (update_order_idempotency_record u k (o_id ord) (Some 200) (order_response ord)
               ''order_confirm'')
        (retM (response None)))
     (\<lambda>resp v. order_placed u totals k resp (db w) (db v)) v'"
    using ord items total
    by (auto simp: returns_simps record_payment_init_pending_def update_order_idempotency_record_def
        order_placed_def Let_def v v' map_upd_same split: if_splits intro!: bexI [of _ ord])
qed

text \<open>The outcome of a placed UPI order, as committed.\<close>

definition upi_outcome :: "nat \<Rightarrow> nat \<Rightarrow> snapshot_item list \<Rightarrow> string \<Rightarrow> json \<Rightarrow> database \<Rightarrow> bool" where
  "upi_outcome u k items key r d \<longleftrightarrow>
     (\<exists>ord \<in> set (db_orders d). order_of u (compute_final_total items ''UPI'') k ord \<and>
        has_items (db_order_items d) (o_id ord) items \<and>
        (\<exists>p \<in> set (db_payments d). pay_order_id p = o_id ord \<and> pay_amount p = o_total ord \<and>
           pay_status p = payment_status_value PS_ACCEPTED \<and> pay_provider_order_id p \<noteq> None)) \<and>
     (\<exists>ik \<in> set (db_idempotency d). ik_id ik = k \<and> ik_key ik = key \<and> ik_created_by ik = u \<and>
        ik_response_body ik = r \<and> ik_response_code ik = Some 200)"

lemma order_then_intent:
  assumes placed: "order_placed u (compute_final_total items ''UPI'') k resp d d'"
    and intent: "intent_made key pid r d' d''" and pid: "od_pay_public_id resp = Some pid"
    and key: "\<exists>ik \<in> set (db_idempotency d). ik_id ik = k \<and> ik_key ik = key \<and> ik_created_by ik = u"
  shows "upi_outcome u k items key r d''" and "db_checkouts d'' = db_checkouts d"
proof -
  obtain ord p where ord: "ord \<in> set (db_orders d')" "order_of u (compute_final_total items ''UPI'') k ord"
      "has_items (db_order_items d') (o_id ord) items"
    and p: "p \<in> set (db_payments d')" "pay_public_id p = pid" "pay_order_id p = o_id ord" "pay_amount p = o_total ord"
    using placed pid by (auto simp: order_placed_def compute_final_total_def Let_def)
  obtain i j where one: "map pay_id (filter (\<lambda>p. pay_public_id p = pid) (db_payments d')) = [i]"
    and upd: "db_payments d'' = upd (\<lambda>p. pay_id p = i)
          (\<lambda>p. p\<lparr>pay_provider_order_id := Some j, pay_status := payment_status_value PS_ACCEPTED\<rparr>) (db_payments d')"
    using intent by (auto simp: intent_made_def)
  have "p \<in> set (filter (\<lambda>p. pay_public_id p = pid) (db_payments d'))" using p by simp
  then have "pay_id p \<in> set (map pay_id (filter (\<lambda>p. pay_public_id p = pid) (db_payments d')))" by simp
  with one have "pay_id p = i" by (metis list.set(1,2) empty_iff insert_iff)
  then have p': "p\<lparr>pay_provider_order_id := Some j, pay_status := payment_status_value PS_ACCEPTED\<rparr> \<in> set (db_payments d'')"
    using p(1) by (auto simp: upd set_upd)
  from key obtain ik where ik: "ik \<in> set (db_idempotency d)" "ik_id ik = k" "ik_key ik = key" "ik_created_by ik = u"
    by blast
  then have "(k, key, u) \<in> set (map (\<lambda>k. (ik_id k, ik_key k, ik_created_by k)) (db_idempotency d'))"
    using placed by (auto simp: order_placed_def simp del: set_map)  (auto simp: image_iff)
  then obtain ik' where "ik' \<in> set (db_idempotency d')" "ik_id ik' = k" "ik_key ik' = key" "ik_created_by ik' = u"
    by auto
  then have ik'': "ik'\<lparr>ik_response_code := Some 200, ik_response_body := r\<rparr> \<in> set (db_idempotency d'')"
      "ik_id ik' = k" "ik_key ik' = key" "ik_created_by ik' = u"
    using intent by (auto simp: intent_made_def set_upd)
  have same: "db_orders d'' = db_orders d'" "db_order_items d'' = db_order_items d'" "db_checkouts d'' = db_checkouts d'"
    using intent by (simp_all add: intent_made_def)
  then show "db_checkouts d'' = db_checkouts d" using placed by (simp add: order_placed_def)
  show "upi_outcome u k items key r d''"
    unfolding upi_outcome_def
  proof (intro conjI)
    show "\<exists>ik \<in> set (db_idempotency d''). ik_id ik = k \<and> ik_key ik = key \<and> ik_created_by ik = u \<and>
        ik_response_body ik = r \<and> ik_response_code ik = Some 200"
      using ik'' by (intro bexI [OF _ ik''(1)]) simp
    have "\<exists>p \<in> set (db_payments d''). pay_order_id p = o_id ord \<and> pay_amount p = o_total ord \<and>
           pay_status p = payment_status_value PS_ACCEPTED \<and> pay_provider_order_id p \<noteq> None"
      using p by (intro bexI [OF _ p']) simp
    then show "\<exists>ord \<in> set (db_orders d''). order_of u (compute_final_total items ''UPI'') k ord \<and>
        has_items (db_order_items d'') (o_id ord) items \<and>
        (\<exists>p \<in> set (db_payments d''). pay_order_id p = o_id ord \<and> pay_amount p = o_total ord \<and>
           pay_status p = payment_status_value PS_ACCEPTED \<and> pay_provider_order_id p \<noteq> None)"
      using ord same by (intro bexI [of _ ord]) simp_all
  qed
qed

lemma returns_finish_order:
  assumes "\<exists>ik \<in> set (db_idempotency (db w)). ik_id ik = k \<and> ik_key ik = key \<and> ik_created_by ik = u"
  shows "returns (finish_order psp u i items ''UPI'' key k) (\<lambda>reply v. \<exists>r. reply = PaymentIntent r \<and>
     upi_outcome u k items key r (committed v) \<and>
     db_checkouts (committed v) = upd (\<lambda>c. cs_id c = i) (\<lambda>c. c\<lparr>cs_is_active := False\<rparr>) (db_checkouts (db w)) \<and>
     db v = committed v) w"
proof -
  have frame: "upi_outcome u k items key r (db_checkouts_update f d) = upi_outcome u k items key r d" for r f d
    by (simp add: upi_outcome_def)
  have close: "returns (letM (create_payment_intent psp key (compute_final_total items ''UPI'') resp pid)
        (\<lambda>r. doM (update_checkout_activeness i False) (retM (PaymentIntent r)))) (\<lambda>reply v. \<exists>r. reply = PaymentIntent r \<and>
     upi_outcome u k items key r (committed v) \<and>
     db_checkouts (committed v) = upd (\<lambda>c. cs_id c = i) (\<lambda>c. c\<lparr>cs_is_active := False\<rparr>) (db_checkouts (db w)) \<and>
     db v = committed v) v"
    if "order_placed u (compute_final_total items ''UPI'') k resp (db w) (db v)" "od_pay_public_id resp = Some pid" for resp pid v
    unfolding returns_let
    by (rule returns_mono [OF returns_create_payment_intent])
      (use order_then_intent [OF that(1) _ that(2) assms] in
        \<open>auto simp: returns_simps update_checkout_activeness_def frame\<close>)
  show ?thesis
    unfolding finish_order_def Let_def returns_let [of "place_order_with_items _ _ _ _"] returns_do
  proof (rule returns_mono [OF returns_place_order_with_items])
    fix resp and v :: state
    assume placed: "order_placed u (compute_final_total items ''UPI'') k resp (db w) (db v)"
    then obtain pid where "od_pay_public_id resp = Some pid" by (metis order_placed_def)
    with placed show "returns commit (\<lambda>_. returns (case od_pay_public_id resp of
         Some pid \<Rightarrow>
           letM (create_payment_intent psp key (compute_final_total items ''UPI'') resp pid) (\<lambda>r.
           doM (update_checkout_activeness i False)
           (retM (PaymentIntent r)))
       | None \<Rightarrow> retM (OrderPlaced resp)) (\<lambda>reply v. \<exists>r. reply = PaymentIntent r \<and>
     upi_outcome u k items key r (committed v) \<and>
     db_checkouts (committed v) = upd (\<lambda>c. cs_id c = i) (\<lambda>c. c\<lparr>cs_is_active := False\<rparr>) (db_checkouts (db w)) \<and>
     db v = committed v)) v"
      by (auto simp: returns_commit intro!: close)
  qed
qed

lemma returns_record_order_idempotency:
  "returns (record_order_idempotency key u i) (\<lambda>claimed v. db_checkouts (db v) = db_checkouts (db w) \<and>
     (\<forall>k. claimed = Some k \<longrightarrow> (\<exists>ik \<in> set (db_idempotency (db v)). ik_id ik = k \<and> ik_key ik = key \<and> ik_created_by ik = u))) w"
  by (auto simp: record_order_idempotency_def returns_simps insert_nothing_def Let_def)

lemma returns_spc_by_ikey:
  "returns (spc_by_ikey key u) (\<lambda>res v. db v = db w \<and>
     (\<forall>r. res = Some r \<longrightarrow> (\<exists>ik \<in> set (db_idempotency (db w)). ik_id ik = so_ik_id r \<and> ik_key ik = key \<and> ik_created_by ik = u))) w"
proof (cases "one_or_none (filter (\<lambda>k. ik_key k = key \<and> ik_created_by k = u) (db_idempotency (db w)))")
  case (Inl e)
  then show ?thesis by (simp add: spc_by_ikey_def returns_simps)
next
  case (Inr r)
  then show ?thesis
    by (cases r) (auto simp: spc_by_ikey_def returns_simps dest!: one_or_none_mem)
qed

definition upi_success :: "nat \<Rightarrow> snapshot_item list \<Rightarrow> string \<Rightarrow> nat \<Rightarrow> checkout_session list \<Rightarrow> order_reply \<Rightarrow> state \<Rightarrow> bool" where
  "upi_success u items key i cs reply v \<longleftrightarrow> (\<forall>r. reply = PaymentIntent r \<longrightarrow>
     (\<exists>k. upi_outcome u k items key r (committed v)) \<and>
     db_checkouts (committed v) = upd (\<lambda>c. cs_id c = i) (\<lambda>c. c\<lparr>cs_is_active := False\<rparr>) cs \<and>
     db v = committed v)"

lemma returns_claim_key:
  "returns (claim_key psp u i items ''UPI'' key) (upi_success u items key i (db_checkouts (db w))) w"
proof -
  have finish: "returns (finish_order psp u i items ''UPI'' key k) (upi_success u items key i (db_checkouts (db w))) v"
    if "\<exists>ik \<in> set (db_idempotency (db v)). ik_id ik = k \<and> ik_key ik = key \<and> ik_created_by ik = u"
      "db_checkouts (db v) = db_checkouts (db w)" for k v
    using that(2) by (intro returns_mono [OF returns_finish_order [OF that(1)]]) (auto simp: upi_success_def)
  have reuse: "returns (case again of
           None \<Rightarrow> raiseM TypeError
         | Some r \<Rightarrow>
             if so_response_body r \<noteq> JNull then retM (Replayed r)
             else finish_order psp u i items ''UPI'' key (so_ik_id r)) (upi_success u items key i (db_checkouts (db w))) v"
    if "\<forall>r. again = Some r \<longrightarrow> (\<exists>ik \<in> set (db_idempotency (db v)). ik_id ik = so_ik_id r \<and> ik_key ik = key \<and> ik_created_by ik = u)"
      "db_checkouts (db v) = db_checkouts (db w)" for again v
    using that finish [of v]
    by (cases again) (auto simp: returns_raise returns_if returns_ret upi_success_def)
  show ?thesis
    unfolding claim_key_def returns_let [of "record_order_idempotency key u i"]
  proof (rule returns_mono [OF returns_record_order_idempotency], elim conjE)
    fix claimed and v :: state
    assume v: "db_checkouts (db v) = db_checkouts (db w)"
      and claimed: "\<forall>k. claimed = Some k \<longrightarrow> (\<exists>ik \<in> set (db_idempotency (db v)). ik_id ik = k \<and> ik_key ik = key \<and> ik_created_by ik = u)"
    show "returns (case claimed of
      Some k \<Rightarrow> finish_order psp u i items ''UPI'' key k
    | None \<Rightarrow>
        letM (spc_by_ikey key u) (\<lambda>again.
         case again of
           None \<Rightarrow> raiseM TypeError
         | Some r \<Rightarrow>
             if so_response_body r \<noteq> JNull then retM (Replayed r)
             else finish_order psp u i items ''UPI'' key (so_ik_id r)))
      (upi_success u items key i (db_checkouts (db w))) v"
    proof (cases claimed)
      case None
      then show ?thesis
        by (simp add: returns_let) (rule returns_mono [OF returns_spc_by_ikey], use v in \<open>auto intro!: reuse\<close>)
    next
      case (Some k)
      with claimed v show ?thesis by (simp add: finish)
    qed
  qed
qed

lemma place_order_committed:
  assumes "place_order psp sha256 lock u cid key w = (Inr (PaymentIntent r), w')"
  shows "\<exists>c \<in> set (db_checkouts (db w)). \<exists>items k.
     cs_user_id c = u \<and> cs_is_active c \<and> cs_public_id c = cid \<and> cs_cart_snapshot c = Some items \<and> items \<noteq> [] \<and>
     cs_selected_payment_method c = Some ''UPI'' \<and> upi_outcome u k items key r (committed w') \<and>
     db_checkouts (committed w') = upd (\<lambda>x. cs_id x = cs_id c) (\<lambda>x. x\<lparr>cs_is_active := False\<rparr>) (db_checkouts (db w)) \<and>
     db w' = committed w'"
proof -
  define Q where "Q reply v \<longleftrightarrow> (\<forall>r. reply = PaymentIntent r \<longrightarrow>
    (\<exists>c \<in> set (db_checkouts (db w)). \<exists>items k.
     cs_user_id c = u \<and> cs_is_active c \<and> cs_public_id c = cid \<and> cs_cart_snapshot c = Some items \<and> items \<noteq> [] \<and>
     cs_selected_payment_method c = Some ''UPI'' \<and> upi_outcome u k items key r (committed v) \<and>
     db_checkouts (committed v) = upd (\<lambda>x. cs_id x = cs_id c) (\<lambda>x. x\<lparr>cs_is_active := False\<rparr>) (db_checkouts (db w)) \<and>
     db v = committed v))" for reply and v :: state
  have claim: "returns (claim_key psp u (cs_id c) items pm key) Q v"
    if c: "c \<in> set (db_checkouts (db w))" "cs_user_id c = u" "cs_is_active c" "cs_public_id c = cid"
      "cs_cart_snapshot c = Some items" "items \<noteq> []" "cs_selected_payment_method c = Some pm"
      and v: "db v = db w" for c items pm v
  proof (cases "pm = ''UPI''")
    case True
    show ?thesis
      unfolding True
      by (rule returns_mono [OF returns_claim_key])
        (use c v True in \<open>auto simp: upi_success_def Q_def intro!: bexI [of _ c]\<close>)
  next
    case False
    show ?thesis
      by (rule returns_mono [OF cod_claim_key(2) [OF False]]) (auto simp: Q_def)
  qed
  have answer: "returns (case res of
          Some r \<Rightarrow>
            if so_cs_id r \<noteq> cs_id c
            then raiseM (HTTPException 400 (Text ''Unauthorized checkout session for provided idempotency key''))
            else if so_response_body r \<noteq> JNull then retM (Replayed r)
            else claim_key psp u (cs_id c) items pm key
        | None \<Rightarrow> claim_key psp u (cs_id c) items pm key) Q v"
    if "returns (claim_key psp u (cs_id c) items pm key) Q v" for res c items pm v
    using that by (cases res) (auto simp: returns_raise returns_ret returns_if Q_def)
  have "returns (place_order psp sha256 lock u cid key) Q w" if key: "key \<noteq> []"
    unfolding place_order_def if_not_P [OF key] returns_let [of "validate_checkout_get_items_paymethod cid u"]
  proof (rule returns_validate_checkout)
    fix c items pm
    assume c: "c \<in> set (db_checkouts (db w))" "cs_user_id c = u" "cs_is_active c" "cs_public_id c = cid"
      "cs_cart_snapshot c = Some items" "items \<noteq> []" "cs_selected_payment_method c = Some pm"
    show "returns (case (cs_id c, items, pm) of (checkout, items, payment_method) \<Rightarrow>
        letM (acquire_pglock lock (idempotency_lock_key sha256 key)) (\<lambda>got_lock.
        letM (spc_by_ikey key u) (\<lambda>order_data_by_ik.
        case order_data_by_ik of
          Some r \<Rightarrow>
            if so_cs_id r \<noteq> checkout
            then raiseM (HTTPException 400 (Text ''Unauthorized checkout session for provided idempotency key''))
            else if so_response_body r \<noteq> JNull then retM (Replayed r)
            else claim_key psp u checkout items payment_method key
        | None \<Rightarrow> claim_key psp u checkout items payment_method key))) Q (tick (tick w))"
      unfolding prod.case acquire_pglock_def returns_let returns_query
      by (intro impI returns_mono [OF returns_spc_by_ikey] answer claim c) simp
  qed
  then show ?thesis
    using assms by (cases "key = []") (auto simp: Q_def place_order_def raiseM_def dest: returnsD)
qed

text \<open>C8: When the endpoint answers with a payment intent, whatever could have failed, it has
  committed the whole order: an order of the user waiting for payment for the total of the
  checkout's snapshot, an item for every line of the snapshot with its quantity and price, the
  payment of that order for its total, accepted under the provider's order id, the idempotency
  record of the key with the answer, and the checkout closed.\<close>

theorem upi_order_placed:
  assumes "place_order psp sha256 lock u cid key w = (Inr (PaymentIntent r), w')"
  shows "\<exists>c \<in> set (db_checkouts (db w)). \<exists>items k.
     cs_user_id c = u \<and> cs_is_active c \<and> cs_public_id c = cid \<and> cs_cart_snapshot c = Some items \<and> items \<noteq> [] \<and>
     cs_selected_payment_method c = Some ''UPI'' \<and> upi_outcome u k items key r (committed w') \<and>
     db_checkouts (committed w') = upd (\<lambda>x. cs_id x = cs_id c) (\<lambda>x. x\<lparr>cs_is_active := False\<rparr>) (db_checkouts (db w)) \<and>
     db w' = committed w'"
  using assms by (rule place_order_committed)

definition upi_db :: database where
  "upi_db = empty_db\<lparr>db_checkouts :=
     [(checkout_row 9 90 7 500000000)\<lparr>cs_cart_snapshot := Some [line 1 2 4], cs_selected_payment_method := Some ''UPI''\<rparr>]\<rparr>"

definition prompt :: "psp_request \<Rightarrow> int \<Rightarrow> psp_outcome" where
  "prompt rq i = PspOk (JObj [(''id'', JStr ''order_X'')])"

definition upi_reply :: json where
  "upi_reply = intent_response \<lparr>od_order_public_id = 9, od_order_id = 101, od_status = 10, od_pay_public_id = Some 12\<rparr> 12
     (JStr ''order_X'') (JObj [(''id'', JStr ''order_X'')])"

lemma sample_taxes: "mul_002 500 = 10"
  by (simp add: mul_002_fiftieth)

lemma upi_run:
  "\<exists>w'. place_order prompt (\<lambda>_. [1, 2, 3, 4, 5, 6, 7, 8]) True 7 90 ''k'' (start 10 upi_db) =
     (Inr (PaymentIntent upi_reply), w') \<and> quiet w'"
proof -
  have "wp (place_order prompt (\<lambda>_. [1, 2, 3, 4, 5, 6, 7, 8]) True 7 90 ''k'')
     (\<lambda>r w'. r = PaymentIntent upi_reply \<and> quiet w') (\<lambda>_ _. False) (start 10 upi_db)"
    by (simp add: place_order_def validate_checkout_get_items_paymethod_def acquire_pglock_def spc_by_ikey_def
      claim_key_def record_order_idempotency_def finish_order_def place_order_with_items_def insert_order_def
      insert_order_item_def record_payment_init_pending_def update_order_idempotency_record_def
      compute_final_total_def Let_def wp_simps conflict_iff create_payment_intent_def
      line_def upi_db_def empty_db_def checkout_row_def insert_nothing_def settle_payment_intent_def
      retry_payments_def DEFAULT_RETRIES_def pay_id_by_public_payid_def record_payment_attempt_def
      update_payment_attempt_resp_def upto.simps prompt_def create_psp_order_def sample_taxes
      unique_on_def payment_provider_order_key_def update_payment_status_nprovider_def
      update_idempotent_response_def update_checkout_activeness_def line_tax_def seconds_def
      upi_reply_def numeral_2_eq_2 [symmetric])
  from wp_result [OF this] show ?thesis by (metis prod.collapse)
qed

lemma upi_order_placed_witness:
  "\<exists>w' items k. place_order prompt (\<lambda>_. [1, 2, 3, 4, 5, 6, 7, 8]) True 7 90 ''k'' (start 10 upi_db) =
     (Inr (PaymentIntent upi_reply), w') \<and> upi_outcome 7 k items ''k'' upi_reply (committed w')"
  using upi_run upi_order_placed by blast

text \<open>A UPI order that went through closes its checkout, so no request of that user can order it
  a second time: the same request, with the same or with another idempotency key, is refused with
  403 and commits nothing. (So a client that lost the answer cannot get it back either: the stored
  response is only replayed while the checkout is still open.)\<close>

theorem upi_repeat_refused:
  assumes "place_order psp sha256 lock u cid key w = (Inr (PaymentIntent r), w')"
    and "unique_on checkout_active_key (db_checkouts (db w))" and "quiet w'" and "key' \<noteq> []"
  shows "fst (place_order psp' sha256 lock' u cid key' w') =
      Inl (HTTPException 403 (Text ''Checkout session not found or unauthorized'')) \<and>
    committed (snd (place_order psp' sha256 lock' u cid key' w')) = committed w'"
proof -
  obtain c where c: "c \<in> set (db_checkouts (db w))" "cs_user_id c = u" "cs_is_active c"
    and closed: "db_checkouts (db w') = upd (\<lambda>x. cs_id x = cs_id c) (\<lambda>x. x\<lparr>cs_is_active := False\<rparr>) (db_checkouts (db w))"
    using place_order_committed [OF assms(1)] by auto
  have "x = c" if "x \<in> set (db_checkouts (db w))" "cs_user_id x = u" "cs_is_active x" for x
    by (rule unique_onD [OF assms(2) that(1) c(1), of u]) (simp_all add: checkout_active_key_def that c)
  then have "filter (\<lambda>c. cs_user_id c = u \<and> cs_is_active c \<and> cs_public_id c = cid) (db_checkouts (db w')) = []"
    unfolding closed filter_empty_conv by (auto simp: set_upd)
  with assms(3,4) show ?thesis
    by (intro wp_raises) (simp add: place_order_def validate_checkout_get_items_paymethod_def wp_simps)
qed

lemma upi_repeat_refused_witness:
  "\<exists>w'. place_order prompt (\<lambda>_. [1, 2, 3, 4, 5, 6, 7, 8]) True 7 90 ''k'' (start 10 upi_db) =
     (Inr (PaymentIntent upi_reply), w') \<and>
   fst (place_order prompt (\<lambda>_. [1, 2, 3, 4, 5, 6, 7, 8]) True 7 90 ''k'' w') =
     Inl (HTTPException 403 (Text ''Checkout session not found or unauthorized''))"
proof -
  obtain w' where run: "place_order prompt (\<lambda>_. [1, 2, 3, 4, 5, 6, 7, 8]) True 7 90 ''k'' (start 10 upi_db) =
     (Inr (PaymentIntent upi_reply), w')" and "quiet w'"
    using upi_run by blast
  with upi_repeat_refused [OF run, where key' = "''k''" and psp' = prompt and lock' = True] show ?thesis
    by (simp add: upi_db_def empty_db_def unique_on_def checkout_active_key_def checkout_row_def)
qed

text \<open>A request whose key already has a stored answer for the same, still open checkout gets that
  answer back, whatever the provider would now do: nothing is ordered, paid or written.\<close>

theorem stored_answer_replayed:
  assumes "quiet w" and "key \<noteq> []"
    and "filter (\<lambda>c. cs_user_id c = u \<and> cs_is_active c \<and> cs_public_id c = cid) (db_checkouts (db w)) = [c]"
    and "cs_cart_snapshot c = Some items" and "items \<noteq> []" and "cs_selected_payment_method c = Some m" and "m \<noteq> []"
    and "filter (\<lambda>k. ik_key k = key \<and> ik_created_by k = u) (db_idempotency (db w)) = [k]"
    and "ik_cs_id k = cs_id c" and "ik_response_body k \<noteq> JNull"
    and "\<forall>n. clock (env w) n + seconds 40 \<le> cs_expires_at c \<and> clock (env w) n + seconds 40 \<le> ik_expires_at k"
  shows "fst (place_order psp sha256 lock u cid key w) =
      Inr (Replayed \<lparr>so_response_body = ik_response_body k, so_response_code = ik_response_code k,
                     so_ik_id = ik_id k, so_cs_id = cs_id c\<rparr>) \<and>
    db (snd (place_order psp sha256 lock u cid key w)) = db w \<and>
    committed (snd (place_order psp sha256 lock u cid key w)) = committed w"
proof -
  have "\<not> cs_expires_at c < clock (env w) n + seconds 40" "\<not> ik_expires_at k < clock (env w) n + seconds 40" for n
    using assms(11) by (auto simp: not_less)
  with assms(1-10) show ?thesis
    by (intro wp_result)
      (simp add: place_order_def validate_checkout_get_items_paymethod_def acquire_pglock_def spc_by_ikey_def
        wp_simps Let_def)
qed

definition answered_key :: "json \<Rightarrow> idempotency_key" where
  "answered_key body = \<lparr>ik_id = 20, ik_key = ''k'', ik_cs_id = 9, ik_created_by = 7, ik_owner_type = Some ''pay_now'',
     ik_owner_id = Some 30, ik_response_code = Some 200, ik_response_body = body, ik_status = 0,
     ik_created_at = 0, ik_expires_at = 500000000\<rparr>"

lemma stored_answer_replayed_witness:
  "fst (place_order prompt (\<lambda>_. [1, 2, 3, 4, 5, 6, 7, 8]) True 7 90 ''k''
      (start 10 (upi_db\<lparr>db_idempotency := [answered_key (JStr ''done'')]\<rparr>))) =
    Inr (Replayed \<lparr>so_response_body = JStr ''done'', so_response_code = Some 200, so_ik_id = 20, so_cs_id = 9\<rparr>)"
  using stored_answer_replayed [of "start 10 (upi_db\<lparr>db_idempotency := [answered_key (JStr ''done'')]\<rparr>)" "''k''" 7 90
      "(checkout_row 9 90 7 500000000)\<lparr>cs_cart_snapshot := Some [line 1 2 4], cs_selected_payment_method := Some ''UPI''\<rparr>"
      "[line 1 2 4]" "''UPI''" "answered_key (JStr ''done'')"]
  by (simp add: upi_db_def empty_db_def checkout_row_def answered_key_def seconds_def)




end
