(* ===== verification/PubSub.thy ===== *)
theory PubSub
  imports Schema
begin

text \<open>
  The in-process event bus, \<open>BasePubSubWorker\<close> of
  \<open>backend/background_workers/base_pubsub_interface.py\<close>: its bounded queue, its subscriptions and the
  dispatch of one task to the handlers of its event. Workers run the handlers one after the other;
  starting and stopping the asyncio tasks is not modelled.
\<close>

definition max_queue_size :: nat where "max_queue_size = 1000"

definition publish :: "string \<Rightarrow> json \<Rightarrow> unit handler" where
  "publish event data = (\<lambda>w.
     if max_queue_size \<le> length (queue w) then (Inl QueueFull, w)
     else (Inr (), w\<lparr>queue := queue w @ [(event, data)]\<rparr>))"

text \<open>Handlers are compared by identity of object and function: here by name.\<close>

datatype handler_name = ImageTransform | OutboxHandle | OrderConfirmCommitIntent

type_synonym subscribers = "(string \<times> handler_name list) list"

fun subs_of :: "string \<Rightarrow> subscribers \<Rightarrow> handler_name list" where
  "subs_of event [] = []"
| "subs_of event ((e, hs) # rest) = (if e = event then hs else subs_of event rest)"

fun subscribe :: "string \<Rightarrow> handler_name \<Rightarrow> subscribers \<Rightarrow> subscribers" where
  "subscribe event fn [] = [(event, [fn])]"
| "subscribe event fn ((e, hs) # rest) =
     (if e = event then (e, if fn \<in> set hs then hs else hs @ [fn]) # rest
      else (e, hs) # subscribe event fn rest)"

definition register_subscribers :: "subscribers \<Rightarrow> subscribers" where
  "register_subscribers subs =
     subscribe ''order_confirm_intent.created'' OrderConfirmCommitIntent
    (subscribe ''order.payment_pending'' OutboxHandle
    (subscribe ''order.paid'' OutboxHandle
    (subscribe ''product_image_uploaded'' ImageTransform subs)))"

definition tasks_executor :: "(handler_name \<Rightarrow> json \<Rightarrow> unit handler) \<Rightarrow> subscribers \<Rightarrow> string \<times> json \<Rightarrow> unit handler" where
  "tasks_executor run subs task = forM (subs_of (fst task) subs) (\<lambda>fn. run fn (snd task))"

text \<open>One turn of a worker: take the first task, run its handlers, swallow their exceptions
  (cancellation ends the worker).\<close>

definition worker_step :: "(handler_name \<Rightarrow> json \<Rightarrow> unit handler) \<Rightarrow> subscribers \<Rightarrow> unit handler" where
  "worker_step run subs = (\<lambda>w. case queue w of
       [] \<Rightarrow> (Inr (), w)
     | task # rest \<Rightarrow>
         tryM (tasks_executor run subs task) (\<lambda>e. if e = CancelledError then raiseM e else retM ())
           (w\<lparr>queue := rest\<rparr>))"

lemma subs_of_subscribe:
  "subs_of event' (subscribe event fn subs) =
     (if event' = event \<and> fn \<notin> set (subs_of event subs) then subs_of event subs @ [fn] else subs_of event' subs)"
  by (induction subs rule: subs_of.induct [of _ event]) (auto)

lemma wp_publish [wp_simps]:
  "wp (publish event data) Q E w =
     (if max_queue_size \<le> length (queue w) then E QueueFull w else Q () (w\<lparr>queue := queue w @ [(event, data)]\<rparr>))"
  by (simp add: wp_def publish_def)

lemma keeps_publish [keeps_intros]: "keeps J (publish event data)"
  by (simp add: keeps_def publish_def)

lemma uncommitted_publish [uncommitted_intros]: "uncommitted (publish event data)"
  by (simp add: uncommitted_def publish_def)

lemma returns_publish [returns_simps]:
  "returns (publish event data) Q w =
     (length (queue w) < max_queue_size \<longrightarrow> Q () (w\<lparr>queue := queue w @ [(event, data)]\<rparr>))"
  by (auto simp: returns_def publish_def)

lemma subscribe_present: "fn \<in> set (subs_of event subs) \<Longrightarrow> subscribe event fn subs = subs"
  by (induction subs rule: subs_of.induct [of _ event]) auto

section \<open>Properties\<close>

text \<open>Registering the handlers is idempotent (starting the bus twice subscribes nothing twice), and
  afterwards every handler is subscribed to the events it was registered for, and exactly once.\<close>

theorem register_idempotent:
  "register_subscribers (register_subscribers subs) = register_subscribers subs \<and>
   subs_of ''order_confirm_intent.created'' (register_subscribers []) = [OrderConfirmCommitIntent] \<and>
   subs_of ''order.paid'' (register_subscribers []) = [OutboxHandle] \<and>
   subs_of ''order.payment_pending'' (register_subscribers []) = [OutboxHandle] \<and>
   subs_of ''product_image_uploaded'' (register_subscribers []) = [ImageTransform]"
  by (simp add: register_subscribers_def subscribe_present subs_of_subscribe)

end
