(* ===== verification/Webhook.thy ===== *)
theory Webhook
  imports PubSub Place_Order "HOL-Library.Sublist"
begin

text \<open>
  Payment webhooks: \<open>razorpay_webhook\<close> of \<open>backend/orders/webhooks.py\<close>, \<open>pay_order_status_util\<close> of
  \<open>backend/orders/utils.py\<close>, the event bookkeeping of \<open>backend/orders/services.py\<close> and the
  statements of \<open>backend/orders/repository.py\<close> it runs. The HMAC of the body and the JSON decoder
  are parameters.
\<close>

section \<open>Statuses\<close>

text \<open>\<open>s in ("failed")\<close> is a substring test on the string \<open>"failed"\<close>, and a TypeError for a value
  that is no string.\<close>

definition pay_order_status_util ::
    "json \<Rightarrow> json \<Rightarrow> exc + (payment_status \<times> order_status \<times> bool \<times> string)" where
  "pay_order_status_util psp_pay_status event = (case psp_pay_status of
     JStr s \<Rightarrow>
       let (ps, os, valid, note) = (PS_PENDING, OS_PENDING_PAYMENT, True, ''processed order and pay failure'');
           (ps, note) = (if sublist s ''failed'' then (PS_FAILED, ''payment status failed'') else (ps, note));
           (ps, os, valid, note) =
             (if s = ''captured'' \<or> s = ''authorized'' \<or> s = ''success''
              then if event = JStr ''payment.authorized'' then (PS_AUTHORIZED, os, valid, ''payment authorized'')
                   else if event = JStr ''payment.captured'' then (PS_CAPTURED, OS_CONFIRMED, valid, ''payment captured'')
                   else if event = JStr ''order.paid'' then (PS_CAPTURED, OS_CONFIRMED, False, ''order paid'')
                   else (ps, os, valid, note)
              else (ps, os, valid, note));
           (ps, valid, note) =
             (if s \<notin> {''captured'', ''authorized'', ''failed'', ''success''}
              then (PS_FAILED, False, ''unknown payment status'') else (ps, valid, note))
       in Inr (ps, os, valid, note)
   | _ \<Rightarrow> Inl TypeError)"

section \<open>Events\<close>

record webhook_request =
  wr_body :: string
  wr_signature :: "string option"
  wr_event_id :: "string option"

text \<open>Both failure branches call \<open>mark_webhook_received\<close> with the keyword \<open>status\<close>, which that
  function does not have: a TypeError. The value returned by this check is ignored by its caller.\<close>

definition verify_razorpay_signature :: "(string \<Rightarrow> string) \<Rightarrow> webhook_request \<Rightarrow> unit handler" where
  "verify_razorpay_signature hmac_hex request = (case wr_signature request of
     None \<Rightarrow> raiseM TypeError
   | Some sig \<Rightarrow>
       if sig = [] then raiseM TypeError
       else if hmac_hex (wr_body request) \<noteq> sig then raiseM TypeError
       else retM ())"

definition webhook_event_already_processed :: "string \<Rightarrow> string \<Rightarrow> bool handler" where
  "webhook_event_already_processed provider_event_id provider =
     letM (query (\<lambda>d. filter (\<lambda>e. we_provider e = provider \<and> we_provider_event_id e = Some provider_event_id)
                             (db_webhook_events d))) (\<lambda>rows.
     letM (liftM (one_or_none rows)) (\<lambda>ev.
     retM (case ev of None \<Rightarrow> False | Some e \<Rightarrow> we_processed_at e \<noteq> None)))"

definition received_event :: "nat \<Rightarrow> int \<Rightarrow> string option \<Rightarrow> string \<Rightarrow> json \<Rightarrow> nat option \<Rightarrow> string option \<Rightarrow>
    int option \<Rightarrow> payment_webhook_event" where
  "received_event i t provider_event_id provider payload order_id last_error pay_st =
     \<lparr>we_id = i, we_provider = provider, we_provider_event_id = provider_event_id,
      we_order_id = order_id, we_payload = payload,
      we_status = (case pay_st of None \<Rightarrow> event_status_value ES_RECEIVED
                   | Some s \<Rightarrow> if s \<noteq> 0 then s else event_status_value ES_RECEIVED),
      we_attempts = 1, we_last_error = last_error, we_processed_at = None, we_created_at = t\<rparr>"

definition mark_webhook_received :: "string option \<Rightarrow> string \<Rightarrow> json \<Rightarrow> nat option \<Rightarrow> string option \<Rightarrow>
    int option \<Rightarrow> nat option handler" where
  "mark_webhook_received provider_event_id provider payload order_id last_error pay_st =
     letM now (\<lambda>t.
     letM (next_id ''paymentwebhookevent'') (\<lambda>i.
     let row = received_event i t provider_event_id provider payload order_id last_error pay_st in
     exec (\<lambda>d. Inr (if conflict webhook_event_key row (db_webhook_events d) then None else Some i,
                    db_webhook_events_update (insert_nothing webhook_event_key row) d))))"

definition mark_webhook_processed :: "nat \<Rightarrow> unit handler" where
  "mark_webhook_processed ev_id =
     letM now (\<lambda>t.
     modify (db_webhook_events_update (upd (\<lambda>e. we_id e = ev_id)
       (\<lambda>e. e\<lparr>we_processed_at := Some t, we_last_error := None\<rparr>))))"

definition webhook_error_recorded :: "nat \<Rightarrow> string \<Rightarrow> unit handler" where
  "webhook_error_recorded ev_id last_error =
     modify (db_webhook_events_update (upd (\<lambda>e. we_id e = ev_id) (\<lambda>e. e\<lparr>we_last_error := Some last_error\<rparr>)))"

section \<open>Payments, orders, intents\<close>

text \<open>\<open>provider_order_id == None\<close> is rendered as IS NULL.\<close>

definition get_pay_record_by_provider_orderid :: "json \<Rightarrow> string \<Rightarrow> (nat \<times> nat) option handler" where
  "get_pay_record_by_provider_orderid provider_order_id provider =
     letM (query (\<lambda>d. map (\<lambda>p. (pay_id p, pay_order_id p))
        (filter (\<lambda>p. pay_provider p = provider \<and>
           pay_provider_order_id p = (if provider_order_id = JNull then None else Some provider_order_id))
          (db_payments d)))) (\<lambda>rows.
     liftM (one_or_none rows))"

definition update_pay_completion_get_orderid :: "nat \<Rightarrow> json \<Rightarrow> payment_status \<Rightarrow> nat option handler" where
  "update_pay_completion_get_orderid i provider_payment_id st =
     letM now (\<lambda>t.
     letM (exec (\<lambda>d.
        let hit = (\<lambda>p. pay_id p = i \<and> pay_status p < payment_status_value st);
            ps = upd hit (\<lambda>p. p\<lparr>pay_status := payment_status_value st, pay_paid_at := Some t,
                               pay_provider_payment_id := Some provider_payment_id\<rparr>) (db_payments d)
        in if unique_on payment_provider_payment_key ps
           then Inr (map pay_order_id (filter hit (db_payments d)), d\<lparr>db_payments := ps\<rparr>)
           else Inl IntegrityError)) (\<lambda>rows.
     liftM (one_or_none rows)))"

definition update_order_status :: "nat \<Rightarrow> order_status \<Rightarrow> unit handler" where
  "update_order_status i st =
     letM now (\<lambda>t.
     modify (db_orders_update (upd (\<lambda>r. o_id r = i)
       (\<lambda>r. r\<lparr>o_status := order_status_value st, o_placed_at := t, o_updated_at := t\<rparr>))))"

definition load_order_items_pid_qty :: "nat \<Rightarrow> (nat \<times> int) list handler" where
  "load_order_items_pid_qty i =
     query (\<lambda>d. map (\<lambda>oi. (oi_product_id oi, oi_quantity oi)) (filter (\<lambda>oi. oi_order_id oi = i) (db_order_items d)))"

definition pending_intent :: "nat \<Rightarrow> int \<Rightarrow> string \<Rightarrow> string \<Rightarrow> nat \<Rightarrow> nat \<times> (nat \<times> int) list \<Rightarrow> commit_intent" where
  "pending_intent i t reason aggr_type order_id payload =
     \<lparr>ci_id = i, ci_aggregate_type = aggr_type, ci_aggregate_id = order_id, ci_reason = reason,
      ci_status = commit_intent_status_value CI_PENDING, ci_payload = payload, ci_attempts = 0,
      ci_next_retry_at = None, ci_created_at = t\<rparr>"

definition create_commit_intent :: "nat \<Rightarrow> string \<Rightarrow> string \<Rightarrow> nat \<times> (nat \<times> int) list \<Rightarrow> nat option handler" where
  "create_commit_intent order_id reason aggr_type payload =
     letM now (\<lambda>t.
     letM (next_id ''commitintent'') (\<lambda>i.
     let row = pending_intent i t reason aggr_type order_id payload in
     letM (exec (\<lambda>d. Inr (if conflict commit_intent_key row (db_commit_intents d) then None else Some i,
                          db_commit_intents_update (insert_nothing commit_intent_key row) d))) (\<lambda>new.
     if truthy_id new then retM new
     else letM (query (\<lambda>d. map ci_id (filter (\<lambda>c. ci_aggregate_id c = order_id \<and> ci_aggregate_type c = aggr_type \<and>
                                                  ci_reason c = reason) (db_commit_intents d)))) (\<lambda>rows.
          liftM (one_or_none rows)))))"

definition emit_outbox_event :: "string \<Rightarrow> json \<Rightarrow> string \<Rightarrow> nat \<Rightarrow> nat option handler" where
  "emit_outbox_event topic payload aggregate_type aggregate_id =
     letM now (\<lambda>t.
     letM (next_id ''outboxevent'') (\<lambda>i.
     let row = \<lparr>ob_id = i, ob_topic = topic, ob_payload = payload, ob_aggregate_type = aggregate_type,
                ob_aggregate_id = aggregate_id, ob_status = outbox_status_value OB_PENDING, ob_attempts = 0,
                ob_next_retry_at = None, ob_created_at = t\<rparr> in
     letM (exec (\<lambda>d. Inr (if conflict outbox_key row (db_outbox d) then None else Some i,
                          db_outbox_update (insert_nothing outbox_key row) d))) (\<lambda>new.
     if truthy_id new then retM new
     else letM (query (\<lambda>d. map ob_id (filter (\<lambda>e. ob_aggregate_id e = aggregate_id \<and>
                             ob_aggregate_type e = aggregate_type \<and> ob_topic e = topic) (db_outbox d)))) (\<lambda>rows.
          liftM (one_or_none rows)))))"

section \<open>The endpoint\<close>

text \<open>What the critical section hands to the publishing step: topic, outbox id, commit intent id and
  the outbox payload.\<close>

record critical_result =
  cr_topic :: "string option"
  cr_outbox_id :: "nat option"
  cr_intent_id :: "nat option"
  cr_payload :: json
  cr_order_id :: nat

definition order_payload :: "nat \<Rightarrow> json \<Rightarrow> json \<Rightarrow> json" where
  "order_payload order_id provider_payment_id provider_order_id =
     JObj [(''order_id'', JInt (int order_id)), (''payment_provider_id'', provider_payment_id),
           (''provider_order_id'', provider_order_id)]"

text \<open>Outbox event and commit intent of a captured or failed payment.\<close>

definition emit_payment_events :: "nat \<Rightarrow> payment_status \<Rightarrow> json \<Rightarrow> critical_result handler" where
  "emit_payment_events oid ps payload =
     (if ps = PS_CAPTURED \<or> ps = PS_FAILED
      then
        let topic = (if ps = PS_CAPTURED then ''order.paid'' else ''order.pending_payment'') in
        letM (if ps = PS_CAPTURED
              then letM (load_order_items_pid_qty oid) (\<lambda>items.
                   create_commit_intent oid ''payment_succeeded'' ''order'' (oid, items))
              else retM None) (\<lambda>commit_int_id.
        letM (emit_outbox_event topic payload ''order'' oid) (\<lambda>outbox_event_id.
        retM \<lparr>cr_topic = Some topic, cr_outbox_id = outbox_event_id, cr_intent_id = commit_int_id,
              cr_payload = payload, cr_order_id = oid\<rparr>))
      else retM \<lparr>cr_topic = None, cr_outbox_id = None, cr_intent_id = None, cr_payload = JNull,
                 cr_order_id = oid\<rparr>)"

text \<open>The critical section; \<open>None\<close> when the payment was not advanced, in which case it returns before
  the commit.\<close>

definition apply_payment :: "nat \<Rightarrow> nat \<Rightarrow> json \<Rightarrow> json \<Rightarrow> payment_status \<Rightarrow> order_status \<Rightarrow>
    critical_result option handler" where
  "apply_payment pay ev_id provider_payment_id provider_order_id ps os =
     letM (update_pay_completion_get_orderid pay provider_payment_id ps) (\<lambda>order_id.
     if \<not> truthy_id order_id then retM None
     else
       let oid = the order_id in
       doM (update_order_status oid os)
      (letM (emit_payment_events oid ps (order_payload oid provider_payment_id provider_order_id)) (\<lambda>r.
       doM (mark_webhook_processed ev_id)
      (doM commit
      (retM (Some r))))))"

fun digits :: "nat \<Rightarrow> string" where
  "digits n = (if n < 10 then [char_of (48 + n)] else digits (n div 10) @ [char_of (48 + n mod 10)])"

definition webhook_error_text :: "payment_status \<Rightarrow> order_status \<Rightarrow> string" where
  "webhook_error_text ps os = ''error while processing webhook current statuses: (payment_status='' @
     digits (nat (payment_status_value ps)) @ '', order_status='' @ digits (nat (order_status_value os)) @ '')''"

definition guarded_apply :: "nat \<Rightarrow> payment_status \<Rightarrow> order_status \<Rightarrow> 'a handler \<Rightarrow> 'a handler" where
  "guarded_apply ev_id ps os m =
     tryM m (\<lambda>e.
       if e = CancelledError then raiseM e
       else doM (tryM (doM rollback (doM (webhook_error_recorded ev_id (webhook_error_text ps os)) commit))
                   (\<lambda>e'. if e' = CancelledError then raiseM e' else retM ()))
              (raiseM e))"

definition notify :: "critical_result \<Rightarrow> unit handler" where
  "notify r =
     whenM (cr_topic r \<noteq> None \<and> truthy_id (cr_outbox_id r))
       (doM (publish (the (cr_topic r)) (JObj [(''outbox_event_id'', JInt (int (the (cr_outbox_id r)))),
               (''topic'', JStr (the (cr_topic r))), (''payload'', cr_payload r)]))
       (whenM (truthy_id (cr_intent_id r))
          (publish ''order_confirm_intent.created'' (JObj [(''commit_intent_id'', JInt (int (the (cr_intent_id r)))),
               (''order_id'', JInt (int (cr_order_id r)))]))))"

definition get_path :: "string list \<Rightarrow> json \<Rightarrow> exc + json" where
  "get_path ks j = fold (\<lambda>k r. case r of Inl e \<Rightarrow> Inl e | Inr v \<Rightarrow> json_get k (JObj []) v) ks (Inr j)"

text \<open>An event of an unknown payment is recorded for reconciliation; an event of a known payment is
  recorded and, if it is valid and new, applied and announced. (For a new row \<open>processed_at\<close> is NULL,
  so the test for an already processed event never succeeds; for a known one there is no row to
  subscript.)\<close>

definition reject_unknown_payment :: "string option \<Rightarrow> json \<Rightarrow> string handler" where
  "reject_unknown_payment provider_event_id payload =
     letM (mark_webhook_received provider_event_id ''razorpay'' payload None
             (Some ''no pay record found for provider_order_id'')
             (Some (event_status_value ES_INCONSISTENT))) (\<lambda>ev.
     retM ''ignored: payment not found'')"

definition apply_and_notify :: "nat \<Rightarrow> nat \<Rightarrow> json \<Rightarrow> json \<Rightarrow> payment_status \<Rightarrow> order_status \<Rightarrow> string \<Rightarrow> string handler" where
  "apply_and_notify pay ev_id provider_payment_id provider_order_id ps os note =
     letM (guarded_apply ev_id ps os
            (apply_payment pay ev_id provider_payment_id provider_order_id ps os)) (\<lambda>r.
     case r of
       None \<Rightarrow> retM ''event not in order''
     | Some res \<Rightarrow> doM (notify res) (retM note))"

definition process_known_payment :: "string option \<Rightarrow> json \<Rightarrow> json \<Rightarrow> json \<Rightarrow> json \<Rightarrow> json \<Rightarrow> nat \<Rightarrow> nat \<Rightarrow> string handler" where
  "process_known_payment provider_event_id payload event provider_payment_id provider_order_id psp_pay_status pay order_id =
     (if \<not> truthy provider_payment_id then raiseM TypeError
      else
        letM (liftM (pay_order_status_util psp_pay_status event)) (\<lambda>(ps, os, is_valid_event, note).
        letM (mark_webhook_received provider_event_id ''razorpay'' payload (Some order_id) None
                (Some (payment_status_value ps))) (\<lambda>ev.
        if \<not> is_valid_event then retM ''ignored: no valid event''
        else (case ev of
          None \<Rightarrow> raiseM TypeError
        | Some ev_id \<Rightarrow> apply_and_notify pay ev_id provider_payment_id provider_order_id ps os note))))"

definition handle_payment_event :: "string option \<Rightarrow> json \<Rightarrow> json \<Rightarrow> json \<Rightarrow> json \<Rightarrow> json \<Rightarrow> string handler" where
  "handle_payment_event provider_event_id payload event provider_payment_id provider_order_id psp_pay_status =
     letM (get_pay_record_by_provider_orderid provider_order_id ''razorpay'') (\<lambda>pay_record.
     case pay_record of
       None \<Rightarrow> reject_unknown_payment provider_event_id payload
     | Some (pay, order_id) \<Rightarrow>
         if order_id = 0 then reject_unknown_payment provider_event_id payload
         else process_known_payment provider_event_id payload event provider_payment_id provider_order_id
                psp_pay_status pay order_id)"

text \<open>A missing event id, and a missing payment id above, again call \<open>mark_webhook_received\<close> with the
  keyword \<open>status\<close>.\<close>

definition razorpay_webhook :: "(string \<Rightarrow> string) \<Rightarrow> (string \<Rightarrow> exc + json) \<Rightarrow> webhook_request \<Rightarrow> string handler" where
  "razorpay_webhook hmac_hex loads request =
     doM (verify_razorpay_signature hmac_hex request)
    (letM (liftM (loads (wr_body request))) (\<lambda>payload.
     letM (liftM (json_get ''event'' JNull payload)) (\<lambda>event.
     if wr_event_id request = None \<or> wr_event_id request = Some [] then raiseM TypeError
     else
       letM (liftM (get_path [''payload'', ''payment'', ''entity''] payload)) (\<lambda>found.
       let payment_entity = py_or found (JObj []) in
       letM (liftM (json_get ''id'' JNull payment_entity)) (\<lambda>id1.
       letM (if truthy id1 then retM id1 else liftM (json_get ''payment_id'' JNull payment_entity)) (\<lambda>provider_payment_id.
       letM (liftM (json_get ''order_id'' JNull payment_entity)) (\<lambda>provider_order_id.
       letM (liftM (json_get ''status'' JNull payment_entity)) (\<lambda>psp_pay_status.
       handle_payment_event (wr_event_id request) payload event provider_payment_id provider_order_id psp_pay_status))))))))"

section \<open>Statuses and signatures\<close>

lemma no_substring:
  "\<not> sublist ''captured'' ''failed''" "\<not> sublist ''authorized'' ''failed''" "\<not> sublist ''success'' ''failed''"
  by code_simp+

text \<open>C25: The mapping from the provider's status and event to the payment's and the order's status, as a
  table. The substring test of the code is harmless: a proper substring of \<open>failed\<close> (or the empty
  string) ends up FAILED and invalid like every other unknown status. Only \<open>payment.captured\<close>
  confirms an order.\<close>

theorem status_table:
  "pay_order_status_util (JStr s) event = Inr
     (if s = ''failed'' then (PS_FAILED, OS_PENDING_PAYMENT, True, ''payment status failed'')
      else if s \<in> {''captured'', ''authorized'', ''success''} then
        (if event = JStr ''payment.authorized'' then (PS_AUTHORIZED, OS_PENDING_PAYMENT, True, ''payment authorized'')
         else if event = JStr ''payment.captured'' then (PS_CAPTURED, OS_CONFIRMED, True, ''payment captured'')
         else if event = JStr ''order.paid'' then (PS_CAPTURED, OS_CONFIRMED, False, ''order paid'')
         else (PS_PENDING, OS_PENDING_PAYMENT, True, ''processed order and pay failure''))
      else (PS_FAILED, OS_PENDING_PAYMENT, False, ''unknown payment status''))"
  by (auto simp: pay_order_status_util_def Let_def no_substring)

lemma valid_status_table:
  assumes "pay_order_status_util st event = Inr (ps, os, True, note)"
  shows "(os = OS_CONFIRMED) = (ps = PS_CAPTURED)" and "ps \<in> {PS_PENDING, PS_AUTHORIZED, PS_FAILED, PS_CAPTURED}"
    and "os \<in> {OS_PENDING_PAYMENT, OS_CONFIRMED}"
  using assms by (auto simp: pay_order_status_util_def Let_def split: json.splits if_splits)

text \<open>A webhook without a valid signature has no effect whatsoever: it touches neither the
  database nor the event bus, and the provider gets an error.\<close>

theorem unsigned_webhook_no_effect:
  assumes "wr_signature request = None \<or> wr_signature request \<noteq> Some (hmac_hex (wr_body request)) \<or>
    hmac_hex (wr_body request) = []"
  shows "razorpay_webhook hmac_hex loads request w = (Inl TypeError, w)"
  using assms
  by (auto simp: razorpay_webhook_def doM_def letM_def verify_razorpay_signature_def raiseM_def
      split: option.split)

definition forged :: webhook_request where
  "forged = \<lparr>wr_body = ''{}'', wr_signature = Some ''00'', wr_event_id = Some ''evt_1''\<rparr>"

lemma unsigned_webhook_no_effect_witness:
  "razorpay_webhook (\<lambda>_. ''ff'') (\<lambda>_. Inr (JObj [])) forged (start 0 empty_db) = (Inl TypeError, start 0 empty_db)"
  by (rule unsigned_webhook_no_effect) (simp add: forged_def)

section \<open>All or nothing\<close>

text \<open>The committed effect of one delivery that advances a payment to \<open>ps\<close>: the payment, its order,
  the event, and on capture the commit intent with the order's items.\<close>

definition advanced :: "nat \<Rightarrow> nat \<Rightarrow> payment_status \<Rightarrow> order_status \<Rightarrow> database \<Rightarrow> database \<Rightarrow> bool" where
  "advanced pay ev ps os d d' \<longleftrightarrow>
     (\<exists>oid t pid. map pay_order_id (filter (\<lambda>p. pay_id p = pay \<and> pay_status p < payment_status_value ps) (db_payments d)) = [oid] \<and>
       db_payments d' = upd (\<lambda>p. pay_id p = pay \<and> pay_status p < payment_status_value ps)
         (\<lambda>p. p\<lparr>pay_status := payment_status_value ps, pay_paid_at := Some t, pay_provider_payment_id := Some pid\<rparr>) (db_payments d) \<and>
       (\<exists>t'. db_orders d' = upd (\<lambda>r. o_id r = oid)
         (\<lambda>r. r\<lparr>o_status := order_status_value os, o_placed_at := t', o_updated_at := t'\<rparr>) (db_orders d)) \<and>
       (\<exists>t''. db_webhook_events d' = upd (\<lambda>e. we_id e = ev)
         (\<lambda>e. e\<lparr>we_processed_at := Some t'', we_last_error := None\<rparr>) (db_webhook_events d)) \<and>
       (if ps = PS_CAPTURED
        then \<exists>i t. db_commit_intents d' = insert_nothing commit_intent_key
          (pending_intent i t ''payment_succeeded'' ''order'' oid (oid, map (\<lambda>oi. (oi_product_id oi, oi_quantity oi))
             (filter (\<lambda>oi. oi_order_id oi = oid) (db_order_items d)))) (db_commit_intents d)
        else db_commit_intents d' = db_commit_intents d)) \<and>
     db_products d' = db_products d \<and> db_order_items d' = db_order_items d"

text \<open>The tables of that effect; outbox events and row ids are not part of it.\<close>

definition core :: "database \<Rightarrow> payment list \<times> order list \<times> payment_webhook_event list \<times> commit_intent list
    \<times> product list \<times> order_item list" where
  "core d = (db_payments d, db_orders d, db_webhook_events d, db_commit_intents d, db_products d, db_order_items d)"

lemma returns_emit_outbox_event:
  "returns (emit_outbox_event topic payload ty i)
     (\<lambda>r v. core (db v) = core (db w) \<and> committed v = committed w \<and> queue v = queue w) w"
  by (simp add: emit_outbox_event_def returns_simps Let_def core_def)

lemma returns_create_commit_intent:
  "returns (create_commit_intent oid reason ty payload)
     (\<lambda>r v. (\<exists>i t. core (db v) = core (db_commit_intents_update
        (insert_nothing commit_intent_key (pending_intent i t reason ty oid payload)) (db w))) \<and>
      committed v = committed w \<and> queue v = queue w) w"
  by (auto simp: create_commit_intent_def returns_simps Let_def core_def)

lemma returns_emit_payment_events:
  "returns (emit_payment_events oid ps payload) (\<lambda>r v. committed v = committed w \<and>
     (if ps = PS_CAPTURED
      then \<exists>i t. core (db v) = core (db_commit_intents_update (insert_nothing commit_intent_key
          (pending_intent i t ''payment_succeeded'' ''order'' oid (oid, map (\<lambda>oi. (oi_product_id oi, oi_quantity oi))
             (filter (\<lambda>oi. oi_order_id oi = oid) (db_order_items (db w)))))) (db w))
      else core (db v) = core (db w))) w"
proof -
  have outbox: "returns (letM (emit_outbox_event topic payload ''order'' oid) (\<lambda>ob. retM (f ob))) Q v"
    if "\<And>r u. committed u = committed v \<Longrightarrow> core (db u) = core (db v) \<Longrightarrow> Q r u"
    for topic f Q and v :: state
    unfolding returns_let returns_ret
    by (rule returns_mono [OF returns_emit_outbox_event]) (simp add: that)
  let ?intent = "\<lambda>i t. db_commit_intents_update (insert_nothing commit_intent_key
          (pending_intent i t ''payment_succeeded'' ''order'' oid (oid, map (\<lambda>oi. (oi_product_id oi, oi_quantity oi))
             (filter (\<lambda>oi. oi_order_id oi = oid) (db_order_items (db w)))))) (db w)"
  show ?thesis
  proof (cases "ps = PS_CAPTURED")
    case True
    have "returns (create_commit_intent oid ''payment_succeeded'' ''order''
        (oid, map (\<lambda>oi. (oi_product_id oi, oi_quantity oi)) (filter (\<lambda>oi. oi_order_id oi = oid) (db_order_items (db w)))))
       (\<lambda>c. returns (letM (emit_outbox_event ''order.paid'' payload ''order'' oid) (\<lambda>outbox_event_id.
          retM \<lparr>cr_topic = Some ''order.paid'', cr_outbox_id = outbox_event_id, cr_intent_id = c,
              cr_payload = payload, cr_order_id = oid\<rparr>))
         (\<lambda>r u. committed u = committed w \<and> (\<exists>i t. core (db u) = core (?intent i t)))) (tick w)"
      by (rule returns_mono [OF returns_create_commit_intent])
        (rule outbox, auto)
    then show ?thesis
      by (simp add: True emit_payment_events_def Let_def load_order_items_pid_qty_def letM_assoc returns_query
          returns_let [of "query f" for f] returns_let [of "create_commit_intent a b c d" for a b c d])
  next
    case False
    then show ?thesis
      by (auto simp: emit_payment_events_def Let_def returns_ret letM_ret intro!: outbox)
  qed
qed

lemma returns_apply_payment:
  "returns (apply_payment pay ev pid roid ps os)
     (\<lambda>r v. case r of None \<Rightarrow> committed v = committed w
        | Some res \<Rightarrow> advanced pay ev ps os (db w) (committed v)) w"
proof -
  have tail: "returns (doM (update_order_status oid os)
      (letM (emit_payment_events oid ps payload) (\<lambda>r.
       doM (mark_webhook_processed ev) (doM commit (retM (Some r)))))) 
     (\<lambda>r u. case r of None \<Rightarrow> committed u = committed w | Some res \<Rightarrow> advanced pay ev ps os (db w) (committed u)) v"
    if hit: "map pay_order_id (filter (\<lambda>p. pay_id p = pay \<and> pay_status p < payment_status_value ps) (db_payments (db w))) = [oid]"
      and dbv: "db v = (db w)\<lparr>db_payments := upd (\<lambda>p. pay_id p = pay \<and> pay_status p < payment_status_value ps)
         (\<lambda>p. p\<lparr>pay_status := payment_status_value ps, pay_paid_at := Some t, pay_provider_payment_id := Some pid\<rparr>) (db_payments (db w))\<rparr>"
      "committed v = committed w" for oid payload t v
  proof -
    let ?mark = "\<lambda>r. doM (mark_webhook_processed ev) (doM commit (retM (Some r)))"
    have "returns (emit_payment_events oid ps payload) (\<lambda>r. returns (?mark r)
       (\<lambda>r u. case r of None \<Rightarrow> committed u = committed w | Some res \<Rightarrow> advanced pay ev ps os (db w) (committed u))) v'"
      if v': "db v' = db_orders_update (upd (\<lambda>r. o_id r = oid)
          (\<lambda>r. r\<lparr>o_status := order_status_value os, o_placed_at := t', o_updated_at := t'\<rparr>)) (db v)" for v' :: state and t'
    proof (rule returns_mono [OF returns_emit_payment_events])
      fix r and u :: state
      assume u: "committed u = committed v' \<and>
         (if ps = PS_CAPTURED
          then \<exists>i t. core (db u) = core (db_commit_intents_update (insert_nothing commit_intent_key
              (pending_intent i t ''payment_succeeded'' ''order'' oid (oid, map (\<lambda>oi. (oi_product_id oi, oi_quantity oi))
                 (filter (\<lambda>oi. oi_order_id oi = oid) (db_order_items (db v')))))) (db v'))
          else core (db u) = core (db v'))"
      have "advanced pay ev ps os (db w) (db_webhook_events_update (upd (\<lambda>e. we_id e = ev)
          (\<lambda>e. e\<lparr>we_processed_at := Some t'', we_last_error := None\<rparr>)) (db u))" for t''
        unfolding advanced_def
        by (intro conjI exI [of _ oid] exI [of _ t] exI [of _ pid] exI [of _ t'] exI [of _ t''])
          (use u hit dbv v' in \<open>auto simp: core_def split: if_splits\<close>)
      then show "returns (?mark r)
       (\<lambda>r u. case r of None \<Rightarrow> committed u = committed w | Some res \<Rightarrow> advanced pay ev ps os (db w) (committed u)) u"
        by (simp add: returns_simps mark_webhook_processed_def)
    qed
    then show ?thesis
      by (simp add: returns_simps update_order_status_def)
  qed
  have found: "map pay_order_id (filter P t) = [the x]"
    if "one_or_none (map pay_order_id (filter P t)) = Inr x" "truthy_id x" for P t x
    using that by (cases x) (auto simp: one_or_none_Some)
  show ?thesis
    unfolding apply_payment_def update_pay_completion_get_orderid_def Let_def
    by (simp add: returns_let [of now] returns_let [of "exec f" for f] returns_let [of "liftM r" for r] letM_assoc
      returns_now returns_exec returns_lift returns_if returns_ret del: list.map filter.simps)
      (auto intro!: tail found)
qed

lemma atomic_apply_payment: "atomic (apply_payment pay ev pid roid ps os)"
  unfolding apply_payment_def update_pay_completion_get_orderid_def update_order_status_def emit_payment_events_def
    load_order_items_pid_qty_def create_commit_intent_def emit_outbox_event_def mark_webhook_processed_def Let_def
  by (intro atomic_intros uncommitted_intros atomic_uncommitted [OF uncommitted_basic(1)])

text \<open>The error path commits nothing: the event's row was inserted in the transaction it rolls back,
  so there is no row left to record the error on.\<close>

lemma error_path_commits_nothing:
  assumes "\<forall>e \<in> set (db_webhook_events (committed w)). we_id e \<noteq> ev"
  shows "wp (doM rollback (doM (webhook_error_recorded ev text) commit))
     (\<lambda>_ v. committed v = committed w) (\<lambda>_ v. committed v = committed w) w"
  using assms
  by (auto simp: wp_do wp_rollback webhook_error_recorded_def wp_modify wp_commit split: option.split)

lemma wp_guarded_apply:
  assumes "atomic m" and "returns m Q w" and "\<forall>e \<in> set (db_webhook_events (committed w)). we_id e \<noteq> ev"
  shows "wp (guarded_apply ev ps os m) Q (\<lambda>_ v. committed v = committed w) w"
proof -
  have handled: "wp (if e = CancelledError then raiseM e
       else doM (tryM (doM rollback (doM (webhook_error_recorded ev (webhook_error_text ps os)) commit))
                   (\<lambda>e'. if e' = CancelledError then raiseM e' else retM ()))
              (raiseM e)) Q (\<lambda>_ v. committed v = committed w) v" if "committed v = committed w" for e v
    unfolding wp_if wp_raise wp_do [of "tryM _ _"] wp_try
    using that assms(3)
    by (auto intro!: wp_mono [OF error_path_commits_nothing] simp: wp_if wp_raise wp_ret)
  show ?thesis
    unfolding guarded_apply_def wp_try
    by (rule wp_mono [OF wp_atomic [OF assms(1,2)]], assumption, erule handled)
qed

text \<open>Statements outside the critical section.\<close>

lemma wp_get_pay_record:
  assumes "\<And>e v. committed v = committed w \<and> queue v = queue w \<Longrightarrow> E e v"
    and "\<And>r v. db v = db w \<Longrightarrow> committed v = committed w \<and> queue v = queue w \<Longrightarrow> seqs v = seqs w \<Longrightarrow> Q r v"
  shows "wp (get_pay_record_by_provider_orderid j p) Q E w"
  by (auto simp: get_pay_record_by_provider_orderid_def wp_let wp_lift query_def wp_exec
      split: option.split sum.split intro!: assms)

lemma wp_mark_webhook_received:
  assumes "\<And>e v. committed v = committed w \<and> queue v = queue w \<Longrightarrow> E e v"
    and "\<And>t v. conflict webhook_event_key (received_event (Suc (seqs w ''paymentwebhookevent'')) t i p payload oid err st)
        (db_webhook_events (db w)) \<Longrightarrow> committed v = committed w \<and> queue v = queue w \<Longrightarrow> Q None v"
    and "\<And>row t v. row = received_event (Suc (seqs w ''paymentwebhookevent'')) t i p payload oid err st \<Longrightarrow>
      \<not> conflict webhook_event_key row (db_webhook_events (db w)) \<Longrightarrow> committed v = committed w \<and> queue v = queue w \<Longrightarrow>
      db v = db_webhook_events_update (\<lambda>t. t @ [row]) (db w) \<Longrightarrow>
      seqs v ''paymentwebhookevent'' = Suc (seqs w ''paymentwebhookevent'') \<Longrightarrow>
      Q (Some (Suc (seqs w ''paymentwebhookevent''))) v"
  shows "wp (mark_webhook_received i p payload oid err st) Q E w"
  unfolding mark_webhook_received_def wp_let wp_now wp_next_id Let_def wp_exec
  by (auto intro!: assms(1) intro: assms(2) assms(3) [OF refl] simp: insert_nothing_def split: option.split)

text \<open>What a delivery of an event may do to the committed database: nothing, or record the event as a
  new row and advance one payment completely.\<close>

definition delivered :: "string option \<Rightarrow> state \<Rightarrow> state \<Rightarrow> bool" where
  "delivered i w v \<longleftrightarrow> committed v = committed w \<or>
     (\<exists>row pay ps os. we_provider row = ''razorpay'' \<and> we_provider_event_id row = i \<and> we_processed_at row = None \<and>
        we_id row = Suc (seqs w ''paymentwebhookevent'') \<and> we_id row \<le> seqs v ''paymentwebhookevent'' \<and>
        \<not> conflict webhook_event_key row (db_webhook_events (committed w)) \<and> (os = OS_CONFIRMED \<longleftrightarrow> ps = PS_CAPTURED) \<and>
        advanced pay (we_id row) ps os (db_webhook_events_update (\<lambda>t. t @ [row]) (committed w)) (committed v))"

definition events_fresh :: "state \<Rightarrow> bool" where
  "events_fresh w \<longleftrightarrow>
     (\<forall>e \<in> set (db_webhook_events (committed w)). we_id e \<le> seqs w ''paymentwebhookevent'')"

lemma uncommitted_notify [uncommitted_intros]: "uncommitted (notify r)"
  unfolding notify_def by (intro uncommitted_intros)

lemma wp_reject:
  assumes "\<And>v. committed v = committed w \<and> queue v = queue w \<Longrightarrow> P v"
  shows "wp (reject_unknown_payment i payload) (\<lambda>_. P) (\<lambda>_. P) w"
  unfolding reject_unknown_payment_def wp_let wp_ret
  by (rule wp_mark_webhook_received) (auto intro: assms)

lemma grows_apply_and_notify [grows_intros]: "grows (apply_and_notify pay ev pid roid ps os n)"
proof -
  have publish: "grows (publish e d)" for e d by (simp add: grows_def publish_def)
  show ?thesis
    unfolding apply_and_notify_def guarded_apply_def apply_payment_def update_pay_completion_get_orderid_def
      update_order_status_def emit_payment_events_def load_order_items_pid_qty_def create_commit_intent_def
      emit_outbox_event_def mark_webhook_processed_def webhook_error_recorded_def notify_def Let_def
    by (intro grows_intros publish)
qed

lemma wp_apply_and_notify:
  assumes "\<forall>e \<in> set (db_webhook_events (committed w)). we_id e \<noteq> ev"
    and "\<And>v. advanced pay ev ps os (db w) (committed v) \<Longrightarrow> \<forall>s. seqs w s \<le> seqs v s \<Longrightarrow> P v"
    and "\<And>v. committed v = committed w \<Longrightarrow> P v"
  shows "wp (apply_and_notify pay ev pid roid ps os n) (\<lambda>_. P) (\<lambda>_. P) w"
proof -
  let ?R = "\<lambda>v. committed v = committed w \<or> advanced pay ev ps os (db w) (committed v)"
  have "wp (apply_and_notify pay ev pid roid ps os n) (\<lambda>_. ?R) (\<lambda>_. ?R) w"
    unfolding apply_and_notify_def wp_let
  proof (rule wp_mono [OF wp_guarded_apply [OF atomic_apply_payment returns_apply_payment assms(1)]])
    fix r :: "critical_result option" and v :: state
    assume v: "case r of None \<Rightarrow> committed v = committed w | Some res \<Rightarrow> advanced pay ev ps os (db w) (committed v)"
    have "wp (notify res) (\<lambda>_. ?R) (\<lambda>_. ?R) v" if "?R v" for res
      using that by (intro wp_mono [OF wp_uncommitted [OF uncommitted_notify]]) simp_all
    with v show "wp (case r of None \<Rightarrow> retM ''event not in order'' | Some res \<Rightarrow> doM (notify res) (retM n))
        (\<lambda>_. ?R) (\<lambda>_. ?R) v"
      by (cases r) (simp_all add: wp_ret wp_do)
  qed simp
  from wp_grows [OF grows_apply_and_notify this] show ?thesis
    by (rule wp_mono) (use assms(2,3) in auto)
qed

lemma wp_process_known_payment:
  assumes db: "db w = committed w" and fresh: "events_fresh w"
  shows "wp (process_known_payment i payload event pid roid st pay oid) (\<lambda>_. delivered i w) (\<lambda>_. delivered i w) w"
proof -
  have same: "delivered i w v" if "committed v = committed w" for v
    using that by (simp add: delivered_def)
  have app: "wp (apply_and_notify pay (Suc (seqs w ''paymentwebhookevent'')) pid roid ps os n)
      (\<lambda>_. delivered i w) (\<lambda>_. delivered i w) v"
    if st: "pay_order_status_util st event = Inr (ps, os, True, n)"
      and row: "row = received_event (Suc (seqs w ''paymentwebhookevent'')) t i ''razorpay'' payload oid' err st'"
        "\<not> conflict webhook_event_key row (db_webhook_events (db w))"
      and v: "committed v = committed w \<and> queue v = queue w" "db v = db_webhook_events_update (\<lambda>t. t @ [row]) (db w)"
        "seqs v ''paymentwebhookevent'' = Suc (seqs w ''paymentwebhookevent'')"
    for ps os n row t oid' err st' v
  proof (rule wp_apply_and_notify)
    fix u :: state
    assume "advanced pay (Suc (seqs w ''paymentwebhookevent'')) ps os (db v) (committed u)" "\<forall>s. seqs v s \<le> seqs u s"
    then show "delivered i w u"
      unfolding delivered_def
      using st row v db valid_status_table [OF st]
      by (intro disjI2 exI [of _ row] exI [of _ pay] exI [of _ ps] exI [of _ os])
        (auto simp: received_event_def dest: spec [of _ "''paymentwebhookevent''"])
  qed (use v fresh same in \<open>auto simp: events_fresh_def Suc_le_eq\<close>)
  show ?thesis
  proof (cases "truthy pid \<and> (\<exists>r. pay_order_status_util st event = Inr r)")
    case False
    then show ?thesis
      using same by (auto simp: process_known_payment_def wp_raise wp_let wp_lift split: sum.split)
  next
    case True
    then obtain ps os valid n where st: "truthy pid" "pay_order_status_util st event = Inr (ps, os, valid, n)"
      by auto
    have "wp (mark_webhook_received i ''razorpay'' payload (Some oid) None (Some (payment_status_value ps)))
       (\<lambda>ev. wp (if \<not> valid then retM ''ignored: no valid event''
            else case ev of None \<Rightarrow> raiseM TypeError
              | Some ev_id \<Rightarrow> apply_and_notify pay ev_id pid roid ps os n) (\<lambda>_. delivered i w) (\<lambda>_. delivered i w))
       (\<lambda>_. delivered i w) w"
      using app [of ps os n] st(2) same
      by (cases valid; intro wp_mark_webhook_received) (simp_all add: wp_ret wp_raise)
    with st show ?thesis
      by (simp add: process_known_payment_def wp_let wp_lift)
  qed
qed

lemma wp_handle_payment_event:
  assumes "db w = committed w" and "events_fresh w"
  shows "wp (handle_payment_event i payload event pid roid st) (\<lambda>_. delivered i w) (\<lambda>_. delivered i w) w"
  unfolding handle_payment_event_def wp_let
proof (rule wp_get_pay_record)
  fix r :: "(nat \<times> nat) option" and v :: state
  assume v: "db v = db w" "committed v = committed w \<and> queue v = queue w" "seqs v = seqs w"
  have frame: "delivered j v = delivered j w" for j
    by (rule ext) (simp add: delivered_def v)
  have "wp (reject_unknown_payment i payload) (\<lambda>_. delivered i w) (\<lambda>_. delivered i w) v"
    by (rule wp_reject) (simp add: v delivered_def)
  moreover have "wp (process_known_payment i payload event pid roid st pay oid) (\<lambda>_. delivered i w) (\<lambda>_. delivered i w) v" for pay oid
    using wp_process_known_payment [of v] v assms frame by (simp add: events_fresh_def)
  ultimately show "wp (case r of None \<Rightarrow> reject_unknown_payment i payload
        | Some (pay, order_id) \<Rightarrow>
         if order_id = 0 then reject_unknown_payment i payload
         else process_known_payment i payload event pid roid st pay order_id) (\<lambda>_. delivered i w) (\<lambda>_. delivered i w) v"
    by (auto split: option.split)
qed (simp add: delivered_def)

lemma webhook_delivered:
  assumes "db w = committed w" and "events_fresh w"
  shows "delivered (wr_event_id request) w (snd (razorpay_webhook hmac_hex loads request w))"
proof -
  have same: "delivered i w w" for i by (simp add: delivered_def)
  have "wp (razorpay_webhook hmac_hex loads request) (\<lambda>_. delivered (wr_event_id request) w)
      (\<lambda>_. delivered (wr_event_id request) w) w"
    using same wp_handle_payment_event [OF assms]
    by (auto simp: razorpay_webhook_def verify_razorpay_signature_def wp_simps Let_def split: option.split sum.split)
  then show ?thesis by (simp add: wp_state)
qed

section \<open>Runs of deliveries\<close>

text \<open>Any sequence of webhook requests, each served in its own session.\<close>

definition deliver :: "(string \<Rightarrow> string) \<Rightarrow> (string \<Rightarrow> exc + json) \<Rightarrow> webhook_request \<Rightarrow> state \<Rightarrow> state" where
  "deliver hmac_hex loads request w = serve (razorpay_webhook hmac_hex loads request) w"

text \<open>A captured payment has a confirmed order and a commit intent.\<close>

definition captured_ok :: "database \<Rightarrow> bool" where
  "captured_ok d \<longleftrightarrow> unique_on payment_order_key (db_payments d) \<and>
     (\<forall>p \<in> set (db_payments d). pay_status p = payment_status_value PS_CAPTURED \<longrightarrow>
        (\<forall>r \<in> set (db_orders d). o_id r = pay_order_id p \<longrightarrow> o_status r = order_status_value OS_CONFIRMED) \<and>
        (''payment_succeeded'', ''order'', pay_order_id p) \<in> set (keys_of commit_intent_key (db_commit_intents d)))"

definition status_of :: "nat \<Rightarrow> database \<Rightarrow> int" where
  "status_of i d = (case find (\<lambda>p. pay_id p = i) (db_payments d) of None \<Rightarrow> - 1 | Some p \<Rightarrow> pay_status p)"

lemma find_upd_key:
  "(\<And>r. g (f r) = g r) \<Longrightarrow>
   find (\<lambda>r. g r = i) (upd P f t) = map_option (\<lambda>r. if P r then f r else r) (find (\<lambda>r. g r = i) t)"
  by (induction t) auto

lemma advanced_status:
  assumes "advanced pay ev ps os d d'"
  shows "status_of i d \<le> status_of i d'"
proof -
  obtain t pid where "db_payments d' = upd (\<lambda>p. pay_id p = pay \<and> pay_status p < payment_status_value ps)
         (\<lambda>p. p\<lparr>pay_status := payment_status_value ps, pay_paid_at := Some t, pay_provider_payment_id := Some pid\<rparr>) (db_payments d)"
    using assms by (auto simp: advanced_def)
  then show ?thesis
    by (auto simp: status_of_def find_upd_key split: option.split)
qed

lemma advanced_captured_ok:
  assumes adv: "advanced pay ev ps os d d'" and ok: "captured_ok d" and os: "os = OS_CONFIRMED \<longleftrightarrow> ps = PS_CAPTURED"
  shows "captured_ok d'"
proof -
  let ?hit = "\<lambda>p. pay_id p = pay \<and> pay_status p < payment_status_value ps"
  obtain oid t pid t' where rows: "map pay_order_id (filter ?hit (db_payments d)) = [oid]"
    and pays: "db_payments d' = upd ?hit
         (\<lambda>p. p\<lparr>pay_status := payment_status_value ps, pay_paid_at := Some t, pay_provider_payment_id := Some pid\<rparr>) (db_payments d)"
    and ords: "db_orders d' = upd (\<lambda>r. o_id r = oid)
         (\<lambda>r. r\<lparr>o_status := order_status_value os, o_placed_at := t', o_updated_at := t'\<rparr>) (db_orders d)"
    and ints: "if ps = PS_CAPTURED then \<exists>i t. db_commit_intents d' = insert_nothing commit_intent_key
          (pending_intent i t ''payment_succeeded'' ''order'' oid (oid, map (\<lambda>oi. (oi_product_id oi, oi_quantity oi))
             (filter (\<lambda>oi. oi_order_id oi = oid) (db_order_items d)))) (db_commit_intents d)
        else db_commit_intents d' = db_commit_intents d"
    using adv unfolding advanced_def by (elim exE conjE) (rule that, assumption+)
  let ?key = "\<lambda>i. (''payment_succeeded'', ''order'', i)"
  obtain p where p: "p \<in> set (db_payments d)" "?hit p" "pay_order_id p = oid"
    using equalityD2 [OF arg_cong [OF rows, of set]] by auto
  have hits: "pay_order_id q = oid" if "q \<in> set (db_payments d)" "?hit q" for q
    using arg_cong [OF rows, of set] that by auto
  have uniq: "unique_on payment_order_key (db_payments d)" using ok by (simp add: captured_ok_def)
  have others: "pay_order_id q \<noteq> oid" if "q \<in> set (db_payments d)" "\<not> ?hit q" for q
    using unique_onD [OF uniq that(1) p(1), of oid] p that by (auto simp: payment_order_key_def)
  have keys: "k \<in> set (keys_of commit_intent_key (db_commit_intents d'))"
    if "k \<in> set (keys_of commit_intent_key (db_commit_intents d))" for k
    using that ints by (auto simp: insert_nothing.ins_keeps_keys split: if_splits)
  have new: "?key oid \<in> set (keys_of commit_intent_key (db_commit_intents d'))" if "ps = PS_CAPTURED"
    using that ints
    by (auto intro!: insert_nothing.ins_key_present simp: commit_intent_key_def pending_intent_def)
  have moved: "ps = PS_CAPTURED \<and> pay_order_id q = oid"
    if hyp: "q \<in> set (db_payments d')" "pay_status q = payment_status_value PS_CAPTURED"
      "\<not> (q \<in> set (db_payments d) \<and> \<not> ?hit q)" for q
  proof -
    obtain p' where "p' \<in> set (db_payments d)" "?hit p'"
      "q = p'\<lparr>pay_status := payment_status_value ps, pay_paid_at := Some t, pay_provider_payment_id := Some pid\<rparr>"
      using hyp(1,3) unfolding pays set_upd by blast
    with hyp(2) hits show ?thesis by (cases ps) auto
  qed
  show ?thesis
    unfolding captured_ok_def
  proof (intro conjI ballI impI)
    show "unique_on payment_order_key (db_payments d')"
      unfolding pays using uniq by (rule unique_on_upd) (simp add: payment_order_key_def)
  next
    fix q r assume q: "q \<in> set (db_payments d')" "pay_status q = payment_status_value PS_CAPTURED"
      and r: "r \<in> set (db_orders d')" "o_id r = pay_order_id q"
    show "o_status r = order_status_value OS_CONFIRMED"
    proof (cases "q \<in> set (db_payments d) \<and> \<not> ?hit q")
      case True
      with others have "pay_order_id q \<noteq> oid" by blast
      with r have "r \<in> set (db_orders d)" using ords by (auto simp: set_upd)
      with True q r ok show ?thesis by (auto simp: captured_ok_def)
    next
      case False
      with moved q have "ps = PS_CAPTURED" "pay_order_id q = oid" by blast+
      moreover from r(1) have "r \<in> set (db_orders d) \<and> o_id r \<noteq> oid \<or>
          (\<exists>x. r = x\<lparr>o_status := order_status_value os, o_placed_at := t', o_updated_at := t'\<rparr>)"
        unfolding ords set_upd by blast
      ultimately show ?thesis using os r(2) by auto
    qed
  next
    fix q assume q: "q \<in> set (db_payments d')" "pay_status q = payment_status_value PS_CAPTURED"
    show "?key (pay_order_id q) \<in> set (keys_of commit_intent_key (db_commit_intents d'))"
    proof (cases "q \<in> set (db_payments d) \<and> \<not> ?hit q")
      case True
      with q ok show ?thesis by (auto simp: captured_ok_def intro: keys)
    next
      case False
      with moved q have "ps = PS_CAPTURED" "pay_order_id q = oid" by blast+
      with new show ?thesis by simp
    qed
  qed
qed

lemma deliver_delivered:
  assumes "events_fresh w"
  shows "delivered (wr_event_id rq) w (deliver h l rq w)"
proof -
  let ?w = "w\<lparr>db := committed w, aborted := False\<rparr>"
  have "delivered (wr_event_id rq) ?w (snd (razorpay_webhook h l rq ?w))"
    using assms by (intro webhook_delivered) (simp_all add: events_fresh_def)
  then show ?thesis
    by (simp add: deliver_def serve_def with_session_def delivered_def case_prod_beta)
qed

lemma grows_webhook: "grows (razorpay_webhook h l rq)"
  unfolding razorpay_webhook_def verify_razorpay_signature_def handle_payment_event_def
    get_pay_record_by_provider_orderid_def reject_unknown_payment_def process_known_payment_def
    mark_webhook_received_def Let_def
  by (intro grows_intros)

lemma deliver_seqs: "seqs w s \<le> seqs (deliver h l rq w) s"
proof -
  let ?w = "w\<lparr>db := committed w, aborted := False\<rparr>"
  have "seqs ?w s \<le> seqs (snd (razorpay_webhook h l rq ?w)) s"
    by (rule growsD [OF grows_webhook, OF surjective_pairing])
  then show ?thesis by (simp add: deliver_def serve_def with_session_def case_prod_beta)
qed

lemma events_frame:
  "captured_ok (db_webhook_events_update f d) = captured_ok d"
  "status_of k (db_webhook_events_update f d) = status_of k d"
  by (simp_all add: captured_ok_def status_of_def)

lemma deliveredE:
  assumes "delivered i w v"
  obtains "committed v = committed w"
  | row pay ps os where "advanced pay (we_id row) ps os (db_webhook_events_update (\<lambda>t. t @ [row]) (committed w)) (committed v)"
      "os = OS_CONFIRMED \<longleftrightarrow> ps = PS_CAPTURED" "we_id row \<le> seqs v ''paymentwebhookevent''"
  using assms unfolding delivered_def by blast

lemma advanced_event_ids:
  "advanced pay ev ps os d d' \<Longrightarrow> map we_id (db_webhook_events d') = map we_id (db_webhook_events d)"
  unfolding advanced_def by (elim exE conjE) (simp add: map_upd_same)

lemma events_fresh_ids:
  "events_fresh w \<longleftrightarrow> (\<forall>i \<in> set (map we_id (db_webhook_events (committed w))). i \<le> seqs w ''paymentwebhookevent'')"
  by (simp add: events_fresh_def)

lemma deliver_events_fresh:
  assumes "events_fresh w"
  shows "events_fresh (deliver h l rq w)"
proof -
  have mono: "seqs w ''paymentwebhookevent'' \<le> seqs (deliver h l rq w) ''paymentwebhookevent''"
    by (rule deliver_seqs)
  show ?thesis
    using deliver_delivered [OF assms, of rq h l]
  proof (cases rule: deliveredE)
    case 1
    then show ?thesis using assms mono by (auto simp: events_fresh_def intro: order_trans)
  next
    case (2 row pay ps os)
    from advanced_event_ids [OF 2(1)] 2(3) assms mono show ?thesis
      unfolding events_fresh_ids by (auto intro: order_trans)
  qed
qed

lemma delivered_captured_ok: "delivered i w v \<Longrightarrow> captured_ok (committed w) \<Longrightarrow> captured_ok (committed v)"
  by (erule deliveredE) (simp_all add: advanced_captured_ok events_frame)

lemma delivered_status: "delivered i w v \<Longrightarrow> status_of k (committed w) \<le> status_of k (committed v)"
  by (erule deliveredE) (auto dest: advanced_status [of _ _ _ _ _ _ k] simp: events_frame)

interpretation deliveries: monotone_machine "deliver h l"
    "\<lambda>w. events_fresh w \<and> captured_ok (committed w)" "\<lambda>w. status_of k (committed w)" for h l k
  by unfold_locales
    (auto intro: deliver_events_fresh delivered_captured_ok deliver_delivered delivered_status)

text \<open>C1: One delivery is all or nothing, whatever statement, commit or rollback fails, and whether
  the endpoint answers or raises: either the committed database is untouched, or the event is
  recorded as processed and, in the same commit, exactly one payment has advanced to the event's
  status, its order has the status that goes with it, and on capture a commit intent with the
  order's items exists.\<close>

theorem webhook_all_or_nothing:
  assumes "events_fresh w"
  shows "delivered (wr_event_id request) w (deliver hmac_hex loads request w)"
  using assms by (rule deliver_delivered)

text \<open>C3: However events are delivered (late, repeated, out of order, failing half-way), the status of a
  payment never goes back: PENDING, ACCEPTED, AUTHORIZED, FAILED, CAPTURED, REFUNDED in this order.\<close>

theorem payment_status_monotone:
  assumes "events_fresh w" and "captured_ok (committed w)"
  shows "status_of k (committed w) \<le> status_of k (committed (fold (deliver hmac_hex loads) requests w))"
  using assms by (intro deliveries.run_rank) simp

text \<open>C2: After any run of deliveries, every captured payment has its order confirmed and a commit
  intent for that order, and there is one payment per order.\<close>

theorem captured_orders_confirmed:
  assumes "events_fresh w" and "captured_ok (committed w)"
  shows "captured_ok (committed (fold (deliver hmac_hex loads) requests w))"
  using assms deliveries.run_inv [of w hmac_hex loads requests] by simp

section \<open>Deliveries that succeed, deliveries that repeat\<close>

definition captured_body :: "json \<Rightarrow> json \<Rightarrow> json" where
  "captured_body provider_payment_id provider_order_id =
     JObj [(''event'', JStr ''payment.captured''), (''payload'', JObj [(''payment'', JObj [(''entity'',
       JObj [(''id'', provider_payment_id), (''order_id'', provider_order_id), (''status'', JStr ''captured'')])])])]"

definition signed :: "(string \<Rightarrow> string) \<Rightarrow> (string \<Rightarrow> exc + json) \<Rightarrow> webhook_request \<Rightarrow> json \<Rightarrow> json \<Rightarrow> bool" where
  "signed hmac_hex loads rq pid poid \<longleftrightarrow>
     wr_signature rq = Some (hmac_hex (wr_body rq)) \<and> hmac_hex (wr_body rq) \<noteq> [] \<and>
     loads (wr_body rq) = Inr (captured_body pid poid) \<and> wr_event_id rq \<noteq> None \<and> wr_event_id rq \<noteq> Some [] \<and>
     truthy pid \<and> poid \<noteq> JNull"

lemma webhook_captured_body:
  "signed hmac_hex loads rq pid poid \<Longrightarrow>
   razorpay_webhook hmac_hex loads rq =
     handle_payment_event (wr_event_id rq) (captured_body pid poid) (JStr ''payment.captured'') pid poid (JStr ''captured'')"
  by (auto simp: razorpay_webhook_def verify_razorpay_signature_def signed_def captured_body_def get_path_def
      doM_def letM_ret liftM_def retM_def letM_def py_or_def fun_eq_iff)

lemma status_captured:
  "pay_order_status_util (JStr ''captured'') (JStr ''payment.captured'') = Inr (PS_CAPTURED, OS_CONFIRMED, True, ''payment captured'')"
  by (simp add: pay_order_status_util_def Let_def no_substring)

definition known_event :: "webhook_request \<Rightarrow> database \<Rightarrow> bool" where
  "known_event rq d \<longleftrightarrow> (\<exists>e \<in> set (db_webhook_events d). we_provider e = ''razorpay'' \<and>
     we_provider_event_id e = wr_event_id rq \<and> wr_event_id rq \<noteq> None)"

lemma duplicate_conflict:
  "known_event rq d \<Longrightarrow>
     conflict webhook_event_key (received_event n t (wr_event_id rq) ''razorpay'' payload oid err st) (db_webhook_events d)"
  by (auto simp: known_event_def conflict_iff webhook_event_key_def received_event_def)

text \<open>C10: A redelivered event changes nothing: once an event of this id is recorded, every further
  delivery of it leaves the committed database and the event bus alone, whatever it says and
  whatever fails.\<close>

theorem duplicate_no_effect:
  assumes "known_event rq (committed w)"
  shows "committed (deliver hmac_hex loads rq w) = committed w \<and> queue (deliver hmac_hex loads rq w) = queue w"
proof -
  let ?w = "w\<lparr>db := committed w, aborted := False\<rparr>" and ?J = "\<lambda>v. committed v = committed w \<and> queue v = queue w"
  have known: "wp (mark_webhook_received (wr_event_id rq) ''razorpay'' payload oid err st)
      (\<lambda>ev v. ev = None \<and> ?J v) (\<lambda>_. ?J) v" if "db v = committed w \<and> ?J v" for payload oid err st v
    using that duplicate_conflict [OF assms] by (intro wp_mark_webhook_received) auto
  have reject: "wp (reject_unknown_payment (wr_event_id rq) payload) (\<lambda>_. ?J) (\<lambda>_. ?J) v"
    if "db v = committed w \<and> ?J v" for payload v
    unfolding reject_unknown_payment_def wp_let by (rule wp_mono [OF known [OF that]]) (simp_all add: wp_ret)
  have process: "wp (process_known_payment (wr_event_id rq) payload event pid roid st pay oid) (\<lambda>_. ?J) (\<lambda>_. ?J) v"
    if v: "db v = committed w \<and> ?J v" for payload event pid roid st pay oid v
    using v by (auto simp: process_known_payment_def wp_raise wp_let wp_lift wp_ret split: sum.split
        intro: wp_mono [OF known [OF v]])
  have "wp (handle_payment_event (wr_event_id rq) payload event pid roid st) (\<lambda>_. ?J) (\<lambda>_. ?J) ?w" for payload event pid roid st
    unfolding handle_payment_event_def wp_let
    by (rule wp_get_pay_record) (auto split: option.split intro: reject process)
  then have "wp (razorpay_webhook hmac_hex loads rq) (\<lambda>_. ?J) (\<lambda>_. ?J) ?w"
    by (auto simp: razorpay_webhook_def verify_razorpay_signature_def wp_simps Let_def split: option.split sum.split)
  then show ?thesis
    by (simp add: wp_state deliver_def serve_def with_session_def case_prod_beta)
qed

lemma unique_on_upd_single:
  assumes "unique_on key t" and "filter P t = [x]" and "\<And>r. r \<in> set t \<Longrightarrow> key r \<noteq> key (f x)"
  shows "unique_on key (upd P f t)"
  using assms
proof (induction t)
  case Nil
  then show ?case by simp
next
  case (Cons r rs)
  have tail: "unique_on key rs" using Cons.prems(1) by (auto simp: unique_on_def split: option.splits)
  show ?case
  proof (cases "P r")
    case True
    with Cons.prems(2) have "filter P rs = []" and "r = x" by simp_all
    then have "upd P f rs = rs" by (auto simp: filter_empty_conv)
    with True tail Cons.prems(3) \<open>r = x\<close> show ?thesis
      by (auto simp: unique_on_def set_keys_of split: option.split)
  next
    case False
    with Cons.prems(2) have one: "filter P rs = [x]" by simp
    then have "unique_on key (upd P f rs)" using Cons.IH tail Cons.prems(3) by simp
    moreover have "k \<notin> set (keys_of key (upd P f rs))" if "key r = Some k" for k
    proof -
      have "key y \<noteq> Some k" if "y \<in> set rs" for y
        using Cons.prems(1) that \<open>key r = Some k\<close> by (auto simp: unique_on_def set_keys_of)
      moreover have "key (f y) \<noteq> Some k" if "y \<in> set rs" "P y" for y
      proof -
        have "y \<in> set (filter P rs)" using that by simp
        with one have "y = x" by simp
        with Cons.prems(3) [of r] \<open>key r = Some k\<close> show ?thesis by auto
      qed
      ultimately show ?thesis by (auto simp: set_keys_of set_upd)
    qed
    ultimately show ?thesis using False by (auto simp: unique_on_def split: option.split)
  qed
qed

text \<open>What a capture leaves: the payment and its order, the intent to take the order's items out of the stock, and the two
  messages.\<close>

definition paid_message :: "nat \<Rightarrow> nat \<Rightarrow> json \<Rightarrow> json \<Rightarrow> json" where
  "paid_message outbox oid pid poid = JObj [(''outbox_event_id'', JInt (int outbox)), (''topic'', JStr ''order.paid''),
     (''payload'', order_payload oid pid poid)]"

definition confirm_message :: "nat \<Rightarrow> nat \<Rightarrow> json" where
  "confirm_message i oid = JObj [(''commit_intent_id'', JInt (int i)), (''order_id'', JInt (int oid))]"

definition captured :: "payment \<Rightarrow> state \<Rightarrow> state \<Rightarrow> bool" where
  "captured p w v \<longleftrightarrow>
     map pay_status (filter (\<lambda>q. pay_id q = pay_id p) (db_payments (committed v))) = [payment_status_value PS_CAPTURED] \<and>
     (\<forall>r \<in> set (db_orders (committed v)). o_id r = pay_order_id p \<longrightarrow> o_status r = order_status_value OS_CONFIRMED) \<and>
     (\<exists>t. db_commit_intents (committed v) = db_commit_intents (committed w) @
        [pending_intent (Suc (seqs w ''commitintent'')) t ''payment_succeeded'' ''order'' (pay_order_id p)
          (pay_order_id p, map (\<lambda>oi. (oi_product_id oi, oi_quantity oi))
             (filter (\<lambda>oi. oi_order_id oi = pay_order_id p) (db_order_items (committed w))))]) \<and>
     db_products (committed v) = db_products (committed w) \<and> quiet v"

lemma capture_run:
  assumes "quiet w" and "signed hmac_hex loads rq (JStr pid) (JStr poid)" and "\<not> known_event rq (committed w)"
    and "filter (\<lambda>p. pay_provider p = ''razorpay'' \<and> pay_provider_order_id p = Some (JStr poid)) (db_payments (committed w)) = [p]"
    and "pay_order_id p \<noteq> 0" and "pay_status p < payment_status_value PS_CAPTURED"
    and "filter (\<lambda>q. pay_id q = pay_id p) (db_payments (committed w)) = [p]"
    and "unique_on payment_provider_payment_key (db_payments (committed w))"
    and "\<forall>q \<in> set (db_payments (committed w)). pay_provider_payment_id q \<noteq> Some (JStr pid)"
    and "\<forall>i \<in> set (db_commit_intents (committed w)). ci_aggregate_id i \<noteq> pay_order_id p"
    and "\<forall>i \<in> set (db_outbox (committed w)). ob_aggregate_id i \<noteq> pay_order_id p"
    and "queue w = []"
  shows "wp (handle_payment_event (wr_event_id rq) (captured_body (JStr pid) (JStr poid)) (JStr ''payment.captured'')
       (JStr pid) (JStr poid) (JStr ''captured''))
     (\<lambda>r v. r = ''payment captured'' \<and> captured p w v \<and>
        queue v = [(''order.paid'', paid_message (Suc (seqs w ''outboxevent'')) (pay_order_id p) (JStr pid) (JStr poid)),
          (''order_confirm_intent.created'', confirm_message (Suc (seqs w ''commitintent'')) (pay_order_id p))])
     (\<lambda>_ _. False) (w\<lparr>db := committed w\<rparr>)"
proof -
  let ?d = "committed w" and ?k = "\<lambda>q. pay_id q = pay_id p" and ?done = "Suc (seqs w ''paymentwebhookevent'')"
  let ?hit = "\<lambda>q. ?k q \<and> pay_status q < 30"
  have hit: "filter ?hit (db_payments ?d) = [p]"
    using arg_cong [OF assms(7), of "filter (\<lambda>q. pay_status q < 30)"] assms(6) by simp
  have uniq: "unique_on payment_provider_payment_key (upd ?hit f (db_payments ?d))"
    if "pay_provider_payment_id (f p) = Some (JStr pid)" for f
    using assms(8) hit by (rule unique_on_upd_single) (use assms(9) that in \<open>auto simp: payment_provider_payment_key_def\<close>)
  have fresh: "\<not> conflict webhook_event_key (received_event n t (wr_event_id rq) ''razorpay'' payload oid err st) (db_webhook_events ?d)" for n t payload oid err st
    using assms(3) by (auto simp: known_event_def conflict_iff webhook_event_key_def received_event_def)
  have intent: "\<not> conflict commit_intent_key (pending_intent i t r a (pay_order_id p) x) (db_commit_intents ?d)" for i t r a x
    using assms(10) by (auto simp: conflict_iff commit_intent_key_def pending_intent_def)
  have outbox: "\<not> conflict outbox_key row (db_outbox ?d)" if "ob_aggregate_id row = pay_order_id p" for row
    using assms(11) that by (auto simp: conflict_iff outbox_key_def)
  have moved: "filter ?k (upd ?hit f (db_payments ?d)) = [f p]" if "\<And>q. pay_id (f q) = pay_id q" for f
    using assms(6,7) that by (simp add: filter_upd_same)
  have any: "\<exists>t. pending_intent i t' r a oid x = pending_intent i t r a oid x" for i t' r a oid x by blast
  show ?thesis
    using assms(1,2,4,5,6,12)
    by (simp add: any handle_payment_event_def get_pay_record_by_provider_orderid_def wp_simps process_known_payment_def
      status_captured mark_webhook_received_def fresh Let_def apply_and_notify_def guarded_apply_def
      apply_payment_def update_pay_completion_get_orderid_def uniq hit moved signed_def captured_def paid_message_def confirm_message_def
      update_order_status_def emit_payment_events_def load_order_items_pid_qty_def create_commit_intent_def
      emit_outbox_event_def mark_webhook_processed_def notify_def intent outbox
      insert_nothing_def max_queue_size_def set_upd ball_Un)
qed

text \<open>A signed, new capture event of a payment that is still open takes effect, when no statement
  fails: the provider is answered, the payment is CAPTURED with the provider's id, its order is
  CONFIRMED, the event is processed, and the commit intent is announced on the bus.\<close>

theorem capture_applied:
  assumes "quiet w" and "signed hmac_hex loads rq (JStr pid) (JStr poid)" and "\<not> known_event rq (committed w)"
    and "filter (\<lambda>p. pay_provider p = ''razorpay'' \<and> pay_provider_order_id p = Some (JStr poid)) (db_payments (committed w)) = [p]"
    and "pay_order_id p \<noteq> 0" and "pay_status p < payment_status_value PS_CAPTURED"
    and "filter (\<lambda>q. pay_id q = pay_id p) (db_payments (committed w)) = [p]"
    and "unique_on payment_provider_payment_key (db_payments (committed w))"
    and "\<forall>q \<in> set (db_payments (committed w)). pay_provider_payment_id q \<noteq> Some (JStr pid)"
    and "\<forall>i \<in> set (db_commit_intents (committed w)). ci_aggregate_id i \<noteq> pay_order_id p"
    and "\<forall>i \<in> set (db_outbox (committed w)). ob_aggregate_id i \<noteq> pay_order_id p"
    and "queue w = []"
  shows "\<exists>v. razorpay_webhook hmac_hex loads rq (w\<lparr>db := committed w\<rparr>) = (Inr ''payment captured'', v) \<and>
     map pay_status (filter (\<lambda>q. pay_id q = pay_id p) (db_payments (committed v))) = [payment_status_value PS_CAPTURED] \<and>
     (\<forall>r \<in> set (db_orders (committed v)). o_id r = pay_order_id p \<longrightarrow> o_status r = order_status_value OS_CONFIRMED) \<and>
     map fst (queue v) = [''order.paid'', ''order_confirm_intent.created'']"
proof -
  have "\<exists>v. razorpay_webhook hmac_hex loads rq (w\<lparr>db := committed w\<rparr>) = (Inr ''payment captured'', v) \<and> captured p w v \<and>
      map fst (queue v) = [''order.paid'', ''order_confirm_intent.created'']"
    unfolding webhook_captured_body [OF assms(2)]
    using wp_runs [OF capture_run [OF assms]] by auto
  then show ?thesis by (auto simp: captured_def)
qed

section \<open>Witnesses\<close>

definition captured_order :: order where
  "captured_order = \<lparr>o_id = 30, o_public_id = 300, o_ik_id = 20, o_user_id = 7, o_status = order_status_value OS_PENDING_PAYMENT,
     o_subtotal = 1000, o_tax = 20, o_shipping = 0, o_discount = 0, o_total = 1020, o_created_at = 0, o_updated_at = 0,
     o_placed_at = 0\<rparr>"

definition pending_payment :: payment where
  "pending_payment = \<lparr>pay_id = 40, pay_public_id = 400, pay_order_id = 30, pay_provider = ''razorpay'',
     pay_provider_payment_id = None, pay_provider_order_id = Some (JStr ''order_X''), pay_status = 0, pay_amount = 102000,
     pay_paid_at = None\<rparr>"

definition pending_db :: database where
  "pending_db = empty_db\<lparr>db_orders := [captured_order], db_payments := [pending_payment],
     db_order_items := [\<lparr>oi_id = 50, oi_order_id = 30, oi_product_id = 1, oi_quantity = 2, oi_unit_price_snapshot = 500,
       oi_tax_snapshot = 10, oi_discount_snapshot = 0\<rparr>]\<rparr>"

definition capture_request :: webhook_request where
  "capture_request = \<lparr>wr_body = ''b'', wr_signature = Some ''ff'', wr_event_id = Some ''evt_1''\<rparr>"

definition sample_loads :: "string \<Rightarrow> exc + json" where
  "sample_loads body = Inr (captured_body (JStr ''pay_Y'') (JStr ''order_X''))"

lemma pending_fields:
  "db_payments pending_db = [pending_payment]" "db_webhook_events pending_db = []" "db_commit_intents pending_db = []"
  "db_outbox pending_db = []"
  by (simp_all add: pending_db_def empty_db_def)

lemma sample_events_fresh: "events_fresh (start 10 pending_db)"
  by (simp add: events_fresh_def pending_db_def empty_db_def)

lemma sample_captured_ok: "captured_ok pending_db"
  by (simp add: captured_ok_def pending_db_def empty_db_def pending_payment_def unique_on_def payment_order_key_def)

lemma webhook_all_or_nothing_witness:
  "delivered (Some ''evt_1'') (start 10 pending_db) (deliver (\<lambda>_. ''ff'') sample_loads capture_request (start 10 pending_db))"
  using webhook_all_or_nothing [OF sample_events_fresh, of capture_request "\<lambda>_. ''ff''" sample_loads]
  by (simp add: capture_request_def)

lemma payment_status_monotone_witness:
  "status_of 40 pending_db \<le>
     status_of 40 (committed (fold (deliver (\<lambda>_. ''ff'') sample_loads) [capture_request, capture_request] (start 10 pending_db)))"
  using payment_status_monotone [OF sample_events_fresh, of 40 "\<lambda>_. ''ff''" sample_loads "[capture_request, capture_request]"]
  by (simp add: sample_captured_ok)

lemma captured_orders_confirmed_witness:
  "captured_ok (committed (fold (deliver (\<lambda>_. ''ff'') sample_loads) [capture_request, capture_request] (start 10 pending_db)))"
  using captured_orders_confirmed [OF sample_events_fresh, of "\<lambda>_. ''ff''" sample_loads "[capture_request, capture_request]"]
  by (simp add: sample_captured_ok)

lemma capture_applied_witness:
  "\<exists>v. razorpay_webhook (\<lambda>_. ''ff'') sample_loads capture_request ((start 10 pending_db)\<lparr>db := pending_db\<rparr>) =
       (Inr ''payment captured'', v) \<and>
     map pay_status (filter (\<lambda>q. pay_id q = 40) (db_payments (committed v))) = [30] \<and>
     (\<forall>r \<in> set (db_orders (committed v)). o_id r = 30 \<longrightarrow> o_status r = 20) \<and>
     map fst (queue v) = [''order.paid'', ''order_confirm_intent.created'']"
proof -
  have "signed (\<lambda>_. ''ff'') sample_loads capture_request (JStr ''pay_Y'') (JStr ''order_X'')"
    by (simp add: signed_def capture_request_def sample_loads_def)
  from capture_applied [OF quiet_start this, of 10 pending_db pending_payment] show ?thesis
    by (simp add: known_event_def pending_fields pending_payment_def unique_on_def payment_provider_payment_key_def)
qed

lemma duplicate_no_effect_witness:
  "queue (deliver (\<lambda>_. ''ff'') sample_loads capture_request (start 10 (pending_db\<lparr>db_webhook_events :=
     [received_event 5 0 (Some ''evt_1'') ''razorpay'' JNull None None None]\<rparr>))) = []"
  using duplicate_no_effect [of capture_request "start 10 (pending_db\<lparr>db_webhook_events :=
     [received_event 5 0 (Some ''evt_1'') ''razorpay'' JNull None None None]\<rparr>)" "\<lambda>_. ''ff''" sample_loads]
  by (simp add: known_event_def received_event_def capture_request_def)

end
