(* ===== verification/Workers.thy ===== *)
theory Workers
  imports Webhook
begin

text \<open>
  The workers behind the event bus: \<open>order_confirm_commitintent_handler\<close>
  (\<open>backend/background_workers/order_confirm_inv_handler.py\<close>), which takes the items of a paid order
  out of the stock, and \<open>OutboxHandler\<close> (\<open>outbox_worker_handler.py\<close>). Row locks are not modelled:
  each transaction runs on its own. The second half lets any number of workers interleave their
  transactions.
\<close>

section \<open>Operations\<close>

definition DEFAULT_MAX_ATTEMPTS :: int where "DEFAULT_MAX_ATTEMPTS = 5"

text \<open>A stub in the source.\<close>

definition sim_emit_outbox_event :: "string \<Rightarrow> json \<Rightarrow> string \<Rightarrow> nat \<Rightarrow> unit handler" where
  "sim_emit_outbox_event topic payload agg_type agg_id = retM ()"

definition hit :: "int \<Rightarrow> commit_intent \<Rightarrow> bool" where
  "hit i c \<longleftrightarrow> int (ci_id c) = i"

text \<open>First transaction: claim a PENDING intent. \<open>True\<close> when the handler goes on.\<close>

definition claim_intent :: "int \<Rightarrow> bool handler" where
  "claim_intent i = begin_tx (
     letM (query (\<lambda>d. map ci_status (filter (\<lambda>c. hit i c \<and> ci_status c = commit_intent_status_value CI_PENDING)
                                             (db_commit_intents d)))) (\<lambda>rows.
     letM (liftM (one_or_none rows)) (\<lambda>ci_st.
     case ci_st of
       None \<Rightarrow> retM False
     | Some s \<Rightarrow>
         if s = commit_intent_status_value CI_DONE then retM False
         else doM (modify (db_commit_intents_update (upd (hit i)
                (\<lambda>c. c\<lparr>ci_status := commit_intent_status_value CI_PROCESSING, ci_attempts := ci_attempts c + 1\<rparr>))))
              (retM True))))"

text \<open>One item: \<open>Some error\<close> when the stock does not suffice.\<close>

definition decrement_item :: "nat \<times> int \<Rightarrow> detail option handler" where
  "decrement_item it = (case it of (pid, qty) \<Rightarrow>
     letM (query (\<lambda>d. filter (\<lambda>p. p_id p = pid) (db_products d))) (\<lambda>rows.
     letM (liftM (one_or_none rows)) (\<lambda>prod.
     case prod of
       None \<Rightarrow> raiseM (RuntimeError (Fmt ''product not found'' [int pid]))
     | Some p \<Rightarrow>
         if p_stock_qty p < qty
         then retM (Some (Fmt ''insufficient stock for product'' [int pid, p_stock_qty p, qty]))
         else
           letM now (\<lambda>t.
           doM (modify (db_products_update (upd (\<lambda>r. p_id r = pid)
                  (\<lambda>r. r\<lparr>p_stock_qty := p_stock_qty p - qty, p_updated_at := t\<rparr>))))
          (retM None)))))"

definition reported :: "detail option list \<Rightarrow> detail list" where
  "reported rs = concat (map (\<lambda>r. case r of None \<Rightarrow> [] | Some e \<Rightarrow> [e]) rs)"

text \<open>Second transaction: decrement the stock of every item and mark the intent DONE.\<close>

definition commit_stock :: "int \<Rightarrow> unit handler" where
  "commit_stock i = begin_tx (
     letM (query (\<lambda>d. map (\<lambda>c. (ci_payload c, ci_aggregate_id c)) (filter (hit i) (db_commit_intents d)))) (\<lambda>rows.
     letM (liftM (one_or_none rows)) (\<lambda>row.
     case row of
       None \<Rightarrow> raiseM (RuntimeError (Text ''commit intent missing payload''))
     | Some ((oid, items), agg) \<Rightarrow>
         let order_id = (if oid \<noteq> 0 then oid else agg) in
         letM (mapM decrement_item items) (\<lambda>rs.
         if reported rs \<noteq> [] then raiseM (RuntimeError (Errors (reported rs)))
         else
           doM (modify (db_commit_intents_update (upd (hit i) (\<lambda>c. c\<lparr>ci_status := commit_intent_status_value CI_DONE\<rparr>))))
          (doM (sim_emit_outbox_event ''inventory.committed'' (JObj [(''order_id'', JInt (int order_id))]) ''order'' order_id)
          (sim_emit_outbox_event ''order.confirmed'' (JObj [(''order_id'', JInt (int order_id))]) ''order'' order_id))))))"

text \<open>The exception handler: whatever the intent's status is, it becomes PENDING again, or FAILED.\<close>

definition retry_delay :: "int \<Rightarrow> int" where
  "retry_delay attempts = seconds (min (60 * 2 ^ nat attempts) 3600)"

definition reschedule_intent :: "int \<Rightarrow> unit handler" where
  "reschedule_intent i = with_session (
     letM (query (\<lambda>d. map ci_attempts (filter (hit i) (db_commit_intents d)))) (\<lambda>rows.
     letM (liftM (one_or_none rows)) (\<lambda>r.
     let attempts = (case r of None \<Rightarrow> 0 | Some a \<Rightarrow> a) in
     doM (if attempts + 1 \<ge> DEFAULT_MAX_ATTEMPTS
          then modify (db_commit_intents_update (upd (hit i) (\<lambda>c. c\<lparr>ci_status := commit_intent_status_value CI_FAILED\<rparr>)))
          else letM now (\<lambda>t.
               modify (db_commit_intents_update (upd (hit i)
                 (\<lambda>c. c\<lparr>ci_status := commit_intent_status_value CI_PENDING, ci_next_retry_at := Some (t + retry_delay attempts),
                        ci_attempts := ci_attempts c + 1\<rparr>)))))
         commit)))"

text \<open>A value that is no integer is refused by the driver, in the exception handler as well.\<close>

definition order_confirm_commitintent_handler :: "json \<Rightarrow> unit handler" where
  "order_confirm_commitintent_handler task_data =
     letM (liftM (json_get ''commit_intent_id'' JNull task_data)) (\<lambda>ci_id.
     if \<not> truthy ci_id then retM ()
     else (case ci_id of
       JInt i \<Rightarrow>
         with_session (tryM
           (letM (claim_intent i) (\<lambda>claimed. if claimed then commit_stock i else retM ()))
           (\<lambda>e. if e = CancelledError then raiseM e else reschedule_intent i))
     | _ \<Rightarrow> raiseM (DBAPIError False ''DataError'')))"

definition id_param :: "json \<Rightarrow> exc + int option" where
  "id_param j = (case j of JInt i \<Rightarrow> Inr (Some i) | JNull \<Rightarrow> Inr None | _ \<Rightarrow> Inl (DBAPIError False ''DataError''))"

text \<open>The outbox handler. The branch for pending payments passes a keyword the stub does not have.\<close>

definition outbox_handler :: "json \<Rightarrow> unit handler" where
  "outbox_handler task_data =
     letM (liftM (json_get ''payload'' JNull task_data)) (\<lambda>payload.
     letM (liftM (json_get ''outbox_event_id'' JNull task_data)) (\<lambda>outbox_event_id.
     letM (liftM (json_get ''topic'' JNull task_data)) (\<lambda>topic.
     letM (liftM (json_get ''order_id'' JNull payload)) (\<lambda>order_id.
     with_session (
       if topic = JStr ''order.paid''
       then
         doM (sim_emit_outbox_event ''order.received_for_fulfillment'' (JObj [(''order_id'', order_id)]) ''order'' 0)
        (letM (liftM (id_param outbox_event_id)) (\<lambda>i.
         doM (modify (db_outbox_update (upd (\<lambda>e. Some (int (ob_id e)) = i)
                (\<lambda>e. e\<lparr>ob_status := outbox_status_value OB_DONE\<rparr>))))
         commit))
       else if topic = JStr ''order.payment_pending'' then raiseM TypeError
       else retM ())))))"

text \<open>The handlers by name; the image handler is an argument.\<close>

fun run_handler :: "(json \<Rightarrow> unit handler) \<Rightarrow> handler_name \<Rightarrow> json \<Rightarrow> unit handler" where
  "run_handler images ImageTransform = images"
| "run_handler images OutboxHandle = outbox_handler"
| "run_handler images OrderConfirmCommitIntent = order_confirm_commitintent_handler"

section \<open>Stock accounting\<close>

definition qty_of :: "nat \<Rightarrow> (nat \<times> int) list \<Rightarrow> int" where
  "qty_of p items = sum_list (map snd (filter (\<lambda>it. fst it = p) items))"

definition stock :: "nat \<Rightarrow> database \<Rightarrow> int" where
  "stock p d = sum_list (map p_stock_qty (filter (\<lambda>r. p_id r = p) (db_products d)))"

text \<open>What the intents that are DONE have taken of a product.\<close>

definition sold_by :: "nat \<Rightarrow> commit_intent \<Rightarrow> int" where
  "sold_by p c = (if ci_status c = commit_intent_status_value CI_DONE then qty_of p (snd (ci_payload c)) else 0)"

definition sold :: "nat \<Rightarrow> database \<Rightarrow> int" where
  "sold p d = sum_list (map (sold_by p) (db_commit_intents d))"

definition stock_ok :: "database \<Rightarrow> bool" where
  "stock_ok d \<longleftrightarrow> distinct (map p_id (db_products d)) \<and> distinct (map ci_id (db_commit_intents d)) \<and>
     (\<forall>r \<in> set (db_products d). 0 \<le> p_stock_qty r)"

text \<open>Taking \<open>items\<close> out of the stock, and nothing else.\<close>

definition taken :: "(nat \<times> int) list \<Rightarrow> database \<Rightarrow> database \<Rightarrow> bool" where
  "taken items d d' \<longleftrightarrow> db_commit_intents d' = db_commit_intents d \<and>
     map p_id (db_products d') = map p_id (db_products d) \<and>
     (stock_ok d \<longrightarrow> stock_ok d' \<and> (\<forall>p. stock p d' = stock p d - qty_of p items))"

lemma taken_Nil: "taken [] d d"
  by (simp add: taken_def qty_of_def)

lemma taken_Cons: "taken [it] d d' \<Longrightarrow> taken items d' d'' \<Longrightarrow> taken (it # items) d d''"
  by (auto simp: taken_def qty_of_def)

lemma one_product:
  assumes "filter (\<lambda>r. p_id r = pid) t = [p]"
  shows "filter (\<lambda>r. p_id r = pid) (upd (\<lambda>r. p_id r = pid) (\<lambda>r. r\<lparr>p_stock_qty := n, p_updated_at := t'\<rparr>) t) =
    [p\<lparr>p_stock_qty := n, p_updated_at := t'\<rparr>]"
proof -
  have "p_id p = pid" using arg_cong [OF assms, of set] by auto
  with assms show ?thesis by (subst filter_upd_same) simp_all
qed

lemma taken_one:
  assumes "filter (\<lambda>r. p_id r = pid) (db_products d) = [p]" and "qty \<le> p_stock_qty p"
  shows "taken [(pid, qty)] d (db_products_update (upd (\<lambda>r. p_id r = pid)
     (\<lambda>r. r\<lparr>p_stock_qty := p_stock_qty p - qty, p_updated_at := t\<rparr>)) d)"
proof -
  have ids: "map p_id (upd (\<lambda>r. p_id r = pid) (\<lambda>r. r\<lparr>p_stock_qty := n, p_updated_at := t\<rparr>) x) = map p_id x" for n x
    by (rule map_upd_same) simp
  have other: "filter (\<lambda>r. p_id r = q) (upd (\<lambda>r. p_id r = pid) (\<lambda>r. r\<lparr>p_stock_qty := n, p_updated_at := t\<rparr>) x) =
      filter (\<lambda>r. p_id r = q) x" if "q \<noteq> pid" for q n x
    using that by (intro filter_upd_other) auto
  have "stock q (db_products_update (upd (\<lambda>r. p_id r = pid) (\<lambda>r. r\<lparr>p_stock_qty := p_stock_qty p - qty, p_updated_at := t\<rparr>)) d) =
      stock q d - qty_of q [(pid, qty)]" for q
    using assms(1) by (cases "q = pid") (simp_all add: stock_def qty_of_def one_product other)
  then show ?thesis
    using assms(2) by (auto simp: taken_def stock_ok_def ids set_upd)
qed

lemma returns_decrement_item:
  "returns (decrement_item it) (\<lambda>r v. r = None \<longrightarrow> taken [it] (db w) (db v)) w"
  by (cases it) (auto simp: decrement_item_def returns_simps one_or_none_Some taken_one not_less split: option.splits)

lemma reported_simps: "reported [] = []" "reported (r # rs) = (case r of None \<Rightarrow> [] | Some e \<Rightarrow> [e]) @ reported rs"
  by (simp_all add: reported_def)

lemma returns_decrement_items:
  "returns (mapM decrement_item items) (\<lambda>rs v. reported rs = [] \<longrightarrow> taken items (db w) (db v)) w"
proof (induction items arbitrary: w)
  case Nil
  then show ?case by (simp add: returns_ret taken_Nil)
next
  case (Cons it items)
  show ?case
    unfolding mapM.simps returns_let
  proof (rule returns_mono [OF returns_decrement_item])
    fix r :: "detail option" and v :: state assume one: "r = None \<longrightarrow> taken [it] (db w) (db v)"
    show "returns (mapM decrement_item items)
        (\<lambda>x. returns (retM (r # x)) (\<lambda>rs (v :: state). reported rs = [] \<longrightarrow> taken (it # items) (db w) (db v))) v"
      by (rule returns_mono [OF Cons.IH])
        (use one in \<open>auto simp: returns_ret reported_simps intro: taken_Cons split: option.splits\<close>)
  qed
qed

lemma uncommitted_decrement_item [uncommitted_intros]: "uncommitted (decrement_item it)"
  unfolding decrement_item_def by (cases it) (auto intro!: uncommitted_intros simp: Let_def)

text \<open>A transaction: all of the body, or nothing.\<close>

lemma wp_transaction:
  assumes "uncommitted m" and "returns m (\<lambda>x v. P x (db v)) w"
  shows "wp (begin_tx m) (\<lambda>x v. P x (committed v) \<and> db v = committed v) (\<lambda>_ v. committed v = committed w \<and> db v = committed v) w"
proof -
  obtain r v where m: "m w = (r, v)" by fastforce
  with assms(1) have "committed v = committed w" by (metis uncommittedD snd_conv)
  with m assms(2) show ?thesis
    by (cases r) (auto simp: wp_begin_tx wp_def [of m] wp_commit returns_def split: option.split)
qed

text \<open>What the three transactions do.\<close>

definition with_status :: "commit_intent_status \<Rightarrow> int \<Rightarrow> database \<Rightarrow> bool" where
  "with_status s i d \<longleftrightarrow> (\<exists>c \<in> set (db_commit_intents d). hit i c \<and> ci_status c = commit_intent_status_value s)"

definition claimed_by :: "int \<Rightarrow> database \<Rightarrow> database \<Rightarrow> bool" where
  "claimed_by i d d' \<longleftrightarrow> with_status CI_PENDING i d \<and>
     d' = db_commit_intents_update (upd (hit i)
       (\<lambda>c. c\<lparr>ci_status := commit_intent_status_value CI_PROCESSING, ci_attempts := ci_attempts c + 1\<rparr>)) d"

lemma wp_claim_intent:
  "wp (claim_intent i) (\<lambda>claimed v. (if claimed then claimed_by i (db w) (committed v) else committed v = db w) \<and> db v = committed v)
     (\<lambda>_ v. committed v = committed w \<and> db v = committed v) w"
  unfolding claim_intent_def
  by (rule wp_transaction)
    (auto intro!: uncommitted_intros split: option.splits
      simp: modify_def query_def returns_simps one_or_none_Some one_or_none_None claimed_by_def with_status_def filter_eq_Cons_iff map_eq_Cons_conv)

definition settled_by :: "int \<Rightarrow> database \<Rightarrow> database \<Rightarrow> bool" where
  "settled_by i d d' \<longleftrightarrow> (\<exists>c d1. filter (hit i) (db_commit_intents d) = [c] \<and> taken (snd (ci_payload c)) d d1 \<and>
     d' = db_commit_intents_update (upd (hit i) (\<lambda>c. c\<lparr>ci_status := commit_intent_status_value CI_DONE\<rparr>)) d1)"

lemma wp_commit_stock:
  "wp (commit_stock i) (\<lambda>_ v. settled_by i (db w) (committed v) \<and> db v = committed v)
     (\<lambda>_ v. committed v = committed w \<and> db v = committed v) w"
  unfolding commit_stock_def
proof (rule wp_transaction, goal_cases)
  let ?done = "\<lambda>d. db_commit_intents_update (upd (hit i) (\<lambda>c. c\<lparr>ci_status := commit_intent_status_value CI_DONE\<rparr>)) d"
  have go: "returns (mapM decrement_item items) (\<lambda>rs. returns
        (if reported rs \<noteq> [] then raiseM (RuntimeError (Errors (reported rs)))
         else doM (modify ?done)
             (doM (sim_emit_outbox_event a b c e) (sim_emit_outbox_event a' b' c' e')))
        (\<lambda>_ u. settled_by i (db v) (db u))) (tick v)"
    if "filter (hit i) (db_commit_intents (db v)) = [x]" "ci_payload x = (oid, items)"
    for items x oid a b c e a' b' c' e' and v :: state
    by (rule returns_mono [OF returns_decrement_items])
      (use that in \<open>auto simp: returns_simps sim_emit_outbox_event_def settled_by_def\<close>)
  case 2
  show ?case
    using go by (auto simp: returns_let returns_query returns_lift returns_raise one_or_none_Some Let_def map_eq_Cons_conv
        split: option.split intro: go)
qed (auto intro!: uncommitted_intros simp: sim_emit_outbox_event_def modify_def query_def Let_def split: option.splits)

definition rescheduled_by :: "int \<Rightarrow> database \<Rightarrow> database \<Rightarrow> bool" where
  "rescheduled_by i d d' \<longleftrightarrow> (\<exists>s r n. s \<in> {CI_PENDING, CI_FAILED} \<and>
     d' = db_commit_intents_update (upd (hit i)
       (\<lambda>c. c\<lparr>ci_status := commit_intent_status_value s, ci_next_retry_at := r c, ci_attempts := n c\<rparr>)) d)"

lemma wp_reschedule_intent:
  "wp (reschedule_intent i) (\<lambda>_ v. rescheduled_by i (committed w) (committed v)) (\<lambda>_ v. committed v = committed w) w"
proof -
  have "rescheduled_by i d (db_commit_intents_update (upd (hit i) (\<lambda>c. c\<lparr>ci_status := commit_intent_status_value CI_FAILED\<rparr>)) d)" for d
    unfolding rescheduled_by_def
    by (rule exI [of _ CI_FAILED], rule exI [of _ ci_next_retry_at], rule exI [of _ ci_attempts]) simp
  moreover have "rescheduled_by i d (db_commit_intents_update (upd (hit i) (\<lambda>c. c\<lparr>ci_status := commit_intent_status_value CI_PENDING,
      ci_next_retry_at := Some t, ci_attempts := ci_attempts c + 1\<rparr>)) d)" for d t
    unfolding rescheduled_by_def
    by (rule exI [of _ CI_PENDING], rule exI [of _ "\<lambda>_. Some t"], rule exI [of _ "\<lambda>c. ci_attempts c + 1"]) simp
  ultimately show ?thesis
    by (auto simp: reschedule_intent_def wp_with_session wp_let wp_do wp_lift query_def modify_def wp_exec wp_now wp_commit Let_def
        split: option.split sum.split)
qed

section \<open>Workers in parallel\<close>

text \<open>Any number of workers, each between two of its transactions: idle, having claimed an intent, or
  about to run its exception handler. A step is one transaction of one worker, in a fresh session;
  which worker moves, and on which message, is arbitrary. The flag says whether the transaction that
  claims an intent may itself raise.\<close>

datatype phase = Idle | Claimed int | Failing int

definition fresh_session :: "state \<Rightarrow> state" where
  "fresh_session w = w\<lparr>db := committed w, aborted := False\<rparr>"

inductive worker_tx :: "bool \<Rightarrow> state \<times> (nat \<Rightarrow> phase) \<Rightarrow> state \<times> (nat \<Rightarrow> phase) \<Rightarrow> bool" for claims_fail where
  claim: "pc k = Idle \<Longrightarrow> claim_intent i (fresh_session w) = (Inr b, v) \<Longrightarrow>
    worker_tx claims_fail (w, pc) (v, pc(k := (if b then Claimed i else Idle)))"
| claim_cancelled: "pc k = Idle \<Longrightarrow> claim_intent i (fresh_session w) = (Inl CancelledError, v) \<Longrightarrow>
    worker_tx claims_fail (w, pc) (v, pc)"
| claim_fails: "claims_fail \<Longrightarrow> pc k = Idle \<Longrightarrow> claim_intent i (fresh_session w) = (Inl e, v) \<Longrightarrow> e \<noteq> CancelledError \<Longrightarrow>
    worker_tx claims_fail (w, pc) (v, pc(k := Failing i))"
| settle: "pc k = Claimed i \<Longrightarrow> commit_stock i (fresh_session w) = (Inr (), v) \<Longrightarrow>
    worker_tx claims_fail (w, pc) (v, pc(k := Idle))"
| settle_fails: "pc k = Claimed i \<Longrightarrow> commit_stock i (fresh_session w) = (Inl e, v) \<Longrightarrow>
    worker_tx claims_fail (w, pc) (v, pc(k := (if e = CancelledError then Idle else Failing i)))"
| reschedule: "pc k = Failing i \<Longrightarrow> reschedule_intent i w = (r, v) \<Longrightarrow>
    worker_tx claims_fail (w, pc) (v, pc(k := Idle))"

definition owns :: "phase \<Rightarrow> int \<Rightarrow> bool" where
  "owns ph i \<longleftrightarrow> ph = Claimed i \<or> ph = Failing i"

definition fleet_ok :: "(nat \<Rightarrow> int) \<Rightarrow> state \<times> (nat \<Rightarrow> phase) \<Rightarrow> bool" where
  "fleet_ok tot f \<longleftrightarrow> (case f of (w, pc) \<Rightarrow>
     stock_ok (committed w) \<and> (\<forall>p. stock p (committed w) + sold p (committed w) = tot p) \<and>
     (\<forall>k i. owns (pc k) i \<longrightarrow> with_status CI_PROCESSING i (committed w)) \<and>
     (\<forall>k l i. owns (pc k) i \<longrightarrow> owns (pc l) i \<longrightarrow> k = l))"

lemma filter_singleD: "filter P t = [x] \<Longrightarrow> x \<in> set t \<and> P x"
  using set_filter [of P t] by auto

lemma distinct_filter_one:
  assumes "distinct (map f t)" and "x \<in> set t" and "f x = k"
  shows "filter (\<lambda>r. f r = k) t = [x]"
proof -
  from distinct_filter_cases [OF assms(1), of k] obtain y where "filter (\<lambda>r. f r = k) t = [y]"
    using assms(2,3) by (auto simp: filter_empty_conv)
  moreover have "x \<in> set (filter (\<lambda>r. f r = k) t)" using assms(2,3) by simp
  ultimately show ?thesis by (simp only: list.set) simp
qed

lemma one_intent:
  assumes "stock_ok d" and "with_status s i d"
  obtains c where "filter (hit i) (db_commit_intents d) = [c]" "hit i c" "ci_status c = commit_intent_status_value s"
    "c \<in> set (db_commit_intents d)"
proof -
  obtain c where c: "c \<in> set (db_commit_intents d)" "hit i c" "ci_status c = commit_intent_status_value s"
    using assms(2) by (auto simp: with_status_def)
  have "hit i = (\<lambda>r. ci_id r = ci_id c)" using c(2) by (auto simp: hit_def)
  moreover have "distinct (map ci_id (db_commit_intents d))" using assms(1) by (simp add: stock_ok_def)
  ultimately have "filter (hit i) (db_commit_intents d) = [c]"
    using distinct_filter_one [of ci_id "db_commit_intents d" c "ci_id c"] c(1) by simp
  from this c(2,3,1) show ?thesis by (rule that)
qed

lemma status_unique:
  assumes "stock_ok d" and "with_status s i d" and "with_status s' i d"
  shows "s = s'"
proof -
  obtain c where "filter (hit i) (db_commit_intents d) = [c]" "ci_status c = commit_intent_status_value s"
    using assms(1,2) by (rule one_intent)
  moreover obtain c' where "filter (hit i) (db_commit_intents d) = [c']" "ci_status c' = commit_intent_status_value s'"
    using assms(1,3) by (rule one_intent)
  ultimately show ?thesis by (metis commit_intent_status_value_inj list.inject)
qed

lemma sold_upd:
  "filter P t = [c] \<Longrightarrow>
     sum_list (map (sold_by p) (upd P f t)) = sum_list (map (sold_by p) t) - sold_by p c + sold_by p (f c)"
proof (induction t)
  case Nil
  then show ?case by simp
next
  case (Cons r rs)
  show ?case
  proof (cases "P r")
    case True
    with Cons.prems have "filter P rs = []" by simp
    then have "upd P f rs = rs" by (auto simp: filter_empty_conv)
    with True Cons.prems show ?thesis by simp
  qed (use Cons in simp)
qed

text \<open>Changing the status of one intent: stock, products and the other intents stay.\<close>

lemma with_status_upd:
  assumes "i \<noteq> j" and "\<And>c. ci_id (f c) = ci_id c"
  shows "with_status s i (db_commit_intents_update (upd (hit j) f) d) = with_status s i d"
  using assms by (auto simp: with_status_def set_upd hit_def)

lemma with_status_same:
  assumes "with_status s i d" and "\<And>c. ci_id (f c) = ci_id c" and "\<And>c. ci_status (f c) = commit_intent_status_value s'"
  shows "with_status s' i (db_commit_intents_update (upd (hit i) f) d)"
  using assms by (force simp: with_status_def set_upd hit_def)

lemma status_change:
  assumes ok: "stock_ok d" and st: "with_status s i d" and ne: "s \<noteq> CI_DONE"
    and f: "\<And>c. ci_id (f c) = ci_id c" "\<And>c. ci_payload (f c) = ci_payload c" "\<And>c. ci_status (f c) = commit_intent_status_value s'"
      "s' \<noteq> CI_DONE"
    and d': "d' = db_commit_intents_update (upd (hit i) f) d"
  shows "stock_ok d'" and "stock p d' = stock p d" and "sold p d' = sold p d"
proof -
  from ok st obtain c where c: "filter (hit i) (db_commit_intents d) = [c]" "ci_status c = commit_intent_status_value s"
    by (rule one_intent)
  have "sold_by p c = 0" and "sold_by p (f c) = 0"
    using ne c(2) f(3) [of c] f(4) by (auto simp: sold_by_def dest: commit_intent_status_value_inj simp del: commit_intent_status_value.simps)
  then show "sold p d' = sold p d"
    using c(1) by (simp add: sold_def d' sold_upd)
  show "stock_ok d'" using ok by (simp add: stock_ok_def d' map_upd_same f(1))
  show "stock p d' = stock p d" by (simp add: stock_def d')
qed

text \<open>The three transactions against the accounts.\<close>

lemma claimed_accounts:
  assumes "stock_ok d" and "claimed_by i d d'"
  shows "stock_ok d'" and "stock p d' = stock p d" and "sold p d' = sold p d" and "with_status CI_PROCESSING i d'"
    and "i \<noteq> j \<Longrightarrow> with_status s j d' = with_status s j d" and "with_status CI_PENDING i d"
proof -
  let ?f = "\<lambda>c. c\<lparr>ci_status := commit_intent_status_value CI_PROCESSING, ci_attempts := ci_attempts c + 1\<rparr>"
  have st: "with_status CI_PENDING i d" and d': "d' = db_commit_intents_update (upd (hit i) ?f) d"
    using assms(2) by (simp_all add: claimed_by_def)
  note ch = status_change [of d CI_PENDING i ?f CI_PROCESSING d', OF assms(1) st _ _ _ _ _ d']
  show "stock_ok d'" by (rule ch(1)) simp_all
  show "stock p d' = stock p d" by (rule ch(2)) simp_all
  show "sold p d' = sold p d" by (rule ch(3)) simp_all
  show "with_status CI_PROCESSING i d'" unfolding d' using st by (rule with_status_same) simp_all
  show "with_status s j d' = with_status s j d" if "i \<noteq> j"
    unfolding d' using that by (intro with_status_upd) simp_all
  show "with_status CI_PENDING i d" by (rule st)
qed

lemma rescheduled_accounts:
  assumes "stock_ok d" and "rescheduled_by i d d'" and "with_status CI_PROCESSING i d"
  shows "stock_ok d'" and "stock p d' = stock p d" and "sold p d' = sold p d"
    and "i \<noteq> j \<Longrightarrow> with_status s j d' = with_status s j d"
proof -
  obtain s' r n where s': "s' \<in> {CI_PENDING, CI_FAILED}" and d': "d' = db_commit_intents_update (upd (hit i)
       (\<lambda>c. c\<lparr>ci_status := commit_intent_status_value s', ci_next_retry_at := r c, ci_attempts := n c\<rparr>)) d"
    using assms(2) unfolding rescheduled_by_def by blast
  note ch = status_change [of d CI_PROCESSING i _ s' d', OF assms(1,3) _ _ _ _ _ d']
  show "stock_ok d'" by (rule ch(1)) (use s' in auto)
  show "stock p d' = stock p d" by (rule ch(2)) (use s' in auto)
  show "sold p d' = sold p d" by (rule ch(3)) (use s' in auto)
  show "with_status s j d' = with_status s j d" if "i \<noteq> j"
    unfolding d' using that by (intro with_status_upd) simp_all
qed

lemma settled_accounts:
  assumes "stock_ok d" and "settled_by i d d'" and "with_status CI_PROCESSING i d"
  shows "stock_ok d'" and "stock p d' + sold p d' = stock p d + sold p d"
    and "i \<noteq> j \<Longrightarrow> with_status s j d' = with_status s j d"
proof -
  let ?f = "\<lambda>c. c\<lparr>ci_status := commit_intent_status_value CI_DONE\<rparr>"
  obtain c d1 where c: "filter (hit i) (db_commit_intents d) = [c]" and t: "taken (snd (ci_payload c)) d d1"
    and d': "d' = db_commit_intents_update (upd (hit i) ?f) d1"
    using assms(2) unfolding settled_by_def by blast
  obtain c' where "filter (hit i) (db_commit_intents d) = [c']" and "ci_status c' = commit_intent_status_value CI_PROCESSING"
    using assms(1,3) by (rule one_intent)
  with c have "sold_by p c = 0" by (simp add: sold_by_def)
  then have "sold p d' = sold p d + qty_of p (snd (ci_payload c))"
    using c t by (simp add: sold_def d' taken_def sold_upd [of "hit i"]) (simp add: sold_by_def)
  moreover have "stock p d' = stock p d - qty_of p (snd (ci_payload c))" and ok: "stock_ok d1"
    using t assms(1) by (simp_all add: taken_def d' stock_def)
  ultimately show "stock p d' + sold p d' = stock p d + sold p d" by simp
  show "stock_ok d'" using ok by (simp add: d' stock_ok_def map_upd_same)
  show "with_status s j d' = with_status s j d" if "i \<noteq> j"
  proof -
    have "with_status s j d' = with_status s j d1"
      unfolding d' using that by (intro with_status_upd) simp_all
    also have "\<dots> = with_status s j d" using t by (simp add: taken_def with_status_def)
    finally show ?thesis .
  qed
qed

lemma fresh_session_fields [simp]:
  "db (fresh_session w) = committed w" "committed (fresh_session w) = committed w"
  by (simp_all add: fresh_session_def)

lemma claim_cases:
  assumes "claim_intent i (fresh_session w) = (r, v)"
  shows "case r of Inr True \<Rightarrow> claimed_by i (committed w) (committed v) | _ \<Rightarrow> committed v = committed w"
  using wp_claim_intent [of i "fresh_session w"] assms
  by (auto simp: wp_def split: sum.splits bool.splits)

lemma settle_cases:
  assumes "commit_stock i (fresh_session w) = (r, v)"
  shows "case r of Inr _ \<Rightarrow> settled_by i (committed w) (committed v) | Inl _ \<Rightarrow> committed v = committed w"
  using wp_commit_stock [of i "fresh_session w"] assms by (auto simp: wp_def split: sum.splits)

lemma reschedule_cases:
  assumes "reschedule_intent i w = (r, v)"
  shows "rescheduled_by i (committed w) (committed v) \<or> committed v = committed w"
  using wp_reschedule_intent [of i w] assms by (auto simp: wp_def split: sum.splits)

text \<open>An owned intent is PROCESSING, so it cannot be claimed by another worker.\<close>

lemma fleet_move:
  assumes ok: "fleet_ok tot (w, pc)" and mine: "\<And>j. owns (pc k) j \<Longrightarrow> j = i"
    and acc: "stock_ok (committed v)" "\<And>p. stock p (committed v) + sold p (committed v) = stock p (committed w) + sold p (committed w)"
    and frame: "\<And>j. j \<noteq> i \<Longrightarrow> with_status CI_PROCESSING j (committed v) = with_status CI_PROCESSING j (committed w)"
    and alone: "\<And>l. owns (pc l) i \<Longrightarrow> l = k"
    and ph: "\<And>j. owns ph j \<Longrightarrow> j = i \<and> with_status CI_PROCESSING i (committed v)"
  shows "fleet_ok tot (v, pc(k := ph))"
proof -
  have st: "with_status CI_PROCESSING j (committed w)" and uniq: "owns (pc m) j \<Longrightarrow> m = l" if "owns (pc l) j" for l m j
    using ok that unfolding fleet_ok_def by blast+
  have split: "(l = k \<and> j = i) \<or> (l \<noteq> k \<and> j \<noteq> i \<and> owns (pc l) j)" if "owns ((pc(k := ph)) l) j" for l j
    using that ph alone by (metis fun_upd_other fun_upd_same)
  have here: "with_status CI_PROCESSING i (committed v)" if "owns ph j" for j using ph that by blast
  have status: "with_status CI_PROCESSING j (committed v)" if o: "owns ((pc(k := ph)) l) j" for l j
    using split [OF o]
  proof
    assume "l = k \<and> j = i"
    with o here show ?thesis by auto
  next
    assume "l \<noteq> k \<and> j \<noteq> i \<and> owns (pc l) j"
    with st frame show ?thesis by blast
  qed
  have "l = m" if "owns ((pc(k := ph)) l) j" "owns ((pc(k := ph)) m) j" for l m j
    using split [OF that(1)] split [OF that(2)] uniq by blast
  moreover have "stock p (committed v) + sold p (committed v) = tot p" for p
    using ok acc(2) by (simp add: fleet_ok_def)
  ultimately show ?thesis
    using acc(1) status unfolding fleet_ok_def by blast
qed

lemma fleet_stay:
  assumes "fleet_ok tot (w, pc)" and "committed v = committed w" and "\<And>j. owns ph j \<Longrightarrow> owns (pc k) j"
  shows "fleet_ok tot (v, pc(k := ph))"
  using assms by (force simp: fleet_ok_def)

lemma worker_tx_fleet_ok:
  assumes "worker_tx False f f'" and "fleet_ok tot f"
  shows "fleet_ok tot f'"
  using assms
proof (induction rule: worker_tx.induct)
  case (claim pc k i w b v)
  show ?case
  proof (cases b)
    case True
    with claim_cases [OF claim.hyps(2)] have c: "claimed_by i (committed w) (committed v)" by simp
    have so: "stock_ok (committed w)" using claim.prems by (simp add: fleet_ok_def)
    note acc = claimed_accounts [OF so c]
    have "\<not> owns (pc l) i" for l
      using claim.prems status_unique [OF so acc(6), of CI_PROCESSING] by (auto simp: fleet_ok_def)
    then show ?thesis
      using acc claim.hyps(1) True by (intro fleet_move [OF claim.prems, of k i]) (auto simp: owns_def)
  next
    case False
    with claim_cases [OF claim.hyps(2)] show ?thesis
      by (intro fleet_stay [OF claim.prems]) (auto simp: owns_def)
  qed
next
  case (claim_cancelled pc k i w v)
  with claim_cases [OF claim_cancelled.hyps(2)] show ?case by (simp add: fleet_ok_def)
next
  case (settle pc k i w v)
  have so: "stock_ok (committed w)" and st: "with_status CI_PROCESSING i (committed w)"
    using settle by (auto simp: fleet_ok_def owns_def)
  from settle_cases [OF settle.hyps(2)] have "settled_by i (committed w) (committed v)" by simp
  note acc = settled_accounts [OF so this st]
  show ?case
    using acc settle by (intro fleet_move [OF settle.prems, of k i]) (auto simp: owns_def fleet_ok_def)
next
  case (settle_fails pc k i w e v)
  with settle_cases [OF settle_fails.hyps(2)] show ?case
    by (intro fleet_stay [OF settle_fails.prems]) (auto simp: owns_def split: if_splits)
next
  case (reschedule pc k i w r v)
  have so: "stock_ok (committed w)" and st: "with_status CI_PROCESSING i (committed w)"
    using reschedule by (auto simp: fleet_ok_def owns_def)
  from reschedule_cases [OF reschedule.hyps(2)] show ?case
  proof
    assume "rescheduled_by i (committed w) (committed v)"
    note acc = rescheduled_accounts [OF so this st]
    show ?thesis
      using acc reschedule by (intro fleet_move [OF reschedule.prems, of k i]) (auto simp: owns_def fleet_ok_def)
  next
    assume "committed v = committed w"
    then show ?thesis by (intro fleet_stay [OF reschedule.prems]) (auto simp: owns_def)
  qed
qed simp

section \<open>Properties\<close>

definition idle :: "nat \<Rightarrow> phase" where
  "idle k = Idle"

lemma fleet_ok_start:
  "stock_ok (committed w) \<Longrightarrow> fleet_ok (\<lambda>p. stock p (committed w) + sold p (committed w)) (w, idle)"
  by (simp add: fleet_ok_def owns_def idle_def)

lemma fleet_run:
  "(worker_tx False)\<^sup>*\<^sup>* f f' \<Longrightarrow> fleet_ok tot f \<Longrightarrow> fleet_ok tot f'"
  by (induction rule: rtranclp_induct) (auto intro: worker_tx_fleet_ok)

text \<open>C17: Exactly once, for any number of workers whose transactions interleave in any order on any
  messages (repeated ones included) and under any failures of the stock transaction, of commits and
  of the rescheduling: what is left of a product plus what the intents that are DONE have taken of it
  stays what it was, no stock becomes negative, and no two workers hold the same intent. The one
  assumption is that the transaction that claims an intent does not itself raise.\<close>

theorem stock_taken_once:
  assumes "(worker_tx False)\<^sup>*\<^sup>* (w, idle) (w', pc')" and "stock_ok (committed w)"
  shows "stock_ok (committed w') \<and>
    stock p (committed w') + sold p (committed w') = stock p (committed w) + sold p (committed w) \<and>
    (owns (pc' k) i \<and> owns (pc' l) i \<longrightarrow> k = l)"
  using fleet_run [OF assms(1) fleet_ok_start [OF assms(2)]]
  by (auto simp: fleet_ok_def)

lemma begin_tx_fresh: "begin_tx m w = (r, v) \<Longrightarrow> fresh_session v = v"
  by (auto simp: begin_tx_def letM_def doM_def commit_def retM_def fresh_session_def
      split: prod.splits sum.splits if_splits option.splits)

lemma try_let:
  "m w = (Inr x, v) \<Longrightarrow> tryM (letM m k) h w = tryM (k x) h v"
  "m w = (Inl e, v) \<Longrightarrow> tryM (letM m k) h w = h e v"
  "m w = (Inr x, v) \<Longrightarrow> tryM m h w = (Inr x, v)"
  "m w = (Inl e, v) \<Longrightarrow> tryM m h w = h e v"
  by (simp_all add: tryM_def letM_def)

definition on_exception :: "int \<Rightarrow> exc \<Rightarrow> unit handler" where
  "on_exception i e = (if e = CancelledError then raiseM e else reschedule_intent i)"

lemma reschedule_run:
  "on_exception i e x = (r, u) \<Longrightarrow> pc k = (if e = CancelledError then Idle else Failing i) \<Longrightarrow>
     (worker_tx F)\<^sup>*\<^sup>* (x, pc) (u, pc(k := Idle))"
  by (cases "e = CancelledError")
    (auto simp: on_exception_def raiseM_def fun_upd_idem intro: worker_tx.reschedule)

lemma settle_run:
  assumes run: "tryM (commit_stock i) (on_exception i) (fresh_session x) = (r, u)" and pc: "pc k = Claimed i"
  shows "(worker_tx F)\<^sup>*\<^sup>* (x, pc) (u, pc(k := Idle))"
proof -
  obtain c y where y: "commit_stock i (fresh_session x) = (c, y)" by fastforce
  show ?thesis
  proof (cases c)
    case (Inr z)
    with y run have "u = y" by (simp add: try_let)
    moreover have "worker_tx F (x, pc) (y, pc(k := Idle))"
      using pc y Inr by (intro worker_tx.settle) simp_all
    ultimately show ?thesis by blast
  next
    case (Inl e)
    let ?pc = "pc(k := (if e = CancelledError then Idle else Failing i))"
    have "worker_tx F (x, pc) (y, ?pc)"
      using pc y Inl by (intro worker_tx.settle_fails) simp_all
    moreover have "(worker_tx F)\<^sup>*\<^sup>* (y, ?pc) (u, ?pc(k := Idle))"
      using run y Inl by (intro reschedule_run [of i e]) (simp_all add: try_let)
    ultimately show ?thesis by (simp add: converse_rtranclp_into_rtranclp)
  qed
qed

lemma claim_run:
  assumes run: "tryM (letM (claim_intent i) (\<lambda>claimed. if claimed then commit_stock i else retM ())) (on_exception i)
      (fresh_session w) = (r, u)"
    and pc: "pc k = Idle" and F: "(\<exists>e x. claim_intent i (fresh_session w) = (Inl e, x)) \<Longrightarrow> F"
  shows "(worker_tx F)\<^sup>*\<^sup>* (w, pc) (u, pc)"
proof -
  obtain c x where x: "claim_intent i (fresh_session w) = (c, x)" by fastforce
  then have fresh: "fresh_session x = x" by (auto simp: claim_intent_def dest: begin_tx_fresh)
  have same: "pc(k := Idle) = pc" using pc by (simp add: fun_upd_idem)
  show ?thesis
  proof (cases c)
    case (Inr claimed)
    let ?pc = "pc(k := (if claimed then Claimed i else Idle))"
    note step = x [unfolded Inr]
    have "tryM (letM (claim_intent i) (\<lambda>claimed. if claimed then commit_stock i else retM ())) (on_exception i)
        (fresh_session w) = tryM (if claimed then commit_stock i else retM ()) (on_exception i) x"
      by (simp add: tryM_def letM_def step)
    with run have run': "tryM (if claimed then commit_stock i else retM ()) (on_exception i) x = (r, u)" by simp
    have "worker_tx F (w, pc) (x, ?pc)"
      using pc x Inr by (intro worker_tx.claim) simp_all
    moreover have "(worker_tx F)\<^sup>*\<^sup>* (x, ?pc) (u, ?pc(k := Idle))"
    proof (cases claimed)
      case True
      with run' fresh show ?thesis
        by (intro settle_run [of i x r u]) simp_all
    next
      case False
      with run' have "u = x" by (simp add: retM_def tryM_def)
      with False same show ?thesis by simp
    qed
    ultimately show ?thesis by (simp add: converse_rtranclp_into_rtranclp same)
  next
    case (Inl e)
    let ?pc = "pc(k := (if e = CancelledError then Idle else Failing i))"
    have "worker_tx F (w, pc) (x, ?pc)"
      using pc x Inl F same by (cases "e = CancelledError") (auto intro: worker_tx.claim_cancelled worker_tx.claim_fails)
    moreover have "(worker_tx F)\<^sup>*\<^sup>* (x, ?pc) (u, ?pc(k := Idle))"
      using run x Inl by (intro reschedule_run [of i e _ r]) (simp_all add: tryM_def letM_def)
    ultimately show ?thesis by (simp add: converse_rtranclp_into_rtranclp same)
  qed
qed

lemma liftM_Inr: "liftM (Inr x) = retM x"
  by (rule ext) (simp add: liftM_def retM_def)

definition intent_message :: "int \<Rightarrow> json" where
  "intent_message i = JObj [(''commit_intent_id'', JInt i)]"

lemma handler_run:
  assumes "order_confirm_commitintent_handler (intent_message i) w = (r, v)" and "i \<noteq> 0"
  obtains u where "tryM (letM (claim_intent i) (\<lambda>claimed. if claimed then commit_stock i else retM ())) (on_exception i)
      (fresh_session w) = (r, u)" "v = fresh_session u"
  using assms
  by (auto simp: order_confirm_commitintent_handler_def intent_message_def liftM_Inr letM_ret with_session_def
      fresh_session_def on_exception_def [abs_def] split: prod.splits)

text \<open>C18: A run of the handler is a run of that machine by one worker that starts and ends idle, so what
  holds of every interleaving holds of the handler as written.\<close>

theorem handler_is_worker:
  assumes "order_confirm_commitintent_handler (intent_message i) w = (r, v)"
    and "i \<noteq> 0" and "pc k = Idle"
  shows "\<exists>u. (worker_tx (\<exists>e x. claim_intent i (fresh_session w) = (Inl e, x)))\<^sup>*\<^sup>* (w, pc) (u, pc) \<and> v = fresh_session u"
proof -
  obtain u where "tryM (letM (claim_intent i) (\<lambda>claimed. if claimed then commit_stock i else retM ())) (on_exception i)
      (fresh_session w) = (r, u)" and v: "v = fresh_session u"
    using assms(1,2) by (rule handler_run)
  then show ?thesis
    using assms(3) by (intro exI [of _ u] conjI v) (rule claim_run, simp_all)
qed

subsection \<open>Runs without faults\<close>

definition calm :: "state \<Rightarrow> state \<Rightarrow> bool" where
  "calm w v \<longleftrightarrow> quiet v \<and> env v = env w \<and> committed v = committed w"

lemma wp_decrement_item_calm:
  "quiet w \<Longrightarrow> wp (decrement_item it) (\<lambda>_. calm w) (\<lambda>e v. e \<noteq> CancelledError \<and> calm w v) w"
  by (cases it) (auto simp: decrement_item_def wp_simps calm_def one_or_none.simps elim!: one_or_none.elims split: option.split sum.split)

lemma wp_decrement_items_calm:
  "quiet w \<Longrightarrow> wp (mapM decrement_item items) (\<lambda>_. calm w) (\<lambda>e v. e \<noteq> CancelledError \<and> calm w v) w"
proof (induction items arbitrary: w)
  case Nil
  then show ?case by (simp add: wp_ret calm_def)
next
  case (Cons it items)
  show ?case
    unfolding wp_mapM_Cons
  proof (rule wp_mono [OF wp_decrement_item_calm [OF Cons.prems]])
    fix v :: state assume v: "calm w v"
    then have "quiet v" by (simp add: calm_def)
    from wp_mono [OF Cons.IH [OF this]] v
    show "wp (mapM decrement_item items) (\<lambda>_. calm w) (\<lambda>e v. e \<noteq> CancelledError \<and> calm w v) v"
      by (simp add: calm_def)
  qed
qed

lemma wp_commit_stock_calm:
  "quiet w \<Longrightarrow> wp (commit_stock i) (\<lambda>_ v. quiet v \<and> env v = env w) (\<lambda>e v. e \<noteq> CancelledError \<and> quiet v \<and> env v = env w) w"
proof -
  assume w: "quiet w"
  have go: "wp (mapM decrement_item items) (\<lambda>rs. wp (k rs) Q E) E v"
    if "quiet v" "env v = env w" "\<And>rs u. quiet u \<Longrightarrow> env u = env w \<Longrightarrow> wp (k rs) Q E u"
      "\<And>e u. e \<noteq> CancelledError \<Longrightarrow> quiet u \<Longrightarrow> env u = env w \<Longrightarrow> E e u"
    for items Q E v and k :: "detail option list \<Rightarrow> unit handler"
    by (rule wp_mono [OF wp_decrement_items_calm [OF that(1)]]) (use that in \<open>auto simp: calm_def\<close>)
  show ?thesis
    using w unfolding commit_stock_def wp_begin_tx wp_let
    by (auto simp: wp_simps Let_def quiet_reset sim_emit_outbox_event_def elim!: one_or_none.elims
        split: option.split sum.split intro!: go)
qed

text \<open>A PENDING intent whose items exceed the stock of some product.\<close>

definition short_intent :: "int \<Rightarrow> nat \<Rightarrow> commit_intent_status \<Rightarrow> int \<Rightarrow> state \<Rightarrow> bool" where
  "short_intent i p st a w \<longleftrightarrow> quiet w \<and> stock_ok (committed w) \<and>
     (\<exists>c. filter (hit i) (db_commit_intents (committed w)) = [c] \<and> ci_status c = commit_intent_status_value st \<and>
        ci_attempts c = a \<and> stock p (committed w) < qty_of p (snd (ci_payload c)))"

lemma short_not_settled:
  assumes "short_intent i p st a w" and "settled_by i (committed w) d"
  shows False
proof -
  obtain c where c: "filter (hit i) (db_commit_intents (committed w)) = [c]"
      "stock p (committed w) < qty_of p (snd (ci_payload c))" and ok: "stock_ok (committed w)"
    using assms(1) by (auto simp: short_intent_def)
  obtain d1 where "taken (snd (ci_payload c)) (committed w) d1"
    using assms(2) c(1) by (auto simp: settled_by_def)
  then have "stock_ok d1" and "stock p d1 < 0" using ok c(2) by (auto simp: taken_def)
  moreover have "0 \<le> stock p d1" using \<open>stock_ok d1\<close>
    by (auto simp: stock_ok_def stock_def intro!: sum_list_nonneg)
  ultimately show False by simp
qed

lemma wp_both: "wp m Q E w \<Longrightarrow> wp m Q' E' w \<Longrightarrow> wp m (\<lambda>x v. Q x v \<and> Q' x v) (\<lambda>e v. E e v \<and> E' e v) w"
  by (auto simp: wp_def split: prod.splits sum.splits)

lemma filter_hit_upd: "(\<And>c. ci_id (f c) = ci_id c) \<Longrightarrow> filter (hit i) (upd (hit i) f t) = map f (filter (hit i) t)"
  by (induction t) (auto simp: hit_def)

lemma short_intent_update:
  assumes "short_intent i p s a w" and "quiet v" and "committed v = db_commit_intents_update (upd (hit i) f) (committed w)"
    and "\<And>c. ci_id (f c) = ci_id c" and "\<And>c. ci_payload (f c) = ci_payload c"
    and "\<And>c. ci_status (f c) = commit_intent_status_value s'" and "\<And>c. ci_attempts c = a \<Longrightarrow> ci_attempts (f c) = a'"
  shows "short_intent i p s' a' v"
  using assms by (auto simp: short_intent_def filter_hit_upd stock_ok_def map_upd_same stock_def)

lemma short_intent_claim:
  assumes "short_intent i p CI_PENDING a w"
  shows "wp (claim_intent i) (\<lambda>claimed v. claimed \<and> short_intent i p CI_PROCESSING (a + 1) v) (\<lambda>_ _. False) (fresh_session w)"
proof -
  obtain c where c: "filter (hit i) (db_commit_intents (committed w)) = [c]" "ci_status c = commit_intent_status_value CI_PENDING"
    and w: "quiet w" using assms by (auto simp: short_intent_def)
  have "filter (\<lambda>x. hit i x \<and> ci_status x = 0) (db_commit_intents (committed w)) = [c]"
    using arg_cong [OF c(1), of "filter (\<lambda>x. ci_status x = 0)"] c(2) by simp
  then show ?thesis
    using w c(2) by (auto simp: claim_intent_def wp_simps fresh_session_def quiet_reset intro!: short_intent_update [OF assms])
qed

lemma short_intent_settle:
  assumes "short_intent i p CI_PROCESSING a w" and "db w = committed w"
  shows "wp (commit_stock i) (\<lambda>_ _. False) (\<lambda>e v. e \<noteq> CancelledError \<and> short_intent i p CI_PROCESSING a v) w"
proof -
  have "quiet w" using assms by (simp add: short_intent_def)
  from wp_both [OF wp_commit_stock wp_commit_stock_calm [OF this]] show ?thesis
    by (rule wp_mono) (use assms short_not_settled [OF assms(1)] in \<open>auto simp: short_intent_def\<close>)
qed

lemma short_intent_reschedule:
  assumes "short_intent i p s a w"
  shows "wp (reschedule_intent i) (\<lambda>_ v. short_intent i p (if a + 1 \<ge> 5 then CI_FAILED else CI_PENDING) (if a + 1 \<ge> 5 then a else a + 1) v)
    (\<lambda>_ _. False) w"
proof -
  obtain c where c: "filter (hit i) (db_commit_intents (committed w)) = [c]" "ci_attempts c = a" and w: "quiet w"
    using assms by (auto simp: short_intent_def)
  then show ?thesis
    by (auto simp: reschedule_intent_def wp_simps DEFAULT_MAX_ATTEMPTS_def quiet_reset Let_def intro!: short_intent_update [OF assms])
qed

lemma short_intent_fresh: "short_intent i p s a v \<Longrightarrow> short_intent i p s a (fresh_session v)"
  by (simp add: short_intent_def fresh_session_def quiet_reset)

lemma short_intent_run:
  assumes short: "short_intent i p CI_PENDING a w" and i: "i \<noteq> 0"
  shows "short_intent i p (if a + 2 \<ge> 5 then CI_FAILED else CI_PENDING) (if a + 2 \<ge> 5 then a + 1 else a + 2)
     (snd (order_confirm_commitintent_handler (intent_message i) w))"
proof -
  define st' where "st' = (if a + 2 \<ge> 5 then CI_FAILED else CI_PENDING)"
  define a' where "a' = (if a + 2 \<ge> 5 then a + 1 else a + 2)"
  let ?fin = "\<lambda>_ v. short_intent i p st' a' (fresh_session v)"
  have resched: "wp (on_exception i e) ?fin ?fin v"
    if "e \<noteq> CancelledError \<and> short_intent i p CI_PROCESSING (a + 1) v" for e v
  proof -
    from that have "short_intent i p CI_PROCESSING (a + 1) v" by simp
    note resched = short_intent_reschedule [OF this]
    have "wp (reschedule_intent i) ?fin ?fin v"
      by (rule wp_mono [OF resched]) (auto intro: short_intent_fresh simp: st'_def a'_def algebra_simps split: if_splits)
    with that show ?thesis by (simp add: on_exception_def)
  qed
  have settle: "wp (if claimed then commit_stock i else retM ()) ?fin (\<lambda>e. wp (on_exception i e) ?fin ?fin) v"
    if "claimed \<and> short_intent i p CI_PROCESSING (a + 1) v \<and> db v = committed v" for claimed v
  proof -
    from that have v: "short_intent i p CI_PROCESSING (a + 1) v" "db v = committed v" and "claimed" by simp_all
    have "wp (commit_stock i) ?fin (\<lambda>e. wp (on_exception i e) ?fin ?fin) v"
      by (rule wp_mono [OF short_intent_settle [OF v]]) (simp, rule resched)
    with \<open>claimed\<close> show ?thesis by simp
  qed
  have claim: "wp (claim_intent i) (\<lambda>claimed v. claimed \<and> short_intent i p CI_PROCESSING (a + 1) v \<and> db v = committed v) (\<lambda>_ _. False) (fresh_session w)"
    by (rule wp_mono [OF wp_both [OF short_intent_claim [OF short] wp_claim_intent]]) simp_all
  have "wp (claim_intent i) (\<lambda>claimed. wp (if claimed then commit_stock i else retM ()) ?fin (\<lambda>e. wp (on_exception i e) ?fin ?fin))
      (\<lambda>e. wp (on_exception i e) ?fin ?fin) (fresh_session w)"
    by (rule wp_mono [OF claim]) (rule settle, simp_all)
  then have "wp (order_confirm_commitintent_handler (intent_message i)) (\<lambda>_ v. short_intent i p st' a' v) (\<lambda>_ v. short_intent i p st' a' v) w"
    using i by (simp add: order_confirm_commitintent_handler_def intent_message_def wp_let wp_lift wp_with_session wp_try
        fresh_session_def [symmetric] on_exception_def [symmetric])
  then show ?thesis by (simp only: wp_state st'_def a'_def)
qed

text \<open>An order that cannot be served (its items exceed the stock of a product) is given up after
  exactly three runs, although the limit is five attempts: every failing run counts twice, once when
  the intent is claimed and once when it is rescheduled. Until then the intent is PENDING again, and
  the stock is never touched.\<close>

theorem intent_given_up_after_three:
  assumes "short_intent i p CI_PENDING 0 w" and "i \<noteq> 0"
  shows "let run = (\<lambda>w. snd (order_confirm_commitintent_handler (intent_message i) w))
         in short_intent i p CI_PENDING 2 (run w) \<and> short_intent i p CI_PENDING 4 (run (run w)) \<and>
            short_intent i p CI_FAILED 5 (run (run (run w)))"
proof -
  let ?run = "\<lambda>w. snd (order_confirm_commitintent_handler (intent_message i) w)"
  have one: "short_intent i p CI_PENDING 2 (?run w)"
    using short_intent_run [OF assms] by simp
  have two: "short_intent i p CI_PENDING 4 (?run (?run w))"
    using short_intent_run [OF one assms(2)] by simp
  have "short_intent i p CI_FAILED 5 (?run (?run (?run w)))"
    using short_intent_run [OF two assms(2)] by simp
  with one two show ?thesis by (simp add: Let_def)
qed

subsection \<open>Orders that can be served\<close>

definition enough :: "(nat \<times> int) list \<Rightarrow> database \<Rightarrow> bool" where
  "enough items d \<longleftrightarrow> distinct (map fst items) \<and> distinct (map p_id (db_products d)) \<and>
     (\<forall>(p, q) \<in> set items. \<exists>r \<in> set (db_products d). p_id r = p \<and> q \<le> p_stock_qty r)"

lemma wp_decrement_item_enough:
  assumes "quiet w" and "enough (it # items) (db w)"
  shows "wp (decrement_item it) (\<lambda>r v. r = None \<and> quiet v \<and> enough items (db v)) (\<lambda>_ _. False) w"
proof -
  obtain pid qty where it: "it = (pid, qty)" by (cases it)
  obtain p where p: "p \<in> set (db_products (db w))" "p_id p = pid" "qty \<le> p_stock_qty p"
    using assms(2) by (auto simp: enough_def it)
  have row: "filter (\<lambda>r. p_id r = pid) (db_products (db w)) = [p]"
    using assms(2) p by (intro distinct_filter_one) (simp_all add: enough_def)
  have "enough items (db_products_update (upd (\<lambda>r. p_id r = pid) (\<lambda>r. r\<lparr>p_stock_qty := n, p_updated_at := t\<rparr>)) (db w))" for n t
    unfolding enough_def
  proof (intro conjI ballI, goal_cases)
    case (3 x)
    with assms(2) obtain r where "r \<in> set (db_products (db w))" "p_id r = fst x" "snd x \<le> p_stock_qty r" "fst x \<noteq> pid"
      by (cases x) (force simp: enough_def it)
    then show ?case by (cases x) (auto simp: set_upd intro!: bexI [of _ r])
  qed (use assms(2) in \<open>simp_all add: enough_def map_upd_same\<close>)
  with assms(1) p row show ?thesis
    by (simp add: decrement_item_def it wp_simps)
qed

lemma wp_decrement_items_enough:
  "quiet w \<Longrightarrow> enough items (db w) \<Longrightarrow>
     wp (mapM decrement_item items) (\<lambda>rs v. reported rs = [] \<and> quiet v) (\<lambda>_ _. False) w"
proof (induction items arbitrary: w)
  case Nil
  then show ?case by (simp add: wp_ret reported_simps)
next
  case (Cons it items)
  have "wp (mapM decrement_item items) (\<lambda>rs v. reported (r # rs) = [] \<and> quiet v) (\<lambda>_ _. False) v"
    if "r = None \<and> quiet v \<and> enough items (db v)" for r and v :: state
    using that by (intro wp_mono [OF Cons.IH]) (simp_all add: reported_simps)
  then show ?case
    unfolding wp_mapM_Cons by (intro wp_mono [OF wp_decrement_item_enough [OF Cons.prems]])
qed

lemma commit_stock_enough:
  assumes "quiet w" and "filter (hit i) (db_commit_intents (db w)) = [c]" and "enough (snd (ci_payload c)) (db w)"
  shows "wp (commit_stock i) (\<lambda>_ v. settled_by i (db w) (committed v)) (\<lambda>_ _. False) w"
proof -
  have "wp (commit_stock i) (\<lambda>_ v. True) (\<lambda>_ _. False) w"
    using assms unfolding commit_stock_def wp_begin_tx wp_let
    by (auto simp: wp_simps Let_def sim_emit_outbox_event_def split: option.split
        intro!: wp_mono [OF wp_decrement_items_enough])
  from wp_both [OF this wp_commit_stock] show ?thesis by (rule wp_mono) simp_all
qed

lemma intent_run:
  assumes "quiet w" and "stock_ok (committed w)" and "filter (hit i) (db_commit_intents (committed w)) = [c]"
    and "ci_status c = commit_intent_status_value CI_PENDING" and "enough (snd (ci_payload c)) (committed w)" and "i \<noteq> 0" and "json_get ''commit_intent_id'' JNull message = Inr (JInt i)"
  shows "wp (order_confirm_commitintent_handler message)
     (\<lambda>u v. with_status CI_DONE i (committed v) \<and> (\<forall>p. stock p (committed v) = stock p (committed w) - qty_of p (snd (ci_payload c)))) (\<lambda>_ _. False) w"
proof -
  let ?d = "committed w" and ?items = "snd (ci_payload c)"
  have st: "with_status CI_PENDING i ?d" and h: "hit i c"
    using filter_singleD [OF assms(3)] assms(4) by (auto simp: with_status_def)
  have pend: "filter (\<lambda>x. hit i x \<and> ci_status x = 0) (db_commit_intents ?d) = [c]"
    using arg_cong [OF assms(3), of "filter (\<lambda>x. ci_status x = 0)"] assms(4) by simp
  have claim: "wp (claim_intent i) (\<lambda>claimed v. claimed \<and> quiet v \<and> claimed_by i ?d (committed v) \<and> db v = committed v) (\<lambda>_ _. False) (fresh_session w)"
    using assms(1,4) pend st
    by (simp add: claim_intent_def wp_simps fresh_session_def quiet_reset claimed_by_def)
  have settle: "wp (commit_stock i) (\<lambda>_ v. settled_by i d (committed v) \<and> claimed_by i ?d d) (\<lambda>_ _. False) v"
    if v: "quiet v" "claimed_by i ?d d" "committed v = d" "db v = d" for d v
  proof -
    let ?f = "\<lambda>c. c\<lparr>ci_status := commit_intent_status_value CI_PROCESSING, ci_attempts := ci_attempts c + 1\<rparr>"
    have "filter (hit i) (db_commit_intents (db v)) = [?f c]"
      using v assms(3) by (simp add: claimed_by_def filter_hit_upd)
    then show ?thesis
      using v assms(5) by (intro wp_mono [OF commit_stock_enough]) (auto simp: claimed_by_def enough_def)
  qed
  have served: "with_status CI_DONE i d' \<and> (\<forall>p. stock p d' = stock p ?d - qty_of p ?items)"
    if sd: "settled_by i d d'" and cd: "claimed_by i ?d d" for d d'
  proof -
    obtain c' d1 where c': "filter (hit i) (db_commit_intents d) = [c']" and t: "taken (snd (ci_payload c')) d d1"
      and d': "d' = db_commit_intents_update (upd (hit i) (\<lambda>c. c\<lparr>ci_status := commit_intent_status_value CI_DONE\<rparr>)) d1"
      using sd by (auto simp: settled_by_def)
    have "ci_payload c' = ci_payload c"
      using c' cd assms(3) by (auto simp: claimed_by_def filter_hit_upd)
    moreover have "stock_ok d" and "stock p d = stock p ?d" for p using claimed_accounts [OF assms(2) cd] by simp_all
    moreover have "filter (hit i) (db_commit_intents d') = [c'\<lparr>ci_status := commit_intent_status_value CI_DONE\<rparr>]"
      using t c' by (simp add: d' taken_def filter_hit_upd)
    then have "c'\<lparr>ci_status := commit_intent_status_value CI_DONE\<rparr> \<in> set (filter (hit i) (db_commit_intents d'))" by simp
    then have "with_status CI_DONE i d'" unfolding with_status_def by fastforce
    ultimately show ?thesis using t by (auto simp: taken_def d' stock_def)
  qed
  have "wp (claim_intent i) (\<lambda>claimed. wp (if claimed then commit_stock i else retM ())
      (\<lambda>_ v. with_status CI_DONE i (committed v) \<and> (\<forall>p. stock p (committed v) = stock p ?d - qty_of p ?items)) (\<lambda>_ _. False))
      (\<lambda>_ _. False) (fresh_session w)"
    by (rule wp_mono [OF claim]) (auto intro!: wp_mono [OF settle] served)
  then have "wp (claim_intent i) (\<lambda>claimed. wp (if claimed then commit_stock i else retM ())
      (\<lambda>_ v. with_status CI_DONE i (committed v) \<and> (\<forall>p. stock p (committed v) = stock p ?d - qty_of p ?items))
      (\<lambda>e. wp (on_exception i e) (\<lambda>_ _. False) (\<lambda>_ _. False))) (\<lambda>e. wp (on_exception i e) (\<lambda>_ _. False) (\<lambda>_ _. False)) (fresh_session w)"
    by (rule wp_mono) (auto elim: wp_mono)
  then show ?thesis
    using assms(6,7) by (auto simp: order_confirm_commitintent_handler_def wp_let wp_lift wp_with_session wp_try
        fresh_session_def [symmetric] on_exception_def [symmetric] elim!: wp_mono)
qed

text \<open>An order that can be served is served: when nothing fails and every product of a PENDING intent
  exists with enough stock, one run of the handler takes exactly its items out of the stock and marks
  the intent DONE.\<close>

theorem intent_served:
  assumes "quiet w" and "stock_ok (committed w)" and "filter (hit i) (db_commit_intents (committed w)) = [c]"
    and "ci_status c = commit_intent_status_value CI_PENDING" and "enough (snd (ci_payload c)) (committed w)" and "i \<noteq> 0"
  shows "fst (order_confirm_commitintent_handler (intent_message i) w) = Inr () \<and>
    (let d = committed (snd (order_confirm_commitintent_handler (intent_message i) w))
     in with_status CI_DONE i d \<and> (\<forall>p. stock p d = stock p (committed w) - qty_of p (snd (ci_payload c))))"
proof -
  have "wp (order_confirm_commitintent_handler (intent_message i))
     (\<lambda>u v. u = () \<and> (with_status CI_DONE i (committed v) \<and> (\<forall>p. stock p (committed v) = stock p (committed w) - qty_of p (snd (ci_payload c))))) (\<lambda>_ _. False) w"
    by (rule wp_mono [OF intent_run [OF assms]]) (simp_all add: intent_message_def)
  from wp_result [OF this] show ?thesis by (simp add: Let_def)
qed


text \<open>C28: Messages for failed payments are lost: the webhook publishes them under
  \<open>order.pending_payment\<close>, to which nothing is subscribed (the outbox handler listens to
  \<open>order.payment_pending\<close>, and would raise if it ever ran). A worker takes such a message off the
  queue and does nothing.\<close>

theorem pending_payment_unrouted:
  assumes "queue w = (''order.pending_payment'', data) # rest"
  shows "worker_step (run_handler images) (register_subscribers []) w = (Inr (), w\<lparr>queue := rest\<rparr>)"
  using assms by (simp add: worker_step_def tasks_executor_def register_subscribers_def tryM_def retM_def)

section \<open>Witnesses\<close>

definition paid_intent :: "commit_intent_status \<Rightarrow> int \<Rightarrow> int \<Rightarrow> commit_intent" where
  "paid_intent st a q = \<lparr>ci_id = 7, ci_aggregate_type = ''order'', ci_aggregate_id = 30, ci_reason = ''payment_succeeded'',
     ci_status = commit_intent_status_value st, ci_payload = (30, [(11, q)]), ci_attempts = a, ci_next_retry_at = None, ci_created_at = 0\<rparr>"

definition shop :: "commit_intent_status \<Rightarrow> int \<Rightarrow> int \<Rightarrow> database" where
  "shop st a q = empty_db\<lparr>db_products := [sample_product 11 5], db_commit_intents := [paid_intent st a q]\<rparr>"

lemma shop_fields:
  "db_products (shop st a q) = [sample_product 11 5]" "db_commit_intents (shop st a q) = [paid_intent st a q]"
  "p_id (sample_product 11 5) = 11" "p_stock_qty (sample_product 11 5) = 5" "hit 7 (paid_intent st a q)"
  "ci_status (paid_intent st a q) = commit_intent_status_value st" "ci_attempts (paid_intent st a q) = a"
  "snd (ci_payload (paid_intent st a q)) = [(11, q)]"
  by (simp_all add: shop_def empty_db_def sample_product_def paid_intent_def hit_def)

lemma shop_ok: "stock_ok (shop st a q)"
  by (simp add: stock_ok_def shop_fields)

lemma shop_counts:
  "stock 11 (shop st a q) = 5" "sold 11 (shop st a q) = (if st = CI_DONE then q else 0)" "qty_of 11 [(11, q)] = q"
  by (cases st; simp add: stock_def sold_def sold_by_def qty_of_def shop_fields)+

lemma stock_taken_once_witness:
  "\<exists>w' pc'. worker_tx False (start 0 (shop CI_PENDING 0 2), idle) (w', pc') \<and> pc' 0 = Claimed 7 \<and>
     stock 11 (committed w') + sold 11 (committed w') = 5"
proof -
  let ?w = "start 0 (shop CI_PENDING 0 2)"
  have "wp (claim_intent 7) (\<lambda>b v. b = True \<and> True) (\<lambda>_ _. False) (fresh_session ?w)"
    by (simp add: claim_intent_def wp_simps fresh_session_def quiet_reset shop_fields)
  from wp_result [OF this] obtain v where "claim_intent 7 (fresh_session ?w) = (Inr True, v)"
    by (metis prod.collapse)
  then have step: "worker_tx False (?w, idle) (v, idle(0 := Claimed 7))"
    using worker_tx.claim [of idle 0 7 ?w True v False] by (simp add: idle_def)
  then have "(worker_tx False)\<^sup>*\<^sup>* (?w, idle) (v, idle(0 := Claimed 7))" by (rule r_into_rtranclp)
  from stock_taken_once [OF this, of 11 0 7 0] step show ?thesis
    by (auto simp: shop_ok shop_counts intro!: exI)
qed

lemma handler_is_worker_witness:
  "\<exists>r v u. order_confirm_commitintent_handler (intent_message 7) (start 0 (shop CI_PENDING 0 2)) = (r, v) \<and>
     (worker_tx (\<exists>e x. claim_intent 7 (fresh_session (start 0 (shop CI_PENDING 0 2))) = (Inl e, x)))\<^sup>*\<^sup>*
       (start 0 (shop CI_PENDING 0 2), idle) (u, idle) \<and> v = fresh_session u"
proof -
  obtain r v where run: "order_confirm_commitintent_handler (intent_message 7) (start 0 (shop CI_PENDING 0 2)) = (r, v)"
    by fastforce
  from handler_is_worker [OF this, of idle 0] run show ?thesis by (auto simp: idle_def)
qed

lemma intent_given_up_after_three_witness:
  "short_intent 7 11 CI_FAILED 5 (((\<lambda>w. snd (order_confirm_commitintent_handler (intent_message 7) w)) ^^ 3) (start 0 (shop CI_PENDING 0 9)))"
proof -
  have "short_intent 7 11 CI_PENDING 0 (start 0 (shop CI_PENDING 0 9))"
    by (simp add: short_intent_def shop_ok shop_fields shop_counts)
  from intent_given_up_after_three [OF this] show ?thesis by (simp add: numeral_3_eq_3 Let_def)
qed

lemma intent_served_witness:
  "stock 11 (committed (snd (order_confirm_commitintent_handler (intent_message 7) (start 0 (shop CI_PENDING 0 2))))) = 3"
  using intent_served [of "start 0 (shop CI_PENDING 0 2)" 7 "paid_intent CI_PENDING 0 2"]
  by (simp add: shop_ok shop_fields shop_counts enough_def Let_def)



lemma pending_payment_unrouted_witness:
  "worker_step (run_handler (\<lambda>_. retM ())) (register_subscribers [])
     ((start 0 empty_db)\<lparr>queue := [(''order.pending_payment'', JNull)]\<rparr>) = (Inr (), (start 0 empty_db)\<lparr>queue := []\<rparr>)"
  using pending_payment_unrouted [of "(start 0 empty_db)\<lparr>queue := [(''order.pending_payment'', JNull)]\<rparr>" JNull "[]" "\<lambda>_. retM ()"]
  by simp

end
