(* ===== verification/Circuit.thy ===== *)
theory Circuit
  imports Schema "HOL-Library.Sublist"
begin

text \<open>
  The database circuit breaker (\<open>backend/common/circuit_breaker.py\<close>) and the two retrying wrappers
  around it (\<open>backend/common/retries.py\<close>). The breaker is a value threaded through the wrappers; time
  is the clock of the world, in microseconds; the asyncio lock makes each breaker operation one step.
  Waiting for a probe permit succeeds at once or times out. The random jitter added to a delay is not
  modelled: nothing depends on how long a wrapper sleeps.
\<close>

section \<open>The breaker\<close>

datatype breaker_mode = CLOSED | OPEN | HALF_OPEN

record breaker =
  failure_threshold :: nat
  recovery_timeout :: int
  half_open_success_threshold :: nat
  cb_state :: breaker_mode
  fail_count :: nat
  opened_at :: "int option"
  half_open_success_count :: nat
  permits :: nat

definition new_breaker :: "int \<Rightarrow> int \<Rightarrow> int \<Rightarrow> nat \<Rightarrow> breaker" where
  "new_breaker threshold timeout success probes =
     \<lparr>failure_threshold = nat (max 1 threshold), recovery_timeout = timeout,
      half_open_success_threshold = nat (max 1 success), cb_state = CLOSED, fail_count = 0, opened_at = None,
      half_open_success_count = 0, permits = probes\<rparr>"

definition db_circuit :: breaker where
  "db_circuit = new_breaker 3 (seconds 20) 1 1"

definition maybe_transition :: "int \<Rightarrow> breaker \<Rightarrow> breaker" where
  "maybe_transition t cb = (case opened_at cb of
     Some o_at \<Rightarrow>
       if cb_state cb = OPEN \<and> t - o_at \<ge> recovery_timeout cb
       then cb\<lparr>cb_state := HALF_OPEN, half_open_success_count := 0\<rparr> else cb
   | None \<Rightarrow> cb)"

definition before_call :: "int \<Rightarrow> breaker \<Rightarrow> (exc + unit) \<times> breaker" where
  "before_call t cb =
     (let cb' = maybe_transition t cb
      in (if cb_state cb' = OPEN then Inl CircuitOpenError else Inr (), cb'))"

definition record_success :: "breaker \<Rightarrow> breaker" where
  "record_success cb = (case cb_state cb of
     CLOSED \<Rightarrow> cb\<lparr>fail_count := 0\<rparr>
   | OPEN \<Rightarrow> cb
   | HALF_OPEN \<Rightarrow>
       let n = half_open_success_count cb + 1 in
       if n \<ge> half_open_success_threshold cb
       then cb\<lparr>cb_state := CLOSED, fail_count := 0, opened_at := None, half_open_success_count := 0\<rparr>
       else cb\<lparr>half_open_success_count := n\<rparr>)"

definition record_failure :: "int \<Rightarrow> breaker \<Rightarrow> breaker" where
  "record_failure t cb = (case cb_state cb of
     HALF_OPEN \<Rightarrow> cb\<lparr>cb_state := OPEN, opened_at := Some t, fail_count := 0, half_open_success_count := 0\<rparr>
   | CLOSED \<Rightarrow>
       let n = fail_count cb + 1 in
       if n \<ge> failure_threshold cb then cb\<lparr>cb_state := OPEN, opened_at := Some t, fail_count := 0\<rparr>
       else cb\<lparr>fail_count := n\<rparr>
   | OPEN \<Rightarrow> cb)"

definition acquire_half_open_probe :: "breaker \<Rightarrow> bool \<times> breaker" where
  "acquire_half_open_probe cb = (if permits cb = 0 then (False, cb) else (True, cb\<lparr>permits := permits cb - 1\<rparr>))"

definition release_half_open_probe :: "breaker \<Rightarrow> breaker" where
  "release_half_open_probe cb = cb\<lparr>permits := permits cb + 1\<rparr>"

section \<open>Retrying\<close>

definition lower_char :: "char \<Rightarrow> char" where
  "lower_char c = (if 65 \<le> (of_char c :: nat) \<and> (of_char c :: nat) \<le> 90 then char_of (of_char c + (32 :: nat)) else c)"

fun is_recoverable_exception :: "exc \<Rightarrow> bool" where
  "is_recoverable_exception CancelledError = False"
| "is_recoverable_exception TimeoutError = True"
| "is_recoverable_exception ConnectionError = True"
| "is_recoverable_exception OSError = True"
| "is_recoverable_exception OperationalError = True"
| "is_recoverable_exception (DBAPIError connection_invalidated orig) =
     (connection_invalidated \<or>
      list_ex (\<lambda>k. sublist k (map lower_char orig))
        [''timeout'', ''connection'', ''brokenpipe'', ''connectionrefused'', ''connectionreset''])"
| "is_recoverable_exception _ = False"

definition unavailable :: exc where
  "unavailable = HTTPException 503 (Text ''service unavailable (db)'')"

text \<open>What both wrappers do before an attempt: the breaker's verdict, and a probe permit when the
  breaker is half open. The boolean is \<open>acquired_probe\<close>.\<close>

definition admit :: "int \<Rightarrow> breaker \<Rightarrow> (exc + bool) \<times> breaker" where
  "admit t cb = (case before_call t cb of
     (Inl _, cb) \<Rightarrow> (Inl unavailable, cb)
   | (Inr _, cb) \<Rightarrow>
       if cb_state cb = HALF_OPEN
       then (case acquire_half_open_probe cb of (ok, cb) \<Rightarrow> (if ok then Inr True else Inl unavailable, cb))
       else (Inr False, cb))"

definition release_if :: "bool \<Rightarrow> breaker \<Rightarrow> breaker" where
  "release_if acquired cb = (if acquired then release_half_open_probe cb else cb)"

text \<open>\<open>try: ... except Exception as exc\<close>, with the outcome as a value.\<close>

definition caught :: "('db, 'a) act \<Rightarrow> ('db, exc + 'a) act" where
  "caught m = tryM (letM m (\<lambda>x. retM (Inr x))) (\<lambda>e. retM (Inl e))"

text \<open>\<open>retry_with_db_circuit\<close>: \<open>n\<close> attempts left; the wrapped function is an action, whose exceptions
  are caught. The result pairs the outcome with the breaker.\<close>

primrec retry_with_db_circuit :: "nat \<Rightarrow> ('db, 'a) act \<Rightarrow> breaker \<Rightarrow> ('db, (exc + 'a) \<times> breaker) act" where
  "retry_with_db_circuit 0 fn cb = retM (Inl TypeError, cb)"
| "retry_with_db_circuit (Suc n) fn cb =
     letM now (\<lambda>t.
     case admit t cb of
       (Inl e, cb) \<Rightarrow> retM (Inl e, cb)
     | (Inr acquired, cb) \<Rightarrow>
         letM (caught fn) (\<lambda>r.
         case r of
           Inr x \<Rightarrow> retM (Inr x, record_success (release_if acquired cb))
         | Inl e \<Rightarrow>
             if e = CancelledError \<or> \<not> is_recoverable_exception e \<or> n = 0
             then retM (Inl e, release_if acquired cb)
             else letM now (\<lambda>t'. retry_with_db_circuit n fn (record_failure t' (release_if acquired cb)))))"

text \<open>\<open>retry_transaction_with_db_circuit\<close>: each attempt in its own session, committed on success and
  rolled back on failure; an exception of the rollback itself escapes. The probe permit is released
  only on success and before a retry.\<close>

definition attempt_transaction :: "('db, 'a) act \<Rightarrow> ('db, exc + 'a) act" where
  "attempt_transaction txn_fn = with_session (
     tryM (letM txn_fn (\<lambda>x. doM commit (retM (Inr x)))) (\<lambda>e. doM rollback (retM (Inl e))))"

primrec retry_transaction_with_db_circuit :: "nat \<Rightarrow> ('db, 'a) act \<Rightarrow> breaker \<Rightarrow> ('db, (exc + 'a) \<times> breaker) act" where
  "retry_transaction_with_db_circuit 0 txn_fn cb = retM (Inl TypeError, cb)"
| "retry_transaction_with_db_circuit (Suc n) txn_fn cb =
     letM now (\<lambda>t.
     case admit t cb of
       (Inl e, cb) \<Rightarrow> retM (Inl e, cb)
     | (Inr acquired, cb) \<Rightarrow>
         letM (caught (attempt_transaction txn_fn)) (\<lambda>r.
         case r of
           Inl e \<Rightarrow> retM (Inl e, cb)
         | Inr (Inr x) \<Rightarrow> retM (Inr x, record_success (release_if acquired cb))
         | Inr (Inl e) \<Rightarrow>
             if e = CancelledError \<or> \<not> is_recoverable_exception e \<or> n = 0
             then retM (Inl e, cb)
             else letM now (\<lambda>t'. retry_transaction_with_db_circuit n txn_fn (record_failure t' (release_if acquired cb)))))"

section \<open>The breaker as a state machine\<close>

text \<open>The operations concurrent requests perform on the shared breaker, in any order.\<close>

datatype breaker_op = Before int | Success | Failure int | Acquire | Release

fun breaker_step :: "breaker_op \<Rightarrow> breaker \<Rightarrow> breaker" where
  "breaker_step (Before t) cb = snd (before_call t cb)"
| "breaker_step Success cb = record_success cb"
| "breaker_step (Failure t) cb = record_failure t cb"
| "breaker_step Acquire cb = snd (acquire_half_open_probe cb)"
| "breaker_step Release cb = release_half_open_probe cb"

definition breaker_ok :: "breaker \<Rightarrow> bool" where
  "breaker_ok cb \<longleftrightarrow> 0 < failure_threshold cb \<and> 0 < half_open_success_threshold cb \<and>
     fail_count cb < failure_threshold cb \<and> (cb_state cb = CLOSED \<longleftrightarrow> opened_at cb = None) \<and>
     (cb_state cb \<noteq> CLOSED \<longrightarrow> fail_count cb = 0) \<and>
     half_open_success_count cb < half_open_success_threshold cb \<and>
     (cb_state cb \<noteq> HALF_OPEN \<longrightarrow> half_open_success_count cb = 0)"

lemmas breaker_defs = maybe_transition_def before_call_def record_success_def record_failure_def
  acquire_half_open_probe_def release_half_open_probe_def

interpretation breaker_machine: guarded_machine breaker_step breaker_ok
proof
  show "breaker_ok cb \<Longrightarrow> breaker_ok (breaker_step op cb)" for cb op
    by (cases op; cases "cb_state cb"; cases "opened_at cb")
      (auto simp: breaker_ok_def breaker_defs Let_def)
qed

lemma new_breaker_ok: "breaker_ok (new_breaker threshold timeout success probes)"
  by (auto simp: breaker_ok_def new_breaker_def max_def)

text \<open>In whatever order concurrent requests consult the breaker and report to it, it stays consistent:
  the failure count below its threshold (so it opens at the threshold and not later), a moment of
  opening exactly while it is not closed, and a count of successful probes only while half open.\<close>

theorem breaker_runs_ok:
  "breaker_ok (fold breaker_step ops (new_breaker threshold timeout success probes))"
  by (rule breaker_machine.run_inv) (rule new_breaker_ok)

text \<open>Consecutive failures.\<close>

lemma failures_below:
  "cb_state cb = CLOSED \<Longrightarrow> fail_count cb + length ts < failure_threshold cb \<Longrightarrow>
     fold record_failure ts cb = cb\<lparr>fail_count := fail_count cb + length ts\<rparr>"
  by (induction ts arbitrary: cb) (simp_all add: record_failure_def Let_def)

lemma failures_open:
  assumes "cb_state cb = CLOSED" and "fail_count cb + length ts + 1 = failure_threshold cb"
  shows "fold record_failure (ts @ [t]) cb = cb\<lparr>cb_state := OPEN, opened_at := Some t, fail_count := 0\<rparr>"
  using assms by (simp add: failures_below) (simp add: record_failure_def Let_def)

text \<open>The life of the database breaker. Fewer than three consecutive failures leave it closed; the
  third opens it; for the next 20 seconds every call is refused; after that one request is let
  through as a probe, and only one at a time; its success closes the breaker, its failure opens it
  for another 20 seconds.\<close>

theorem db_circuit_cycle:
  "let opened = fold record_failure [t1, t2, t] db_circuit;
       probing = snd (admit t' opened);
       refused = (\<lambda>cb s. admit s cb = (Inl unavailable, cb))
   in cb_state (fold record_failure [t1, t2] db_circuit) = CLOSED \<and> cb_state opened = OPEN \<and>
      (\<forall>s < t + seconds 20. refused opened s) \<and>
      (t' \<ge> t + seconds 20 \<longrightarrow>
         fst (admit t' opened) = Inr True \<and> (\<forall>s. refused probing s) \<and>
         record_success (release_half_open_probe probing) = db_circuit \<and>
         (\<forall>u. let again = record_failure u (release_half_open_probe probing)
              in cb_state again = OPEN \<and> (\<forall>s < u + seconds 20. refused again s)))"
  by (auto simp: db_circuit_def new_breaker_def admit_def breaker_defs Let_def unavailable_def)

section \<open>The retrying wrappers\<close>

lemma ops_ok:
  assumes "breaker_ok cb"
  shows "breaker_ok (snd (before_call t cb))" and "breaker_ok (record_success cb)" and "breaker_ok (record_failure t cb)"
    and "breaker_ok (snd (acquire_half_open_probe cb))" and "breaker_ok (release_half_open_probe cb)"
  using breaker_machine.step_inv [OF assms, of "Before t"] breaker_machine.step_inv [OF assms, of Success]
    breaker_machine.step_inv [OF assms, of "Failure t"] breaker_machine.step_inv [OF assms, of Acquire]
    breaker_machine.step_inv [OF assms, of Release]
  by simp_all

lemma permits_simps [simp]:
  "permits (record_success cb) = permits cb" "permits (record_failure t cb) = permits cb"
  "permits (snd (before_call t cb)) = permits cb"
  by (auto simp: breaker_defs Let_def split: breaker_mode.split option.split)

lemma admit_probe:
  assumes "admit t cb = (r, cb')"
  shows "breaker_ok cb \<Longrightarrow> breaker_ok cb'"
    and "permits (release_if (r = Inr True) cb') = permits cb" and "r = Inl e \<Longrightarrow> permits cb' = permits cb"
proof -
  obtain b cb1 where b: "before_call t cb = (b, cb1)" by fastforce
  have one: "permits cb1 = permits cb" "breaker_ok cb \<Longrightarrow> breaker_ok cb1"
    using permits_simps(3) [of t cb] ops_ok(1) [of cb t] b by simp_all
  have r: "(r, cb') = (case b of Inl _ \<Rightarrow> (Inl unavailable, cb1)
     | Inr _ \<Rightarrow> if cb_state cb1 = HALF_OPEN
         then (if permits cb1 = 0 then (Inl unavailable, cb1) else (Inr True, cb1\<lparr>permits := permits cb1 - 1\<rparr>))
         else (Inr False, cb1))"
    using assms by (auto simp: admit_def b acquire_half_open_probe_def split: sum.splits)
  show "breaker_ok cb \<Longrightarrow> breaker_ok cb'"
    using r one by (auto simp: breaker_ok_def split: sum.splits if_splits)
  show "permits (release_if (r = Inr True) cb') = permits cb" and "r = Inl e \<Longrightarrow> permits cb' = permits cb"
    using r one by (auto simp: release_if_def release_half_open_probe_def split: sum.splits if_splits)
qed

lemma release_if_ok: "breaker_ok cb \<Longrightarrow> breaker_ok (release_if b cb)"
  by (simp add: release_if_def ops_ok)

lemma caught_returns: "\<exists>r v. caught m w = (Inr r, v)"
  by (auto simp: caught_def tryM_def letM_def retM_def split: prod.split sum.split)

lemma letM_run: "m w = (Inr x, v) \<Longrightarrow> letM m k w = k x v"
  by (simp add: letM_def)

text \<open>C20: The wrapper of the routes always comes back with an outcome and gives back every probe permit
  it took, whatever the wrapped function does and however often it is retried; the breaker stays
  consistent.\<close>

theorem retry_conserves_probes:
  assumes "breaker_ok cb"
  shows "\<exists>r cb' w'. retry_with_db_circuit n fn cb w = (Inr (r, cb'), w') \<and> permits cb' = permits cb \<and> breaker_ok cb'"
  using assms
proof (induction n arbitrary: cb w)
  case 0
  then show ?case by (simp add: retM_def)
next
  case (Suc n)
  obtain t v where t: "now w = (Inr t, v)" by (simp add: now_def)
  obtain a cb1 where a: "admit t cb = (a, cb1)" by fastforce
  note ad = admit_probe [OF a]
  show ?case
  proof (cases a)
    case (Inl e)
    with a t ad Suc.prems show ?thesis by (simp add: letM_def [of now] retM_def)
  next
    case (Inr acquired)
    define cb2 where "cb2 = release_if acquired cb1"
    have cb2: "breaker_ok cb2" "permits cb2 = permits cb"
      using ad Suc.prems Inr by (auto simp: cb2_def release_if_ok)
    obtain r u where r: "caught fn v = (Inr r, u)" using caught_returns by blast
    obtain t' u' where t': "now u = (Inr t', u')" by (simp add: now_def)
    from Suc.IH [OF ops_ok(3) [OF cb2(1)], of t' u'] cb2
    show ?thesis
      using a t t' r Inr
      by (auto simp: letM_run [of now w, OF t] letM_run [of "caught fn" v, OF r] letM_run [of now u, OF t'] retM_def cb2_def [symmetric] ops_ok split: sum.split)
  qed
qed

lemma letM_now: "letM now k w = k (clock (env w) (ticks w)) (tick w)"
  by (simp add: letM_def now_def)

lemma failing_attempt:
  assumes "\<And>v. fst (txn v) = Inl e"
  shows "\<exists>x v. caught (attempt_transaction txn) w = (Inr x, v) \<and> (\<forall>y. x = Inr y \<longrightarrow> y = Inl e)"
proof -
  let ?w = "w\<lparr>db := committed w, aborted := False\<rparr>"
  obtain v where v: "txn ?w = (Inl e, v)" using assms [of ?w] by (metis prod.collapse)
  obtain r u where u: "rollback v = (r, u)" by fastforce
  show ?thesis
    using v u
    by (cases r) (auto simp: caught_def attempt_transaction_def with_session_def tryM_def letM_def doM_def retM_def)
qed

text \<open>C21: The wrapper of transactions leaks. When its probe ends in an error that is not retried, the
  permit is never given back: the breaker stays half open with no permit left, and from then on both
  wrappers refuse every request with 503 at once, at any time, without ever calling the database.\<close>

theorem leaked_probe_blocks_for_ever:
  assumes "cb_state cb = OPEN" and "opened_at cb = Some t0" and "permits cb = 1"
    and "clock (env w) (ticks w) \<ge> t0 + recovery_timeout cb"
    and "\<And>v. fst (txn v) = Inl e" and "\<not> is_recoverable_exception e"
  shows "\<exists>r stuck w'. retry_transaction_with_db_circuit (Suc n) txn cb w = (Inr (Inl r, stuck), w') \<and>
     (\<forall>m fn v. retry_with_db_circuit (Suc m) fn stuck v = (Inr (Inl unavailable, stuck), tick v)) \<and>
     (\<forall>m txn' v. retry_transaction_with_db_circuit (Suc m) txn' stuck v = (Inr (Inl unavailable, stuck), tick v))"
proof -
  let ?stuck = "cb\<lparr>cb_state := HALF_OPEN, half_open_success_count := 0, permits := 0\<rparr>"
  have adm: "admit (clock (env w) (ticks w)) cb = (Inr True, ?stuck)"
    using assms(1-4) by (simp add: admit_def before_call_def maybe_transition_def acquire_half_open_probe_def Let_def)
  have refused: "admit t ?stuck = (Inl unavailable, ?stuck)" for t
    by (simp add: admit_def before_call_def maybe_transition_def acquire_half_open_probe_def Let_def split: option.split)
  obtain x v where x: "caught (attempt_transaction txn) (tick w) = (Inr x, v)" "\<And>y. x = Inr y \<Longrightarrow> y = Inl e"
    using failing_attempt [of txn e "tick w"] assms(5) by blast
  have "\<exists>r. retry_transaction_with_db_circuit (Suc n) txn cb w = (Inr (Inl r, ?stuck), v)"
    using x(2) assms(6)
    by (cases x) (auto simp: letM_now adm letM_run [of "caught (attempt_transaction txn)" "tick w", OF x(1)] retM_def)
  moreover have "retry_with_db_circuit (Suc m) fn ?stuck u = (Inr (Inl unavailable, ?stuck), tick u)" for m fn u
    by (simp add: letM_now refused retM_def)
  moreover have "retry_transaction_with_db_circuit (Suc m) txn' ?stuck u = (Inr (Inl unavailable, ?stuck), tick u)" for m txn' u
    by (simp add: letM_now refused retM_def)
  ultimately show ?thesis by blast
qed

lemma retry_conserves_probes_witness:
  "\<exists>r cb' w'. retry_with_db_circuit 3 (raiseM ConnectionError :: unit handler) db_circuit (start 0 empty_db) = (Inr (r, cb'), w') \<and>
     permits cb' = 1"
  using retry_conserves_probes [of db_circuit 3 "raiseM ConnectionError :: unit handler" "start 0 empty_db"]
  by (auto simp: db_circuit_def new_breaker_ok) (simp add: new_breaker_def)

definition recovering :: breaker where
  "recovering = db_circuit\<lparr>cb_state := OPEN, opened_at := Some 0\<rparr>"

lemma leaked_probe_blocks_for_ever_witness:
  "\<exists>r stuck w'. retry_transaction_with_db_circuit 3 (raiseM IntegrityError :: unit handler) recovering (start (seconds 30) empty_db) =
       (Inr (Inl r, stuck), w') \<and>
     retry_with_db_circuit 3 (retM () :: unit handler) stuck w' = (Inr (Inl unavailable, stuck), tick w')"
proof -
  have "\<exists>r stuck w'. retry_transaction_with_db_circuit (Suc 2) (raiseM IntegrityError :: unit handler) recovering (start (seconds 30) empty_db) =
      (Inr (Inl r, stuck), w') \<and>
     (\<forall>m fn v. retry_with_db_circuit (Suc m) (fn :: unit handler) stuck v = (Inr (Inl unavailable, stuck), tick v)) \<and>
     (\<forall>m txn' v. retry_transaction_with_db_circuit (Suc m) (txn' :: unit handler) stuck v = (Inr (Inl unavailable, stuck), tick v))"
    by (rule leaked_probe_blocks_for_ever [where e = IntegrityError and ?t0.0 = 0])
      (simp_all add: recovering_def db_circuit_def new_breaker_def seconds_def raiseM_def)
  then show ?thesis by (metis Suc_1 numeral_3_eq_3 numeral_2_eq_2)
qed

lemma db_circuit_cycle_witness:
  "let opened = fold record_failure [0, 1, 2] db_circuit
   in cb_state opened = OPEN \<and> admit (seconds 15) opened = (Inl unavailable, opened) \<and>
      fst (admit (seconds 30) opened) = Inr True \<and>
      record_success (release_half_open_probe (snd (admit (seconds 30) opened))) = db_circuit"
proof -
  have s: "seconds 15 < 2 + seconds 20" "seconds 30 \<ge> 2 + seconds 20" by (simp_all add: seconds_def)
  show ?thesis
    using db_circuit_cycle [of 0 1 2 "seconds 30"] s unfolding Let_def by blast
qed

end
