(* ===== verification/Auth.thy ===== *)
theory Auth
  imports Circuit
begin

text \<open>
  Accounts and tokens: \<open>backend/auth/utils.py\<close>, \<open>backend/auth/repository.py\<close>,
  \<open>backend/auth/services.py\<close>, \<open>backend/auth/dependencies.py\<close> and the routes of
  \<open>backend/auth/routes.py\<close>. Hash functions, the password scheme, the JWT encoder and the e-mail
  normaliser are libraries: fields of the record \<open>crypto\<close>, over which all statements are general.
  Texts are ASCII, so \<open>lower\<close> and \<open>strip\<close> are their ASCII readings.
\<close>

section \<open>Passwords and texts\<close>

definition is_space :: "char \<Rightarrow> bool" where
  "is_space c \<longleftrightarrow> (of_char c :: nat) \<in> {9, 10, 11, 12, 13, 28, 29, 30, 31, 32}"

definition strip :: "string \<Rightarrow> string" where
  "strip s = rev (dropWhile is_space (rev (dropWhile is_space s)))"

definition lower :: "string \<Rightarrow> string" where
  "lower s = map lower_char s"

definition islower :: "char \<Rightarrow> bool" where
  "islower c \<longleftrightarrow> 97 \<le> (of_char c :: nat) \<and> (of_char c :: nat) \<le> 122"

definition isupper :: "char \<Rightarrow> bool" where
  "isupper c \<longleftrightarrow> 65 \<le> (of_char c :: nat) \<and> (of_char c :: nat) \<le> 90"

definition isdigit :: "char \<Rightarrow> bool" where
  "isdigit c \<longleftrightarrow> 48 \<le> (of_char c :: nat) \<and> (of_char c :: nat) \<le> 57"

definition SPECIALS :: string where
  "SPECIALS = ''!@#$%^&*(),.?'' @ [CHR 0x22] @ '':{}|<>'' @ [CHR 0x5C] @ ''/~`_-+=;:[]''"

definition validate_password :: "string \<Rightarrow> nat \<Rightarrow> bool \<times> string" where
  "validate_password password min_length =
     (let pw = strip password in
      if length pw < min_length then (False, ''Password must be at least 8 characters long'')
      else if \<not> list_ex islower pw then (False, ''Password must include at least one lowercase letter'')
      else if \<not> list_ex isupper pw then (False, ''Password must include at least one uppercase letter'')
      else if \<not> list_ex isdigit pw then (False, ''Password must include at least one digit'')
      else if \<not> list_ex (\<lambda>c. c \<in> set SPECIALS) pw then (False, ''Password must include at least one special character'')
      else (True, ''OK''))"

section \<open>Configuration and libraries\<close>

record crypto =
  hash_token :: "string \<Rightarrow> string"
  hash_password :: "string \<Rightarrow> string"
  verify_password :: "string \<Rightarrow> string \<Rightarrow> bool"
  jwt_encode :: "json \<Rightarrow> string"
  normalize_email_address :: "string \<Rightarrow> exc + string"

record auth_config =
  DEFAULT_ROLE :: string
  SELF_PROVIDER :: string
  ACCESS_TOKEN_EXPIRE_MINUTES :: int
  REFRESH_TOKEN_EXPIRE :: int
  DEVICE_SESSION_EXPIRE_DAYS :: int

definition timestamp :: "int \<Rightarrow> int" where
  "timestamp t = t div 1000000"

definition create_access_token :: "crypto \<Rightarrow> auth_config \<Rightarrow> nat \<Rightarrow> nat list \<Rightarrow> int \<Rightarrow> nat \<Rightarrow> string handler" where
  "create_access_token cr cfg user_id user_roles role_version session_pid =
     letM now (\<lambda>t.
     letM random_token (\<lambda>jti.
     retM (jwt_encode cr (JObj [(''sub'', JUuid user_id), (''iat'', JInt (timestamp t)),
       (''exp'', JInt (timestamp (t + minutes (ACCESS_TOKEN_EXPIRE_MINUTES cfg)))), (''jti'', JStr jti),
       (''roles'', JList (map (\<lambda>r. JInt (int r)) user_roles)), (''role_version'', JInt role_version),
       (''session_pid'', JUuid session_pid)]))))"

section \<open>Users and credentials\<close>

definition unauthorized :: "string \<Rightarrow> exc" where
  "unauthorized msg = HTTPException 401 (Text msg)"

definition user_by_email :: "string \<Rightarrow> user handler" where
  "user_by_email email =
     letM (query (\<lambda>d. filter (\<lambda>u. u_email u = Some email \<and> u_deleted_at u = None) (db_users d))) (\<lambda>rows.
     case first_row rows of
       None \<Rightarrow> raiseM (unauthorized ''Email provided is not valid'')
     | Some u \<Rightarrow> retM u)"

definition user_id_by_email :: "string \<Rightarrow> nat option handler" where
  "user_id_by_email email =
     letM (query (\<lambda>d. map u_id (filter (\<lambda>u. u_email u = Some email \<and> u_deleted_at u = None) (db_users d)))) (\<lambda>rows.
     retM (first_row rows))"

text \<open>A user without a password credential: \<open>first()\<close> is None, and subscripting it a TypeError.\<close>

definition identify_user :: "crypto \<Rightarrow> string \<Rightarrow> string \<Rightarrow> user handler" where
  "identify_user cr email password =
     letM (user_by_email (lower (strip email))) (\<lambda>u.
     letM (query (\<lambda>d. map cred_password_hash (filter (\<lambda>c. cred_user_id c = u_id u \<and> cred_type c = CT_PASSWORD)
                                                     (db_credentials d)))) (\<lambda>rows.
     case first_row rows of
       None \<Rightarrow> raiseM TypeError
     | Some None \<Rightarrow> raiseM (unauthorized ''Invalid credentials'')
     | Some (Some pwd_hash) \<Rightarrow>
         if pwd_hash = [] \<or> \<not> verify_password cr password pwd_hash
         then raiseM (unauthorized ''Invalid credentials'') else retM u))"

definition create_credential :: "auth_config \<Rightarrow> nat \<Rightarrow> string \<Rightarrow> nat handler" where
  "create_credential cfg user_id password_hash =
     letM now (\<lambda>t1. letM now (\<lambda>t2.
     letM (next_id ''credential'') (\<lambda>i.
     let row = \<lparr>cred_id = i, cred_user_id = user_id, cred_type = CT_PASSWORD, cred_provider = SELF_PROVIDER cfg,
                cred_provider_user_id = None, cred_password_hash = Some password_hash,
                cred_created_at = t1, cred_updated_at = t2, cred_revoked_at = None\<rparr> in
     letM (exec (\<lambda>d. Inr (if conflict credential_user_provider_key row (db_credentials d) then None else Some i,
                          db_credentials_update (insert_nothing credential_user_provider_key row) d))) (\<lambda>new.
     if truthy_id new then retM (the new)
     else
       letM (query (\<lambda>d. map cred_user_id (filter (\<lambda>c. cred_user_id c = user_id \<and> cred_provider c = SELF_PROVIDER cfg)
                                                  (db_credentials d)))) (\<lambda>rows.
       letM (liftM (one_or_none rows)) (\<lambda>existing.
       if truthy_id existing
       then raiseM (HTTPException 409 (Text ''Credentials exist already for the current provider''))
       else raiseM (RuntimeError (Text ''Invariant violation: credential insert resulted in no row and no existing credential row'')))))))) "

definition create_n_get_user :: "string option \<Rightarrow> string option \<Rightarrow> (nat \<times> nat) handler" where
  "create_n_get_user email name =
     letM uuid7 (\<lambda>pid. letM now (\<lambda>t1. letM now (\<lambda>t2.
     letM (next_id ''users'') (\<lambda>i.
     let row = \<lparr>u_id = i, u_public_id = pid, u_email = email, u_name = name, u_role_version = 0,
                u_created_at = t1, u_updated_at = t2, u_deleted_at = None\<rparr> in
     letM (exec (\<lambda>d. Inr (if conflict user_email_key row (db_users d) then None else Some (i, pid),
                          db_users_update (insert_nothing user_email_key row) d))) (\<lambda>new.
     case new of
       Some r \<Rightarrow> retM r
     | None \<Rightarrow>
         letM (query (\<lambda>d. map u_email (filter (\<lambda>u. u_email u = email \<and> email \<noteq> None) (db_users d)))) (\<lambda>rows.
         letM (liftM (one_or_none rows)) (\<lambda>existing.
         case existing of
           Some (Some e) \<Rightarrow>
             if e \<noteq> [] then raiseM (HTTPException 409 (Quote ''User with this email already exists'' e))
             else raiseM (HTTPException 409 (Text ''User creation conflict , unexpected , retry''))
         | _ \<Rightarrow> raiseM (HTTPException 409 (Text ''User creation conflict , unexpected , retry'')))))))))"

definition link_user_role :: "auth_config \<Rightarrow> nat \<Rightarrow> unit handler" where
  "link_user_role cfg user_id =
     letM (query (\<lambda>d. map role_id (filter (\<lambda>r. role_name r = DEFAULT_ROLE cfg) (db_roles d)))) (\<lambda>rows.
     letM (liftM (one_or_none rows)) (\<lambda>rid.
     if \<not> truthy_id rid then raiseM (RuntimeError (Text ''Invariant violation: default role is missing''))
     else
       letM (next_id ''userrole'') (\<lambda>i.
       modify (db_user_roles_update (insert_nothing user_role_key \<lparr>ur_id = i, ur_user_id = user_id, ur_role_id = the rid\<rparr>)))))"

record signup =
  su_email :: string
  su_password :: string
  su_name :: "string option"

text \<open>The payload is returned as it came: the normalised address is only logged.\<close>

definition signup_validation :: "crypto \<Rightarrow> signup \<Rightarrow> signup handler" where
  "signup_validation cr payload = (case normalize_email_address cr (su_email payload) of
     Inl ValueError \<Rightarrow> raiseM (HTTPException 400 (Text ''Invalid email''))
   | Inl e \<Rightarrow> raiseM e
   | Inr email \<Rightarrow>
       (case validate_password (su_password payload) 8 of (ok, detail) \<Rightarrow>
          if \<not> ok then raiseM (HTTPException 400 (Text detail)) else retM payload))"

definition create_signup :: "crypto \<Rightarrow> auth_config \<Rightarrow> signup \<Rightarrow> (nat \<times> nat) handler" where
  "create_signup cr cfg payload =
     letM (create_n_get_user (Some (su_email payload)) (su_name payload)) (\<lambda>user_data.
     letM (create_credential cfg (fst user_data) (hash_password cr (su_password payload))) (\<lambda>cid.
     doM (link_user_role cfg (fst user_data))
    (doM commit
     (retM user_data))))"

definition signup_user :: "crypto \<Rightarrow> auth_config \<Rightarrow> signup \<Rightarrow> (nat \<times> nat) handler" where
  "signup_user cr cfg payload = letM (signup_validation cr payload) (create_signup cr cfg)"

section \<open>Device sessions and refresh tokens\<close>

record device_view =
  dv_id :: nat
  dv_public_id :: nat
  dv_user_id :: "nat option"
  dv_revoked_at :: "int option"
  dv_expires_at :: int

definition device_view_of :: "device_session \<Rightarrow> device_view" where
  "device_view_of s = \<lparr>dv_id = ds_id s, dv_public_id = ds_public_id s, dv_user_id = ds_user_id s,
     dv_revoked_at = ds_revoked_at s, dv_expires_at = ds_session_expires_at s\<rparr>"

definition identify_device_session :: "crypto \<Rightarrow> string \<Rightarrow> device_view option handler" where
  "identify_device_session cr device_session =
     letM (query (\<lambda>d. map device_view_of (filter (\<lambda>s. ds_session_token_hash s = hash_token cr device_session)
                                                  (db_device_sessions d)))) (\<lambda>rows.
     liftM (one_or_none rows))"

definition get_device_session_fields :: "nat \<Rightarrow> nat \<Rightarrow> device_view option handler" where
  "get_device_session_fields user_id i =
     letM (query (\<lambda>d. map device_view_of (filter (\<lambda>s. ds_id s = i \<and> ds_user_id s = Some user_id)
                                                  (db_device_sessions d)))) (\<lambda>rows.
     retM (first_row rows))"

definition link_user_device :: "nat \<Rightarrow> nat \<Rightarrow> unit handler" where
  "link_user_device i user_id =
     letM now (\<lambda>t. modify (db_device_sessions_update (upd (\<lambda>s. ds_id s = i)
       (\<lambda>s. s\<lparr>ds_user_id := Some user_id, ds_last_activity_at := Some t\<rparr>))))"

definition update_device_session_last_activity :: "nat \<Rightarrow> int \<Rightarrow> unit handler" where
  "update_device_session_last_activity i t =
     modify (db_device_sessions_update (upd (\<lambda>s. ds_id s = i) (\<lambda>s. s\<lparr>ds_last_activity_at := Some t\<rparr>)))"

text \<open>The metadata of a request: user agent and client address. \<open>ua.split(")")[0]\<close> is what comes
  before the first parenthesis.\<close>

definition save_device_state :: "crypto \<Rightarrow> auth_config \<Rightarrow> string \<Rightarrow> string option \<Rightarrow> nat option \<Rightarrow> (nat \<times> nat \<times> string) handler" where
  "save_device_state cr cfg user_agent ip user_id =
     (let ua = take 512 user_agent;
          device_name = (if ua = [] then ''unknown'' else takeWhile (\<lambda>c. c \<noteq> CHR '')'') ua) in
      letM random_token (\<lambda>session_token_plain.
      letM uuid7 (\<lambda>pid. letM now (\<lambda>t1. letM now (\<lambda>t2. letM now (\<lambda>t3.
      letM (next_id ''devicesession'') (\<lambda>i.
      letM (exec (\<lambda>d.
        let row = \<lparr>ds_id = i, ds_session_token_hash = hash_token cr session_token_plain, ds_user_id = user_id, ds_public_id = pid,
              ds_device_name = Some device_name, ds_device_type = Some ''browser'', ds_user_agent_snippet = Some ua,
              ds_ip_first_seen = ip, ds_last_seen_ip = ip, ds_last_activity_at = Some t1, ds_created_at = t2, ds_revoked_at = None,
              ds_session_expires_at = t3 + days (DEVICE_SESSION_EXPIRE_DAYS cfg)\<rparr> in
        if conflict device_session_token_key row (db_device_sessions d) \<or> conflict device_session_pid_key row (db_device_sessions d)
        then Inl IntegrityError
        else Inr ((), db_device_sessions_update (\<lambda>t. t @ [row]) d))) (\<lambda>_.
      retM (i, pid, session_token_plain)))))))))"

definition revoke :: "int \<Rightarrow> string \<Rightarrow> device_auth_token \<Rightarrow> device_auth_token" where
  "revoke t by_whom tok = tok\<lparr>dt_revoked_at := Some t, dt_revoked_by := Some by_whom\<rparr>"

definition revoke_all_tokens_per_user :: "nat \<Rightarrow> string \<Rightarrow> unit handler" where
  "revoke_all_tokens_per_user user_id revoked_by =
     letM now (\<lambda>t.
     modify (db_auth_tokens_update (upd (\<lambda>k. dt_user_id k = user_id \<and> dt_revoked_at k = None) (revoke t revoked_by))))"

definition live_for :: "nat \<Rightarrow> nat \<Rightarrow> device_auth_token \<Rightarrow> bool" where
  "live_for i user_id k \<longleftrightarrow> dt_device_session_id k = i \<and> dt_user_id k = user_id \<and> dt_revoked_at k = None"

text \<open>Revoke the live tokens of the session and user, and insert a new one.\<close>

definition save_refresh_token :: "crypto \<Rightarrow> auth_config \<Rightarrow> nat \<Rightarrow> nat \<Rightarrow> string \<Rightarrow> string handler" where
  "save_refresh_token cr cfg i user_id revoked_by =
     letM now (\<lambda>t.
     doM (modify (db_auth_tokens_update (upd (live_for i user_id) (revoke t revoked_by))))
    (letM random_token (\<lambda>refresh_plain.
     letM (next_id ''deviceauthtoken'') (\<lambda>k.
     letM (exec (\<lambda>d.
       let row = \<lparr>dt_id = k, dt_device_session_id = i, dt_user_id = user_id, dt_token_hash = hash_token cr refresh_plain,
             dt_issued_at = t, dt_expires_at = t + days (REFRESH_TOKEN_EXPIRE cfg), dt_revoked_at = None,
             dt_revoked_by = None, dt_auth_method = AM_PASSWORD\<rparr> in
       if conflict device_auth_token_key row (db_auth_tokens d) then Inl IntegrityError
       else Inr ((), db_auth_tokens_update (\<lambda>t. t @ [row]) d))) (\<lambda>_.
     retM refresh_plain)))))"

definition get_device_auth :: "string \<Rightarrow> device_auth_token option handler" where
  "get_device_auth token_hash =
     letM (query (\<lambda>d. filter (\<lambda>k. dt_token_hash k = token_hash) (db_auth_tokens d))) (\<lambda>rows.
     liftM (one_or_none rows))"

definition get_user_role_ids :: "nat \<Rightarrow> nat list handler" where
  "get_user_role_ids user_id = query (\<lambda>d. map ur_role_id (filter (\<lambda>r. ur_user_id r = user_id) (db_user_roles d)))"

record claims =
  cl_user_public_id :: nat
  cl_role_version :: int
  cl_role_ids :: "nat list"

text \<open>\<open>rows[0]\<close> comes before the test for emptiness.\<close>

definition claims_of :: "(nat \<times> int \<times> nat) list \<Rightarrow> exc + claims" where
  "claims_of rows = (case index0 rows of
     Inl e \<Rightarrow> Inl e
   | Inr (pid, version, _) \<Rightarrow>
       Inr \<lparr>cl_user_public_id = pid, cl_role_version = version, cl_role_ids = map (\<lambda>r. snd (snd r)) rows\<rparr>)"

definition fetch_user_claims :: "nat \<Rightarrow> claims handler" where
  "fetch_user_claims user_id =
     letM (query (\<lambda>d. [(u_public_id u, u_role_version u, ur_role_id r). u \<leftarrow> db_users d, u_id u = user_id,
                         r \<leftarrow> db_user_roles d, ur_user_id r = u_id u])) (\<lambda>rows.
     liftM (claims_of rows))"

definition revoke_device_and_tokens :: "nat \<Rightarrow> string \<Rightarrow> unit handler" where
  "revoke_device_and_tokens i revoked_by =
     letM now (\<lambda>t.
     doM (modify (db_auth_tokens_update (upd (\<lambda>k. dt_device_session_id k = i \<and> dt_revoked_at k = None) (revoke t revoked_by))))
    (modify (db_device_sessions_update (upd (\<lambda>s. ds_id s = i) (\<lambda>s. s\<lparr>ds_revoked_at := Some t\<rparr>)))))"

section \<open>Login\<close>

definition issue_auth_tokens :: "crypto \<Rightarrow> auth_config \<Rightarrow> string \<Rightarrow> string \<Rightarrow> string \<Rightarrow> (string \<times> string) handler" where
  "issue_auth_tokens cr cfg email password device_session =
     letM (identify_user cr email password) (\<lambda>u.
     letM (identify_device_session cr device_session) (\<lambda>found.
     case found of
       None \<Rightarrow> raiseM (unauthorized ''invalid device session'')
     | Some ds \<Rightarrow>
         if dv_revoked_at ds \<noteq> None then raiseM (unauthorized ''device session is already revoked'')
         else
           letM now (\<lambda>t.
           if dv_expires_at ds \<le> t then raiseM (unauthorized ''device session expired'')
           else
             doM (whenM (\<not> truthy_id (dv_user_id ds)) (link_user_device (dv_id ds) (u_id u)))
            (letM (save_refresh_token cr cfg (dv_id ds) (u_id u) ''new_login'') (\<lambda>refresh_token.
             doM commit
            (letM (get_user_role_ids (u_id u)) (\<lambda>user_roles.
             letM (create_access_token cr cfg (u_public_id u) user_roles (u_role_version u) (dv_public_id ds)) (\<lambda>access_token.
             retM (access_token, refresh_token)))))))))"

text \<open>The route, retried through the circuit breaker.\<close>

definition login_body :: "crypto \<Rightarrow> auth_config \<Rightarrow> string \<Rightarrow> string \<Rightarrow> string option \<Rightarrow> (string \<times> string) handler" where
  "login_body cr cfg email password device_session_token = (case device_session_token of
     None \<Rightarrow> raiseM (HTTPException 400 (Text ''Device session token is required for login''))
   | Some tok \<Rightarrow>
       if tok = [] then raiseM (HTTPException 400 (Text ''Device session token is required for login''))
       else issue_auth_tokens cr cfg email password tok)"

definition login_user :: "crypto \<Rightarrow> auth_config \<Rightarrow> string \<Rightarrow> string \<Rightarrow> string option \<Rightarrow> breaker \<Rightarrow>
    ((exc + (string \<times> string)) \<times> breaker) handler" where
  "login_user cr cfg email password device_session_token cb =
     retry_with_db_circuit 3 (login_body cr cfg email password device_session_token) cb"

section \<open>Refresh and logout\<close>

definition validate_refresh_and_fetch_user :: "crypto \<Rightarrow> string \<Rightarrow> claims handler" where
  "validate_refresh_and_fetch_user cr plain_token =
     letM now (\<lambda>t.
     letM (query (\<lambda>d. [(u_public_id u, u_role_version u, ur_role_id r).
        k \<leftarrow> db_auth_tokens d, dt_token_hash k = hash_token cr plain_token \<and> dt_revoked_at k = None \<and> t < dt_expires_at k,
        u \<leftarrow> db_users d, u_id u = dt_user_id k, r \<leftarrow> db_user_roles d, ur_user_id r = u_id u])) (\<lambda>rows.
     if rows = [] then raiseM (unauthorized ''Invalid or expired refresh token'')
     else liftM (claims_of rows)))"

definition forbidden :: "string \<Rightarrow> exc" where
  "forbidden msg = HTTPException 403 (Text msg)"

text \<open>The token row is read a second time under a lock; the values are those of the first read, since
  the session hands out the same object.\<close>

definition rotate :: "crypto \<Rightarrow> auth_config \<Rightarrow> int \<Rightarrow> device_auth_token \<Rightarrow> device_view \<Rightarrow> ((claims \<times> nat) \<times> string) handler" where
  "rotate cr cfg t k ds =
     (if t + seconds 40 \<ge> dt_expires_at k then raiseM (unauthorized ''Refresh token expired'')
      else
        letM (save_refresh_token cr cfg (dv_id ds) (dt_user_id k) ''rotation'') (\<lambda>refresh_plain.
        doM (update_device_session_last_activity (dv_id ds) t)
       (doM commit
       (letM (fetch_user_claims (dt_user_id k)) (\<lambda>user_claims.
        retM ((user_claims, dv_public_id ds), refresh_plain))))))"

definition validate_refresh_and_update_refresh :: "crypto \<Rightarrow> auth_config \<Rightarrow> string \<Rightarrow> ((claims \<times> nat) \<times> string) handler" where
  "validate_refresh_and_update_refresh cr cfg plain_token =
     letM now (\<lambda>t.
     letM (get_device_auth (hash_token cr plain_token)) (\<lambda>device_auth.
     case device_auth of
       None \<Rightarrow> raiseM (forbidden ''Invalid refresh token '')
     | Some k \<Rightarrow>
         if dt_expires_at k \<le> t + minutes 1 then raiseM (forbidden ''Refresh token expired'')
         else if dt_revoked_at k \<noteq> None then raiseM (forbidden ''Refresh token revoked'')
         else
           letM (get_device_session_fields (dt_user_id k) (dt_device_session_id k)) (\<lambda>ds_row.
           case ds_row of
             None \<Rightarrow> raiseM (unauthorized ''Device session unauthorized or invalid'')
           | Some ds \<Rightarrow>
               if dv_revoked_at ds \<noteq> None then raiseM (unauthorized ''Device session revoked'')
               else if t \<ge> dv_expires_at ds then raiseM (unauthorized ''Session absolute expiry reached'')
               else
                 letM (get_device_auth (hash_token cr plain_token)) (\<lambda>locked.
                 case locked of
                   None \<Rightarrow> raiseM (forbidden ''Invalid refresh token '')
                 | Some lk \<Rightarrow>
                     if dt_revoked_at lk \<noteq> None \<and>
                        dt_revoked_by lk \<notin> {None, Some ''rotation'', Some ''rotated'', Some ''rotated_by_device''}
                     then doM (revoke_device_and_tokens (dt_device_session_id k) ''reuse_detetction'')
                            (raiseM (forbidden ''Refresh token reuse detected; session revoked''))
                     else rotate cr cfg t lk ds))))"

definition provide_access_token :: "crypto \<Rightarrow> auth_config \<Rightarrow> claims \<times> nat \<Rightarrow> string handler" where
  "provide_access_token cr cfg c =
     create_access_token cr cfg (cl_user_public_id (fst c)) (cl_role_ids (fst c)) (cl_role_version (fst c)) (snd c)"

definition refresh_auth :: "crypto \<Rightarrow> auth_config \<Rightarrow> string option \<Rightarrow> (string \<times> string) handler" where
  "refresh_auth cr cfg refresh_token = (case refresh_token of
     None \<Rightarrow> raiseM (unauthorized ''Missing refresh token'')
   | Some tok \<Rightarrow>
       if tok = [] then raiseM (unauthorized ''Missing refresh token'')
       else
         letM (validate_refresh_and_update_refresh cr cfg tok) (\<lambda>(c, refresh_plain).
         letM (provide_access_token cr cfg c) (\<lambda>access.
         retM (access, refresh_plain))))"

text \<open>Logging out: \<open>revoke_device_nget_id\<close> is called without \<open>await\<close>, so nothing of it runs and the
  coroutine itself is passed on as the session id, which the driver refuses.\<close>

datatype device_ref = SessionId nat | Coroutine

definition revoke_device_ref_tokens :: "device_ref \<Rightarrow> unit handler" where
  "revoke_device_ref_tokens r =
     letM now (\<lambda>t.
     exec (\<lambda>d. case r of
       Coroutine \<Rightarrow> Inl (DBAPIError False ''DataError'')
     | SessionId i \<Rightarrow> Inr ((), db_auth_tokens_update (upd (\<lambda>k. dt_device_session_id k = i) (revoke t ''logout'')) d)))"

definition logout_device_session :: "nat option \<Rightarrow> unit handler" where
  "logout_device_session device_public_id =
     letM now (\<lambda>t.
     let i = Coroutine in
     doM (revoke_device_ref_tokens i) commit)"


section \<open>At most one live refresh token\<close>

text \<open>The requests that touch tokens, as one machine on the committed database.\<close>

datatype auth_request =
    Signup signup
  | Login string string "string option"
  | Refresh "string option"
  | Logout "nat option"

fun auth_step :: "crypto \<Rightarrow> auth_config \<Rightarrow> auth_request \<Rightarrow> state \<Rightarrow> state" where
  "auth_step cr cfg (Signup p) = serve (signup_user cr cfg p)"
| "auth_step cr cfg (Login email password tok) = serve (login_body cr cfg email password tok)"
| "auth_step cr cfg (Refresh tok) = serve (refresh_auth cr cfg tok)"
| "auth_step cr cfg (Logout d) = serve (logout_device_session d)"

definition live_key :: "device_auth_token \<Rightarrow> (nat \<times> nat) option" where
  "live_key k = (if dt_revoked_at k = None then Some (dt_device_session_id k, dt_user_id k) else None)"

definition one_live :: "database \<Rightarrow> bool" where
  "one_live d \<longleftrightarrow> unique_on live_key (db_auth_tokens d)"

lemma one_live_drop:
  "one_live d \<Longrightarrow> one_live (db_auth_tokens_update (upd p (revoke t by_whom)) d)"
  by (auto simp: one_live_def live_key_def revoke_def intro!: unique_on_upd_drop)

lemma live_key_revoked: "live_key k = Some (i, u) \<longleftrightarrow> live_for i u k"
  by (auto simp: live_key_def live_for_def)

lemma none_live:
  "\<not> live_for i u k'" if "k' \<in> set (upd (live_for i u) (revoke t by_whom) ks)"
proof -
  have "dt_revoked_at (revoke t by_whom r) \<noteq> None" for r by (simp add: revoke_def)
  with that show ?thesis unfolding set_upd by (metis (no_types, lifting) UnE image_iff live_for_def mem_Collect_eq)
qed

lemma one_live_insert:
  assumes "one_live d" and "\<And>k'. k' \<in> set (db_auth_tokens d) \<Longrightarrow> \<not> live_for i u k'"
    and "dt_device_session_id k = i" and "dt_user_id k = u"
  shows "one_live (db_auth_tokens_update (\<lambda>t. t @ [k]) d)"
proof -
  have "\<not> conflict live_key k (db_auth_tokens d)"
  proof
    assume "conflict live_key k (db_auth_tokens d)"
    then obtain x y where "live_key k = Some x" "y \<in> set (db_auth_tokens d)" "live_key y = Some x"
      unfolding conflict_iff by blast
    then show False using assms(2) [of y] assms(3,4) by (auto simp: live_key_def live_for_def split: if_splits)
  qed
  then show ?thesis using assms(1) by (simp add: one_live_def unique_on_snoc)
qed

lemma keeps_save_refresh_token [keeps_intros]: "keeps one_live (save_refresh_token cr cfg i u by_whom)"
  unfolding keeps_def
proof (intro allI impI)
  fix w :: state assume w: "one_live (db w)" "one_live (committed w)"
  have *: "one_live (db_auth_tokens_update (\<lambda>t. t @ [k]) (db_auth_tokens_update (upd (live_for i u) (revoke t by_whom)) (db w)))"
    if "dt_device_session_id k = i" and "dt_user_id k = u" for k t
    by (rule one_live_insert [where i = i and u = u]) (use w none_live that in \<open>auto intro: one_live_drop\<close>)
  have "wp (save_refresh_token cr cfg i u by_whom) (\<lambda>_ v. one_live (db v) \<and> one_live (committed v))
      (\<lambda>_ v. one_live (db v) \<and> one_live (committed v)) w"
    using w * by (simp add: save_refresh_token_def wp_simps wp_modify wp_exec one_live_drop Let_def split: option.split)
  then show "one_live (db (snd (save_refresh_token cr cfg i u by_whom w))) \<and>
      one_live (committed (snd (save_refresh_token cr cfg i u by_whom w)))"
    unfolding wp_state .
qed

lemma keeps_one_live_modify:
  "(\<And>d. db_auth_tokens (f d) = db_auth_tokens d) \<Longrightarrow> keeps one_live (modify f)"
  by (rule keeps_modify) (simp add: one_live_def)

lemma keeps_one_live_exec:
  "(\<And>d x d'. f d = Inr (x, d') \<Longrightarrow> db_auth_tokens d' = db_auth_tokens d) \<Longrightarrow> keeps one_live (exec f)"
  by (rule keeps_exec) (metis one_live_def)

lemma keeps_one_live_revoke: "keeps one_live (modify (db_auth_tokens_update (upd p (revoke t by_whom))))"
  by (rule keeps_modify) (rule one_live_drop)

lemma keeps_create_access_token [keeps_intros]: "keeps J (create_access_token cr cfg i rs v s)"
  unfolding create_access_token_def by (intro keeps_intros)

lemma keeps_identify_user [keeps_intros]: "keeps J (identify_user cr email password)"
  unfolding identify_user_def user_by_email_def by (intro keeps_intros)

lemma keeps_login_body: "keeps one_live (login_body cr cfg email password tok)"
  unfolding login_body_def issue_auth_tokens_def identify_device_session_def link_user_device_def get_user_role_ids_def
  by (intro keeps_intros keeps_one_live_modify) simp_all

lemma keeps_revoke_device_and_tokens: "keeps one_live (revoke_device_and_tokens i by_whom)"
  unfolding revoke_device_and_tokens_def
  by (intro keeps_intros keeps_one_live_revoke keeps_one_live_modify) simp

lemma keeps_refresh_auth: "keeps one_live (refresh_auth cr cfg tok)"
  unfolding refresh_auth_def validate_refresh_and_update_refresh_def rotate_def get_device_auth_def
    get_device_session_fields_def update_device_session_last_activity_def fetch_user_claims_def provide_access_token_def
  by (intro keeps_intros keeps_one_live_modify keeps_revoke_device_and_tokens) simp_all

lemma keeps_signup_user: "keeps one_live (signup_user cr cfg p)"
proof -
  have "keeps one_live (create_signup cr cfg p)" for p
    unfolding create_signup_def create_n_get_user_def create_credential_def link_user_role_def Let_def
    by (intro keeps_intros keeps_one_live_exec keeps_one_live_modify | force)+
  moreover have "keeps one_live (signup_validation cr p)"
    unfolding signup_validation_def
    by (auto intro: keeps_intros split: sum.split exc.split prod.split)
  ultimately show ?thesis unfolding signup_user_def by (intro keeps_intros)
qed

lemma keeps_logout: "keeps one_live (logout_device_session d)"
  unfolding logout_device_session_def revoke_device_ref_tokens_def Let_def
  by (intro keeps_intros keeps_one_live_exec) (simp split: device_ref.splits)

interpretation tokens_machine: guarded_machine "auth_step cr cfg" "\<lambda>w. one_live (committed w)" for cr cfg
proof
  show "one_live (committed w) \<Longrightarrow> one_live (committed (auth_step cr cfg r w))" for r w
    by (cases r) (simp_all add: serve_keeps keeps_signup_user keeps_login_body keeps_refresh_auth keeps_logout)
qed

text \<open>C22: Whatever sequence of sign-ups, logins, refreshes and logouts is served, and whatever statement
  of them fails, a device session never has two live refresh tokens of the same user.\<close>

theorem one_live_token:
  assumes "one_live (committed w)"
  shows "one_live (committed (fold (auth_step cr cfg) reqs w))"
  using assms by (rule tokens_machine.run_inv)

section \<open>Rotation\<close>

definition fresh_token :: "crypto \<Rightarrow> auth_config \<Rightarrow> nat \<Rightarrow> int \<Rightarrow> nat \<Rightarrow> nat \<Rightarrow> string \<Rightarrow> device_auth_token" where
  "fresh_token cr cfg n t i u plain = \<lparr>dt_id = n, dt_device_session_id = i, dt_user_id = u,
     dt_token_hash = hash_token cr plain, dt_issued_at = t, dt_expires_at = t + days (REFRESH_TOKEN_EXPIRE cfg),
     dt_revoked_at = None, dt_revoked_by = None, dt_auth_method = AM_PASSWORD\<rparr>"

definition rotated :: "crypto \<Rightarrow> auth_config \<Rightarrow> string \<Rightarrow> string \<Rightarrow> device_auth_token list \<Rightarrow> device_auth_token list \<Rightarrow> bool" where
  "rotated cr cfg old plain ks ks' \<longleftrightarrow> (\<exists>k t n. filter (\<lambda>k. dt_token_hash k = hash_token cr old) ks = [k] \<and>
     dt_revoked_at k = None \<and> hash_token cr plain \<notin> dt_token_hash ` set ks \<and>
     ks' = upd (live_for (dt_device_session_id k) (dt_user_id k)) (revoke t ''rotation'') ks @
             [fresh_token cr cfg n t (dt_device_session_id k) (dt_user_id k) plain])"

lemma hash_revoke [simp]: "dt_token_hash (revoke t b k) = dt_token_hash k"
  by (simp add: revoke_def)

lemma upd_no_hash:
  "(\<forall>k \<in> set (upd p (revoke t b) ks). dt_token_hash k \<noteq> h) \<longleftrightarrow> h \<notin> dt_token_hash ` set ks"
  by (induction ks) auto

lemma returns_save_refresh_token:
  assumes "\<And>plain v n t. committed v = committed w \<Longrightarrow> hash_token cr plain \<notin> dt_token_hash ` set (db_auth_tokens (db w)) \<Longrightarrow>
     db_auth_tokens (db v) = upd (live_for i u) (revoke t b) (db_auth_tokens (db w)) @ [fresh_token cr cfg n t i u plain] \<Longrightarrow> Q plain v"
  shows "returns (save_refresh_token cr cfg i u b) Q w"
proof -
  have "\<not> conflict device_auth_token_key r ks \<longleftrightarrow> (\<forall>k \<in> set ks. dt_token_hash k \<noteq> dt_token_hash r)" for r ks
    by (auto simp: conflict_iff device_auth_token_key_def)
  then show ?thesis
    by (auto simp: save_refresh_token_def returns_simps Let_def upd_no_hash intro!: assms split: if_splits)
      (auto simp: fresh_token_def)
qed

lemma returns_fetch_user_claims:
  "(\<And>c v. committed v = committed w \<Longrightarrow> Q c v) \<Longrightarrow> returns (fetch_user_claims u) Q w"
  by (auto simp: fetch_user_claims_def returns_simps)

lemma returns_create_access_token:
  "(\<And>x v. committed v = committed w \<Longrightarrow> Q x v) \<Longrightarrow> returns (create_access_token cr cfg a b c d) Q w"
  by (auto simp: create_access_token_def returns_simps)

lemma rotatedI:
  assumes "filter (\<lambda>k. dt_token_hash k = hash_token cr old) ks = [k]" and "dt_revoked_at k = None"
    and "hash_token cr plain \<notin> dt_token_hash ` set ks"
    and "ks' = upd (live_for (dt_device_session_id k) (dt_user_id k)) (revoke t ''rotation'') ks @
          [fresh_token cr cfg n t (dt_device_session_id k) (dt_user_id k) plain]"
  shows "rotated cr cfg old plain ks ks'"
  using assms unfolding rotated_def by blast

lemma returns_rotate:
  assumes "dt_revoked_at k = None" and "filter (\<lambda>k. dt_token_hash k = hash_token cr old) ks = [k]"
    and "ks = db_auth_tokens (db w)" and "dv_id ds = dt_device_session_id k"
  shows "returns (rotate cr cfg t k ds) (\<lambda>r v. rotated cr cfg old (snd r) ks (db_auth_tokens (committed v))) w"
  unfolding rotate_def
  by (auto simp: returns_simps update_device_session_last_activity_def assms
      intro!: returns_save_refresh_token returns_fetch_user_claims rotatedI [OF assms(2,1), unfolded assms(3)])

lemma first_row_mem: "first_row xs = Some x \<Longrightarrow> x \<in> set xs"
  by (cases xs) auto

lemma returns_validate_refresh:
  "returns (validate_refresh_and_update_refresh cr cfg old)
     (\<lambda>r v. rotated cr cfg old (snd r) (db_auth_tokens (db w)) (db_auth_tokens (committed v))) w"
  by (auto simp: validate_refresh_and_update_refresh_def get_device_auth_def get_device_session_fields_def returns_simps
      one_or_none_Some device_view_of_def revoke_device_and_tokens_def split: option.split
      intro!: returns_rotate dest!: first_row_mem)

lemma revoked_token_refused:
  assumes "filter (\<lambda>k. dt_token_hash k = hash_token cr tok) (db_auth_tokens (committed v)) = [k]" and "dt_revoked_at k \<noteq> None"
  shows "\<exists>e. fst (with_session (refresh_auth cr cfg (Some tok)) v) = Inl e \<and> committed (serve (refresh_auth cr cfg (Some tok)) v) = committed v \<and>
     (quiet v \<longrightarrow> (\<exists>msg. e = HTTPException (if tok = [] then 401 else 403) (Text msg)))"
proof -
  have "wp (with_session (refresh_auth cr cfg (Some tok))) (\<lambda>_ _. False) (\<lambda>e u. committed u = committed v \<and>
     (quiet v \<longrightarrow> (\<exists>msg. e = HTTPException (if tok = [] then 401 else 403) (Text msg)))) v"
    using assms by (auto simp: refresh_auth_def validate_refresh_and_update_refresh_def get_device_auth_def wp_simps query_def wp_exec
        unauthorized_def forbidden_def quiet_def split: option.split)
  then show ?thesis by (auto simp: wp_def serve_def split: prod.splits sum.splits)
qed

lemma rotated_old:
  assumes "rotated cr cfg old plain ks ks'"
  shows "\<exists>k. filter (\<lambda>k. dt_token_hash k = hash_token cr old) ks' = [k] \<and> dt_revoked_at k \<noteq> None"
proof -
  from assms obtain k t n where k: "filter (\<lambda>k. dt_token_hash k = hash_token cr old) ks = [k]" "dt_revoked_at k = None"
    "hash_token cr plain \<notin> dt_token_hash ` set ks"
    and ks': "ks' = upd (live_for (dt_device_session_id k) (dt_user_id k)) (revoke t ''rotation'') ks @
      [fresh_token cr cfg n t (dt_device_session_id k) (dt_user_id k) plain]"
    unfolding rotated_def by blast
  have "k \<in> set ks" "dt_token_hash k = hash_token cr old"
    using filter_eq_ConsD [OF k(1)] by auto
  then have "hash_token cr plain \<noteq> hash_token cr old" using k(3) by (metis imageI)
  moreover have "live_for (dt_device_session_id k) (dt_user_id k) k" using k(2) by (simp add: live_for_def)
  ultimately show ?thesis
    using k(1) by (simp add: ks' filter_upd_same fresh_token_def) (simp add: revoke_def)
qed

text \<open>C23: A refresh that answers has rotated: the token it was given was the live one stored under its
  hash, every live token of that session and user is now revoked, and exactly one new token was
  added, under the hash of the one returned, valid for the configured time. The old token is worth
  nothing from then on: as long as the database stays as it is, replaying it is refused (403, or a
  server error when a statement fails) and changes nothing.\<close>

theorem refresh_rotates:
  assumes "with_session (refresh_auth cr cfg (Some tok)) w = (Inr (access, plain), w')"
  shows "rotated cr cfg tok plain (db_auth_tokens (committed w)) (db_auth_tokens (committed w')) \<and>
    (\<forall>v. committed v = committed w' \<longrightarrow>
      (\<exists>e. fst (with_session (refresh_auth cr cfg (Some tok)) v) = Inl e \<and>
           committed (serve (refresh_auth cr cfg (Some tok)) v) = committed v \<and>
           (quiet v \<longrightarrow> (\<exists>msg. e = HTTPException 403 (Text msg)))))"
proof -
  have "returns (with_session (refresh_auth cr cfg (Some tok)))
      (\<lambda>r u. tok \<noteq> [] \<and> rotated cr cfg tok (snd r) (db_auth_tokens (committed w)) (db_auth_tokens (committed u))) w"
    by (auto simp: refresh_auth_def returns_simps provide_access_token_def
        intro!: returns_validate_refresh [THEN returns_mono] returns_create_access_token)
  then have r: "tok \<noteq> []" "rotated cr cfg tok plain (db_auth_tokens (committed w)) (db_auth_tokens (committed w'))"
    using assms by (auto dest: returnsD)
  have "\<exists>e. fst (with_session (refresh_auth cr cfg (Some tok)) v) = Inl e \<and> committed (serve (refresh_auth cr cfg (Some tok)) v) = committed v \<and>
        (quiet v \<longrightarrow> (\<exists>msg. e = HTTPException 403 (Text msg)))" if "committed v = committed w'" for v
    using rotated_old [OF r(2)] revoked_token_refused [of cr tok v _ cfg] r(1) by (auto simp: that)
  with r(2) show ?thesis by blast
qed

section \<open>Logging out\<close>

text \<open>Logging out never revokes anything: the helper that would look up and revoke the device session
  is a coroutine that nobody awaits, so the request always raises and commits nothing; a refresh
  token that was live stays live.\<close>

theorem logout_revokes_nothing:
  "\<exists>e. fst (with_session (logout_device_session d) w) = Inl e \<and> committed (serve (logout_device_session d) w) = committed w \<and>
     (quiet w \<longrightarrow> e = DBAPIError False ''DataError'')"
proof -
  have "wp (with_session (logout_device_session d)) (\<lambda>_ _. False) (\<lambda>e v. committed v = committed w \<and>
      (quiet w \<longrightarrow> e = DBAPIError False ''DataError'')) w"
    by (auto simp: logout_device_session_def revoke_device_ref_tokens_def wp_simps wp_exec quiet_def split: option.split)
  then show ?thesis by (auto simp: wp_def serve_def split: prod.splits sum.splits)
qed

section \<open>Accounts that cannot log in\<close>

text \<open>An account signed up under an address that is not already lower case without surrounding
  blanks is created but locked out: the address is stored as typed, while login looks the lower-case
  address up. Every login with any spelling that lowers to it raises and changes nothing (401, unless
  a statement fails), as long as nobody else owns the lower-case address.\<close>

theorem mixed_case_signup_locked_out:
  assumes "with_session (signup_user cr cfg p) w = (Inr r, w')"
    and "lower (strip (su_email p)) \<noteq> su_email p"
    and "\<And>u. u \<in> set (db_users (committed w)) \<Longrightarrow> u_email u \<noteq> Some (lower (strip (su_email p)))"
    and "committed v = committed w'" and "lower (strip email) = lower (strip (su_email p))"
  shows "(\<exists>u \<in> set (db_users (committed v)). u_email u = Some (su_email p)) \<and>
    (\<exists>e. fst (with_session (issue_auth_tokens cr cfg email password dev) v) = Inl e \<and>
         committed (serve (issue_auth_tokens cr cfg email password dev) v) = committed v \<and>
         (quiet v \<longrightarrow> e = HTTPException 401 (Text ''Email provided is not valid'')))"
proof -
  have new: "returns (create_n_get_user (Some e) nm)
      (\<lambda>r v. committed v = committed u \<and> (\<exists>x. u_email x = Some e \<and> db_users (db v) = db_users (db u) @ [x])) u" for e nm u
    by (auto simp: create_n_get_user_def returns_simps user_email_key_def insert_nothing_def Let_def split: option.split if_splits)
  have cred: "returns (create_credential cfg i h) (\<lambda>_ v. db_users (db v) = db_users (db u)) u" for i h u
    by (auto simp: create_credential_def returns_simps Let_def split: if_splits)
  have link: "returns (link_user_role cfg i) (\<lambda>_ v. db_users (db v) = db_users (db u)) u" for i u
    by (auto simp: link_user_role_def returns_simps Let_def)
  have val: "returns (signup_validation cr p) (\<lambda>q v. q = p \<and> v = u) u" for u
    by (auto simp: signup_validation_def returns_simps split: sum.split exc.split prod.split)
  have "returns (with_session (signup_user cr cfg p)) (\<lambda>_ v. \<exists>x. u_email x = Some (su_email p) \<and> db_users (committed v) = db_users (committed w) @ [x]) w"
    unfolding signup_user_def create_signup_def returns_simps
    by (rule returns_mono [OF val], elim conjE, hypsubst, rule returns_mono [OF new], elim exE conjE,
        rule returns_mono [OF cred], rule returns_mono [OF link]) (auto simp: returns_simps)
  then obtain x where x: "u_email x = Some (su_email p)" "db_users (committed w') = db_users (committed w) @ [x]"
    using assms(1) by (auto dest: returnsD)
  have "filter (\<lambda>u. u_email u = Some (lower (strip (su_email p))) \<and> u_deleted_at u = None) (db_users (committed v)) = []"
    using x assms(2-4) by (auto simp: filter_empty_conv)
  then have "wp (with_session (issue_auth_tokens cr cfg email password dev)) (\<lambda>_ _. False) (\<lambda>e u. committed u = committed v \<and>
      (quiet v \<longrightarrow> e = HTTPException 401 (Text ''Email provided is not valid''))) v"
    using assms(5) by (auto simp: issue_auth_tokens_def identify_user_def user_by_email_def wp_simps query_def wp_exec
        unauthorized_def quiet_def split: option.split)
  then have "\<exists>e. fst (with_session (issue_auth_tokens cr cfg email password dev) v) = Inl e \<and>
         committed (serve (issue_auth_tokens cr cfg email password dev) v) = committed v \<and>
         (quiet v \<longrightarrow> e = HTTPException 401 (Text ''Email provided is not valid''))"
    by (auto simp: wp_def serve_def split: prod.splits sum.splits)
  with x assms(4) show ?thesis by auto
qed

section \<open>Instances\<close>

definition sample_crypto :: crypto where
  "sample_crypto = \<lparr>hash_token = id, hash_password = id, verify_password = (=), jwt_encode = (\<lambda>_. ''jwt''),
     normalize_email_address = (\<lambda>e. Inr (lower e))\<rparr>"

definition sample_auth_config :: auth_config where
  "sample_auth_config = \<lparr>DEFAULT_ROLE = ''user'', SELF_PROVIDER = ''self'', ACCESS_TOKEN_EXPIRE_MINUTES = 15,
     REFRESH_TOKEN_EXPIRE = 30, DEVICE_SESSION_EXPIRE_DAYS = 90\<rparr>"

definition sample_token :: device_auth_token where
  "sample_token = \<lparr>dt_id = 7, dt_device_session_id = 3, dt_user_id = 2, dt_token_hash = ''old'', dt_issued_at = 0,
     dt_expires_at = days 30, dt_revoked_at = None, dt_revoked_by = None, dt_auth_method = AM_PASSWORD\<rparr>"

definition sample_accounts :: database where
  "sample_accounts = empty_db\<lparr>
     db_users := [\<lparr>u_id = 2, u_public_id = 20, u_email = Some ''a@b.c'', u_name = None, u_role_version = 0,
        u_created_at = 0, u_updated_at = 0, u_deleted_at = None\<rparr>],
     db_roles := [\<lparr>role_id = 5, role_name = ''user''\<rparr>],
     db_user_roles := [\<lparr>ur_id = 4, ur_user_id = 2, ur_role_id = 5\<rparr>],
     db_device_sessions := [\<lparr>ds_id = 3, ds_session_token_hash = ''dev'', ds_user_id = Some 2, ds_public_id = 30,
        ds_device_name = None, ds_device_type = None, ds_user_agent_snippet = None, ds_ip_first_seen = None,
        ds_last_seen_ip = None, ds_last_activity_at = None, ds_created_at = 0, ds_revoked_at = None,
        ds_session_expires_at = days 90\<rparr>],
     db_auth_tokens := [sample_token]\<rparr>"

lemma one_live_token_witness:
  "one_live sample_accounts \<and>
   one_live (committed (fold (auth_step sample_crypto sample_auth_config)
     [Refresh (Some ''old''), Login ''a@b.c'' ''pw'' (Some ''dev''), Logout None] (start 0 sample_accounts)))"
proof -
  have "one_live sample_accounts"
    by (simp add: one_live_def sample_accounts_def unique_on_def live_key_def)
  then show ?thesis
    using one_live_token [of "start 0 sample_accounts" sample_crypto sample_auth_config
        "[Refresh (Some ''old''), Login ''a@b.c'' ''pw'' (Some ''dev''), Logout None]"]
    by simp
qed

lemma sample_refresh:
  "\<exists>access plain w'. with_session (refresh_auth sample_crypto sample_auth_config (Some ''old'')) (start 0 sample_accounts) =
     (Inr (access, plain), w')"
proof -
  have "wp (with_session (refresh_auth sample_crypto sample_auth_config (Some ''old''))) (\<lambda>_ _. True) (\<lambda>_ _. False) (start 0 sample_accounts)"
    by (simp add: refresh_auth_def validate_refresh_and_update_refresh_def get_device_auth_def get_device_session_fields_def
        rotate_def save_refresh_token_def update_device_session_last_activity_def fetch_user_claims_def provide_access_token_def
        create_access_token_def claims_of_def device_view_of_def wp_simps sample_crypto_def sample_auth_config_def
        sample_accounts_def sample_token_def minutes_def days_def seconds_def conflict_def device_auth_token_key_def
        live_for_def revoke_def quiet_reset Let_def)
  then show ?thesis by (auto simp: wp_def split: prod.splits sum.splits)
qed

lemma refresh_rotates_witness:
  "\<exists>access plain w'. with_session (refresh_auth sample_crypto sample_auth_config (Some ''old'')) (start 0 sample_accounts) =
       (Inr (access, plain), w') \<and>
     rotated sample_crypto sample_auth_config ''old'' plain [sample_token] (db_auth_tokens (committed w')) \<and>
     (\<exists>e. fst (with_session (refresh_auth sample_crypto sample_auth_config (Some ''old'')) w') = Inl e)"
proof -
  obtain access plain w' where run: "with_session (refresh_auth sample_crypto sample_auth_config (Some ''old'')) (start 0 sample_accounts) =
      (Inr (access, plain), w')"
    using sample_refresh by blast
  from refresh_rotates [OF run] run show ?thesis by (fastforce simp: sample_accounts_def)
qed

definition sample_signup :: signup where
  "sample_signup = \<lparr>su_email = ''Ann@b.c'', su_password = ''Passw0rd!'', su_name = None\<rparr>"

lemma sample_signup_works:
  "\<exists>r w'. with_session (signup_user sample_crypto sample_auth_config sample_signup) (start 0 sample_accounts) = (Inr r, w')"
proof -
  have "validate_password ''Passw0rd!'' 8 = (True, ''OK'')"
    by code_simp
  then have "wp (with_session (signup_user sample_crypto sample_auth_config sample_signup)) (\<lambda>_ _. True) (\<lambda>_ _. False) (start 0 sample_accounts)"
    by (simp add: signup_user_def signup_validation_def create_signup_def create_n_get_user_def create_credential_def link_user_role_def
        wp_simps sample_crypto_def sample_auth_config_def sample_accounts_def sample_signup_def empty_db_def conflict_def
        user_email_key_def credential_user_provider_key_def insert_nothing_def quiet_reset Let_def)
  then show ?thesis by (auto simp: wp_def split: prod.splits sum.splits)
qed

lemma mixed_case_signup_locked_out_witness:
  "\<exists>r w'. with_session (signup_user sample_crypto sample_auth_config sample_signup) (start 0 sample_accounts) = (Inr r, w') \<and>
     (\<exists>u \<in> set (db_users (committed w')). u_email u = Some ''Ann@b.c'') \<and>
     (\<exists>e. fst (with_session (issue_auth_tokens sample_crypto sample_auth_config ''Ann@b.c'' ''Passw0rd!'' ''dev'') w') = Inl e)"
proof -
  obtain r w' where run: "with_session (signup_user sample_crypto sample_auth_config sample_signup) (start 0 sample_accounts) = (Inr r, w')"
    using sample_signup_works by blast
  have low: "lower (strip ''Ann@b.c'') = ''ann@b.c''" by code_simp
  show ?thesis
    using run mixed_case_signup_locked_out [OF run, of w' "''Ann@b.c''" "''Passw0rd!''" "''dev''"]
    by (auto simp: low sample_signup_def sample_accounts_def)
qed

lemma logout_revokes_nothing_witness:
  "fst (with_session (logout_device_session (Some 30)) (start 0 sample_accounts)) = Inl (DBAPIError False ''DataError'') \<and>
   committed (serve (logout_device_session (Some 30)) (start 0 sample_accounts)) = sample_accounts"
  using logout_revokes_nothing [of "Some 30" "start 0 sample_accounts"] by auto

end
