(* ===== verification/Cursor.thy ===== *)
theory Cursor
  imports Auth
begin

text \<open>
  Signed page cursors, \<open>backend/products/utils.py\<close>: the URL-safe base64 of the standard library
  (the encoder, and the decoder as the scanner it is: characters outside the alphabet are skipped,
  a short final group is an error), the token format \<open>payload.signature\<close> and its checks. The JSON
  printer and parser and HMAC-SHA256 under the cursor secret are fields of the record \<open>codec\<close>.
  Bytes are 8-bit characters.
\<close>

section \<open>URL-safe base64\<close>

definition b64_char :: "nat \<Rightarrow> char" where
  "b64_char n = (if n < 26 then char_of (65 + n) else if n < 52 then char_of (71 + n)
     else if n < 62 then char_of (n - 4) else if n = 62 then CHR ''-'' else CHR ''_'')"

definition b64_val :: "char \<Rightarrow> nat option" where
  "b64_val c = (let n = of_char c in
     if 65 \<le> n \<and> n \<le> 90 then Some (n - 65) else if 97 \<le> n \<and> n \<le> 122 then Some (n - 71)
     else if 48 \<le> n \<and> n \<le> 57 then Some (n + 4)
     else if c = CHR ''-'' \<or> c = CHR ''+'' then Some 62
     else if c = CHR ''_'' \<or> c = CHR ''/'' then Some 63 else None)"

fun urlsafe_b64encode :: "string \<Rightarrow> string" where
  "urlsafe_b64encode [] = []"
| "urlsafe_b64encode [a] =
     [b64_char (of_char a div 4), b64_char (of_char a mod 4 * 16), CHR ''='', CHR ''='']"
| "urlsafe_b64encode [a, b] =
     [b64_char (of_char a div 4), b64_char (of_char a mod 4 * 16 + of_char b div 16),
      b64_char (of_char b mod 16 * 4), CHR ''='']"
| "urlsafe_b64encode (a # b # c # bs) =
     b64_char (of_char a div 4) # b64_char (of_char a mod 4 * 16 + of_char b div 16) #
     b64_char (of_char b mod 16 * 4 + of_char c div 64) # b64_char (of_char c mod 64) # urlsafe_b64encode bs"

text \<open>The scanner: position in the group of four, bits left over, padding seen so far.\<close>

fun b64_scan :: "nat \<Rightarrow> nat \<Rightarrow> nat \<Rightarrow> string \<Rightarrow> exc + string" where
  "b64_scan pos left pads [] = (if pos = 0 then Inr [] else Inl ValueError)"
| "b64_scan pos left pads (c # cs) =
     (if c = CHR ''='' then
        (if pos \<ge> 2 \<and> pos + Suc pads \<ge> 4 then Inr [] else b64_scan pos left (if pos \<ge> 2 then Suc pads else pads) cs)
      else (case b64_val c of
        None \<Rightarrow> b64_scan pos left pads cs
      | Some v \<Rightarrow>
          if pos = 0 then b64_scan 1 v 0 cs
          else if pos = 1 then map_sum id ((#) (char_of (left * 4 + v div 16))) (b64_scan 2 (v mod 16) 0 cs)
          else if pos = 2 then map_sum id ((#) (char_of (left * 16 + v div 4))) (b64_scan 3 (v mod 4) 0 cs)
          else map_sum id ((#) (char_of (left * 64 + v))) (b64_scan 0 0 0 cs)))"

definition urlsafe_b64decode :: "string \<Rightarrow> exc + string" where
  "urlsafe_b64decode s = b64_scan 0 0 0 s"

definition rstrip_eq :: "string \<Rightarrow> string" where
  "rstrip_eq s = rev (dropWhile (\<lambda>c. c = CHR ''='') (rev s))"

definition restore_padding :: "string \<Rightarrow> string" where
  "restore_padding s = s @ replicate ((4 - length s mod 4) mod 4) (CHR ''='')"

subsection \<open>The round trip\<close>

lemma byte_bound: "(of_char c :: nat) < 256"
  using nat_of_char_less_256 by simp

lemma of_char_small: "n < 256 \<Longrightarrow> (of_char (char_of n :: char) :: nat) = n"
  by (simp add: of_char_of)

lemma char_eq_code: "c = d \<longleftrightarrow> (of_char c :: nat) = of_char d"
  by simp

lemma b64_char_upto: "n < 64 \<Longrightarrow> b64_val (b64_char n) = Some n \<and> b64_char n \<noteq> CHR ''='' \<and> b64_char n \<noteq> CHR ''.''"
proof -
  assume n: "n < 64"
  consider "n < 26" | "26 \<le> n" "n < 52" | "52 \<le> n" "n < 62" | "n = 62" | "n = 63" using n by linarith
  then show ?thesis
  proof cases
    case 1
    then have "of_char (b64_char n) = 65 + n" by (simp add: b64_char_def of_char_small)
    with 1 show ?thesis by (simp add: b64_val_def Let_def char_eq_code)
  next
    case 2
    then have "of_char (b64_char n) = 71 + n" by (simp add: b64_char_def of_char_small)
    with 2 show ?thesis by (simp add: b64_val_def Let_def char_eq_code)
  next
    case 3
    then have "of_char (b64_char n) = n - 4" by (simp add: b64_char_def of_char_small)
    with 3 show ?thesis by (auto simp: b64_val_def Let_def char_eq_code)
  qed (simp_all add: b64_char_def b64_val_def)
qed

lemmas b64_char_ok [simp] = b64_char_upto [THEN conjunct1] b64_char_upto [THEN conjunct2, THEN conjunct1]
  b64_char_upto [THEN conjunct2, THEN conjunct2]

lemma pack:
  fixes x y k :: nat
  shows "y < k \<Longrightarrow> (x * k + y) div k = x" and "y < k \<Longrightarrow> (x * k + y) mod k = y"
  by simp_all

lemma parts:
  fixes n :: nat
  assumes "n < 256"
  shows "n div 4 < 64" "n mod 4 < 4" "n div 16 < 16" "n mod 16 < 16" "n div 64 < 4" "n mod 64 < 64"
  using assms by (simp_all add: less_mult_imp_div_less)

lemma sextets:
  fixes a b c :: char
  shows "of_char a div 4 < (64::nat)" "of_char a mod 4 * 16 < (64::nat)" "of_char a mod 4 * 16 + of_char b div 16 < (64::nat)"
    "of_char b mod 16 * 4 < (64::nat)" "of_char b mod 16 * 4 + of_char c div 64 < (64::nat)" "of_char c mod 64 < (64::nat)"
  using parts [OF byte_bound [of a]] parts [OF byte_bound [of b]] parts [OF byte_bound [of c]] by linarith+

lemma regroup:
  fixes a b c :: nat
  assumes "b < 256" and "c < 256"
  shows "a div 4 * 4 + a mod 4 = a" and "(a mod 4 * 16 + b div 16) div 16 = a mod 4"
    and "(a mod 4 * 16 + b div 16) mod 16 = b div 16" and "(b mod 16 * 4 + c div 64) div 4 = b mod 16"
    and "b div 16 * 16 + b mod 16 = b" and "(b mod 16 * 4 + c div 64) mod 4 = c div 64" and "c div 64 * 64 + c mod 64 = c"
  using parts [OF assms(1)] parts [OF assms(2)] pack [of "b div 16" 16 "a mod 4"] pack [of "c div 64" 4 "b mod 16"] by simp_all

lemma high_bits [simp]:
  fixes c :: char
  shows "of_char c div 16 div 16 = (0::nat)" "of_char c div 16 mod 16 = (of_char c div 16 :: nat)"
    "of_char c div 64 div 4 = (0::nat)" "of_char c div 64 mod 4 = (of_char c div 64 :: nat)"
  using parts [OF byte_bound [of c]] by simp_all

lemma b64_scan_encode: "b64_scan 0 0 0 (urlsafe_b64encode bs) = Inr bs"
  by (induction bs rule: urlsafe_b64encode.induct) (simp_all add: sextets regroup byte_bound)

definition padded_text :: "string \<Rightarrow> nat \<Rightarrow> string \<Rightarrow> bool" where
  "padded_text body k t \<longleftrightarrow> t = body @ replicate k (CHR ''='') \<and> k \<le> 2 \<and> (length body + k) mod 4 = 0 \<and>
     (\<forall>c \<in> set body. c \<noteq> CHR ''='' \<and> c \<noteq> CHR ''.'')"

lemma encode_shape: "\<exists>body k. padded_text body k (urlsafe_b64encode bs)"
proof (induction bs rule: urlsafe_b64encode.induct)
  case 1
  have "padded_text [] 0 (urlsafe_b64encode [])" by (simp add: padded_text_def)
  then show ?case by blast
next
  case (2 a)
  have "padded_text [b64_char (of_char a div 4), b64_char (of_char a mod 4 * 16)] (Suc (Suc 0)) (urlsafe_b64encode [a])"
    by (simp add: padded_text_def sextets)
  then show ?case by blast
next
  case (3 a b)
  have "padded_text [b64_char (of_char a div 4), b64_char (of_char a mod 4 * 16 + of_char b div 16), b64_char (of_char b mod 16 * 4)]
      (Suc 0) (urlsafe_b64encode [a, b])"
    by (simp add: padded_text_def sextets)
  then show ?case by blast
next
  case (4 a b c bs)
  then obtain body k where IH: "padded_text body k (urlsafe_b64encode bs)" by blast
  have four: "(4 + n) mod 4 = n mod 4" for n :: nat by simp
  have "padded_text ([b64_char (of_char a div 4), b64_char (of_char a mod 4 * 16 + of_char b div 16),
      b64_char (of_char b mod 16 * 4 + of_char c div 64), b64_char (of_char c mod 64)] @ body) k (urlsafe_b64encode (a # b # c # bs))"
    using IH four [of "length body + k"] by (simp add: padded_text_def sextets)
  then show ?case by blast
qed

lemma rstrip_body:
  "(\<forall>c \<in> set body. c \<noteq> CHR ''='') \<Longrightarrow> rstrip_eq (body @ replicate k (CHR ''='')) = body"
proof -
  assume body: "\<forall>c \<in> set body. c \<noteq> CHR ''=''"
  have "dropWhile (\<lambda>c. c = CHR ''='') (replicate k (CHR ''='') @ rev body) = dropWhile (\<lambda>c. c = CHR ''='') (rev body)"
    by (rule dropWhile_append2) simp
  also have "\<dots> = rev body"
    unfolding dropWhile_eq_self_iff using body by (metis hd_in_set set_rev)
  finally show ?thesis by (simp add: rstrip_eq_def)
qed

lemma stripped:
  "\<exists>body k. padded_text body k (urlsafe_b64encode bs) \<and> rstrip_eq (urlsafe_b64encode bs) = body"
proof -
  obtain body k where "padded_text body k (urlsafe_b64encode bs)" using encode_shape by blast
  moreover then have "rstrip_eq (urlsafe_b64encode bs) = body"
    unfolding padded_text_def by (elim conjE, simp only:) (rule rstrip_body, simp)
  ultimately show ?thesis by blast
qed

lemma restore_padding_text:
  assumes "padded_text body k t"
  shows "restore_padding body = t"
proof -
  have "(length body mod 4 + k) mod 4 = 0" "k \<le> 2" using assms by (simp_all add: padded_text_def mod_add_left_eq)
  moreover then have "length body mod 4 \<in> {0, 1, 2, 3}" "k \<in> {0, 1, 2}" by auto
  moreover have "\<not> 4 dvd Suc (Suc 0)" "\<not> 4 dvd Suc (Suc (Suc 0))" by presburger+
  ultimately have "(4 - length body mod 4) mod 4 = k" by auto
  then show ?thesis using assms by (simp add: restore_padding_def padded_text_def)
qed

lemma restore_padding_encode: "restore_padding (rstrip_eq (urlsafe_b64encode bs)) = urlsafe_b64encode bs"
  using stripped [of bs] restore_padding_text by blast

lemma stripped_no_dot: "CHR ''.'' \<notin> set (rstrip_eq (urlsafe_b64encode bs))"
  using stripped [of bs] by (elim exE conjE) (simp add: padded_text_def, fastforce)

section \<open>Decimal numbers\<close>

fun str_nat :: "nat \<Rightarrow> string" where
  "str_nat n = (if n < 10 then [char_of (48 + n)] else str_nat (n div 10) @ [char_of (48 + n mod 10)])"

declare str_nat.simps [simp del]

text \<open>\<open>int(s)\<close>: surrounding blanks, a sign, digits with single underscores between them.\<close>

fun digits_val :: "nat \<Rightarrow> string \<Rightarrow> nat option" where
  "digits_val acc [] = Some acc"
| "digits_val acc (c # cs) =
     (if isdigit c then digits_val (acc * 10 + (of_char c - 48)) cs
      else if c = CHR ''_'' \<and> cs \<noteq> [] \<and> isdigit (hd cs) then digits_val acc cs else None)"

definition unsigned_val :: "string \<Rightarrow> nat option" where
  "unsigned_val s = (if s \<noteq> [] \<and> isdigit (hd s) then digits_val 0 s else None)"

definition int_of_str :: "string \<Rightarrow> exc + int" where
  "int_of_str s = (let t = strip s in
     case (if t \<noteq> [] \<and> hd t \<in> {CHR ''+'', CHR ''-''} then unsigned_val (tl t) else unsigned_val t) of
       None \<Rightarrow> Inl ValueError
     | Some n \<Rightarrow> Inr (if t \<noteq> [] \<and> hd t = CHR ''-'' then - int n else int n))"

definition py_int :: "json \<Rightarrow> exc + int" where
  "py_int j = (case j of JInt i \<Rightarrow> Inr i | JBool b \<Rightarrow> Inr (of_bool b) | JStr s \<Rightarrow> int_of_str s
     | JUuid u \<Rightarrow> Inl ValueError | JTime t \<Rightarrow> Inl ValueError | _ \<Rightarrow> Inl TypeError)"

lemma digit_code: "n < 10 \<Longrightarrow> isdigit (char_of (48 + n)) \<and> (of_char (char_of (48 + n) :: char) :: nat) = 48 + n"
  by (simp add: isdigit_def of_char_small)

lemma digits_val_str: "digits_val acc (str_nat n @ s) = digits_val (acc * 10 ^ length (str_nat n) + n) s"
proof (induction n arbitrary: acc s rule: str_nat.induct)
  case (1 n)
  show ?case
  proof (cases "n < 10")
    case True
    then show ?thesis by (simp add: str_nat.simps [of n] digit_code)
  next
    case False
    then show ?thesis
      by (simp add: str_nat.simps [of n] 1 digit_code) (simp add: algebra_simps)
  qed
qed

lemma str_nat_digits: "str_nat n \<noteq> [] \<and> (\<forall>c \<in> set (str_nat n). isdigit c)"
proof (induction n rule: str_nat.induct)
  case (1 n)
  then show ?case by (cases "n < 10") (simp_all add: str_nat.simps [of n] digit_code)
qed

lemma digit_not_space: "isdigit c \<Longrightarrow> \<not> is_space c \<and> c \<noteq> CHR ''+'' \<and> c \<noteq> CHR ''-''"
  by (auto simp: isdigit_def is_space_def)

lemma strip_digits:
  assumes "s \<noteq> []" and "\<forall>c \<in> set s. isdigit c"
  shows "strip s = s"
proof -
  have "dropWhile is_space s = s" "dropWhile is_space (rev s) = rev s"
    unfolding dropWhile_eq_self_iff using assms digit_not_space by (metis hd_in_set set_rev rev_is_Nil_conv)+
  then show ?thesis by (simp add: strip_def)
qed

lemma int_of_str_nat: "int_of_str (str_nat n) = Inr (int n)"
proof -
  let ?s = "str_nat n"
  have d: "isdigit (hd ?s)" and ne: "?s \<noteq> []" using str_nat_digits [of n] by simp_all
  have st: "strip ?s = ?s" using strip_digits str_nat_digits by blast
  have "digits_val 0 ?s = Some n" using digits_val_str [of 0 n "[]"] by simp
  then have "unsigned_val ?s = Some n" using d ne by (simp add: unsigned_val_def)
  then show ?thesis using digit_not_space [OF d] by (simp add: int_of_str_def st Let_def)
qed

section \<open>Cursors\<close>

record codec =
  json_dumps :: "json \<Rightarrow> string"
  json_loads :: "string \<Rightarrow> exc + json"
  cursor_hmac :: "string \<Rightarrow> string"

definition sign :: "codec \<Rightarrow> string \<Rightarrow> string" where
  "sign c payload_bytes = rstrip_eq (urlsafe_b64encode (cursor_hmac c payload_bytes))"

definition encode_cursor :: "codec \<Rightarrow> int \<Rightarrow> nat \<Rightarrow> int \<Rightarrow> string handler" where
  "encode_cursor c last_cursor last_cursor_id ttl_seconds =
     letM now (\<lambda>t.
     let raw_bytes = json_dumps c (JObj [(''t'', JInt (timestamp t)), (''ttl'', JInt ttl_seconds),
                                         (''s'', JList [JTime last_cursor, JStr (str_nat last_cursor_id)])]) in
     retM (rstrip_eq (urlsafe_b64encode raw_bytes) @ ''.'' @ sign c raw_bytes))"

fun split_on :: "char \<Rightarrow> string \<Rightarrow> string list" where
  "split_on c [] = [[]]"
| "split_on c (x # xs) = (if x = c then [] # split_on c xs else (case split_on c xs of y # ys \<Rightarrow> (x # y) # ys))"

definition bad_request :: "string \<Rightarrow> exc" where
  "bad_request msg = HTTPException 400 (Text msg)"

text \<open>Unpacking a JSON value into two variables: lists, the characters of a text, the keys of an object.
  A UUID or a timestamp has more than two characters.\<close>

definition unpack2 :: "json \<Rightarrow> exc + json \<times> json" where
  "unpack2 j = (case j of
     JList [a, b] \<Rightarrow> Inr (a, b)
   | JStr [a, b] \<Rightarrow> Inr (JStr [a], JStr [b])
   | JObj [(a, _), (b, _)] \<Rightarrow> Inr (JStr a, JStr b)
   | JNull \<Rightarrow> Inl TypeError
   | JBool _ \<Rightarrow> Inl TypeError
   | JInt _ \<Rightarrow> Inl TypeError
   | _ \<Rightarrow> Inl ValueError)"

fun json_index :: "string \<Rightarrow> json \<Rightarrow> exc + json" where
  "json_index k (JObj kvs) = (case map_of kvs k of None \<Rightarrow> Inl KeyError | Some v \<Rightarrow> Inr v)"
| "json_index k _ = Inl TypeError"

fun fromisoformat :: "json \<Rightarrow> exc + int" where
  "fromisoformat (JTime t) = Inr t"
| "fromisoformat (JStr _) = Inl ValueError"
| "fromisoformat (JUuid _) = Inl ValueError"
| "fromisoformat _ = Inl TypeError"

fun age :: "int \<Rightarrow> json \<Rightarrow> exc + int" where
  "age t (JInt i) = Inr (t - i)"
| "age t (JBool b) = Inr (t - of_bool b)"
| "age t _ = Inl TypeError"

definition decode_payload :: "json \<Rightarrow> int option \<Rightarrow> (int \<times> json) handler" where
  "decode_payload payload max_age =
     letM (case max_age of None \<Rightarrow> retM False
           | Some m \<Rightarrow> letM now (\<lambda>t. letM (liftM (json_get ''t'' (JInt 0) payload)) (\<lambda>issued.
               letM (liftM (age (timestamp t) issued)) (\<lambda>a. retM (a > m))))) (\<lambda>expired.
     if expired then raiseM (bad_request ''Cursor expired'')
     else
       letM (liftM (json_index ''s'' payload)) (\<lambda>s.
       letM (liftM (unpack2 s)) (\<lambda>(created_at_iso, id_value).
       letM (liftM (fromisoformat created_at_iso)) (\<lambda>t. retM (t, id_value)))))"

definition decode_cursor :: "codec \<Rightarrow> string \<Rightarrow> int option \<Rightarrow> (int \<times> json) handler" where
  "decode_cursor c token max_age = (case split_on (CHR ''.'') token of
     [token_part, sig_part] \<Rightarrow>
       letM (liftM (urlsafe_b64decode (restore_padding token_part))) (\<lambda>raw.
       if sign c raw \<noteq> sig_part then raiseM (bad_request ''Cursor signature mismatch'')
       else letM (liftM (json_loads c raw)) (\<lambda>payload. decode_payload payload max_age))
   | _ \<Rightarrow> raiseM (bad_request ''Invalid cursor format''))"

text \<open>What is used of the JSON library: a cursor's payload printed is parsed back.\<close>

definition cursor_payload :: "int \<Rightarrow> int \<Rightarrow> int \<Rightarrow> nat \<Rightarrow> json" where
  "cursor_payload t ttl moment i = JObj [(''t'', JInt t), (''ttl'', JInt ttl), (''s'', JList [JTime moment, JStr (str_nat i)])]"

definition codec_ok :: "codec \<Rightarrow> bool" where
  "codec_ok c \<longleftrightarrow> (\<forall>t ttl moment i. json_loads c (json_dumps c (cursor_payload t ttl moment i)) = Inr (cursor_payload t ttl moment i))"

lemma split_on_cons: "c \<notin> set a \<Longrightarrow> split_on c (a @ c # b) = a # split_on c b"
  by (induction a) auto

lemma split_on_whole: "c \<notin> set b \<Longrightarrow> split_on c b = [b]"
  by (induction b) auto

lemma split_on_one: "c \<notin> set a \<Longrightarrow> c \<notin> set b \<Longrightarrow> split_on c (a @ c # b) = [a, b]"
  by (simp add: split_on_cons split_on_whole)

lemma decode_encoded:
  assumes "codec_ok c" and "encode_cursor c moment i ttl w = (Inr token, w')"
    and "timestamp (clock (env v) (ticks v)) - timestamp (clock (env w) (ticks w)) \<le> m"
  shows "decode_cursor c token (Some m) v = (Inr (moment, JStr (str_nat i)), tick v)"
proof -
  let ?raw = "json_dumps c (cursor_payload (timestamp (clock (env w) (ticks w))) ttl moment i)"
  have token: "token = rstrip_eq (urlsafe_b64encode ?raw) @ CHR ''.'' # sign c ?raw"
    using assms(2) by (simp add: encode_cursor_def letM_def now_def retM_def cursor_payload_def Let_def)
  have parts: "split_on (CHR ''.'') token = [rstrip_eq (urlsafe_b64encode ?raw), sign c ?raw]"
    unfolding token by (rule split_on_one) (simp_all add: stripped_no_dot sign_def)
  have "wp (decode_cursor c token (Some m)) (\<lambda>r u. r = (moment, JStr (str_nat i)) \<and> u = tick v) (\<lambda>_ _. False) v"
    using assms(1,3)
    by (simp add: decode_cursor_def parts restore_padding_encode urlsafe_b64decode_def b64_scan_encode wp_simps codec_ok_def
        decode_payload_def) (simp add: cursor_payload_def unpack2_def wp_simps)
  then show ?thesis by (auto simp: wp_def split: prod.splits sum.splits)
qed

text \<open>C26: A cursor handed out is read back exactly: the signature matches, the padding that was stripped is
  restored, and the moment and id it carries are the ones put in, as long as it is no older than the
  age asked for.\<close>

theorem cursor_roundtrip:
  assumes "codec_ok c" and "encode_cursor c moment i ttl w = (Inr token, w')"
    and "timestamp (clock (env v) (ticks v)) - timestamp (clock (env w) (ticks w)) \<le> m"
  shows "letM (decode_cursor c token (Some m)) (\<lambda>(t, j). letM (liftM (py_int j)) (\<lambda>k. retM (t, k))) v = (Inr (moment, int i), tick v)"
  by (simp add: letM_def decode_encoded [OF assms] liftM_def retM_def py_int_def int_of_str_nat)

section \<open>An instance\<close>

text \<open>A library that prints the payload as four comma-separated fields.\<close>

definition str_int :: "int \<Rightarrow> string" where
  "str_int i = (if i < 0 then CHR ''-'' # str_nat (nat (- i)) else str_nat (nat i))"

fun print_payload :: "json \<Rightarrow> string" where
  "print_payload (JObj [(_, JInt a), (_, JInt b), (_, JList [JTime t, JStr s])]) =
     str_int a @ '','' @ str_int b @ '','' @ str_int t @ '','' @ s"
| "print_payload _ = []"

definition parse_payload :: "string \<Rightarrow> exc + json" where
  "parse_payload s = (case map int_of_str (take 3 (split_on (CHR '','') s)) of
     [Inr a, Inr b, Inr t] \<Rightarrow> Inr (JObj [(''t'', JInt a), (''ttl'', JInt b),
        (''s'', JList [JTime t, JStr (concat (drop 3 (split_on (CHR '','') s)))])])
   | _ \<Rightarrow> Inl ValueError)"

definition sample_codec :: codec where
  "sample_codec = \<lparr>json_dumps = print_payload, json_loads = parse_payload, cursor_hmac = id\<rparr>"

lemma str_nat_no: "\<not> isdigit c \<Longrightarrow> c \<notin> set (str_nat n)"
  using str_nat_digits by blast

lemma int_of_str_int: "int_of_str (str_int i) = Inr i"
proof (cases "i < 0")
  case False
  then show ?thesis by (simp add: str_int_def int_of_str_nat)
next
  case True
  let ?d = "str_nat (nat (- i))"
  have d: "?d \<noteq> []" "isdigit (hd ?d)" using str_nat_digits [of "nat (- i)"] by simp_all
  have "dropWhile is_space (rev (CHR ''-'' # ?d)) = rev (CHR ''-'' # ?d)" "\<not> is_space (CHR ''-'')"
    unfolding dropWhile_eq_self_iff
    using d digit_not_space str_nat_digits [of "nat (- i)"] by (auto simp: is_space_def hd_append hd_rev)
  then have st: "strip (CHR ''-'' # ?d) = CHR ''-'' # ?d" by (simp add: strip_def)
  have "unsigned_val ?d = Some (nat (- i))"
    using digits_val_str [of 0 "nat (- i)" "[]"] d by (simp add: unsigned_val_def)
  then show ?thesis using True by (simp add: int_of_str_def str_int_def st Let_def)
qed

lemma sample_codec_ok: "codec_ok sample_codec"
proof -
  have no: "CHR '','' \<notin> set (str_nat n)" "CHR '','' \<notin> set (str_int i)" for n i
    by (auto simp: str_int_def isdigit_def intro!: str_nat_no)
  show ?thesis
    by (simp add: codec_ok_def sample_codec_def cursor_payload_def parse_payload_def split_on_cons split_on_whole no int_of_str_int)
qed

lemma cursor_roundtrip_witness:
  "\<exists>token w'. encode_cursor sample_codec 5000000 42 3600 (start 0 empty_db) = (Inr token, w') \<and>
     letM (decode_cursor sample_codec token (Some 86400)) (\<lambda>(t, j). letM (liftM (py_int j)) (\<lambda>k. retM (t, k))) (start (seconds 60) empty_db) =
       (Inr (5000000, 42), tick (start (seconds 60) empty_db))"
proof -
  obtain token w' where e: "encode_cursor sample_codec 5000000 42 3600 (start 0 empty_db) = (Inr token, w')"
    by (simp add: encode_cursor_def letM_def now_def retM_def Let_def)
  then show ?thesis
    using cursor_roundtrip [OF sample_codec_ok e, of "start (seconds 60) empty_db" 86400]
    by (simp add: timestamp_def seconds_def)
qed

end
