(* ===== verification/Products.thy ===== *)
theory Products
  imports Cursor "HOL-Library.Product_Lexorder"
begin

text \<open>
  The catalogue: \<open>backend/products/repository.py\<close>, \<open>services.py\<close>, \<open>dependency.py\<close> and the routes of
  \<open>routes.py\<close>. Products are created and patched by their owner; the listing is paged by a keyset
  (newest first, then by id) carried in signed cursors.
\<close>

section \<open>Permissions\<close>

definition require_permissions :: "string \<Rightarrow> nat list \<Rightarrow> bool handler" where
  "require_permissions perm user_roles =
     letM (query (\<lambda>d. take 1 [rp_id r. r \<leftarrow> db_role_permissions d, p \<leftarrow> db_permissions d,
             perm_id p = rp_permission_id r \<and> perm_name p = perm \<and> rp_role_id r \<in> set user_roles])) (\<lambda>rows.
     letM (liftM (one_or_none rows)) (\<lambda>res.
     if \<not> truthy_id res then raiseM (unauthorized ''User doesn't have any permissions'') else retM True))"

section \<open>Creating and patching products\<close>

record product_create =
  pci_name :: string
  pci_description :: "string option"
  pci_base_price :: int
  pci_stock_qty :: int
  pci_sku :: "string option"
  pci_specs :: json
  pci_category_names :: "string list option"

text \<open>The fields of a patch that were set (\<open>model_dump(exclude_unset=True)\<close> without the categories);
  a field set to null is there, with the value null.\<close>

datatype product_field =
    F_name "string option"
  | F_description "string option"
  | F_base_price "int option"
  | F_stock_qty "int option"
  | F_sku "string option"
  | F_specs json

fun set_field :: "product_field \<Rightarrow> product \<Rightarrow> exc + product" where
  "set_field (F_name n) p = (case n of None \<Rightarrow> Inl IntegrityError | Some x \<Rightarrow> Inr (p\<lparr>p_name := x\<rparr>))"
| "set_field (F_description t) p = Inr (p\<lparr>p_description := t\<rparr>)"
| "set_field (F_base_price n) p = (case n of None \<Rightarrow> Inl IntegrityError | Some x \<Rightarrow> Inr (p\<lparr>p_base_price := x\<rparr>))"
| "set_field (F_stock_qty n) p = (case n of None \<Rightarrow> Inl IntegrityError | Some x \<Rightarrow> Inr (p\<lparr>p_stock_qty := x\<rparr>))"
| "set_field (F_sku t) p = Inr (p\<lparr>p_sku := t\<rparr>)"
| "set_field (F_specs j) p = Inr (p\<lparr>p_specs := j\<rparr>)"

fun set_fields :: "product_field list \<Rightarrow> product \<Rightarrow> exc + product" where
  "set_fields [] p = Inr p"
| "set_fields (f # fs) p = (case set_field f p of Inl e \<Rightarrow> Inl e | Inr q \<Rightarrow> set_fields fs q)"

record product_update =
  pu_fields :: "product_field list"
  pu_category_names :: "string list option"

definition conflicting :: "string \<Rightarrow> exc" where
  "conflicting msg = HTTPException 409 (Text msg)"

definition not_found :: exc where
  "not_found = HTTPException 404 (Text ''Product not found'')"

definition add_product_categories :: "nat \<Rightarrow> string list \<Rightarrow> unit handler" where
  "add_product_categories prod_id names =
     (let cat_names = remdups (map strip names) in
      letM (query (\<lambda>d. map pc_id (filter (\<lambda>c. pc_name c \<in> set cat_names) (db_categories d)))) (\<lambda>cat_ids.
      if length cat_ids \<noteq> length cat_names then raiseM (conflicting ''One or more categories do not exist'')
      else
        letM (mapM (\<lambda>cid. letM (next_id ''productcategorylink'') (\<lambda>i.
                retM \<lparr>pcl_id = i, pcl_product_id = prod_id, pcl_category_id = cid\<rparr>)) cat_ids) (\<lambda>rows.
        modify (db_category_links_update (fold (insert_nothing category_link_key) rows)))))"

definition create_product_with_catgs :: "product_create \<Rightarrow> nat \<Rightarrow> nat handler" where
  "create_product_with_catgs payload user_id =
     letM uuid7 (\<lambda>pid. letM now (\<lambda>t1. letM now (\<lambda>t2.
     letM (next_id ''product'') (\<lambda>i.
     let row = \<lparr>p_id = i, p_public_id = pid, p_stock_qty = pci_stock_qty payload, p_sku = pci_sku payload,
           p_name = pci_name payload, p_description = pci_description payload, p_base_price = pci_base_price payload,
           p_specs = pci_specs payload, p_owner_id = Some user_id, p_created_at = t1, p_updated_at = t2, p_deleted_at = None\<rparr> in
     letM (exec (\<lambda>d. Inr (if conflict product_name_key row (db_products d) then None else Some i,
                          db_products_update (insert_nothing product_name_key row) d))) (\<lambda>new.
     case new of
       None \<Rightarrow> raiseM (conflicting ''Product with same name already exists'')
     | Some prod_id \<Rightarrow>
         doM (case pci_category_names payload of
                None \<Rightarrow> retM ()
              | Some names \<Rightarrow> whenM (names \<noteq> []) (add_product_categories prod_id names))
         (retM pid))))))"

definition create_product :: "product_create \<Rightarrow> nat \<Rightarrow> nat list \<Rightarrow> nat handler" where
  "create_product payload user_identifier user_roles =
     letM (require_permissions ''product:create'' user_roles) (\<lambda>_.
     letM (create_product_with_catgs payload user_identifier) (\<lambda>pid.
     doM commit (retM pid)))"

definition find_product_by_pid :: "nat \<Rightarrow> (nat \<times> nat option) handler" where
  "find_product_by_pid product_pid =
     letM (query (\<lambda>d. map (\<lambda>p. (p_id p, p_owner_id p)) (filter (\<lambda>p. p_public_id p = product_pid \<and> p_deleted_at p = None) (db_products d)))) (\<lambda>rows.
     letM (liftM (one_or_none rows)) (\<lambda>product.
     case product of None \<Rightarrow> raiseM not_found | Some p \<Rightarrow> retM p))"

definition validate_categories_by_names :: "string list option \<Rightarrow> nat list handler" where
  "validate_categories_by_names category_names = (case category_names of
     None \<Rightarrow> retM []
   | Some names \<Rightarrow>
       if names = [] then retM []
       else
         (let unique_names = remdups (map strip names) in
          letM (query (\<lambda>d. map (\<lambda>c. (pc_name c, pc_id c)) (filter (\<lambda>c. pc_name c \<in> set unique_names) (db_categories d)))) (\<lambda>rows.
          let missing = filter (\<lambda>n. n \<notin> fst ` set rows) unique_names in
          if missing \<noteq> [] then raiseM (HTTPException 422 (Errors (Text ''Categories not found'' # map Text missing)))
          else retM (map (\<lambda>n. the (map_of (rev rows) n)) (remdups (map fst rows))))))"

text \<open>\<open>UPDATE ... SET\<close> of a patch: a null in a NOT NULL column or a name already taken is an integrity error.\<close>

definition patch_rows :: "product_field list \<Rightarrow> int \<Rightarrow> (product \<Rightarrow> bool) \<Rightarrow> product list \<Rightarrow> exc + product list" where
  "patch_rows updates t p rows =
     (case first_row (filter isl (map (set_fields updates) (filter p rows))) of
        Some r \<Rightarrow> Inl (projl r)
      | None \<Rightarrow>
          let rows' = upd p (\<lambda>x. (projr (set_fields updates x))\<lparr>p_updated_at := t\<rparr>) rows in
          if unique_on product_name_key rows' then Inr rows' else Inl IntegrityError)"

definition owned :: "nat \<Rightarrow> nat \<Rightarrow> product \<Rightarrow> bool" where
  "owned prod_id user_id p \<longleftrightarrow> p_id p = prod_id \<and> p_owner_id p = Some user_id \<and> p_deleted_at p = None"

definition patch_product :: "product_field list \<Rightarrow> nat \<Rightarrow> nat \<Rightarrow> nat handler" where
  "patch_product updates user_id prod_id =
     letM now (\<lambda>t.
     letM (exec (\<lambda>d. map_sum id (\<lambda>rows. (map p_public_id (filter (owned prod_id user_id) (db_products d)), d\<lparr>db_products := rows\<rparr>))
             (patch_rows updates t (owned prod_id user_id) (db_products d)))) (\<lambda>pids.
     letM (liftM (one_or_none pids)) (\<lambda>product_pid.
     case product_pid of None \<Rightarrow> raiseM (HTTPException 404 (Text ''Product not found '')) | Some pid \<Rightarrow> retM pid)))"

text \<open>The route; the path parameter is \<open>None\<close> when it is not a UUID. The categories are looked up and then
  ignored.\<close>

definition update_product :: "product_update \<Rightarrow> nat option \<Rightarrow> nat \<Rightarrow> nat list \<Rightarrow> nat handler" where
  "update_product payload product_public_id user_identifier user_roles =
     letM (require_permissions ''product:update'' user_roles) (\<lambda>_.
     case product_public_id of
       None \<Rightarrow> raiseM (bad_request ''Invalid product_public_id'')
     | Some pid \<Rightarrow>
         letM (validate_categories_by_names (pu_category_names payload)) (\<lambda>cat_ids.
         letM (find_product_by_pid pid) (\<lambda>(prod_id, owner).
         if owner \<noteq> Some user_identifier then raiseM (forbidden ''Not authorized to update.'')
         else
           letM (patch_product (pu_fields payload) user_identifier prod_id) (\<lambda>product_pid.
           doM commit (retM product_pid)))))"

section \<open>The listing\<close>

record listing_row =
  lr_id :: nat
  lr_public_id :: nat
  lr_name :: string
  lr_price :: int
  lr_created_at :: int

definition listing_row_of :: "product \<Rightarrow> listing_row" where
  "listing_row_of p = \<lparr>lr_id = p_id p, lr_public_id = p_public_id p, lr_name = p_name p, lr_price = p_base_price p,
     lr_created_at = p_created_at p\<rparr>"

definition keyset_filter :: "int \<Rightarrow> int \<Rightarrow> product \<Rightarrow> bool" where
  "keyset_filter created_at_val last_id p \<longleftrightarrow>
     p_created_at p < created_at_val \<or> p_created_at p = created_at_val \<and> int (p_id p) > last_id"

definition newest_first :: "product \<Rightarrow> int \<times> nat" where
  "newest_first p = (- p_created_at p, p_id p)"

definition fetch_prods :: "(int \<times> int) option \<Rightarrow> nat \<Rightarrow> listing_row list handler" where
  "fetch_prods cursor_vals limit =
     query (\<lambda>d. map listing_row_of (take (limit + 1) (sort_key newest_first
       (filter (case cursor_vals of None \<Rightarrow> \<lambda>_. True | Some (t, i) \<Rightarrow> keyset_filter t i) (db_products d)))))"

record page =
  pg_items :: "listing_row list"
  pg_next_cursor :: "string option"
  pg_has_more :: bool

definition load_page :: "codec \<Rightarrow> (int \<times> int) option \<Rightarrow> nat \<Rightarrow> page handler" where
  "load_page c cursor_vals limit =
     letM (fetch_prods cursor_vals limit) (\<lambda>rows.
     let has_more = length rows > limit; page_rows = take limit rows in
     letM (if has_more
           then (if page_rows = [] then raiseM IndexError
                 else letM (encode_cursor c (lr_created_at (last page_rows)) (lr_id (last page_rows)) 3600) (\<lambda>t. retM (Some t)))
           else retM None) (\<lambda>next_cursor.
     retM \<lparr>pg_items = page_rows, pg_next_cursor = next_cursor, pg_has_more = has_more\<rparr>))"

definition read_cursor :: "codec \<Rightarrow> string option \<Rightarrow> (int \<times> int) option handler" where
  "read_cursor c cursor = (case cursor of
     None \<Rightarrow> retM None
   | Some token \<Rightarrow>
       if token = [] then retM None
       else letM (decode_cursor c token (Some (24 * 3600))) (\<lambda>(t, j). letM (liftM (py_int j)) (\<lambda>k. retM (Some (t, k)))))"

definition get_products_without_cache :: "codec \<Rightarrow> nat \<Rightarrow> string option \<Rightarrow> page handler" where
  "get_products_without_cache c limit cursor =
     letM (read_cursor c cursor) (\<lambda>cursor_vals. load_page c cursor_vals limit)"

section \<open>Paging\<close>

text \<open>A client that follows the cursors.\<close>

primrec read_pages :: "codec \<Rightarrow> nat \<Rightarrow> nat \<Rightarrow> string option \<Rightarrow> page list handler" where
  "read_pages c limit 0 cursor = retM []"
| "read_pages c limit (Suc n) cursor =
     letM (get_products_without_cache c limit cursor) (\<lambda>p.
     case pg_next_cursor p of None \<Rightarrow> retM [p] | Some token \<Rightarrow> letM (read_pages c limit n (Some token)) (\<lambda>ps. retM (p # ps)))"

definition catalogue :: "database \<Rightarrow> product list" where
  "catalogue d = sort_key newest_first (db_products d)"

definition at :: "(int \<times> int) option \<Rightarrow> product list \<Rightarrow> bool" where
  "at cursor_vals seen \<longleftrightarrow> (case cursor_vals of None \<Rightarrow> seen = []
     | Some (t, i) \<Rightarrow> seen \<noteq> [] \<and> t = p_created_at (last seen) \<and> i = int (p_id (last seen)))"

lemma keyset_filter_after: "keyset_filter (p_created_at x) (int (p_id x)) = (\<lambda>y. newest_first x < newest_first y)"
  by (rule ext) (auto simp: keyset_filter_def newest_first_def less_prod_def)

lemma strictly_sorted_catalogue:
  assumes "distinct (map p_id (db_products d))"
  shows "sorted_wrt (\<lambda>x y. newest_first x < newest_first y) (catalogue d)"
proof -
  have "distinct (map newest_first (db_products d))"
    using assms by (auto simp: distinct_map inj_on_def newest_first_def)
  then have "distinct (map newest_first (catalogue d))" "sorted (map newest_first (catalogue d))"
    by (simp_all add: catalogue_def distinct_map)
  then have "sorted_wrt (<) (map newest_first (catalogue d))" by (simp add: strict_sorted_iff)
  then show ?thesis by (simp add: sorted_wrt_map)
qed

lemma fetch_after:
  assumes "distinct (map p_id (db_products d))" and "catalogue d = seen @ rest" and "at cv seen"
  shows "sort_key newest_first (filter (case cv of None \<Rightarrow> \<lambda>_. True | Some (t, i) \<Rightarrow> keyset_filter t i) (db_products d)) = rest"
proof (cases cv)
  case None
  with assms show ?thesis by (simp add: at_def catalogue_def)
next
  case (Some v)
  then obtain xs x where seen: "seen = xs @ [x]" "v = (p_created_at x, int (p_id x))"
    using assms(3) by (cases seen rule: rev_cases) (auto simp: at_def)
  have s: "sorted_wrt (\<lambda>x y. newest_first x < newest_first y) (xs @ [x] @ rest)"
    using strictly_sorted_catalogue [OF assms(1)] assms(2) seen by simp
  have "filter (\<lambda>y. newest_first x < newest_first y) (catalogue d) = rest"
    using s unfolding assms(2) seen(1) by (auto simp: sorted_wrt_append filter_empty_conv less_not_sym filter_id_conv)
  then show ?thesis
    using Some seen(2) by (simp add: keyset_filter_after catalogue_def filter_sort)
qed

definition full_pages :: "nat \<Rightarrow> page list \<Rightarrow> bool" where
  "full_pages limit ps \<longleftrightarrow> ps \<noteq> [] \<and> (\<forall>p \<in> set (butlast ps). length (pg_items p) = limit) \<and> length (pg_items (last ps)) \<le> limit"

text \<open>One page from a position, and the cursor to the next.\<close>

lemma load_page_at:
  fixes w :: state
  assumes "quiet w" and "0 < limit" and "distinct (map p_id (db_products (db w)))" and "catalogue (db w) = seen @ rest" and "at cv seen"
  shows "wp (load_page c cv limit)
     (\<lambda>p v. pg_items p = map listing_row_of (take limit rest) \<and> db v = db w \<and> quiet v \<and> env v = env w \<and>
        (if length rest \<le> limit then pg_next_cursor p = None
         else \<exists>token u u'. pg_next_cursor p = Some token \<and> env u = env w \<and>
           encode_cursor c (p_created_at (last (take limit rest))) (p_id (last (take limit rest))) 3600 u = (Inr token, u')))
     (\<lambda>_ _. False) w"
proof -
  let ?row = "last (take limit rest)"
  note fetch = fetch_after [OF assms(3-5)]
  have enc: "\<exists>token. encode_cursor c t i ttl u = (Inr token, tick u)" for t i ttl and u :: state
    by (simp add: encode_cursor_def Let_def letM_def now_def retM_def)
  have wp_enc: "(\<And>token. encode_cursor c t i ttl u = (Inr token, tick u) \<Longrightarrow> Q token (tick u)) \<Longrightarrow> wp (encode_cursor c t i ttl) Q E u"
    for t i ttl Q E and u :: state
    using enc [of t i ttl u] by (auto simp: wp_def)
  have page: "take limit (map listing_row_of (take (Suc limit) rest)) = map listing_row_of (take limit rest)"
    by (simp add: take_map)
  have lastrow: "rest \<noteq> [] \<Longrightarrow> last (map listing_row_of (take limit rest)) = listing_row_of ?row"
    using assms(2) by (simp add: last_map)
  show ?thesis
  proof (cases "length rest \<le> limit")
    case True
    then show ?thesis
      using assms(1) by (simp add: load_page_def fetch_prods_def wp_simps fetch Let_def)
  next
    case False
    then have rest: "rest \<noteq> []" "limit < length rest" "min (length rest) (Suc limit) = Suc limit" by auto
    show ?thesis
      using assms(1,2) rest lastrow [OF rest(1)]
      by (simp add: load_page_def fetch_prods_def wp_simps fetch page Let_def del: take_map)
        (rule wp_enc, simp add: wp_simps listing_row_of_def, rule exI [of _ "tick w"], simp)
  qed
qed

lemma read_cursor_next:
  fixes v :: state
  assumes "codec_ok c" and "encode_cursor c t i ttl u = (Inr token, u')"
    and "timestamp (clock (env v) (ticks v)) - timestamp (clock (env u) (ticks u)) \<le> 24 * 3600"
  shows "read_cursor c (Some token) v = (Inr (Some (t, int i)), tick v)"
proof -
  have "token \<noteq> []" using assms(2) by (auto simp: encode_cursor_def Let_def letM_def now_def retM_def)
  then show ?thesis
    using decode_encoded [OF assms] by (simp add: read_cursor_def letM_def liftM_def retM_def py_int_def int_of_str_nat)
qed

lemma read_pages_from:
  fixes w :: state
  assumes "codec_ok c" and "0 < limit" and "distinct (map p_id (db_products d))"
    and "\<And>m n. timestamp (clock e n) - timestamp (clock e m) \<le> 24 * 3600"
    and "length rest < n" and "catalogue d = seen @ rest" and "at cv seen" and "quiet w" and "db w = d" and "env w = e"
    and "\<And>v. env v = e \<Longrightarrow> read_cursor c cursor v = (Inr cv, tick v) \<or> read_cursor c cursor v = (Inr cv, v)"
  shows "wp (read_pages c limit n cursor)
     (\<lambda>ps v. concat (map pg_items ps) = map listing_row_of rest \<and> full_pages limit ps \<and> db v = d \<and> quiet v) (\<lambda>_ _. False) w"
  using assms(5-)
proof (induction n arbitrary: rest seen cv cursor w)
  case 0
  then show ?case by simp
next
  case (Suc n)
  obtain v where v: "read_cursor c cursor w = (Inr cv, v)" "quiet v" "db v = d" "env v = e"
    using Suc.prems(7) [of w] Suc.prems(4-6) by fastforce
  have step: "wp (get_products_without_cache c limit cursor) Q E w = wp (load_page c cv limit) Q E v" for Q E
    by (simp add: get_products_without_cache_def wp_simps) (simp add: wp_def v(1))
  have IH: "wp (read_pages c limit n (Some token))
      (\<lambda>ps v. concat (map pg_items ps) = map listing_row_of (drop limit rest) \<and> full_pages limit ps \<and> db v = d \<and> quiet v) (\<lambda>_ _. False) x"
    if more: "\<not> length rest \<le> limit" and token: "encode_cursor c (p_created_at (last (take limit rest))) (p_id (last (take limit rest))) 3600 u = (Inr token, u')"
      and "env u = e" and x: "quiet x" "db x = d" "env x = e" for token u u' and x :: state
  proof (rule Suc.IH [where seen = "seen @ take limit rest" and cv = "Some (p_created_at (last (take limit rest)), int (p_id (last (take limit rest))))"])
    show "length (drop limit rest) < n" using Suc.prems(1) assms(2) more by simp
    show "catalogue d = (seen @ take limit rest) @ drop limit rest" using Suc.prems(2) by simp
    have "take limit rest \<noteq> []" using more assms(2) by auto
    then show "at (Some (p_created_at (last (take limit rest)), int (p_id (last (take limit rest))))) (seen @ take limit rest)"
      by (simp add: at_def)
    show "read_cursor c (Some token) v = (Inr (Some (p_created_at (last (take limit rest)), int (p_id (last (take limit rest))))), tick v) \<or>
        read_cursor c (Some token) v = (Inr (Some (p_created_at (last (take limit rest)), int (p_id (last (take limit rest))))), v)"
      if "env v = e" for v
      using read_cursor_next [OF assms(1) token, of v] assms(4) that \<open>env u = e\<close> by simp
  qed (use x in simp_all)
  have "wp (load_page c cv limit)
     (\<lambda>p. wp (case pg_next_cursor p of None \<Rightarrow> retM [p]
            | Some token \<Rightarrow> letM (read_pages c limit n (Some token)) (\<lambda>ps. retM (p # ps)))
        (\<lambda>ps v. concat (map pg_items ps) = map listing_row_of rest \<and> full_pages limit ps \<and> db v = d \<and> quiet v) (\<lambda>_ _. False)) (\<lambda>_ _. False) v"
  proof (rule wp_mono [OF load_page_at [of v limit seen rest cv c]])
    show "quiet v" "0 < limit" "at cv seen" using v assms(2) Suc.prems(3) by simp_all
    show "distinct (map p_id (db_products (db v)))" "catalogue (db v) = seen @ rest" using v assms(3) Suc.prems(2) by simp_all
    fix p :: page and x :: state assume p: "pg_items p = map listing_row_of (take limit rest) \<and> db x = db v \<and> quiet x \<and> env x = env v \<and>
        (if length rest \<le> limit then pg_next_cursor p = None
         else \<exists>token u u'. pg_next_cursor p = Some token \<and> env u = env v \<and>
           encode_cursor c (p_created_at (last (take limit rest))) (p_id (last (take limit rest))) 3600 u = (Inr token, u'))"
    show "wp (case pg_next_cursor p of None \<Rightarrow> retM [p]
            | Some token \<Rightarrow> letM (read_pages c limit n (Some token)) (\<lambda>ps. retM (p # ps)))
        (\<lambda>ps v. concat (map pg_items ps) = map listing_row_of rest \<and> full_pages limit ps \<and> db v = d \<and> quiet v) (\<lambda>_ _. False) x"
    proof (cases "length rest \<le> limit")
      case True
      with p v show ?thesis by (simp add: wp_simps full_pages_def)
    next
      case False
      with p obtain token u u' where t: "pg_next_cursor p = Some token" "env u = env v"
        "encode_cursor c (p_created_at (last (take limit rest))) (p_id (last (take limit rest))) 3600 u = (Inr token, u')" by auto
      have x: "quiet x" "db x = d" "env x = e" "env u = e" using p v t(2) by simp_all
      have items: "pg_items p = map listing_row_of (take limit rest)" "length (pg_items p) = limit" using p False by auto
      show ?thesis
        using items
        by (simp add: t(1) wp_simps, intro wp_mono [OF IH [OF False t(3) x(4) x(1-3)]])
          (auto simp: full_pages_def map_append [symmetric] simp del: map_append)
    qed
  qed simp
  then show ?case by (simp add: wp_simps step)
qed

text \<open>C24: Following the cursors lists the whole catalogue: newest first, products of the same moment by id,
  every product exactly once and none skipped at a page boundary, all pages but the last full, and the
  reading ends. For every page size and every set of creation times, as long as no product changes
  and no cursor gets older than a day.\<close>

theorem listing_complete:
  fixes w :: state
  assumes "codec_ok c" and "0 < limit" and "quiet w" and "distinct (map p_id (db_products (db w)))"
    and "\<And>m n. timestamp (clock (env w) n) - timestamp (clock (env w) m) \<le> 24 * 3600"
    and "length (db_products (db w)) < n"
  shows "\<exists>ps w'. read_pages c limit n None w = (Inr ps, w') \<and> full_pages limit ps \<and>
     concat (map pg_items ps) = map listing_row_of (sort_key newest_first (db_products (db w)))"
proof -
  have "wp (read_pages c limit n None)
     (\<lambda>ps v. concat (map pg_items ps) = map listing_row_of (catalogue (db w)) \<and> full_pages limit ps \<and> db v = db w \<and> quiet v) (\<lambda>_ _. False) w"
    by (rule read_pages_from [where seen = "[]" and cv = None])
      (use assms in \<open>simp_all add: catalogue_def at_def read_cursor_def retM_def\<close>)
  then show ?thesis by (auto simp: wp_def catalogue_def split: prod.splits sum.splits)
qed

definition sample_listed :: "nat \<Rightarrow> int \<Rightarrow> product" where
  "sample_listed i t = \<lparr>p_id = i, p_public_id = i, p_stock_qty = 0, p_sku = None, p_name = str_nat i, p_description = None,
     p_base_price = 10, p_specs = JNull, p_owner_id = None, p_created_at = t, p_updated_at = t, p_deleted_at = None\<rparr>"

lemma listing_complete_witness:
  "\<exists>ps w'. read_pages sample_codec 2 9 None (start 0 (empty_db\<lparr>db_products := [sample_listed 2 5, sample_listed 3 7, sample_listed 4 5, sample_listed 5 1]\<rparr>)) = (Inr ps, w') \<and>
     full_pages 2 ps \<and> map lr_id (concat (map pg_items ps)) = [3, 2, 4, 5]"
proof -
  let ?d = "empty_db\<lparr>db_products := [sample_listed 2 5, sample_listed 3 7, sample_listed 4 5, sample_listed 5 1]\<rparr>"
  obtain ps w' where r: "read_pages sample_codec 2 9 None (start 0 ?d) = (Inr ps, w')" "full_pages 2 ps"
    "concat (map pg_items ps) = map listing_row_of (sort_key newest_first (db_products ?d))"
    using listing_complete [OF sample_codec_ok, of 2 "start 0 ?d" 9] by (auto simp: sample_listed_def)
  have "map lr_id (map listing_row_of (sort_key newest_first (db_products ?d))) = [3, 2, 4, 5]"
    by (simp add: sample_listed_def newest_first_def listing_row_of_def less_eq_prod_def)
  with r show ?thesis by metis
qed

section \<open>Patching\<close>

lemma returns_require_permissions: "(\<And>v. committed v = committed w \<Longrightarrow> db v = db w \<Longrightarrow> Q True v) \<Longrightarrow> returns (require_permissions p rs) Q w"
  by (auto simp: require_permissions_def returns_simps)

lemma returns_validate_categories:
  "(\<And>ids v. committed v = committed w \<Longrightarrow> db v = db w \<Longrightarrow> Q ids v) \<Longrightarrow> returns (validate_categories_by_names names) Q w"
  by (auto simp: validate_categories_by_names_def returns_simps Let_def split: option.split)

lemma returns_find_product:
  "(\<And>p v. committed v = committed w \<Longrightarrow> db v = db w \<Longrightarrow> p \<in> set (db_products (db w)) \<Longrightarrow> p_public_id p = pid \<Longrightarrow> Q (p_id p, p_owner_id p) v) \<Longrightarrow>
     returns (find_product_by_pid pid) Q w"
  by (auto simp: find_product_by_pid_def returns_simps one_or_none_Some split: option.split dest!: map_eq_Cons_D filter_eq_ConsD)

definition patched :: "product_update \<Rightarrow> nat \<Rightarrow> nat \<Rightarrow> database \<Rightarrow> database \<Rightarrow> bool" where
  "patched payload user i d d' \<longleftrightarrow> (\<exists>t rows. patch_rows (pu_fields payload) t (owned i user) (db_products d) = Inr rows \<and> d' = d\<lparr>db_products := rows\<rparr>)"

lemma patch_rows_others:
  assumes "patch_rows fs t p rows = Inr rows'"
  shows "length rows' = length rows" and "i < length rows \<Longrightarrow> \<not> p (rows ! i) \<Longrightarrow> rows' ! i = rows ! i" and "unique_on product_name_key rows'"
  using assms by (auto simp: patch_rows_def upd_def Let_def split: option.splits if_splits)

text \<open>C25: A patch that answers has changed the one product the caller owns and nothing else: every other
  product and every other table is as before, names stay unique. In particular the categories of the
  request, which are checked to exist, are never assigned.\<close>

theorem patch_own_product_only:
  assumes "with_session (update_product payload (Some pid) user roles) w = (Inr r, w')"
  shows "\<exists>p \<in> set (db_products (committed w)). p_public_id p = pid \<and> p_owner_id p = Some user \<and>
    (\<exists>rows. committed w' = (committed w)\<lparr>db_products := rows\<rparr> \<and> length rows = length (db_products (committed w)) \<and> unique_on product_name_key rows \<and>
      (\<forall>i < length rows. \<not> owned (p_id p) user (db_products (committed w) ! i) \<longrightarrow> rows ! i = db_products (committed w) ! i)) \<and>
    db_category_links (committed w') = db_category_links (committed w)"
proof -
  have patch: "returns (patch_product fs user i) (\<lambda>_ v. \<exists>t rows. patch_rows fs t (owned i user) (db_products (db u)) = Inr rows \<and> db v = (db u)\<lparr>db_products := rows\<rparr>) u"
    for fs i u
    by (auto simp: patch_product_def returns_simps map_sum_def split: option.split sum.splits)
  have "returns (with_session (update_product payload (Some pid) user roles))
      (\<lambda>_ v. \<exists>p \<in> set (db_products (committed w)). p_public_id p = pid \<and> p_owner_id p = Some user \<and> patched payload user (p_id p) (committed w) (committed v)) w"
    unfolding update_product_def option.case
    by (auto simp: returns_simps patched_def intro!: returns_require_permissions returns_validate_categories returns_find_product
        returns_mono [OF patch]) blast
  then obtain p where p: "p \<in> set (db_products (committed w))" "p_public_id p = pid" "p_owner_id p = Some user"
    "patched payload user (p_id p) (committed w) (committed w')"
    using assms by (auto dest: returnsD)
  then obtain t rows where rows: "patch_rows (pu_fields payload) t (owned (p_id p) user) (db_products (committed w)) = Inr rows"
    "committed w' = (committed w)\<lparr>db_products := rows\<rparr>" unfolding patched_def by blast
  note others = patch_rows_others [OF rows(1)]
  have "db_category_links (committed w') = db_category_links (committed w)" using rows(2) by simp
  then show ?thesis
    using p(1-3) rows(2) others by (intro bexI [of _ p] conjI exI [of _ rows]) auto
qed

definition sample_catalogue :: database where
  "sample_catalogue = empty_db\<lparr>db_products := [(sample_listed 2 5)\<lparr>p_owner_id := Some 9\<rparr>, sample_listed 3 7],
     db_categories := [\<lparr>pc_id = 4, pc_name = ''tea''\<rparr>], db_permissions := [\<lparr>perm_id = 6, perm_name = ''product:update''\<rparr>],
     db_role_permissions := [\<lparr>rp_id = 8, rp_role_id = 5, rp_permission_id = 6\<rparr>]\<rparr>"

definition sample_patch :: product_update where
  "sample_patch = \<lparr>pu_fields = [F_base_price (Some 99)], pu_category_names = Some [''tea'']\<rparr>"

lemma sample_patch_works:
  "\<exists>r w'. with_session (update_product sample_patch (Some 2) 9 [5]) (start 0 sample_catalogue) = (Inr r, w')"
proof -
  have "strip ''tea'' = ''tea''" by code_simp
  then have "wp (with_session (update_product sample_patch (Some 2) 9 [5])) (\<lambda>_ _. True) (\<lambda>_ _. False) (start 0 sample_catalogue)"
    by (simp add: update_product_def require_permissions_def validate_categories_by_names_def find_product_by_pid_def patch_product_def
        patch_rows_def owned_def wp_simps sample_catalogue_def sample_patch_def sample_listed_def quiet_reset Let_def
        unique_on_def product_name_key_def str_nat.simps)
  then show ?thesis by (auto simp: wp_def split: prod.splits sum.splits)
qed

lemma patch_own_product_only_witness:
  "\<exists>r w'. with_session (update_product sample_patch (Some 2) 9 [5]) (start 0 sample_catalogue) = (Inr r, w') \<and>
     db_category_links (committed w') = [] \<and> length (db_products (committed w')) = 2"
proof -
  obtain r w' where run: "with_session (update_product sample_patch (Some 2) 9 [5]) (start 0 sample_catalogue) = (Inr r, w')"
    using sample_patch_works by blast
  with patch_own_product_only [OF run] show ?thesis
    by (auto simp: sample_catalogue_def empty_db_def)
qed

end
