(* ===== verification/Users.thy ===== *)
theory Users
  imports Products
begin

text \<open>
  Accounts after sign-up: \<open>backend/user/repository.py\<close> and the routes of \<open>backend/user/routes.py\<close>: changing
  the password, changing the roles of a user, the avatar row. The image file itself is not modelled.
  The rejection of a foreign key by the role insert is not modelled (role ids are read from the table).
\<close>

section \<open>Lookups\<close>

definition userid_by_public_id :: "nat \<Rightarrow> nat option handler" where
  "userid_by_public_id user_pid =
     letM (query (\<lambda>d. map u_id (filter (\<lambda>u. u_public_id u = user_pid) (db_users d)))) (\<lambda>rows. retM (first_row rows))"

definition check_user_roles_version :: "nat \<Rightarrow> int option \<Rightarrow> int option handler" where
  "check_user_roles_version identifier role_version =
     letM (query (\<lambda>d. map u_role_version (filter (\<lambda>u. u_id u = identifier \<and> Some (u_role_version u) = role_version) (db_users d)))) (\<lambda>rows.
     retM (first_row rows))"

definition device_active :: "nat \<Rightarrow> nat option handler" where
  "device_active i =
     letM (query (\<lambda>d. map ds_id (filter (\<lambda>s. ds_id s = i \<and> ds_revoked_at s = None) (db_device_sessions d)))) (\<lambda>rows.
     retM (first_row rows))"

definition identify_user_by_pid :: "nat \<Rightarrow> nat option handler" where
  "identify_user_by_pid user_pid =
     letM (query (\<lambda>d. map u_id (filter (\<lambda>u. u_public_id u = user_pid \<and> u_deleted_at u = None) (db_users d)))) (\<lambda>rows.
     liftM (one_or_none rows))"

section \<open>Changing the password\<close>

definition is_password_of :: "nat \<Rightarrow> credential \<Rightarrow> bool" where
  "is_password_of user_id c \<longleftrightarrow> cred_user_id c = user_id \<and> cred_type c = CT_PASSWORD"

definition get_password_credential :: "nat \<Rightarrow> string option handler" where
  "get_password_credential user_id =
     letM (query (\<lambda>d. map (\<lambda>c. (cred_password_hash c, cred_revoked_at c)) (filter (is_password_of user_id) (db_credentials d)))) (\<lambda>rows.
     letM (liftM (one_or_none rows)) (\<lambda>res.
     case res of
       None \<Rightarrow> raiseM (forbidden ''Unexpected,No credential found for user'')
     | Some (pwd_hash, revoked) \<Rightarrow>
         if revoked \<noteq> None then raiseM (forbidden ''User password credential revoked'') else retM pwd_hash))"

definition update_password :: "nat \<Rightarrow> string \<Rightarrow> nat option handler" where
  "update_password user_id new_hash =
     letM now (\<lambda>t.
     letM (exec (\<lambda>d. let hit = (\<lambda>c. is_password_of user_id c \<and> cred_revoked_at c = None) in
        Inr (map cred_id (filter hit (db_credentials d)),
             db_credentials_update (upd hit (\<lambda>c. c\<lparr>cred_password_hash := Some new_hash, cred_updated_at := t\<rparr>)) d))) (\<lambda>rows.
     liftM (one_or_none rows)))"

record change_password_in =
  cp_current_password :: string
  cp_new_password :: string

text \<open>The scheme verifies nothing against a missing hash.\<close>

definition change_password :: "crypto \<Rightarrow> change_password_in \<Rightarrow> nat \<Rightarrow> unit handler" where
  "change_password cr payload user_identifier =
     (case validate_password (cp_new_password payload) 8 of (is_valid, detail) \<Rightarrow>
        if \<not> is_valid then raiseM (HTTPException 400 (Text detail))
        else
          letM (get_password_credential user_identifier) (\<lambda>curr_pwd_hash.
          if \<not> (case curr_pwd_hash of None \<Rightarrow> False | Some h \<Rightarrow> verify_password cr (cp_current_password payload) h)
          then raiseM (forbidden ''Current password is incorrect'')
          else
            letM (update_password user_identifier (hash_password cr (cp_new_password payload))) (\<lambda>updated_cred_id.
            if \<not> truthy_id updated_cred_id then raiseM (HTTPException 500 (Text ''Failed to update password retry''))
            else
              doM (revoke_all_tokens_per_user user_identifier ''password_change'')
              commit)))"

section \<open>Changing roles\<close>

definition get_role_ids_by_names :: "string list \<Rightarrow> (string \<times> nat) list handler" where
  "get_role_ids_by_names role_names =
     letM (query (\<lambda>d. map (\<lambda>r. (role_name r, role_id r)) (filter (\<lambda>r. role_name r \<in> set role_names) (db_roles d)))) (\<lambda>roles.
     if roles = [] \<or> length roles \<noteq> length role_names
     then raiseM (HTTPException 400 (Text ''One or more role names are invalid'')) else retM roles)"

definition get_rolenames_by_ids :: "nat list \<Rightarrow> string list handler" where
  "get_rolenames_by_ids role_ids = query (\<lambda>d. map role_name (filter (\<lambda>r. role_id r \<in> set role_ids) (db_roles d)))"

text \<open>A role the user has already is a unique violation: the whole transaction is rolled back and the
  loop goes on.\<close>

definition add_role :: "nat \<Rightarrow> (string \<times> nat) list \<Rightarrow> string \<Rightarrow> unit handler" where
  "add_role user_id ids name =
     letM (liftM (case map_of (rev ids) name of None \<Rightarrow> Inl KeyError | Some r \<Rightarrow> Inr r)) (\<lambda>rid.
     letM (next_id ''userrole'') (\<lambda>i.
     let row = \<lparr>ur_id = i, ur_user_id = user_id, ur_role_id = rid\<rparr> in
     tryM (exec (\<lambda>d. if conflict user_role_key row (db_user_roles d) then Inl IntegrityError
                     else Inr ((), db_user_roles_update (\<lambda>t. t @ [row]) d)))
       (\<lambda>e. if e = IntegrityError then rollback else raiseM e)))"

definition change_user_roles :: "nat \<Rightarrow> nat list \<Rightarrow> string list \<Rightarrow> int option handler" where
  "change_user_roles user_id cur_role_ids new_role_names =
     letM (get_role_ids_by_names new_role_names) (\<lambda>new_role_names_ids_map.
     doM (whenM (cur_role_ids \<noteq> [])
            (modify (db_user_roles_update (del (\<lambda>r. ur_user_id r = user_id \<and> ur_role_id r \<in> set cur_role_ids)))))
    (doM (forM new_role_names (add_role user_id new_role_names_ids_map))
    (tryM
      (letM now (\<lambda>t.
       letM (exec (\<lambda>d.
         let us = upd (\<lambda>u. u_id u = user_id) (\<lambda>u. u\<lparr>u_role_version := u_role_version u + 1, u_updated_at := t\<rparr>) (db_users d) in
         Inr (map u_role_version (filter (\<lambda>u. u_id u = user_id) us), d\<lparr>db_users := us\<rparr>))) (\<lambda>rows.
       liftM (one_or_none rows))))
      (\<lambda>e. if e = IntegrityError
           then doM rollback (raiseM (HTTPException 400 (Text ''Integrity constraint violation while updating role_version'')))
           else raiseM e))))"

text \<open>The current roles passed on are those of the actor, from the access token.\<close>

definition change_user_role :: "nat \<Rightarrow> string list \<Rightarrow> nat \<Rightarrow> nat list \<Rightarrow> int option handler" where
  "change_user_role user_public_id role_names actor_user_id cur_roles =
     letM (require_permissions ''user:manage'' cur_roles) (\<lambda>_.
     letM (userid_by_public_id user_public_id) (\<lambda>target.
     if \<not> truthy_id target then raiseM (HTTPException 404 (Text ''User not found''))
     else
       letM (get_rolenames_by_ids cur_roles) (\<lambda>names.
       if Some actor_user_id = target \<and> ''admin'' \<in> set names \<and> ''admin'' \<notin> set role_names
       then raiseM (HTTPException 409 (Text ''An admin cannot downgrade their role''))
       else
         letM (change_user_roles (the target) cur_roles role_names) (\<lambda>role_version.
         doM commit (retM role_version)))))"

section \<open>The avatar\<close>

text \<open>The keyword \<open>profile_img_path\<close> names no column of the table and is dropped.\<close>

definition insert_media :: "nat \<Rightarrow> nat handler" where
  "insert_media user_id =
     letM (next_id ''usermedia'') (\<lambda>i.
     let row = \<lparr>um_id = i, um_user_id = user_id, um_profile_image_url = None, um_profile_image_thumb_url = None\<rparr> in
     exec (\<lambda>d. if conflict user_media_key row (db_user_media d) then Inl IntegrityError
               else Inr (i, db_user_media_update (\<lambda>t. t @ [row]) d)))"

definition save_user_avatar :: "nat \<Rightarrow> string \<Rightarrow> nat handler" where
  "save_user_avatar user_id image_path =
     tryM (letM (insert_media user_id) (\<lambda>media_id. doM commit (retM media_id)))
       (\<lambda>e.
         if e = IntegrityError
         then
           doM rollback
          (letM (exec (\<lambda>d. let hit = (\<lambda>m. um_user_id m = user_id) in
              Inr (map um_id (filter hit (db_user_media d)),
                   db_user_media_update (upd hit (\<lambda>m. m\<lparr>um_profile_image_url := Some image_path, um_profile_image_thumb_url := None\<rparr>)) d))) (\<lambda>rows.
           case first_row rows of
             None \<Rightarrow> raiseM TypeError
           | Some i \<Rightarrow> doM commit (retM i)))
         else if e = CancelledError then raiseM e
         else doM rollback (raiseM (HTTPException 500 (Text ''Failed to save avatar''))))"

text \<open>The upload route stops at \<open>user_identifier.id\<close>: the identifier put into the request state is an integer.\<close>

definition upload_profile_image :: "string option \<Rightarrow> unit handler" where
  "upload_profile_image content_type =
     (case content_type of
        None \<Rightarrow> raiseM (HTTPException 400 (Text ''Only image uploads allowed''))
      | Some c \<Rightarrow>
          if c = [] \<or> takeWhile (\<lambda>x. x \<noteq> CHR ''/'') c \<noteq> ''image''
          then raiseM (HTTPException 400 (Text ''Only image uploads allowed''))
          else raiseM AttributeError)"

section \<open>What a password change leaves behind\<close>

lemma revoke_fields [simp]: "dt_revoked_at (revoke t b k) = Some t" "dt_user_id (revoke t b k) = dt_user_id k"
  by (simp_all add: revoke_def)

lemma live_after_revoking: "k \<in> set (upd p (revoke t b) ks) \<Longrightarrow> dt_revoked_at k = None \<Longrightarrow> k \<in> set ks \<and> \<not> p k"
  by (induction ks) (auto split: if_splits)

text \<open>C33: A password change that answers has checked the old password and the strength of the new one,
  has stored the new hash in every live password credential of the user, and leaves no live refresh
  token of the user on any device: every session has to log in again. One that raises has changed
  nothing.\<close>

theorem password_change_logs_out:
  "case with_session (change_password cr p user) w of
     (Inl e, w') \<Rightarrow> committed w' = committed w
   | (Inr _, w') \<Rightarrow>
       (\<exists>h. verify_password cr (cp_current_password p) h \<and>
          (\<exists>c \<in> set (db_credentials (committed w)). is_password_of user c \<and> cred_password_hash c = Some h)) \<and>
       fst (validate_password (cp_new_password p) 8) \<and>
       (\<forall>k \<in> set (db_auth_tokens (committed w')). dt_user_id k = user \<longrightarrow> dt_revoked_at k \<noteq> None) \<and>
       (\<forall>c \<in> set (db_credentials (committed w')). is_password_of user c \<and> cred_revoked_at c = None \<longrightarrow>
          cred_password_hash c = Some (hash_password cr (cp_new_password p)))"
proof -
  let ?Q = "\<lambda>v. (\<exists>h. verify_password cr (cp_current_password p) h \<and>
          (\<exists>c \<in> set (db_credentials (committed w)). is_password_of user c \<and> cred_password_hash c = Some h)) \<and>
       fst (validate_password (cp_new_password p) 8) \<and>
       (\<forall>k \<in> set (db_auth_tokens (committed v)). dt_user_id k = user \<longrightarrow> dt_revoked_at k \<noteq> None) \<and>
       (\<forall>c \<in> set (db_credentials (committed v)). is_password_of user c \<and> cred_revoked_at c = None \<longrightarrow>
          cred_password_hash c = Some (hash_password cr (cp_new_password p)))"
  have hashes: "cred_password_hash c = Some h"
    if "c \<in> set (upd (\<lambda>c. is_password_of user c \<and> cred_revoked_at c = None) (\<lambda>c. c\<lparr>cred_password_hash := Some h, cred_updated_at := t\<rparr>) cs)"
      and "is_password_of user c" and "cred_revoked_at c = None" for c h t cs user
    using that by (auto simp: set_upd)
  have old: "\<exists>c \<in> set cs. is_password_of user c \<and> cred_password_hash c = Some h"
    if "map (\<lambda>c. (cred_password_hash c, cred_revoked_at c)) (filter (is_password_of user) cs) = [(Some h, None)]" for cs h user
    using that by (auto dest!: map_eq_Cons_D filter_eq_ConsD)
  have ret: "returns (change_password cr p user) (\<lambda>_. ?Q) (w\<lparr>db := committed w, aborted := False\<rparr>)"
    unfolding change_password_def get_password_credential_def update_password_def revoke_all_tokens_per_user_def
    by (auto simp: returns_simps one_or_none_Some Let_def split: prod.split option.splits simp del: not_None_eq intro: hashes dest!: old dest: live_after_revoking)
  have "atomic (change_password cr p user)"
    unfolding change_password_def get_password_credential_def update_password_def revoke_all_tokens_per_user_def
    by (intro atomic_intros uncommitted_intros | simp add: atomic_uncommitted uncommitted_intros)+
  then show ?thesis
    using ret by (auto simp: with_session_def returns_def atomic_def split: prod.splits sum.splits)
qed

section \<open>What a change of roles cannot take away\<close>

definition has_role :: "nat \<Rightarrow> nat \<Rightarrow> database \<Rightarrow> bool" where
  "has_role user r d \<longleftrightarrow> (\<exists>x \<in> set (db_user_roles d). ur_user_id x = user \<and> ur_role_id x = r)"

text \<open>Changing a user's roles never takes away a role that the administrator who does it does not hold:
  the roles deleted are those of the actor, not those of the target. Whatever roles are asked for and
  whatever fails, such a role of the target is still there afterwards.\<close>

theorem role_change_keeps_unheld:
  assumes "has_role user r (committed w)" and "r \<notin> set cur_roles"
  shows "has_role user r (committed (serve (change_user_role pid role_names actor cur_roles) w))"
proof -
  have grow: "keeps (has_role user r) (exec (\<lambda>d. if conflict user_role_key x (db_user_roles d) then Inl IntegrityError
       else Inr ((), db_user_roles_update (\<lambda>t. t @ [x]) d)))" for x
    by (rule keeps_exec) (auto simp: has_role_def split: if_splits)
  have del: "keeps (has_role user r) (modify (db_user_roles_update (del (\<lambda>x. ur_user_id x = i \<and> ur_role_id x \<in> set cur_roles))))" for i
    by (rule keeps_modify) (use assms(2) in \<open>auto simp: has_role_def\<close>)
  have version: "keeps (has_role user r) (exec (\<lambda>d. let us = f d in Inr (g us, d\<lparr>db_users := us\<rparr>)))"
    for f :: "database \<Rightarrow> user list" and g :: "user list \<Rightarrow> int list"
    by (rule keeps_exec) (auto simp: has_role_def Let_def)
  have "keeps (has_role user r) (change_user_role pid role_names actor cur_roles)"
    unfolding change_user_role_def require_permissions_def userid_by_public_id_def get_rolenames_by_ids_def change_user_roles_def
      get_role_ids_by_names_def add_role_def
    by (intro keeps_intros grow del version | simp only: Let_def [of "upd _ _ _"] Let_def [of "\<lparr>ur_id = _, ur_user_id = _, ur_role_id = _\<rparr>"])+
  then show ?thesis using assms(1) by (rule serve_keeps)
qed

section \<open>Instances of the theorems\<close>

definition secured_accounts :: database where
  "secured_accounts = sample_accounts\<lparr>db_credentials := [\<lparr>cred_id = 6, cred_user_id = 2, cred_type = CT_PASSWORD,
     cred_provider = ''self'', cred_provider_user_id = None, cred_password_hash = Some ''old'', cred_created_at = 0,
     cred_updated_at = 0, cred_revoked_at = None\<rparr>]\<rparr>"

definition new_password :: change_password_in where
  "new_password = \<lparr>cp_current_password = ''old'', cp_new_password = ''Passw0rd!''\<rparr>"

lemma password_change_works:
  "\<exists>w'. with_session (change_password sample_crypto new_password 2) (start 0 secured_accounts) = (Inr (), w')"
proof -
  have "validate_password ''Passw0rd!'' 8 = (True, ''OK'')" by code_simp
  then have "wp (with_session (change_password sample_crypto new_password 2)) (\<lambda>_ _. True) (\<lambda>_ _. False) (start 0 secured_accounts)"
    by (simp add: change_password_def get_password_credential_def update_password_def revoke_all_tokens_per_user_def wp_simps
        secured_accounts_def sample_accounts_def empty_db_def new_password_def sample_crypto_def is_password_of_def quiet_reset Let_def)
  then show ?thesis by (auto simp: wp_def split: prod.splits sum.splits)
qed

lemma password_change_logs_out_witness:
  "\<exists>w'. with_session (change_password sample_crypto new_password 2) (start 0 secured_accounts) = (Inr (), w') \<and>
     filter (\<lambda>k. dt_user_id k = 2 \<and> dt_revoked_at k = None) (db_auth_tokens (committed w')) = []"
  using password_change_works
    password_change_logs_out [where cr = sample_crypto and p = new_password and user = 2 and w = "start 0 secured_accounts"]
  by (fastforce simp: filter_empty_conv)

lemma role_change_keeps_unheld_witness:
  "has_role 2 5 (committed (serve (change_user_role 20 [''guest''] 9 [8]) (start 0 sample_accounts)))"
  by (rule role_change_keeps_unheld) (simp_all add: has_role_def sample_accounts_def)

end
