(* ===== verification/Gateway.thy ===== *)
theory Gateway
  imports Users
begin

text \<open>
  What stands before and after the handlers: the middlewares of \<open>backend/middlewares\<close> in the order
  \<open>create_app\<close> of \<open>backend/main.py\<close> mounts them, the exception handlers of
  \<open>backend/common/custom_exceptions.py\<close> with the envelopes of \<open>backend/common/utils.py\<close>, and the routes
  of \<open>backend/common/routes.py\<close>. Decoding a bearer token (JOSE) is a parameter.
\<close>

section \<open>Responses\<close>

definition build_success :: "json \<Rightarrow> json \<Rightarrow> json" where
  "build_success data request_id = JObj [(''status'', JStr ''ok''), (''data'', data), (''error'', JNull),
     (''trace_id'', JNull), (''request_id'', request_id)]"

definition build_error :: "string \<Rightarrow> json \<Rightarrow> json \<Rightarrow> json" where
  "build_error code details request_id = JObj [(''status'', JStr ''error''), (''data'', JNull),
     (''error'', JObj [(''code'', JStr code), (''details'', details)]), (''trace_id'', JNull), (''request_id'', request_id)]"

definition message :: "string \<Rightarrow> json" where
  "message m = JObj [(''message'', JStr m)]"

fun detail_json :: "detail \<Rightarrow> json" where
  "detail_json (Text m) = JStr m"
| "detail_json (Fmt m ns) = JList (JStr m # map JInt ns)"
| "detail_json (Quote m q) = JList [JStr m, JStr q]"
| "detail_json (Errors ds) = JList (map detail_json ds)"

text \<open>An \<open>HTTPException\<close> answers with its own status, every other exception with 500 and no detail.\<close>

definition http_exception_handler :: "int \<Rightarrow> detail \<Rightarrow> json \<Rightarrow> int \<times> json" where
  "http_exception_handler status_code detail rid =
     (status_code, build_error (''HTTP_'' @ str_nat (nat status_code)) (JObj [(''message'', detail_json detail)]) rid)"

definition fallback_handler :: "exc \<Rightarrow> json \<Rightarrow> int \<times> json" where
  "fallback_handler e rid = (500, build_error ''SERVER_ERROR'' (message ''Internal Server Error '') rid)"

definition validation_exception_handler :: "json \<Rightarrow> int \<times> json" where
  "validation_exception_handler rid = (422, build_error ''UNPROCESSABLE_ENTITY'' (message ''invalid request'') rid)"

definition error_response :: "exc \<Rightarrow> json \<Rightarrow> int \<times> json" where
  "error_response e rid = (case e of HTTPException status d \<Rightarrow> http_exception_handler status d rid | _ \<Rightarrow> fallback_handler e rid)"

section \<open>Requests\<close>

record token_claims =
  tk_sub :: "nat option"
  tk_roles :: "nat list"
  tk_role_version :: "int option"
  tk_session_pid :: "nat option"

record request =
  rq_path :: string
  rq_bearer :: "string option"

text \<open>\<open>request.state\<close>; before authentication nothing is set.\<close>

record request_state =
  rs_user_identifier :: "nat option"
  rs_user_public_id :: "nat option"
  rs_user_roles :: "nat list"
  rs_role_version :: "int option"
  rs_session_pid :: "nat option"
  rs_sid :: "nat option"

definition no_state :: request_state where
  "no_state = \<lparr>rs_user_identifier = None, rs_user_public_id = None, rs_user_roles = [], rs_role_version = None,
     rs_session_pid = None, rs_sid = None\<rparr>"

datatype gate =
    Pass request_state
  | Refuse int json

definition starts_with_any :: "string list \<Rightarrow> string \<Rightarrow> bool" where
  "starts_with_any paths path \<longleftrightarrow> list_ex (\<lambda>p. take (length p) path = p) paths"

definition refuse :: "int \<Rightarrow> string \<Rightarrow> string \<Rightarrow> gate" where
  "refuse status code m = Refuse status (build_error code (message m) JNull)"

section \<open>The middlewares\<close>

definition identify_sub :: "nat option \<Rightarrow> nat option handler" where
  "identify_sub sub = (case sub of None \<Rightarrow> query (\<lambda>_. None) | Some pid \<Rightarrow> identify_user_by_pid pid)"

definition authentication_middleware :: "(string \<Rightarrow> token_claims option) \<Rightarrow> string list \<Rightarrow> request \<Rightarrow> gate handler" where
  "authentication_middleware decode_token paths request =
     (if starts_with_any paths (rq_path request) then retM (Pass no_state)
      else (case Option.bind (rq_bearer request) decode_token of
        None \<Rightarrow> retM (refuse 401 ''INVALID_AUTH'' ''Missing or Invalid Auth Headers'')
      | Some auth_token \<Rightarrow>
          letM (with_session (identify_sub (tk_sub auth_token))) (\<lambda>user_identifier.
          if \<not> truthy_id user_identifier
          then retM (refuse 403 ''INVALID_AUTH'' ''User unidentified and not authorized'')
          else retM (Pass \<lparr>rs_user_identifier = user_identifier, rs_user_public_id = tk_sub auth_token,
                 rs_user_roles = tk_roles auth_token, rs_role_version = tk_role_version auth_token,
                 rs_session_pid = tk_session_pid auth_token, rs_sid = None\<rparr>))))"

definition authorization_middleware :: "string list \<Rightarrow> request \<Rightarrow> request_state \<Rightarrow> gate handler" where
  "authorization_middleware paths request st =
     (if \<not> starts_with_any paths (rq_path request) then retM (Pass st)
      else if \<not> truthy_id (rs_user_identifier st) then retM (refuse 403 ''INVALID_AUTH'' ''User not authenticated'')
      else
        letM (with_session (check_user_roles_version (the (rs_user_identifier st)) (rs_role_version st))) (\<lambda>current_role_version.
        if current_role_version = None
        then retM (refuse 403 ''INVALID_AUTH'' ''Role version mismatch, trigger re login'')
        else retM (Pass st)))"

text \<open>The device middleware, which \<open>create_app\<close> does not mount. No row is a TypeError (the lookup subscripts
  None), and the key \<open>expires_at\<close> it reads is not one of the lookup's.\<close>

definition get_device_session_by_pid :: "nat \<Rightarrow> nat option \<Rightarrow> (nat \<times> int option \<times> int) handler" where
  "get_device_session_by_pid session_pid user_id =
     letM (query (\<lambda>d. map (\<lambda>s. (ds_id s, ds_revoked_at s, ds_session_expires_at s))
        (filter (\<lambda>s. ds_public_id s = session_pid \<and> ds_user_id s = user_id) (db_device_sessions d)))) (\<lambda>rows.
     letM (liftM (one_or_none rows)) (\<lambda>res.
     case res of None \<Rightarrow> raiseM TypeError | Some r \<Rightarrow> retM r))"

definition device_session_middleware :: "string list \<Rightarrow> request \<Rightarrow> request_state \<Rightarrow> gate handler" where
  "device_session_middleware paths request st =
     (if \<not> starts_with_any paths (rq_path request) then retM (Pass st)
      else (case rs_session_pid st of
        None \<Rightarrow> retM (Pass st)
      | Some pid \<Rightarrow>
          letM (with_session (get_device_session_by_pid pid (rs_user_identifier st))) (\<lambda>(i, revoked_at, expires_at).
          if revoked_at \<noteq> None then retM (refuse 403 ''INVALID_DEVICE_SESSION'' ''Session expired or revoked'')
          else raiseM KeyError)))"

section \<open>The application\<close>

definition version_prefix :: string where "version_prefix = ''/api/v1''"

definition public_paths :: "string list" where
  "public_paths = map (\<lambda>p. version_prefix @ p) [''/auth/'', ''/health'', ''/session/init'', ''/admin/uploads'', ''/webhooks''] @
     [''/webhooks''] @ map (\<lambda>p. version_prefix @ p) [''/products'', ''/checkout/test'', ''/admin/tests'']"

definition role_checked_paths :: "string list" where
  "role_checked_paths = [version_prefix @ ''/admin/products'']"

definition create_app :: "(string \<Rightarrow> token_claims option) \<Rightarrow> request \<Rightarrow> gate handler" where
  "create_app decode_token request =
     letM (authentication_middleware decode_token public_paths request) (\<lambda>g.
     case g of Refuse s b \<Rightarrow> retM (Refuse s b) | Pass st \<Rightarrow> authorization_middleware role_checked_paths request st)"

text \<open>A route behind the gate: what the client sees.\<close>

definition call_route :: "(string \<Rightarrow> token_claims option) \<Rightarrow> (request_state \<Rightarrow> 'a handler) \<Rightarrow> ('a \<Rightarrow> int \<times> json) \<Rightarrow> request \<Rightarrow> (int \<times> json) handler" where
  "call_route decode_token route render request =
     letM (create_app decode_token request) (\<lambda>g.
     case g of
       Refuse s b \<Rightarrow> retM (s, b)
     | Pass st \<Rightarrow> tryM (letM (with_session (route st)) (\<lambda>r. retM (render r)))
                    (\<lambda>e. if e = CancelledError then raiseM e else retM (error_response e JNull)))"

section \<open>Session and health routes\<close>

definition session_init :: "crypto \<Rightarrow> auth_config \<Rightarrow> string \<Rightarrow> string option \<Rightarrow> (nat \<times> string) handler" where
  "session_init cr cfg user_agent ip =
     letM (save_device_state cr cfg user_agent ip None) (\<lambda>(i, ds_public_id, ds_token_plain).
     doM commit (retM (ds_public_id, ds_token_plain)))"

definition health_check :: "unit handler" where
  "health_check = tryM (query (\<lambda>_. ()))
     (\<lambda>e. if e = CancelledError then raiseM e else raiseM (HTTPException 500 (Text ''Database connection error'')))"

section \<open>What the gate guarantees\<close>

lemma uncommitted_with_session [uncommitted_intros]: "uncommitted m \<Longrightarrow> uncommitted (with_session m)"
  using uncommittedD [of m] by (simp add: uncommitted_def with_session_def case_prod_beta)

lemma uncommitted_create_app: "uncommitted (create_app decode request)"
proof -
  have "uncommitted (authentication_middleware decode paths request)" for paths
    unfolding authentication_middleware_def identify_sub_def identify_user_by_pid_def
    by (intro uncommitted_intros)
  moreover have "uncommitted (authorization_middleware paths request st)" for paths st
    unfolding authorization_middleware_def check_user_roles_version_def by (intro uncommitted_intros)
  ultimately show ?thesis
    unfolding create_app_def by (auto intro!: uncommitted_intros split: gate.split)
qed

definition is_user :: "nat option \<Rightarrow> nat option \<Rightarrow> database \<Rightarrow> bool" where
  "is_user i pid d \<longleftrightarrow> (\<exists>u \<in> set (db_users d). i = Some (u_id u) \<and> pid = Some (u_public_id u) \<and> u_deleted_at u = None)"

definition has_version :: "nat option \<Rightarrow> int option \<Rightarrow> database \<Rightarrow> bool" where
  "has_version i v d \<longleftrightarrow> (\<exists>u \<in> set (db_users d). i = Some (u_id u) \<and> v = Some (u_role_version u))"

lemma returns_authentication:
  "returns (authentication_middleware decode paths request)
     (\<lambda>g v. committed v = committed w \<and> (\<forall>st. g = Pass st \<longrightarrow> (starts_with_any paths (rq_path request) \<and> st = no_state) \<or>
       (\<exists>token claims. rq_bearer request = Some token \<and> decode token = Some claims \<and> rs_user_roles st = tk_roles claims \<and>
          rs_role_version st = tk_role_version claims \<and> rs_user_public_id st = tk_sub claims \<and>
          is_user (rs_user_identifier st) (tk_sub claims) (committed w)))) w"
proof -
  have mem: "is_user x (Some pid) d" if "one_or_none (map u_id (filter (\<lambda>u. u_public_id u = pid \<and> u_deleted_at u = None) (db_users d))) = Inr x"
    and "truthy_id x" for x pid d
    using that by (cases x) (auto simp: is_user_def one_or_none_Some dest!: map_eq_Cons_D filter_eq_ConsD)
  show ?thesis
    by (auto simp: authentication_middleware_def identify_sub_def identify_user_by_pid_def returns_simps refuse_def bind_eq_Some_conv
        split: option.split dest: mem)
qed

text \<open>C28: The gate only lets identified users through: when a request for a path that is not public reaches
  its route, it carried a bearer token that decoded, and the user id the route will act for is that of
  a live account with the token's public id; for the product administration the token's roles are
  moreover those of the account's current role version.\<close>

theorem gate_identifies:
  assumes "create_app decode request w = (Inr (Pass st), w')" and "\<not> starts_with_any public_paths (rq_path request)"
  shows "committed w' = committed w \<and>
    (\<exists>token claims. rq_bearer request = Some token \<and> decode token = Some claims \<and> rs_user_roles st = tk_roles claims \<and>
       is_user (rs_user_identifier st) (tk_sub claims) (committed w) \<and>
       (starts_with_any role_checked_paths (rq_path request) \<longrightarrow>
          has_version (rs_user_identifier st) (tk_role_version claims) (committed w)))"
proof -
  have version: "has_version i v d" if "first_row (map u_role_version (filter (\<lambda>u. u_id u = the i \<and> Some (u_role_version u) = v) (db_users d))) = Some x"
    and "truthy_id i" for i v x d
    using that first_row_mem [OF that(1)] by (cases i) (auto simp: has_version_def)
  have authz: "returns (authorization_middleware role_checked_paths request s)
      (\<lambda>g v. \<forall>st. g = Pass st \<longrightarrow> st = s \<and> (starts_with_any role_checked_paths (rq_path request) \<longrightarrow>
         has_version (rs_user_identifier s) (rs_role_version s) (committed u))) u" for s u
    by (auto simp: authorization_middleware_def check_user_roles_version_def returns_simps refuse_def dest: version)
  have "returns (create_app decode request)
     (\<lambda>g v. \<forall>st. g = Pass st \<longrightarrow> (\<exists>token claims. rq_bearer request = Some token \<and> decode token = Some claims \<and> rs_user_roles st = tk_roles claims \<and>
       is_user (rs_user_identifier st) (tk_sub claims) (committed w) \<and>
       (starts_with_any role_checked_paths (rq_path request) \<longrightarrow>
          has_version (rs_user_identifier st) (tk_role_version claims) (committed w)))) w"
    unfolding create_app_def returns_let
    by (rule returns_mono [OF returns_authentication])
      (use assms(2) in \<open>auto simp: returns_simps split: gate.split intro!: returns_mono [OF authz]\<close>)
  then show ?thesis
    using assms(1) uncommittedD [OF uncommitted_create_app, of decode request w] by (auto dest: returnsD)
qed

definition user_admin :: "string \<Rightarrow> string" where
  "user_admin rest = version_prefix @ ''/admin/users'' @ rest"

definition product_admin :: "string \<Rightarrow> string" where
  "product_admin rest = version_prefix @ ''/admin/products'' @ rest"

lemma user_admin_paths:
  "\<not> starts_with_any public_paths (user_admin rest)" "\<not> starts_with_any role_checked_paths (user_admin rest)"
  "\<not> starts_with_any public_paths (product_admin rest)" "starts_with_any role_checked_paths (product_admin rest)"
  by (simp_all add: starts_with_any_def public_paths_def role_checked_paths_def version_prefix_def user_admin_def product_admin_def)

text \<open>C0: The administration of users is not behind the check of role versions. With a token whose role
  version is out of date, the product administration is refused, but every path under
  \<open>/admin/users\<close> is let through with the roles the token was issued with: an account whose roles were
  taken away keeps managing users for as long as its token lives.\<close>

theorem stale_roles_manage_users:
  assumes "quiet w" and "decode token = Some claims" and "tk_sub claims = Some pid"
    and "filter (\<lambda>u. u_public_id u = pid \<and> u_deleted_at u = None) (db_users (committed w)) = [u]" and "u_id u \<noteq> 0"
    and "\<And>x. x \<in> set (db_users (committed w)) \<Longrightarrow> u_id x = u_id u \<Longrightarrow> Some (u_role_version x) \<noteq> tk_role_version claims"
  shows "(\<exists>st w'. create_app decode \<lparr>rq_path = user_admin rest, rq_bearer = Some token\<rparr> w = (Inr (Pass st), w') \<and>
      rs_user_identifier st = Some (u_id u) \<and> rs_user_roles st = tk_roles claims) \<and>
    (\<exists>body w'. create_app decode \<lparr>rq_path = product_admin rest, rq_bearer = Some token\<rparr> w = (Inr (Refuse 403 body), w'))"
proof -
  have "wp (create_app decode \<lparr>rq_path = user_admin rest, rq_bearer = Some token\<rparr>)
      (\<lambda>g _. \<exists>st. g = Pass st \<and> rs_user_identifier st = Some (u_id u) \<and> rs_user_roles st = tk_roles claims) (\<lambda>_ _. False) w"
    using assms(1-5)
    by (simp add: create_app_def authentication_middleware_def authorization_middleware_def identify_sub_def identify_user_by_pid_def
        user_admin_paths wp_simps quiet_reset)
  moreover
  have none: "filter (\<lambda>x. u_id x = u_id u \<and> Some (u_role_version x) = tk_role_version claims) (db_users (committed w)) = []"
    using assms(6) by (auto simp: filter_empty_conv)
  have "wp (create_app decode \<lparr>rq_path = product_admin rest, rq_bearer = Some token\<rparr>)
      (\<lambda>g _. \<exists>body. g = Refuse 403 body) (\<lambda>_ _. False) w"
    using assms(1-5) none
    by (simp add: create_app_def authentication_middleware_def authorization_middleware_def identify_sub_def identify_user_by_pid_def
        check_user_roles_version_def user_admin_paths wp_simps quiet_reset refuse_def)
  ultimately show ?thesis by (auto simp: wp_def split: prod.splits sum.splits)
qed

definition sample_claims :: "string \<Rightarrow> token_claims option" where
  "sample_claims t = (if t = ''jwt'' then Some \<lparr>tk_sub = Some 20, tk_roles = [5], tk_role_version = Some 7, tk_session_pid = Some 30\<rparr> else None)"

lemma gate_identifies_witness:
  "\<exists>st w'. create_app sample_claims \<lparr>rq_path = ''/api/v1/cart/items'', rq_bearer = Some ''jwt''\<rparr> (start 0 sample_accounts) = (Inr (Pass st), w') \<and>
     rs_user_roles st = [5]"
proof -
  have paths: "\<not> starts_with_any public_paths ''/api/v1/cart/items''" "\<not> starts_with_any role_checked_paths ''/api/v1/cart/items''"
    by (simp_all add: starts_with_any_def public_paths_def role_checked_paths_def version_prefix_def)
  have "wp (create_app sample_claims \<lparr>rq_path = ''/api/v1/cart/items'', rq_bearer = Some ''jwt''\<rparr>) (\<lambda>g _. \<exists>st. g = Pass st) (\<lambda>_ _. False) (start 0 sample_accounts)"
    by (simp add: create_app_def authentication_middleware_def authorization_middleware_def identify_sub_def identify_user_by_pid_def
        paths wp_simps quiet_reset sample_claims_def sample_accounts_def)
  then obtain st w' where run: "create_app sample_claims \<lparr>rq_path = ''/api/v1/cart/items'', rq_bearer = Some ''jwt''\<rparr> (start 0 sample_accounts) = (Inr (Pass st), w')"
    by (auto simp: wp_def split: prod.splits sum.splits)
  with gate_identifies [OF run] paths show ?thesis by (auto simp: sample_claims_def split: if_splits)
qed

lemma stale_roles_manage_users_witness:
  "(\<exists>st w'. create_app sample_claims \<lparr>rq_path = user_admin ''/20/roles'', rq_bearer = Some ''jwt''\<rparr> (start 0 sample_accounts) = (Inr (Pass st), w') \<and>
      rs_user_roles st = [5]) \<and>
   (\<exists>body w'. create_app sample_claims \<lparr>rq_path = product_admin ''/20/roles'', rq_bearer = Some ''jwt''\<rparr> (start 0 sample_accounts) = (Inr (Refuse 403 body), w'))"
  using stale_roles_manage_users [where w = "start 0 sample_accounts" and decode = sample_claims and token = "''jwt''" and pid = 20
      and claims = "\<lparr>tk_sub = Some 20, tk_roles = [5], tk_role_version = Some 7, tk_session_pid = Some 30\<rparr>"
      and u = "hd (db_users sample_accounts)" and rest = "''/20/roles''"]
  by (simp add: sample_claims_def sample_accounts_def) blast

end
