(* ===== verification/Session_Cookies.thy ===== *)
theory Session_Cookies
  imports Gateway "HOL-Library.Sublist"
begin

text \<open>
  What the authentication routes put into their responses, and where tokens are read from: the routes of
  \<open>backend/auth/routes.py\<close> and \<open>session_init\<close> of \<open>backend/common/routes.py\<close> with the cookies they set, and the
  header-or-cookie dependencies of \<open>backend/auth/dependencies.py\<close>. The browser is a parameter: which of its
  cookies it sends to which path. The printed form of a UUID is a parameter, too.
\<close>

section \<open>Responses with cookies\<close>

record set_cookie =
  ck_name :: string
  ck_value :: string
  ck_httponly :: bool
  ck_secure :: bool
  ck_path :: string
  ck_max_age :: int

record http_response =
  hr_status :: int
  hr_body :: json
  hr_cookies :: "set_cookie list"

definition success_response :: "json \<Rightarrow> json \<Rightarrow> int \<Rightarrow> http_response" where
  "success_response request_id data status_code =
     \<lparr>hr_status = status_code, hr_body = build_success data request_id, hr_cookies = []\<rparr>"

definition COOKIE_NAME :: string where
  "COOKIE_NAME = ''__Secure-refresh_token''"

definition REFRESH_TOKEN_TTL_SECONDS :: "auth_config \<Rightarrow> int" where
  "REFRESH_TOKEN_TTL_SECONDS cfg = REFRESH_TOKEN_EXPIRE cfg * 24 * 3600"

text \<open>The number of days is used as it is; a cookie's age is in seconds.\<close>

definition SESSION_TOKEN_COOKIE_MAX_AGE :: "auth_config \<Rightarrow> int" where
  "SESSION_TOKEN_COOKIE_MAX_AGE cfg = DEVICE_SESSION_EXPIRE_DAYS cfg"

definition secure_flag :: "string \<Rightarrow> bool" where
  "secure_flag current_env \<longleftrightarrow> current_env \<noteq> ''dev''"

definition token_message :: "string \<Rightarrow> string \<Rightarrow> string \<Rightarrow> json" where
  "token_message current_env access refresh =
     JObj [(''message'', JObj ((''access_token'', JStr access) #
       (if current_env = ''dev'' then [(''refresh_token'', JStr refresh)] else [])))]"

definition login_response :: "auth_config \<Rightarrow> string \<Rightarrow> json \<Rightarrow> string \<times> string \<Rightarrow> http_response" where
  "login_response cfg current_env request_id = (\<lambda>(access, refresh).
     (success_response request_id (token_message current_env access refresh) 200)
       \<lparr>hr_cookies := [\<lparr>ck_name = COOKIE_NAME, ck_value = refresh, ck_httponly = True, ck_secure = secure_flag current_env,
          ck_path = ''/auth/refresh'', ck_max_age = REFRESH_TOKEN_TTL_SECONDS cfg\<rparr>]\<rparr>)"

definition refresh_response :: "auth_config \<Rightarrow> string \<Rightarrow> json \<Rightarrow> string \<times> string \<Rightarrow> http_response" where
  "refresh_response cfg current_env request_id = (\<lambda>(access, refresh_plain).
     (success_response request_id (token_message current_env access refresh_plain) 200)
       \<lparr>hr_cookies := [\<lparr>ck_name = COOKIE_NAME, ck_value = refresh_plain, ck_httponly = True, ck_secure = True,
          ck_path = ''/auth/refresh'', ck_max_age = REFRESH_TOKEN_TTL_SECONDS cfg\<rparr>]\<rparr>)"

text \<open>\<open>delete_cookie\<close> sets the cookie to the empty text with age 0.\<close>

definition delete_cookie :: "string \<Rightarrow> string \<Rightarrow> set_cookie" where
  "delete_cookie key path = \<lparr>ck_name = key, ck_value = [], ck_httponly = False, ck_secure = False, ck_path = path, ck_max_age = 0\<rparr>"

definition session_response :: "auth_config \<Rightarrow> string \<Rightarrow> (nat \<Rightarrow> string) \<Rightarrow> json \<Rightarrow> nat \<times> string \<Rightarrow> http_response" where
  "session_response cfg current_env show_uuid request_id = (\<lambda>(ds_public_id, ds_token_plain).
     (success_response request_id
        (JObj [(''message'', JObj ((''device_public_id'', JStr (show_uuid ds_public_id)) #
           (if current_env = ''dev'' then [(''session_token'', JStr ds_token_plain)] else [])))]) 200)
       \<lparr>hr_cookies :=
          [\<lparr>ck_name = ''session_token'', ck_value = ds_token_plain, ck_httponly = True, ck_secure = secure_flag current_env,
             ck_path = ''/'', ck_max_age = SESSION_TOKEN_COOKIE_MAX_AGE cfg\<rparr>,
           \<lparr>ck_name = ''device_public_id'', ck_value = show_uuid ds_public_id, ck_httponly = False, ck_secure = True,
             ck_path = ''/'', ck_max_age = SESSION_TOKEN_COOKIE_MAX_AGE cfg\<rparr>]\<rparr>)"

section \<open>Where a token is read from\<close>

definition header_or_cookie :: "string option \<Rightarrow> string option \<Rightarrow> string option" where
  "header_or_cookie header cookie = (case header of Some h \<Rightarrow> if h \<noteq> [] then Some h else cookie | None \<Rightarrow> cookie)"

definition device_session_plain :: "string option \<Rightarrow> string option \<Rightarrow> string option" where
  "device_session_plain device_header device_cookie = header_or_cookie device_header device_cookie"

definition device_session_pid :: "string option \<Rightarrow> string option \<Rightarrow> string option" where
  "device_session_pid device_header device_cookie = header_or_cookie device_header device_cookie"

definition refresh_token :: "string option \<Rightarrow> string option \<Rightarrow> string option" where
  "refresh_token refresh_header refresh_cookie = header_or_cookie refresh_header refresh_cookie"

section \<open>The routes\<close>

definition login_route :: "crypto \<Rightarrow> auth_config \<Rightarrow> string \<Rightarrow> json \<Rightarrow> string \<Rightarrow> string \<Rightarrow> string option \<Rightarrow> string option \<Rightarrow> breaker \<Rightarrow>
    ((exc + http_response) \<times> breaker) handler" where
  "login_route cr cfg current_env request_id email password device_header device_cookie cb =
     letM (login_user cr cfg email password (device_session_plain device_header device_cookie) cb) (\<lambda>(r, cb').
     retM (case r of Inl e \<Rightarrow> Inl e | Inr pair \<Rightarrow> Inr (login_response cfg current_env request_id pair), cb'))"

definition refresh_route :: "crypto \<Rightarrow> auth_config \<Rightarrow> string \<Rightarrow> json \<Rightarrow> string option \<Rightarrow> string option \<Rightarrow> http_response handler" where
  "refresh_route cr cfg current_env request_id refresh_header refresh_cookie =
     letM (refresh_auth cr cfg (refresh_token refresh_header refresh_cookie)) (\<lambda>pair.
     retM (refresh_response cfg current_env request_id pair))"

definition signup_route :: "crypto \<Rightarrow> auth_config \<Rightarrow> json \<Rightarrow> signup \<Rightarrow> http_response handler" where
  "signup_route cr cfg request_id payload =
     letM (signup_user cr cfg payload) (\<lambda>_.
     retM (success_response request_id (message ''User created successfully.'') 201))"

text \<open>\<open>find_device\<close> reads an identifier as PostgreSQL does.\<close>

definition logout_route :: "(string \<Rightarrow> nat option) \<Rightarrow> json \<Rightarrow> string option \<Rightarrow> string option \<Rightarrow> http_response handler" where
  "logout_route find_device request_id device_header device_cookie =
     letM (logout_device_session (Option.bind (device_session_pid device_header device_cookie) find_device)) (\<lambda>_.
     retM ((success_response request_id (message ''Logged out successfully.'') 200)
       \<lparr>hr_cookies := [delete_cookie COOKIE_NAME ''/auth/refresh'', delete_cookie ''device_public_id'' ''/'']\<rparr>))"

definition session_init_route :: "crypto \<Rightarrow> auth_config \<Rightarrow> string \<Rightarrow> (nat \<Rightarrow> string) \<Rightarrow> json \<Rightarrow> string \<Rightarrow> string option \<Rightarrow> http_response handler" where
  "session_init_route cr cfg current_env show_uuid request_id user_agent ip =
     letM (session_init cr cfg user_agent ip) (\<lambda>session.
     retM (session_response cfg current_env show_uuid request_id session))"

section \<open>A browser\<close>

text \<open>The value the framework finds for a cookie parameter: the first cookie of that name that the browser
  sends. \<open>sends c p\<close> says whether the browser sends the cookie to the path.\<close>

definition cookie_param :: "(set_cookie \<Rightarrow> string \<Rightarrow> bool) \<Rightarrow> set_cookie list \<Rightarrow> string \<Rightarrow> string \<Rightarrow> string option" where
  "cookie_param sends jar name path = map_option ck_value (first_row (filter (\<lambda>c. ck_name c = name \<and> sends c path) jar))"

definition refresh_path :: string where
  "refresh_path = version_prefix @ ''/auth/refresh''"

text \<open>What the three routes can have answered.\<close>

inductive auth_answer :: "auth_config \<Rightarrow> string \<Rightarrow> (nat \<Rightarrow> string) \<Rightarrow> http_response \<Rightarrow> bool"
  for cfg current_env show_uuid where
  logged_in: "auth_answer cfg current_env show_uuid (login_response cfg current_env rid t)"
| refreshed: "auth_answer cfg current_env show_uuid (refresh_response cfg current_env rid t)"
| started: "auth_answer cfg current_env show_uuid (session_response cfg current_env show_uuid rid s)"

lemma login_route_answers:
  "login_route cr cfg en rid email password h c cb w = (Inr (Inr r, cb'), w') \<Longrightarrow> auth_answer cfg en show_uuid r"
  unfolding login_route_def by (auto simp: letM_def retM_def intro: logged_in split: prod.splits sum.splits)

lemma refresh_route_answers:
  "refresh_route cr cfg en rid h c w = (Inr r, w') \<Longrightarrow> auth_answer cfg en show_uuid r"
  unfolding refresh_route_def by (auto simp: letM_def retM_def intro: refreshed split: prod.splits sum.splits)

lemma session_init_answers:
  "session_init_route cr cfg en show_uuid rid ua ip w = (Inr r, w') \<Longrightarrow> auth_answer cfg en show_uuid r"
  unfolding session_init_route_def by (auto simp: letM_def retM_def intro: started split: prod.splits sum.splits)

lemma refresh_cookie_path:
  assumes "auth_answer cfg en show_uuid r" and "c \<in> set (hr_cookies r)" and "ck_name c = COOKIE_NAME"
  shows "ck_path c = ''/auth/refresh''"
  using assms by cases (auto simp: login_response_def refresh_response_def session_response_def COOKIE_NAME_def
      success_response_def split: prod.splits)

text \<open>C35: A browser can never refresh with the cookie it was given: from any cookies that logins, refreshes and
  new sessions have set, a browser that sends a cookie only below the cookie's path gives the refresh route
  no token, and the route answers 401 without touching the database.\<close>

theorem cookie_refresh_impossible:
  assumes "\<And>c p. sends c p \<Longrightarrow> prefix (ck_path c) p"
    and "list_all (auth_answer cfg en show_uuid) rs"
  shows "refresh_route cr cfg en rid None (cookie_param sends (concat (map hr_cookies rs)) COOKIE_NAME refresh_path) w =
         (Inl (HTTPException 401 (Text ''Missing refresh token'')), w)"
proof -
  have "\<not> sends c refresh_path" if c: "c \<in> set (concat (map hr_cookies rs))" "ck_name c = COOKIE_NAME" for c
  proof
    assume "sends c refresh_path"
    then have "prefix (ck_path c) refresh_path" by (rule assms(1))
    moreover have "ck_path c = ''/auth/refresh''"
      using c assms(2) refresh_cookie_path by (auto simp: list_all_iff)
    ultimately show False by (simp add: refresh_path_def version_prefix_def)
  qed
  then have "filter (\<lambda>c. ck_name c = COOKIE_NAME \<and> sends c refresh_path) (concat (map hr_cookies rs)) = []"
    by (auto simp: filter_empty_conv)
  then have "cookie_param sends (concat (map hr_cookies rs)) COOKIE_NAME refresh_path = None"
    by (simp only: cookie_param_def) simp
  then show ?thesis
    by (simp add: refresh_route_def refresh_token_def header_or_cookie_def refresh_auth_def unauthorized_def letM_def raiseM_def)
qed

text \<open>A browser that follows the rule of RFC 6265: the cookie's path is the request's, or a prefix that ends at a slash.\<close>

definition path_match :: "set_cookie \<Rightarrow> string \<Rightarrow> bool" where
  "path_match c p \<longleftrightarrow> ck_path c = p \<or>
     prefix (ck_path c) p \<and> (last (ck_path c) = CHR ''/'' \<or> nth p (length (ck_path c)) = CHR ''/'')"

definition demo_answers :: "auth_config \<Rightarrow> http_response list" where
  "demo_answers cfg = [session_response cfg ''prod'' (\<lambda>_. ''id'') JNull (1, ''device''),
     login_response cfg ''prod'' JNull (''access'', ''refresh'')]"

lemma cookie_refresh_impossible_witness:
  "refresh_route sample_crypto sample_auth_config ''prod'' JNull None
     (cookie_param path_match (concat (map hr_cookies (demo_answers sample_auth_config))) COOKIE_NAME refresh_path) (start 0 sample_accounts) =
   (Inl (HTTPException 401 (Text ''Missing refresh token'')), start 0 sample_accounts)"
proof (rule cookie_refresh_impossible [where show_uuid = "\<lambda>_. ''id''" and en = "''prod''" and cfg = sample_auth_config])
  show "prefix (ck_path c) p" if "path_match c p" for c p
    using that by (auto simp: path_match_def)
  show "list_all (auth_answer sample_auth_config ''prod'' (\<lambda>_. ''id'')) (demo_answers sample_auth_config)"
    by (simp add: demo_answers_def auth_answer.intros)
qed

text \<open>The cookie of a device session is gone after as many seconds as the session lasts days.\<close>

definition session_row :: "auth_config \<Rightarrow> nat \<Rightarrow> int \<Rightarrow> device_session \<Rightarrow> bool" where
  "session_row cfg pid t s \<longleftrightarrow> ds_public_id s = pid \<and> ds_session_expires_at s = t + days (DEVICE_SESSION_EXPIRE_DAYS cfg)"

lemma session_cookie_short:
  assumes "session_init_route cr cfg en show_uuid rid ua ip w = (Inr r, w')"
  shows "\<exists>pid t. session_row cfg pid t (last (db_device_sessions (committed w'))) \<and>
    map ck_name (hr_cookies r) = [''session_token'', ''device_public_id''] \<and> ck_value (hr_cookies r ! 1) = show_uuid pid \<and>
    list_all (\<lambda>c. ck_max_age c = DEVICE_SESSION_EXPIRE_DAYS cfg) (hr_cookies r)"
proof -
  have "returns (session_init_route cr cfg en show_uuid rid ua ip) (\<lambda>r u. \<exists>pid t.
      session_row cfg pid t (last (db_device_sessions (committed u))) \<and>
      map ck_name (hr_cookies r) = [''session_token'', ''device_public_id''] \<and> ck_value (hr_cookies r ! 1) = show_uuid pid \<and>
      list_all (\<lambda>c. ck_max_age c = DEVICE_SESSION_EXPIRE_DAYS cfg) (hr_cookies r)) w"
    unfolding session_init_route_def session_init_def save_device_state_def Let_def
    by (auto simp: returns_simps session_row_def session_response_def success_response_def SESSION_TOKEN_COOKIE_MAX_AGE_def
        split: if_splits)
  then show ?thesis using assms by (rule returnsD)
qed

end
