(* ===== verification/Order_Pages.thy ===== *)
theory Order_Pages
  imports Gateway "HOL-Library.Sublist"
begin

text \<open>
  The payment page of \<open>backend/orders/routes.py\<close>: \<open>serve_checkout\<close> and its variant for test environments.
  The page is the template (a parameter) with three marks replaced; the printed form of the amount is a parameter.
\<close>

section \<open>The page\<close>

text \<open>\<open>s.replace(old, new)\<close> for a non-empty \<open>old\<close>; the number counts the characters still to be skipped.\<close>

fun replace_from :: "string \<Rightarrow> string \<Rightarrow> nat \<Rightarrow> string \<Rightarrow> string" where
  "replace_from old new n [] = []"
| "replace_from old new (Suc n) (c # s) = replace_from old new n s"
| "replace_from old new 0 (c # s) =
     (if prefix old (c # s) then new @ replace_from old new (length old - 1) s
      else c # replace_from old new 0 s)"

definition str_replace :: "string \<Rightarrow> string \<Rightarrow> string \<Rightarrow> string" where
  "str_replace old new s = replace_from old new 0 s"

definition checkout_page :: "string \<Rightarrow> string \<Rightarrow> string \<Rightarrow> string \<Rightarrow> string" where
  "checkout_page template key order_id amount =
     str_replace ''{{AMOUNT}}'' amount (str_replace ''{{ORDER_ID}}'' order_id (str_replace ''{{KEY}}'' key template))"

text \<open>Payment joined with its order, by the provider's order id.\<close>

definition checkout_rows :: "string \<Rightarrow> database \<Rightarrow> (string \<times> int \<times> nat) list" where
  "checkout_rows oid d = [(oid, pay_amount p, o_user_id ord).
     p \<leftarrow> db_payments d, pay_provider_order_id p = Some (JStr oid), ord \<leftarrow> db_orders d, o_id ord = pay_order_id p]"

definition provider_order :: "string \<Rightarrow> (string \<times> int \<times> nat) option handler" where
  "provider_order provider_order_public_id =
     letM (query (checkout_rows provider_order_public_id)) (\<lambda>rows. liftM (one_or_none rows))"

definition page_for :: "string \<Rightarrow> string \<Rightarrow> (int \<Rightarrow> string) \<Rightarrow> nat option \<Rightarrow> string \<Rightarrow> string handler" where
  "page_for template key show_int user_identifier provider_order_public_id =
     letM (provider_order provider_order_public_id) (\<lambda>row.
     case row of
       None \<Rightarrow> raiseM (HTTPException 404 (Text ''payment record not found for provided provider public order id ''))
     | Some (provider_order_id, amount, order_user_id) \<Rightarrow>
         if user_identifier \<noteq> Some order_user_id then raiseM (HTTPException 403 (Text ''Unauthorizes user''))
         else retM (checkout_page template key provider_order_id (show_int amount)))"

definition serve_checkout :: "string \<Rightarrow> string \<Rightarrow> (int \<Rightarrow> string) \<Rightarrow> request_state \<Rightarrow> string \<Rightarrow> string handler" where
  "serve_checkout template key show_int st provider_order_public_id =
     page_for template key show_int (rs_user_identifier st) provider_order_public_id"

definition test_checkout_upi_app_sim ::
    "string \<Rightarrow> string \<Rightarrow> (int \<Rightarrow> string) \<Rightarrow> (string \<Rightarrow> token_claims option) \<Rightarrow> string \<Rightarrow> string \<Rightarrow> string handler" where
  "test_checkout_upi_app_sim template key show_int decode_token provider_order_public_id auth_token =
     (case decode_token auth_token of
        None \<Rightarrow> raiseM (unauthorized ''Invalid or expired token provided.'')
      | Some decoded_token \<Rightarrow>
          letM (identify_sub (tk_sub decoded_token)) (\<lambda>user_identifier.
          page_for template key show_int user_identifier provider_order_public_id))"

section \<open>Who sees the page\<close>

definition pays_for :: "nat \<Rightarrow> string \<Rightarrow> int \<Rightarrow> database \<Rightarrow> bool" where
  "pays_for user_id oid amount d \<longleftrightarrow>
     (\<exists>p \<in> set (db_payments d). \<exists>ord \<in> set (db_orders d). pay_provider_order_id p = Some (JStr oid) \<and>
        o_id ord = pay_order_id p \<and> o_user_id ord = user_id \<and> pay_amount p = amount)"

lemma returns_provider_order:
  "returns (provider_order oid) (\<lambda>row u. db u = db w \<and> committed u = committed w \<and>
     (\<forall>i amount user_id. row = Some (i, amount, user_id) \<longrightarrow> i = oid \<and> pays_for user_id oid amount (db w))) w"
proof -
  have "i = oid \<and> pays_for user_id oid amount (db w)" if "one_or_none (checkout_rows oid (db w)) = Inr (Some (i, amount, user_id))"
    for i amount user_id
    using one_or_none_mem [OF that] by (auto 0 5 simp: checkout_rows_def pays_for_def)
  then show ?thesis by (auto simp: provider_order_def returns_simps)
qed

lemma page_for_owner:
  "returns (page_for template key show_int user_identifier oid)
     (\<lambda>page u. db u = db w \<and> committed u = committed w \<and> (\<exists>user_id amount. user_identifier = Some user_id \<and>
        pays_for user_id oid amount (db w) \<and> page = checkout_page template key oid (show_int amount))) w"
  unfolding page_for_def returns_let
  by (rule returns_mono [OF returns_provider_order])
    (auto simp: returns_raise returns_ret split: option.splits if_splits)

theorem checkout_page_owner_only:
  assumes "with_session (serve_checkout template key show_int st oid) w = (Inr page, w')"
  shows "committed w' = committed w \<and>
    (\<exists>user_id amount. rs_user_identifier st = Some user_id \<and> pays_for user_id oid amount (committed w) \<and>
       page = checkout_page template key oid (show_int amount))"
proof -
  let ?v = "w\<lparr>db := committed w, aborted := False\<rparr>"
  have "returns (with_session (serve_checkout template key show_int st oid)) (\<lambda>page u. committed u = committed w \<and>
      (\<exists>user_id amount. rs_user_identifier st = Some user_id \<and> pays_for user_id oid amount (committed w) \<and>
       page = checkout_page template key oid (show_int amount))) w"
    unfolding serve_checkout_def returns_with_session
    by (rule returns_mono [OF page_for_owner [of template key show_int "rs_user_identifier st" oid ?v]]) simp
  then show ?thesis using assms by (rule returnsD)
qed

end
