(* ===== verification/Upload_File.thy ===== *)
theory Upload_File
  imports Prelude "HOL-Library.Sublist"
begin

text \<open>
  Streaming an upload to disk: \<open>FileUpload\<close> of \<open>backend/user/utils.py\<close>. The file under the temporary path is its
  content, or None; \<open>ok n\<close> says whether the write that starts at byte \<open>n\<close> succeeds.
\<close>

definition MAX_UPLOAD_SIZE :: nat where "MAX_UPLOAD_SIZE = 5 * 1024 * 1024"
definition CHUNK_SIZE :: nat where "CHUNK_SIZE = 1024 * 1024"

text \<open>The loop: \<open>written\<close> bytes are written, \<open>src\<close> is still to be read.\<close>

function stream_loop :: "(nat \<Rightarrow> bool) \<Rightarrow> nat \<Rightarrow> 'b list \<Rightarrow> 'b list \<Rightarrow> (exc + nat) \<times> 'b list option" where
  "stream_loop ok written saved src =
     (let chunk = take CHUNK_SIZE src in
      if chunk = [] then (Inr written, Some saved)
      else if \<not> ok written then (Inl OSError, Some saved)
      else if MAX_UPLOAD_SIZE < written + length chunk then (Inl ValueError, None)
      else stream_loop ok (written + length chunk) (saved @ chunk) (drop CHUNK_SIZE src))"
  by auto
termination by (relation "measure (\<lambda>(ok, written, saved, src). length src)") (auto simp: CHUNK_SIZE_def)

declare stream_loop.simps [simp del]

definition stream_save_to_disk_sync :: "(nat \<Rightarrow> bool) \<Rightarrow> 'b list \<Rightarrow> (exc + nat) \<times> 'b list option" where
  "stream_save_to_disk_sync ok src_file = stream_loop ok 0 [] src_file"

section \<open>What is on disk\<close>

lemma stream_loop_end: "stream_loop ok written saved [] = (Inr written, Some saved)"
  by (subst stream_loop.simps) simp

text \<open>One turn, with the upload split into its first chunk and the rest.\<close>

lemma stream_loop_turn:
  assumes "src \<noteq> []"
  obtains c r where "src = c @ r" and "c \<noteq> []"
    and "stream_loop ok written saved src =
      (if \<not> ok written then (Inl OSError, Some saved)
       else if MAX_UPLOAD_SIZE < written + length c then (Inl ValueError, None)
       else stream_loop ok (written + length c) (saved @ c) r)"
proof
  show "src = take CHUNK_SIZE src @ drop CHUNK_SIZE src" by simp
  show chunk: "take CHUNK_SIZE src \<noteq> []" using assms by (simp add: CHUNK_SIZE_def)
  then show "stream_loop ok written saved src =
      (if \<not> ok written then (Inl OSError, Some saved)
       else if MAX_UPLOAD_SIZE < written + length (take CHUNK_SIZE src) then (Inl ValueError, None)
       else stream_loop ok (written + length (take CHUNK_SIZE src)) (saved @ take CHUNK_SIZE src) (drop CHUNK_SIZE src))"
    by (subst stream_loop.simps) (simp add: Let_def del: take_eq_Nil)
qed

lemma stream_loop_ok:
  assumes "\<And>n. ok n" and "written \<le> MAX_UPLOAD_SIZE"
  shows "stream_loop ok written saved src =
    (if written + length src \<le> MAX_UPLOAD_SIZE then (Inr (written + length src), Some (saved @ src)) else (Inl ValueError, None))"
  using assms(2)
proof (induction "length src" arbitrary: written saved src rule: less_induct)
  case less
  show ?case
  proof (cases "src = []")
    case True
    then show ?thesis using less.prems by (simp add: stream_loop_end)
  next
    case False
    then obtain c r where cr: "src = c @ r" "c \<noteq> []" and turn: "stream_loop ok written saved src =
      (if \<not> ok written then (Inl OSError, Some saved)
       else if MAX_UPLOAD_SIZE < written + length c then (Inl ValueError, None)
       else stream_loop ok (written + length c) (saved @ c) r)" by (rule stream_loop_turn)
    have "length r < length src" using cr by simp
    from less.hyps [OF this, of "written + length c" "saved @ c"] turn cr assms(1)
    show ?thesis by (simp add: add.assoc)
  qed
qed





theorem stream_save_limit:
  assumes "\<And>n. ok n"
  shows "stream_save_to_disk_sync ok src =
    (if length src \<le> MAX_UPLOAD_SIZE then (Inr (length src), Some src) else (Inl ValueError, None))"
  unfolding stream_save_to_disk_sync_def using stream_loop_ok [OF assms, where written = 0 and saved = "[]" and src = src] by simp

end
