(* ===== verification/Cache.thy ===== *)
theory Cache
  imports Gateway
begin

text \<open>
  The read-through caches in Redis: \<open>backend/cache/cache_get_n_set.py\<close> (product listings),
  \<open>backend/cache/cache_prod_details.py\<close> (product details), \<open>backend/cache/utils.py\<close>, and the two public
  routes of \<open>backend/products/routes.py\<close> that read through them. Other processes may change Redis
  before every command, and every command may fail; the printer of JSON bytes (orjson) and SHA-256 are
  parameters.
\<close>

section \<open>Redis\<close>

text \<open>Keys with values and expiry times. \<open>others n\<close> is what other clients did before command \<open>n\<close>, \<open>refused n\<close>
  the error command \<open>n\<close> meets.\<close>

record redis =
  store :: "string \<Rightarrow> (string \<times> int) option"
  others :: "nat \<Rightarrow> (string \<Rightarrow> (string \<times> int) option) \<Rightarrow> string \<Rightarrow> (string \<times> int) option"
  refused :: "nat \<Rightarrow> exc option"
  commands :: nat

type_synonym 'a cached = "redis \<Rightarrow> state \<Rightarrow> (exc + 'a) \<times> redis \<times> state"

definition retC :: "'a \<Rightarrow> 'a cached" where
  "retC x = (\<lambda>r w. (Inr x, r, w))"

definition raiseC :: "exc \<Rightarrow> 'a cached" where
  "raiseC e = (\<lambda>r w. (Inl e, r, w))"

definition letC :: "'a cached \<Rightarrow> ('a \<Rightarrow> 'b cached) \<Rightarrow> 'b cached" where
  "letC m k = (\<lambda>r w. case m r w of (x, r', w') \<Rightarrow> (case x of Inl e \<Rightarrow> (Inl e, r', w') | Inr a \<Rightarrow> k a r' w'))"

definition tryC :: "'a cached \<Rightarrow> (exc \<Rightarrow> 'a cached) \<Rightarrow> 'a cached" where
  "tryC m h = (\<lambda>r w. case m r w of (x, r', w') \<Rightarrow> (case x of Inl e \<Rightarrow> h e r' w' | Inr a \<Rightarrow> (Inr a, r', w')))"

definition finallyC :: "'a cached \<Rightarrow> unit cached \<Rightarrow> 'a cached" where
  "finallyC m f = (\<lambda>r w. case m r w of (x, r', w') \<Rightarrow>
     (case f r' w' of (y, r'', w'') \<Rightarrow> (case y of Inl e \<Rightarrow> (Inl e, r'', w'') | Inr _ \<Rightarrow> (x, r'', w''))))"

text \<open>A handler of the database, and a Redis command at the current time.\<close>

definition handlerC :: "'a handler \<Rightarrow> 'a cached" where
  "handlerC m = (\<lambda>r w. case m w of (x, w') \<Rightarrow> (x, r, w'))"

definition command :: "(int \<Rightarrow> (string \<Rightarrow> (string \<times> int) option) \<Rightarrow> 'a \<times> (string \<Rightarrow> (string \<times> int) option)) \<Rightarrow> 'a cached" where
  "command f = (\<lambda>r w.
     let s = others r (commands r) (store r); r' = r\<lparr>store := s, commands := Suc (commands r)\<rparr> in
     case refused r (commands r) of
       Some e \<Rightarrow> (Inl e, r', tick w)
     | None \<Rightarrow> (case f (clock (env w) (ticks w)) s of (x, s') \<Rightarrow> (Inr x, r'\<lparr>store := s'\<rparr>, tick w)))"

definition live :: "int \<Rightarrow> string \<Rightarrow> (string \<Rightarrow> (string \<times> int) option) \<Rightarrow> string option" where
  "live t key s = (case s key of None \<Rightarrow> None | Some (v, expiry) \<Rightarrow> if t < expiry then Some v else None)"

definition get_bytes :: "string \<Rightarrow> string option cached" where
  "get_bytes key = command (\<lambda>t s. (live t key s, s))"

definition set_bytes :: "string \<Rightarrow> string \<Rightarrow> int \<Rightarrow> unit cached" where
  "set_bytes key data ttl_seconds = command (\<lambda>t s. ((), s(key \<mapsto> (data, t + seconds ttl_seconds))))"

definition set_nx :: "string \<Rightarrow> string \<Rightarrow> int \<Rightarrow> bool cached" where
  "set_nx key v ttl_seconds = command (\<lambda>t s.
     if live t key s = None then (True, s(key \<mapsto> (v, t + seconds ttl_seconds))) else (False, s))"

definition delete :: "string \<Rightarrow> unit cached" where
  "delete key = command (\<lambda>t s. ((), s(key := None)))"

text \<open>The script of \<open>release_lock\<close>: delete the lock if it is still ours; on a failure delete it anyway.\<close>

definition release_script :: "string \<Rightarrow> string \<Rightarrow> unit cached" where
  "release_script lock_key token = command (\<lambda>t s. ((), if live t lock_key s = Some token then s(lock_key := None) else s))"

definition swallow :: "unit cached \<Rightarrow> unit cached" where
  "swallow m = tryC m (\<lambda>e. if e = CancelledError then raiseC e else retC ())"

definition release_lock :: "string \<Rightarrow> string \<Rightarrow> unit cached" where
  "release_lock lock_key token =
     tryC (release_script lock_key token)
       (\<lambda>e. if e = CancelledError then raiseC e else swallow (delete lock_key))"

section \<open>Listings\<close>

record cache_config =
  orjson_dumps :: "json \<Rightarrow> string"
  sha256_hex :: "string \<Rightarrow> string"
  isoformat :: "int \<Rightarrow> string"


definition REDIS_LOCK_TIMEOUT :: int where "REDIS_LOCK_TIMEOUT = 5"

text \<open>Load, print, store (a failure to store is ignored).\<close>

definition compute :: "cache_config \<Rightarrow> json handler \<Rightarrow> string \<Rightarrow> int \<Rightarrow> string cached" where
  "compute cc loader key ttl =
     letC (handlerC loader) (\<lambda>value.
     let payload_bytes = orjson_dumps cc (build_success value JNull) in
     letC (swallow (set_bytes key payload_bytes ttl)) (\<lambda>_.
     retC payload_bytes))"

text \<open>Polling every 50 ms until 9 s (listings) or 6 s (details) have been added up in floating point is 181
  or 121 polls. In the other mode of the listings there is one poll.\<close>

primrec poll :: "nat \<Rightarrow> string \<Rightarrow> string option cached" where
  "poll 0 key = retC None"
| "poll (Suc n) key = letC (get_bytes key) (\<lambda>raw. case raw of Some b \<Rightarrow> retC (Some b) | None \<Rightarrow> poll n key)"







section \<open>Details\<close>

definition product_details :: "database \<Rightarrow> product \<Rightarrow> json" where
  "product_details d p = JObj [(''public_id'', JUuid (p_public_id p)), (''stock_qty'', JInt (p_stock_qty p)),
     (''name'', JStr (p_name p)), (''description'', (case p_description p of None \<Rightarrow> JNull | Some t \<Rightarrow> JStr t)),
     (''base_price'', JInt (p_base_price p)), (''specs'', p_specs p), (''updated_at'', JTime (p_updated_at p)),
     (''categories'', JList [JObj [(''id'', JInt (int (pc_id c))), (''name'', JStr (pc_name c))].
        l \<leftarrow> db_category_links d, pcl_product_id l = p_id p, c \<leftarrow> db_categories d, pc_id c = pcl_category_id l])]"

text \<open>The product is selected first and its categories with a second statement. \<open>uuid_of\<close> reads a UUID; a
  text that is none is refused by the driver.\<close>

definition fetch_product_details :: "(string \<Rightarrow> nat option) \<Rightarrow> string \<Rightarrow> (product \<times> json) handler" where
  "fetch_product_details uuid_of product_public_id =
     letM (case uuid_of product_public_id of
             None \<Rightarrow> raiseM (DBAPIError False ''DataError'')
           | Some pid \<Rightarrow> query (filter (\<lambda>p. p_public_id p = pid \<and> p_deleted_at p = None) \<circ> db_products)) (\<lambda>rows.
     letM (liftM (one_or_none rows)) (\<lambda>found.
     case found of
       None \<Rightarrow> raiseM not_found
     | Some p \<Rightarrow> letM (query (\<lambda>d. product_details d p)) (\<lambda>j. retM (p, j))))"

text \<open>What a Redis script is given or a response is made of: bytes, or a dict, which neither takes.\<close>

datatype payload = Bytes string | Dict json | NoContent

text \<open>\<open>build_success\<close> wraps the bytes in a dict, which the client refuses as an argument.\<close>

definition set_if_newer :: "string \<Rightarrow> string \<Rightarrow> payload \<Rightarrow> string \<Rightarrow> int \<Rightarrow> int \<Rightarrow> bool cached" where
  "set_if_newer value_key ver_key data new_ver new_ts ttl = (case data of
     Bytes b \<Rightarrow> command (\<lambda>t s.
       let cur = (case live t ver_key s of None \<Rightarrow> 0 | Some v \<Rightarrow> (case int_of_str v of Inl _ \<Rightarrow> 0 | Inr i \<Rightarrow> i)) in
       if new_ts \<ge> cur
       then (True, s(value_key \<mapsto> (b, t + seconds ttl), ver_key \<mapsto> (new_ver, t + seconds ttl)))
       else (False, s))
   | _ \<Rightarrow> raiseC ValueError)"

definition set_product_cache_if_newer :: "cache_config \<Rightarrow> string \<Rightarrow> json \<Rightarrow> int \<Rightarrow> int \<Rightarrow> bool cached" where
  "set_product_cache_if_newer cc value_key payload new_ts ttl =
     (let data = orjson_dumps cc payload;
          success_payload = Dict (build_success (JStr data) JNull) in
      tryC (set_if_newer value_key (value_key @ '':ver'') success_payload (str_int new_ts) new_ts ttl)
        (\<lambda>e. if e = CancelledError then raiseC e else retC False))"

definition PRODUCT_DETAIL_TTL :: int where "PRODUCT_DETAIL_TTL = 15 * 60"

definition compute_details :: "cache_config \<Rightarrow> (string \<Rightarrow> nat option) \<Rightarrow> string \<Rightarrow> string \<Rightarrow> payload cached" where
  "compute_details cc uuid_of key product_public_id =
     letC (handlerC (fetch_product_details uuid_of product_public_id)) (\<lambda>(p, details).
     let ts = timestamp (p_updated_at p);
         details' = (case details of
             JObj kvs \<Rightarrow> JObj (map (\<lambda>(k, v). (k, if k = ''updated_at'' then JStr (isoformat cc (p_updated_at p)) else v)) kvs @
               [(''_cached_at'', JInt ts)])
           | j \<Rightarrow> j) in
     letC (set_product_cache_if_newer cc key details' ts PRODUCT_DETAIL_TTL) (\<lambda>_.
     retC (Dict details')))"

text \<open>Empty bytes count as missing (\<open>if raw:\<close>). Under the lock the first, missing, value is returned instead
  of the one found at the second look.\<close>

definition present :: "string option \<Rightarrow> bool" where
  "present raw \<longleftrightarrow> raw \<noteq> None \<and> raw \<noteq> Some []"

primrec poll_present :: "nat \<Rightarrow> string \<Rightarrow> string option cached" where
  "poll_present 0 key = retC None"
| "poll_present (Suc n) key = letC (get_bytes key) (\<lambda>raw. if present raw then retC raw else poll_present n key)"

definition cache_get_n_set_product_details :: "cache_config \<Rightarrow> (string \<Rightarrow> nat option) \<Rightarrow> string \<Rightarrow> string \<Rightarrow> payload cached" where
  "cache_get_n_set_product_details cc uuid_of key product_public_id =
     (let lock_key = key @ '':lock'' in
      letC (get_bytes key) (\<lambda>raw.
      if present raw then retC (Bytes (the raw))
      else
        letC (handlerC random_token) (\<lambda>token.
        letC (set_nx lock_key token REDIS_LOCK_TIMEOUT) (\<lambda>locked.
        if locked
        then finallyC
          (letC (get_bytes key) (\<lambda>raw_after.
           if present raw_after then retC (case raw of None \<Rightarrow> NoContent | Some b \<Rightarrow> Bytes b)
           else compute_details cc uuid_of key product_public_id))
          (release_lock lock_key token)
        else letC (poll_present 121 key) (\<lambda>raw_after.
          if present raw_after then retC (Bytes (the raw_after))
          else compute_details cc uuid_of key product_public_id)))))"

text \<open>\<open>Response(content=...)\<close> takes bytes or nothing; anything else it asks for \<open>encode\<close>.\<close>

fun response_body :: "payload \<Rightarrow> exc + string" where
  "response_body (Bytes b) = Inr b"
| "response_body NoContent = Inr []"
| "response_body (Dict j) = Inl AttributeError"

definition details_key :: "string \<Rightarrow> string" where
  "details_key product_public_id = ''product:'' @ product_public_id"

definition get_product_details :: "cache_config \<Rightarrow> (string \<Rightarrow> nat option) \<Rightarrow> string \<Rightarrow> string cached" where
  "get_product_details cc uuid_of product_public_id =
     letC (cache_get_n_set_product_details cc uuid_of (details_key product_public_id) product_public_id) (\<lambda>x.
     case response_body x of Inl e \<Rightarrow> raiseC e | Inr b \<Rightarrow> retC b)"

section \<open>What is stored and what is returned\<close>

text \<open>\<open>spec S m Q\<close>: if the store satisfies \<open>S\<close> and the other clients keep \<open>S\<close>, then \<open>m\<close> keeps it, and what \<open>m\<close>
  returns satisfies \<open>Q\<close>, whatever fails.\<close>

definition guarded_store :: "((string \<Rightarrow> (string \<times> int) option) \<Rightarrow> bool) \<Rightarrow> redis \<Rightarrow> bool" where
  "guarded_store S r \<longleftrightarrow> S (store r) \<and> (\<forall>n s. S s \<longrightarrow> S (others r n s))"

definition spec :: "((string \<Rightarrow> (string \<times> int) option) \<Rightarrow> bool) \<Rightarrow> 'a cached \<Rightarrow> ('a \<Rightarrow> bool) \<Rightarrow> bool" where
  "spec S m Q \<longleftrightarrow> (\<forall>r w x r' w'. guarded_store S r \<longrightarrow> m r w = (x, r', w') \<longrightarrow> guarded_store S r' \<and> (\<forall>a. x = Inr a \<longrightarrow> Q a))"

named_theorems spec_intros \<open>rules for cached computations\<close>

lemma spec_ret [spec_intros]: "Q x \<Longrightarrow> spec S (retC x) Q"
  by (simp add: spec_def retC_def)

lemma spec_raise [spec_intros]: "spec S (raiseC e) Q"
  by (simp add: spec_def raiseC_def)

lemma spec_let:
  assumes "spec S m R" and "\<And>a. R a \<Longrightarrow> spec S (k a) Q"
  shows "spec S (letC m k) Q"
  unfolding spec_def
proof (intro allI impI)
  fix r w x r' w' assume r: "guarded_store S r" and run: "letC m k r w = (x, r', w')"
  obtain y r1 w1 where m: "m r w = (y, r1, w1)" by (metis prod_cases3)
  then have one: "guarded_store S r1" "\<And>a. y = Inr a \<Longrightarrow> R a" using assms(1) r unfolding spec_def by blast+
  show "guarded_store S r' \<and> (\<forall>a. x = Inr a \<longrightarrow> Q a)"
  proof (cases y)
    case (Inl e)
    with run m one show ?thesis by (auto simp: letC_def)
  next
    case (Inr a)
    with run m have "k a r1 w1 = (x, r', w')" by (simp add: letC_def)
    then show ?thesis using assms(2) [of a] one Inr unfolding spec_def by blast
  qed
qed

lemma spec_try:
  assumes "spec S m Q" and "\<And>e. spec S (h e) Q"
  shows "spec S (tryC m h) Q"
  unfolding spec_def
proof (intro allI impI)
  fix r w x r' w' assume r: "guarded_store S r" and run: "tryC m h r w = (x, r', w')"
  obtain y r1 w1 where m: "m r w = (y, r1, w1)" by (metis prod_cases3)
  then have one: "guarded_store S r1" "\<And>a. y = Inr a \<Longrightarrow> Q a" using assms(1) r unfolding spec_def by blast+
  show "guarded_store S r' \<and> (\<forall>a. x = Inr a \<longrightarrow> Q a)"
  proof (cases y)
    case (Inl e)
    with run m have "h e r1 w1 = (x, r', w')" by (simp add: tryC_def)
    then show ?thesis using assms(2) [of e] one unfolding spec_def by blast
  next
    case (Inr a)
    with run m one show ?thesis by (auto simp: tryC_def)
  qed
qed

lemma spec_finally:
  assumes "spec S m Q" and "spec S f (\<lambda>_. True)"
  shows "spec S (finallyC m f) Q"
  unfolding spec_def
proof (intro allI impI)
  fix r w x r' w' assume r: "guarded_store S r" and run: "finallyC m f r w = (x, r', w')"
  obtain y r1 w1 where m: "m r w = (y, r1, w1)" by (metis prod_cases3)
  then have one: "guarded_store S r1" "\<And>a. y = Inr a \<Longrightarrow> Q a" using assms(1) r unfolding spec_def by blast+
  obtain z r2 w2 where f: "f r1 w1 = (z, r2, w2)" by (metis prod_cases3)
  then have two: "guarded_store S r2" using assms(2) one(1) unfolding spec_def by blast
  show "guarded_store S r' \<and> (\<forall>a. x = Inr a \<longrightarrow> Q a)"
    using run m f one(2) two by (cases z) (auto simp: finallyC_def)
qed

lemma spec_handler: "(\<And>w. returns m (\<lambda>x _. Q x) w) \<Longrightarrow> spec S (handlerC m) Q"
  by (auto simp: spec_def handlerC_def returns_def split: prod.splits)

lemma spec_handler_any: "spec S (handlerC m) (\<lambda>_. True)"
  by (rule spec_handler) (simp add: returns_def)

lemma spec_command:
  "(\<And>t s. S s \<Longrightarrow> S (snd (f t s)) \<and> Q (fst (f t s))) \<Longrightarrow> spec S (command f) Q"
  by (auto simp: spec_def command_def guarded_store_def Let_def split: option.splits prod.splits) (metis snd_conv, metis fst_conv)

lemma spec_weaken: "spec S m R \<Longrightarrow> (\<And>a. R a \<Longrightarrow> Q a) \<Longrightarrow> spec S m Q"
  by (auto simp: spec_def)

lemma spec_swallow: "spec S m (\<lambda>_. True) \<Longrightarrow> spec S (swallow m) (\<lambda>_. True)"
  unfolding swallow_def by (rule spec_try) (auto intro: spec_intros)

lemma specD: "spec S m Q \<Longrightarrow> guarded_store S r \<Longrightarrow> m r w = (x, r', w') \<Longrightarrow> guarded_store S r' \<and> (\<forall>a. x = Inr a \<longrightarrow> Q a)"
  unfolding spec_def by blast

text \<open>A predicate on the store that only looks at one kind of keys.\<close>

definition ignores :: "string \<Rightarrow> ((string \<Rightarrow> (string \<times> int) option) \<Rightarrow> bool) \<Rightarrow> bool" where
  "ignores key S \<longleftrightarrow> (\<forall>s v. S s \<longrightarrow> S (s(key := v)))"

lemma spec_set_nx: "ignores key S \<Longrightarrow> spec S (set_nx key v ttl) (\<lambda>_. True)"
  unfolding set_nx_def by (rule spec_command) (auto simp: ignores_def)

lemma spec_release_lock: "ignores key S \<Longrightarrow> spec S (release_lock key token) (\<lambda>_. True)"
  unfolding release_lock_def release_script_def
  by (rule spec_try) (auto intro!: spec_command spec_intros spec_swallow simp: ignores_def delete_def)

text \<open>The two interfaces the caches rest on: the entry under one key satisfies \<open>Q\<close>, or is absent.\<close>

definition entry :: "string \<Rightarrow> (string \<Rightarrow> bool) \<Rightarrow> (string \<Rightarrow> (string \<times> int) option) \<Rightarrow> bool" where
  "entry key Q s \<longleftrightarrow> (\<forall>v e. s key = Some (v, e) \<longrightarrow> Q v)"

lemma ignores_entry: "k \<noteq> key \<Longrightarrow> ignores k (entry key Q)"
  by (simp add: ignores_def entry_def)

lemma lock_is_another_key [simp]: "key @ '':lock'' \<noteq> key" "key \<noteq> key @ '':lock''"
  by auto

lemma live_entry: "entry key Q s \<Longrightarrow> live t key s = Some b \<Longrightarrow> Q b"
  by (auto simp: entry_def live_def split: option.splits prod.splits if_splits)

lemma spec_get_bytes:
  "spec (entry key Q) (get_bytes key) (\<lambda>raw. \<forall>b. raw = Some b \<longrightarrow> Q b)"
  unfolding get_bytes_def by (rule spec_command) (auto intro: live_entry)

lemma spec_get_bytes_any: "spec S (get_bytes key) (\<lambda>_. True)"
  unfolding get_bytes_def by (rule spec_command) simp



lemma spec_poll_present_any: "spec S (poll_present n key) (\<lambda>_. True)"
  by (induction n) (auto intro!: spec_ret spec_let [OF spec_get_bytes_any])

lemma spec_poll_present: "spec (entry key Q) (poll_present n key) (\<lambda>raw. \<forall>b. raw = Some b \<longrightarrow> Q b)"
proof (induction n)
  case 0
  show ?case by (simp add: spec_ret)
next
  case (Suc n)
  show ?case
    unfolding poll_present.simps by (rule spec_let [OF spec_get_bytes]) (auto intro: Suc spec_ret)
qed






definition idle_redis :: redis where
  "idle_redis = \<lparr>store = (\<lambda>_. None), others = (\<lambda>_ s. s), refused = (\<lambda>_. None), commands = 0\<rparr>"



section \<open>The details are never served\<close>

lemma set_if_newer_dict [spec_intros]: "spec S (set_if_newer k vk (Dict j) v n ttl) Q"
  by (simp add: set_if_newer_def spec_raise)

lemma spec_compute_details: "spec S (compute_details cc uuid_of key pid) (\<lambda>x. \<exists>j. x = Dict j)"
  unfolding compute_details_def set_product_cache_if_newer_def Let_def
  by (rule spec_let [OF spec_handler_any])
     (auto split: prod.splits intro!: spec_let [where R = "\<lambda>_. True"] spec_try spec_intros)

lemma spec_details:
  assumes "key' @ '':lock'' \<noteq> key"
  shows "spec (entry key (\<lambda>_. False)) (cache_get_n_set_product_details cc uuid_of key' pid)
           (\<lambda>x. key = key' \<longrightarrow> (\<exists>j. x = Dict j))"
proof -
  have get: "spec (entry key (\<lambda>_. False)) (get_bytes key') (\<lambda>raw. key = key' \<longrightarrow> raw = None)"
    using spec_get_bytes [of key "\<lambda>_. False"] spec_get_bytes_any by (cases "key = key'") (auto elim!: spec_weaken)
  have poll: "spec (entry key (\<lambda>_. False)) (poll_present n key') (\<lambda>raw. key = key' \<longrightarrow> raw = None)" for n
    using spec_poll_present [of key "\<lambda>_. False" n] spec_poll_present_any by (cases "key = key'") (auto elim!: spec_weaken)
  have compute: "spec (entry key (\<lambda>_. False)) (compute_details cc uuid_of key' pid) (\<lambda>x. key = key' \<longrightarrow> (\<exists>j. x = Dict j))"
    by (rule spec_weaken [OF spec_compute_details]) simp
  have compute_any: "spec (entry key (\<lambda>_. False)) (compute_details cc uuid_of key' pid) (\<lambda>_. True)"
    by (rule spec_weaken [OF spec_compute_details]) simp
  show ?thesis
    unfolding cache_get_n_set_product_details_def Let_def
    by (rule spec_let [OF get])
       (auto simp: present_def intro!: spec_ret spec_finally spec_let [OF spec_handler_any] spec_let [OF spec_set_nx]
          spec_let [OF get] spec_let [OF poll] spec_release_lock ignores_entry compute compute_any assms)
qed

text \<open>The product details are never served and never cached: the route fails on every request for a key that is
  not in the cache, whatever the database and Redis do, and no details request of any product puts an
  entry there (the dict is refused both by the Redis client and by the response).\<close>

theorem details_never_served:
  assumes "guarded_store (entry (details_key product) (\<lambda>_. False)) r"
    and "get_product_details cc uuid_of asked r w = (x, r', w')"
    and "product \<noteq> asked @ '':lock''"
  shows "guarded_store (entry (details_key product) (\<lambda>_. False)) r' \<and> (asked = product \<longrightarrow> (\<exists>e. x = Inl e))"
proof -
  have "spec (entry (details_key product) (\<lambda>_. False)) (get_product_details cc uuid_of asked) (\<lambda>_. asked \<noteq> product)"
    unfolding get_product_details_def
    by (rule spec_let [OF spec_details])
       (use assms(3) in \<open>auto simp: details_key_def split: sum.splits intro!: spec_intros elim: response_body.elims\<close>)
  from specD [OF this assms(1,2)] show ?thesis by (cases x) auto
qed

lemma details_never_served_witness:
  "\<forall>cc. \<exists>e. fst (get_product_details cc (\<lambda>_. Some 1) ''p1'' idle_redis (start 0 empty_db)) = Inl e"
proof
  fix cc
  obtain x r' w' where run: "get_product_details cc (\<lambda>_. Some 1) ''p1'' idle_redis (start 0 empty_db) = (x, r', w')"
    by (rule prod_cases3)
  from details_never_served [OF _ run, of "''p1''"]
  show "\<exists>e. fst (get_product_details cc (\<lambda>_. Some 1) ''p1'' idle_redis (start 0 empty_db)) = Inl e"
    unfolding run by (auto simp: guarded_store_def entry_def idle_redis_def)
qed

end
