(* ===== verification/Rate_Limit.thy ===== *)
theory Rate_Limit
  imports Gateway
begin

text \<open>
  Rate limiting: the Lua scripts of \<open>backend/rate_limiting/lua_scripts.py\<close>, the fixed and the sliding window
  around them, the in-process fallback and the key of a request (\<open>rate_limiting/utils.py\<close>), the middleware
  (\<open>middlewares/rate_limit_middleware.py\<close>, which \<open>create_app\<close> does not mount) and the route dependency. A script runs
  at one moment and alone, as Redis runs it.
\<close>

section \<open>Redis and the process\<close>

datatype script = Fixed_Window | Sliding_Window

datatype rvalue = Counter int | Sorted_Set "(int \<times> string) list"

type_synonym keyspace = "string \<Rightarrow> (rvalue \<times> int option) option"

text \<open>The keys with their expiry times in milliseconds, the clock, what fails, random text; and the module's
  globals \<open>_script_sha\<close> and \<open>_in_memory_counters\<close>.\<close>

record limiter =
  keyspace :: keyspace
  clocks :: "nat \<Rightarrow> int"
  failing :: "nat \<Rightarrow> exc option"
  fragments :: "nat \<Rightarrow> string"
  steps :: nat
  script_sha :: "script option"
  in_memory_counters :: "string \<Rightarrow> (int \<times> int) option"

type_synonym 'a limited = "limiter \<Rightarrow> (exc + 'a) \<times> limiter"

definition retL :: "'a \<Rightarrow> 'a limited" where
  "retL x = (\<lambda>l. (Inr x, l))"

definition raiseL :: "exc \<Rightarrow> 'a limited" where
  "raiseL e = (\<lambda>l. (Inl e, l))"

definition letL :: "'a limited \<Rightarrow> ('a \<Rightarrow> 'b limited) \<Rightarrow> 'b limited" where
  "letL m k = (\<lambda>l. case m l of (x, l') \<Rightarrow> (case x of Inl e \<Rightarrow> (Inl e, l') | Inr a \<Rightarrow> k a l'))"

text \<open>\<open>except Exception\<close>: a cancellation is not caught.\<close>

definition exceptL :: "'a limited \<Rightarrow> (exc \<Rightarrow> 'a limited) \<Rightarrow> 'a limited" where
  "exceptL m h = (\<lambda>l. case m l of (x, l') \<Rightarrow>
     (case x of Inl e \<Rightarrow> if e = CancelledError then (Inl e, l') else h e l' | Inr a \<Rightarrow> (Inr a, l')))"

definition updL :: "(limiter \<Rightarrow> limiter) \<Rightarrow> unit limited" where
  "updL f = (\<lambda>l. (Inr (), f l))"

definition py_time :: "int limited" where
  "py_time = (\<lambda>l. (Inr (clocks l (steps l) div 1000), l\<lparr>steps := Suc (steps l)\<rparr>))"

definition redis_call :: "(int \<Rightarrow> keyspace \<Rightarrow> exc + 'a \<times> keyspace) \<Rightarrow> 'a limited" where
  "redis_call f = (\<lambda>l.
     let l' = l\<lparr>steps := Suc (steps l)\<rparr> in
     case failing l (steps l) of
       Some e \<Rightarrow> (Inl e, l')
     | None \<Rightarrow> (case f (clocks l (steps l)) (keyspace l) of
         Inl e \<Rightarrow> (Inl e, l') | Inr (x, s) \<Rightarrow> (Inr x, l'\<lparr>keyspace := s\<rparr>)))"

definition lookup_key :: "int \<Rightarrow> keyspace \<Rightarrow> string \<Rightarrow> (rvalue \<times> int option) option" where
  "lookup_key t s key = (case s key of
     None \<Rightarrow> None
   | Some (v, None) \<Rightarrow> Some (v, None)
   | Some (v, Some e) \<Rightarrow> if t < e then Some (v, Some e) else None)"

section \<open>The scripts\<close>

definition response_error :: "string \<Rightarrow> exc" where
  "response_error m = RuntimeError (Text m)"

text \<open>\<open>INCR\<close>, \<open>PEXPIRE\<close> for a new counter or one without expiry, \<open>PTTL\<close>.\<close>

definition LUA_FIXED_WINDOW_INCR_AND_PEXPIRE :: "string \<Rightarrow> int \<Rightarrow> int \<Rightarrow> keyspace \<Rightarrow> exc + int list \<times> keyspace" where
  "LUA_FIXED_WINDOW_INCR_AND_PEXPIRE key pexpire_ms t s =
     (case lookup_key t s key of
        Some (Sorted_Set _, _) \<Rightarrow> Inl (response_error ''WRONGTYPE'')
      | found \<Rightarrow>
          (let (counter, expiry) = (case found of Some (Counter c, e) \<Rightarrow> (c + 1, e) | _ \<Rightarrow> (1, None));
               expiry' = (if counter = 1 then t + pexpire_ms else case expiry of None \<Rightarrow> t + pexpire_ms | Some e \<Rightarrow> e);
               ttl = expiry' - t
           in Inr ([counter, ttl], s(key \<mapsto> (Counter counter, Some expiry')))))"

text \<open>Redis lets a script neither create nor read an undeclared global variable; \<open>oldest_timestamp\<close> and \<open>min_score\<close>
  are not declared \<open>local\<close>.\<close>

definition lua_set_global :: "string \<Rightarrow> int \<Rightarrow> exc + unit" where
  "lua_set_global x v = Inl (response_error (''Script attempted to create global variable '' @ x))"

definition lua_get_global :: "string \<Rightarrow> exc + int" where
  "lua_get_global x = Inl (response_error (''Script attempted to access nonexistent global variable '' @ x))"

definition LUA_SLIDING_WINDOW :: "string \<Rightarrow> int \<Rightarrow> int \<Rightarrow> int \<Rightarrow> string \<Rightarrow> int \<Rightarrow> keyspace \<Rightarrow> exc + int list \<times> keyspace" where
  "LUA_SLIDING_WINDOW key window_ms limit now_ms member t s =
     (case lua_set_global ''oldest_timestamp'' (now_ms - window_ms) of Inl e \<Rightarrow> Inl e | Inr _ \<Rightarrow>
     (case lua_get_global ''min_score'' of Inl e \<Rightarrow> Inl e | Inr min_score \<Rightarrow>
     (case lookup_key t s key of
        Some (Counter _, _) \<Rightarrow> Inl (response_error ''WRONGTYPE'')
      | found \<Rightarrow>
          (let (entries, expiry) = (case found of Some (Sorted_Set zs, e) \<Rightarrow> (zs, e) | _ \<Rightarrow> ([], None));
               kept = filter (\<lambda>(score, _). \<not> (0 \<le> score \<and> score \<le> min_score)) entries;
               current = int (length kept);
               (kept', expiry', current', allowed) =
                 (if current < limit then (insort_key fst (now_ms, member) kept, Some (t + window_ms), current + 1, 1)
                  else (kept, expiry, current, 0));
               reset_ms = (case kept' of [] \<Rightarrow> window_ms | (oldest_score, _) # _ \<Rightarrow> max 0 (oldest_score + window_ms - now_ms))
           in Inr ([current', reset_ms, allowed], s(key := if kept' = [] then None else Some (Sorted_Set kept', expiry')))))))"

fun run_script :: "script \<Rightarrow> string \<Rightarrow> int list \<Rightarrow> string \<Rightarrow> int \<Rightarrow> keyspace \<Rightarrow> exc + int list \<times> keyspace" where
  "run_script Fixed_Window key (pexpire_ms # _) member = LUA_FIXED_WINDOW_INCR_AND_PEXPIRE key pexpire_ms"
| "run_script Sliding_Window key [window_ms, limit, now_ms] member = LUA_SLIDING_WINDOW key window_ms limit now_ms member"
| "run_script _ key _ member = (\<lambda>t s. Inl (response_error ''attempt to perform arithmetic on a nil value''))"

text \<open>One \<open>_script_sha\<close> serves both strategies: the first script loaded is the one both run.\<close>

definition ensure_lua_loaded :: "script \<Rightarrow> script option limited" where
  "ensure_lua_loaded which = (\<lambda>l.
     case script_sha l of
       Some sha \<Rightarrow> (Inr (Some sha), l)
     | None \<Rightarrow>
         exceptL (letL (redis_call (\<lambda>t s. Inr (which, s))) (\<lambda>sha. letL (updL (script_sha_update (\<lambda>_. Some sha))) (\<lambda>_. retL (Some sha))))
           (\<lambda>e. letL (updL (script_sha_update (\<lambda>_. None))) (\<lambda>_. retL None)) l)"

definition eval_script :: "script option \<Rightarrow> script \<Rightarrow> string \<Rightarrow> int list \<Rightarrow> string \<Rightarrow> int list limited" where
  "eval_script sha which key args member = redis_call (run_script (case sha of Some s \<Rightarrow> s | None \<Rightarrow> which) key args member)"

section \<open>Deciding\<close>

type_synonym decision = "bool \<times> int \<times> int"

text \<open>\<open>rate_limiting/utils.py\<close> has \<open>from time import time\<close>, so \<open>time.time()\<close> is an AttributeError.\<close>

definition in_memory_allow :: "string \<Rightarrow> int \<Rightarrow> int \<Rightarrow> decision limited" where
  "in_memory_allow key limit window =
     letL (raiseL AttributeError) (\<lambda>now l.
       case in_memory_counters l key of
         Some (count, expires_at) \<Rightarrow>
           if expires_at > now
           then if count \<ge> limit then (Inr (False, 0, expires_at), l)
                else (Inr (True, max 0 (limit - (count + 1)), expires_at),
                      l\<lparr>in_memory_counters := (in_memory_counters l)(key \<mapsto> (count + 1, expires_at))\<rparr>)
           else (Inr (True, max 0 (limit - 1), now + window), l\<lparr>in_memory_counters := (in_memory_counters l)(key \<mapsto> (1, now + window))\<rparr>)
       | None \<Rightarrow> (Inr (True, max 0 (limit - 1), now + window), l\<lparr>in_memory_counters := (in_memory_counters l)(key \<mapsto> (1, now + window))\<rparr>))"

definition allow_open :: "int \<Rightarrow> int \<Rightarrow> decision limited" where
  "allow_open limit window = letL py_time (\<lambda>now. retL (True, max 0 (limit - 1), now + window))"

definition redis_allow :: "string \<Rightarrow> int \<Rightarrow> int \<Rightarrow> decision limited" where
  "redis_allow key limit window =
     letL (ensure_lua_loaded Fixed_Window) (\<lambda>sha.
     exceptL
       (letL (eval_script sha Fixed_Window key [window * 1000] []) (\<lambda>res.
        if length res < 2 then allow_open limit window
        else
          let count = res ! 0; ttl_ms = res ! 1 in
          letL py_time (\<lambda>now.
          let reset_ts = (if ttl_ms > 0 then now + ttl_ms div 1000 else now + window);
              allowed = count \<le> limit;
              remaining = (if allowed then max 0 (limit - count) else 0)
          in retL (allowed, remaining, reset_ts))))
       (\<lambda>e. exceptL (in_memory_allow key limit window) (\<lambda>e. allow_open limit window)))"

definition now_ms_member :: "(int \<times> string) limited" where
  "now_ms_member = (\<lambda>l. let t = clocks l (steps l) in
     (Inr (t, str_int t @ ''-'' @ fragments l (steps l)), l\<lparr>steps := Suc (steps l)\<rparr>))"

definition redis_allow_sliding :: "string \<Rightarrow> int \<Rightarrow> int \<Rightarrow> decision limited" where
  "redis_allow_sliding key limit window_seconds =
     (let window_ms = window_seconds * 1000 in
      letL now_ms_member (\<lambda>(now_ms, member).
      letL (ensure_lua_loaded Sliding_Window) (\<lambda>sha.
      exceptL
        (letL (eval_script sha Sliding_Window key [window_ms, limit, now_ms] member) (\<lambda>res.
         if length res < 3 then allow_open limit window_seconds
         else
           let cur_count = res ! 0; reset_ms = res ! 1;
               allowed = (res ! 2 = 1);
               remaining = (if allowed then max 0 (limit - cur_count) else 0);
               retry_after_secs = (if reset_ms \<ge> 0 then - ((- reset_ms) div 1000) else window_seconds)
           in letL py_time (\<lambda>now. retL (allowed, remaining, now + retry_after_secs))))
        (\<lambda>e. in_memory_allow key limit window_seconds))))"

section \<open>The middleware and the dependency\<close>

record limited_request =
  lq_user_identifier :: "string option"
  lq_forwarded_for :: "string option"
  lq_client_host :: "string option"
  lq_path :: string
  lq_rate_limit :: "(int \<times> int \<times> int) option"

definition non_empty :: "string option \<Rightarrow> bool" where
  "non_empty x \<longleftrightarrow> x \<noteq> None \<and> x \<noteq> Some []"

definition identifier_from_request :: "limited_request \<Rightarrow> string \<times> string" where
  "identifier_from_request request =
     (if non_empty (lq_user_identifier request) then (the (lq_user_identifier request), ''user'')
      else let client_host =
             (if non_empty (lq_forwarded_for request) then strip (takeWhile (\<lambda>c. c \<noteq> CHR '','') (the (lq_forwarded_for request)))
              else case lq_client_host request of Some h \<Rightarrow> h | None \<Rightarrow> ''unknown'')
           in (if client_host = [] then ''unknown'' else client_host, ''ip''))"

definition rate_limit_key :: "limited_request \<Rightarrow> string \<Rightarrow> string" where
  "rate_limit_key request route_key =
     (case identifier_from_request request of (identifier, scope) \<Rightarrow> ''rl:'' @ scope @ '':'' @ identifier @ '':'' @ route_key)"

text \<open>A limit per application may replace the default; \<open>Through\<close> is the route's response with the rate-limit headers, if
  any.\<close>

record limit_config =
  lc_limit :: int
  lc_window :: int
  lc_override :: "(int option \<times> int option) option"
  lc_strategy :: string

datatype 'r limited_response =
    Through 'r "(int \<times> int \<times> int) option"
  | Too_Many json int

definition configured :: "limit_config \<Rightarrow> int \<times> int" where
  "configured cfg = (case lc_override cfg of
     None \<Rightarrow> (lc_limit cfg, lc_window cfg)
   | Some (l, w) \<Rightarrow> (case l of None \<Rightarrow> lc_limit cfg | Some x \<Rightarrow> x, case w of None \<Rightarrow> lc_window cfg | Some x \<Rightarrow> x))"

definition retry_after :: "int \<Rightarrow> int limited" where
  "retry_after reset = letL py_time (\<lambda>now. retL (max 0 (reset - now)))"

definition rate_limit_middleware :: "limit_config \<Rightarrow> limited_request \<Rightarrow> 'r limited \<Rightarrow> 'r limited_response limited" where
  "rate_limit_middleware cfg request call_next =
     (case lq_rate_limit request of
        Some rl \<Rightarrow> letL call_next (\<lambda>response. retL (Through response (Some rl)))
      | None \<Rightarrow>
          (let (limit, window) = configured cfg;
               key = rate_limit_key request (lq_path request);
               decide = (if lc_strategy cfg = ''sliding_window'' then redis_allow_sliding key limit window
                         else if lc_strategy cfg = ''fixed_window'' then redis_allow key limit window
                         else raiseL UnboundLocalError)
           in letL (if lc_strategy cfg = ''sliding_window'' \<or> lc_strategy cfg = ''fixed_window''
                    then exceptL (letL decide (\<lambda>d. retL (Some d))) (\<lambda>e. retL None)
                    else letL decide (\<lambda>d. retL (Some d))) (\<lambda>decided.
              case decided of
                None \<Rightarrow> letL call_next (\<lambda>response. retL (Through response None))
              | Some (allowed, remaining, reset) \<Rightarrow>
                  if \<not> allowed
                  then letL (retry_after reset) (\<lambda>s. retL (Too_Many (build_error ''INVALID_AUTH'' (message ''Too many requests'') JNull) s))
                  else letL call_next (\<lambda>response. retL (Through response (Some (limit, remaining, reset)))))))"

text \<open>The dependency's inner function assigns \<open>route_key\<close>, so its first read finds an unbound local variable. (The
  \<open>Retry-After\<close> header of the exception is not part of the model's \<open>HTTPException\<close>.)\<close>

definition rate_limit_dependency :: "int \<Rightarrow> int \<Rightarrow> string \<Rightarrow> limited_request \<Rightarrow> (int \<times> int \<times> int) limited" where
  "rate_limit_dependency limit window strategy request =
     letL (raiseL UnboundLocalError) (\<lambda>route_key.
     let key = rate_limit_key request (case route_key of None \<Rightarrow> lq_path request | Some k \<Rightarrow> k) in
     letL (if strategy = ''sliding_window'' then redis_allow_sliding key limit window
           else if strategy = ''fixed_window'' then redis_allow key limit window
           else raiseL UnboundLocalError) (\<lambda>(allowed, remaining, reset).
     if \<not> allowed
     then letL (retry_after reset) (\<lambda>s. raiseL (HTTPException 429 (Text ''Too many requests'')))
     else retL (limit, remaining, reset)))"

section \<open>What the fixed window admits\<close>






















definition new_limiter :: "(nat \<Rightarrow> int) \<Rightarrow> limiter" where
  "new_limiter readings = \<lparr>keyspace = (\<lambda>_. None), clocks = readings, failing = (\<lambda>_. None), fragments = (\<lambda>_. ''0''), steps = 0,
     script_sha = None, in_memory_counters = (\<lambda>_. None)\<rparr>"


section \<open>The sliding window limits nothing\<close>

text \<open>The sliding script fails at its first global variable; the fixed one, if it was loaded first, answers two
  numbers where three are expected.\<close>

lemma sliding_script_fails: "\<exists>e. LUA_SLIDING_WINDOW key w n t0 m t s = Inl e"
  by (simp add: LUA_SLIDING_WINDOW_def lua_set_global_def)

lemma fixed_script_pair: "LUA_FIXED_WINDOW_INCR_AND_PEXPIRE key p t s = Inr (res, s') \<Longrightarrow> length res < 3"
  by (auto simp: LUA_FIXED_WINDOW_INCR_AND_PEXPIRE_def Let_def split: option.splits rvalue.splits prod.splits)

lemma sliding_evaluates:
  "eval_script sha Sliding_Window key [w, n, t0] m l = (Inr res, l') \<Longrightarrow> length res < 3"
proof -
  assume run: "eval_script sha Sliding_Window key [w, n, t0] m l = (Inr res, l')"
  obtain e where "LUA_SLIDING_WINDOW key w n t0 m (clocks l (steps l)) (keyspace l) = Inl e"
    using sliding_script_fails by blast
  with run show ?thesis
    by (cases "case sha of Some s \<Rightarrow> s | None \<Rightarrow> Sliding_Window")
       (auto simp: eval_script_def redis_call_def Let_def dest!: fixed_script_pair split: option.splits sum.splits prod.splits)
qed

definition permits :: "decision limited \<Rightarrow> bool" where
  "permits m \<longleftrightarrow> (\<forall>l d l'. m l = (Inr d, l') \<longrightarrow> fst d)"

lemma permits_let: "(\<And>a l l'. m l = (Inr a, l') \<Longrightarrow> permits (k a)) \<Longrightarrow> permits (letL m k)"
  unfolding permits_def letL_def by (clarsimp split: prod.splits sum.splits) blast

lemma permits_except: "permits m \<Longrightarrow> (\<And>e. permits (h e)) \<Longrightarrow> permits (exceptL m h)"
  unfolding permits_def exceptL_def by (clarsimp split: prod.splits sum.splits if_splits) blast+

lemma permits_in_memory: "permits (in_memory_allow key limit window)"
  by (simp add: permits_def in_memory_allow_def letL_def raiseL_def)

lemma permits_open: "permits (allow_open limit window)"
  by (simp add: permits_def allow_open_def letL_def py_time_def retL_def)

lemma permits_sliding: "permits (redis_allow_sliding key limit window)"
  unfolding redis_allow_sliding_def Let_def
  by (auto intro!: permits_let permits_except permits_in_memory permits_open dest: sliding_evaluates split: prod.split)

lemma sliding_allows: "redis_allow_sliding key limit window l = (Inr (allowed, x), l') \<Longrightarrow> allowed"
  using permits_sliding unfolding permits_def by fastforce

text \<open>With the sliding-window strategy the middleware never refuses a request, however many there were: what Redis
  answers, an error or the fixed window's two numbers, is always taken as permission.\<close>

theorem sliding_never_limits:
  assumes "lc_strategy cfg = ''sliding_window''"
    and "rate_limit_middleware cfg request call_next l = (Inr response, l')"
  shows "\<exists>r rl. response = Through r rl"
  using assms
  by (cases "configured cfg")
     (auto simp: rate_limit_middleware_def letL_def exceptL_def retL_def dest!: sliding_allows split: option.splits prod.splits sum.splits if_splits)

lemma sliding_never_limits_witness:
  "\<forall>response l'. rate_limit_middleware \<lparr>lc_limit = 0, lc_window = 60, lc_override = None, lc_strategy = ''sliding_window''\<rparr>
       \<lparr>lq_user_identifier = None, lq_forwarded_for = None, lq_client_host = None, lq_path = ''/x'', lq_rate_limit = None\<rparr>
       (retL ()) (new_limiter (\<lambda>_. 0)) = (Inr response, l') \<longrightarrow> (\<exists>rl. response = Through () rl)"
  using sliding_never_limits [of "\<lparr>lc_limit = 0, lc_window = 60, lc_override = None, lc_strategy = ''sliding_window''\<rparr>"
      "\<lparr>lq_user_identifier = None, lq_forwarded_for = None, lq_client_host = None, lq_path = ''/x'', lq_rate_limit = None\<rparr>" "retL ()"]
  by simp

end
