(* ===== verification/Images.thy ===== *)
theory Images
  imports Gateway PubSub
begin

text \<open>
  Product images: the signed upload intents of \<open>backend/image_uploads\<close> (validation, intent rows, storage keys,
  upload parameters), the storage provider's webhook with its signature check, and the worker of
  \<open>backend/background_workers/image_tansform_handler.py\<close> that downloads, checksums and links an uploaded
  image. Signing, hashing, UUID texts and what a download delivers are parameters.
\<close>

record image_config =
  file_hmac :: "string \<Rightarrow> string"
  api_sign :: "json \<Rightarrow> string"
  sha1_hex :: "string \<Rightarrow> string"
  sha256_of :: "string \<Rightarrow> string"
  api_secret :: string
  api_key :: string
  upload_url :: string
  uuid_text :: "nat \<Rightarrow> string"
  uuid_of_text :: "string \<Rightarrow> nat option"
  py_str :: "json \<Rightarrow> string"
  max_webhook_age :: int

section \<open>Upload intents\<close>

record init_image_item =
  ii_filename :: string
  ii_content_type :: string
  ii_filesize :: int
  ii_sort_order :: "int option"

definition MAX_UPLOAD_BYTES :: int where "MAX_UPLOAD_BYTES = 5 * 1024 * 1024"

definition ALLOWED_CONTENT_TYPES :: "string list" where
  "ALLOWED_CONTENT_TYPES = [''image/jpeg'', ''image/png'', ''image/webp'', ''image/jpg'']"

text \<open>pydantic's \<open>ValidationError\<close> has no constructor that takes a message: raising it raises a TypeError.\<close>

definition validation_error :: "string \<Rightarrow> exc" where
  "validation_error m = TypeError"

definition validate_file :: "init_image_item \<Rightarrow> exc + unit" where
  "validate_file u =
     (if ii_filename u = [] then Inl (validation_error ''filename is required'')
      else if ii_filesize u \<le> 0 then Inl (validation_error ''filesize must be positive'')
      else if \<not> List.member ALLOWED_CONTENT_TYPES (ii_content_type u) then Inl (validation_error ''content_type not allowed'')
      else if ii_filesize u > MAX_UPLOAD_BYTES then Inl (validation_error ''file too large'')
      else Inr ())"

text \<open>A new row: its public id is fresh, its sort order must not be null.\<close>

definition create_product_image_intent :: "init_image_item \<Rightarrow> nat \<Rightarrow> product_image handler" where
  "create_product_image_intent u prod_id =
     letM uuid7 (\<lambda>pid. letM (next_id ''productimage'') (\<lambda>i.
     exec (\<lambda>d. case ii_sort_order u of
         None \<Rightarrow> Inl IntegrityError
       | Some n \<Rightarrow>
           (let img = \<lparr>pi_id = i, pi_product_id = prod_id, pi_content_id = None, pi_public_id = pid, pi_storage_key = None,
                 pi_mime_type = Some (ii_content_type u), pi_file_size = Some (ii_filesize u), pi_status = IU_PENDING_UPLOADED,
                 pi_orig_filename = Some (ii_filename u), pi_sort_order = n\<rparr>
            in if conflict (\<lambda>r. Some (pi_public_id r)) img (db_product_images d) then Inl IntegrityError
               else Inr (img, db_product_images_update (\<lambda>rows. rows @ [img]) d)))))"

definition build_unq_img_key :: "image_config \<Rightarrow> nat \<Rightarrow> string" where
  "build_unq_img_key ic prod_image_public_id = take 24 (file_hmac ic (uuid_text ic prod_image_public_id))"

definition storage_key_of :: "image_config \<Rightarrow> nat \<Rightarrow> string \<Rightarrow> string" where
  "storage_key_of ic prod_image_pid uniq_img_key = ''images/'' @ uuid_text ic prod_image_pid @ ''_'' @ uniq_img_key"

definition update_prod_image_storage_key :: "image_config \<Rightarrow> nat \<Rightarrow> nat \<Rightarrow> string \<Rightarrow> nat handler" where
  "update_prod_image_storage_key ic prod_image_id prod_image_pid uniq_img_key =
     (let storage_key = storage_key_of ic prod_image_pid uniq_img_key; hit = (\<lambda>r. pi_id r = prod_image_id) in
      letM (exec (\<lambda>d. let rows = upd hit (\<lambda>r. r\<lparr>pi_storage_key := Some storage_key\<rparr>) (db_product_images d) in
              if unique_on pi_storage_key rows
              then Inr (map pi_id (filter hit (db_product_images d)), db_product_images_update (\<lambda>_. rows) d)
              else Inl IntegrityError)) (\<lambda>ids.
      letM (liftM (one_or_none ids)) (\<lambda>updated.
      if \<not> truthy_id updated then raiseM (RuntimeError (Text ''Invariant violated: ProductImage disappeared during init''))
      else retM (the updated))))"

definition build_cloudinary_upload_params :: "image_config \<Rightarrow> nat \<Rightarrow> string \<Rightarrow> json handler" where
  "build_cloudinary_upload_params ic prod_image_public_id unq_img_key =
     letM now (\<lambda>t.
     let stamp = timestamp t;
         public_id = uuid_text ic prod_image_public_id @ ''_'' @ unq_img_key;
         params_to_sign = JObj [(''public_id'', JStr public_id), (''timestamp'', JStr (str_int stamp)),
           (''unique_filename'', JStr ''false''), (''overwrite'', JStr ''false''), (''folder'', JStr ''images'')];
         signature = api_sign ic params_to_sign
     in retM (JObj [(''provider'', JStr ''cloudinary''), (''upload_url'', JStr (upload_url ic)),
          (''params'', JObj [(''api_key'', JStr (api_key ic)), (''timestamp'', JInt stamp), (''signature'', JStr signature), (''public_id'', JStr public_id),
             (''folder'', JStr ''images''), (''unique_filename'', JBool False), (''overwrite'', JBool False)]),
          (''expires_in'', JInt 300)]))"

record upload_item =
  up_image_public_id :: nat
  up_filename :: string
  up_params :: json

definition init_image :: "image_config \<Rightarrow> nat \<Rightarrow> init_image_item \<Rightarrow> upload_item handler" where
  "init_image ic prod_id img =
     doM (liftM (validate_file img))
    (letM (create_product_image_intent img prod_id) (\<lambda>prod_image.
     let uniq_img_key = build_unq_img_key ic (pi_public_id prod_image) in
     doM (update_prod_image_storage_key ic (pi_id prod_image) (pi_public_id prod_image) uniq_img_key)
    (letM (build_cloudinary_upload_params ic (pi_public_id prod_image) uniq_img_key) (\<lambda>upload_params.
     retM \<lparr>up_image_public_id = pi_public_id prod_image, up_filename = ii_filename img, up_params = upload_params\<rparr>))))"

text \<open>No exception of the body is a \<open>ValidationError\<close> object, so the first failure ends the request.\<close>

definition init_images_upload_batch :: "image_config \<Rightarrow> nat \<Rightarrow> init_image_item list \<Rightarrow> nat \<Rightarrow> (upload_item list \<times> json list) handler" where
  "init_images_upload_batch ic product_public_id images user_identifier =
     letM (find_product_by_pid product_public_id) (\<lambda>(prod_id, owner).
     if owner \<noteq> Some user_identifier then raiseM (HTTPException 401 (Text ''Not authorized to update product.''))
     else
       letM (mapM (init_image ic prod_id) images) (\<lambda>responses.
       doM commit (retM (responses, []))))"

section \<open>The provider's webhook\<close>

record upload_notification =
  un_body :: string
  un_signature :: "string option"
  un_timestamp :: "string option"

definition missing :: "string option \<Rightarrow> bool" where
  "missing h \<longleftrightarrow> h = None \<or> h = Some []"

definition validate_upload_signature :: "image_config \<Rightarrow> upload_notification \<Rightarrow> string handler" where
  "validate_upload_signature ic request =
     (if missing (un_signature request) \<or> missing (un_timestamp request)
      then raiseM (HTTPException 400 (Text ''Missing Cloudinary webhook signature/timestamp''))
      else (case int_of_str (the (un_timestamp request)) of
        Inl e \<Rightarrow> raiseM (HTTPException 400 (Text ''Invalid X-Cld-Timestamp''))
      | Inr ts_int \<Rightarrow>
          letM now (\<lambda>t.
          if \<bar>timestamp t - ts_int\<bar> > max_webhook_age ic then raiseM (HTTPException 400 (Text ''Stale webhook timestamp''))
          else if the (un_signature request) \<noteq> sha1_hex ic (un_body request @ the (un_timestamp request) @ api_secret ic)
          then raiseM (HTTPException 403 (Text ''Invalid webhook signature''))
          else retM (un_body request))))"

text \<open>The statements on \<open>providerwebhookevent\<close>, a table the migrations have dropped (the model of it is called
  \<open>uploadswebhookevent\<close>).\<close>

definition no_such_table :: "'a handler" where
  "no_such_table = exec (\<lambda>_. Inl (DBAPIError False ''ProgrammingError''))"

definition is_database_error :: "exc \<Rightarrow> bool" where
  "is_database_error e \<longleftrightarrow> (case e of OperationalError \<Rightarrow> True | DBAPIError _ n \<Rightarrow> n \<noteq> ''InterfaceError'' | _ \<Rightarrow> False)"

definition create_webhook_event :: "string \<Rightarrow> json \<Rightarrow> (nat \<times> int option) option handler" where
  "create_webhook_event provider_event_id payload =
     tryM (letM (no_such_table :: (nat \<times> int option) list handler) (\<lambda>res.
           doM commit
          (case first_row res of
             None \<Rightarrow> letM (no_such_table :: (nat \<times> int option) list handler) (\<lambda>res. doM commit (retM (first_row res)))
           | Some r \<Rightarrow> retM (Some r))))
       (\<lambda>e. if e = IntegrityError then doM rollback (retM None)
            else if is_database_error e then raiseM (HTTPException 500 (Text ''temporary database error''))
            else raiseM e)"

definition update_prod_image_upload_status :: "nat \<Rightarrow> nat option handler" where
  "update_prod_image_upload_status image_id =
     letM (exec (\<lambda>d. let hit = (\<lambda>r. pi_id r = image_id) in
             Inr (map pi_id (filter hit (db_product_images d)), db_product_images_update (upd hit (\<lambda>r. r\<lparr>pi_status := IU_UPLOADED\<rparr>)) d))) (\<lambda>rows.
     doM commit (retM (first_row rows)))"

text \<open>SQL \<open>LIKE\<close>.\<close>

fun sql_like :: "string \<Rightarrow> string \<Rightarrow> bool" where
  "sql_like [] s = (s = [])"
| "sql_like (p # ps) [] = (p = CHR ''%'' \<and> sql_like ps [])"
| "sql_like (p # ps) (c # s) =
     (if p = CHR ''%'' then sql_like ps (c # s) \<or> sql_like (p # ps) s
      else if p = CHR ''_'' \<or> p = c then sql_like ps s
      else False)"

definition get_image_by_cloud_pkey :: "image_config \<Rightarrow> json \<Rightarrow> json \<Rightarrow> product_image option handler" where
  "get_image_by_cloud_pkey ic public_id folder =
     (case folder of
        JStr f \<Rightarrow>
          letM (if take 7 f = ''images/''
                then (case uuid_of_text ic (drop 7 f) of
                    None \<Rightarrow> raiseM (DBAPIError False ''DataError'')
                  | Some pid \<Rightarrow> letM (query (\<lambda>d. filter (\<lambda>r. pi_public_id r = pid) (db_product_images d))) (\<lambda>rows. liftM (one_or_none rows)))
                else retM None) (\<lambda>product_image.
          if product_image = None \<and> truthy public_id
          then letM (query (\<lambda>d. filter (\<lambda>r. case pi_storage_key r of None \<Rightarrow> False
                                | Some k \<Rightarrow> sql_like (''%/'' @ py_str ic public_id) k) (db_product_images d))) (\<lambda>rows. liftM (one_or_none rows))
          else retM product_image)
      | _ \<Rightarrow> raiseM AttributeError)"

definition cloudinary_webhook :: "image_config \<Rightarrow> (string \<Rightarrow> exc + json) \<Rightarrow> upload_notification \<Rightarrow> unit handler" where
  "cloudinary_webhook ic loads request =
     letM (validate_upload_signature ic request) (\<lambda>body_bytes.
     letM (case loads body_bytes of Inl e \<Rightarrow> raiseM (HTTPException 400 (Text ''invalid json'')) | Inr j \<Rightarrow> retM j) (\<lambda>payload.
     letM (liftM (json_get ''asset_id'' JNull payload)) (\<lambda>asset_id.
     letM (liftM (json_get ''display_name'' JNull payload)) (\<lambda>public_id.
     letM (liftM (json_get ''version'' JNull payload)) (\<lambda>version.
     let provider_event_id = (if truthy asset_id then py_str ic asset_id else py_str ic public_id @ '':'' @ py_str ic version) in
     letM (create_webhook_event provider_event_id payload) (\<lambda>event_row.
     case event_row of
       None \<Rightarrow> raiseM TypeError
     | Some (event_id, processed_at) \<Rightarrow>
         if processed_at \<noteq> None then retM ()
         else
           letM (liftM (json_get ''folder'' (JStr []) payload)) (\<lambda>folder.
           letM (get_image_by_cloud_pkey ic public_id folder) (\<lambda>product_image.
           case product_image of
             None \<Rightarrow> retM ()
           | Some img \<Rightarrow>
               tryM (letM (update_prod_image_upload_status (pi_id img)) (\<lambda>updated_id.
                     if updated_id = None then raiseM (HTTPException 500 (Text ''Failed to update product img status''))
                     else publish ''product_image_uploaded''
                       (JObj [(''payload'', payload), (''event_id'', JInt (int event_id)), (''product_image'', JInt (int (pi_id img)))])))
                 (\<lambda>e. if e = CancelledError then raiseM e else retM ())))))))))"

section \<open>The worker\<close>

text \<open>Reading the stream stops beyond \<open>max_bytes\<close>; empty chunks are skipped.\<close>

fun stream_chunks :: "nat \<Rightarrow> string \<Rightarrow> string list \<Rightarrow> exc + string" where
  "stream_chunks max_bytes got [] = Inr got"
| "stream_chunks max_bytes got (chunk # chunks) =
     (if chunk = [] then stream_chunks max_bytes got chunks
      else if length got + length chunk > max_bytes then Inl ValueError
      else stream_chunks max_bytes (got @ chunk) chunks)"

definition MAX_IMAGE_BYTES :: nat where "MAX_IMAGE_BYTES = 50 * 1024 * 1024"

text \<open>\<open>download n\<close> is what the attempt begun at time \<open>n\<close> gets from the network.\<close>

type_synonym network = "nat \<Rightarrow> json \<Rightarrow> exc + string list"

definition download_to_tempfile_and_checksum :: "image_config \<Rightarrow> network \<Rightarrow> nat \<Rightarrow> json \<Rightarrow> string handler" where
  "download_to_tempfile_and_checksum ic download max_bytes url = (\<lambda>w.
     (case download (ticks w) url of
        Inl e \<Rightarrow> Inl e
      | Inr chunks \<Rightarrow> (case stream_chunks max_bytes [] chunks of Inl e \<Rightarrow> Inl e | Inr bs \<Rightarrow> Inr (sha256_of ic bs)), tick w))"

text \<open>\<open>payload.get(k) or payload.get(l)\<close>.\<close>

definition either :: "string \<Rightarrow> string \<Rightarrow> json \<Rightarrow> exc + json" where
  "either k l provider_payload = (case json_get k JNull provider_payload of
     Inl e \<Rightarrow> Inl e | Inr x \<Rightarrow> if truthy x then Inr x else json_get l JNull provider_payload)"

primrec download_attempts :: "image_config \<Rightarrow> network \<Rightarrow> nat \<Rightarrow> json \<Rightarrow> nat \<Rightarrow> string option handler" where
  "download_attempts ic download max_bytes provider_payload 0 = retM None"
| "download_attempts ic download max_bytes provider_payload (Suc n) =
     tryM (letM (liftM (either ''secure_url'' ''url'' provider_payload)) (\<lambda>url.
           letM (download_to_tempfile_and_checksum ic download max_bytes url) (\<lambda>checksum. retM (Some checksum))))
       (\<lambda>e. if e = CancelledError then raiseM e else download_attempts ic download max_bytes provider_payload n)"

text \<open>When every attempt failed, the failure is noted in the dropped table.\<close>

definition download_n_checksum :: "image_config \<Rightarrow> network \<Rightarrow> nat \<Rightarrow> nat \<Rightarrow> json \<Rightarrow> string option handler" where
  "download_n_checksum ic download max_bytes http_retries provider_payload =
     letM (download_attempts ic download max_bytes provider_payload (Suc http_retries)) (\<lambda>checksum.
     case checksum of
       Some c \<Rightarrow> retM (Some c)
     | None \<Rightarrow> doM (no_such_table :: unit handler) (doM commit (retM None)))"

definition is_image_processed :: "product_image \<Rightarrow> unit handler" where
  "is_image_processed img =
     whenM (pi_content_id img \<noteq> None \<and> pi_status img = IU_READY) (doM (no_such_table :: unit handler) commit)"

definition add_content :: "image_content \<Rightarrow> unit handler" where
  "add_content c = exec (\<lambda>d. if conflict image_content_key c (db_image_contents d) then Inl IntegrityError
     else Inr ((), db_image_contents_update (\<lambda>rows. rows @ [c]) d))"

definition image_content_insert :: "json \<Rightarrow> string \<Rightarrow> nat handler" where
  "image_content_insert provider_payload checksum =
     letM (liftM (either ''asset_id'' ''display_name'' provider_payload)) (\<lambda>provider_public_id.
     letM (liftM (either ''secure_url'' ''url'' provider_payload)) (\<lambda>url.
     letM uuid7 (\<lambda>pid. letM (next_id ''imagecontent'') (\<lambda>i.
     tryM (doM (add_content \<lparr>ic_id = i, ic_checksum = checksum, ic_public_id = pid, ic_provider_public_id = provider_public_id, ic_url = url\<rparr>)
          (doM commit (doM (query (\<lambda>_. ())) (retM i))))
       (\<lambda>e. if e = CancelledError then raiseM e
            else
              doM rollback
             (letM (query (\<lambda>d. map ic_id (filter (\<lambda>c. ic_checksum c = checksum) (db_image_contents d)))) (\<lambda>rows.
              letM (liftM (one_or_none rows)) (\<lambda>existing.
              case existing of
                None \<Rightarrow> raiseM (RuntimeError (Text ''canonical imagecontent missing''))
              | Some content_id \<Rightarrow> retM content_id))))))))"

text \<open>Both updates are one transaction. An image that is gone cannot be updated; the content belongs to one
  image at most.\<close>

definition link_to_prod_img :: "product_image \<Rightarrow> nat \<Rightarrow> nat \<Rightarrow> unit handler" where
  "link_to_prod_img img content_id evt_id =
     tryM
      (doM (exec (\<lambda>d. let hit = (\<lambda>r. pi_id r = pi_id img);
              rows = upd hit (\<lambda>r. r\<lparr>pi_content_id := Some content_id, pi_status := IU_READY\<rparr>) (db_product_images d) in
              if filter hit (db_product_images d) = [] then Inl (RuntimeError (Text ''StaleDataError''))
              else if \<not> unique_on pi_content_id rows then Inl IntegrityError
              else Inr ((), db_product_images_update (\<lambda>_. rows) d)))
      (letM now (\<lambda>t.
       doM (modify (db_upload_events_update (upd (\<lambda>e. ue_id e = evt_id) (\<lambda>e. e\<lparr>ue_processed_at := Some t\<rparr>)))) commit)))
     (\<lambda>e. if e = CancelledError then raiseM e else doM rollback (raiseM e))"

text \<open>The subscriber. A processed image is not skipped: the helper's \<open>return\<close> ends only the helper. Without
  a checksum the caller unpacks None.\<close>

definition compute_checksum_and_update_status :: "image_config \<Rightarrow> network \<Rightarrow> json \<Rightarrow> nat \<Rightarrow> product_image \<Rightarrow> unit handler" where
  "compute_checksum_and_update_status ic download provider_payload event_id img = with_session
     (letM (query (\<lambda>d. map ue_processed_at (filter (\<lambda>e. ue_id e = event_id) (db_upload_events d)))) (\<lambda>rows.
      case first_row rows of
        None \<Rightarrow> retM ()
      | Some processed_at \<Rightarrow>
          if processed_at \<noteq> None then retM ()
          else
            doM (is_image_processed img)
           (letM (download_n_checksum ic download MAX_IMAGE_BYTES 2 provider_payload) (\<lambda>checksum.
            case checksum of
              None \<Rightarrow> raiseM TypeError
            | Some c \<Rightarrow>
                letM (image_content_insert provider_payload c) (\<lambda>content_id.
                link_to_prod_img img content_id event_id)))))"

section \<open>One content per checksum\<close>

definition contents_only :: "nat \<Rightarrow> string \<Rightarrow> database \<Rightarrow> database \<Rightarrow> bool" where
  "contents_only i checksum d d' \<longleftrightarrow> (\<exists>new. d' = db_image_contents_update (\<lambda>rows. rows @ new) d \<and>
     (new = [] \<or> (\<exists>c. new = [c] \<and> ic_id c = i \<and> ic_checksum c = checksum)) \<and>
     map ic_id (filter (\<lambda>c. ic_checksum c = checksum) (db_image_contents d')) = [i] \<and> unique_on image_content_key (db_image_contents d'))"

lemma contents_old:
  assumes "unique_on image_content_key (db_image_contents d)"
    and "one_or_none (map ic_id (filter (\<lambda>c. ic_checksum c = checksum) (db_image_contents d))) = Inr (Some i)"
  shows "contents_only i checksum d d"
  unfolding contents_only_def using assms by (intro exI [of _ "[]"]) (auto simp: one_or_none_Some)

lemma contents_new:
  assumes "unique_on image_content_key (db_image_contents d)" and "\<not> conflict image_content_key c (db_image_contents d)"
    and "ic_id c = i" and "ic_checksum c = checksum"
  shows "contents_only i checksum d (db_image_contents_update (\<lambda>rows. rows @ [c]) d)"
proof -
  have "filter (\<lambda>c. ic_checksum c = checksum) (db_image_contents d) = []"
    using assms(2,4) by (auto simp: conflict_iff image_content_key_def filter_empty_conv)
  then show ?thesis
    unfolding contents_only_def using assms unique_on_snoc [OF assms(1,2)] by (intro exI [of _ "[c]"]) auto
qed

text \<open>C30: However often images with the same bytes arrive, and in whatever way the insert, its commit or the refresh after
  it fails, the content row the worker goes on with is the one committed row of that checksum: an
  existing one is found, or exactly one new row is added, and nothing else changes.\<close>

theorem content_deduplicated:
  fixes w :: state
  assumes "db w = committed w" and "unique_on image_content_key (db_image_contents (committed w))"
    and "image_content_insert payload checksum w = (Inr i, w')"
  shows "contents_only i checksum (committed w) (committed w')"
proof -
  have "returns (image_content_insert payload checksum) (\<lambda>i v. contents_only i checksum (committed w) (committed v)) w"
    unfolding image_content_insert_def
    by (auto simp: returns_simps add_content_def wp_simps wp_exec wp_commit query_def assms(1) Let_def one_or_none_Some append_eq_Cons_conv intro!: returns_try contents_new contents_old assms(2)
        split: option.split sum.split if_splits)
  then show ?thesis using assms(3) by (rule returnsD)
qed

lemma content_deduplicated_witness:
  "\<exists>i w'. image_content_insert (JObj [(''asset_id'', JStr ''a1''), (''url'', JStr ''https://x'')]) ''00ff'' (start 0 empty_db) = (Inr i, w') \<and>
     map ic_id (filter (\<lambda>c. ic_checksum c = ''00ff'') (db_image_contents (committed w'))) = [i]"
proof -
  have "wp (image_content_insert (JObj [(''asset_id'', JStr ''a1''), (''url'', JStr ''https://x'')]) ''00ff'') (\<lambda>_ _. True) (\<lambda>_ _. False) (start 0 empty_db)"
    by (simp add: image_content_insert_def either_def add_content_def wp_simps empty_db_def conflict_iff)
  from wp_runs [OF this] obtain i w' where
    run: "image_content_insert (JObj [(''asset_id'', JStr ''a1''), (''url'', JStr ''https://x'')]) ''00ff'' (start 0 empty_db) = (Inr i, w')" by blast
  from content_deduplicated [OF _ _ run] show ?thesis using run by (auto simp: contents_only_def empty_db_def)
qed

section \<open>What a batch of upload intents leaves\<close>

definition intent_row :: "image_config \<Rightarrow> nat \<Rightarrow> init_image_item \<Rightarrow> product_image \<Rightarrow> bool" where
  "intent_row ic prod_id img r \<longleftrightarrow>
     pi_product_id r = prod_id \<and> pi_content_id r = None \<and> pi_status r = IU_PENDING_UPLOADED \<and>
     pi_storage_key r = Some (storage_key_of ic (pi_public_id r) (build_unq_img_key ic (pi_public_id r))) \<and>
     pi_mime_type r = Some (ii_content_type img) \<and> ii_content_type img \<in> set ALLOWED_CONTENT_TYPES \<and>
     pi_file_size r = Some (ii_filesize img) \<and> 0 < ii_filesize img \<and> ii_filesize img \<le> MAX_UPLOAD_BYTES"

definition images_below_sequence :: "state \<Rightarrow> bool" where
  "images_below_sequence w \<longleftrightarrow> (\<forall>r \<in> set (db_product_images (db w)). pi_id r \<le> seqs w ''productimage'')"

definition new_row :: "nat \<Rightarrow> init_image_item \<Rightarrow> nat \<Rightarrow> product_image \<Rightarrow> bool" where
  "new_row prod_id img i r \<longleftrightarrow> pi_id r = i \<and> pi_product_id r = prod_id \<and> pi_content_id r = None \<and> pi_status r = IU_PENDING_UPLOADED \<and>
     pi_mime_type r = Some (ii_content_type img) \<and> pi_file_size r = Some (ii_filesize img)"

lemma create_intent_returns:
  "returns (create_product_image_intent img prod_id)
     (\<lambda>r v. new_row prod_id img (Suc (seqs w ''productimage'')) r \<and> db v = db_product_images_update (\<lambda>rows. rows @ [r]) (db w) \<and>
        committed v = committed w \<and> seqs v ''productimage'' = Suc (seqs w ''productimage'')) w"
  by (auto simp: create_product_image_intent_def returns_simps new_row_def Let_def split: option.splits if_splits)

lemma append_image: "d\<lparr>db_product_images := db_product_images d @ new\<rparr> = db_product_images_update (\<lambda>rows. rows @ new) d"
  by (cases d) simp

lemma storage_key_returns:
  assumes "db w = db_product_images_update (\<lambda>rows. rows @ [r]) d" and "\<And>x. x \<in> set (db_product_images d) \<Longrightarrow> pi_id x \<noteq> pi_id r"
  shows "returns (update_prod_image_storage_key ic (pi_id r) pid key)
     (\<lambda>_ v. db v = db_product_images_update (\<lambda>rows. rows @ [r\<lparr>pi_storage_key := Some (storage_key_of ic pid key)\<rparr>]) d \<and>
        committed v = committed w \<and> seqs v = seqs w) w"
proof -
  have same: "upd (\<lambda>x. pi_id x = pi_id r) f (db_product_images d) = db_product_images d" for f
    using assms(2) by simp
  show ?thesis
    unfolding update_prod_image_storage_key_def
    by (auto simp: returns_simps assms(1) same Let_def append_image)
qed

lemma init_image_returns:
  assumes "images_below_sequence w"
  shows "returns (init_image ic prod_id img)
     (\<lambda>item v. \<exists>r. db v = db_product_images_update (\<lambda>rows. rows @ [r]) (db w) \<and> intent_row ic prod_id img r \<and>
        up_image_public_id item = pi_public_id r \<and> committed v = committed w \<and> images_below_sequence v) w"
proof -
  have fresh: "r \<in> set (db_product_images (db w)) \<Longrightarrow> pi_id r \<noteq> Suc (seqs w ''productimage'')" for r
    using assms by (force simp: images_below_sequence_def)
  have below: "images_below_sequence v"
    if "db v = db_product_images_update (\<lambda>rows. rows @ [r]) (db w)" "seqs v ''productimage'' = Suc (seqs w ''productimage'')"
      "pi_id r = Suc (seqs w ''productimage'')" for v r
    using assms that by (force simp: images_below_sequence_def)
  have row: "intent_row ic prod_id img (r\<lparr>pi_storage_key := Some (storage_key_of ic (pi_public_id r) (build_unq_img_key ic (pi_public_id r)))\<rparr>)"
    if "new_row prod_id img i r" "validate_file img = Inr ()" for r i
    using that by (auto simp: new_row_def intent_row_def validate_file_def split: if_splits)
  show ?thesis
  proof (cases "validate_file img")
    case (Inl e)
    then show ?thesis by (simp add: init_image_def returns_simps)
  next
    case (Inr u)
    have "returns (letM (update_prod_image_storage_key ic (pi_id r) (pi_public_id r) (build_unq_img_key ic (pi_public_id r)))
        (\<lambda>_. letM (build_cloudinary_upload_params ic (pi_public_id r) (build_unq_img_key ic (pi_public_id r))) (\<lambda>params.
          retM \<lparr>up_image_public_id = pi_public_id r, up_filename = ii_filename img, up_params = params\<rparr>)))
       (\<lambda>item v. \<exists>r. db v = db_product_images_update (\<lambda>rows. rows @ [r]) (db w) \<and> intent_row ic prod_id img r \<and>
        up_image_public_id item = pi_public_id r \<and> committed v = committed w \<and> images_below_sequence v) u"
      if r: "new_row prod_id img (Suc (seqs w ''productimage'')) r" "db u = db_product_images_update (\<lambda>rows. rows @ [r]) (db w)"
        "committed u = committed w" "seqs u ''productimage'' = Suc (seqs w ''productimage'')" for r u
    proof -
      have i: "pi_id r = Suc (seqs w ''productimage'')" using r(1) by (simp add: new_row_def)
      show ?thesis
        unfolding returns_let build_cloudinary_upload_params_def Let_def returns_now returns_ret
        by (rule returns_mono [OF storage_key_returns [OF r(2)]]) (use fresh i r row [OF r(1)] below Inr in auto)
    qed
    then show ?thesis
      unfolding init_image_def Inr doM_def returns_let
      by (auto simp: returns_lift returns_let Let_def intro!: returns_mono [OF create_intent_returns])
  qed
qed

text \<open>\<open>d'\<close> is \<open>d\<close> with one intent row per file, whose ids are those of the items.\<close>

definition stored_batch :: "image_config \<Rightarrow> nat \<Rightarrow> init_image_item list \<Rightarrow> database \<Rightarrow> upload_item list \<Rightarrow> database \<Rightarrow> bool" where
  "stored_batch ic prod_id images d items d' \<longleftrightarrow> (\<exists>rows. d' = db_product_images_update (\<lambda>old. old @ rows) d \<and>
     list_all2 (intent_row ic prod_id) images rows \<and> map up_image_public_id items = map pi_public_id rows)"

lemma stored_batch_Nil: "stored_batch ic prod_id [] d [] d"
  by (auto simp: stored_batch_def intro: exI [of _ "[]"])

lemma stored_batch_Cons:
  assumes "intent_row ic prod_id img r" and "up_image_public_id item = pi_public_id r"
    and "stored_batch ic prod_id images (db_product_images_update (\<lambda>rows. rows @ [r]) d) items d'"
  shows "stored_batch ic prod_id (img # images) d (item # items) d'"
proof -
  obtain rows where "d' = db_product_images_update (\<lambda>old. old @ rows) (db_product_images_update (\<lambda>rows. rows @ [r]) d)"
    "list_all2 (intent_row ic prod_id) images rows" "map up_image_public_id items = map pi_public_id rows"
    using assms(3) unfolding stored_batch_def by blast
  with assms(1,2) show ?thesis
    unfolding stored_batch_def by (intro exI [of _ "r # rows"]) (auto simp: o_def)
qed

lemma init_all_returns:
  assumes "images_below_sequence w"
  shows "returns (mapM (init_image ic prod_id) images)
     (\<lambda>items v. stored_batch ic prod_id images (db w) items (db v) \<and> committed v = committed w) w"
  using assms
proof (induction images arbitrary: w)
  case Nil
  show ?case by (simp add: returns_ret stored_batch_Nil)
next
  case (Cons img images)
  show ?case
    unfolding mapM.simps returns_let returns_ret
    by (rule returns_mono [OF init_image_returns [OF Cons.prems]], elim exE conjE, rule returns_mono [OF Cons.IH])
       (auto intro: stored_batch_Cons)
qed

lemma uncommitted_init_image [uncommitted_intros]: "uncommitted (init_image ic prod_id img)"
  unfolding init_image_def create_product_image_intent_def update_prod_image_storage_key_def build_cloudinary_upload_params_def Let_def
  by (intro uncommitted_intros)

lemma atomic_batch: "atomic (init_images_upload_batch ic pid images user)"
proof -
  have "uncommitted (mapM (init_image ic prod_id) images)" for prod_id
    by (intro uncommitted_intros)
  moreover have "uncommitted (find_product_by_pid pid)"
    unfolding find_product_by_pid_def by (intro uncommitted_intros)
  ultimately show ?thesis
    unfolding init_images_upload_batch_def
    by (intro atomic_intros atomic_uncommitted uncommitted_intros) auto
qed

lemma find_product_tick:
  "(\<And>p. p \<in> set (db_products (db w)) \<Longrightarrow> p_public_id p = pid \<Longrightarrow> Q (p_id p, p_owner_id p) (tick w)) \<Longrightarrow> returns (find_product_by_pid pid) Q w"
  by (auto simp: find_product_by_pid_def returns_simps one_or_none_Some split: option.split dest!: map_eq_Cons_D filter_eq_ConsD)

text \<open>C29: A batch of upload intents is stored whole or not at all. When the request answers, the caller owns a
  live product, every file of the batch has an allowed type and a size within the limit, the table has
  grown by exactly one pending row per file, in order, with the signed storage key of its own public
  id, these are the ids handed out, and the list of errors is empty: a batch with one bad file fails
  and leaves nothing.\<close>

theorem upload_batch_whole:
  assumes "images_below_sequence (w\<lparr>db := committed w, aborted := False\<rparr>)"
    and "with_session (init_images_upload_batch ic pid images user) w = (x, w')"
  shows "case x of
     Inl e \<Rightarrow> committed w' = committed w
   | Inr (items, errors) \<Rightarrow> errors = [] \<and>
       (\<exists>p \<in> set (db_products (committed w)). p_public_id p = pid \<and> p_owner_id p = Some user \<and>
          stored_batch ic (p_id p) images (committed w) items (committed w'))"
proof (cases x)
  case (Inl e)
  with assms(2) atomicD [OF atomic_batch] show ?thesis
    by (fastforce simp: with_session_def split: prod.splits)
next
  case (Inr r)
  let ?w = "w\<lparr>db := committed w, aborted := False\<rparr>"
  have batch: "returns (letM (mapM (init_image ic i) images) (\<lambda>responses. doM commit (retM (responses, []))))
       (\<lambda>(items, errors) v. errors = [] \<and> stored_batch ic i images (committed w) items (committed v)) u"
    if "db u = committed w" "images_below_sequence u" for i u
    unfolding returns_let returns_do
    by (rule returns_mono [OF init_all_returns [OF that(2)]]) (auto simp: returns_simps that(1))
  have "returns (init_images_upload_batch ic pid images user)
       (\<lambda>(items, errors) v. errors = [] \<and> (\<exists>p \<in> set (db_products (committed w)). p_public_id p = pid \<and> p_owner_id p = Some user \<and>
          stored_batch ic (p_id p) images (committed w) items (committed v))) ?w"
    unfolding init_images_upload_batch_def returns_let [of "find_product_by_pid pid"]
  proof (rule find_product_tick)
    fix p assume p: "p \<in> set (db_products (db ?w))" "p_public_id p = pid"
    have "returns (letM (mapM (init_image ic (p_id p)) images) (\<lambda>responses. doM commit (retM (responses, []))))
       (\<lambda>(items, errors) v. errors = [] \<and> stored_batch ic (p_id p) images (committed w) items (committed v)) (tick ?w)"
      by (rule batch) (use assms(1) in \<open>simp_all add: images_below_sequence_def\<close>)
    then show "returns (case (p_id p, p_owner_id p) of (prod_id, owner) \<Rightarrow>
        if owner \<noteq> Some user then raiseM (HTTPException 401 (Text ''Not authorized to update product.''))
        else letM (mapM (init_image ic prod_id) images) (\<lambda>responses. doM commit (retM (responses, []))))
       (\<lambda>(items, errors) v. errors = [] \<and> (\<exists>p \<in> set (db_products (committed w)). p_public_id p = pid \<and> p_owner_id p = Some user \<and>
          stored_batch ic (p_id p) images (committed w) items (committed v))) (tick ?w)"
      unfolding prod.case returns_if returns_raise
      by (cases "p_owner_id p = Some user") (use p in \<open>auto elim!: returns_mono\<close>)
  qed
  then show ?thesis using assms(2) Inr by (fastforce simp: returns_def with_session_def split: prod.splits)
qed

definition sample_images :: image_config where
  "sample_images = \<lparr>file_hmac = id, api_sign = (\<lambda>_. ''sig''), sha1_hex = id, sha256_of = id, api_secret = [], api_key = [], upload_url = [],
     uuid_text = str_nat, uuid_of_text = (\<lambda>_. None), py_str = (\<lambda>_. []), max_webhook_age = 7200\<rparr>"

definition sample_jpeg :: init_image_item where
  "sample_jpeg = \<lparr>ii_filename = ''a.jpg'', ii_content_type = ''image/jpeg'', ii_filesize = 100, ii_sort_order = Some 0\<rparr>"

lemma upload_batch_whole_witness:
  "\<exists>items errors w'. with_session (init_images_upload_batch sample_images 2 [sample_jpeg] 9) (start 0 sample_catalogue) = (Inr (items, errors), w') \<and>
     errors = [] \<and> length (db_product_images (committed w')) = 1"
proof -
  have "wp (with_session (init_images_upload_batch sample_images 2 [sample_jpeg] 9)) (\<lambda>_ _. True) (\<lambda>_ _. False) (start 0 sample_catalogue)"
    by (simp add: init_images_upload_batch_def find_product_by_pid_def init_image_def validate_file_def create_product_image_intent_def
        update_prod_image_storage_key_def build_cloudinary_upload_params_def sample_images_def sample_jpeg_def sample_catalogue_def
        sample_listed_def empty_db_def wp_simps quiet_reset Let_def conflict_iff unique_on_def ALLOWED_CONTENT_TYPES_def MAX_UPLOAD_BYTES_def)
  from wp_runs [OF this] obtain r w' where
    run: "with_session (init_images_upload_batch sample_images 2 [sample_jpeg] 9) (start 0 sample_catalogue) = (Inr r, w')" by blast
  from upload_batch_whole [OF _ run] run show ?thesis
    by (cases r) (auto simp: images_below_sequence_def sample_catalogue_def empty_db_def stored_batch_def list_all2_Cons1)
qed

section \<open>The provider's webhook stores nothing\<close>

text \<open>The image provider's webhook never accepts a delivery: signed or not, fresh or stale, it answers with an error and
  changes nothing, because the table it records events in no longer exists. No uploaded image ever leaves
  the state pending, and the worker that links images is never started.\<close>

theorem upload_webhook_stores_nothing:
  fixes w :: state
  shows "\<exists>e w'. cloudinary_webhook ic loads request w = (Inl e, w') \<and> committed w' = committed w \<and> queue w' = queue w"
proof -
  have "wp (cloudinary_webhook ic loads request) (\<lambda>_ _. False) (\<lambda>_ v. committed v = committed w \<and> queue v = queue w) w"
    by (auto simp: cloudinary_webhook_def validate_upload_signature_def create_webhook_event_def no_such_table_def wp_simps wp_exec wp_rollback Let_def
        split: option.split sum.split)
  then show ?thesis by (auto simp: wp_def split: prod.splits sum.splits)
qed

end
