(* ===== verification/Statuses.thy ===== *)
theory Statuses
  imports Workers Images
begin

text \<open>
  The shop as a whole: every request and every turn of a worker as one step on the shared state, and what
  all of them keep. The status columns of the schema are plain integers; the enumerations of
  \<open>backend/schema/full_schema.py\<close> are only in the code, so that a column holds nothing but values of its
  enumeration is a property of the handlers.
\<close>

section \<open>Columns\<close>

definition column_in :: "('r \<Rightarrow> int) \<Rightarrow> int set \<Rightarrow> 'r list \<Rightarrow> bool" where
  "column_in f S rows \<longleftrightarrow> (\<forall>r \<in> set rows. f r \<in> S)"

lemma column_in_append [simp]: "column_in f S (rows @ new) \<longleftrightarrow> column_in f S rows \<and> column_in f S new"
  by (auto simp: column_in_def)

lemma column_in_Cons [simp]: "column_in f S (r # rows) \<longleftrightarrow> f r \<in> S \<and> column_in f S rows"
  by (simp add: column_in_def)

lemma column_in_Nil [simp]: "column_in f S []"
  by (simp add: column_in_def)

lemma column_in_upd: "column_in f S rows \<Longrightarrow> (\<And>r. f r \<in> S \<Longrightarrow> f (g r) \<in> S) \<Longrightarrow> column_in f S (upd p g rows)"
  by (fastforce simp: column_in_def dest: set_upd_cases)

lemma column_in_insert: "column_in f S rows \<Longrightarrow> f r \<in> S \<Longrightarrow> column_in f S (insert_nothing key r rows)"
  by (auto simp: insert_nothing_def)

lemma column_in_inserts:
  "column_in f S rows \<Longrightarrow> column_in f S new \<Longrightarrow> column_in f S (fold (insert_nothing key) new rows)"
  by (induction new arbitrary: rows) (auto simp: column_in_insert)

definition statuses_ok :: "database \<Rightarrow> bool" where
  "statuses_ok d \<longleftrightarrow>
     column_in o_status (range order_status_value) (db_orders d) \<and>
     column_in ir_status (range reserve_status_value) (db_reservations d) \<and>
     column_in ik_status (range idempotency_status_value) (db_idempotency d) \<and>
     column_in pay_status (range payment_status_value) (db_payments d) \<and>
     column_in pa_status (range attempt_status_value) (db_attempts d) \<and>
     column_in we_status (range event_status_value) (db_webhook_events d) \<and>
     column_in ob_status (range outbox_status_value) (db_outbox d) \<and>
     column_in ci_status (range commit_intent_status_value) (db_commit_intents d)"

text \<open>The values of the enumerations.\<close>

lemma range_by_constructors: "(\<And>x. x \<in> set cs) \<Longrightarrow> range f = f ` set cs"
  by auto

lemma range_order_status: "range order_status_value = {10, 20, 30, 40, 50, 60, 70}"
  by (subst range_by_constructors [where cs = "[OS_PENDING_PAYMENT, OS_CONFIRMED, OS_CANCELLED, OS_FULFILLED, OS_OUT_FOR_DELIVERY, OS_DELIVERED, OS_RETURNED]"], case_tac x) simp_all

lemma range_reserve_status: "range reserve_status_value = {0, 10, 20, 30}"
  by (subst range_by_constructors [where cs = "[RS_ACTIVE, RS_COMMITED, RS_RELEASED, RS_EXPIRED]"], case_tac x) simp_all

lemma range_idempotency_status: "range idempotency_status_value = {0, 10, 20}"
  by (subst range_by_constructors [where cs = "[IS_PENDING, IS_SUCCESS, IS_FAILURE]"], case_tac x) simp_all

lemma range_payment_status: "range payment_status_value = {0, 5, 10, 20, 30, 40}"
  by (subst range_by_constructors [where cs = "[PS_PENDING, PS_ACCEPTED, PS_AUTHORIZED, PS_FAILED, PS_CAPTURED, PS_REFUNDED]"], case_tac x) simp_all

lemma range_attempt_status: "range attempt_status_value = {0, 10, 20, 30, 40}"
  by (subst range_by_constructors [where cs = "[AS_PENDING, AS_UNKNOWN, AS_RETRYING, AS_SUCCESS, AS_FAILED]"], case_tac x) simp_all

lemma range_event_status: "range event_status_value = {0, 10, 20, 30, 50, 60}"
  by (subst range_by_constructors [where cs = "[ES_RECEIVED, ES_INCONSISTENT, ES_AUTHORIZED, ES_CAPTURED, ES_FAILED, ES_PROCESSED]"], case_tac x) simp_all

lemma range_outbox_status: "range outbox_status_value = {0, 10, 20, 30}"
  by (subst range_by_constructors [where cs = "[OB_PENDING, OB_SENT, OB_DONE, OB_FAILED]"], case_tac x) simp_all

lemma range_commit_intent_status: "range commit_intent_status_value = {0, 10, 20, 30}"
  by (subst range_by_constructors [where cs = "[CI_PENDING, CI_PROCESSING, CI_FAILED, CI_DONE]"], case_tac x) simp_all

lemmas enum_values = range_order_status range_reserve_status range_idempotency_status range_payment_status range_attempt_status range_event_status range_outbox_status range_commit_intent_status

lemmas column_intros = column_in_upd column_in_insert column_in_inserts

section \<open>What each operation stores\<close>

lemma keeps_cart_ops [keeps_intros]:
  "keeps statuses_ok (update_checkout_activeness i b)"
  "keeps statuses_ok (update_checkout_cart_n_paymethod i m items)"
  unfolding update_checkout_activeness_def update_checkout_cart_n_paymethod_def
  by (auto intro!: keeps_intros keeps_modify simp: statuses_ok_def)

lemma keeps_checkout_creation [keeps_intros]: "keeps statuses_ok (get_or_create_checkout_session u t)"
  unfolding get_or_create_checkout_session_def get_checkout_session_def Let_def
  by (intro keeps_intros keeps_exec) (auto simp: statuses_ok_def)

lemma keeps_reserve [keeps_intros]: "keeps statuses_ok (reserve_inventory items cid t)"
proof -
  have "returns (reservation_rows items cid t) (\<lambda>rows _. column_in ir_status (range reserve_status_value) rows) w" for w
    using returns_mapM [of "\<lambda>_. True" w items _ "\<lambda>_ r. ir_status r = reserve_status_value RS_ACTIVE"]
    unfolding reservation_rows_def
    by (rule returns_mono) (auto simp: returns_simps column_in_def list_all2_conv_all_nth in_set_conv_nth enum_values)
  moreover have "keeps statuses_ok (reservation_rows items cid t)"
    unfolding reservation_rows_def by (intro keeps_intros)
  ultimately show ?thesis
    unfolding reserve_inventory_def
    by (intro keeps_let_returns [where R = "column_in ir_status (range reserve_status_value)"] keeps_modify)
       (auto simp: statuses_ok_def intro!: column_in_inserts)
qed

lemma keeps_summary [keeps_intros]: "keeps statuses_ok (get_order_summary u cid m)"
  unfolding get_order_summary_def get_checkout_details_def capture_cart_snapshot_def Let_def by (intro keeps_intros)

lemma keeps_buy_now [keeps_intros]: "keeps statuses_ok (initiate_buy_now u)"
  unfolding initiate_buy_now_def Let_def by (intro keeps_intros)

lemma keeps_idempotency [keeps_intros]:
  "keeps statuses_ok (record_order_idempotency k u i)"
  "keeps statuses_ok (update_order_idempotency_record u i own c b ty)"
  "keeps statuses_ok (update_idempotent_response k n b)"
  unfolding record_order_idempotency_def update_order_idempotency_record_def update_idempotent_response_def Let_def
  by (intro keeps_intros keeps_exec keeps_modify; auto simp: statuses_ok_def enum_values intro!: column_in_upd column_in_insert)+

lemma keeps_order_rows [keeps_intros]:
  "keeps statuses_ok (insert_order u m t k)" "keeps statuses_ok (insert_order_item i it)"
  "keeps statuses_ok (record_payment_init_pending i a p)"
  unfolding insert_order_def insert_order_item_def record_payment_init_pending_def Let_def
  by (intro keeps_intros keeps_exec; auto simp: statuses_ok_def enum_values split: if_splits)+

lemma attempt_value [simp]: "attempt_status_value st \<in> range attempt_status_value"
  by simp

lemma keeps_attempt_rows [keeps_intros]:
  "keeps statuses_ok (record_payment_attempt p i st)" "keeps statuses_ok (update_payment_attempt_resp a st j)"
  unfolding record_payment_attempt_def update_payment_attempt_resp_def
  by (intro keeps_intros keeps_exec keeps_modify; auto simp: statuses_ok_def intro!: column_in_upd split: option.splits)+

lemma keeps_retries [keeps_intros]: "keeps statuses_ok (retry_loop call p n is r)"
proof (induction "is" arbitrary: r)
  case Nil
  then show ?case by (simp add: keeps_ret)
next
  case (Cons i "is")
  then show ?case by (cases "call i") (auto intro!: keeps_intros)
qed

lemma keeps_accept [keeps_intros]: "keeps statuses_ok (update_payment_status_nprovider i j)"
  unfolding update_payment_status_nprovider_def Let_def
  by (intro keeps_exec) (auto simp: statuses_ok_def enum_values intro!: column_in_upd split: if_splits)

lemma keeps_intent [keeps_intros]: "keeps statuses_ok (create_payment_intent psp k t od pid)"
  unfolding create_payment_intent_def settle_payment_intent_def retry_payments_def Let_def pay_id_by_public_payid_def
  by (intro keeps_intros)

lemma keeps_order [keeps_intros]: "keeps statuses_ok (place_order psp sha256 lock u cid key)"
  unfolding place_order_def claim_key_def finish_order_def place_order_with_items_def acquire_pglock_def
    validate_checkout_get_items_paymethod_def Let_def
  by (intro keeps_intros)

text \<open>The webhook stores the payment's status in the event's column; the four statuses it can compute happen to be
  numbers of the event enumeration as well (a failed payment, 20, reads as an authorized event).\<close>

lemma keeps_received:
  "(\<And>s. st = Some s \<Longrightarrow> s \<in> range event_status_value) \<Longrightarrow> keeps statuses_ok (mark_webhook_received i p j oid err st)"
  unfolding mark_webhook_received_def received_event_def Let_def
  by (intro keeps_intros keeps_exec) (auto simp: statuses_ok_def enum_values intro!: column_in_insert split: option.splits)

lemma computed_status: "pay_order_status_util st event = Inr (ps, os, valid, note) \<Longrightarrow> payment_status_value ps \<in> range event_status_value"
  by (auto simp: pay_order_status_util_def enum_values Let_def split: json.splits if_splits)

lemma keeps_event_rows [keeps_intros]:
  "keeps statuses_ok (mark_webhook_processed i)" "keeps statuses_ok (webhook_error_recorded i m)"
  unfolding mark_webhook_processed_def webhook_error_recorded_def
  by (intro keeps_intros keeps_modify; auto simp: statuses_ok_def intro!: column_in_upd)+

lemma keeps_payment_rows [keeps_intros]:
  "keeps statuses_ok (update_pay_completion_get_orderid i j ps)" "keeps statuses_ok (update_order_status i os)"
  unfolding update_pay_completion_get_orderid_def update_order_status_def Let_def
  by (intro keeps_intros keeps_exec keeps_modify; auto simp: statuses_ok_def intro!: column_in_upd split: if_splits)+

lemma keeps_events [keeps_intros]:
  "keeps statuses_ok (create_commit_intent oid r a p)" "keeps statuses_ok (emit_outbox_event tp pl a i)"
  unfolding create_commit_intent_def emit_outbox_event_def pending_intent_def Let_def
  by (intro keeps_intros keeps_exec; auto simp: statuses_ok_def enum_values intro!: column_in_insert)+

lemma keeps_apply [keeps_intros]: "keeps statuses_ok (apply_and_notify pay ev ppid poid ps os n)"
  unfolding apply_and_notify_def guarded_apply_def apply_payment_def emit_payment_events_def load_order_items_pid_qty_def notify_def Let_def
  by (intro keeps_intros)

lemma keeps_known [keeps_intros]: "keeps statuses_ok (process_known_payment i j ev ppid poid st pay oid)"
  unfolding process_known_payment_def
  by (intro keeps_intros keeps_let_lift keeps_received) (auto dest: computed_status simp: case_prod_beta intro!: keeps_intros keeps_received)

lemma keeps_webhook [keeps_intros]: "keeps statuses_ok (razorpay_webhook hmac_hex loads request)"
  unfolding razorpay_webhook_def handle_payment_event_def reject_unknown_payment_def verify_razorpay_signature_def
    get_pay_record_by_provider_orderid_def Let_def
  by (intro keeps_intros keeps_received) (auto simp: enum_values)

section \<open>The workers\<close>

lemma keeps_claim [keeps_intros]: "keeps statuses_ok (claim_intent i)"
  unfolding claim_intent_def by (intro keeps_intros keeps_modify) (auto simp: statuses_ok_def enum_values intro!: column_in_upd)

lemma keeps_decrement [keeps_intros]: "keeps statuses_ok (decrement_item it)"
  unfolding decrement_item_def by (intro keeps_intros keeps_modify) (auto simp: statuses_ok_def)

lemma keeps_stub [keeps_intros]: "keeps J (sim_emit_outbox_event tp p a i)"
  by (simp add: sim_emit_outbox_event_def keeps_ret)

lemma keeps_commit_stock [keeps_intros]: "keeps statuses_ok (commit_stock i)"
  unfolding commit_stock_def Let_def by (intro keeps_intros keeps_modify) (auto simp: statuses_ok_def enum_values intro!: column_in_upd)

lemma keeps_reschedule [keeps_intros]: "keeps statuses_ok (reschedule_intent i)"
  unfolding reschedule_intent_def Let_def by (intro keeps_intros keeps_modify) (auto simp: statuses_ok_def enum_values intro!: column_in_upd)

lemma keeps_commit_handler [keeps_intros]: "keeps statuses_ok (order_confirm_commitintent_handler j)"
  unfolding order_confirm_commitintent_handler_def by (intro keeps_intros) (auto split: json.split intro!: keeps_intros)

lemma keeps_outbox_handler [keeps_intros]: "keeps statuses_ok (outbox_handler j)"
  unfolding outbox_handler_def by (intro keeps_intros keeps_modify) (auto simp: statuses_ok_def enum_values intro!: column_in_upd)

text \<open>An image task of the queue names its event and its image.\<close>

definition image_task :: "image_config \<Rightarrow> network \<Rightarrow> (nat \<Rightarrow> product_image) \<Rightarrow> json \<Rightarrow> unit handler" where
  "image_task ic download image_of data =
     letM (liftM (json_get ''payload'' JNull data)) (\<lambda>payload.
     letM (liftM (json_get ''event_id'' JNull data)) (\<lambda>event_id.
     letM (liftM (json_get ''product_image'' JNull data)) (\<lambda>img.
     case (event_id, img) of
       (JInt e, JInt i) \<Rightarrow> compute_checksum_and_update_status ic download payload (nat e) (image_of (nat i))
     | _ \<Rightarrow> raiseM (DBAPIError False ''DataError''))))"

lemma keeps_no_table [keeps_intros]: "keeps J no_such_table"
  by (auto simp: no_such_table_def intro!: keeps_exec)

lemma keeps_download [keeps_intros]: "keeps J (download_attempts ic download mx payload n)"
proof (induction n)
  case 0
  show ?case by (simp add: keeps_ret)
next
  case (Suc n)
  have "keeps J (download_to_tempfile_and_checksum ic download mx url)" for url
    by (simp add: keeps_def download_to_tempfile_and_checksum_def)
  then show ?case unfolding download_attempts.simps by (intro keeps_intros Suc)
qed

lemma keeps_image_subscriber [keeps_intros]: "keeps statuses_ok (compute_checksum_and_update_status ic download payload e img)"
  unfolding compute_checksum_and_update_status_def is_image_processed_def download_n_checksum_def image_content_insert_def
    add_content_def link_to_prod_img_def Let_def
  by (intro keeps_intros keeps_exec keeps_modify) (auto simp: statuses_ok_def split: if_splits)

lemma keeps_image_task [keeps_intros]: "keeps statuses_ok (image_task ic download image_of data)"
  unfolding image_task_def by (intro keeps_intros) (auto split: json.split intro!: keeps_intros)

lemma keeps_uploads [keeps_intros]: "keeps statuses_ok (init_images_upload_batch ic pid images user)"
  unfolding init_images_upload_batch_def find_product_by_pid_def init_image_def create_product_image_intent_def
    update_prod_image_storage_key_def build_cloudinary_upload_params_def Let_def
  by (intro keeps_intros keeps_exec) (auto simp: statuses_ok_def split: if_splits option.splits)

lemma keeps_cart [keeps_intros]: "keeps statuses_ok (add_to_cart u sid p)"
  unfolding add_to_cart_def add_item_to_cart_def get_or_create_cart_def insert_cart_def cart_of_user_def cart_of_session_def
    get_product_data_def Let_def
  by (intro keeps_intros keeps_exec keeps_modify) (auto simp: statuses_ok_def split: if_splits option.splits)

lemma keeps_turn: "(\<And>n j. keeps J (run n j)) \<Longrightarrow> keeps J (worker_step run subs)"
proof -
  assume run: "\<And>n j. keeps J (run n j)"
  have "keeps J (tryM (tasks_executor run subs task) (\<lambda>e. if e = CancelledError then raiseM e else retM ()))" for task
    unfolding tasks_executor_def by (intro keeps_intros run)
  then show ?thesis
    by (auto simp: keeps_def worker_step_def split: list.split)
qed

section \<open>The shop\<close>

text \<open>One request in its own session, whatever its arguments, or one turn of a worker. What the outside parts do
  is an argument of the step.\<close>

inductive shop_step :: "state \<Rightarrow> state \<Rightarrow> bool" where
  cart: "shop_step w (serve (add_to_cart u sid p) w)"
| checkout: "shop_step w (serve (initiate_buy_now user) w)"
| summary: "shop_step w (serve (get_order_summary user cid m) w)"
| order: "shop_step w (serve (place_order psp sha256 lock user cid key) w)"
| webhook: "shop_step w (serve (razorpay_webhook hmac_hex loads request) w)"
| uploads: "shop_step w (serve (init_images_upload_batch ic pid images user) w)"
| worker: "shop_step w (snd (worker_step (run_handler (image_task ic download image_of)) (register_subscribers []) w))"

inductive_cases shop_step_cases: "shop_step w w'"

lemma serve_db: "db (serve m w) = committed (serve m w)"
  by (simp add: serve_def with_session_def split: prod.split)

definition well_typed :: "state \<Rightarrow> bool" where
  "well_typed w \<longleftrightarrow> statuses_ok (committed w) \<and> statuses_ok (db w)"

lemma well_typed_serve: "keeps statuses_ok m \<Longrightarrow> well_typed w \<Longrightarrow> well_typed (serve m w)"
  by (simp add: well_typed_def serve_db serve_keeps)

lemma well_typed_turn: "well_typed w \<Longrightarrow> well_typed (snd (worker_step (run_handler (image_task ic download image_of)) subs w))"
proof -
  have "keeps statuses_ok (run_handler (image_task ic download image_of) n j)" for n j
    by (cases n) (auto intro!: keeps_intros)
  from keeps_turn [OF this] show "well_typed w \<Longrightarrow> ?thesis" by (simp add: well_typed_def keeps_def)
qed

lemma well_typed_step: "shop_step w w' \<Longrightarrow> well_typed w \<Longrightarrow> well_typed w'"
  by (induction rule: shop_step.induct) (simp_all add: well_typed_serve well_typed_turn keeps_intros)

text \<open>C5: However requests and worker turns follow each other, and whatever fails in them, the integer status columns of
  orders, reservations, idempotency keys, payments, attempts, webhook events, outbox events and commit
  intents hold values of their enumerations only.\<close>

theorem statuses_typed:
  assumes "shop_step\<^sup>*\<^sup>* w w'" and "well_typed w"
  shows "well_typed w'"
  using assms by (induction rule: rtranclp_induct) (auto intro: well_typed_step)

lemma statuses_typed_witness:
  "\<exists>w'. shop_step\<^sup>*\<^sup>* (start 0 (shop CI_PENDING 5 0)) w' \<and> well_typed w'"
proof (intro exI conjI)
  show run: "shop_step\<^sup>*\<^sup>* (start 0 (shop CI_PENDING 5 0)) (serve (initiate_buy_now 7) (start 0 (shop CI_PENDING 5 0)))"
    by (intro r_into_rtranclp shop_step.checkout)
  show "well_typed (serve (initiate_buy_now 7) (start 0 (shop CI_PENDING 5 0)))"
    by (rule statuses_typed [OF run]) (simp add: well_typed_def statuses_ok_def shop_def paid_intent_def empty_db_def enum_values)
qed

end
