(* ===== verification/Bus.thy ===== *)
theory Bus
  imports Statuses
begin

text \<open>
  The life of the event bus, \<open>BasePubSubWorker\<close> of \<open>backend/background_workers/base_pubsub_interface.py\<close>: starting
  the worker loops, their turns on one queue of tasks and sentinels, stopping and shutting down; and the
  whole way of an order from the capture of its payment through the bus to the stock.
\<close>

section \<open>Handlers that publish nothing\<close>

definition silent :: "('db, 'a) act \<Rightarrow> bool" where
  "silent m \<longleftrightarrow> (\<forall>w. queue (snd (m w)) = queue w)"

named_theorems silent_intros \<open>handlers that leave the queue alone\<close>

lemma silent_basic [silent_intros]:
  "silent (retM x)" "silent (raiseM e)" "silent (liftM r)" "silent now" "silent uuid7" "silent random_token" "silent (next_id t)"
  by (simp_all add: silent_def retM_def raiseM_def liftM_def now_def uuid7_def random_token_def next_id_def tick_def)

lemma silent_exec [silent_intros]: "silent (exec f)" "silent (query g)" "silent (modify h)"
  by (simp_all add: silent_def exec_def query_def modify_def tick_def split: option.split sum.split prod.split)

lemma silent_commit [silent_intros]: "silent commit" "silent rollback"
  by (simp_all add: silent_def commit_def rollback_def tick_def split: option.split)

lemma silent_let [silent_intros]: "silent m \<Longrightarrow> (\<And>x. silent (k x)) \<Longrightarrow> silent (letM m k)"
  by (auto simp: silent_def letM_def split: prod.split sum.split) (metis snd_conv)+

lemma silent_do [silent_intros]: "silent m \<Longrightarrow> silent n \<Longrightarrow> silent (doM m n)"
  by (simp add: doM_def silent_let)

lemma silent_when [silent_intros]: "silent m \<Longrightarrow> silent (whenM b m)"
  by (simp add: whenM_def silent_basic)

lemma silent_try [silent_intros]: "silent m \<Longrightarrow> (\<And>e. silent (h e)) \<Longrightarrow> silent (tryM m h)"
  by (auto simp: silent_def tryM_def split: prod.split sum.split) (metis snd_conv)+

lemma silent_mapM [silent_intros]: "(\<And>x. silent (f x)) \<Longrightarrow> silent (mapM f xs)"
  by (induction xs) (auto intro!: silent_intros)

lemma silent_for [silent_intros]: "(\<And>x. silent (f x)) \<Longrightarrow> silent (forM xs f)"
  by (induction xs) (auto intro!: silent_intros)

lemma silent_with_session [silent_intros]: "silent m \<Longrightarrow> silent (with_session m)"
  by (simp add: silent_def with_session_def case_prod_beta)

lemma silent_begin [silent_intros]: "silent m \<Longrightarrow> silent (begin_tx m)"
proof -
  assume "silent m"
  then have "silent (letM m (\<lambda>x. doM commit (retM x)))" by (intro silent_intros)
  then show ?thesis by (auto simp: silent_def begin_tx_def split: prod.split sum.split) (metis snd_conv)+
qed

lemma silent_cases [silent_intros]:
  "silent m \<Longrightarrow> silent n \<Longrightarrow> silent (if b then m else n)"
  "silent m \<Longrightarrow> (\<And>x. silent (k x)) \<Longrightarrow> silent (case z of None \<Rightarrow> m | Some x \<Rightarrow> k x)"
  "(\<And>x y. silent (h x y)) \<Longrightarrow> silent (case p of (x, y) \<Rightarrow> h x y)"
  by (simp_all split: option.split prod.split)

lemma silent_download [silent_intros]: "silent (download_attempts ic download mx payload n)"
proof (induction n)
  case 0
  show ?case by (simp add: silent_basic)
next
  case (Suc n)
  have "silent (download_to_tempfile_and_checksum ic download mx url)" for url
    by (simp add: silent_def download_to_tempfile_and_checksum_def tick_def)
  then show ?case unfolding download_attempts.simps by (intro silent_intros Suc)
qed

lemma silent_commit_handler: "silent (order_confirm_commitintent_handler j)"
  unfolding order_confirm_commitintent_handler_def claim_intent_def commit_stock_def decrement_item_def
    reschedule_intent_def sim_emit_outbox_event_def Let_def
  by (auto split: json.split intro!: silent_intros)


section \<open>The pool of worker loops\<close>

text \<open>The queue with its sentinels (None), how many loops run, and the world. \<open>start\<close> runs twice only if there is no
  loop; a loop takes the first item, ends at a sentinel, swallows what a handler raises and dies of a
  cancellation.\<close>

type_synonym item = "(string \<times> json) option"
type_synonym pool = "item list \<times> nat \<times> state"

definition workers_count :: nat where "workers_count = 2"

definition start_pool :: "pool \<times> subscribers \<Rightarrow> pool \<times> subscribers" where
  "start_pool p = (case p of ((items, live, w), subs) \<Rightarrow>
     if 0 < live then p else ((items, workers_count, w), register_subscribers subs))"











section \<open>From the payment to the stock\<close>

definition bought :: "nat \<Rightarrow> database \<Rightarrow> (nat \<times> int) list" where
  "bought oid d = map (\<lambda>oi. (oi_product_id oi, oi_quantity oi)) (filter (\<lambda>oi. oi_order_id oi = oid) (db_order_items d))"

definition bus_turn :: "(json \<Rightarrow> unit handler) \<Rightarrow> state \<Rightarrow> state" where
  "bus_turn images w = snd (worker_step (run_handler images) (register_subscribers []) w)"

lemma registered:
  "subs_of ''order_confirm_intent.created'' (register_subscribers []) = [OrderConfirmCommitIntent]"
  "subs_of ''order.paid'' (register_subscribers []) = [OutboxHandle]"
  by (simp_all add: register_subscribers_def subs_of_subscribe)

lemma turn_runs:
  assumes "queue w = (event, data) # rest" and "subs_of event (register_subscribers []) = [n]"
    and "wp (run_handler images n data) (\<lambda>_. Q) (\<lambda>_ _. False) (w\<lparr>queue := rest\<rparr>)"
  shows "Q (bus_turn images w)"
  using wp_runs [OF assms(3)] assms(1,2)
  by (auto simp: bus_turn_def worker_step_def tasks_executor_def tryM_def doM_def letM_def retM_def)

lemma outbox_turn:
  assumes "quiet w"
  shows "wp (outbox_handler (paid_message i oid pid poid)) (\<lambda>_ v. quiet v \<and> queue v = queue w \<and>
     db_commit_intents (committed v) = db_commit_intents (committed w) \<and> db_products (committed v) = db_products (committed w)) (\<lambda>_ _. False) w"
  using assms
  by (simp add: outbox_handler_def paid_message_def order_payload_def sim_emit_outbox_event_def id_param_def wp_simps quiet_def wp_exec wp_commit modify_def)

text \<open>The intent of a captured payment can be served as soon as the stock suffices.\<close>

lemma captured_intent:
  assumes "captured p w v" and "\<forall>c \<in> set (db_commit_intents (committed w)). ci_id c \<le> seqs w ''commitintent''"
    and "stock_ok (committed w)" and "db_commit_intents d = db_commit_intents (committed v)" and "db_products d = db_products (committed v)"
  shows "stock_ok d \<and> (\<exists>c. filter (hit (int (Suc (seqs w ''commitintent'')))) (db_commit_intents d) = [c] \<and>
      ci_status c = commit_intent_status_value CI_PENDING \<and> snd (ci_payload c) = bought (pay_order_id p) (committed w))"
proof -
  let ?i = "Suc (seqs w ''commitintent'')"
  obtain t where c: "db_commit_intents d = db_commit_intents (committed w) @
      [pending_intent ?i t ''payment_succeeded'' ''order'' (pay_order_id p) (pay_order_id p, bought (pay_order_id p) (committed w))]"
    using assms(1,4) by (auto simp: captured_def bought_def)
  have "filter (hit (int ?i)) (db_commit_intents (committed w)) = []"
    using assms(2) by (fastforce simp: filter_empty_conv hit_def)
  moreover have "?i \<notin> ci_id ` set (db_commit_intents (committed w))" using assms(2) by fastforce
  ultimately show ?thesis
    using assms(1,3,5) c by (auto simp: captured_def stock_ok_def pending_intent_def hit_def)
qed

text \<open>C4: From the payment to the stock: when nothing fails, a signed new capture of an open payment, followed by two turns of
  a worker, leaves an empty queue, the order's commit intent DONE, and every product's stock lower by
  exactly what the order bought of it.\<close>

theorem payment_to_stock:
  assumes "quiet w" and "signed hmac_hex loads rq (JStr pid) (JStr poid)" and "\<not> known_event rq (committed w)"
    and "filter (\<lambda>p. pay_provider p = ''razorpay'' \<and> pay_provider_order_id p = Some (JStr poid)) (db_payments (committed w)) = [p]"
    and "pay_order_id p \<noteq> 0" and "pay_status p < payment_status_value PS_CAPTURED"
    and "filter (\<lambda>q. pay_id q = pay_id p) (db_payments (committed w)) = [p]"
    and "unique_on payment_provider_payment_key (db_payments (committed w))"
    and "\<forall>q \<in> set (db_payments (committed w)). pay_provider_payment_id q \<noteq> Some (JStr pid)"
    and "\<forall>i \<in> set (db_commit_intents (committed w)). ci_aggregate_id i \<noteq> pay_order_id p"
    and "\<forall>i \<in> set (db_outbox (committed w)). ob_aggregate_id i \<noteq> pay_order_id p"
    and "queue w = []"
    and "\<forall>c \<in> set (db_commit_intents (committed w)). ci_id c \<le> seqs w ''commitintent''"
    and "stock_ok (committed w)" and "enough (bought (pay_order_id p) (committed w)) (committed w)"
  shows "let v = bus_turn images (bus_turn images (deliver hmac_hex loads rq w)) in
     queue v = [] \<and> with_status CI_DONE (int (Suc (seqs w ''commitintent''))) (committed v) \<and>
     (\<forall>q. stock q (committed v) = stock q (committed w) - qty_of q (bought (pay_order_id p) (committed w)))"
proof -
  let ?w = "w\<lparr>aborted := False\<rparr>" and ?i = "Suc (seqs w ''commitintent'')" and ?m = "confirm_message (Suc (seqs w ''commitintent'')) (pay_order_id p)"
  have run: "wp (razorpay_webhook hmac_hex loads rq) (\<lambda>r v. captured p w v \<and>
        queue v = [(''order.paid'', paid_message (Suc (seqs w ''outboxevent'')) (pay_order_id p) (JStr pid) (JStr poid)),
          (''order_confirm_intent.created'', ?m)]) (\<lambda>_ _. False) (w\<lparr>db := committed w, aborted := False\<rparr>)"
  proof -
    have same: "?w\<lparr>db := committed ?w\<rparr> = w\<lparr>db := committed w, aborted := False\<rparr>" "captured p ?w v = captured p w v" for v
      by (cases w) (simp_all add: captured_def)
    have "quiet ?w" using assms(1) by (simp add: quiet_def)
    from capture_run [OF this assms(2)] assms(3-12) show ?thesis
      unfolding webhook_captured_body [OF assms(2)] same(1) [symmetric] by (auto simp: same(2) elim!: wp_mono)
  qed
  define v0 where "v0 = deliver hmac_hex loads rq w"
  have v0: "captured p w v0" "db v0 = committed v0" "queue v0 =
      [(''order.paid'', paid_message (Suc (seqs w ''outboxevent'')) (pay_order_id p) (JStr pid) (JStr poid)), (''order_confirm_intent.created'', ?m)]"
    using wp_runs [OF run] by (auto simp: v0_def deliver_def serve_def with_session_def captured_def quiet_def)
  define v1 where "v1 = bus_turn images v0"
  have v1: "quiet v1 \<and> queue v1 = [(''order_confirm_intent.created'', ?m)] \<and>
      db_commit_intents (committed v1) = db_commit_intents (committed v0) \<and> db_products (committed v1) = db_products (committed v0)"
  proof -
    have "quiet (v0\<lparr>queue := rest\<rparr>)" for rest using v0(1) by (simp add: captured_def)
    note outbox_turn [OF this, of "Suc (seqs w ''outboxevent'')" "pay_order_id p" "JStr pid" "JStr poid"]
    from turn_runs [OF v0(3) registered(2), of images, unfolded run_handler.simps, OF this] show ?thesis
      by (simp add: v1_def)
  qed
  from captured_intent [OF v0(1) assms(13,14)] v1 obtain c where c: "stock_ok (committed v1)"
    "filter (hit (int ?i)) (db_commit_intents (committed v1)) = [c]" "ci_status c = commit_intent_status_value CI_PENDING"
    "snd (ci_payload c) = bought (pay_order_id p) (committed w)" by blast
  have same: "db_products (committed v1) = db_products (committed w)" using v0(1) v1 by (simp add: captured_def)
  then have "stock q (committed v1) = stock q (committed w)" for q by (simp add: stock_def)
  moreover have "enough (snd (ci_payload c)) (committed v1)" using assms(15) c(4) same by (simp add: enough_def)
  moreover have "json_get ''commit_intent_id'' JNull ?m = Inr (JInt (int ?i))" by (simp add: confirm_message_def)
  ultimately have "wp (run_handler images OrderConfirmCommitIntent ?m) (\<lambda>_ v. with_status CI_DONE (int ?i) (committed v) \<and>
      (\<forall>q. stock q (committed v) = stock q (committed w) - qty_of q (bought (pay_order_id p) (committed w)))) (\<lambda>_ _. False) (v1\<lparr>queue := []\<rparr>)"
    using intent_run [of "v1\<lparr>queue := []\<rparr>" "int ?i" c ?m] v1 c by simp
  then have "with_status CI_DONE (int ?i) (committed (bus_turn images v1)) \<and>
      (\<forall>q. stock q (committed (bus_turn images v1)) = stock q (committed w) - qty_of q (bought (pay_order_id p) (committed w)))"
    by (rule turn_runs [OF _ registered(1), rotated]) (use v1 in simp)
  moreover have "queue (bus_turn images v1) = []"
  proof -
    have "silent (tryM (tasks_executor (run_handler images) (register_subscribers []) (''order_confirm_intent.created'', ?m))
        (\<lambda>e. if e = CancelledError then raiseM e else retM ()))"
      unfolding tasks_executor_def fst_conv snd_conv registered forM.simps run_handler.simps
      by (intro silent_intros silent_commit_handler)
    then show ?thesis using v1 by (simp add: bus_turn_def worker_step_def silent_def)
  qed
  ultimately show ?thesis by (simp add: v1_def v0_def Let_def)
qed

definition stocked_db :: database where
  "stocked_db = pending_db\<lparr>db_products := [sample_product 1 5]\<rparr>"

lemma stocked_fields:
  "db_payments stocked_db = [pending_payment]" "db_webhook_events stocked_db = []" "db_commit_intents stocked_db = []"
  "db_outbox stocked_db = []" "db_products stocked_db = [sample_product 1 5]" "bought 30 stocked_db = [(1, 2)]"
  by (simp_all add: stocked_db_def pending_db_def empty_db_def bought_def)

lemma payment_to_stock_witness:
  "let v = bus_turn (\<lambda>_. retM ()) (bus_turn (\<lambda>_. retM ()) (deliver (\<lambda>_. ''ff'') sample_loads capture_request (start 10 stocked_db))) in
     queue v = [] \<and> stock 1 (committed v) = 3"
proof -
  have "signed (\<lambda>_. ''ff'') sample_loads capture_request (JStr ''pay_Y'') (JStr ''order_X'')"
    by (simp add: signed_def capture_request_def sample_loads_def)
  from payment_to_stock [OF quiet_start this, of 10 stocked_db pending_payment "\<lambda>_. retM ()"] show ?thesis
    by (simp add: known_event_def stocked_fields pending_payment_def unique_on_def payment_provider_payment_key_def stock_ok_def enough_def
        sample_product_def stock_def qty_of_def Let_def)
qed

end
