(* ===== verification/Outbox.thy ===== *)
theory Outbox
  imports Workers
begin

text \<open>
  The two background components that \<open>main.py\<close> does not start: the outbox publisher of
  \<open>backend/background_workers/events_publisher_loop.py\<close>, which is to publish every outbox event that the
  webhook's direct publication missed, and the avatar thumbnails of
  \<open>backend/background_workers/thumbnail_task_handler.py\<close>. Rendering a thumbnail is a parameter.
\<close>

section \<open>The outbox publisher\<close>

definition DEFAULT_BATCH :: nat where "DEFAULT_BATCH = 10"
definition DEFAULT_LOCK_SECONDS :: int where "DEFAULT_LOCK_SECONDS = 60"
definition MAX_PUBLISH_ATTEMPTS :: int where "MAX_PUBLISH_ATTEMPTS = 6"

definition compute_backoff :: "int \<Rightarrow> int" where
  "compute_backoff attempt = min (5 * 2 ^ nat (attempt - 1)) 3600"

text \<open>The column \<open>locked_until\<close> is commented out of the model: reading the attribute is an AttributeError, an
  UPDATE that sets it is refused when the statement is compiled.\<close>

definition locked_until_column :: "(outbox_event \<Rightarrow> int option) handler" where
  "locked_until_column = raiseM AttributeError"

definition update_with_lock :: "nat list \<Rightarrow> (outbox_event \<Rightarrow> outbox_event) \<Rightarrow> int option \<Rightarrow> unit handler" where
  "update_with_lock ids f locked_until =
     doM (raiseM (RuntimeError (Text ''Unconsumed column names: locked_until'')) :: unit handler)
    (modify (db_outbox_update (upd (\<lambda>e. List.member ids (ob_id e)) f)))"

definition claimable :: "int \<Rightarrow> (outbox_event \<Rightarrow> int option) \<Rightarrow> outbox_event \<Rightarrow> bool" where
  "claimable now_expr locked_until e \<longleftrightarrow>
     ob_status e = outbox_status_value OB_PENDING \<and>
       (case ob_next_retry_at e of None \<Rightarrow> True | Some t \<Rightarrow> t \<le> now_expr) \<or>
     (case locked_until e of None \<Rightarrow> False | Some t \<Rightarrow> t \<le> now_expr) \<and> ob_status e = outbox_status_value OB_PENDING"

definition claim_batch :: "nat \<Rightarrow> outbox_event list handler" where
  "claim_batch batch_size =
     letM now (\<lambda>now_expr.
     with_session (begin_tx (
       letM locked_until_column (\<lambda>locked_until.
       letM (query (\<lambda>d. take batch_size (sort_key ob_id (filter (claimable now_expr locked_until) (db_outbox d))))) (\<lambda>rows.
       if rows = [] then retM []
       else
         letM now (\<lambda>t.
         doM (update_with_lock (map ob_id rows) id (Some (t + seconds DEFAULT_LOCK_SECONDS)))
         (retM rows)))))))"

definition publish_row :: "int \<Rightarrow> outbox_event \<Rightarrow> unit handler" where
  "publish_row max_attempts r =
     tryM (doM (publish (ob_topic r) (JObj [(''outbox_id'', JInt (int (ob_id r))), (''payload'', ob_payload r)]))
          (letM now (\<lambda>t.
           with_session (begin_tx (update_with_lock [ob_id r] (\<lambda>e. e\<lparr>ob_status := outbox_status_value OB_SENT\<rparr>) None)))))
       (\<lambda>ex.
         if ex = CancelledError then raiseM ex
         else let attempts = ob_attempts r + 1 in
           if attempts \<ge> max_attempts
           then with_session (begin_tx (update_with_lock [ob_id r]
             (\<lambda>e. e\<lparr>ob_status := outbox_status_value OB_FAILED, ob_attempts := attempts, ob_next_retry_at := None\<rparr>) None))
           else letM now (\<lambda>t.
             with_session (begin_tx (update_with_lock [ob_id r]
               (\<lambda>e. e\<lparr>ob_attempts := attempts, ob_next_retry_at := Some (t + seconds (compute_backoff attempts)),
                       ob_status := outbox_status_value OB_PENDING\<rparr>) None))))"

definition process_batch :: "unit handler" where
  "process_batch =
     letM (claim_batch DEFAULT_BATCH) (\<lambda>rows. forM rows (publish_row MAX_PUBLISH_ATTEMPTS))"

text \<open>\<open>run\<close>, for a number of turns: an exception is logged and the loop goes on.\<close>

primrec publisher_run :: "nat \<Rightarrow> unit handler" where
  "publisher_run 0 = retM ()"
| "publisher_run (Suc n) =
     doM (tryM process_batch (\<lambda>e. if e = CancelledError then raiseM e else retM ())) (publisher_run n)"

section \<open>Thumbnails\<close>

record thumbnail_task =
  tt_user_id :: nat
  tt_media_id :: nat
  tt_rel_path :: string

definition SELECT_MEDIA_ID :: "nat \<Rightarrow> nat list handler" where
  "SELECT_MEDIA_ID i = query (\<lambda>d. map um_id (filter (\<lambda>m. um_id m = i) (db_user_media d)))"

definition set_thumb :: "nat \<Rightarrow> nat \<Rightarrow> string option \<Rightarrow> unit handler" where
  "set_thumb i user_id thumb = with_session (
     doM (modify (db_user_media_update (upd (\<lambda>m. um_id m = i \<and> um_user_id m = user_id) (\<lambda>m. m\<lparr>um_profile_image_thumb_url := thumb\<rparr>)))) commit)"

text \<open>The result object of the SELECT is always true. Every exception, a cancellation included, is lost in
  \<open>finally: return\<close>.\<close>

definition process_thumbnail_task :: "(nat \<Rightarrow> string \<Rightarrow> exc + string) \<Rightarrow> nat \<Rightarrow> nat \<Rightarrow> string \<Rightarrow> nat handler" where
  "process_thumbnail_task make_thumb row_id user_id img_rel =
     doM (with_session (SELECT_MEDIA_ID row_id))
    (tryM
      (tryM
        (letM (liftM (make_thumb row_id img_rel)) (\<lambda>rel_thumb.
         doM (set_thumb row_id user_id (Some rel_thumb)) (retM 1)))
        (\<lambda>e. if e = CancelledError then raiseM e else doM (set_thumb row_id user_id None) (retM 0)))
      (\<lambda>e. retM 0))"

definition thumbgen :: "(nat \<Rightarrow> string \<Rightarrow> exc + string) \<Rightarrow> thumbnail_task \<Rightarrow> unit handler" where
  "thumbgen make_thumb task =
     letM (process_thumbnail_task make_thumb (tt_media_id task) (tt_user_id task) (tt_rel_path task)) (\<lambda>_. retM ())"

section \<open>Properties\<close>

lemma compute_backoff_bounds: "1 \<le> n \<Longrightarrow> 5 \<le> compute_backoff n \<and> compute_backoff n \<le> 3600 \<and> compute_backoff n \<le> compute_backoff (n + 1)"
proof -
  assume "1 \<le> n"
  have "min (5 * 2 ^ nat (n - 1)) 3600 \<le> min (5 * 2 ^ nat n) (3600::int)"
    by (intro min.mono mult_left_mono power_increasing) auto
  moreover have "(1::int) \<le> 2 ^ nat (n - 1)" by simp
  ultimately show ?thesis by (simp add: compute_backoff_def)
qed

lemma process_batch_fails: "wp process_batch (\<lambda>_ _. False) (\<lambda>e v. e = AttributeError \<and> committed v = committed w \<and> queue v = queue w) w"
  by (simp add: process_batch_def claim_batch_def locked_until_column_def wp_simps wp_begin_tx)

text \<open>The outbox publisher publishes nothing: in every turn its query names a column the table does not have, so that
  however long it runs no event is taken from the outbox, none is published and nothing is stored. An
  event the webhook could not publish is never published again.\<close>

theorem publisher_publishes_nothing:
  fixes w :: state
  shows "\<exists>v. publisher_run n w = (Inr (), v) \<and> committed v = committed w \<and> queue v = queue w"
proof -
  have "wp (publisher_run n) (\<lambda>_ v. committed v = committed w \<and> queue v = queue w) (\<lambda>_ _. False) u"
    if "committed u = committed w" "queue u = queue w" for u
    using that
  proof (induction n arbitrary: u)
    case 0
    then show ?case by (simp add: wp_ret)
  next
    case (Suc n)
    show ?case
      unfolding publisher_run.simps wp_do wp_try
      by (rule wp_mono [OF process_batch_fails [of u]]) (auto simp: wp_ret Suc)
  qed
  from wp_runs [OF this [OF refl refl]] show ?thesis by auto
qed

end
