(* ===== verification/Logging.thy ===== *)
theory Logging
  imports Circuit "HOL-Library.Sublist" "HOL-Library.AList"
begin

text \<open>
  Redaction of log messages: \<open>sanitize_message_text\<close>, the formatter and the filter of
  \<open>backend/common/logging_setup.py\<close>. The two regular expressions are lists of items for a small
  backtracking matcher with the semantics of Python's \<open>re\<close> (greedy repetition, leftmost match).
  Characters are the code points below 256.
\<close>

section \<open>Regular expressions\<close>

text \<open>One character of a class, greedy \<open>*\<close> and greedy \<open>+\<close>.\<close>

datatype re_item =
    One "char \<Rightarrow> bool"
  | Many "char \<Rightarrow> bool"

fun add_char :: "char \<Rightarrow> (string list \<times> string) option \<Rightarrow> (string list \<times> string) option" where
  "add_char c (Some (p # ps, rest)) = Some ((c # p) # ps, rest)"
| "add_char c _ = None"

fun add_piece :: "string \<Rightarrow> (string list \<times> string) option \<Rightarrow> (string list \<times> string) option" where
  "add_piece p None = None"
| "add_piece p (Some (ps, rest)) = Some (p # ps, rest)"

text \<open>A match gives the piece matched by every item and the rest of the text; a repetition tries the
  longest piece first.\<close>

fun re_match :: "re_item list \<Rightarrow> string \<Rightarrow> (string list \<times> string) option" where
  "re_match [] s = Some ([], s)"
| "re_match (One P # r) [] = None"
| "re_match (One P # r) (c # s) = (if P c then add_piece [c] (re_match r s) else None)"
| "re_match (Many P # r) [] = add_piece [] (re_match r [])"
| "re_match (Many P # r) (c # s) =
     (if P c then
        (case add_char c (re_match (Many P # r) s) of
           Some m \<Rightarrow> Some m
         | None \<Rightarrow> add_piece [] (re_match r (c # s)))
      else add_piece [] (re_match r (c # s)))"

text \<open>\<open>re.sub\<close> with the replacement \<open>\1[REDACTED]\2\<close>: the pattern is given as its first group, the part
  that is replaced, and its second group. The number counts the characters of a match still to be skipped.\<close>

type_synonym re_pattern = "re_item list \<times> re_item list \<times> re_item list"

definition REDACTED :: string where
  "REDACTED = ''[REDACTED]''"

fun re_replacement :: "re_pattern \<Rightarrow> string list \<Rightarrow> string" where
  "re_replacement (g1, v, g2) ps =
     concat (take (length g1) ps) @ REDACTED @ concat (drop (length g1 + length v) ps)"

fun re_whole :: "re_pattern \<Rightarrow> re_item list" where
  "re_whole (g1, v, g2) = g1 @ v @ g2"

fun re_sub_from :: "re_pattern \<Rightarrow> nat \<Rightarrow> string \<Rightarrow> string" where
  "re_sub_from pat n [] = []"
| "re_sub_from pat (Suc n) (c # s) = re_sub_from pat n s"
| "re_sub_from pat 0 (c # s) =
     (case re_match (re_whole pat) (c # s) of
        None \<Rightarrow> c # re_sub_from pat 0 s
      | Some (ps, rest) \<Rightarrow> re_replacement pat ps @ re_sub_from pat (length s - length rest) s)"

definition re_sub :: "re_pattern \<Rightarrow> string \<Rightarrow> string" where
  "re_sub pat s = re_sub_from pat 0 s"

section \<open>Sanitising a message\<close>

text \<open>\<open>\s\<close>, \<open>\w\<close>, the classes of the patterns, and a literal under \<open>IGNORECASE\<close>.\<close>

definition re_space :: "char \<Rightarrow> bool" where
  "re_space c \<longleftrightarrow> (of_char c :: nat) \<in> {9, 10, 11, 12, 13, 28, 29, 30, 31, 32, 133, 160}"

definition re_word :: "char \<Rightarrow> bool" where
  "re_word c \<longleftrightarrow> (let n = (of_char c :: nat) in
     48 \<le> n \<and> n \<le> 57 \<or> 65 \<le> n \<and> n \<le> 90 \<or> n = 95 \<or> 97 \<le> n \<and> n \<le> 122 \<or>
     n \<in> {170, 178, 179, 181, 185, 186, 188, 189, 190} \<or> 192 \<le> n \<and> n \<noteq> 215 \<and> n \<noteq> 247)"

definition value_char :: "char \<Rightarrow> bool" where
  "value_char c \<longleftrightarrow> re_word c \<or> c \<in> {CHR ''-'', CHR ''.'', CHR ''/''}"

definition sep_char :: "char \<Rightarrow> bool" where
  "sep_char c \<longleftrightarrow> c = CHR ''='' \<or> c = CHR '':'' \<or> re_space c"

definition lits :: "string \<Rightarrow> re_item list" where
  "lits p = map (\<lambda>a. One (\<lambda>c. lower_char c = a)) p"

text \<open>\<open>("p"\s*:\s*")[^"]+(")\<close> and \<open>(p\s*[=:\s]\s*)[\w\-\./]+\<close>.\<close>

definition quoted_pattern :: "string \<Rightarrow> re_pattern" where
  "quoted_pattern p =
     (lits (CHR 0x22 # p @ [CHR 0x22]) @ [Many re_space, One (\<lambda>c. c = CHR '':''), Many re_space, One (\<lambda>c. c = CHR 0x22)],
      [One (\<lambda>c. c \<noteq> CHR 0x22), Many (\<lambda>c. c \<noteq> CHR 0x22)],
      [One (\<lambda>c. c = CHR 0x22)])"

definition plain_pattern :: "string \<Rightarrow> re_pattern" where
  "plain_pattern p =
     (lits p @ [Many re_space, One sep_char, Many re_space], [One value_char, Many value_char], [])"

definition SENSITIVE_PATTERNS :: "string list" where
  "SENSITIVE_PATTERNS =
     [''password'', ''secret'', ''token'', ''key'', ''authorization'', ''api_key'', ''apikey'',
      ''access_token'', ''refresh_token'', ''credit_card'', ''cvv'', ''ssn'', ''pwd_hash'']"

definition sanitize_message_text :: "string \<Rightarrow> string" where
  "sanitize_message_text msg =
     fold (\<lambda>p out. re_sub (plain_pattern p) (re_sub (quoted_pattern p) out)) SENSITIVE_PATTERNS msg"

section \<open>The matcher\<close>

lemma re_sub_skip: "re_sub_from pat n s = re_sub_from pat 0 (drop n s)"
proof (induction n arbitrary: s)
  case (Suc n)
  then show ?case by (cases s) auto
qed simp

lemma re_sub_none: "re_match (re_whole pat) (c # s) = None \<Longrightarrow> re_sub pat (c # s) = c # re_sub pat s"
  by (simp add: re_sub_def)

lemma re_sub_some:
  assumes "re_match (re_whole pat) (m @ rest) = Some (ps, rest)" and "m \<noteq> []"
  shows "re_sub pat (m @ rest) = re_replacement pat ps @ re_sub pat rest"
proof (cases m)
  case (Cons c m')
  have "re_sub pat (m @ rest) = re_replacement pat ps @ re_sub_from pat (length (m' @ rest) - length rest) (m' @ rest)"
    using assms(1) unfolding Cons re_sub_def by simp
  also have "re_sub_from pat (length (m' @ rest) - length rest) (m' @ rest) = re_sub pat rest"
    by (subst re_sub_skip) (simp add: re_sub_def)
  finally show ?thesis .
qed (use assms in simp)

lemma match_lits:
  "re_match (lits p @ r) s =
     (if length p \<le> length s \<and> map lower_char (take (length p) s) = p
      then map_option (\<lambda>(ps, rest). (map (\<lambda>c. [c]) (take (length p) s) @ ps, rest)) (re_match r (drop (length p) s))
      else None)"
proof (induction p arbitrary: s)
  case Nil
  then show ?case by (cases "re_match r s") (auto simp: lits_def)
next
  case (Cons a p)
  show ?case
  proof (cases s)
    case (Cons c s')
    then show ?thesis using Cons.IH [of s']
      by (cases "re_match r (drop (length p) s')") (auto simp: lits_def)
  qed (simp add: lits_def)
qed

lemma match_lits_fails:
  "re_match (lits p @ r) s = None \<longleftrightarrow>
     \<not> (length p \<le> length s \<and> map lower_char (take (length p) s) = p \<and> re_match r (drop (length p) s) \<noteq> None)"
  by (cases "re_match r (drop (length p) s)") (auto simp: match_lits)

lemma match_many_all:
  assumes "\<forall>c\<in>set u. P c" and "re_match r x = Some (ps, rest)" and "x = [] \<or> \<not> P (hd x)"
  shows "re_match (Many P # r) (u @ x) = Some (u # ps, rest)"
  using assms(1)
proof (induction u)
  case Nil
  then show ?case using assms(2,3) by (cases x) auto
qed simp

lemma match_many_none:
  assumes "\<And>w. suffix w u \<Longrightarrow> re_match r (w @ x) = None" and "\<forall>c\<in>set u. P c" and "x = [] \<or> \<not> P (hd x)"
  shows "re_match (Many P # r) (u @ x) = None"
  using assms(1,2)
proof (induction u)
  case Nil
  then have "re_match r x = None" by simp
  then show ?case using assms(3) by (cases x) auto
next
  case (Cons c u)
  have "re_match r ((c # u) @ x) = None" using Cons.prems(1) by blast
  moreover have "re_match (Many P # r) (u @ x) = None"
    using Cons.IH Cons.prems by (simp add: suffix_Cons)
  ultimately show ?case by simp
qed

section \<open>What follows a sensitive word\<close>

abbreviation (input) after_word :: "re_item list" where
  "after_word \<equiv> [Many re_space, One sep_char, Many re_space, One value_char, Many value_char]"

definition ends_word :: "string \<Rightarrow> bool" where
  "ends_word x \<longleftrightarrow> x = [] \<or> sep_char (hd x)"

definition ends_value :: "string \<Rightarrow> bool" where
  "ends_value x \<longleftrightarrow> x = [] \<or> \<not> value_char (hd x)"

lemma whole_plain: "re_whole (plain_pattern p) = lits p @ after_word"
  by (simp add: plain_pattern_def)

lemma space_not_value: "re_space c \<Longrightarrow> \<not> value_char c"
proof
  assume sp: "re_space c" and "value_char c"
  then consider "re_word c" | "c = CHR ''-''" | "c = CHR ''.''" | "c = CHR ''/''" by (auto simp: value_char_def)
  then show False
  proof cases
    case 1
    define n where "n = (of_char c :: nat)"
    have "n \<in> {9, 10, 11, 12, 13, 28, 29, 30, 31, 32, 133, 160}"
      using sp unfolding re_space_def n_def .
    then show False using 1 unfolding re_word_def Let_def n_def [symmetric] by (elim insertE) simp_all
  qed (use sp in \<open>simp_all add: re_space_def\<close>)
qed


lemma lower_sep: "sep_char c \<Longrightarrow> lower_char c = c"
  by (auto simp: sep_char_def re_space_def lower_char_def)

lemma after_word_none:
  assumes "\<not> (x \<noteq> [] \<and> sep_char (hd x))"
  shows "re_match after_word x = None"
  using assms by (cases x) (auto simp: sep_char_def)

lemma match_plain_none:
  assumes "\<forall>c\<in>set w. \<not> sep_char c" and "\<forall>c\<in>set q. \<not> sep_char c" and "ends_word x" and "q \<noteq> []"
    and "map lower_char w \<noteq> q \<or> x = []"
  shows "re_match (re_whole (plain_pattern q)) (w @ x) = None"
proof (rule ccontr)
  assume "re_match (re_whole (plain_pattern q)) (w @ x) \<noteq> None"
  then have q: "map lower_char (take (length q) (w @ x)) = q" "length q \<le> length (w @ x)"
    and rest: "re_match after_word (drop (length q) (w @ x)) \<noteq> None"
    unfolding whole_plain match_lits_fails by blast+
  from rest have rest: "drop (length q) (w @ x) \<noteq> [] \<and> sep_char (hd (drop (length q) (w @ x)))" by (rule contrapos_np) (rule after_word_none)
  consider "length q < length w" | "length q = length w" | "length w < length q" by linarith
  then show False
  proof cases
    case 1
    then obtain c w' where c: "drop (length q) w = c # w'" by (cases "drop (length q) w") simp_all
    then have "c \<in> set w" by (metis in_set_dropD list.set_intros(1))
    moreover have "sep_char c" using rest c 1 by simp
    ultimately show False using assms(1) by blast
  next
    case 2
    then show False using q(1) rest assms(5) by auto
  next
    case 3
    then obtain c x' where x: "x = c # x'" "sep_char c" using q(2) assms(3) by (cases x) (auto simp: ends_word_def)
    have "(w @ x) ! length w = c" by (simp add: x)
    then have "q ! length w = lower_char c"
      using q 3 by (metis nth_map nth_take length_map length_take min.absorb2)
    then show False using 3 lower_sep [OF x(2)] assms(2) x(2) by (metis nth_mem)
  qed
qed

lemma scan_word:
  assumes "\<forall>c\<in>set w. \<not> sep_char c" and "\<forall>c\<in>set q. \<not> sep_char c" and "ends_word x" and "q \<noteq> []"
    and "\<not> suffix q (map lower_char w) \<or> x = []"
  shows "re_sub (plain_pattern q) (w @ x) = w @ re_sub (plain_pattern q) x"
  using assms(1,5)
proof (induction w)
  case (Cons c w)
  have "map lower_char (c # w) \<noteq> q \<or> x = []" using Cons.prems(2) by auto
  from match_plain_none [OF Cons.prems(1) assms(2-4) this] show ?case
    using Cons by (auto simp: re_sub_none suffix_Cons)
qed simp

lemma scan_last:
  assumes "\<forall>c\<in>set w. \<not> sep_char c" and "\<forall>c\<in>set q. \<not> sep_char c" and "q \<noteq> []"
  shows "re_sub (plain_pattern q) w = w"
  using scan_word [of w q "[]"] assms by (simp add: ends_word_def re_sub_def)

lemma scan_seps:
  assumes "\<forall>c\<in>set ws. sep_char c" and "\<forall>c\<in>set q. \<not> sep_char c" and "q \<noteq> []"
  shows "re_sub (plain_pattern q) (ws @ x) = ws @ re_sub (plain_pattern q) x"
  using assms(1)
proof (induction ws)
  case (Cons c ws)
  obtain a q' where q: "q = a # q'" using assms(3) by (cases q) auto
  then have "lower_char c \<noteq> a" using Cons.prems assms(2) lower_sep [of c] by auto
  then have "re_match (re_whole (plain_pattern q)) (c # ws @ x) = None"
    unfolding whole_plain match_lits_fails by (simp add: q)
  then show ?case using Cons by (simp add: re_sub_none)
qed simp

text \<open>The separator, blanks and the value.\<close>

lemma after_match:
  assumes "s0 \<in> {CHR ''='', CHR '':''}" and "\<forall>c\<in>set ws. re_space c" and "\<forall>c\<in>set v. value_char c" and "v \<noteq> []"
    and "ends_value y"
  shows "re_match after_word (s0 # ws @ v @ y) = Some ([[], [s0], ws, [hd v], tl v], y)"
proof -
  obtain a v' where v: "v = a # v'" using assms(4) by (cases v) auto
  have "re_match [Many value_char] (v' @ y) = Some ([v'], y)"
    by (rule match_many_all) (use assms v in \<open>auto simp: ends_value_def\<close>)
  then have "re_match [One value_char, Many value_char] (v @ y) = Some ([[a], v'], y)"
    using assms(3) v by simp
  then have "re_match [Many re_space, One value_char, Many value_char] (ws @ v @ y) = Some ([ws, [a], v'], y)"
    using match_many_all [of ws re_space "[One value_char, Many value_char]" "v @ y" "[[a], v']" y] assms(2,3) v space_not_value
    by auto
  moreover have "\<not> re_space s0" "sep_char s0" using assms(1) by (auto simp: re_space_def sep_char_def)
  ultimately show ?thesis by (simp add: v)
qed

lemma after_fail:
  assumes "s0 \<in> {CHR ''='', CHR '':''}" and "\<forall>c\<in>set ws. re_space c" and "\<not> re_space a" and "\<not> value_char a"
  shows "re_match after_word (s0 # ws @ a # y) = None"
proof -
  have "re_match [Many re_space, One value_char, Many value_char] (ws @ a # y) = None"
  proof (rule match_many_none)
    fix w assume "suffix w ws"
    then have "\<forall>c\<in>set w. \<not> value_char c" using assms(2) space_not_value set_mono_suffix by blast
    then show "re_match [One value_char, Many value_char] (w @ a # y) = None"
      using assms(4) by (cases w) auto
  qed (use assms in auto)
  moreover have "\<not> re_space s0" "sep_char s0" using assms(1) by (auto simp: re_space_def sep_char_def)
  ultimately show ?thesis by simp
qed

section \<open>What one pass does\<close>

lemma suffix_map_split:
  assumes "suffix q (map f w)"
  obtains u q' where "w = u @ q'" and "map f q' = q"
  using assms by (auto simp: suffix_def map_eq_append_conv)

text \<open>The word is followed by a separator and a value: the value is replaced.\<close>

lemma redact_word:
  assumes "\<forall>c\<in>set u. \<not> sep_char c" and q': "map lower_char q' = q" "\<forall>c\<in>set q'. \<not> sep_char c"
    and q: "\<forall>c\<in>set q. \<not> sep_char c" "q \<noteq> []"
    and s0: "s0 \<in> {CHR ''='', CHR '':''}" and tl: "\<forall>c\<in>set ws. re_space c" "\<forall>c\<in>set v. value_char c" "v \<noteq> []" "ends_value y"
  shows "re_sub (plain_pattern q) ((u @ q') @ s0 # ws @ v @ y) =
         (u @ q') @ s0 # ws @ REDACTED @ re_sub (plain_pattern q) y"
  using assms(1)
proof (induction u)
  case Nil
  have len: "length q' = length q" using q'(1) by auto
  have after: "re_match after_word (s0 # ws @ v @ y) = Some ([[], [s0], ws, [hd v], tl v], y)"
    by (rule after_match [OF s0 tl])
  have "re_match (re_whole (plain_pattern q)) (q' @ s0 # ws @ v @ y) =
        Some (map (\<lambda>c. [c]) q' @ [[], [s0], ws, [hd v], tl v], y)"
    unfolding whole_plain match_lits by (simp add: len [symmetric] q'(1) after del: re_match.simps)
  then have "re_match (re_whole (plain_pattern q)) ((q' @ s0 # ws @ v) @ y) =
        Some (map (\<lambda>c. [c]) q' @ [[], [s0], ws, [hd v], tl v], y)" by simp
  from re_sub_some [OF this] have "re_sub (plain_pattern q) (q' @ s0 # ws @ v @ y) =
      re_replacement (plain_pattern q) (map (\<lambda>c. [c]) q' @ [[], [s0], ws, [hd v], tl v]) @ re_sub (plain_pattern q) y"
    by simp
  also have "re_replacement (plain_pattern q) (map (\<lambda>c. [c]) q' @ [[], [s0], ws, [hd v], tl v]) = q' @ s0 # ws @ REDACTED"
    by (simp add: plain_pattern_def lits_def len [symmetric] concat_map_singleton)
  finally show ?case by simp
next
  case (Cons c u)
  have word: "\<forall>c\<in>set (c # u @ q'). \<not> sep_char c" using Cons.prems q'(2) by auto
  have "map lower_char (c # u @ q') \<noteq> q \<or> s0 # ws @ v @ y = []" using arg_cong [OF q'(1), of length] by auto
  moreover have "ends_word (s0 # ws @ v @ y)" using s0 by (auto simp: ends_word_def sep_char_def)
  ultimately have "re_match (re_whole (plain_pattern q)) ((c # u @ q') @ s0 # ws @ v @ y) = None"
    using match_plain_none [OF word q(1) _ q(2)] by blast
  then show ?case using Cons by (simp add: re_sub_none)
qed

text \<open>A redacted value is left alone by every pass.\<close>

lemma redacted_stays:
  assumes w: "\<forall>c\<in>set w. \<not> sep_char c" and q: "\<forall>c\<in>set q. \<not> sep_char c" "q \<noteq> []"
    and s0: "s0 \<in> {CHR ''='', CHR '':''}" and ws: "\<forall>c\<in>set ws. re_space c"
    and y: "re_sub (plain_pattern q) (REDACTED @ y) = REDACTED @ y"
  shows "re_sub (plain_pattern q) (w @ s0 # ws @ REDACTED @ y) = w @ s0 # ws @ REDACTED @ y"
  using w
proof (induction w)
  case Nil
  have "\<forall>c\<in>set (s0 # ws). sep_char c" using s0 ws by (auto simp: sep_char_def)
  then show ?case using scan_seps [of "s0 # ws" q "REDACTED @ y"] q y by simp
next
  case (Cons c w)
  let ?x = "s0 # ws @ REDACTED @ y"
  have fail: "re_match after_word ?x = None"
    unfolding REDACTED_def using after_fail [OF s0 ws, of "CHR ''[''" "''REDACTED]'' @ y"]
    by (simp add: re_space_def value_char_def re_word_def del: re_match.simps)
  have "re_match (re_whole (plain_pattern q)) ((c # w) @ ?x) = None"
  proof (cases "map lower_char (c # w) = q")
    case True
    then have len: "length q = length (c # w)" by auto
    show ?thesis unfolding whole_plain match_lits_fails len using fail by simp
  next
    case False
    have "ends_word ?x" using s0 by (auto simp: ends_word_def sep_char_def)
    then show ?thesis using match_plain_none [OF Cons.prems q(1) _ q(2)] False by blast
  qed
  then show ?case using Cons by (simp add: re_sub_none)
qed

text \<open>Without a double quote the first pattern does nothing.\<close>

lemma quoted_id:
  assumes "CHR 0x22 \<notin> set s"
  shows "re_sub (quoted_pattern p) s = s"
  using assms
proof (induction s)
  case Nil
  then show ?case by (simp add: re_sub_def)
next
  case (Cons c s)
  have "lower_char c \<noteq> CHR 0x22"
  proof
    assume low: "lower_char c = CHR 0x22"
    then have "(of_char (lower_char c) :: nat) = 34" by simp
    moreover have "(of_char (lower_char c) :: nat) = (if 65 \<le> (of_char c :: nat) \<and> (of_char c :: nat) \<le> 90 then of_char c + 32 else of_char c)"
      by (simp add: lower_char_def of_char_of)
    ultimately have "lower_char c = c" by (auto simp: lower_char_def split: if_splits)
    then show False using low Cons.prems by simp
  qed
  then have "re_match (re_whole (quoted_pattern p)) (c # s) = None"
    by (simp add: quoted_pattern_def lits_def)
  then show ?case using Cons by (simp add: re_sub_none)
qed

section \<open>What the sanitiser does\<close>

text \<open>Texts without separators and quotes.\<close>

definition plain_text :: "string \<Rightarrow> bool" where
  "plain_text s \<longleftrightarrow> list_all (\<lambda>c. \<not> sep_char c \<and> c \<noteq> CHR 0x22) s"

lemma plain_textD: "plain_text s \<Longrightarrow> \<forall>c\<in>set s. \<not> sep_char c" "plain_text s \<Longrightarrow> CHR 0x22 \<notin> set s"
  by (auto simp: plain_text_def list_all_iff)

lemma sensitive_words: "q \<in> set SENSITIVE_PATTERNS \<Longrightarrow> \<forall>c\<in>set q. \<not> sep_char c"
  "q \<in> set SENSITIVE_PATTERNS \<Longrightarrow> q \<noteq> []"
  by (auto simp: SENSITIVE_PATTERNS_def sep_char_def re_space_def)


lemma REDACTED_plain: "plain_text REDACTED"
  by (simp add: plain_text_def REDACTED_def sep_char_def re_space_def)

lemma spaces_unquoted: "\<forall>c\<in>set ws. re_space c \<Longrightarrow> CHR 0x22 \<notin> set ws"
  by (auto simp: re_space_def)

text \<open>Texts that no pattern changes.\<close>

definition inert :: "string \<Rightarrow> bool" where
  "inert x \<longleftrightarrow> CHR 0x22 \<notin> set x \<and> (\<forall>q\<in>set SENSITIVE_PATTERNS. re_sub (plain_pattern q) x = x)"

lemma inert_plain: "plain_text x \<Longrightarrow> inert x"
  using scan_last plain_textD sensitive_words by (simp add: inert_def)

lemma pass_pair:
  assumes w: "plain_text w" and s0: "s0 \<in> {CHR ''='', CHR '':''}" and ws: "\<forall>c\<in>set ws. re_space c"
    and v: "\<forall>c\<in>set v. value_char c" "v \<noteq> []" and y: "inert y" "inert (v @ y)" "ends_value y"
    and q: "q \<in> set SENSITIVE_PATTERNS"
  shows "re_sub (plain_pattern q) (re_sub (quoted_pattern q) (w @ s0 # ws @ v @ y)) =
         w @ s0 # ws @ (if suffix q (map lower_char w) then REDACTED else v) @ y"
proof -
  note qs = sensitive_words [OF q] and ws' = plain_textD(1) [OF w]
  have "CHR 0x22 \<notin> set (w @ s0 # ws @ v @ y)"
    using plain_textD(2) [OF w] s0 spaces_unquoted [OF ws] y(2) by (auto simp: inert_def)
  note unquoted = quoted_id [OF this]
  have "re_sub (plain_pattern q) (w @ s0 # ws @ v @ y) =
        w @ s0 # ws @ (if suffix q (map lower_char w) then REDACTED else v) @ y"
  proof (cases "suffix q (map lower_char w)")
    case True
    then obtain u q' where w: "w = u @ q'" "map lower_char q' = q" by (rule suffix_map_split)
    have "re_sub (plain_pattern q) ((u @ q') @ s0 # ws @ v @ y) = (u @ q') @ s0 # ws @ REDACTED @ re_sub (plain_pattern q) y"
      by (rule redact_word) (use w ws' qs s0 ws v y in auto)
    then show ?thesis using True w(1) y(1) q by (simp add: inert_def)
  next
    case False
    have x: "ends_word (s0 # ws @ v @ y)" using s0 by (auto simp: ends_word_def sep_char_def)
    have sw: "\<forall>c\<in>set (s0 # ws). sep_char c" using s0 ws by (auto simp: sep_char_def)
    show ?thesis
      using scan_word [OF ws' qs(1) x qs(2)] scan_seps [OF sw qs, of "v @ y"] y(2) q False by (simp add: inert_def)
  qed
  then show ?thesis unfolding unquoted .
qed

lemma pass_redacted:
  assumes w: "plain_text w" and s0: "s0 \<in> {CHR ''='', CHR '':''}" and ws: "\<forall>c\<in>set ws. re_space c" and y: "inert (REDACTED @ y)"
    and q: "q \<in> set SENSITIVE_PATTERNS"
  shows "re_sub (plain_pattern q) (re_sub (quoted_pattern q) (w @ s0 # ws @ REDACTED @ y)) = w @ s0 # ws @ REDACTED @ y"
proof -
  have "CHR 0x22 \<notin> set (w @ s0 # ws @ REDACTED @ y)"
    using plain_textD(2) [OF w] s0 spaces_unquoted [OF ws] y by (auto simp: inert_def)
  from quoted_id [OF this] redacted_stays [OF plain_textD(1) [OF w] sensitive_words [OF q] s0 ws, of y] y q
  show ?thesis by (simp add: inert_def)
qed

lemma passes_redacted:
  assumes "plain_text w" and "s0 \<in> {CHR ''='', CHR '':''}" and "\<forall>c\<in>set ws. re_space c" and "inert (REDACTED @ y)"
    and "set ps \<subseteq> set SENSITIVE_PATTERNS"
  shows "fold (\<lambda>p out. re_sub (plain_pattern p) (re_sub (quoted_pattern p) out)) ps (w @ s0 # ws @ REDACTED @ y) =
         w @ s0 # ws @ REDACTED @ y"
  using assms(5) by (induction ps) (simp_all add: pass_redacted [OF assms(1-4)])

lemma passes_pair:
  assumes "plain_text w" and "s0 \<in> {CHR ''='', CHR '':''}" and "\<forall>c\<in>set ws. re_space c"
    and "\<forall>c\<in>set v. value_char c" and "v \<noteq> []" and "inert y" and "inert (v @ y)" and "ends_value y"
    and "inert (REDACTED @ y)" and "set ps \<subseteq> set SENSITIVE_PATTERNS"
  shows "fold (\<lambda>p out. re_sub (plain_pattern p) (re_sub (quoted_pattern p) out)) ps (w @ s0 # ws @ v @ y) =
         w @ s0 # ws @ (if list_ex (\<lambda>p. suffix p (map lower_char w)) ps then REDACTED else v) @ y"
  using assms(10)
  by (induction ps) (auto simp: pass_pair [OF assms(1-8)] passes_redacted [OF assms(1-3,9)])




text \<open>Only the scheme of an authorization header is redacted; the credential stays.\<close>

lemma authorization_credential_logged:
  assumes "plain_text cred"
  shows "sanitize_message_text (''Authorization: Bearer '' @ cred) = ''Authorization: [REDACTED] '' @ cred"
proof -
  let ?y = "'' '' @ cred"
  have y: "inert ?y"
    using assms scan_seps [of "'' ''" _ cred] inert_plain [OF assms] sensitive_words
    by (auto simp: inert_def sep_char_def re_space_def)
  have app: "inert (x @ ?y)" if "plain_text x" "list_all (\<lambda>q. \<not> suffix q (map lower_char x)) SENSITIVE_PATTERNS" for x
    using that y plain_textD [OF that(1)] scan_word [of x _ ?y] sensitive_words
    by (auto simp: inert_def list_all_iff ends_word_def sep_char_def re_space_def)
  have "plain_text ''Bearer''" "list_all (\<lambda>q. \<not> suffix q (map lower_char ''Bearer'')) SENSITIVE_PATTERNS"
    "list_all (\<lambda>q. \<not> suffix q (map lower_char REDACTED)) SENSITIVE_PATTERNS"
    "plain_text ''Authorization''" "\<forall>c\<in>set ''Bearer''. value_char c" "\<forall>c\<in>set '' ''. re_space c"
    "list_ex (\<lambda>p. suffix p (map lower_char ''Authorization'')) SENSITIVE_PATTERNS" "\<not> value_char CHR '' ''"
    by code_simp+
  then show ?thesis
    using passes_pair [of "''Authorization''" "CHR '':''" "'' ''" "''Bearer''" ?y SENSITIVE_PATTERNS]
      app [of "''Bearer''"] app [OF REDACTED_plain] y
    by (simp add: sanitize_message_text_def REDACTED_def ends_value_def)
qed

section \<open>Formatting a record\<close>

text \<open>A log record: \<open>lr_message\<close> is what \<open>getMessage\<close> gives, \<open>lr_dict\<close> its \<open>__dict__\<close>, in order.\<close>

record log_record =
  lr_levelname :: string
  lr_name :: string
  lr_message :: string
  lr_module :: string
  lr_funcName :: string
  lr_lineno :: int
  lr_exception :: "string option"
  lr_dict :: "(string \<times> json) list"

definition STANDARD_FIELDS :: "string list" where
  "STANDARD_FIELDS =
     [''name'', ''msg'', ''args'', ''levelname'', ''levelno'', ''pathname'', ''filename'',
      ''module'', ''exc_info'', ''exc_text'', ''stack_info'', ''lineno'', ''funcName'',
      ''created'', ''msecs'', ''relativeCreated'', ''thread'', ''threadName'', ''processName'',
      ''process'']"

definition ID_FIELDS :: "string list" where
  "ID_FIELDS = [''user_public_id'', ''public_id'', ''device_public_id'']"

text \<open>The extra attributes of a record.\<close>

definition extra_fields :: "(string \<times> json) list \<Rightarrow> (string \<times> json) list" where
  "extra_fields attrs =
     filter (\<lambda>(k, v). k \<notin> set STANDARD_FIELDS \<and> \<not> prefix ''_'' k) attrs"

definition shorten_id :: "string \<Rightarrow> string" where
  "shorten_id val =
     (if length val > 12 then take 8 val @ ''...'' @ drop (length val - 4) val else take 8 val @ ''...'')"

text \<open>\<open>py_str\<close> is Python's \<open>str\<close>; it does not raise on the values logged here.\<close>

definition shorten_field :: "(json \<Rightarrow> string) \<Rightarrow> string \<Rightarrow> (string \<times> json) list \<Rightarrow> (string \<times> json) list" where
  "shorten_field py_str field extra =
     (case map_of extra field of
        None \<Rightarrow> extra
      | Some v \<Rightarrow> AList.update field (JStr (shorten_id (py_str v))) extra)"

definition formatted_fields ::
    "(json \<Rightarrow> string) \<Rightarrow> string \<Rightarrow> string \<Rightarrow> string \<Rightarrow> string option \<Rightarrow> log_record \<Rightarrow> (string \<times> json) list" where
  "formatted_fields py_str ENV service timestamp request_id r =
     (let log_data =
            [(''timestamp'', JStr timestamp), (''level'', JStr (lr_levelname r)), (''logger'', JStr (lr_name r)),
             (''message'', JStr (lr_message r)), (''module'', JStr (lr_module r)), (''function'', JStr (lr_funcName r)),
             (''line'', JInt (lr_lineno r)), (''env'', JStr ENV), (''service'', JStr service)];
          log_data =
            (case request_id of
               Some rid \<Rightarrow> if rid \<noteq> [] then AList.update ''request_id'' (JStr rid) log_data else log_data
             | None \<Rightarrow> log_data);
          extra = extra_fields (lr_dict r);
          extra = (if ENV \<noteq> ''dev'' then fold (shorten_field py_str) ID_FIELDS extra else extra);
          log_data = fold (\<lambda>(k, v). AList.update k v) extra log_data in
      case lr_exception r of
        Some e \<Rightarrow> AList.update ''exception'' (JStr e) log_data
      | None \<Rightarrow> log_data)"

definition format_record ::
    "(json \<Rightarrow> string) \<Rightarrow> string \<Rightarrow> string \<Rightarrow> string \<Rightarrow> string option \<Rightarrow> log_record \<Rightarrow> exc + (string \<times> json) list" where
  "format_record py_str ENV service timestamp request_id r =
     (let log_data = formatted_fields py_str ENV service timestamp request_id r in
      if ENV \<noteq> ''dev'' then
        (case map_of log_data ''message'' of
           Some (JStr m) \<Rightarrow> Inr (AList.update ''message'' (JStr (sanitize_message_text m)) log_data)
         | Some _ \<Rightarrow> Inl TypeError
         | None \<Rightarrow> Inr (AList.update ''message'' (JStr (sanitize_message_text [])) log_data))
      else Inr log_data)"

definition security_filter :: "string \<Rightarrow> log_record \<Rightarrow> bool \<times> log_record" where
  "security_filter ENV r =
     (True, if ENV \<noteq> ''dev'' then r\<lparr>lr_message := sanitize_message_text (lr_message r)\<rparr> else r)"

text \<open>The extras that a context logger passes on, and the middleware that sets the request id: after an
  exception of the inner application the context variable keeps the id.\<close>

definition with_ctx :: "string option \<Rightarrow> (string \<times> json) list \<Rightarrow> (string \<times> json) list" where
  "with_ctx rid extra =
     (case rid of
        Some r \<Rightarrow> if r \<noteq> [] \<and> map_of extra ''request_id'' = None
                  then AList.update ''request_id'' (JStr r) extra else extra
      | None \<Rightarrow> extra)"

definition context_extra :: "string option \<Rightarrow> (string \<times> json) list \<Rightarrow> (string \<times> json) list" where
  "context_extra rid extra = fold (\<lambda>(k, v). AList.update k v) extra (with_ctx rid [])"

definition request_id_dispatch ::
    "string option \<Rightarrow> string \<Rightarrow> (string option \<Rightarrow> exc + (string \<times> string) list \<times> 'b) \<Rightarrow> string option \<Rightarrow>
     (exc + (string \<times> string) list \<times> 'b) \<times> string option" where
  "request_id_dispatch header fresh call_next ctx =
     (let req_id = (case header of Some h \<Rightarrow> if h \<noteq> [] then h else fresh | None \<Rightarrow> fresh) in
      case call_next (Some req_id) of
        Inl e \<Rightarrow> (Inl e, Some req_id)
      | Inr (headers, body) \<Rightarrow> (Inr (AList.update ''X-Request-ID'' req_id headers, body), ctx))"

section \<open>What a production record shows\<close>

lemma map_of_updates:
  "distinct (map fst xs) \<Longrightarrow>
     map_of (fold (\<lambda>(k, v). AList.update k v) xs d) k = (case map_of xs k of Some v \<Rightarrow> Some v | None \<Rightarrow> map_of d k)"
  by (induction xs arbitrary: d)
    (auto simp: update_conv' map_of_eq_None_iff rev_image_eqI split: option.splits)

lemma map_of_shorten:
  "map_of (shorten_field py_str f xs) k =
     (if k = f then map_option (\<lambda>v. JStr (shorten_id (py_str v))) (map_of xs f) else map_of xs k)"
  by (auto simp: shorten_field_def update_conv' split: option.splits)

lemma distinct_shorten: "distinct (map fst xs) \<Longrightarrow> distinct (map fst (shorten_field py_str f xs))"
  by (simp add: shorten_field_def distinct_update split: option.split)

lemma map_of_shortens:
  "distinct fs \<Longrightarrow> map_of (fold (shorten_field py_str) fs xs) k =
     (if k \<in> set fs then map_option (\<lambda>v. JStr (shorten_id (py_str v))) (map_of xs k) else map_of xs k)"
  by (induction fs arbitrary: xs) (auto simp: map_of_shorten)

lemma distinct_ID_FIELDS: "distinct ID_FIELDS"
  by (simp add: ID_FIELDS_def)

lemma distinct_extra: "distinct (map fst xs) \<Longrightarrow> distinct (map fst (extra_fields xs))"
  unfolding extra_fields_def by (induction xs) auto

lemma map_of_extra:
  "map_of (extra_fields xs) k = (if k \<in> set STANDARD_FIELDS \<or> prefix ''_'' k then None else map_of xs k)"
  unfolding extra_fields_def by (induction xs) auto

lemma shown_fields:
  assumes "distinct (map fst (lr_dict r))" and "k \<noteq> ''exception''" and "map_of (extra_fields (lr_dict r)) k = Some v"
    and "en \<noteq> ''dev''"
  shows "map_of (formatted_fields py_str en service ts rid r) k =
         Some (if k \<in> set ID_FIELDS then JStr (shorten_id (py_str v)) else v)"
proof -
  let ?extra = "fold (shorten_field py_str) ID_FIELDS (extra_fields (lr_dict r))"
  have "distinct (map fst ?extra)"
    using distinct_extra [OF assms(1)] by (simp add: ID_FIELDS_def distinct_shorten)
  note merged = map_of_updates [OF this]
  have "map_of ?extra k = Some (if k \<in> set ID_FIELDS then JStr (shorten_id (py_str v)) else v)"
    using assms(3) map_of_shortens [OF distinct_ID_FIELDS, of py_str "extra_fields (lr_dict r)" k] by simp
  then show ?thesis
    using assms(2,4) by (simp add: formatted_fields_def Let_def merged update_conv' split: option.split)
qed

text \<open>The fields of the record that a production log shows: identifiers are shortened, everything else is
  shown as it is, whatever the name of the field says.\<close>

lemma format_record_shown:
  assumes "format_record py_str en service ts rid r = Inr d" and "en \<noteq> ''dev''"
    and "distinct (map fst (lr_dict r))" and "k \<notin> {''message'', ''exception''}"
    and "k \<notin> set STANDARD_FIELDS" and "\<not> prefix ''_'' k" and "map_of (lr_dict r) k = Some v"
  shows "map_of d k = Some (if k \<in> set ID_FIELDS then JStr (shorten_id (py_str v)) else v)"
proof -
  have "map_of (extra_fields (lr_dict r)) k = Some v" using assms(5-7) by (simp add: map_of_extra)
  with assms(2-4) have "map_of (formatted_fields py_str en service ts rid r) k =
      Some (if k \<in> set ID_FIELDS then JStr (shorten_id (py_str v)) else v)" by (intro shown_fields) auto
  moreover have "map_of d k = map_of (formatted_fields py_str en service ts rid r) k"
    using assms(1,2,4)
    by (auto simp: format_record_def Let_def update_conv' simp del: map_of.simps split: option.splits json.splits)
  ultimately show ?thesis by simp
qed

end
