(* ===== verification/Seeds.thy ===== *)
theory Seeds
  imports Products "HOL-Library.AList"
begin

text \<open>
  The deployment seed of \<open>backend/seed_scripts/deploy_seed_script.py\<close>: users with roles and credentials, products
  with category links, device sessions. Random choices and \<open>str\<close> of a number are parameters; nothing is printed.
\<close>

section \<open>Settings\<close>

definition NUM_USERS :: nat where "NUM_USERS = 1000"
definition NUM_PRODUCTS :: nat where "NUM_PRODUCTS = 500"
definition NUM_SESSIONS :: nat where "NUM_SESSIONS = 200"
definition BATCH_SIZE :: nat where "BATCH_SIZE = 200"
definition PRODUCT_BATCH_COMMIT :: nat where "PRODUCT_BATCH_COMMIT = 200"

record seed_settings =
  ADMIN_EMAIL :: string
  ADMIN_PASSWORD :: string
  SEED_PASSWORD_TEMPLATE :: "nat \<Rightarrow> string"
  str_nat :: "nat \<Rightarrow> string"

text \<open>What the generator of random numbers yields for the \<open>i\<close>-th product, and for a user.\<close>

record randomness =
  pick_name :: "nat \<Rightarrow> string"
  pick_stock :: "nat \<Rightarrow> int"
  pick_price :: "nat \<Rightarrow> int"
  pick_cats :: "nat \<Rightarrow> product_category list \<Rightarrow> product_category list"
  pick_user :: "nat \<Rightarrow> bool"

definition gen_product_name :: "seed_settings \<Rightarrow> randomness \<Rightarrow> nat \<Rightarrow> string" where
  "gen_product_name st rnd i = ''Product '' @ str_nat st i @ '' - '' @ pick_name rnd i"

definition random_email :: "seed_settings \<Rightarrow> nat \<Rightarrow> string" where
  "random_email st i = ''chloroouser'' @ str_nat st i @ ''@gmail.com''"

definition random_name :: "seed_settings \<Rightarrow> nat \<Rightarrow> string" where
  "random_name st i = ''chloro user '' @ str_nat st i"

text \<open>\<open>{r.name: r for r in rows}\<close>.\<close>

definition by_name :: "('r \<Rightarrow> string) \<Rightarrow> 'r list \<Rightarrow> (string \<times> 'r) list" where
  "by_name name rows = fold (\<lambda>r. AList.update (name r) r) rows []"

definition get_role_map :: "(string \<times> role) list handler" where
  "get_role_map = query (\<lambda>d. by_name role_name (db_roles d))"

definition get_permission_map :: "(string \<times> permission) list handler" where
  "get_permission_map = query (\<lambda>d. by_name perm_name (db_permissions d))"

definition get_category_map :: "(string \<times> product_category) list handler" where
  "get_category_map = query (\<lambda>d. by_name pc_name (db_categories d))"

section \<open>Users\<close>

definition seed_email :: "seed_settings \<Rightarrow> nat \<Rightarrow> string" where
  "seed_email st i = (if i = 1 then ADMIN_EMAIL st else random_email st i)"

text \<open>The credential insert gives no provider, which is NOT NULL, and names a constraint that the schema no
  longer has: PostgreSQL refuses the statement whatever the rows are.\<close>

definition seed_credential :: "crypto \<Rightarrow> nat \<Rightarrow> string \<Rightarrow> unit handler" where
  "seed_credential cr user_id plain_pw =
     (let hashed = hash_password cr plain_pw in exec (\<lambda>_. Inl (DBAPIError False ''ProgrammingError'')))"

definition seed_user :: "crypto \<Rightarrow> seed_settings \<Rightarrow> role \<Rightarrow> role option \<Rightarrow> nat \<Rightarrow> bool handler" where
  "seed_user cr st buyer_role admin_role i =
     letM uuid7 (\<lambda>pid. letM now (\<lambda>t1. letM now (\<lambda>t2.
     letM (next_id ''users'') (\<lambda>n.
     let row = \<lparr>u_id = n, u_public_id = pid, u_email = Some (seed_email st i),
                u_name = Some (if i = 1 then ''Chloro admin user'' else random_name st i), u_role_version = 0,
                u_created_at = t1, u_updated_at = t2, u_deleted_at = None\<rparr> in
     letM (exec (\<lambda>d. Inr (if conflict user_email_key row (db_users d) then None else Some n,
                          db_users_update (insert_nothing user_email_key row) d))) (\<lambda>new.
     case new of
       None \<Rightarrow> retM False
     | Some user_id \<Rightarrow>
         (let rid = (case admin_role of Some a \<Rightarrow> if i = 1 then role_id a else role_id buyer_role
                     | None \<Rightarrow> role_id buyer_role) in
          letM (next_id ''userrole'') (\<lambda>k.
          doM (modify (db_user_roles_update (insert_nothing user_role_key \<lparr>ur_id = k, ur_user_id = user_id, ur_role_id = rid\<rparr>)))
         (doM (seed_credential cr user_id
                (if i = 1 \<and> ADMIN_PASSWORD st \<noteq> [] then ADMIN_PASSWORD st else SEED_PASSWORD_TEMPLATE st i))
         (retM True)))))))))"

definition seed_users_and_credentials :: "crypto \<Rightarrow> seed_settings \<Rightarrow> unit handler" where
  "seed_users_and_credentials cr st =
     letM (query (\<lambda>d. length (db_users d))) (\<lambda>existing_count.
     if NUM_USERS \<le> existing_count then retM ()
     else
       letM get_role_map (\<lambda>role_map.
       case map_of role_map ''buyer'' of
         None \<Rightarrow> raiseM (RuntimeError (Text ''Role 'buyer' not found''))
       | Some buyer_role \<Rightarrow>
           letM (mapM (seed_user cr st buyer_role (map_of role_map ''admin'')) [1..<NUM_USERS + 1]) (\<lambda>_. commit)))"

section \<open>Products\<close>

text \<open>One product: None when the name is taken, otherwise the number of links.\<close>

definition seed_product :: "seed_settings \<Rightarrow> randomness \<Rightarrow> product_category list \<Rightarrow> nat option \<Rightarrow> nat \<Rightarrow> nat option handler" where
  "seed_product st rnd cat_list owner_id i =
     letM uuid7 (\<lambda>pid. letM now (\<lambda>t1. letM now (\<lambda>t2.
     letM (next_id ''product'') (\<lambda>n.
     let row = \<lparr>p_id = n, p_public_id = pid, p_stock_qty = pick_stock rnd i, p_sku = None,
                p_name = gen_product_name st rnd i, p_description = None, p_base_price = pick_price rnd i * 100,
                p_specs = JNull, p_owner_id = owner_id, p_created_at = t1, p_updated_at = t2, p_deleted_at = None\<rparr> in
     letM (exec (\<lambda>d. Inr (if conflict product_name_key row (db_products d) then None else Some n,
                          db_products_update (insert_nothing product_name_key row) d))) (\<lambda>new.
     case new of
       None \<Rightarrow> retM None
     | Some product \<Rightarrow>
         letM (mapM (\<lambda>cat.
           letM (next_id ''productcategorylink'') (\<lambda>k.
           modify (db_category_links_update (insert_nothing category_link_key
             \<lparr>pcl_id = k, pcl_product_id = product, pcl_category_id = pc_id cat\<rparr>)))) (pick_cats rnd i cat_list)) (\<lambda>links.
         retM (Some (length links))))))))"

text \<open>The loop; \<open>since_commit\<close> counts the links since the last commit.\<close>

fun seed_products_loop :: "seed_settings \<Rightarrow> randomness \<Rightarrow> product_category list \<Rightarrow> nat option \<Rightarrow> nat \<Rightarrow> nat list \<Rightarrow> unit handler" where
  "seed_products_loop st rnd cat_list owner_id since_commit [] = commit"
| "seed_products_loop st rnd cat_list owner_id since_commit (i # is) =
     letM (seed_product st rnd cat_list owner_id i) (\<lambda>links.
     case links of
       None \<Rightarrow> seed_products_loop st rnd cat_list owner_id since_commit is
     | Some k \<Rightarrow>
         if PRODUCT_BATCH_COMMIT \<le> since_commit + k
         then doM commit (seed_products_loop st rnd cat_list owner_id 0 is)
         else seed_products_loop st rnd cat_list owner_id (since_commit + k) is)"

definition seed_products_and_links :: "seed_settings \<Rightarrow> randomness \<Rightarrow> unit handler" where
  "seed_products_and_links st rnd =
     letM (query (\<lambda>d. length (db_products d))) (\<lambda>existing_count.
     if NUM_PRODUCTS \<le> existing_count then retM ()
     else
       letM get_category_map (\<lambda>cat_map.
       if cat_map = [] then retM ()
       else
         letM (query (\<lambda>d. first_row (filter (\<lambda>u. u_email u = Some (ADMIN_EMAIL st)) (db_users d)))) (\<lambda>admin_user.
         seed_products_loop st rnd (map snd cat_map) (map_option u_id admin_user) 0 [1..<NUM_PRODUCTS + 1])))"

section \<open>Device sessions\<close>

definition seed_session :: "crypto \<Rightarrow> user \<Rightarrow> device_session handler" where
  "seed_session cr u =
     letM random_token (\<lambda>session_token_plain.
     letM now (\<lambda>t1. letM now (\<lambda>t2. letM uuid7 (\<lambda>pid. letM now (\<lambda>t3.
     letM (next_id ''devicesession'') (\<lambda>i.
     retM \<lparr>ds_id = i, ds_session_token_hash = hash_token cr session_token_plain, ds_user_id = Some (u_id u), ds_public_id = pid,
           ds_device_name = Some ''Seeded Chrome on Linux'', ds_device_type = Some ''browser'',
           ds_user_agent_snippet = Some ''seed-script/1.0'', ds_ip_first_seen = None, ds_last_seen_ip = None,
           ds_last_activity_at = Some t1, ds_created_at = t3, ds_revoked_at = None,
           ds_session_expires_at = t2 + days 30\<rparr>))))))"

text \<open>\<open>session.add_all(batch)\<close> and commit.\<close>

definition add_session :: "device_session \<Rightarrow> unit handler" where
  "add_session row = exec (\<lambda>d.
     if conflict device_session_token_key row (db_device_sessions d) \<or> conflict device_session_pid_key row (db_device_sessions d)
     then Inl IntegrityError
     else Inr ((), db_device_sessions_update (\<lambda>t. t @ [row]) d))"

definition flush_sessions :: "device_session list \<Rightarrow> unit handler" where
  "flush_sessions batch = doM (forM batch add_session) commit"

fun seed_sessions_loop :: "crypto \<Rightarrow> randomness \<Rightarrow> device_session list \<Rightarrow> user list \<Rightarrow> unit handler" where
  "seed_sessions_loop cr rnd batch [] = (if batch \<noteq> [] then flush_sessions batch else retM ())"
| "seed_sessions_loop cr rnd batch (u # us) =
     (if \<not> pick_user rnd (u_id u) then seed_sessions_loop cr rnd batch us
      else
        letM (seed_session cr u) (\<lambda>row.
        if BATCH_SIZE \<le> length (batch @ [row])
        then doM (flush_sessions (batch @ [row])) (seed_sessions_loop cr rnd [] us)
        else seed_sessions_loop cr rnd (batch @ [row]) us))"

definition seed_device_sessions :: "crypto \<Rightarrow> randomness \<Rightarrow> unit handler" where
  "seed_device_sessions cr rnd =
     letM (query (\<lambda>d. length (db_device_sessions d))) (\<lambda>existing_count.
     if NUM_SESSIONS \<le> existing_count then retM ()
     else
       letM (query (\<lambda>d. take 300 (db_users d))) (\<lambda>users.
       if users = [] then retM () else seed_sessions_loop cr rnd [] users))"

section \<open>The script\<close>

definition seed_main :: "crypto \<Rightarrow> seed_settings \<Rightarrow> randomness \<Rightarrow> unit handler" where
  "seed_main cr st rnd =
     with_session
       (doM (seed_users_and_credentials cr st)
       (doM (seed_products_and_links st rnd)
       (seed_device_sessions cr rnd)))"

section \<open>What the script can do\<close>

text \<open>A user of the seed is skipped or ends the script.\<close>

definition taken :: "seed_settings \<Rightarrow> nat \<Rightarrow> database \<Rightarrow> bool" where
  "taken st i d \<longleftrightarrow> (\<exists>u \<in> set (db_users d). u_email u = Some (seed_email st i))"

lemma seed_user_skips:
  "wp (seed_user cr st b a i) (\<lambda>_ u. db u = db w \<and> committed u = committed w \<and> taken st i (db w)) (\<lambda>_ u. committed u = committed w) w"
  unfolding seed_user_def seed_credential_def Let_def
  by (auto simp: wp_simps wp_exec modify_def conflict_def user_email_key_def taken_def insert_nothing_def
      set_keys_of split: option.split)

lemma seed_users_skip:
  "wp (mapM (seed_user cr st b a) is) (\<lambda>_ u. db u = db w \<and> committed u = committed w \<and> (\<forall>i\<in>set is. taken st i (db w)))
     (\<lambda>_ u. committed u = committed w) w"
proof (induction "is" arbitrary: w)
  case (Cons i "is")
  show ?case unfolding wp_mapM_Cons
    by (rule wp_mono [OF seed_user_skips]) (auto intro: wp_mono [OF Cons.IH])
qed (simp add: wp_simps)

text \<open>Users are all there, or as many as the script wants.\<close>

definition users_seeded :: "seed_settings \<Rightarrow> database \<Rightarrow> bool" where
  "users_seeded st d \<longleftrightarrow> NUM_USERS \<le> length (db_users d) \<or> (\<forall>i \<in> {1..NUM_USERS}. taken st i d)"

lemma seed_users_nothing:
  assumes "db w = committed w"
  shows "wp (seed_users_and_credentials cr st) (\<lambda>_ u. committed u = committed w \<and> db u = committed w \<and> users_seeded st (committed w))
     (\<lambda>_ u. committed u = committed w) w"
proof -
  have users_there: "NUM_USERS \<le> length (db_users d) \<Longrightarrow> users_seeded st d" for d
    by (simp add: users_seeded_def)
  have range: "set [1..<NUM_USERS + 1] = {1..NUM_USERS}" by auto
  have loop: "wp (mapM (seed_user cr st b a) [1..<NUM_USERS + 1])
      (\<lambda>_. wp commit (\<lambda>_ u. committed u = committed w \<and> db u = committed w \<and> users_seeded st (committed w))
         (\<lambda>_ u. committed u = committed w)) (\<lambda>_ u. committed u = committed w) v"
    if "db v = committed w" "committed v = committed w" for v b a
    by (rule wp_mono [OF seed_users_skip])
      (use that in \<open>auto simp: wp_commit users_seeded_def range simp del: upt_Suc split: option.split\<close>)
  show ?thesis
    unfolding seed_users_and_credentials_def get_role_map_def
    using assms
    by (auto simp: wp_let wp_raise wp_ret wp_exec query_def simp del: upt_Suc One_nat_def intro!: loop users_there
        split: option.split if_split)
qed

text \<open>As long as one of the thousand users is missing the script stores nothing at all.\<close>

theorem seed_stores_nothing:
  assumes "\<not> users_seeded st (committed w)"
  shows "\<exists>e. fst (seed_main cr st rnd w) = Inl e \<and> committed (snd (seed_main cr st rnd w)) = committed w"
proof -
  let ?v = "w\<lparr>db := committed w, aborted := False\<rparr>"
  have "wp (doM (seed_users_and_credentials cr st) rest) (\<lambda>_ _. False) (\<lambda>_ u. committed u = committed w) ?v" for rest
    unfolding wp_do by (rule wp_mono [OF seed_users_nothing]) (use assms in auto)
  from this [of "doM (seed_products_and_links st rnd) (seed_device_sessions cr rnd)"]
  show ?thesis
    by (auto simp: seed_main_def with_session_def wp_def split: prod.splits sum.splits)
qed

end
