(* ===== verification/Migrations.thy ===== *)
theory Migrations
  imports Main
begin

text \<open>
  The schema statements the Alembic migrations of \<open>src/migrations/versions\<close> emit, as instructions for a machine
  whose state is the schema of the database: tables with their columns (name and whether NULL is allowed) and
  their constraints and indexes. Types, server defaults and rows are not part of the state: the model is that of
  a fresh deployment. Names the migrations leave out are chosen as PostgreSQL chooses them.
\<close>

section \<open>Schemas\<close>

type_synonym name = string

text \<open>A foreign key has the table it refers to, an index whether it is unique and its predicate.\<close>

datatype object_kind =
    Primary_Key
  | Unique_Key
  | Foreign_Key name
  | Is_Index bool "name option"

record db_object =
  dbo_name :: name
  dbo_kind :: object_kind
  dbo_columns :: "name list"

record db_table =
  tb_name :: name
  tb_columns :: "(name \<times> bool) list"
  tb_objects :: "db_object list"

datatype ddl_error = No_Such_Table | No_Such_Column | No_Such_Object | Duplicate_Name | No_Name | Referenced | Wrong_Kind

text \<open>The operations of \<open>op\<close>; \<open>Ensure_Unique\<close> and \<open>Drop_If_Exists\<close> are the two anonymous blocks of one migration,
  \<open>Write_Rows\<close> is a statement on the rows of a table: its columns and, if it has one, its conflict target.
  A column has a name and tells whether it is nullable and whether it is unique.\<close>

datatype ddl =
    Create_Table name "(name \<times> bool \<times> bool) list" "(name option \<times> object_kind \<times> name list) list"
  | Drop_Table name
  | Rename_Table name name
  | Add_Column name name bool
  | Drop_Column name name
  | Set_Nullable name name bool
  | Alter_Type name name
  | Create_Constraint "name option" name object_kind "name list"
  | Drop_Constraint "name option" name
  | Create_Index name name "name list" bool "name option"
  | Drop_Index name
  | Ensure_Unique name name "name list"
  | Drop_If_Exists name name
  | Write_Rows name "name list" "name list option"

fun is_foreign :: "object_kind \<Rightarrow> bool" where
  "is_foreign (Foreign_Key t) = True"
| "is_foreign _ = False"

fun is_index :: "object_kind \<Rightarrow> bool" where
  "is_index (Is_Index u p) = True"
| "is_index _ = False"

fun refers_to :: "name \<Rightarrow> object_kind \<Rightarrow> bool" where
  "refers_to t (Foreign_Key r) = (r = t)"
| "refers_to t _ = False"

fun has :: "'k \<Rightarrow> 'k list \<Rightarrow> bool" where
  "has n [] = False"
| "has n (m # ms) = (if m = n then True else has n ms)"

fun repeats :: "'k list \<Rightarrow> bool" where
  "repeats [] = False"
| "repeats (n # ns) = (if has n ns then True else repeats ns)"

fun has_column :: "name \<Rightarrow> (name \<times> bool) list \<Rightarrow> bool" where
  "has_column c [] = False"
| "has_column c ((k, b) # ks) = (if k = c then True else has_column c ks)"

fun has_columns :: "name list \<Rightarrow> (name \<times> bool) list \<Rightarrow> bool" where
  "has_columns [] ks = True"
| "has_columns (c # cs) ks = (if has_column c ks then has_columns cs ks else False)"

fun find_table :: "name \<Rightarrow> db_table list \<Rightarrow> db_table option" where
  "find_table t [] = None"
| "find_table t (x # xs) = (if tb_name x = t then Some x else find_table t xs)"

fun set_table :: "db_table \<Rightarrow> db_table list \<Rightarrow> db_table list" where
  "set_table y [] = []"
| "set_table y (x # xs) = (if tb_name x = tb_name y then y # xs else x # set_table y xs)"

fun find_object :: "name \<Rightarrow> db_object list \<Rightarrow> db_object option" where
  "find_object n [] = None"
| "find_object n (ob # obs) = (if dbo_name ob = n then Some ob else find_object n obs)"

text \<open>Tables, primary keys, unique constraints and indexes share one name space; foreign keys do not belong to it,
  but to that of the constraints of their table.\<close>

fun names_relation :: "name \<Rightarrow> db_object list \<Rightarrow> bool" where
  "names_relation n [] = False"
| "names_relation n (ob # obs) =
     (if is_foreign (dbo_kind ob) then names_relation n obs
      else if dbo_name ob = n then True else names_relation n obs)"

fun is_relation :: "name \<Rightarrow> db_table list \<Rightarrow> bool" where
  "is_relation n [] = False"
| "is_relation n (x # xs) =
     (if tb_name x = n then True else if names_relation n (tb_objects x) then True else is_relation n xs)"

definition name_taken :: "db_table list \<Rightarrow> db_table \<Rightarrow> object_kind \<Rightarrow> name \<Rightarrow> bool" where
  "name_taken s x kind n =
     (if is_foreign kind then find_object n (tb_objects x) \<noteq> None
      else if is_relation n s then True else find_object n (tb_objects x) \<noteq> None)"

section \<open>Names PostgreSQL chooses\<close>

fun join_names :: "name list \<Rightarrow> string" where
  "join_names [] = []"
| "join_names (c # cs) = CHR ''_'' # c @ join_names cs"

fun auto_name :: "name \<Rightarrow> object_kind \<Rightarrow> name list \<Rightarrow> name" where
  "auto_name t Primary_Key cs = t @ ''_pkey''"
| "auto_name t Unique_Key cs = t @ join_names cs @ ''_key''"
| "auto_name t (Foreign_Key r) cs = t @ join_names cs @ ''_fkey''"
| "auto_name t (Is_Index u p) cs = t @ join_names cs @ ''_idx''"

text \<open>A digit is appended when the name is taken; one is enough here.\<close>

fun numbered :: "(name \<Rightarrow> bool) \<Rightarrow> name \<Rightarrow> string \<Rightarrow> name" where
  "numbered used base [] = base"
| "numbered used base (c # ds) = (if used (base @ [c]) then numbered used base ds else base @ [c])"

definition free_name :: "(name \<Rightarrow> bool) \<Rightarrow> name \<Rightarrow> name" where
  "free_name used base = (if used base then numbered used base ''123456789'' else base)"

section \<open>The machine\<close>

fun not_null :: "name list \<Rightarrow> (name \<times> bool) list \<Rightarrow> (name \<times> bool) list" where
  "not_null cs [] = []"
| "not_null cs ((c, b) # ks) = (c, if has c cs then False else b) # not_null cs ks"

definition put_object :: "db_table \<Rightarrow> name \<Rightarrow> object_kind \<Rightarrow> name list \<Rightarrow> db_table" where
  "put_object x n kind cs =
     x\<lparr>tb_columns := (case kind of Primary_Key \<Rightarrow> not_null cs (tb_columns x) | _ \<Rightarrow> tb_columns x),
       tb_objects := tb_objects x @ [\<lparr>dbo_name = n, dbo_kind = kind, dbo_columns = cs\<rparr>]\<rparr>"

text \<open>The words of the predicate of an index. Each is a column of the table or belongs to SQL; dropping a column
  drops the constraints and indexes that mention it.\<close>

definition word_char :: "char \<Rightarrow> bool" where
  "word_char c \<longleftrightarrow> (let n = (of_char c :: nat) in 48 \<le> n \<and> n \<le> 57 \<or> 65 \<le> n \<and> n \<le> 90 \<or> n = 95 \<or> 97 \<le> n \<and> n \<le> 122)"

fun words_from :: "string \<Rightarrow> string \<Rightarrow> name list" where
  "words_from w [] = [w]"
| "words_from w (c # p) = (if word_char c then words_from (w @ [c]) p else w # words_from [] p)"

fun predicate_words :: "object_kind \<Rightarrow> name list" where
  "predicate_words (Is_Index u (Some p)) = words_from [] p"
| "predicate_words _ = []"

definition sql_words :: "name list" where
  "sql_words = [[], ''IS'', ''NOT'', ''NULL'', ''true'', ''0'']"

fun known_words :: "name list \<Rightarrow> (name \<times> bool) list \<Rightarrow> bool" where
  "known_words [] ks = True"
| "known_words (w # ws) ks =
     (if has w sql_words then known_words ws ks else if has_column w ks then known_words ws ks else False)"

fun target_exists :: "object_kind \<Rightarrow> db_table list \<Rightarrow> bool" where
  "target_exists (Foreign_Key r) s = (find_table r s \<noteq> None)"
| "target_exists _ s = True"

definition chosen_name :: "db_table list \<Rightarrow> db_table \<Rightarrow> object_kind \<Rightarrow> name option \<Rightarrow> name list \<Rightarrow> name" where
  "chosen_name s x kind given cs =
     (case given of None \<Rightarrow> free_name (name_taken s x kind) (auto_name (tb_name x) kind cs) | Some n \<Rightarrow> n)"

definition add_object :: "db_table list \<Rightarrow> name \<Rightarrow> name option \<Rightarrow> object_kind \<Rightarrow> name list \<Rightarrow> ddl_error + db_table list" where
  "add_object s t name kind cs =
     (case find_table t s of
       None \<Rightarrow> Inl No_Such_Table
     | Some x \<Rightarrow>
         if \<not> has_columns cs (tb_columns x) then Inl No_Such_Column
         else if \<not> known_words (predicate_words kind) (tb_columns x) then Inl No_Such_Column
         else if \<not> target_exists kind s then Inl No_Such_Table
         else if name_taken s x kind (chosen_name s x kind name cs) then Inl Duplicate_Name
         else Inr (set_table (put_object x (chosen_name s x kind name cs) kind cs) s))"

fun add_objects :: "name \<Rightarrow> (name option \<times> object_kind \<times> name list) list \<Rightarrow> db_table list \<Rightarrow> ddl_error + db_table list" where
  "add_objects t [] s = Inr s"
| "add_objects t ((n, k, cs) # xs) s =
     (case add_object s t n k cs of Inl e \<Rightarrow> Inl e | Inr s' \<Rightarrow> add_objects t xs s')"

text \<open>A column that is declared unique gets a constraint, unless the statement states the same one.\<close>

fun column_keys :: "(name option \<times> object_kind \<times> name list) list \<Rightarrow> (name \<times> bool \<times> bool) list \<Rightarrow> (name option \<times> object_kind \<times> name list) list" where
  "column_keys cons [] = []"
| "column_keys cons ((c, n, u) # cols) =
     (if u then if has (None, Unique_Key, [c]) cons then column_keys cons cols else (None, Unique_Key, [c]) # column_keys cons cols
      else column_keys cons cols)"

fun without_column :: "name \<Rightarrow> db_object list \<Rightarrow> db_object list" where
  "without_column c [] = []"
| "without_column c (ob # obs) =
     (if has c (dbo_columns ob) then without_column c obs
      else if has c (predicate_words (dbo_kind ob)) then without_column c obs else ob # without_column c obs)"

fun drop_column :: "name \<Rightarrow> (name \<times> bool) list \<Rightarrow> (name \<times> bool) list" where
  "drop_column c [] = []"
| "drop_column c ((k, b) # ks) = (if k = c then drop_column c ks else (k, b) # drop_column c ks)"

fun set_nullable :: "name \<Rightarrow> bool \<Rightarrow> (name \<times> bool) list \<Rightarrow> (name \<times> bool) list" where
  "set_nullable c b [] = []"
| "set_nullable c b ((k, n) # ks) = (if k = c then (k, b) # ks else (k, n) # set_nullable c b ks)"

fun drop_object :: "name \<Rightarrow> db_object list \<Rightarrow> db_object list" where
  "drop_object n [] = []"
| "drop_object n (ob # obs) = (if dbo_name ob = n then drop_object n obs else ob # drop_object n obs)"

fun drop_table :: "name \<Rightarrow> db_table list \<Rightarrow> db_table list" where
  "drop_table t [] = []"
| "drop_table t (x # xs) = (if tb_name x = t then drop_table t xs else x # drop_table t xs)"

fun referenced :: "name \<Rightarrow> db_table list \<Rightarrow> bool" where
  "referenced t [] = False"
| "referenced t (x # xs) =
     (if tb_name x = t then referenced t xs
      else if list_ex (\<lambda>ob. refers_to t (dbo_kind ob)) (tb_objects x) then True else referenced t xs)"

fun rename_ref :: "name \<Rightarrow> name \<Rightarrow> object_kind \<Rightarrow> object_kind" where
  "rename_ref a b (Foreign_Key r) = Foreign_Key (if r = a then b else r)"
| "rename_ref a b k = k"

definition rename_in :: "name \<Rightarrow> name \<Rightarrow> db_table \<Rightarrow> db_table" where
  "rename_in a b x = x\<lparr>tb_name := (if tb_name x = a then b else tb_name x),
     tb_objects := map (\<lambda>ob. ob\<lparr>dbo_kind := rename_ref a b (dbo_kind ob)\<rparr>) (tb_objects x)\<rparr>"

definition column_step :: "name \<Rightarrow> name \<Rightarrow> (db_table \<Rightarrow> db_table) \<Rightarrow> db_table list \<Rightarrow> ddl_error + db_table list" where
  "column_step t c f s = (case find_table t s of
     None \<Rightarrow> Inl No_Such_Table
   | Some x \<Rightarrow> if has_column c (tb_columns x) then Inr (set_table (f x) s) else Inl No_Such_Column)"

definition drop_constraint :: "name \<Rightarrow> name \<Rightarrow> db_table list \<Rightarrow> ddl_error + db_table list" where
  "drop_constraint n t s = (case find_table t s of
     None \<Rightarrow> Inl No_Such_Table
   | Some x \<Rightarrow> (case find_object n (tb_objects x) of
         None \<Rightarrow> Inl No_Such_Object
       | Some ob \<Rightarrow> if is_index (dbo_kind ob) then Inl Wrong_Kind
                    else Inr (set_table (x\<lparr>tb_objects := drop_object n (tb_objects x)\<rparr>) s)))"

fun drop_index :: "name \<Rightarrow> db_table list \<Rightarrow> ddl_error + db_table list" where
  "drop_index n [] = Inl No_Such_Object"
| "drop_index n (x # xs) =
     (if names_relation n (tb_objects x) then
        (case find_object n (tb_objects x) of
           Some ob \<Rightarrow> if is_index (dbo_kind ob) then Inr (x\<lparr>tb_objects := drop_object n (tb_objects x)\<rparr> # xs) else Inl Wrong_Kind
         | None \<Rightarrow> Inl No_Such_Object)
      else (case drop_index n xs of Inl e \<Rightarrow> Inl e | Inr xs' \<Rightarrow> Inr (x # xs')))"

text \<open>Which key a conflict target infers: one on the same columns, whose predicate is implied.\<close>

fun has_all :: "'k list \<Rightarrow> 'k list \<Rightarrow> bool" where
  "has_all [] ds = True"
| "has_all (c # cs) ds = (if has c ds then has_all cs ds else False)"

definition same_members :: "'k list \<Rightarrow> 'k list \<Rightarrow> bool" where
  "same_members cs ds = (if has_all cs ds then has_all ds cs else False)"

fun unique_when :: "object_kind \<Rightarrow> name option \<Rightarrow> bool" where
  "unique_when Primary_Key w = True"
| "unique_when Unique_Key w = True"
| "unique_when (Foreign_Key r) w = False"
| "unique_when (Is_Index u None) w = u"
| "unique_when (Is_Index u (Some p)) w = (if u then w = Some p else False)"

fun infers :: "name list \<Rightarrow> name option \<Rightarrow> db_object list \<Rightarrow> bool" where
  "infers cs w [] = False"
| "infers cs w (ob # obs) =
     (if unique_when (dbo_kind ob) w then (if same_members cs (dbo_columns ob) then True else infers cs w obs)
      else infers cs w obs)"

fun ddl_step :: "ddl \<Rightarrow> db_table list \<Rightarrow> ddl_error + db_table list" where
  "ddl_step (Create_Table t cols cons) s =
     (if is_relation t s then Inl Duplicate_Name
      else if repeats (map fst cols) then Inl Duplicate_Name
      else add_objects t (cons @ column_keys cons cols)
             (s @ [\<lparr>tb_name = t, tb_columns = map (\<lambda>(c, n, u). (c, n)) cols, tb_objects = []\<rparr>]))"
| "ddl_step (Drop_Table t) s =
     (case find_table t s of
        None \<Rightarrow> Inl No_Such_Table
      | Some x \<Rightarrow> if referenced t s then Inl Referenced else Inr (drop_table t s))"
| "ddl_step (Rename_Table a b) s =
     (case find_table a s of
        None \<Rightarrow> Inl No_Such_Table
      | Some x \<Rightarrow> if is_relation b s then Inl Duplicate_Name else Inr (map (rename_in a b) s))"
| "ddl_step (Add_Column t c nullable) s =
     (case find_table t s of
        None \<Rightarrow> Inl No_Such_Table
      | Some x \<Rightarrow> if has_column c (tb_columns x) then Inl Duplicate_Name
                  else Inr (set_table (x\<lparr>tb_columns := tb_columns x @ [(c, nullable)]\<rparr>) s))"
| "ddl_step (Drop_Column t c) s =
     column_step t c (\<lambda>x. x\<lparr>tb_columns := drop_column c (tb_columns x),
                                           tb_objects := without_column c (tb_objects x)\<rparr>) s"
| "ddl_step (Set_Nullable t c b) s =
     column_step t c (\<lambda>x. x\<lparr>tb_columns := set_nullable c b (tb_columns x)\<rparr>) s"
| "ddl_step (Alter_Type t c) s = column_step t c (\<lambda>x. x) s"
| "ddl_step (Create_Constraint n t k cs) s = add_object s t n k cs"
| "ddl_step (Drop_Constraint None t) s = Inl No_Name"
| "ddl_step (Drop_Constraint (Some n) t) s = drop_constraint n t s"
| "ddl_step (Create_Index n t cs u p) s = add_object s t (Some n) (Is_Index u p) cs"
| "ddl_step (Drop_Index n) s = drop_index n s"
| "ddl_step (Ensure_Unique n t cs) s =
     (case find_table t s of
        None \<Rightarrow> Inl No_Such_Table
      | Some x \<Rightarrow> (case find_object n (tb_objects x) of
            Some ob \<Rightarrow> Inr s | None \<Rightarrow> add_object s t (Some n) Unique_Key cs))"
| "ddl_step (Drop_If_Exists n t) s =
     (case find_table t s of
        None \<Rightarrow> Inl No_Such_Table
      | Some x \<Rightarrow> (case find_object n (tb_objects x) of
            Some ob \<Rightarrow> drop_constraint n t s | None \<Rightarrow> Inr s))"
| "ddl_step (Write_Rows t cs conflict) s =
     (case find_table t s of
        None \<Rightarrow> Inl No_Such_Table
      | Some x \<Rightarrow>
          if \<not> has_columns cs (tb_columns x) then Inl No_Such_Column
          else (case conflict of
              None \<Rightarrow> Inr s
            | Some ks \<Rightarrow> if infers ks None (tb_objects x) then Inr s else Inl No_Such_Object))"

fun ddl_run :: "ddl list \<Rightarrow> db_table list \<Rightarrow> ddl_error + db_table list" where
  "ddl_run [] s = Inr s"
| "ddl_run (op # ops) s = (case ddl_step op s of Inl e \<Rightarrow> Inl e | Inr s' \<Rightarrow> ddl_run ops s')"

section \<open>Histories\<close>

record migration =
  revision :: string
  down_revision :: "string option"
  upgrade :: "ddl list"
  downgrade :: "ddl list"

text \<open>A history is one chain: every migration revises the one before it.\<close>

fun chained :: "string option \<Rightarrow> migration list \<Rightarrow> bool" where
  "chained r [] = True"
| "chained r (m # ms) \<longleftrightarrow> down_revision m = r \<and> chained (Some (revision m)) ms"

text \<open>\<open>alembic upgrade\<close>: a failure names the revision at which it stops.\<close>

fun upgrade_all :: "migration list \<Rightarrow> db_table list \<Rightarrow> (string \<times> ddl_error) + db_table list" where
  "upgrade_all [] s = Inr s"
| "upgrade_all (m # ms) s = (case ddl_run (upgrade m) s of
     Inl e \<Rightarrow> Inl (revision m, e)
   | Inr s' \<Rightarrow> upgrade_all ms s')"

text \<open>\<open>alembic downgrade\<close>: the latest migration comes first in the list.\<close>

fun downgrade_all :: "migration list \<Rightarrow> db_table list \<Rightarrow> (string \<times> ddl_error) + db_table list" where
  "downgrade_all [] s = Inr s"
| "downgrade_all (m # ms) s = (case ddl_run (downgrade m) s of
     Inl e \<Rightarrow> Inl (revision m, e)
   | Inr s' \<Rightarrow> downgrade_all ms s')"

section \<open>Running the machine in the simplifier\<close>

text \<open>Names are kept folded: two names are different when their hashes are. The operations of a migration
  and the migrations still to come are left alone until their turn, as are the tables a step does not read.\<close>

definition text_hash :: "string \<Rightarrow> nat" where
  "text_hash s = foldl (\<lambda>h c. h * 4 + of_char c) 7 s"

lemma names_differ: "text_hash a \<noteq> text_hash b \<Longrightarrow> (a = b) = False"
  by auto

lemma run_cong: "s = s' \<Longrightarrow> ddl_run ops s = ddl_run ops s'"
  by simp

lemma step_cong: "s = s' \<Longrightarrow> ddl_step op s = ddl_step op s'"
  by simp

lemma upgrade_cong: "s = s' \<Longrightarrow> upgrade_all ms s = upgrade_all ms s'"
  by simp

lemma downgrade_cong: "s = s' \<Longrightarrow> downgrade_all ms s = downgrade_all ms s'"
  by simp

lemma upgrade_step:
  "m = \<lparr>revision = r, down_revision = d, upgrade = u, downgrade = v\<rparr> \<Longrightarrow>
   upgrade_all (m # ms) s = (case ddl_run u s of Inl e \<Rightarrow> Inl (r, e) | Inr s' \<Rightarrow> upgrade_all ms s')"
  by (simp split: sum.split)

lemma downgrade_step:
  "m = \<lparr>revision = r, down_revision = d, upgrade = u, downgrade = v\<rparr> \<Longrightarrow>
   downgrade_all (m # ms) s = (case ddl_run v s of Inl e \<Rightarrow> Inl (r, e) | Inr s' \<Rightarrow> downgrade_all ms s')"
  by (simp split: sum.split)

lemma chained_step:
  "m = \<lparr>revision = r, down_revision = d, upgrade = u, downgrade = v\<rparr> \<Longrightarrow>
   chained p (m # ms) \<longleftrightarrow> d = p \<and> chained (Some r) ms"
  by simp

lemma table_cong:
  "\<lparr>tb_name = t, tb_columns = ks, tb_objects = obs\<rparr> = \<lparr>tb_name = t, tb_columns = ks, tb_objects = obs\<rparr>"
  by (rule refl)

lemma object_cong: "\<lparr>dbo_name = n, dbo_kind = k, dbo_columns = cs\<rparr> = \<lparr>dbo_name = n, dbo_kind = k, dbo_columns = cs\<rparr>"
  by (rule refl)

lemmas machine_congs = run_cong step_cong upgrade_cong downgrade_cong table_cong object_cong

lemmas machine_simps = name_taken_def free_name_def chosen_name_def put_object_def add_object_def rename_in_def column_step_def drop_constraint_def same_members_def

end
