(* ===== verification/Migration_Laws.thy ===== *)
theory Migration_Laws
  imports Migrations
begin

text \<open>
  Laws of the schema machine: every operation keeps a schema well formed, and the operations that have an inverse
  are undone by it.
\<close>

section \<open>Reading the tests\<close>

lemma has_iff [simp]: "has n ms \<longleftrightarrow> n \<in> set ms"
  by (induction ms) auto

lemma repeats_iff [simp]: "repeats ns \<longleftrightarrow> \<not> distinct ns"
  by (induction ns) auto

lemma has_column_iff [simp]: "has_column c ks \<longleftrightarrow> c \<in> fst ` set ks"
  by (induction c ks rule: has_column.induct) auto

lemma has_columns_iff [simp]: "has_columns cs ks \<longleftrightarrow> set cs \<subseteq> fst ` set ks"
  by (induction cs) auto

lemma known_words_iff [simp]: "known_words ws ks \<longleftrightarrow> set ws \<subseteq> set sql_words \<union> fst ` set ks"
  by (induction ws) auto

lemma find_table_None [simp]: "find_table t s = None \<longleftrightarrow> t \<notin> tb_name ` set s"
  by (induction s) auto

lemma find_object_None [simp]: "find_object n obs = None \<longleftrightarrow> n \<notin> dbo_name ` set obs"
  by (induction obs) auto

lemma find_objectD: "find_object n obs = Some ob \<Longrightarrow> ob \<in> set obs \<and> dbo_name ob = n"
  by (induction obs) (auto split: if_splits)

definition is_relation_object :: "db_object \<Rightarrow> bool" where
  "is_relation_object ob = (\<not> is_foreign (dbo_kind ob))"

definition relation_names :: "db_table \<Rightarrow> name list" where
  "relation_names x = tb_name x # map dbo_name (filter is_relation_object (tb_objects x))"

definition relations :: "db_table list \<Rightarrow> name list" where
  "relations s = concat (map relation_names s)"

lemma names_relation_iff [simp]: "names_relation n obs \<longleftrightarrow> n \<in> dbo_name ` set (filter is_relation_object obs)"
  by (induction obs) (auto simp: is_relation_object_def)

lemma is_relation_iff [simp]: "is_relation n s \<longleftrightarrow> n \<in> set (relations s)"
  by (induction s) (auto simp: relations_def relation_names_def)

lemma relations_simps [simp]:
  "relations [] = []"
  "relations (x # s) = relation_names x @ relations s"
  "relations (s @ s') = relations s @ relations s'"
  by (simp_all add: relations_def)

lemma table_is_relation: "x \<in> set s \<Longrightarrow> tb_name x \<in> set (relations s)"
  by (auto simp: relations_def relation_names_def)

text \<open>A foreign key refers to a table of the schema.\<close>

fun target :: "object_kind \<Rightarrow> name set" where
  "target (Foreign_Key r) = {r}"
| "target _ = {}"

lemma target_exists_iff [simp]: "target_exists k s \<longleftrightarrow> target k \<subseteq> tb_name ` set s"
  by (cases k) auto

lemma refers_to_iff [simp]: "refers_to t k \<longleftrightarrow> t \<in> target k"
  by (cases k) auto

lemma referenced_iff [simp]:
  "referenced t s \<longleftrightarrow> (\<exists>x\<in>set s. tb_name x \<noteq> t \<and> (\<exists>ob\<in>set (tb_objects x). t \<in> target (dbo_kind ob)))"
  by (induction s) (auto simp: list_ex_iff)

section \<open>Well-formed schemas\<close>

text \<open>Within a table the columns and the objects have different names, and objects and predicates mention columns
  of the table.\<close>

definition object_wf :: "db_table list \<Rightarrow> (name \<times> bool) list \<Rightarrow> db_object \<Rightarrow> bool" where
  "object_wf s ks ob \<longleftrightarrow> set (dbo_columns ob) \<subseteq> fst ` set ks \<and>
     set (predicate_words (dbo_kind ob)) \<subseteq> set sql_words \<union> fst ` set ks \<and> target (dbo_kind ob) \<subseteq> tb_name ` set s"

definition table_wf :: "db_table list \<Rightarrow> db_table \<Rightarrow> bool" where
  "table_wf s x \<longleftrightarrow> distinct (map fst (tb_columns x)) \<and> distinct (map dbo_name (tb_objects x)) \<and>
     (\<forall>ob\<in>set (tb_objects x). object_wf s (tb_columns x) ob)"

text \<open>Tables, keys and indexes have different names.\<close>

definition schema_wf :: "db_table list \<Rightarrow> bool" where
  "schema_wf s \<longleftrightarrow> distinct (relations s) \<and> (\<forall>x\<in>set s. table_wf s x)"

lemma wf_target:
  "schema_wf s \<Longrightarrow> x \<in> set s \<Longrightarrow> ob \<in> set (tb_objects x) \<Longrightarrow> r \<in> target (dbo_kind ob) \<Longrightarrow> r \<in> tb_name ` set s"
  unfolding schema_wf_def table_wf_def object_wf_def by blast

lemma schema_wf_Nil [simp]: "schema_wf []"
  by (simp add: schema_wf_def)

lemma table_wf_tables: "tb_name ` set s \<subseteq> tb_name ` set s' \<Longrightarrow> table_wf s x \<Longrightarrow> table_wf s' x"
  unfolding table_wf_def object_wf_def by blast

section \<open>Changing one table\<close>

lemma find_tableE:
  assumes "find_table t s = Some x"
  obtains as bs where "s = as @ x # bs" "t \<notin> tb_name ` set as" "tb_name x = t"
    "\<And>y. tb_name y = t \<Longrightarrow> set_table y s = as @ y # bs"
proof -
  have "\<exists>as bs. s = as @ x # bs \<and> t \<notin> tb_name ` set as \<and> tb_name x = t \<and>
      (\<forall>y. tb_name y = t \<longrightarrow> set_table y s = as @ y # bs)"
    using assms
  proof (induction s)
    case (Cons z s)
    show ?case
    proof (cases "tb_name z = t")
      case True
      then show ?thesis using Cons.prems by (intro exI [of _ "[]"] exI [of _ s]) auto
    next
      case False
      then obtain as bs where "s = as @ x # bs \<and> t \<notin> tb_name ` set as \<and> tb_name x = t \<and>
          (\<forall>y. tb_name y = t \<longrightarrow> set_table y s = as @ y # bs)"
        using Cons by auto
      then show ?thesis using False by (intro exI [of _ "z # as"] exI [of _ bs]) auto
    qed
  qed simp
  then show thesis using that by blast
qed

lemma schema_wf_replace:
  assumes wf: "schema_wf (as @ x # bs)" and y: "tb_name y = tb_name x" "table_wf (as @ x # bs) y"
    and fresh: "distinct (relation_names y)"
      "set (relation_names y) - set (relation_names x) \<subseteq> - set (relations (as @ x # bs))"
  shows "schema_wf (as @ y # bs)"
proof -
  have old: "distinct (relations as)" "distinct (relations bs)" "set (relations as) \<inter> set (relations bs) = {}"
    "set (relation_names x) \<inter> (set (relations as) \<union> set (relations bs)) = {}"
    using wf unfolding schema_wf_def relations_simps distinct_append set_append by blast+
  have "set (relation_names y) \<inter> (set (relations as) \<union> set (relations bs)) = {}"
    using old(4) fresh(2) unfolding relations_simps set_append by blast
  with old fresh(1) have "distinct (relations (as @ y # bs))"
    unfolding relations_simps distinct_append set_append by blast
  moreover have "tb_name ` set (as @ x # bs) = tb_name ` set (as @ y # bs)" using y(1) by simp
  then have "table_wf (as @ y # bs) z" if "z = y \<or> z \<in> set (as @ x # bs)" for z
    using table_wf_tables [of "as @ x # bs" "as @ y # bs" z] that wf y(2) unfolding schema_wf_def by blast
  ultimately show ?thesis unfolding schema_wf_def by auto
qed

lemma schema_wf_set_table:
  assumes "schema_wf s" "find_table t s = Some x" "tb_name y = t" "table_wf s y"
    "distinct (relation_names y)" "set (relation_names y) - set (relation_names x) \<subseteq> - set (relations s)"
  shows "schema_wf (set_table y s)"
proof -
  from assms(2) obtain as bs where "s = as @ x # bs" "tb_name x = t" "set_table y s = as @ y # bs"
    by (rule find_tableE) (use assms(3) in blast)
  then show ?thesis using schema_wf_replace [of as x bs y] assms by simp
qed

lemma found_wf:
  assumes "schema_wf s" "find_table t s = Some x"
  shows "table_wf s x" "distinct (relation_names x)" "tb_name x = t" "x \<in> set s" "t \<in> set (relations s)"
proof -
  from assms(2) obtain as bs where s: "s = as @ x # bs" "tb_name x = t" by (rule find_tableE)
  then show "table_wf s x" "distinct (relation_names x)" "tb_name x = t" "x \<in> set s" "t \<in> set (relations s)"
    using assms(1) by (auto simp: schema_wf_def relation_names_def)
qed

section \<open>Every operation keeps schemas well formed\<close>

lemma drop_column_filter: "drop_column c ks = filter (\<lambda>k. fst k \<noteq> c) ks"
  by (induction c ks rule: drop_column.induct) auto

lemma drop_object_filter: "drop_object n obs = filter (\<lambda>ob. dbo_name ob \<noteq> n) obs"
  by (induction obs) auto

lemma without_column_filter:
  "without_column c obs =
     filter (\<lambda>ob. c \<notin> set (dbo_columns ob) \<and> c \<notin> set (predicate_words (dbo_kind ob))) obs"
  by (induction obs) auto

lemma drop_table_filter: "drop_table t s = filter (\<lambda>x. tb_name x \<noteq> t) s"
  by (induction s) auto

lemma fst_set_nullable [simp]: "map fst (set_nullable c b ks) = map fst ks"
  by (induction c b ks rule: set_nullable.induct) auto

lemma fst_not_null [simp]: "map fst (not_null cs ks) = map fst ks"
  by (induction cs ks rule: not_null.induct) auto

lemma fst_image_eq:
  assumes "map fst ks = map fst ks'"
  shows "fst ` set ks = fst ` set ks'"
proof -
  have "set (map fst ks) = set (map fst ks')" unfolding assms ..
  then show ?thesis by (simp only: set_map)
qed

lemma object_wf_mono: "fst ` set ks \<subseteq> fst ` set ks' \<Longrightarrow> object_wf s ks ob \<Longrightarrow> object_wf s ks' ob"
  unfolding object_wf_def by blast

text \<open>Columns change, the objects stay.\<close>

lemma schema_wf_columns:
  assumes "schema_wf s" "find_table t s = Some x" "distinct (map fst ks)" "fst ` set (tb_columns x) \<subseteq> fst ` set ks"
  shows "schema_wf (set_table (x\<lparr>tb_columns := ks\<rparr>) s)"
  using assms(1,2)
proof (rule schema_wf_set_table)
  note x = found_wf [OF assms(1,2)]
  show "table_wf s (x\<lparr>tb_columns := ks\<rparr>)"
    using x(1) assms(3) object_wf_mono [OF assms(4)] by (simp add: table_wf_def)
  show "tb_name (x\<lparr>tb_columns := ks\<rparr>) = t" "distinct (relation_names (x\<lparr>tb_columns := ks\<rparr>))"
    "set (relation_names (x\<lparr>tb_columns := ks\<rparr>)) - set (relation_names x) \<subseteq> - set (relations s)"
    using x by (simp_all add: relation_names_def)
qed

text \<open>Objects go, and perhaps columns they do not mention.\<close>

lemma schema_wf_fewer:
  assumes "schema_wf s" "find_table t s = Some x" "distinct (map fst ks)"
    and keep: "\<And>ob. ob \<in> set (tb_objects x) \<Longrightarrow> P ob \<Longrightarrow> object_wf s (tb_columns x) ob \<Longrightarrow> object_wf s ks ob"
  shows "schema_wf (set_table (x\<lparr>tb_columns := ks, tb_objects := filter P (tb_objects x)\<rparr>) s)"
    (is "schema_wf (set_table ?y s)")
  using assms(1,2)
proof (rule schema_wf_set_table)
  note x = found_wf [OF assms(1,2)]
  show "table_wf s ?y" using x(1) assms(3) keep by (auto simp: table_wf_def distinct_map_filter)
  show "tb_name ?y = t" using x by simp
  have eq: "filter is_relation_object (filter P obs) = filter P (filter is_relation_object obs)" for obs
    by (simp add: conj_commute)
  show "distinct (relation_names ?y)"
    using x(2) by (auto simp: relation_names_def eq distinct_map_filter simp del: filter_filter)
  show "set (relation_names ?y) - set (relation_names x) \<subseteq> - set (relations s)"
    by (auto simp: relation_names_def)
qed

lemma schema_wf_drop_object:
  assumes "schema_wf s" "find_table t s = Some x"
  shows "schema_wf (set_table (x\<lparr>tb_objects := drop_object n (tb_objects x)\<rparr>) s)"
  using schema_wf_fewer [OF assms, of "tb_columns x" "\<lambda>ob. dbo_name ob \<noteq> n"] found_wf [OF assms]
  by (simp add: drop_object_filter table_wf_def)

lemma schema_wf_drop_column:
  assumes "schema_wf s" "find_table t s = Some x"
  shows "schema_wf (set_table (x\<lparr>tb_columns := drop_column c (tb_columns x), tb_objects := without_column c (tb_objects x)\<rparr>) s)"
  unfolding drop_column_filter without_column_filter
proof (rule schema_wf_fewer [OF assms])
  show "distinct (map fst (filter (\<lambda>k. fst k \<noteq> c) (tb_columns x)))"
    using found_wf [OF assms] by (simp add: table_wf_def distinct_map_filter)
qed (auto simp: object_wf_def)

text \<open>A new object.\<close>

lemma put_object_simps [simp]:
  "tb_name (put_object x n kind cs) = tb_name x"
  "map fst (tb_columns (put_object x n kind cs)) = map fst (tb_columns x)"
  "tb_objects (put_object x n kind cs) = tb_objects x @ [\<lparr>dbo_name = n, dbo_kind = kind, dbo_columns = cs\<rparr>]"
  by (simp_all add: put_object_def split: object_kind.split)

lemma relation_names_put:
  "relation_names (put_object x n kind cs) = relation_names x @ (if is_foreign kind then [] else [n])"
  by (simp add: relation_names_def is_relation_object_def)

lemma name_taken_iff [simp]:
  "name_taken s x kind n \<longleftrightarrow>
     n \<in> dbo_name ` set (tb_objects x) \<or> \<not> is_foreign kind \<and> n \<in> set (relations s)"
  unfolding name_taken_def if_True if_False using find_object_None by (auto split: if_splits)

lemma schema_wf_put:
  assumes "schema_wf s" "find_table t s = Some x" "set cs \<subseteq> fst ` set (tb_columns x)"
    "set (predicate_words kind) \<subseteq> set sql_words \<union> fst ` set (tb_columns x)" "target kind \<subseteq> tb_name ` set s"
    "\<not> name_taken s x kind n"
  shows "schema_wf (set_table (put_object x n kind cs) s)"
  using assms(1,2)
proof (rule schema_wf_set_table)
  note x = found_wf [OF assms(1,2)]
  have cols: "fst ` set (tb_columns (put_object x n kind cs)) = fst ` set (tb_columns x)"
    by (rule fst_image_eq) simp
  show "table_wf s (put_object x n kind cs)"
    using x(1) assms(3-6) by (auto simp: table_wf_def object_wf_def cols)
  show "tb_name (put_object x n kind cs) = t" using x by simp
  have "set (relation_names x) \<subseteq> set (relations s)" using x(4) by (auto simp: relations_def)
  with x(2) assms(6) show "distinct (relation_names (put_object x n kind cs))"
    by (auto simp: relation_names_put)
  show "set (relation_names (put_object x n kind cs)) - set (relation_names x) \<subseteq> - set (relations s)"
    using assms(6) by (auto simp: relation_names_put)
qed

lemma add_objectE:
  assumes "add_object s t nm kind cs = Inr s'"
  obtains x n where "find_table t s = Some x" "set cs \<subseteq> fst ` set (tb_columns x)"
    "set (predicate_words kind) \<subseteq> set sql_words \<union> fst ` set (tb_columns x)" "target kind \<subseteq> tb_name ` set s"
    "\<not> name_taken s x kind n" "s' = set_table (put_object x n kind cs) s" "\<And>m. nm = Some m \<Longrightarrow> n = m"
  using assms that by (auto simp: add_object_def chosen_name_def simp del: name_taken_iff split: option.splits if_splits)

lemma add_object_wf: "schema_wf s \<Longrightarrow> add_object s t nm kind cs = Inr s' \<Longrightarrow> schema_wf s'"
  by (metis add_objectE schema_wf_put)

lemma add_objects_wf: "schema_wf s \<Longrightarrow> add_objects t xs s = Inr s' \<Longrightarrow> schema_wf s'"
  by (induction t xs s rule: add_objects.induct) (auto split: sum.splits dest: add_object_wf)

text \<open>Tables come and go.\<close>

lemma schema_wf_new_table:
  assumes "schema_wf s" "t \<notin> set (relations s)" "distinct (map fst ks)"
  shows "schema_wf (s @ [\<lparr>tb_name = t, tb_columns = ks, tb_objects = []\<rparr>])"
  using assms table_wf_tables [of s "s @ [\<lparr>tb_name = t, tb_columns = ks, tb_objects = []\<rparr>]"]
  by (auto simp: schema_wf_def relation_names_def) (auto simp: table_wf_def)

lemma distinct_relations_filter: "distinct (relations s) \<Longrightarrow> distinct (relations (filter P s))"
  by (induction s) (auto simp: relations_def)

lemma schema_wf_drop_table:
  assumes "schema_wf s" "\<not> referenced t s"
  shows "schema_wf (drop_table t s)"
  using assms distinct_relations_filter [of s]
  unfolding schema_wf_def drop_table_filter table_wf_def object_wf_def referenced_iff by auto blast

text \<open>A schema is a list of tables with different names.\<close>

lemma at_table:
  assumes "schema_wf (as @ x # bs)"
  shows "find_table (tb_name x) (as @ x # bs) = Some x"
    and "tb_name y = tb_name x \<Longrightarrow> set_table y (as @ x # bs) = as @ y # bs"
proof -
  have "tb_name x \<notin> tb_name ` set as"
    using assms table_is_relation [of _ as] by (force simp: schema_wf_def relation_names_def)
  then show "find_table (tb_name x) (as @ x # bs) = Some x"
    and "tb_name y = tb_name x \<Longrightarrow> set_table y (as @ x # bs) = as @ y # bs"
    by (induction as) auto
qed

lemma drop_indexE:
  assumes "drop_index n s = Inr s'"
  obtains as x bs where "s = as @ x # bs" "s' = as @ x\<lparr>tb_objects := drop_object n (tb_objects x)\<rparr> # bs"
proof -
  have "\<exists>as x bs. s = as @ x # bs \<and> s' = as @ x\<lparr>tb_objects := drop_object n (tb_objects x)\<rparr> # bs"
    using assms
  proof (induction n s arbitrary: s' rule: drop_index.induct)
    case (2 n x xs)
    show ?case
    proof (cases "names_relation n (tb_objects x)")
      case True
      then show ?thesis using 2(2) by (intro exI [of _ "[]"]) (auto split: option.splits if_splits)
    next
      case False
      then obtain xs' where xs': "drop_index n xs = Inr xs'" "s' = x # xs'"
        using 2(2) by (auto split: sum.splits simp del: names_relation_iff)
      from 2(1) [OF False this(1)] obtain as z bs
        where "xs = as @ z # bs" "xs' = as @ z\<lparr>tb_objects := drop_object n (tb_objects z)\<rparr> # bs" by blast
      then show ?thesis using xs' by (intro exI [of _ "x # as"]) auto
    qed
  qed simp
  then show thesis using that by blast
qed

lemma drop_index_wf:
  assumes "schema_wf s" "drop_index n s = Inr s'"
  shows "schema_wf s'"
  using assms(2)
proof (rule drop_indexE)
  fix as x bs
  assume s: "s = as @ x # bs" "s' = as @ x\<lparr>tb_objects := drop_object n (tb_objects x)\<rparr> # bs"
  then show ?thesis
    using schema_wf_drop_object [of s "tb_name x" x n] at_table(1) [of as x bs]
      at_table(2) [of as x bs "x\<lparr>tb_objects := drop_object n (tb_objects x)\<rparr>"] assms(1)
    by simp
qed

text \<open>Renaming a table renames it in the foreign keys that refer to it.\<close>

lemma rename_ref_simps [simp]:
  "is_foreign (rename_ref a b k) = is_foreign k"
  "predicate_words (rename_ref a b k) = predicate_words k"
  "target (rename_ref a b k) = (\<lambda>r. if r = a then b else r) ` target k"
  by (cases k; simp)+

lemma is_relation_rename [simp]:
  "is_relation_object (ob\<lparr>dbo_kind := rename_ref a b (dbo_kind ob)\<rparr>) = is_relation_object ob"
  by (simp add: is_relation_object_def)

lemma object_not_table:
  assumes "distinct (relations s)" "x \<in> set s" "y \<in> set s" "ob \<in> set (tb_objects y)" "is_relation_object ob"
  shows "dbo_name ob \<noteq> tb_name x"
proof -
  from assms(2) obtain as bs where s: "s = as @ x # bs" by (meson split_list)
  have "dbo_name ob \<in> set (relation_names y)" using assms(4,5) by (auto simp: relation_names_def)
  then have "y \<noteq> x \<Longrightarrow> dbo_name ob \<in> set (relations as) \<union> set (relations bs)"
    using assms(3) by (auto simp: s relations_def)
  moreover have "y = x \<Longrightarrow> dbo_name ob \<in> set (map dbo_name (filter is_relation_object (tb_objects x)))"
    using assms(4,5) by auto
  ultimately show ?thesis using assms(1) by (cases "y = x") (auto simp: s relation_names_def)
qed

lemma relations_rename:
  assumes "distinct (relations s)" "a \<in> tb_name ` set s"
  shows "relations (map (rename_in a b) s) = map (\<lambda>n. if n = a then b else n) (relations s)"
proof -
  have "relation_names (rename_in a b x) = map (\<lambda>n. if n = a then b else n) (relation_names x)" if "x \<in> set s" for x
    using assms object_not_table [OF assms(1) _ that]
    by (auto simp: relation_names_def rename_in_def filter_map comp_def)
  then show ?thesis unfolding relations_def map_concat map_map by (intro arg_cong [where f = concat]) simp
qed

lemma rename_in_simps [simp]:
  "tb_name (rename_in a b x) = (if tb_name x = a then b else tb_name x)"
  "tb_columns (rename_in a b x) = tb_columns x"
  "tb_objects (rename_in a b x) = map (\<lambda>ob. ob\<lparr>dbo_kind := rename_ref a b (dbo_kind ob)\<rparr>) (tb_objects x)"
  by (simp_all add: rename_in_def)

lemma schema_wf_rename:
  assumes "schema_wf s" "a \<in> tb_name ` set s" "b \<notin> set (relations s)"
  shows "schema_wf (map (rename_in a b) s)"
  unfolding schema_wf_def
proof (intro conjI ballI)
  show "distinct (relations (map (rename_in a b) s))"
    using assms by (auto simp: relations_rename schema_wf_def distinct_map inj_on_def)
  fix y assume "y \<in> set (map (rename_in a b) s)"
  then obtain x where x: "x \<in> set s" "y = rename_in a b x" by auto
  with assms have "table_wf s x" by (simp add: schema_wf_def)
  have "tb_name ` set (map (rename_in a b) s) = (\<lambda>r. if r = a then b else r) ` tb_name ` set s"
    unfolding set_map image_image rename_in_simps ..
  then have "object_wf (map (rename_in a b) s) ks (ob\<lparr>dbo_kind := rename_ref a b (dbo_kind ob)\<rparr>)"
    if "object_wf s ks ob" for ks ob
    using that by (auto simp: object_wf_def)
  with \<open>table_wf s x\<close> show "table_wf (map (rename_in a b) s) y"
    unfolding x(2) by (auto simp: table_wf_def comp_def)
qed

lemma schema_wf_set_nullable:
  assumes "schema_wf s" "find_table t s = Some x"
  shows "schema_wf (set_table (x\<lparr>tb_columns := set_nullable c b (tb_columns x)\<rparr>) s)"
  using assms
proof (rule schema_wf_columns)
  show "distinct (map fst (set_nullable c b (tb_columns x)))"
    using found_wf [OF assms] by (simp add: table_wf_def)
  show "fst ` set (tb_columns x) \<subseteq> fst ` set (set_nullable c b (tb_columns x))"
    using fst_image_eq [OF fst_set_nullable [of c b "tb_columns x"]] by simp
qed

lemma set_table_same: "find_table t s = Some x \<Longrightarrow> set_table x s = s"
  by (erule find_tableE) simp

lemma ddl_step_wf: "schema_wf s \<Longrightarrow> ddl_step op s = Inr s' \<Longrightarrow> schema_wf s'"
proof (induction op s rule: ddl_step.induct)
  case (1 t cols cons s)
  then show ?case
    using schema_wf_new_table [of s t "map (\<lambda>(c, n, u). (c, n)) cols"]
    by (auto simp: comp_def case_prod_beta split: if_splits elim!: add_objects_wf [rotated])
next
  case (2 t s)
  then show ?case by (auto simp del: referenced_iff split: option.splits if_splits intro: schema_wf_drop_table)
next
  case (3 a b s)
  then show ?case by (auto split: option.splits if_splits intro!: schema_wf_rename dest: found_wf(3,4))
next
  case (4 t c nullable s)
  then show ?case
    by (auto split: option.splits if_splits intro!: schema_wf_columns dest: found_wf simp: table_wf_def)
next
  case (5 t c s)
  then show ?case by (auto simp: column_step_def split: option.splits if_splits intro!: schema_wf_drop_column)
next
  case (6 t c b s)
  then show ?case by (auto simp: column_step_def split: option.splits if_splits intro: schema_wf_set_nullable)
qed (auto simp: column_step_def drop_constraint_def set_table_same
      split: option.splits if_splits
      intro: schema_wf_drop_table schema_wf_rename add_object_wf drop_index_wf schema_wf_drop_object)

lemma ddl_run_wf: "schema_wf s \<Longrightarrow> ddl_run ops s = Inr s' \<Longrightarrow> schema_wf s'"
  by (induction ops s rule: ddl_run.induct) (auto split: sum.splits dest: ddl_step_wf)

lemma upgrade_all_wf: "schema_wf s \<Longrightarrow> upgrade_all ms s = Inr s' \<Longrightarrow> schema_wf s'"
  by (induction ms s rule: upgrade_all.induct) (auto split: sum.splits dest: ddl_run_wf)

lemma downgrade_all_wf: "schema_wf s \<Longrightarrow> downgrade_all ms s = Inr s' \<Longrightarrow> schema_wf s'"
  by (induction ms s rule: downgrade_all.induct) (auto split: sum.splits dest: ddl_run_wf)

section \<open>Undoing operations\<close>

text \<open>The operation Alembic generates to undo another one, when one exists.\<close>

fun inverse_op :: "ddl \<Rightarrow> ddl option" where
  "inverse_op (Create_Table t cols cons) = Some (Drop_Table t)"
| "inverse_op (Rename_Table a b) = Some (Rename_Table b a)"
| "inverse_op (Add_Column t c b) = (if has c sql_words then None else Some (Drop_Column t c))"
| "inverse_op (Create_Constraint (Some n) t Unique_Key cs) = Some (Drop_Constraint (Some n) t)"
| "inverse_op (Create_Constraint (Some n) t (Foreign_Key r) cs) = Some (Drop_Constraint (Some n) t)"
| "inverse_op (Create_Index n t cs u p) = Some (Drop_Index n)"
| "inverse_op (Alter_Type t c) = Some (Alter_Type t c)"
| "inverse_op _ = None"

text \<open>A downgrade that lists the inverses in reverse order.\<close>

definition undoes :: "ddl list \<Rightarrow> ddl list \<Rightarrow> bool" where
  "undoes ops ds = (map inverse_op ops = map Some (rev ds))"

lemma find_table_at: "t \<notin> tb_name ` set as \<Longrightarrow> tb_name x = t \<Longrightarrow> find_table t (as @ x # bs) = Some x"
  by (induction as) auto

lemma set_table_at:
  "t \<notin> tb_name ` set as \<Longrightarrow> tb_name x = t \<Longrightarrow> tb_name y = t \<Longrightarrow> set_table y (as @ x # bs) = as @ y # bs"
  by (induction as) auto

lemma set_table_twice:
  assumes "find_table t s = Some x" "tb_name y = t" "tb_name z = t"
  shows "find_table t (set_table y s) = Some y" "set_table z (set_table y s) = set_table z s"
proof -
  obtain as bs where "s = as @ x # bs" "t \<notin> tb_name ` set as" "tb_name x = t" "set_table y s = as @ y # bs"
    using assms(1) by (rule find_tableE) (use assms(2) in blast)
  then show "find_table t (set_table y s) = Some y" "set_table z (set_table y s) = set_table z s"
    using assms(2,3) by (simp_all add: find_table_at set_table_at)
qed

text \<open>Creating a table.\<close>

lemma add_objects_last:
  assumes "t \<notin> tb_name ` set s" "tb_name x = t" "add_objects t xs (s @ [x]) = Inr s'"
  shows "\<exists>y. s' = s @ [y] \<and> tb_name y = t"
  using assms
proof (induction xs arbitrary: x)
  case (Cons ob xs)
  obtain nm k cs where ob: "ob = (nm, k, cs)" by (cases ob)
  with Cons.prems obtain s'' where s'': "add_object (s @ [x]) t nm k cs = Inr s''" "add_objects t xs s'' = Inr s'"
    by (auto split: sum.splits)
  from this(1) obtain z n where "find_table t (s @ [x]) = Some z" "s'' = set_table (put_object z n k cs) (s @ [x])"
    by (rule add_objectE)
  with Cons.prems have "s'' = s @ [put_object x n k cs]"
    using find_table_at [of t s x "[]"] set_table_at [of t s x "put_object x n k cs" "[]"] by simp
  then show ?case using Cons.IH [of "put_object x n k cs"] Cons.prems s'' by simp
qed auto

lemma undo_create_table:
  assumes "schema_wf s" "ddl_step (Create_Table t cols cons) s = Inr s'"
  shows "ddl_step (Drop_Table t) s' = Inr s"
proof -
  have t: "t \<notin> tb_name ` set s" using assms(2) table_is_relation [of _ s] by (auto split: if_splits)
  from assms(2) obtain y where s': "s' = s @ [y]" "tb_name y = t"
    using add_objects_last [OF t, of "\<lparr>tb_name = t, tb_columns = map (\<lambda>(c, n, u). (c, n)) cols, tb_objects = []\<rparr>"]
    by (auto split: if_splits)
  have "\<not> referenced t s'"
    using t wf_target [OF assms(1)] unfolding s'(1) referenced_iff by (auto simp: s'(2))
  moreover have "drop_table t s' = s" using t s' by (auto simp: drop_table_filter filter_id_conv image_iff)
  ultimately show ?thesis using s' find_table_at [OF t, of y "[]"] by (simp del: referenced_iff)
qed

text \<open>Renaming a table.\<close>

lemma rename_ref_back: "b \<notin> target k \<Longrightarrow> rename_ref b a (rename_ref a b k) = k"
  by (cases k) auto

lemma rename_in_back:
  assumes "tb_name x \<noteq> b" "\<forall>ob\<in>set (tb_objects x). b \<notin> target (dbo_kind ob)"
  shows "rename_in b a (rename_in a b x) = x"
  using assms unfolding rename_in_def by (cases x) (auto simp: comp_def rename_ref_back intro!: map_idI)

lemma undo_rename_table:
  assumes "schema_wf s" "ddl_step (Rename_Table a b) s = Inr s'"
  shows "ddl_step (Rename_Table b a) s' = Inr s"
proof -
  from assms(2) obtain x where x: "find_table a s = Some x" "b \<notin> set (relations s)" "s' = map (rename_in a b) s"
    by (auto split: option.splits if_splits)
  have tabs: "b \<notin> tb_name ` set s" "a \<in> tb_name ` set s" "a \<noteq> b"
    using x(2) table_is_relation [of _ s] found_wf [OF assms(1) x(1)] by auto
  then have "\<forall>y\<in>set s. rename_in b a (rename_in a b y) = y"
    using wf_target [OF assms(1)] by (intro ballI rename_in_back) blast+
  then have "map (rename_in b a) s' = s" unfolding x(3) map_map by (intro map_idI) simp
  moreover have "a \<notin> set (relations s')"
    using assms(1) tabs(2,3) by (auto simp: x(3) relations_rename schema_wf_def)
  moreover have "b \<in> tb_name ` set s'" using tabs(2) by (force simp: x(3))
  then obtain y where "find_table b s' = Some y" using find_table_None [of b s'] by (cases "find_table b s'") auto
  ultimately show ?thesis by simp
qed

text \<open>Columns, constraints and indexes.\<close>

lemma undo_add_column:
  assumes "schema_wf s" "ddl_step (Add_Column t c b) s = Inr s'" "c \<notin> set sql_words"
  shows "ddl_step (Drop_Column t c) s' = Inr s"
proof -
  from assms(2) obtain x where x: "find_table t s = Some x" "c \<notin> fst ` set (tb_columns x)"
      "s' = set_table (x\<lparr>tb_columns := tb_columns x @ [(c, b)]\<rparr>) s"
    by (auto simp del: fst_image_eq split: option.splits if_splits)
  note wf = found_wf [OF assms(1) x(1)]
  have "drop_column c (tb_columns x @ [(c, b)]) = tb_columns x"
    using x(2) by (auto simp: drop_column_filter filter_id_conv image_iff)
  moreover have "without_column c (tb_objects x) = tb_objects x"
    using wf(1) x(2) assms(3) unfolding without_column_filter filter_id_conv table_wf_def object_wf_def by blast
  ultimately show ?thesis
    using set_table_twice [OF x(1), of "x\<lparr>tb_columns := tb_columns x @ [(c, b)]\<rparr>" x] wf(3) set_table_same [OF x(1)]
    by (simp add: column_step_def x(3))
qed

lemma find_object_new: "n \<notin> dbo_name ` set obs \<Longrightarrow> find_object n (obs @ [\<lparr>dbo_name = n, dbo_kind = k, dbo_columns = cs\<rparr>]) =
    Some \<lparr>dbo_name = n, dbo_kind = k, dbo_columns = cs\<rparr>"
  by (induction obs) auto

lemma drop_object_new: "n \<notin> dbo_name ` set obs \<Longrightarrow> drop_object n (obs @ [\<lparr>dbo_name = n, dbo_kind = k, dbo_columns = cs\<rparr>]) = obs"
  by (auto simp: drop_object_filter filter_id_conv image_iff)

lemma put_object_back:
  assumes "kind \<noteq> Primary_Key" "n \<notin> dbo_name ` set (tb_objects x)"
  shows "put_object x n kind cs\<lparr>tb_objects := drop_object n (tb_objects (put_object x n kind cs))\<rparr> = x"
  using assms by (cases kind) (simp_all add: put_object_def drop_object_new)

lemma undo_create_constraint:
  assumes "schema_wf s" "ddl_step (Create_Constraint (Some n) t k cs) s = Inr s'" "k \<noteq> Primary_Key" "\<not> is_index k"
  shows "ddl_step (Drop_Constraint (Some n) t) s' = Inr s"
proof -
  from assms(2) have "add_object s t (Some n) k cs = Inr s'" by simp
  then obtain x where x: "find_table t s = Some x" "\<not> name_taken s x k n" "s' = set_table (put_object x n k cs) s"
    by (rule add_objectE) blast
  then have n: "n \<notin> dbo_name ` set (tb_objects x)" by simp
  show ?thesis
    using set_table_twice [OF x(1), of "put_object x n k cs" x] found_wf(3) [OF assms(1) x(1)] set_table_same [OF x(1)]
      put_object_back [OF assms(3) n, of cs] find_object_new [OF n] assms(4)
    by (simp add: drop_constraint_def x(3))
qed

lemma drop_index_at:
  assumes "n \<notin> set (relations as)" "names_relation n (tb_objects x)" "find_object n (tb_objects x) = Some ob" "is_index (dbo_kind ob)"
  shows "drop_index n (as @ x # bs) = Inr (as @ x\<lparr>tb_objects := drop_object n (tb_objects x)\<rparr> # bs)"
  using assms
proof (induction as)
  case (Cons z as)
  have "\<not> names_relation n (tb_objects z)" using Cons.prems(1) by (auto simp: relation_names_def)
  then show ?case using Cons by (simp del: names_relation_iff)
qed simp

lemma undo_create_index:
  assumes "schema_wf s" "ddl_step (Create_Index n t cs u p) s = Inr s'"
  shows "ddl_step (Drop_Index n) s' = Inr s"
proof -
  let ?k = "Is_Index u p"
  from assms(2) have "add_object s t (Some n) ?k cs = Inr s'" by simp
  then obtain x where x: "find_table t s = Some x" "\<not> name_taken s x ?k n" "s' = set_table (put_object x n ?k cs) s"
    by (rule add_objectE) blast
  then have n: "n \<notin> dbo_name ` set (tb_objects x)" "n \<notin> set (relations s)" by simp_all
  from x(1) obtain as bs where s: "s = as @ x # bs" "s' = as @ put_object x n ?k cs # bs"
    by (rule find_tableE) (use found_wf(3) [OF assms(1) x(1)] x(3) in auto)
  have "drop_index n s' = Inr s"
    unfolding s using n find_object_new [OF n(1)] put_object_back [OF _ n(1), of ?k cs]
    by (subst drop_index_at) (auto simp: s is_relation_object_def)
  then show ?thesis by simp
qed

lemma inverse_op_undoes:
  assumes "schema_wf s" "ddl_step op s = Inr s'" "inverse_op op = Some op'"
  shows "ddl_step op' s' = Inr s"
proof (cases op)
  case (Create_Constraint n t k cs)
  then show ?thesis using assms undo_create_constraint [of s _ t k cs s'] by (cases n; cases k) auto
next
  case (Alter_Type t c)
  then show ?thesis using assms
    by (auto simp: column_step_def set_table_same simp del: has_column_iff split: option.splits if_splits)
next
  case (Create_Table t cols cons)
  with assms show ?thesis by (metis inverse_op.simps(1) option.inject undo_create_table)
next
  case (Rename_Table a b)
  with assms show ?thesis by (metis inverse_op.simps(2) option.inject undo_rename_table)
next
  case (Add_Column t c b)
  with assms show ?thesis using undo_add_column [of s t c b s'] by (simp del: ddl_step.simps split: if_splits)
next
  case (Create_Index n t cs u p)
  with assms show ?thesis by (metis inverse_op.simps(6) option.inject undo_create_index)
qed (use assms in simp_all)

lemma ddl_run_append:
  "ddl_run (ops @ ops') s = (case ddl_run ops s of Inl e \<Rightarrow> Inl e | Inr s' \<Rightarrow> ddl_run ops' s')"
  by (induction ops s rule: ddl_run.induct) (auto split: sum.splits)

lemma undoes_restores:
  assumes "undoes ops ds" "schema_wf s" "ddl_run ops s = Inr s'"
  shows "ddl_run ds s' = Inr s"
  using assms
proof (induction ops arbitrary: s ds)
  case (Cons op ops)
  then obtain d r where ds: "rev ds = d # r" "inverse_op op = Some d" "undoes ops (rev r)"
    by (cases "rev ds") (auto simp: undoes_def)
  obtain s1 where s1: "ddl_step op s = Inr s1" "ddl_run ops s1 = Inr s'"
    using Cons.prems(3) by (auto split: sum.splits)
  have "ddl_run (rev r) s' = Inr s1"
    using Cons.IH [OF ds(3) _ s1(2)] ddl_step_wf [OF Cons.prems(2) s1(1)] by simp
  moreover have "ddl_step d s1 = Inr s" by (rule inverse_op_undoes [OF Cons.prems(2) s1(1) ds(2)])
  moreover have "ds = rev r @ [d]" using ds(1) by (metis rev_swap rev.simps(2))
  ultimately show ?case by (simp add: ddl_run_append)
qed (simp add: undoes_def)

end
