(* ===== verification/Schema_Names.thy ===== *)
theory Schema_Names
  imports Migrations
begin

text \<open>
  The names of the tables, columns, constraints and indexes in the migrations (\<open>n_x\<close> is the name \<open>x\<close>) and the
  predicates of their partial indexes, with their hashes, and the names PostgreSQL chooses for the unnamed ones.
\<close>

named_theorems name_hash \<open>hashes of the names\<close>

section \<open>Names\<close>

definition n_0 :: name where "n_0 = ''0''"
definition n_IS :: name where "n_IS = ''IS''"
definition n_NOT :: name where "n_NOT = ''NOT''"
definition n_NULL :: name where "n_NULL = ''NULL''"
definition n_actor_user_id :: name where "n_actor_user_id = ''actor_user_id''"
definition n_address :: name where "n_address = ''address''"
definition n_address_pkey :: name where "n_address_pkey = ''address_pkey''"
definition n_address_user_id_fkey :: name where "n_address_user_id_fkey = ''address_user_id_fkey''"
definition n_aggregate_id :: name where "n_aggregate_id = ''aggregate_id''"
definition n_aggregate_type :: name where "n_aggregate_type = ''aggregate_type''"
definition n_alt_text :: name where "n_alt_text = ''alt_text''"
definition n_amount :: name where "n_amount = ''amount''"
definition n_attempt_no :: name where "n_attempt_no = ''attempt_no''"
definition n_attempts :: name where "n_attempts = ''attempts''"
definition n_auth_method :: name where "n_auth_method = ''auth_method''"
definition n_base_price :: name where "n_base_price = ''base_price''"
definition n_billing_address_json :: name where "n_billing_address_json = ''billing_address_json''"
definition n_bucket :: name where "n_bucket = ''bucket''"
definition n_cart :: name where "n_cart = ''cart''"
definition n_cart_id :: name where "n_cart_id = ''cart_id''"
definition n_cart_pkey :: name where "n_cart_pkey = ''cart_pkey''"
definition n_cart_session_id_fkey :: name where "n_cart_session_id_fkey = ''cart_session_id_fkey''"
definition n_cart_session_id_key :: name where "n_cart_session_id_key = ''cart_session_id_key''"
definition n_cart_snapshot :: name where "n_cart_snapshot = ''cart_snapshot''"
definition n_cart_user_id_fkey :: name where "n_cart_user_id_fkey = ''cart_user_id_fkey''"
definition n_cartitem :: name where "n_cartitem = ''cartitem''"
definition n_cartitem_cart_id_fkey :: name where "n_cartitem_cart_id_fkey = ''cartitem_cart_id_fkey''"
definition n_cartitem_pkey :: name where "n_cartitem_pkey = ''cartitem_pkey''"
definition n_cartitem_product_id_fkey :: name where "n_cartitem_product_id_fkey = ''cartitem_product_id_fkey''"
definition n_checkout_id :: name where "n_checkout_id = ''checkout_id''"
definition n_checkout_session_id :: name where "n_checkout_session_id = ''checkout_session_id''"
definition n_checkoutsession :: name where "n_checkoutsession = ''checkoutsession''"
definition n_checkoutsession_pkey :: name where "n_checkoutsession_pkey = ''checkoutsession_pkey''"
definition n_checksum :: name where "n_checksum = ''checksum''"
definition n_city :: name where "n_city = ''city''"
definition n_commitintent :: name where "n_commitintent = ''commitintent''"
definition n_commitintent_pkey :: name where "n_commitintent_pkey = ''commitintent_pkey''"
definition n_content_id :: name where "n_content_id = ''content_id''"
definition n_country :: name where "n_country = ''country''"
definition n_created_at :: name where "n_created_at = ''created_at''"
definition n_created_by :: name where "n_created_by = ''created_by''"
definition n_credential :: name where "n_credential = ''credential''"
definition n_credential_password_hash_key :: name where "n_credential_password_hash_key = ''credential_password_hash_key''"
definition n_credential_pkey :: name where "n_credential_pkey = ''credential_pkey''"
definition n_credential_provider_user_id_key :: name where "n_credential_provider_user_id_key = ''credential_provider_user_id_key''"
definition n_credential_user_id_fkey :: name where "n_credential_user_id_fkey = ''credential_user_id_fkey''"
definition n_cs_id :: name where "n_cs_id = ''cs_id''"
definition n_currency :: name where "n_currency = ''currency''"
definition n_dedupe_key :: name where "n_dedupe_key = ''dedupe_key''"
definition n_deleted_at :: name where "n_deleted_at = ''deleted_at''"
definition n_delievered_at :: name where "n_delievered_at = ''delievered_at''"
definition n_description :: name where "n_description = ''description''"
definition n_device_fingerprint_hash :: name where "n_device_fingerprint_hash = ''device_fingerprint_hash''"
definition n_device_name :: name where "n_device_name = ''device_name''"
definition n_device_session_id :: name where "n_device_session_id = ''device_session_id''"
definition n_device_type :: name where "n_device_type = ''device_type''"
definition n_deviceauthtoken :: name where "n_deviceauthtoken = ''deviceauthtoken''"
definition n_deviceauthtoken_device_session_id_fkey :: name where "n_deviceauthtoken_device_session_id_fkey = ''deviceauthtoken_device_session_id_fkey''"
definition n_deviceauthtoken_pkey :: name where "n_deviceauthtoken_pkey = ''deviceauthtoken_pkey''"
definition n_deviceauthtoken_user_id_fkey :: name where "n_deviceauthtoken_user_id_fkey = ''deviceauthtoken_user_id_fkey''"
definition n_devicesession :: name where "n_devicesession = ''devicesession''"
definition n_devicesession_pkey :: name where "n_devicesession_pkey = ''devicesession_pkey''"
definition n_devicesession_user_id_fkey :: name where "n_devicesession_user_id_fkey = ''devicesession_user_id_fkey''"
definition n_discount :: name where "n_discount = ''discount''"
definition n_discount_snapshot :: name where "n_discount_snapshot = ''discount_snapshot''"
definition n_email :: name where "n_email = ''email''"
definition n_expires_at :: name where "n_expires_at = ''expires_at''"
definition n_file_size :: name where "n_file_size = ''file_size''"
definition n_fk_idempotencykey_cs_id :: name where "n_fk_idempotencykey_cs_id = ''fk_idempotencykey_cs_id''"
definition n_id :: name where "n_id = ''id''"
definition n_idempotencykey :: name where "n_idempotencykey = ''idempotencykey''"
definition n_idempotencykey_pkey :: name where "n_idempotencykey_pkey = ''idempotencykey_pkey''"
definition n_idx_deviceauthtoken_tokenhash_active :: name where "n_idx_deviceauthtoken_tokenhash_active = ''idx_deviceauthtoken_tokenhash_active''"
definition n_idx_users_email_active :: name where "n_idx_users_email_active = ''idx_users_email_active''"
definition n_ik_id :: name where "n_ik_id = ''ik_id''"
definition n_imagecontent :: name where "n_imagecontent = ''imagecontent''"
definition n_imagecontent_checksum_key :: name where "n_imagecontent_checksum_key = ''imagecontent_checksum_key''"
definition n_imagecontent_owner_id_fkey :: name where "n_imagecontent_owner_id_fkey = ''imagecontent_owner_id_fkey''"
definition n_imagecontent_pkey :: name where "n_imagecontent_pkey = ''imagecontent_pkey''"
definition n_inventoryreservation :: name where "n_inventoryreservation = ''inventoryreservation''"
definition n_inventoryreservation_pkey :: name where "n_inventoryreservation_pkey = ''inventoryreservation_pkey''"
definition n_ip_first_seen :: name where "n_ip_first_seen = ''ip_first_seen''"
definition n_is_active :: name where "n_is_active = ''is_active''"
definition n_is_admin :: name where "n_is_admin = ''is_admin''"
definition n_is_default :: name where "n_is_default = ''is_default''"
definition n_is_primary :: name where "n_is_primary = ''is_primary''"
definition n_issued_at :: name where "n_issued_at = ''issued_at''"
definition n_ix_address_user_id :: name where "n_ix_address_user_id = ''ix_address_user_id''"
definition n_ix_cart_session_id :: name where "n_ix_cart_session_id = ''ix_cart_session_id''"
definition n_ix_cart_user_id :: name where "n_ix_cart_user_id = ''ix_cart_user_id''"
definition n_ix_checkoutsession_expires_at :: name where "n_ix_checkoutsession_expires_at = ''ix_checkoutsession_expires_at''"
definition n_ix_checkoutsession_public_id :: name where "n_ix_checkoutsession_public_id = ''ix_checkoutsession_public_id''"
definition n_ix_checkoutsession_session_id :: name where "n_ix_checkoutsession_session_id = ''ix_checkoutsession_session_id''"
definition n_ix_checkoutsession_user_id :: name where "n_ix_checkoutsession_user_id = ''ix_checkoutsession_user_id''"
definition n_ix_credential_user_id :: name where "n_ix_credential_user_id = ''ix_credential_user_id''"
definition n_ix_deviceauthtoken_device_session_id :: name where "n_ix_deviceauthtoken_device_session_id = ''ix_deviceauthtoken_device_session_id''"
definition n_ix_deviceauthtoken_token_hash :: name where "n_ix_deviceauthtoken_token_hash = ''ix_deviceauthtoken_token_hash''"
definition n_ix_deviceauthtoken_user_id :: name where "n_ix_deviceauthtoken_user_id = ''ix_deviceauthtoken_user_id''"
definition n_ix_devicesession_device_fingerprint_hash :: name where "n_ix_devicesession_device_fingerprint_hash = ''ix_devicesession_device_fingerprint_hash''"
definition n_ix_devicesession_public_id :: name where "n_ix_devicesession_public_id = ''ix_devicesession_public_id''"
definition n_ix_devicesession_session_token_hash :: name where "n_ix_devicesession_session_token_hash = ''ix_devicesession_session_token_hash''"
definition n_ix_devicesession_user_id :: name where "n_ix_devicesession_user_id = ''ix_devicesession_user_id''"
definition n_ix_idempotencykey_expires_at :: name where "n_ix_idempotencykey_expires_at = ''ix_idempotencykey_expires_at''"
definition n_ix_idempotencykey_key :: name where "n_ix_idempotencykey_key = ''ix_idempotencykey_key''"
definition n_ix_idempotencykey_status :: name where "n_ix_idempotencykey_status = ''ix_idempotencykey_status''"
definition n_ix_imagecontent_owner_id :: name where "n_ix_imagecontent_owner_id = ''ix_imagecontent_owner_id''"
definition n_ix_imagecontent_public_id :: name where "n_ix_imagecontent_public_id = ''ix_imagecontent_public_id''"
definition n_ix_inventoryreservation_checkout_session_id :: name where "n_ix_inventoryreservation_checkout_session_id = ''ix_inventoryreservation_checkout_session_id''"
definition n_ix_inventoryreservation_order_id :: name where "n_ix_inventoryreservation_order_id = ''ix_inventoryreservation_order_id''"
definition n_ix_inventoryreservation_product_id :: name where "n_ix_inventoryreservation_product_id = ''ix_inventoryreservation_product_id''"
definition n_ix_inventoryreservation_reserved_until :: name where "n_ix_inventoryreservation_reserved_until = ''ix_inventoryreservation_reserved_until''"
definition n_ix_inventoryreservation_status :: name where "n_ix_inventoryreservation_status = ''ix_inventoryreservation_status''"
definition n_ix_order_public_id :: name where "n_ix_order_public_id = ''ix_order_public_id''"
definition n_ix_order_session_id :: name where "n_ix_order_session_id = ''ix_order_session_id''"
definition n_ix_order_status :: name where "n_ix_order_status = ''ix_order_status''"
definition n_ix_order_user_id :: name where "n_ix_order_user_id = ''ix_order_user_id''"
definition n_ix_orders_ik_id :: name where "n_ix_orders_ik_id = ''ix_orders_ik_id''"
definition n_ix_orders_public_id :: name where "n_ix_orders_public_id = ''ix_orders_public_id''"
definition n_ix_orders_session_id :: name where "n_ix_orders_session_id = ''ix_orders_session_id''"
definition n_ix_orders_status :: name where "n_ix_orders_status = ''ix_orders_status''"
definition n_ix_orders_unq_ik_id :: name where "n_ix_orders_unq_ik_id = ''ix_orders_unq_ik_id''"
definition n_ix_orders_user_id :: name where "n_ix_orders_user_id = ''ix_orders_user_id''"
definition n_ix_payment_order_id :: name where "n_ix_payment_order_id = ''ix_payment_order_id''"
definition n_ix_payment_provider_payment_id :: name where "n_ix_payment_provider_payment_id = ''ix_payment_provider_payment_id''"
definition n_ix_payment_public_id :: name where "n_ix_payment_public_id = ''ix_payment_public_id''"
definition n_ix_payment_status :: name where "n_ix_payment_status = ''ix_payment_status''"
definition n_ix_paymentattempt_payment_id :: name where "n_ix_paymentattempt_payment_id = ''ix_paymentattempt_payment_id''"
definition n_ix_paymentattempt_provider_event_id :: name where "n_ix_paymentattempt_provider_event_id = ''ix_paymentattempt_provider_event_id''"
definition n_ix_paymentwebhookevent_order_id :: name where "n_ix_paymentwebhookevent_order_id = ''ix_paymentwebhookevent_order_id''"
definition n_ix_paymentwebhookevent_processed_at :: name where "n_ix_paymentwebhookevent_processed_at = ''ix_paymentwebhookevent_processed_at''"
definition n_ix_paymentwebhookevent_provider :: name where "n_ix_paymentwebhookevent_provider = ''ix_paymentwebhookevent_provider''"
definition n_ix_paymentwebhookevent_provider_event_id :: name where "n_ix_paymentwebhookevent_provider_event_id = ''ix_paymentwebhookevent_provider_event_id''"
definition n_ix_product_owner_id :: name where "n_ix_product_owner_id = ''ix_product_owner_id''"
definition n_ix_product_public_id :: name where "n_ix_product_public_id = ''ix_product_public_id''"
definition n_ix_productcategorylink_prod_category_id :: name where "n_ix_productcategorylink_prod_category_id = ''ix_productcategorylink_prod_category_id''"
definition n_ix_productcategorylink_product_id :: name where "n_ix_productcategorylink_product_id = ''ix_productcategorylink_product_id''"
definition n_ix_productimage_product_id :: name where "n_ix_productimage_product_id = ''ix_productimage_product_id''"
definition n_ix_productimage_public_id :: name where "n_ix_productimage_public_id = ''ix_productimage_public_id''"
definition n_ix_rolepermission_permission_id :: name where "n_ix_rolepermission_permission_id = ''ix_rolepermission_permission_id''"
definition n_ix_rolepermission_role_id :: name where "n_ix_rolepermission_role_id = ''ix_rolepermission_role_id''"
definition n_ix_user_public_id :: name where "n_ix_user_public_id = ''ix_user_public_id''"
definition n_ix_userphone_user_id :: name where "n_ix_userphone_user_id = ''ix_userphone_user_id''"
definition n_ix_userrole_role_id :: name where "n_ix_userrole_role_id = ''ix_userrole_role_id''"
definition n_ix_userrole_user_id :: name where "n_ix_userrole_user_id = ''ix_userrole_user_id''"
definition n_ix_users_public_id :: name where "n_ix_users_public_id = ''ix_users_public_id''"
definition n_key :: name where "n_key = ''key''"
definition n_last_activity_at :: name where "n_last_activity_at = ''last_activity_at''"
definition n_last_error :: name where "n_last_error = ''last_error''"
definition n_last_seen_ip :: name where "n_last_seen_ip = ''last_seen_ip''"
definition n_line1 :: name where "n_line1 = ''line1''"
definition n_line2 :: name where "n_line2 = ''line2''"
definition n_meta :: name where "n_meta = ''meta''"
definition n_mime_type :: name where "n_mime_type = ''mime_type''"
definition n_name :: name where "n_name = ''name''"
definition n_new_roles :: name where "n_new_roles = ''new_roles''"
definition n_next_retry_at :: name where "n_next_retry_at = ''next_retry_at''"
definition n_old_roles :: name where "n_old_roles = ''old_roles''"
definition n_order :: name where "n_order = ''order''"
definition n_order_id :: name where "n_order_id = ''order_id''"
definition n_order_pkey :: name where "n_order_pkey = ''order_pkey''"
definition n_order_provider_order_id_key :: name where "n_order_provider_order_id_key = ''order_provider_order_id_key''"
definition n_order_session_id_fkey :: name where "n_order_session_id_fkey = ''order_session_id_fkey''"
definition n_order_user_id_fkey :: name where "n_order_user_id_fkey = ''order_user_id_fkey''"
definition n_orderitem :: name where "n_orderitem = ''orderitem''"
definition n_orderitem_order_id_fkey :: name where "n_orderitem_order_id_fkey = ''orderitem_order_id_fkey''"
definition n_orderitem_pkey :: name where "n_orderitem_pkey = ''orderitem_pkey''"
definition n_orderitem_product_id_fkey :: name where "n_orderitem_product_id_fkey = ''orderitem_product_id_fkey''"
definition n_orders :: name where "n_orders = ''orders''"
definition n_orders_pkey :: name where "n_orders_pkey = ''orders_pkey''"
definition n_orders_provider_order_id_key :: name where "n_orders_provider_order_id_key = ''orders_provider_order_id_key''"
definition n_orders_session_id_fkey :: name where "n_orders_session_id_fkey = ''orders_session_id_fkey''"
definition n_orders_user_id_fkey :: name where "n_orders_user_id_fkey = ''orders_user_id_fkey''"
definition n_orig_filename :: name where "n_orig_filename = ''orig_filename''"
definition n_outboxevent :: name where "n_outboxevent = ''outboxevent''"
definition n_outboxevent_pkey :: name where "n_outboxevent_pkey = ''outboxevent_pkey''"
definition n_owner_id :: name where "n_owner_id = ''owner_id''"
definition n_owner_type :: name where "n_owner_type = ''owner_type''"
definition n_paid_at :: name where "n_paid_at = ''paid_at''"
definition n_password_hash :: name where "n_password_hash = ''password_hash''"
definition n_pay_metadata :: name where "n_pay_metadata = ''pay_metadata''"
definition n_payload :: name where "n_payload = ''payload''"
definition n_payment :: name where "n_payment = ''payment''"
definition n_payment_id :: name where "n_payment_id = ''payment_id''"
definition n_payment_method :: name where "n_payment_method = ''payment_method''"
definition n_payment_order_id_fkey :: name where "n_payment_order_id_fkey = ''payment_order_id_fkey''"
definition n_payment_order_id_key :: name where "n_payment_order_id_key = ''payment_order_id_key''"
definition n_payment_pkey :: name where "n_payment_pkey = ''payment_pkey''"
definition n_payment_provider_order_id_key :: name where "n_payment_provider_order_id_key = ''payment_provider_order_id_key''"
definition n_payment_provider_payment_id_key :: name where "n_payment_provider_payment_id_key = ''payment_provider_payment_id_key''"
definition n_paymentattempt :: name where "n_paymentattempt = ''paymentattempt''"
definition n_paymentattempt_payment_id_fkey :: name where "n_paymentattempt_payment_id_fkey = ''paymentattempt_payment_id_fkey''"
definition n_paymentattempt_pkey :: name where "n_paymentattempt_pkey = ''paymentattempt_pkey''"
definition n_paymentwebhookevent :: name where "n_paymentwebhookevent = ''paymentwebhookevent''"
definition n_paymentwebhookevent_pkey :: name where "n_paymentwebhookevent_pkey = ''paymentwebhookevent_pkey''"
definition n_permission :: name where "n_permission = ''permission''"
definition n_permission_id :: name where "n_permission_id = ''permission_id''"
definition n_permission_name_key :: name where "n_permission_name_key = ''permission_name_key''"
definition n_permission_pkey :: name where "n_permission_pkey = ''permission_pkey''"
definition n_phone :: name where "n_phone = ''phone''"
definition n_placed_at :: name where "n_placed_at = ''placed_at''"
definition n_postal_code :: name where "n_postal_code = ''postal_code''"
definition n_processed :: name where "n_processed = ''processed''"
definition n_processed_at :: name where "n_processed_at = ''processed_at''"
definition n_prod_category_id :: name where "n_prod_category_id = ''prod_category_id''"
definition n_product :: name where "n_product = ''product''"
definition n_product_id :: name where "n_product_id = ''product_id''"
definition n_product_name_key :: name where "n_product_name_key = ''product_name_key''"
definition n_product_owner_id_fkey :: name where "n_product_owner_id_fkey = ''product_owner_id_fkey''"
definition n_product_pkey :: name where "n_product_pkey = ''product_pkey''"
definition n_productcategory :: name where "n_productcategory = ''productcategory''"
definition n_productcategory_name_key :: name where "n_productcategory_name_key = ''productcategory_name_key''"
definition n_productcategory_pkey :: name where "n_productcategory_pkey = ''productcategory_pkey''"
definition n_productcategorylink :: name where "n_productcategorylink = ''productcategorylink''"
definition n_productcategorylink_pkey :: name where "n_productcategorylink_pkey = ''productcategorylink_pkey''"
definition n_productcategorylink_prod_category_id_fkey :: name where "n_productcategorylink_prod_category_id_fkey = ''productcategorylink_prod_category_id_fkey''"
definition n_productcategorylink_product_id_fkey :: name where "n_productcategorylink_product_id_fkey = ''productcategorylink_product_id_fkey''"
definition n_productimage :: name where "n_productimage = ''productimage''"
definition n_productimage_checksum_key :: name where "n_productimage_checksum_key = ''productimage_checksum_key''"
definition n_productimage_content_id_fkey :: name where "n_productimage_content_id_fkey = ''productimage_content_id_fkey''"
definition n_productimage_pkey :: name where "n_productimage_pkey = ''productimage_pkey''"
definition n_productimage_product_id_fkey :: name where "n_productimage_product_id_fkey = ''productimage_product_id_fkey''"
definition n_productimage_storage_key_key :: name where "n_productimage_storage_key_key = ''productimage_storage_key_key''"
definition n_profile_image_thumb_url :: name where "n_profile_image_thumb_url = ''profile_image_thumb_url''"
definition n_profile_image_url :: name where "n_profile_image_url = ''profile_image_url''"
definition n_provider :: name where "n_provider = ''provider''"
definition n_provider_email :: name where "n_provider_email = ''provider_email''"
definition n_provider_event_id :: name where "n_provider_event_id = ''provider_event_id''"
definition n_provider_order_id :: name where "n_provider_order_id = ''provider_order_id''"
definition n_provider_payment_id :: name where "n_provider_payment_id = ''provider_payment_id''"
definition n_provider_public_id :: name where "n_provider_public_id = ''provider_public_id''"
definition n_provider_response :: name where "n_provider_response = ''provider_response''"
definition n_provider_user_id :: name where "n_provider_user_id = ''provider_user_id''"
definition n_providerwebhookevent :: name where "n_providerwebhookevent = ''providerwebhookevent''"
definition n_providerwebhookevent_pkey :: name where "n_providerwebhookevent_pkey = ''providerwebhookevent_pkey''"
definition n_public_id :: name where "n_public_id = ''public_id''"
definition n_quantity :: name where "n_quantity = ''quantity''"
definition n_reason :: name where "n_reason = ''reason''"
definition n_received_at :: name where "n_received_at = ''received_at''"
definition n_request_hash :: name where "n_request_hash = ''request_hash''"
definition n_reserved_until :: name where "n_reserved_until = ''reserved_until''"
definition n_response_body :: name where "n_response_body = ''response_body''"
definition n_response_code :: name where "n_response_code = ''response_code''"
definition n_revoked_at :: name where "n_revoked_at = ''revoked_at''"
definition n_revoked_by :: name where "n_revoked_by = ''revoked_by''"
definition n_revoked_reason :: name where "n_revoked_reason = ''revoked_reason''"
definition n_role :: name where "n_role = ''role''"
definition n_role_id :: name where "n_role_id = ''role_id''"
definition n_role_name_key :: name where "n_role_name_key = ''role_name_key''"
definition n_role_pkey :: name where "n_role_pkey = ''role_pkey''"
definition n_role_version :: name where "n_role_version = ''role_version''"
definition n_roleaudit :: name where "n_roleaudit = ''roleaudit''"
definition n_roleaudit_actor_user_id_fkey :: name where "n_roleaudit_actor_user_id_fkey = ''roleaudit_actor_user_id_fkey''"
definition n_roleaudit_pkey :: name where "n_roleaudit_pkey = ''roleaudit_pkey''"
definition n_roleaudit_target_user_id_fkey :: name where "n_roleaudit_target_user_id_fkey = ''roleaudit_target_user_id_fkey''"
definition n_rolepermission :: name where "n_rolepermission = ''rolepermission''"
definition n_rolepermission_permission_id_fkey :: name where "n_rolepermission_permission_id_fkey = ''rolepermission_permission_id_fkey''"
definition n_rolepermission_pkey :: name where "n_rolepermission_pkey = ''rolepermission_pkey''"
definition n_rolepermission_role_id_fkey :: name where "n_rolepermission_role_id_fkey = ''rolepermission_role_id_fkey''"
definition n_selected_payment_method :: name where "n_selected_payment_method = ''selected_payment_method''"
definition n_sent_at :: name where "n_sent_at = ''sent_at''"
definition n_session_expires_at :: name where "n_session_expires_at = ''session_expires_at''"
definition n_session_id :: name where "n_session_id = ''session_id''"
definition n_session_token_hash :: name where "n_session_token_hash = ''session_token_hash''"
definition n_shipping :: name where "n_shipping = ''shipping''"
definition n_shipping_address_json :: name where "n_shipping_address_json = ''shipping_address_json''"
definition n_sku :: name where "n_sku = ''sku''"
definition n_sort_order :: name where "n_sort_order = ''sort_order''"
definition n_specs :: name where "n_specs = ''specs''"
definition n_state :: name where "n_state = ''state''"
definition n_status :: name where "n_status = ''status''"
definition n_stock_qty :: name where "n_stock_qty = ''stock_qty''"
definition n_storage_key :: name where "n_storage_key = ''storage_key''"
definition n_storage_provider :: name where "n_storage_provider = ''storage_provider''"
definition n_subtotal :: name where "n_subtotal = ''subtotal''"
definition n_target_user_id :: name where "n_target_user_id = ''target_user_id''"
definition n_tax :: name where "n_tax = ''tax''"
definition n_tax_snapshot :: name where "n_tax_snapshot = ''tax_snapshot''"
definition n_token_hash :: name where "n_token_hash = ''token_hash''"
definition n_topic :: name where "n_topic = ''topic''"
definition n_total :: name where "n_total = ''total''"
definition n_true :: name where "n_true = ''true''"
definition n_type :: name where "n_type = ''type''"
definition n_unit_price_snapshot :: name where "n_unit_price_snapshot = ''unit_price_snapshot''"
definition n_updated_at :: name where "n_updated_at = ''updated_at''"
definition n_uploadswebhookevent :: name where "n_uploadswebhookevent = ''uploadswebhookevent''"
definition n_uploadswebhookevent_pkey :: name where "n_uploadswebhookevent_pkey = ''uploadswebhookevent_pkey''"
definition n_uploadswebhookevent_provider_event_id_key :: name where "n_uploadswebhookevent_provider_event_id_key = ''uploadswebhookevent_provider_event_id_key''"
definition n_uq_cart_product :: name where "n_uq_cart_product = ''uq_cart_product''"
definition n_uq_cart_session_id :: name where "n_uq_cart_session_id = ''uq_cart_session_id''"
definition n_uq_cart_user_id :: name where "n_uq_cart_user_id = ''uq_cart_user_id''"
definition n_uq_checkout_active_cart :: name where "n_uq_checkout_active_cart = ''uq_checkout_active_cart''"
definition n_uq_checkout_product :: name where "n_uq_checkout_product = ''uq_checkout_product''"
definition n_uq_commitintent_aggid_type_reason :: name where "n_uq_commitintent_aggid_type_reason = ''uq_commitintent_aggid_type_reason''"
definition n_uq_commitintent_reason_agtype_agid :: name where "n_uq_commitintent_reason_agtype_agid = ''uq_commitintent_reason_agtype_agid''"
definition n_uq_credential_provider_userid :: name where "n_uq_credential_provider_userid = ''uq_credential_provider_userid''"
definition n_uq_credential_user_provider :: name where "n_uq_credential_user_provider = ''uq_credential_user_provider''"
definition n_uq_credential_user_type_provider :: name where "n_uq_credential_user_type_provider = ''uq_credential_user_type_provider''"
definition n_uq_order_product :: name where "n_uq_order_product = ''uq_order_product''"
definition n_uq_outbox_key_topic :: name where "n_uq_outbox_key_topic = ''uq_outbox_key_topic''"
definition n_uq_outboxevent_aggid_type_topic :: name where "n_uq_outboxevent_aggid_type_topic = ''uq_outboxevent_aggid_type_topic''"
definition n_uq_outboxevent_topic_agtype_agid :: name where "n_uq_outboxevent_topic_agtype_agid = ''uq_outboxevent_topic_agtype_agid''"
definition n_uq_product_category :: name where "n_uq_product_category = ''uq_product_category''"
definition n_uq_product_checkout :: name where "n_uq_product_checkout = ''uq_product_checkout''"
definition n_uq_product_image_content_id :: name where "n_uq_product_image_content_id = ''uq_product_image_content_id''"
definition n_uq_product_name_owner_id :: name where "n_uq_product_name_owner_id = ''uq_product_name_owner_id''"
definition n_uq_provider_event :: name where "n_uq_provider_event = ''uq_provider_event''"
definition n_uq_provider_providerorder :: name where "n_uq_provider_providerorder = ''uq_provider_providerorder''"
definition n_uq_provider_providerpayment :: name where "n_uq_provider_providerpayment = ''uq_provider_providerpayment''"
definition n_uq_providerwebhookevent_provider_event_id :: name where "n_uq_providerwebhookevent_provider_event_id = ''uq_providerwebhookevent_provider_event_id''"
definition n_uq_role_permission_role_id_permission_id :: name where "n_uq_role_permission_role_id_permission_id = ''uq_role_permission_role_id_permission_id''"
definition n_uq_user_role_user_id_role_id :: name where "n_uq_user_role_user_id_role_id = ''uq_user_role_user_id_role_id''"
definition n_url :: name where "n_url = ''url''"
definition n_user :: name where "n_user = ''user''"
definition n_user_agent_snippet :: name where "n_user_agent_snippet = ''user_agent_snippet''"
definition n_user_email_key :: name where "n_user_email_key = ''user_email_key''"
definition n_user_id :: name where "n_user_id = ''user_id''"
definition n_user_pkey :: name where "n_user_pkey = ''user_pkey''"
definition n_usermedia :: name where "n_usermedia = ''usermedia''"
definition n_usermedia_pkey :: name where "n_usermedia_pkey = ''usermedia_pkey''"
definition n_usermedia_user_id_fkey :: name where "n_usermedia_user_id_fkey = ''usermedia_user_id_fkey''"
definition n_usermedia_user_id_key :: name where "n_usermedia_user_id_key = ''usermedia_user_id_key''"
definition n_userphone :: name where "n_userphone = ''userphone''"
definition n_userphone_phone_key :: name where "n_userphone_phone_key = ''userphone_phone_key''"
definition n_userphone_pkey :: name where "n_userphone_pkey = ''userphone_pkey''"
definition n_userphone_user_id_fkey :: name where "n_userphone_user_id_fkey = ''userphone_user_id_fkey''"
definition n_userrole :: name where "n_userrole = ''userrole''"
definition n_userrole_pkey :: name where "n_userrole_pkey = ''userrole_pkey''"
definition n_userrole_role_id_fkey :: name where "n_userrole_role_id_fkey = ''userrole_role_id_fkey''"
definition n_userrole_user_id_fkey :: name where "n_userrole_user_id_fkey = ''userrole_user_id_fkey''"
definition n_users :: name where "n_users = ''users''"
definition n_users_email_key :: name where "n_users_email_key = ''users_email_key''"
definition n_variants :: name where "n_variants = ''variants''"
definition n_verified_at :: name where "n_verified_at = ''verified_at''"

section \<open>Predicates\<close>

definition p_revoked_at_is_null :: name where "p_revoked_at_is_null = ''revoked_at IS NULL''"
definition p_deleted_at_is_null :: name where "p_deleted_at_is_null = ''deleted_at IS NULL''"
definition p_deleted_at_is_null_paren :: name where "p_deleted_at_is_null_paren = ''(deleted_at IS NULL)''"
definition p_status_0 :: name where "p_status_0 = ''status = 0''"
definition p_is_active_true :: name where "p_is_active_true = ''is_active = true''"
definition p_session_id_is_not_null :: name where "p_session_id_is_not_null = ''session_id IS NOT NULL''"
definition p_user_id_is_not_null :: name where "p_user_id_is_not_null = ''user_id IS NOT NULL''"
definition p_revoked_at_is_null_paren :: name where "p_revoked_at_is_null_paren = ''(revoked_at IS NULL)''"
definition p_provider_event_id_is_not_null :: name where "p_provider_event_id_is_not_null = ''provider_event_id IS NOT NULL''"
definition p_content_id_is_not_null :: name where "p_content_id_is_not_null = ''content_id IS NOT NULL''"

section \<open>Hashes\<close>

lemma code_32: "of_char (CHR '' '') = ((32)::nat)" by simp
lemma code_40: "of_char (CHR ''('') = ((40)::nat)" by simp
lemma code_41: "of_char (CHR '')'') = ((41)::nat)" by simp
lemma code_48: "of_char (CHR ''0'') = ((48)::nat)" by simp
lemma code_49: "of_char (CHR ''1'') = ((49)::nat)" by simp
lemma code_50: "of_char (CHR ''2'') = ((50)::nat)" by simp
lemma code_61: "of_char (CHR ''='') = ((61)::nat)" by simp
lemma code_73: "of_char (CHR ''I'') = ((73)::nat)" by simp
lemma code_76: "of_char (CHR ''L'') = ((76)::nat)" by simp
lemma code_78: "of_char (CHR ''N'') = ((78)::nat)" by simp
lemma code_79: "of_char (CHR ''O'') = ((79)::nat)" by simp
lemma code_83: "of_char (CHR ''S'') = ((83)::nat)" by simp
lemma code_84: "of_char (CHR ''T'') = ((84)::nat)" by simp
lemma code_85: "of_char (CHR ''U'') = ((85)::nat)" by simp
lemma code_95: "of_char (CHR ''_'') = ((95)::nat)" by simp
lemma code_97: "of_char (CHR ''a'') = ((97)::nat)" by simp
lemma code_98: "of_char (CHR ''b'') = ((98)::nat)" by simp
lemma code_99: "of_char (CHR ''c'') = ((99)::nat)" by simp
lemma code_100: "of_char (CHR ''d'') = ((100)::nat)" by simp
lemma code_101: "of_char (CHR ''e'') = ((101)::nat)" by simp
lemma code_102: "of_char (CHR ''f'') = ((102)::nat)" by simp
lemma code_103: "of_char (CHR ''g'') = ((103)::nat)" by simp
lemma code_104: "of_char (CHR ''h'') = ((104)::nat)" by simp
lemma code_105: "of_char (CHR ''i'') = ((105)::nat)" by simp
lemma code_106: "of_char (CHR ''j'') = ((106)::nat)" by simp
lemma code_107: "of_char (CHR ''k'') = ((107)::nat)" by simp
lemma code_108: "of_char (CHR ''l'') = ((108)::nat)" by simp
lemma code_109: "of_char (CHR ''m'') = ((109)::nat)" by simp
lemma code_110: "of_char (CHR ''n'') = ((110)::nat)" by simp
lemma code_111: "of_char (CHR ''o'') = ((111)::nat)" by simp
lemma code_112: "of_char (CHR ''p'') = ((112)::nat)" by simp
lemma code_113: "of_char (CHR ''q'') = ((113)::nat)" by simp
lemma code_114: "of_char (CHR ''r'') = ((114)::nat)" by simp
lemma code_115: "of_char (CHR ''s'') = ((115)::nat)" by simp
lemma code_116: "of_char (CHR ''t'') = ((116)::nat)" by simp
lemma code_117: "of_char (CHR ''u'') = ((117)::nat)" by simp
lemma code_118: "of_char (CHR ''v'') = ((118)::nat)" by simp
lemma code_119: "of_char (CHR ''w'') = ((119)::nat)" by simp
lemma code_120: "of_char (CHR ''x'') = ((120)::nat)" by simp
lemma code_121: "of_char (CHR ''y'') = ((121)::nat)" by simp
lemma code_122: "of_char (CHR ''z'') = ((122)::nat)" by simp

lemmas char_codes =
  code_32 code_40 code_41 code_48 code_49 code_50 code_61 code_73 code_76 code_78
  code_79 code_83 code_84 code_85 code_95 code_97 code_98 code_99 code_100 code_101
  code_102 code_103 code_104 code_105 code_106 code_107 code_108 code_109 code_110 code_111
  code_112 code_113 code_114 code_115 code_116 code_117 code_118 code_119 code_120 code_121
  code_122

lemma h_0 [name_hash]: "text_hash n_0 = 76" by (simp add: text_hash_def char_codes n_0_def del: of_char_Char)
lemma h_IS [name_hash]: "text_hash n_IS = 487" by (simp add: text_hash_def char_codes n_IS_def del: of_char_Char)
lemma h_NOT [name_hash]: "text_hash n_NOT = 2096" by (simp add: text_hash_def char_codes n_NOT_def del: of_char_Char)
lemma h_NULL [name_hash]: "text_hash n_NULL = 8524" by (simp add: text_hash_def char_codes n_NULL_def del: of_char_Char)
lemma h_actor_user_id [name_hash]: "text_hash n_actor_user_id = 2672780664" by (simp add: text_hash_def char_codes n_actor_user_id_def del: of_char_Char)
lemma h_address [name_hash]: "text_hash n_address = 649487" by (simp add: text_hash_def char_codes n_address_def del: of_char_Char)
lemma h_address_pkey [name_hash]: "text_hash n_address_pkey = 665108413" by (simp add: text_hash_def char_codes n_address_pkey_def del: of_char_Char)
lemma h_address_user_id_fkey [name_hash]: "text_hash n_address_user_id_fkey = 43588575977789" by (simp add: text_hash_def char_codes n_address_user_id_fkey_def del: of_char_Char)
lemma h_aggregate_id [name_hash]: "text_hash n_aggregate_id = 668977464" by (simp add: text_hash_def char_codes n_aggregate_id_def del: of_char_Char)
lemma h_aggregate_type [name_hash]: "text_hash n_aggregate_type = 10703641013" by (simp add: text_hash_def char_codes n_aggregate_type_def del: of_char_Char)
lemma h_alt_text [name_hash]: "text_hash n_alt_text = 2643108" by (simp add: text_hash_def char_codes n_alt_text_def del: of_char_Char)
lemma h_amount [name_hash]: "text_hash n_amount = 165436" by (simp add: text_hash_def char_codes n_amount_def del: of_char_Char)
lemma h_attempt_no [name_hash]: "text_hash n_attempt_no = 42834199" by (simp add: text_hash_def char_codes n_attempt_no_def del: of_char_Char)
lemma h_attempts [name_hash]: "text_hash n_attempts = 2677123" by (simp add: text_hash_def char_codes n_attempts_def del: of_char_Char)
lemma h_auth_method [name_hash]: "text_hash n_auth_method = 171585184" by (simp add: text_hash_def char_codes n_auth_method_def del: of_char_Char)
lemma h_base_price [name_hash]: "text_hash n_base_price = 41820417" by (simp add: text_hash_def char_codes n_base_price_def del: of_char_Char)
lemma h_billing_address_json [name_hash]: "text_hash n_billing_address_json = 44320768179930" by (simp add: text_hash_def char_codes n_billing_address_json_def del: of_char_Char)
lemma h_bucket [name_hash]: "text_hash n_bucket = 167544" by (simp add: text_hash_def char_codes n_bucket_def del: of_char_Char)
lemma h_cart [name_hash]: "text_hash n_cart = 10252" by (simp add: text_hash_def char_codes n_cart_def del: of_char_Char)
lemma h_cart_id [name_hash]: "text_hash n_cart_id = 658168" by (simp add: text_hash_def char_codes n_cart_id_def del: of_char_Char)
lemma h_cart_pkey [name_hash]: "text_hash n_cart_pkey = 10531773" by (simp add: text_hash_def char_codes n_cart_pkey_def del: of_char_Char)
lemma h_cart_session_id_fkey [name_hash]: "text_hash n_cart_session_id_fkey = 44174218518845" by (simp add: text_hash_def char_codes n_cart_session_id_fkey_def del: of_char_Char)
lemma h_cart_session_id_key [name_hash]: "text_hash n_cart_session_id_key = 11043554629757" by (simp add: text_hash_def char_codes n_cart_session_id_key_def del: of_char_Char)
lemma h_cart_snapshot [name_hash]: "text_hash n_cart_snapshot = 2696198512" by (simp add: text_hash_def char_codes n_cart_snapshot_def del: of_char_Char)
lemma h_cart_user_id_fkey [name_hash]: "text_hash n_cart_user_id_fkey = 690241298749" by (simp add: text_hash_def char_codes n_cart_user_id_fkey_def del: of_char_Char)
lemma h_cartitem [name_hash]: "text_hash n_cartitem = 2633601" by (simp add: text_hash_def char_codes n_cartitem_def del: of_char_Char)
lemma h_cartitem_cart_id_fkey [name_hash]: "text_hash n_cartitem_cart_id_fkey = 176740121731389" by (simp add: text_hash_def char_codes n_cartitem_cart_id_fkey_def del: of_char_Char)
lemma h_cartitem_pkey [name_hash]: "text_hash n_cartitem_pkey = 2696841149" by (simp add: text_hash_def char_codes n_cartitem_pkey_def del: of_char_Char)
lemma h_cartitem_product_id_fkey [name_hash]: "text_hash n_cartitem_product_id_fkey = 11311372326428989" by (simp add: text_hash_def char_codes n_cartitem_product_id_fkey_def del: of_char_Char)
lemma h_checkout_id [name_hash]: "text_hash n_checkout_id = 169264632" by (simp add: text_hash_def char_codes n_checkout_id_def del: of_char_Char)
lemma h_checkout_session_id [name_hash]: "text_hash n_checkout_session_id = 11092932109944" by (simp add: text_hash_def char_codes n_checkout_session_id_def del: of_char_Char)
lemma h_checkoutsession [name_hash]: "text_hash n_checkoutsession = 43331837050" by (simp add: text_hash_def char_codes n_checkoutsession_def del: of_char_Char)
lemma h_checkoutsession_pkey [name_hash]: "text_hash n_checkoutsession_pkey = 44371801172925" by (simp add: text_hash_def char_codes n_checkoutsession_pkey_def del: of_char_Char)
lemma h_checksum [name_hash]: "text_hash n_checksum = 2644785" by (simp add: text_hash_def char_codes n_checksum_def del: of_char_Char)
lemma h_city [name_hash]: "text_hash n_city = 10393" by (simp add: text_hash_def char_codes n_city_def del: of_char_Char)
lemma h_commitintent [name_hash]: "text_hash n_commitintent = 687126396" by (simp add: text_hash_def char_codes n_commitintent_def del: of_char_Char)
lemma h_commitintent_pkey [name_hash]: "text_hash n_commitintent_pkey = 703617463229" by (simp add: text_hash_def char_codes n_commitintent_pkey_def del: of_char_Char)
lemma h_content_id [name_hash]: "text_hash n_content_id = 42985208" by (simp add: text_hash_def char_codes n_content_id_def del: of_char_Char)
lemma h_country [name_hash]: "text_hash n_country = 673281" by (simp add: text_hash_def char_codes n_country_def del: of_char_Char)
lemma h_created_at [name_hash]: "text_hash n_created_at = 42968552" by (simp add: text_hash_def char_codes n_created_at_def del: of_char_Char)
lemma h_created_by [name_hash]: "text_hash n_created_by = 42968561" by (simp add: text_hash_def char_codes n_created_by_def del: of_char_Char)
lemma h_credential [name_hash]: "text_hash n_credential = 42968960" by (simp add: text_hash_def char_codes n_credential_def del: of_char_Char)
lemma h_credential_password_hash_key [name_hash]: "text_hash n_credential_password_hash_key = 2952806705570866301" by (simp add: text_hash_def char_codes n_credential_password_hash_key_def del: of_char_Char)
lemma h_credential_pkey [name_hash]: "text_hash n_credential_pkey = 44000248765" by (simp add: text_hash_def char_codes n_credential_pkey_def del: of_char_Char)
lemma h_credential_provider_user_id_key [name_hash]: "text_hash n_credential_provider_user_id_key = 188979630250326857853" by (simp add: text_hash_def char_codes n_credential_provider_user_id_key_def del: of_char_Char)
lemma h_credential_user_id_fkey [name_hash]: "text_hash n_credential_user_id_fkey = 2883600334086461" by (simp add: text_hash_def char_codes n_credential_user_id_fkey_def del: of_char_Char)
lemma h_cs_id [name_hash]: "text_hash n_cs_id = 41912" by (simp add: text_hash_def char_codes n_cs_id_def del: of_char_Char)
lemma h_currency [name_hash]: "text_hash n_currency = 2714661" by (simp add: text_hash_def char_codes n_currency_def del: of_char_Char)
lemma h_dedupe_key [name_hash]: "text_hash n_dedupe_key = 42440061" by (simp add: text_hash_def char_codes n_dedupe_key_def del: of_char_Char)
lemma h_deleted_at [name_hash]: "text_hash n_deleted_at = 42509800" by (simp add: text_hash_def char_codes n_deleted_at_def del: of_char_Char)
lemma h_delievered_at [name_hash]: "text_hash n_delievered_at = 2720996840" by (simp add: text_hash_def char_codes n_delievered_at_def del: of_char_Char)
lemma h_description [name_hash]: "text_hash n_description = 170465722" by (simp add: text_hash_def char_codes n_description_def del: of_char_Char)
lemma h_device_fingerprint_hash [name_hash]: "text_hash n_device_fingerprint_hash = 2863700880224580" by (simp add: text_hash_def char_codes n_device_fingerprint_hash_def del: of_char_Char)
lemma h_device_name [name_hash]: "text_hash n_device_name = 170690217" by (simp add: text_hash_def char_codes n_device_name_def del: of_char_Char)
lemma h_device_session_id [name_hash]: "text_hash n_device_session_id = 699149002360" by (simp add: text_hash_def char_codes n_device_session_id_def del: of_char_Char)
lemma h_device_type [name_hash]: "text_hash n_device_type = 170690997" by (simp add: text_hash_def char_codes n_device_type_def del: of_char_Char)
lemma h_deviceauthtoken [name_hash]: "text_hash n_deviceauthtoken = 43697027186" by (simp add: text_hash_def char_codes n_deviceauthtoken_def del: of_char_Char)
lemma h_deviceauthtoken_device_session_id_fkey [name_hash]: "text_hash n_deviceauthtoken_device_session_id_fkey = 3074904929640103972331837" by (simp add: text_hash_def char_codes n_deviceauthtoken_device_session_id_fkey_def del: of_char_Char)
lemma h_deviceauthtoken_pkey [name_hash]: "text_hash n_deviceauthtoken_pkey = 44745755872189" by (simp add: text_hash_def char_codes n_deviceauthtoken_pkey_def del: of_char_Char)
lemma h_deviceauthtoken_user_id_fkey [name_hash]: "text_hash n_deviceauthtoken_user_id_fkey = 2932457856870801725" by (simp add: text_hash_def char_codes n_deviceauthtoken_user_id_fkey_def del: of_char_Char)
lemma h_devicesession [name_hash]: "text_hash n_devicesession = 2731121786" by (simp add: text_hash_def char_codes n_devicesession_def del: of_char_Char)
lemma h_devicesession_pkey [name_hash]: "text_hash n_devicesession_pkey = 2796668742589" by (simp add: text_hash_def char_codes n_devicesession_pkey_def del: of_char_Char)
lemma h_devicesession_user_id_fkey [name_hash]: "text_hash n_devicesession_user_id_fkey = 183282482745336125" by (simp add: text_hash_def char_codes n_devicesession_user_id_fkey_def del: of_char_Char)
lemma h_discount [name_hash]: "text_hash n_discount = 2679868" by (simp add: text_hash_def char_codes n_discount_def del: of_char_Char)
lemma h_discount_snapshot [name_hash]: "text_hash n_discount_snapshot = 702520015216" by (simp add: text_hash_def char_codes n_discount_snapshot_def del: of_char_Char)
lemma h_email [name_hash]: "text_hash n_email = 42080" by (simp add: text_hash_def char_codes n_email_def del: of_char_Char)
lemma h_expires_at [name_hash]: "text_hash n_expires_at = 44097960" by (simp add: text_hash_def char_codes n_expires_at_def del: of_char_Char)
lemma h_file_size [name_hash]: "text_hash n_file_size = 10819741" by (simp add: text_hash_def char_codes n_file_size_def del: of_char_Char)
lemma h_fk_idempotencykey_cs_id [name_hash]: "text_hash n_fk_idempotencykey_cs_id = 2900126353970104" by (simp add: text_hash_def char_codes n_fk_idempotencykey_cs_id_def del: of_char_Char)
lemma h_id [name_hash]: "text_hash n_id = 632" by (simp add: text_hash_def char_codes n_id_def del: of_char_Char)
lemma h_idempotencykey [name_hash]: "text_hash n_idempotencykey = 11180216829" by (simp add: text_hash_def char_codes n_idempotencykey_def del: of_char_Char)
lemma h_idempotencykey_pkey [name_hash]: "text_hash n_idempotencykey_pkey = 11448542066621" by (simp add: text_hash_def char_codes n_idempotencykey_pkey_def del: of_char_Char)
lemma h_idx_deviceauthtoken_tokenhash_active [name_hash]: "text_hash n_idx_deviceauthtoken_tokenhash_active = 197761935918575035940045" by (simp add: text_hash_def char_codes n_idx_deviceauthtoken_tokenhash_active_def del: of_char_Char)
lemma h_idx_users_email_active [name_hash]: "text_hash n_idx_users_email_active = 737057947253965" by (simp add: text_hash_def char_codes n_idx_users_email_active_def del: of_char_Char)
lemma h_ik_id [name_hash]: "text_hash n_ik_id = 42936" by (simp add: text_hash_def char_codes n_ik_id_def del: of_char_Char)
lemma h_imagecontent [name_hash]: "text_hash n_imagecontent = 706527100" by (simp add: text_hash_def char_codes n_imagecontent_def del: of_char_Char)
lemma h_imagecontent_checksum_key [name_hash]: "text_hash n_imagecontent_checksum_key = 47414233219682685" by (simp add: text_hash_def char_codes n_imagecontent_checksum_key_def del: of_char_Char)
lemma h_imagecontent_owner_id_fkey [name_hash]: "text_hash n_imagecontent_owner_id_fkey = 189656933153005885" by (simp add: text_hash_def char_codes n_imagecontent_owner_id_fkey_def del: of_char_Char)
lemma h_imagecontent_pkey [name_hash]: "text_hash n_imagecontent_pkey = 723483784125" by (simp add: text_hash_def char_codes n_imagecontent_pkey_def del: of_char_Char)
lemma h_inventoryreservation [name_hash]: "text_hash n_inventoryreservation = 46738195463866" by (simp add: text_hash_def char_codes n_inventoryreservation_def del: of_char_Char)
lemma h_inventoryreservation_pkey [name_hash]: "text_hash n_inventoryreservation_pkey = 47859912155032509" by (simp add: text_hash_def char_codes n_inventoryreservation_pkey_def del: of_char_Char)
lemma h_ip_first_seen [name_hash]: "text_hash n_ip_first_seen = 2836857874" by (simp add: text_hash_def char_codes n_ip_first_seen_def del: of_char_Char)
lemma h_is_active [name_hash]: "text_hash n_is_active = 11123917" by (simp add: text_hash_def char_codes n_is_active_def del: of_char_Char)
lemma h_is_admin [name_hash]: "text_hash n_is_admin = 2780898" by (simp add: text_hash_def char_codes n_is_admin_def del: of_char_Char)
lemma h_is_default [name_hash]: "text_hash n_is_default = 44506036" by (simp add: text_hash_def char_codes n_is_default_def del: of_char_Char)
lemma h_is_primary [name_hash]: "text_hash n_is_primary = 44569745" by (simp add: text_hash_def char_codes n_is_primary_def del: of_char_Char)
lemma h_issued_at [name_hash]: "text_hash n_issued_at = 11225576" by (simp add: text_hash_def char_codes n_issued_at_def del: of_char_Char)
lemma h_ix_address_user_id [name_hash]: "text_hash n_ix_address_user_id = 2937374926200" by (simp add: text_hash_def char_codes n_ix_address_user_id_def del: of_char_Char)
lemma h_ix_cart_session_id [name_hash]: "text_hash n_ix_cart_session_id = 2937946842744" by (simp add: text_hash_def char_codes n_ix_cart_session_id_def del: of_char_Char)
lemma h_ix_cart_user_id [name_hash]: "text_hash n_ix_cart_user_id = 45905438072" by (simp add: text_hash_def char_codes n_ix_cart_user_id_def del: of_char_Char)
lemma h_ix_checkoutsession_expires_at [name_hash]: "text_hash n_ix_checkoutsession_expires_at = 12323451492993393064" by (simp add: text_hash_def char_codes n_ix_checkoutsession_expires_at_def del: of_char_Char)
lemma h_ix_checkoutsession_public_id [name_hash]: "text_hash n_ix_checkoutsession_public_id = 3080862873248963000" by (simp add: text_hash_def char_codes n_ix_checkoutsession_public_id_def del: of_char_Char)
lemma h_ix_checkoutsession_session_id [name_hash]: "text_hash n_ix_checkoutsession_session_id = 12323451492995901048" by (simp add: text_hash_def char_codes n_ix_checkoutsession_session_id_def del: of_char_Char)
lemma h_ix_checkoutsession_user_id [name_hash]: "text_hash n_ix_checkoutsession_user_id = 192553929578079608" by (simp add: text_hash_def char_codes n_ix_checkoutsession_user_id_def del: of_char_Char)
lemma h_ix_credential_user_id [name_hash]: "text_hash n_ix_credential_user_id = 188083725231480" by (simp add: text_hash_def char_codes n_ix_credential_user_id_def del: of_char_Char)
lemma h_ix_deviceauthtoken_device_session_id [name_hash]: "text_hash n_ix_deviceauthtoken_device_session_id = 201932524936235468662392" by (simp add: text_hash_def char_codes n_ix_deviceauthtoken_device_session_id_def del: of_char_Char)
lemma h_ix_deviceauthtoken_token_hash [name_hash]: "text_hash n_ix_deviceauthtoken_token_hash = 12324983211444816196" by (simp add: text_hash_def char_codes n_ix_deviceauthtoken_token_hash_def del: of_char_Char)
lemma h_ix_deviceauthtoken_user_id [name_hash]: "text_hash n_ix_deviceauthtoken_user_id = 192577862678832504" by (simp add: text_hash_def char_codes n_ix_deviceauthtoken_user_id_def del: of_char_Char)
lemma h_ix_devicesession_device_fingerprint_hash [name_hash]: "text_hash n_ix_devicesession_device_fingerprint_hash = 51694742601430719572308292" by (simp add: text_hash_def char_codes n_ix_devicesession_device_fingerprint_hash_def del: of_char_Char)
lemma h_ix_devicesession_public_id [name_hash]: "text_hash n_ix_devicesession_public_id = 192577923095566776" by (simp add: text_hash_def char_codes n_ix_devicesession_public_id_def del: of_char_Char)
lemma h_ix_devicesession_session_token_hash [name_hash]: "text_hash n_ix_devicesession_session_token_hash = 50483147071967477254468" by (simp add: text_hash_def char_codes n_ix_devicesession_session_token_hash_def del: of_char_Char)
lemma h_ix_devicesession_user_id [name_hash]: "text_hash n_ix_devicesession_user_id = 12036120193492344" by (simp add: text_hash_def char_codes n_ix_devicesession_user_id_def del: of_char_Char)
lemma h_ix_idempotencykey_expires_at [name_hash]: "text_hash n_ix_idempotencykey_expires_at = 3082319377150828968" by (simp add: text_hash_def char_codes n_ix_idempotencykey_expires_at_def del: of_char_Char)
lemma h_ix_idempotencykey_key [name_hash]: "text_hash n_ix_idempotencykey_key = 188129844796797" by (simp add: text_hash_def char_codes n_ix_idempotencykey_key_def del: of_char_Char)
lemma h_ix_idempotencykey_status [name_hash]: "text_hash n_ix_idempotencykey_status = 12040310067007943" by (simp add: text_hash_def char_codes n_ix_idempotencykey_status_def del: of_char_Char)
lemma h_ix_imagecontent_owner_id [name_hash]: "text_hash n_ix_imagecontent_owner_id = 12042345242718584" by (simp add: text_hash_def char_codes n_ix_imagecontent_owner_id_def del: of_char_Char)
lemma h_ix_imagecontent_public_id [name_hash]: "text_hash n_ix_imagecontent_public_id = 48169380970863032" by (simp add: text_hash_def char_codes n_ix_imagecontent_public_id_def del: of_char_Char)
lemma h_ix_inventoryreservation_checkout_session_id [name_hash]: "text_hash n_ix_inventoryreservation_checkout_session_id = 3310653199054863702245713528" by (simp add: text_hash_def char_codes n_ix_inventoryreservation_checkout_session_id_def del: of_char_Char)
lemma h_ix_inventoryreservation_order_id [name_hash]: "text_hash n_ix_inventoryreservation_order_id = 789321231616703199608" by (simp add: text_hash_def char_codes n_ix_inventoryreservation_order_id_def del: of_char_Char)
lemma h_ix_inventoryreservation_product_id [name_hash]: "text_hash n_ix_inventoryreservation_product_id = 12629139705867251637240" by (simp add: text_hash_def char_codes n_ix_inventoryreservation_product_id_def del: of_char_Char)
lemma h_ix_inventoryreservation_reserved_until [name_hash]: "text_hash n_ix_inventoryreservation_reserved_until = 3233059764702016353310160" by (simp add: text_hash_def char_codes n_ix_inventoryreservation_reserved_until_def del: of_char_Char)
lemma h_ix_inventoryreservation_status [name_hash]: "text_hash n_ix_inventoryreservation_status = 49332576976043954631" by (simp add: text_hash_def char_codes n_ix_inventoryreservation_status_def del: of_char_Char)
lemma h_ix_order_public_id [name_hash]: "text_hash n_ix_order_public_id = 2942026488248" by (simp add: text_hash_def char_codes n_ix_order_public_id_def del: of_char_Char)
lemma h_ix_order_session_id [name_hash]: "text_hash n_ix_order_session_id = 11768106002040" by (simp add: text_hash_def char_codes n_ix_order_session_id_def del: of_char_Char)
lemma h_ix_order_status [name_hash]: "text_hash n_ix_order_status = 45969166791" by (simp add: text_hash_def char_codes n_ix_order_status_def del: of_char_Char)
lemma h_ix_order_user_id [name_hash]: "text_hash n_ix_order_user_id = 183876674936" by (simp add: text_hash_def char_codes n_ix_order_user_id_def del: of_char_Char)
lemma h_ix_orders_ik_id [name_hash]: "text_hash n_ix_orders_ik_id = 45969225656" by (simp add: text_hash_def char_codes n_ix_orders_ik_id_def del: of_char_Char)
lemma h_ix_orders_public_id [name_hash]: "text_hash n_ix_orders_public_id = 11768122415544" by (simp add: text_hash_def char_codes n_ix_orders_public_id_def del: of_char_Char)
lemma h_ix_orders_session_id [name_hash]: "text_hash n_ix_orders_session_id = 47072489711224" by (simp add: text_hash_def char_codes n_ix_orders_session_id_def del: of_char_Char)
lemma h_ix_orders_status [name_hash]: "text_hash n_ix_orders_status = 183876915655" by (simp add: text_hash_def char_codes n_ix_orders_status_def del: of_char_Char)
lemma h_ix_orders_unq_ik_id [name_hash]: "text_hash n_ix_orders_unq_ik_id = 11768122677176" by (simp add: text_hash_def char_codes n_ix_orders_unq_ik_id_def del: of_char_Char)
lemma h_ix_orders_user_id [name_hash]: "text_hash n_ix_orders_user_id = 735507670392" by (simp add: text_hash_def char_codes n_ix_orders_user_id_def del: of_char_Char)
lemma h_ix_payment_order_id [name_hash]: "text_hash n_ix_payment_order_id = 11766120839544" by (simp add: text_hash_def char_codes n_ix_payment_order_id_def del: of_char_Char)
lemma h_ix_payment_provider_payment_id [name_hash]: "text_hash n_ix_payment_provider_payment_id = 49350687834049623800" by (simp add: text_hash_def char_codes n_ix_payment_provider_payment_id_def del: of_char_Char)
lemma h_ix_payment_public_id [name_hash]: "text_hash n_ix_payment_public_id = 47064483469752" by (simp add: text_hash_def char_codes n_ix_payment_public_id_def del: of_char_Char)
lemma h_ix_payment_status [name_hash]: "text_hash n_ix_payment_status = 735382557127" by (simp add: text_hash_def char_codes n_ix_payment_status_def del: of_char_Char)
lemma h_ix_paymentattempt_payment_id [name_hash]: "text_hash n_ix_paymentattempt_payment_id = 3084418040204900088" by (simp add: text_hash_def char_codes n_ix_paymentattempt_payment_id_def del: of_char_Char)
lemma h_ix_paymentattempt_provider_event_id [name_hash]: "text_hash n_ix_paymentattempt_provider_event_id = 50535105170733270681336" by (simp add: text_hash_def char_codes n_ix_paymentattempt_provider_event_id_def del: of_char_Char)
lemma h_ix_paymentwebhookevent_order_id [name_hash]: "text_hash n_ix_paymentwebhookevent_order_id = 197402773459400128888" by (simp add: text_hash_def char_codes n_ix_paymentwebhookevent_order_id_def del: of_char_Char)
lemma h_ix_paymentwebhookevent_processed_at [name_hash]: "text_hash n_ix_paymentwebhookevent_processed_at = 50535110005606439829992" by (simp add: text_hash_def char_codes n_ix_paymentwebhookevent_processed_at_def del: of_char_Char)
lemma h_ix_paymentwebhookevent_provider [name_hash]: "text_hash n_ix_paymentwebhookevent_provider = 197402773459400160390" by (simp add: text_hash_def char_codes n_ix_paymentwebhookevent_provider_def del: of_char_Char)
lemma h_ix_paymentwebhookevent_provider_event_id [name_hash]: "text_hash n_ix_paymentwebhookevent_provider_event_id = 51747952645740995653781240" by (simp add: text_hash_def char_codes n_ix_paymentwebhookevent_provider_event_id_def del: of_char_Char)
lemma h_ix_product_owner_id [name_hash]: "text_hash n_ix_product_owner_id = 11769917763960" by (simp add: text_hash_def char_codes n_ix_product_owner_id_def del: of_char_Char)
lemma h_ix_product_public_id [name_hash]: "text_hash n_ix_product_public_id = 47079671044536" by (simp add: text_hash_def char_codes n_ix_product_public_id_def del: of_char_Char)
lemma h_ix_productcategorylink_prod_category_id [name_hash]: "text_hash n_ix_productcategorylink_prod_category_id = 12941161452630304931578936" by (simp add: text_hash_def char_codes n_ix_productcategorylink_prod_category_id_def del: of_char_Char)
lemma h_ix_productcategorylink_product_id [name_hash]: "text_hash n_ix_productcategorylink_product_id = 3159463245271070563320" by (simp add: text_hash_def char_codes n_ix_productcategorylink_product_id_def del: of_char_Char)
lemma h_ix_productimage_product_id [name_hash]: "text_hash n_ix_productimage_product_id = 192838341237300216" by (simp add: text_hash_def char_codes n_ix_productimage_product_id_def del: of_char_Char)
lemma h_ix_productimage_public_id [name_hash]: "text_hash n_ix_productimage_public_id = 48209585309325752" by (simp add: text_hash_def char_codes n_ix_productimage_public_id_def del: of_char_Char)
lemma h_ix_rolepermission_permission_id [name_hash]: "text_hash n_ix_rolepermission_permission_id = 197485562519158466168" by (simp add: text_hash_def char_codes n_ix_rolepermission_permission_id_def del: of_char_Char)
lemma h_ix_rolepermission_role_id [name_hash]: "text_hash n_ix_rolepermission_role_id = 48214248661920056" by (simp add: text_hash_def char_codes n_ix_rolepermission_role_id_def del: of_char_Char)
lemma h_ix_user_public_id [name_hash]: "text_hash n_ix_user_public_id = 735940024760" by (simp add: text_hash_def char_codes n_ix_user_public_id_def del: of_char_Char)
lemma h_ix_userphone_user_id [name_hash]: "text_hash n_ix_userphone_user_id = 47100409570680" by (simp add: text_hash_def char_codes n_ix_userphone_user_id_def del: of_char_Char)
lemma h_ix_userrole_role_id [name_hash]: "text_hash n_ix_userrole_role_id = 11775116716344" by (simp add: text_hash_def char_codes n_ix_userrole_role_id_def del: of_char_Char)
lemma h_ix_userrole_user_id [name_hash]: "text_hash n_ix_userrole_user_id = 11775116731768" by (simp add: text_hash_def char_codes n_ix_userrole_user_id_def del: of_char_Char)
lemma h_ix_users_public_id [name_hash]: "text_hash n_ix_users_public_id = 2943776561592" by (simp add: text_hash_def char_codes n_ix_users_public_id_def del: of_char_Char)
lemma h_key [name_hash]: "text_hash n_key = 2685" by (simp add: text_hash_def char_codes n_key_def del: of_char_Char)
lemma h_last_activity_at [name_hash]: "text_hash n_last_activity_at = 182266879528" by (simp add: text_hash_def char_codes n_last_activity_at_def del: of_char_Char)
lemma h_last_error [name_hash]: "text_hash n_last_error = 44500686" by (simp add: text_hash_def char_codes n_last_error_def del: of_char_Char)
lemma h_last_seen_ip [name_hash]: "text_hash n_last_seen_ip = 712051844" by (simp add: text_hash_def char_codes n_last_seen_ip_def del: of_char_Char)
lemma h_line1 [name_hash]: "text_hash n_line1 = 43749" by (simp add: text_hash_def char_codes n_line1_def del: of_char_Char)
lemma h_line2 [name_hash]: "text_hash n_line2 = 43750" by (simp add: text_hash_def char_codes n_line2_def del: of_char_Char)
lemma h_meta [name_hash]: "text_hash n_meta = 10945" by (simp add: text_hash_def char_codes n_meta_def del: of_char_Char)
lemma h_mime_type [name_hash]: "text_hash n_mime_type = 11282869" by (simp add: text_hash_def char_codes n_mime_type_def del: of_char_Char)
lemma h_name [name_hash]: "text_hash n_name = 10921" by (simp add: text_hash_def char_codes n_name_def del: of_char_Char)
lemma h_new_roles [name_hash]: "text_hash n_new_roles = 11321991" by (simp add: text_hash_def char_codes n_new_roles_def del: of_char_Char)
lemma h_next_retry_at [name_hash]: "text_hash n_next_retry_at = 2903783464" by (simp add: text_hash_def char_codes n_next_retry_at_def del: of_char_Char)
lemma h_old_roles [name_hash]: "text_hash n_old_roles = 11424391" by (simp add: text_hash_def char_codes n_old_roles_def del: of_char_Char)
lemma h_order [name_hash]: "text_hash n_order = 44998" by (simp add: text_hash_def char_codes n_order_def del: of_char_Char)
lemma h_order_id [name_hash]: "text_hash n_order_id = 2881912" by (simp add: text_hash_def char_codes n_order_id_def del: of_char_Char)
lemma h_order_pkey [name_hash]: "text_hash n_order_pkey = 46111677" by (simp add: text_hash_def char_codes n_order_pkey_def del: of_char_Char)
lemma h_order_provider_order_id_key [name_hash]: "text_hash n_order_provider_order_id_key = 792195733837682813" by (simp add: text_hash_def char_codes n_order_provider_order_id_key_def del: of_char_Char)
lemma h_order_session_id_fkey [name_hash]: "text_hash n_order_session_id_fkey = 193407152185661" by (simp add: text_hash_def char_codes n_order_session_id_fkey_def del: of_char_Char)
lemma h_order_user_id_fkey [name_hash]: "text_hash n_order_user_id_fkey = 3022005887293" by (simp add: text_hash_def char_codes n_order_user_id_fkey_def del: of_char_Char)
lemma h_orderitem [name_hash]: "text_hash n_orderitem = 11528577" by (simp add: text_hash_def char_codes n_orderitem_def del: of_char_Char)
lemma h_orderitem_order_id_fkey [name_hash]: "text_hash n_orderitem_order_id_fkey = 3094687680717117" by (simp add: text_hash_def char_codes n_orderitem_order_id_fkey_def del: of_char_Char)
lemma h_orderitem_pkey [name_hash]: "text_hash n_orderitem_pkey = 11805296573" by (simp add: text_hash_def char_codes n_orderitem_pkey_def del: of_char_Char)
lemma h_orderitem_product_id_fkey [name_hash]: "text_hash n_orderitem_product_id_fkey = 49515003345133885" by (simp add: text_hash_def char_codes n_orderitem_product_id_fkey_def del: of_char_Char)
lemma h_orders [name_hash]: "text_hash n_orders = 180107" by (simp add: text_hash_def char_codes n_orders_def del: of_char_Char)
lemma h_orders_pkey [name_hash]: "text_hash n_orders_pkey = 184463293" by (simp add: text_hash_def char_codes n_orders_pkey_def del: of_char_Char)
lemma h_orders_provider_order_id_key [name_hash]: "text_hash n_orders_provider_order_id_key = 3169058398112684157" by (simp add: text_hash_def char_codes n_orders_provider_order_id_key_def del: of_char_Char)
lemma h_orders_session_id_fkey [name_hash]: "text_hash n_orders_session_id_fkey = 773695888580925" by (simp add: text_hash_def char_codes n_orders_session_id_fkey_def del: of_char_Char)
lemma h_orders_user_id_fkey [name_hash]: "text_hash n_orders_user_id_fkey = 12089017393469" by (simp add: text_hash_def char_codes n_orders_user_id_fkey_def del: of_char_Char)
lemma h_orig_filename [name_hash]: "text_hash n_orig_filename = 2955757737" by (simp add: text_hash_def char_codes n_orig_filename_def del: of_char_Char)
lemma h_outboxevent [name_hash]: "text_hash n_outboxevent = 186243836" by (simp add: text_hash_def char_codes n_outboxevent_def del: of_char_Char)
lemma h_outboxevent_pkey [name_hash]: "text_hash n_outboxevent_pkey = 190713721789" by (simp add: text_hash_def char_codes n_outboxevent_pkey_def del: of_char_Char)
lemma h_owner_id [name_hash]: "text_hash n_owner_id = 2912632" by (simp add: text_hash_def char_codes n_owner_id_def del: of_char_Char)
lemma h_owner_type [name_hash]: "text_hash n_owner_type = 46603701" by (simp add: text_hash_def char_codes n_owner_type_def del: of_char_Char)
lemma h_paid_at [name_hash]: "text_hash n_paid_at = 708072" by (simp add: text_hash_def char_codes n_paid_at_def del: of_char_Char)
lemma h_password_hash [name_hash]: "text_hash n_password_hash = 2916610372" by (simp add: text_hash_def char_codes n_password_hash_def del: of_char_Char)
lemma h_pay_metadata [name_hash]: "text_hash n_pay_metadata = 729211457" by (simp add: text_hash_def char_codes n_pay_metadata_def del: of_char_Char)
lemma h_payload [name_hash]: "text_hash n_payload = 712920" by (simp add: text_hash_def char_codes n_payload_def del: of_char_Char)
lemma h_payment [name_hash]: "text_hash n_payment = 712892" by (simp add: text_hash_def char_codes n_payment_def del: of_char_Char)
lemma h_payment_id [name_hash]: "text_hash n_payment_id = 45627128" by (simp add: text_hash_def char_codes n_payment_id_def del: of_char_Char)
lemma h_payment_method [name_hash]: "text_hash n_payment_method = 11680558752" by (simp add: text_hash_def char_codes n_payment_method_def del: of_char_Char)
lemma h_payment_order_id_fkey [name_hash]: "text_hash n_payment_order_id_fkey = 191374345789757" by (simp add: text_hash_def char_codes n_payment_order_id_fkey_def del: of_char_Char)
lemma h_payment_order_id_key [name_hash]: "text_hash n_payment_order_id_key = 47843586447485" by (simp add: text_hash_def char_codes n_payment_order_id_key_def del: of_char_Char)
lemma h_payment_pkey [name_hash]: "text_hash n_payment_pkey = 730035133" by (simp add: text_hash_def char_codes n_payment_pkey_def del: of_char_Char)
lemma h_payment_provider_order_id_key [name_hash]: "text_hash n_payment_provider_order_id_key = 12541911239786862717" by (simp add: text_hash_def char_codes n_payment_provider_order_id_key_def del: of_char_Char)
lemma h_payment_provider_payment_id_key [name_hash]: "text_hash n_payment_provider_payment_id_key = 200670579836465911933" by (simp add: text_hash_def char_codes n_payment_provider_payment_id_key_def del: of_char_Char)
lemma h_paymentattempt [name_hash]: "text_hash n_paymentattempt = 11680577092" by (simp add: text_hash_def char_codes n_paymentattempt_def del: of_char_Char)
lemma h_paymentattempt_payment_id_fkey [name_hash]: "text_hash n_paymentattempt_payment_id_fkey = 50167696749758275901" by (simp add: text_hash_def char_codes n_paymentattempt_payment_id_fkey_def del: of_char_Char)
lemma h_paymentattempt_pkey [name_hash]: "text_hash n_paymentattempt_pkey = 11960910975933" by (simp add: text_hash_def char_codes n_paymentattempt_pkey_def del: of_char_Char)
lemma h_paymentwebhookevent [name_hash]: "text_hash n_paymentwebhookevent = 11960983021308" by (simp add: text_hash_def char_codes n_paymentwebhookevent_def del: of_char_Char)
lemma h_paymentwebhookevent_pkey [name_hash]: "text_hash n_paymentwebhookevent_pkey = 12248046613853117" by (simp add: text_hash_def char_codes n_paymentwebhookevent_pkey_def del: of_char_Char)
lemma h_permission [name_hash]: "text_hash n_permission = 45780090" by (simp add: text_hash_def char_codes n_permission_def del: of_char_Char)
lemma h_permission_id [name_hash]: "text_hash n_permission_id = 2929927800" by (simp add: text_hash_def char_codes n_permission_id_def del: of_char_Char)
lemma h_permission_name_key [name_hash]: "text_hash n_permission_name_key = 12000984484221" by (simp add: text_hash_def char_codes n_permission_name_key_def del: of_char_Char)
lemma h_permission_pkey [name_hash]: "text_hash n_permission_pkey = 46878845885" by (simp add: text_hash_def char_codes n_permission_pkey_def del: of_char_Char)
lemma h_phone [name_hash]: "text_hash n_phone = 44813" by (simp add: text_hash_def char_codes n_phone_def del: of_char_Char)
lemma h_placed_at [name_hash]: "text_hash n_placed_at = 11477480" by (simp add: text_hash_def char_codes n_placed_at_def del: of_char_Char)
lemma h_postal_code [name_hash]: "text_hash n_postal_code = 185876645" by (simp add: text_hash_def char_codes n_postal_code_def del: of_char_Char)
lemma h_processed [name_hash]: "text_hash n_processed = 11634408" by (simp add: text_hash_def char_codes n_processed_def del: of_char_Char)
lemma h_processed_at [name_hash]: "text_hash n_processed_at = 744604136" by (simp add: text_hash_def char_codes n_processed_at_def del: of_char_Char)
lemma h_prod_category_id [name_hash]: "text_hash n_prod_category_id = 190589830200" by (simp add: text_hash_def char_codes n_prod_category_id_def del: of_char_Char)
lemma h_product [name_hash]: "text_hash n_product = 727376" by (simp add: text_hash_def char_codes n_product_def del: of_char_Char)
lemma h_product_id [name_hash]: "text_hash n_product_id = 46554104" by (simp add: text_hash_def char_codes n_product_id_def del: of_char_Char)
lemma h_product_name_key [name_hash]: "text_hash n_product_name_key = 190685825405" by (simp add: text_hash_def char_codes n_product_name_key_def del: of_char_Char)
lemma h_product_owner_id_fkey [name_hash]: "text_hash n_product_owner_id_fkey = 195262396391741" by (simp add: text_hash_def char_codes n_product_owner_id_fkey_def del: of_char_Char)
lemma h_product_pkey [name_hash]: "text_hash n_product_pkey = 744866749" by (simp add: text_hash_def char_codes n_product_pkey_def del: of_char_Char)
lemma h_productcategory [name_hash]: "text_hash n_productcategory = 47671486449" by (simp add: text_hash_def char_codes n_productcategory_def del: of_char_Char)
lemma h_productcategory_name_key [name_hash]: "text_hash n_productcategory_name_key = 12496794152257917" by (simp add: text_hash_def char_codes n_productcategory_name_key_def del: of_char_Char)
lemma h_productcategory_pkey [name_hash]: "text_hash n_productcategory_pkey = 48815602157501" by (simp add: text_hash_def char_codes n_productcategory_pkey_def del: of_char_Char)
lemma h_productcategorylink [name_hash]: "text_hash n_productcategorylink = 12203900540083" by (simp add: text_hash_def char_codes n_productcategorylink_def del: of_char_Char)
lemma h_productcategorylink_pkey [name_hash]: "text_hash n_productcategorylink_pkey = 12496794153078717" by (simp add: text_hash_def char_codes n_productcategorylink_pkey_def del: of_char_Char)
lemma h_productcategorylink_prod_category_id_fkey [name_hash]: "text_hash n_productcategorylink_prod_category_id_fkey = 214693288769271229905461565" by (simp add: text_hash_def char_codes n_productcategorylink_prod_category_id_fkey_def del: of_char_Char)
lemma h_productcategorylink_product_id_fkey [name_hash]: "text_hash n_productcategorylink_product_id_fkey = 52415353703435382841661" by (simp add: text_hash_def char_codes n_productcategorylink_product_id_fkey_def del: of_char_Char)
lemma h_productimage [name_hash]: "text_hash n_productimage = 744868945" by (simp add: text_hash_def char_codes n_productimage_def del: of_char_Char)
lemma h_productimage_checksum_key [name_hash]: "text_hash n_productimage_checksum_key = 49987310881296765" by (simp add: text_hash_def char_codes n_productimage_checksum_key_def del: of_char_Char)
lemma h_productimage_content_id_fkey [name_hash]: "text_hash n_productimage_content_id_fkey = 3199187897087189309" by (simp add: text_hash_def char_codes n_productimage_content_id_fkey_def del: of_char_Char)
lemma h_productimage_pkey [name_hash]: "text_hash n_productimage_pkey = 762745833405" by (simp add: text_hash_def char_codes n_productimage_pkey_def del: of_char_Char)
lemma h_productimage_product_id_fkey [name_hash]: "text_hash n_productimage_product_id_fkey = 3199187900741738813" by (simp add: text_hash_def char_codes n_productimage_product_id_fkey_def del: of_char_Char)
lemma h_productimage_storage_key_key [name_hash]: "text_hash n_productimage_storage_key_key = 3199187901719092605" by (simp add: text_hash_def char_codes n_productimage_storage_key_key_def del: of_char_Char)
lemma h_profile_image_thumb_url [name_hash]: "text_hash n_profile_image_thumb_url = 3124011154507588" by (simp add: text_hash_def char_codes n_profile_image_thumb_url_def del: of_char_Char)
lemma h_profile_image_url [name_hash]: "text_hash n_profile_image_url = 762698035780" by (simp add: text_hash_def char_codes n_profile_image_url_def del: of_char_Char)
lemma h_provider [name_hash]: "text_hash n_provider = 2913414" by (simp add: text_hash_def char_codes n_provider_def del: of_char_Char)
lemma h_provider_email [name_hash]: "text_hash n_provider_email = 11933475936" by (simp add: text_hash_def char_codes n_provider_email_def del: of_char_Char)
lemma h_provider_event_id [name_hash]: "text_hash n_provider_event_id = 763742504696" by (simp add: text_hash_def char_codes n_provider_event_id_def del: of_char_Char)
lemma h_provider_order_id [name_hash]: "text_hash n_provider_order_id = 763742648696" by (simp add: text_hash_def char_codes n_provider_order_id_def del: of_char_Char)
lemma h_provider_payment_id [name_hash]: "text_hash n_provider_payment_id = 12219881895672" by (simp add: text_hash_def char_codes n_provider_payment_id_def del: of_char_Char)
lemma h_provider_public_id [name_hash]: "text_hash n_provider_public_id = 3054970706360" by (simp add: text_hash_def char_codes n_provider_public_id_def del: of_char_Char)
lemma h_provider_response [name_hash]: "text_hash n_provider_response = 763742662865" by (simp add: text_hash_def char_codes n_provider_response_def del: of_char_Char)
lemma h_provider_user_id [name_hash]: "text_hash n_provider_user_id = 190935688568" by (simp add: text_hash_def char_codes n_provider_user_id_def del: of_char_Char)
lemma h_providerwebhookevent [name_hash]: "text_hash n_providerwebhookevent = 48879615928060" by (simp add: text_hash_def char_codes n_providerwebhookevent_def del: of_char_Char)
lemma h_providerwebhookevent_pkey [name_hash]: "text_hash n_providerwebhookevent_pkey = 50052726710367165" by (simp add: text_hash_def char_codes n_providerwebhookevent_pkey_def del: of_char_Char)
lemma h_public_id [name_hash]: "text_hash n_public_id = 11639224" by (simp add: text_hash_def char_codes n_public_id_def del: of_char_Char)
lemma h_quantity [name_hash]: "text_hash n_quantity = 2926553" by (simp add: text_hash_def char_codes n_quantity_def del: of_char_Char)
lemma h_reason [name_hash]: "text_hash n_reason = 179866" by (simp add: text_hash_def char_codes n_reason_def del: of_char_Char)
lemma h_received_at [name_hash]: "text_hash n_received_at = 184102376" by (simp add: text_hash_def char_codes n_received_at_def del: of_char_Char)
lemma h_request_hash [name_hash]: "text_hash n_request_hash = 741065028" by (simp add: text_hash_def char_codes n_request_hash_def del: of_char_Char)
lemma h_reserved_until [name_hash]: "text_hash n_reserved_until = 11852027344" by (simp add: text_hash_def char_codes n_reserved_until_def del: of_char_Char)
lemma h_response_body [name_hash]: "text_hash n_response_body = 2965619833" by (simp add: text_hash_def char_codes n_response_body_def del: of_char_Char)
lemma h_response_code [name_hash]: "text_hash n_response_code = 2965619877" by (simp add: text_hash_def char_codes n_response_code_def del: of_char_Char)
lemma h_revoked_at [name_hash]: "text_hash n_revoked_at = 46375400" by (simp add: text_hash_def char_codes n_revoked_at_def del: of_char_Char)
lemma h_revoked_by [name_hash]: "text_hash n_revoked_by = 46375409" by (simp add: text_hash_def char_codes n_revoked_by_def del: of_char_Char)
lemma h_revoked_reason [name_hash]: "text_hash n_revoked_reason = 11872124570" by (simp add: text_hash_def char_codes n_revoked_reason_def del: of_char_Char)
lemma h_role [name_hash]: "text_hash n_role = 11397" by (simp add: text_hash_def char_codes n_role_def del: of_char_Char)
lemma h_role_id [name_hash]: "text_hash n_role_id = 731448" by (simp add: text_hash_def char_codes n_role_id_def del: of_char_Char)
lemma h_role_name_key [name_hash]: "text_hash n_role_name_key = 2996226429" by (simp add: text_hash_def char_codes n_role_name_key_def del: of_char_Char)
lemma h_role_pkey [name_hash]: "text_hash n_role_pkey = 11704253" by (simp add: text_hash_def char_codes n_role_pkey_def del: of_char_Char)
lemma h_role_version [name_hash]: "text_hash n_role_version = 749095802" by (simp add: text_hash_def char_codes n_role_version_def del: of_char_Char)
lemma h_roleaudit [name_hash]: "text_hash n_roleaudit = 11704984" by (simp add: text_hash_def char_codes n_roleaudit_def del: of_char_Char)
lemma h_roleaudit_actor_user_id_fkey [name_hash]: "text_hash n_roleaudit_actor_user_id_fkey = 3217450286974394685" by (simp add: text_hash_def char_codes n_roleaudit_actor_user_id_fkey_def del: of_char_Char)
lemma h_roleaudit_pkey [name_hash]: "text_hash n_roleaudit_pkey = 11985937341" by (simp add: text_hash_def char_codes n_roleaudit_pkey_def del: of_char_Char)
lemma h_roleaudit_target_user_id_fkey [name_hash]: "text_hash n_roleaudit_target_user_id_fkey = 12869802399599321405" by (simp add: text_hash_def char_codes n_roleaudit_target_user_id_fkey_def del: of_char_Char)
lemma h_rolepermission [name_hash]: "text_hash n_rolepermission = 11989060730" by (simp add: text_hash_def char_codes n_rolepermission_def del: of_char_Char)
lemma h_rolepermission_permission_id_fkey [name_hash]: "text_hash n_rolepermission_permission_id_fkey = 3295527928734464762173" by (simp add: text_hash_def char_codes n_rolepermission_permission_id_fkey_def del: of_char_Char)
lemma h_rolepermission_pkey [name_hash]: "text_hash n_rolepermission_pkey = 12276798221245" by (simp add: text_hash_def char_codes n_rolepermission_pkey_def del: of_char_Char)
lemma h_rolepermission_role_id_fkey [name_hash]: "text_hash n_rolepermission_role_id_fkey = 804572248242741565" by (simp add: text_hash_def char_codes n_rolepermission_role_id_fkey_def del: of_char_Char)
lemma h_selected_payment_method [name_hash]: "text_hash n_selected_payment_method = 3115767788154528" by (simp add: text_hash_def char_codes n_selected_payment_method_def del: of_char_Char)
lemma h_sent_at [name_hash]: "text_hash n_sent_at = 726760" by (simp add: text_hash_def char_codes n_sent_at_def del: of_char_Char)
lemma h_session_expires_at [name_hash]: "text_hash n_session_expires_at = 3054369825192" by (simp add: text_hash_def char_codes n_session_expires_at_def del: of_char_Char)
lemma h_session_id [name_hash]: "text_hash n_session_id = 46605944" by (simp add: text_hash_def char_codes n_session_id_def del: of_char_Char)
lemma h_session_token_hash [name_hash]: "text_hash n_session_token_hash = 3054373062980" by (simp add: text_hash_def char_codes n_session_token_hash_def del: of_char_Char)
lemma h_shipping [name_hash]: "text_hash n_shipping = 2914479" by (simp add: text_hash_def char_codes n_shipping_def del: of_char_Char)
lemma h_shipping_address_json [name_hash]: "text_hash n_shipping_address_json = 195589516345050" by (simp add: text_hash_def char_codes n_shipping_address_json_def del: of_char_Char)
lemma h_sku [name_hash]: "text_hash n_sku = 2833" by (simp add: text_hash_def char_codes n_sku_def del: of_char_Char)
lemma h_sort_order [name_hash]: "text_hash n_sort_order = 47239110" by (simp add: text_hash_def char_codes n_sort_order_def del: of_char_Char)
lemma h_specs [name_hash]: "text_hash n_specs = 45903" by (simp add: text_hash_def char_codes n_specs_def del: of_char_Char)
lemma h_state [name_hash]: "text_hash n_state = 46149" by (simp add: text_hash_def char_codes n_state_def del: of_char_Char)
lemma h_status [name_hash]: "text_hash n_status = 184775" by (simp add: text_hash_def char_codes n_status_def del: of_char_Char)
lemma h_stock_qty [name_hash]: "text_hash n_stock_qty = 11864089" by (simp add: text_hash_def char_codes n_stock_qty_def del: of_char_Char)
lemma h_storage_key [name_hash]: "text_hash n_storage_key = 190034301" by (simp add: text_hash_def char_codes n_storage_key_def del: of_char_Char)
lemma h_storage_provider [name_hash]: "text_hash n_storage_provider = 194595288198" by (simp add: text_hash_def char_codes n_storage_provider_def del: of_char_Char)
lemma h_subtotal [name_hash]: "text_hash n_subtotal = 2961648" by (simp add: text_hash_def char_codes n_subtotal_def del: of_char_Char)
lemma h_target_user_id [name_hash]: "text_hash n_target_user_id = 11913487736" by (simp add: text_hash_def char_codes n_target_user_id_def del: of_char_Char)
lemma h_tax [name_hash]: "text_hash n_tax = 2812" by (simp add: text_hash_def char_codes n_tax_def del: of_char_Char)
lemma h_tax_snapshot [name_hash]: "text_hash n_tax_snapshot = 745847152" by (simp add: text_hash_def char_codes n_tax_snapshot_def del: of_char_Char)
lemma h_token_hash [name_hash]: "text_hash n_token_hash = 47335748" by (simp add: text_hash_def char_codes n_token_hash_def del: of_char_Char)
lemma h_topic [name_hash]: "text_hash n_topic = 46279" by (simp add: text_hash_def char_codes n_topic_def del: of_char_Char)
lemma h_total [name_hash]: "text_hash n_total = 46320" by (simp add: text_hash_def char_codes n_total_def del: of_char_Char)
lemma h_true [name_hash]: "text_hash n_true = 11609" by (simp add: text_hash_def char_codes n_true_def del: of_char_Char)
lemma h_type [name_hash]: "text_hash n_type = 11701" by (simp add: text_hash_def char_codes n_type_def del: of_char_Char)
lemma h_unit_price_snapshot [name_hash]: "text_hash n_unit_price_snapshot = 12465144904048" by (simp add: text_hash_def char_codes n_unit_price_snapshot_def del: of_char_Char)
lemma h_updated_at [name_hash]: "text_hash n_updated_at = 47539688" by (simp add: text_hash_def char_codes n_updated_at_def del: of_char_Char)
lemma h_uploadswebhookevent [name_hash]: "text_hash n_uploadswebhookevent = 12506829743868" by (simp add: text_hash_def char_codes n_uploadswebhookevent_def del: of_char_Char)
lemma h_uploadswebhookevent_pkey [name_hash]: "text_hash n_uploadswebhookevent_pkey = 12806993657754557" by (simp add: text_hash_def char_codes n_uploadswebhookevent_pkey_def del: of_char_Char)
lemma h_uploadswebhookevent_provider_event_id_key [name_hash]: "text_hash n_uploadswebhookevent_provider_event_id_key = 220022475680544111525828733" by (simp add: text_hash_def char_codes n_uploadswebhookevent_provider_event_id_key_def del: of_char_Char)
lemma h_uq_cart_product [name_hash]: "text_hash n_uq_cart_product = 48656882000" by (simp add: text_hash_def char_codes n_uq_cart_product_def del: of_char_Char)
lemma h_uq_cart_session_id [name_hash]: "text_hash n_uq_cart_session_id = 3114040501880" by (simp add: text_hash_def char_codes n_uq_cart_session_id_def del: of_char_Char)
lemma h_uq_cart_user_id [name_hash]: "text_hash n_uq_cart_user_id = 48656901496" by (simp add: text_hash_def char_codes n_uq_cart_user_id_def del: of_char_Char)
lemma h_uq_checkout_active_cart [name_hash]: "text_hash n_uq_checkout_active_cart = 3188974964421644" by (simp add: text_hash_def char_codes n_uq_checkout_active_cart_def del: of_char_Char)
lemma h_uq_checkout_product [name_hash]: "text_hash n_uq_checkout_product = 12456933529936" by (simp add: text_hash_def char_codes n_uq_checkout_product_def del: of_char_Char)
lemma h_uq_commitintent_aggid_type_reason [name_hash]: "text_hash n_uq_commitintent_aggid_type_reason = 3344574471756425035418" by (simp add: text_hash_def char_codes n_uq_commitintent_aggid_type_reason_def del: of_char_Char)
lemma h_uq_commitintent_reason_agtype_agid [name_hash]: "text_hash n_uq_commitintent_reason_agtype_agid = 13378297887306285536184" by (simp add: text_hash_def char_codes n_uq_commitintent_reason_agtype_agid_def del: of_char_Char)
lemma h_uq_credential_provider_userid [name_hash]: "text_hash n_uq_credential_provider_userid = 13064845354445953384" by (simp add: text_hash_def char_codes n_uq_credential_provider_userid_def del: of_char_Char)
lemma h_uq_credential_user_provider [name_hash]: "text_hash n_uq_credential_user_provider = 816552834729014406" by (simp add: text_hash_def char_codes n_uq_credential_user_provider_def del: of_char_Char)
lemma h_uq_credential_user_type_provider [name_hash]: "text_hash n_uq_credential_user_type_provider = 836150102762603443334" by (simp add: text_hash_def char_codes n_uq_credential_user_type_provider_def del: of_char_Char)
lemma h_uq_order_product [name_hash]: "text_hash n_uq_order_product = 194882509136" by (simp add: text_hash_def char_codes n_uq_order_product_def del: of_char_Char)
lemma h_uq_outbox_key_topic [name_hash]: "text_hash n_uq_outbox_key_topic = 12474317923527" by (simp add: text_hash_def char_codes n_uq_outbox_key_topic_def del: of_char_Char)
lemma h_uq_outboxevent_aggid_type_topic [name_hash]: "text_hash n_uq_outboxevent_aggid_type_topic = 209284364236337538247" by (simp add: text_hash_def char_codes n_uq_outboxevent_aggid_type_topic_def del: of_char_Char)
lemma h_uq_outboxevent_topic_agtype_agid [name_hash]: "text_hash n_uq_outboxevent_topic_agtype_agid = 837137457037919605688" by (simp add: text_hash_def char_codes n_uq_outboxevent_topic_agtype_agid_def del: of_char_Char)
lemma h_uq_product_category [name_hash]: "text_hash n_uq_product_category = 12474292119537" by (simp add: text_hash_def char_codes n_uq_product_category_def del: of_char_Char)
lemma h_uq_product_checkout [name_hash]: "text_hash n_uq_product_checkout = 12474292132600" by (simp add: text_hash_def char_codes n_uq_product_checkout_def del: of_char_Char)
lemma h_uq_product_image_content_id [name_hash]: "text_hash n_uq_product_image_content_id = 817515216740804344" by (simp add: text_hash_def char_codes n_uq_product_image_content_id_def del: of_char_Char)
lemma h_uq_product_name_owner_id [name_hash]: "text_hash n_uq_product_name_owner_id = 12773675307135352" by (simp add: text_hash_def char_codes n_uq_product_name_owner_id_def del: of_char_Char)
lemma h_uq_provider_event [name_hash]: "text_hash n_uq_provider_event = 779658880764" by (simp add: text_hash_def char_codes n_uq_provider_event_def del: of_char_Char)
lemma h_uq_provider_providerorder [name_hash]: "text_hash n_uq_provider_providerorder = 51095724591590342" by (simp add: text_hash_def char_codes n_uq_provider_providerorder_def del: of_char_Char)
lemma h_uq_provider_providerpayment [name_hash]: "text_hash n_uq_provider_providerpayment = 817531593465438396" by (simp add: text_hash_def char_codes n_uq_provider_providerpayment_def del: of_char_Char)
lemma h_uq_providerwebhookevent_provider_event_id [name_hash]: "text_hash n_uq_providerwebhookevent_provider_event_id = 219454471885750174769334008" by (simp add: text_hash_def char_codes n_uq_providerwebhookevent_provider_event_id_def del: of_char_Char)
lemma h_uq_role_permission_role_id_permission_id [name_hash]: "text_hash n_uq_role_permission_role_id_permission_id = 54867251418783292338677368" by (simp add: text_hash_def char_codes n_uq_role_permission_role_id_permission_id_def del: of_char_Char)
lemma h_uq_user_role_user_id_role_id [name_hash]: "text_hash n_uq_user_role_user_id_role_id = 3271404049070106936" by (simp add: text_hash_def char_codes n_uq_user_role_user_id_role_id_def del: of_char_Char)
lemma h_url [name_hash]: "text_hash n_url = 2884" by (simp add: text_hash_def char_codes n_url_def del: of_char_Char)
lemma h_user [name_hash]: "text_hash n_user = 11638" by (simp add: text_hash_def char_codes n_user_def del: of_char_Char)
lemma h_user_agent_snippet [name_hash]: "text_hash n_user_agent_snippet = 3132631102984" by (simp add: text_hash_def char_codes n_user_agent_snippet_def del: of_char_Char)
lemma h_user_email_key [name_hash]: "text_hash n_user_email_key = 12237176957" by (simp add: text_hash_def char_codes n_user_email_key_def del: of_char_Char)
lemma h_user_id [name_hash]: "text_hash n_user_id = 746872" by (simp add: text_hash_def char_codes n_user_id_def del: of_char_Char)
lemma h_user_pkey [name_hash]: "text_hash n_user_pkey = 11951037" by (simp add: text_hash_def char_codes n_user_pkey_def del: of_char_Char)
lemma h_usermedia [name_hash]: "text_hash n_usermedia = 11953797" by (simp add: text_hash_def char_codes n_usermedia_def del: of_char_Char)
lemma h_usermedia_pkey [name_hash]: "text_hash n_usermedia_pkey = 12240721853" by (simp add: text_hash_def char_codes n_usermedia_pkey_def del: of_char_Char)
lemma h_usermedia_user_id_fkey [name_hash]: "text_hash n_usermedia_user_id_fkey = 802207978381629" by (simp add: text_hash_def char_codes n_usermedia_user_id_fkey_def del: of_char_Char)
lemma h_usermedia_user_id_key [name_hash]: "text_hash n_usermedia_user_id_key = 200551994595453" by (simp add: text_hash_def char_codes n_usermedia_user_id_key_def del: of_char_Char)
lemma h_userphone [name_hash]: "text_hash n_userphone = 11954957" by (simp add: text_hash_def char_codes n_userphone_def del: of_char_Char)
lemma h_userphone_phone_key [name_hash]: "text_hash n_userphone_phone_key = 12535715540349" by (simp add: text_hash_def char_codes n_userphone_phone_key_def del: of_char_Char)
lemma h_userphone_pkey [name_hash]: "text_hash n_userphone_pkey = 12241909693" by (simp add: text_hash_def char_codes n_userphone_pkey_def del: of_char_Char)
lemma h_userphone_user_id_fkey [name_hash]: "text_hash n_userphone_user_id_fkey = 802285824663869" by (simp add: text_hash_def char_codes n_userphone_user_id_fkey_def del: of_char_Char)
lemma h_userrole [name_hash]: "text_hash n_userrole = 2988933" by (simp add: text_hash_def char_codes n_userrole_def del: of_char_Char)
lemma h_userrole_pkey [name_hash]: "text_hash n_userrole_pkey = 3060701117" by (simp add: text_hash_def char_codes n_userrole_pkey_def del: of_char_Char)
lemma h_userrole_role_id_fkey [name_hash]: "text_hash n_userrole_role_id_fkey = 200586123632957" by (simp add: text_hash_def char_codes n_userrole_role_id_fkey_def del: of_char_Char)
lemma h_userrole_user_id_fkey [name_hash]: "text_hash n_userrole_user_id_fkey = 200586139427133" by (simp add: text_hash_def char_codes n_userrole_user_id_fkey_def del: of_char_Char)
lemma h_users [name_hash]: "text_hash n_users = 46667" by (simp add: text_hash_def char_codes n_users_def del: of_char_Char)
lemma h_users_email_key [name_hash]: "text_hash n_users_email_key = 48967745661" by (simp add: text_hash_def char_codes n_users_email_key_def del: of_char_Char)
lemma h_variants [name_hash]: "text_hash n_variants = 2941539" by (simp add: text_hash_def char_codes n_variants_def del: of_char_Char)
lemma h_verified_at [name_hash]: "text_hash n_verified_at = 189319656" by (simp add: text_hash_def char_codes n_verified_at_def del: of_char_Char)
lemma h_p_revoked_at_is_null [name_hash]: "text_hash p_revoked_at_is_null = 3039259137612" by (simp add: text_hash_def char_codes p_revoked_at_is_null_def del: of_char_Char)
lemma h_p_deleted_at_is_null [name_hash]: "text_hash p_deleted_at_is_null = 2785923176012" by (simp add: text_hash_def char_codes p_deleted_at_is_null_def del: of_char_Char)
lemma h_p_deleted_at_is_null_paren [name_hash]: "text_hash p_deleted_at_is_null_paren = 27911245027673" by (simp add: text_hash_def char_codes p_deleted_at_is_null_paren_def del: of_char_Char)
lemma h_p_status_0 [name_hash]: "text_hash p_status_0 = 47305600" by (simp add: text_hash_def char_codes p_status_0_def del: of_char_Char)
lemma h_p_is_active_true [name_hash]: "text_hash p_is_active_true = 182254467673" by (simp add: text_hash_def char_codes p_is_active_true_def del: of_char_Char)
lemma h_p_session_id_is_not_null [name_hash]: "text_hash p_session_id_is_not_null = 781918225693260" by (simp add: text_hash_def char_codes p_session_id_is_not_null_def del: of_char_Char)
lemma h_p_user_id_is_not_null [name_hash]: "text_hash p_user_id_is_not_null = 12530669189708" by (simp add: text_hash_def char_codes p_user_id_is_not_null_def del: of_char_Char)
lemma h_p_revoked_at_is_null_paren [name_hash]: "text_hash p_revoked_at_is_null_paren = 28924588874073" by (simp add: text_hash_def char_codes p_revoked_at_is_null_paren_def del: of_char_Char)
lemma h_p_provider_event_id_is_not_null [name_hash]: "text_hash p_provider_event_id_is_not_null = 12813472969902127692" by (simp add: text_hash_def char_codes p_provider_event_id_is_not_null_def del: of_char_Char)
lemma h_p_content_id_is_not_null [name_hash]: "text_hash p_content_id_is_not_null = 721172355742284" by (simp add: text_hash_def char_codes p_content_id_is_not_null_def del: of_char_Char)
lemma h_empty [name_hash]: "text_hash [] = 7" by (simp add: text_hash_def)

section \<open>Chosen names\<close>

lemma a_address_user_id_fkey [name_hash]: "auto_name n_address (Foreign_Key r) [n_user_id] = n_address_user_id_fkey"
  by (simp add: n_address_def n_address_user_id_fkey_def n_user_id_def)
lemma a_address_pkey [name_hash]: "auto_name n_address Primary_Key cs = n_address_pkey"
  by (simp add: n_address_def n_address_pkey_def)
lemma a_cart_session_id_fkey [name_hash]: "auto_name n_cart (Foreign_Key r) [n_session_id] = n_cart_session_id_fkey"
  by (simp add: n_cart_def n_cart_session_id_fkey_def n_session_id_def)
lemma a_cart_user_id_fkey [name_hash]: "auto_name n_cart (Foreign_Key r) [n_user_id] = n_cart_user_id_fkey"
  by (simp add: n_cart_def n_cart_user_id_fkey_def n_user_id_def)
lemma a_cart_pkey [name_hash]: "auto_name n_cart Primary_Key cs = n_cart_pkey"
  by (simp add: n_cart_def n_cart_pkey_def)
lemma a_cart_session_id_key [name_hash]: "auto_name n_cart Unique_Key [n_session_id] = n_cart_session_id_key"
  by (simp add: n_cart_def n_cart_session_id_key_def n_session_id_def)
lemma a_cartitem_cart_id_fkey [name_hash]: "auto_name n_cartitem (Foreign_Key r) [n_cart_id] = n_cartitem_cart_id_fkey"
  by (simp add: n_cart_id_def n_cartitem_cart_id_fkey_def n_cartitem_def)
lemma a_cartitem_product_id_fkey [name_hash]: "auto_name n_cartitem (Foreign_Key r) [n_product_id] = n_cartitem_product_id_fkey"
  by (simp add: n_cartitem_def n_cartitem_product_id_fkey_def n_product_id_def)
lemma a_cartitem_pkey [name_hash]: "auto_name n_cartitem Primary_Key cs = n_cartitem_pkey"
  by (simp add: n_cartitem_def n_cartitem_pkey_def)
lemma a_checkoutsession_pkey [name_hash]: "auto_name n_checkoutsession Primary_Key cs = n_checkoutsession_pkey"
  by (simp add: n_checkoutsession_def n_checkoutsession_pkey_def)
lemma a_commitintent_pkey [name_hash]: "auto_name n_commitintent Primary_Key cs = n_commitintent_pkey"
  by (simp add: n_commitintent_def n_commitintent_pkey_def)
lemma a_credential_user_id_fkey [name_hash]: "auto_name n_credential (Foreign_Key r) [n_user_id] = n_credential_user_id_fkey"
  by (simp add: n_credential_def n_credential_user_id_fkey_def n_user_id_def)
lemma a_credential_pkey [name_hash]: "auto_name n_credential Primary_Key cs = n_credential_pkey"
  by (simp add: n_credential_def n_credential_pkey_def)
lemma a_credential_password_hash_key [name_hash]: "auto_name n_credential Unique_Key [n_password_hash] = n_credential_password_hash_key"
  by (simp add: n_credential_def n_credential_password_hash_key_def n_password_hash_def)
lemma a_credential_provider_user_id_key [name_hash]: "auto_name n_credential Unique_Key [n_provider_user_id] = n_credential_provider_user_id_key"
  by (simp add: n_credential_def n_credential_provider_user_id_key_def n_provider_user_id_def)
lemma a_deviceauthtoken_device_session_id_fkey [name_hash]: "auto_name n_deviceauthtoken (Foreign_Key r) [n_device_session_id] = n_deviceauthtoken_device_session_id_fkey"
  by (simp add: n_device_session_id_def n_deviceauthtoken_def n_deviceauthtoken_device_session_id_fkey_def)
lemma a_deviceauthtoken_user_id_fkey [name_hash]: "auto_name n_deviceauthtoken (Foreign_Key r) [n_user_id] = n_deviceauthtoken_user_id_fkey"
  by (simp add: n_deviceauthtoken_def n_deviceauthtoken_user_id_fkey_def n_user_id_def)
lemma a_deviceauthtoken_pkey [name_hash]: "auto_name n_deviceauthtoken Primary_Key cs = n_deviceauthtoken_pkey"
  by (simp add: n_deviceauthtoken_def n_deviceauthtoken_pkey_def)
lemma a_devicesession_user_id_fkey [name_hash]: "auto_name n_devicesession (Foreign_Key r) [n_user_id] = n_devicesession_user_id_fkey"
  by (simp add: n_devicesession_def n_devicesession_user_id_fkey_def n_user_id_def)
lemma a_devicesession_pkey [name_hash]: "auto_name n_devicesession Primary_Key cs = n_devicesession_pkey"
  by (simp add: n_devicesession_def n_devicesession_pkey_def)
lemma a_idempotencykey_pkey [name_hash]: "auto_name n_idempotencykey Primary_Key cs = n_idempotencykey_pkey"
  by (simp add: n_idempotencykey_def n_idempotencykey_pkey_def)
lemma a_imagecontent_owner_id_fkey [name_hash]: "auto_name n_imagecontent (Foreign_Key r) [n_owner_id] = n_imagecontent_owner_id_fkey"
  by (simp add: n_imagecontent_def n_imagecontent_owner_id_fkey_def n_owner_id_def)
lemma a_imagecontent_pkey [name_hash]: "auto_name n_imagecontent Primary_Key cs = n_imagecontent_pkey"
  by (simp add: n_imagecontent_def n_imagecontent_pkey_def)
lemma a_imagecontent_checksum_key [name_hash]: "auto_name n_imagecontent Unique_Key [n_checksum] = n_imagecontent_checksum_key"
  by (simp add: n_checksum_def n_imagecontent_checksum_key_def n_imagecontent_def)
lemma a_inventoryreservation_pkey [name_hash]: "auto_name n_inventoryreservation Primary_Key cs = n_inventoryreservation_pkey"
  by (simp add: n_inventoryreservation_def n_inventoryreservation_pkey_def)
lemma a_order_session_id_fkey [name_hash]: "auto_name n_order (Foreign_Key r) [n_session_id] = n_order_session_id_fkey"
  by (simp add: n_order_def n_order_session_id_fkey_def n_session_id_def)
lemma a_order_user_id_fkey [name_hash]: "auto_name n_order (Foreign_Key r) [n_user_id] = n_order_user_id_fkey"
  by (simp add: n_order_def n_order_user_id_fkey_def n_user_id_def)
lemma a_order_pkey [name_hash]: "auto_name n_order Primary_Key cs = n_order_pkey"
  by (simp add: n_order_def n_order_pkey_def)
lemma a_order_provider_order_id_key [name_hash]: "auto_name n_order Unique_Key [n_provider_order_id] = n_order_provider_order_id_key"
  by (simp add: n_order_def n_order_provider_order_id_key_def n_provider_order_id_def)
lemma a_orderitem_order_id_fkey [name_hash]: "auto_name n_orderitem (Foreign_Key r) [n_order_id] = n_orderitem_order_id_fkey"
  by (simp add: n_order_id_def n_orderitem_def n_orderitem_order_id_fkey_def)
lemma a_orderitem_product_id_fkey [name_hash]: "auto_name n_orderitem (Foreign_Key r) [n_product_id] = n_orderitem_product_id_fkey"
  by (simp add: n_orderitem_def n_orderitem_product_id_fkey_def n_product_id_def)
lemma a_orderitem_pkey [name_hash]: "auto_name n_orderitem Primary_Key cs = n_orderitem_pkey"
  by (simp add: n_orderitem_def n_orderitem_pkey_def)
lemma a_orders_session_id_fkey [name_hash]: "auto_name n_orders (Foreign_Key r) [n_session_id] = n_orders_session_id_fkey"
  by (simp add: n_orders_def n_orders_session_id_fkey_def n_session_id_def)
lemma a_orders_user_id_fkey [name_hash]: "auto_name n_orders (Foreign_Key r) [n_user_id] = n_orders_user_id_fkey"
  by (simp add: n_orders_def n_orders_user_id_fkey_def n_user_id_def)
lemma a_orders_pkey [name_hash]: "auto_name n_orders Primary_Key cs = n_orders_pkey"
  by (simp add: n_orders_def n_orders_pkey_def)
lemma a_orders_provider_order_id_key [name_hash]: "auto_name n_orders Unique_Key [n_provider_order_id] = n_orders_provider_order_id_key"
  by (simp add: n_orders_def n_orders_provider_order_id_key_def n_provider_order_id_def)
lemma a_outboxevent_pkey [name_hash]: "auto_name n_outboxevent Primary_Key cs = n_outboxevent_pkey"
  by (simp add: n_outboxevent_def n_outboxevent_pkey_def)
lemma a_payment_order_id_fkey [name_hash]: "auto_name n_payment (Foreign_Key r) [n_order_id] = n_payment_order_id_fkey"
  by (simp add: n_order_id_def n_payment_def n_payment_order_id_fkey_def)
lemma a_payment_pkey [name_hash]: "auto_name n_payment Primary_Key cs = n_payment_pkey"
  by (simp add: n_payment_def n_payment_pkey_def)
lemma a_payment_order_id_key [name_hash]: "auto_name n_payment Unique_Key [n_order_id] = n_payment_order_id_key"
  by (simp add: n_order_id_def n_payment_def n_payment_order_id_key_def)
lemma a_payment_provider_order_id_key [name_hash]: "auto_name n_payment Unique_Key [n_provider_order_id] = n_payment_provider_order_id_key"
  by (simp add: n_payment_def n_payment_provider_order_id_key_def n_provider_order_id_def)
lemma a_payment_provider_payment_id_key [name_hash]: "auto_name n_payment Unique_Key [n_provider_payment_id] = n_payment_provider_payment_id_key"
  by (simp add: n_payment_def n_payment_provider_payment_id_key_def n_provider_payment_id_def)
lemma a_paymentattempt_payment_id_fkey [name_hash]: "auto_name n_paymentattempt (Foreign_Key r) [n_payment_id] = n_paymentattempt_payment_id_fkey"
  by (simp add: n_payment_id_def n_paymentattempt_def n_paymentattempt_payment_id_fkey_def)
lemma a_paymentattempt_pkey [name_hash]: "auto_name n_paymentattempt Primary_Key cs = n_paymentattempt_pkey"
  by (simp add: n_paymentattempt_def n_paymentattempt_pkey_def)
lemma a_paymentwebhookevent_pkey [name_hash]: "auto_name n_paymentwebhookevent Primary_Key cs = n_paymentwebhookevent_pkey"
  by (simp add: n_paymentwebhookevent_def n_paymentwebhookevent_pkey_def)
lemma a_permission_pkey [name_hash]: "auto_name n_permission Primary_Key cs = n_permission_pkey"
  by (simp add: n_permission_def n_permission_pkey_def)
lemma a_permission_name_key [name_hash]: "auto_name n_permission Unique_Key [n_name] = n_permission_name_key"
  by (simp add: n_name_def n_permission_def n_permission_name_key_def)
lemma a_product_owner_id_fkey [name_hash]: "auto_name n_product (Foreign_Key r) [n_owner_id] = n_product_owner_id_fkey"
  by (simp add: n_owner_id_def n_product_def n_product_owner_id_fkey_def)
lemma a_product_pkey [name_hash]: "auto_name n_product Primary_Key cs = n_product_pkey"
  by (simp add: n_product_def n_product_pkey_def)
lemma a_productcategory_pkey [name_hash]: "auto_name n_productcategory Primary_Key cs = n_productcategory_pkey"
  by (simp add: n_productcategory_def n_productcategory_pkey_def)
lemma a_productcategory_name_key [name_hash]: "auto_name n_productcategory Unique_Key [n_name] = n_productcategory_name_key"
  by (simp add: n_name_def n_productcategory_def n_productcategory_name_key_def)
lemma a_productcategorylink_prod_category_id_fkey [name_hash]: "auto_name n_productcategorylink (Foreign_Key r) [n_prod_category_id] = n_productcategorylink_prod_category_id_fkey"
  by (simp add: n_prod_category_id_def n_productcategorylink_def n_productcategorylink_prod_category_id_fkey_def)
lemma a_productcategorylink_product_id_fkey [name_hash]: "auto_name n_productcategorylink (Foreign_Key r) [n_product_id] = n_productcategorylink_product_id_fkey"
  by (simp add: n_product_id_def n_productcategorylink_def n_productcategorylink_product_id_fkey_def)
lemma a_productcategorylink_pkey [name_hash]: "auto_name n_productcategorylink Primary_Key cs = n_productcategorylink_pkey"
  by (simp add: n_productcategorylink_def n_productcategorylink_pkey_def)
lemma a_productimage_content_id_fkey [name_hash]: "auto_name n_productimage (Foreign_Key r) [n_content_id] = n_productimage_content_id_fkey"
  by (simp add: n_content_id_def n_productimage_content_id_fkey_def n_productimage_def)
lemma a_productimage_product_id_fkey [name_hash]: "auto_name n_productimage (Foreign_Key r) [n_product_id] = n_productimage_product_id_fkey"
  by (simp add: n_product_id_def n_productimage_def n_productimage_product_id_fkey_def)
lemma a_productimage_pkey [name_hash]: "auto_name n_productimage Primary_Key cs = n_productimage_pkey"
  by (simp add: n_productimage_def n_productimage_pkey_def)
lemma a_productimage_checksum_key [name_hash]: "auto_name n_productimage Unique_Key [n_checksum] = n_productimage_checksum_key"
  by (simp add: n_checksum_def n_productimage_checksum_key_def n_productimage_def)
lemma a_productimage_storage_key_key [name_hash]: "auto_name n_productimage Unique_Key [n_storage_key] = n_productimage_storage_key_key"
  by (simp add: n_productimage_def n_productimage_storage_key_key_def n_storage_key_def)
lemma a_providerwebhookevent_pkey [name_hash]: "auto_name n_providerwebhookevent Primary_Key cs = n_providerwebhookevent_pkey"
  by (simp add: n_providerwebhookevent_def n_providerwebhookevent_pkey_def)
lemma a_role_pkey [name_hash]: "auto_name n_role Primary_Key cs = n_role_pkey"
  by (simp add: n_role_def n_role_pkey_def)
lemma a_role_name_key [name_hash]: "auto_name n_role Unique_Key [n_name] = n_role_name_key"
  by (simp add: n_name_def n_role_def n_role_name_key_def)
lemma a_roleaudit_actor_user_id_fkey [name_hash]: "auto_name n_roleaudit (Foreign_Key r) [n_actor_user_id] = n_roleaudit_actor_user_id_fkey"
  by (simp add: n_actor_user_id_def n_roleaudit_actor_user_id_fkey_def n_roleaudit_def)
lemma a_roleaudit_target_user_id_fkey [name_hash]: "auto_name n_roleaudit (Foreign_Key r) [n_target_user_id] = n_roleaudit_target_user_id_fkey"
  by (simp add: n_roleaudit_def n_roleaudit_target_user_id_fkey_def n_target_user_id_def)
lemma a_roleaudit_pkey [name_hash]: "auto_name n_roleaudit Primary_Key cs = n_roleaudit_pkey"
  by (simp add: n_roleaudit_def n_roleaudit_pkey_def)
lemma a_rolepermission_permission_id_fkey [name_hash]: "auto_name n_rolepermission (Foreign_Key r) [n_permission_id] = n_rolepermission_permission_id_fkey"
  by (simp add: n_permission_id_def n_rolepermission_def n_rolepermission_permission_id_fkey_def)
lemma a_rolepermission_role_id_fkey [name_hash]: "auto_name n_rolepermission (Foreign_Key r) [n_role_id] = n_rolepermission_role_id_fkey"
  by (simp add: n_role_id_def n_rolepermission_def n_rolepermission_role_id_fkey_def)
lemma a_rolepermission_pkey [name_hash]: "auto_name n_rolepermission Primary_Key cs = n_rolepermission_pkey"
  by (simp add: n_rolepermission_def n_rolepermission_pkey_def)
lemma a_uploadswebhookevent_pkey [name_hash]: "auto_name n_uploadswebhookevent Primary_Key cs = n_uploadswebhookevent_pkey"
  by (simp add: n_uploadswebhookevent_def n_uploadswebhookevent_pkey_def)
lemma a_uploadswebhookevent_provider_event_id_key [name_hash]: "auto_name n_uploadswebhookevent Unique_Key [n_provider_event_id] = n_uploadswebhookevent_provider_event_id_key"
  by (simp add: n_provider_event_id_def n_uploadswebhookevent_def n_uploadswebhookevent_provider_event_id_key_def)
lemma a_user_pkey [name_hash]: "auto_name n_user Primary_Key cs = n_user_pkey"
  by (simp add: n_user_def n_user_pkey_def)
lemma a_user_email_key [name_hash]: "auto_name n_user Unique_Key [n_email] = n_user_email_key"
  by (simp add: n_email_def n_user_def n_user_email_key_def)
lemma a_usermedia_user_id_fkey [name_hash]: "auto_name n_usermedia (Foreign_Key r) [n_user_id] = n_usermedia_user_id_fkey"
  by (simp add: n_user_id_def n_usermedia_def n_usermedia_user_id_fkey_def)
lemma a_usermedia_pkey [name_hash]: "auto_name n_usermedia Primary_Key cs = n_usermedia_pkey"
  by (simp add: n_usermedia_def n_usermedia_pkey_def)
lemma a_usermedia_user_id_key [name_hash]: "auto_name n_usermedia Unique_Key [n_user_id] = n_usermedia_user_id_key"
  by (simp add: n_user_id_def n_usermedia_def n_usermedia_user_id_key_def)
lemma a_userphone_user_id_fkey [name_hash]: "auto_name n_userphone (Foreign_Key r) [n_user_id] = n_userphone_user_id_fkey"
  by (simp add: n_user_id_def n_userphone_def n_userphone_user_id_fkey_def)
lemma a_userphone_pkey [name_hash]: "auto_name n_userphone Primary_Key cs = n_userphone_pkey"
  by (simp add: n_userphone_def n_userphone_pkey_def)
lemma a_userphone_phone_key [name_hash]: "auto_name n_userphone Unique_Key [n_phone] = n_userphone_phone_key"
  by (simp add: n_phone_def n_userphone_def n_userphone_phone_key_def)
lemma a_userrole_role_id_fkey [name_hash]: "auto_name n_userrole (Foreign_Key r) [n_role_id] = n_userrole_role_id_fkey"
  by (simp add: n_role_id_def n_userrole_def n_userrole_role_id_fkey_def)
lemma a_userrole_user_id_fkey [name_hash]: "auto_name n_userrole (Foreign_Key r) [n_user_id] = n_userrole_user_id_fkey"
  by (simp add: n_user_id_def n_userrole_def n_userrole_user_id_fkey_def)
lemma a_userrole_pkey [name_hash]: "auto_name n_userrole Primary_Key cs = n_userrole_pkey"
  by (simp add: n_userrole_def n_userrole_pkey_def)
lemma a_users_email_key [name_hash]: "auto_name n_users Unique_Key [n_email] = n_users_email_key"
  by (simp add: n_email_def n_users_def n_users_email_key_def)

section \<open>The words of the predicates\<close>

lemma w_p_revoked_at_is_null [name_hash]: "words_from [] p_revoked_at_is_null = [n_revoked_at, n_IS, n_NULL]"
  by (simp add: word_char_def p_revoked_at_is_null_def n_IS_def n_NULL_def n_revoked_at_def)
lemma w_p_deleted_at_is_null [name_hash]: "words_from [] p_deleted_at_is_null = [n_deleted_at, n_IS, n_NULL]"
  by (simp add: word_char_def p_deleted_at_is_null_def n_IS_def n_NULL_def n_deleted_at_def)
lemma w_p_deleted_at_is_null_paren [name_hash]: "words_from [] p_deleted_at_is_null_paren = [[], n_deleted_at, n_IS, n_NULL, []]"
  by (simp add: word_char_def p_deleted_at_is_null_paren_def n_IS_def n_NULL_def n_deleted_at_def)
lemma w_p_status_0 [name_hash]: "words_from [] p_status_0 = [n_status, [], [], n_0]"
  by (simp add: word_char_def p_status_0_def n_0_def n_status_def)
lemma w_p_is_active_true [name_hash]: "words_from [] p_is_active_true = [n_is_active, [], [], n_true]"
  by (simp add: word_char_def p_is_active_true_def n_is_active_def n_true_def)
lemma w_p_session_id_is_not_null [name_hash]: "words_from [] p_session_id_is_not_null = [n_session_id, n_IS, n_NOT, n_NULL]"
  by (simp add: word_char_def p_session_id_is_not_null_def n_IS_def n_NOT_def n_NULL_def n_session_id_def)
lemma w_p_user_id_is_not_null [name_hash]: "words_from [] p_user_id_is_not_null = [n_user_id, n_IS, n_NOT, n_NULL]"
  by (simp add: word_char_def p_user_id_is_not_null_def n_IS_def n_NOT_def n_NULL_def n_user_id_def)
lemma w_p_revoked_at_is_null_paren [name_hash]: "words_from [] p_revoked_at_is_null_paren = [[], n_revoked_at, n_IS, n_NULL, []]"
  by (simp add: word_char_def p_revoked_at_is_null_paren_def n_IS_def n_NULL_def n_revoked_at_def)
lemma w_p_provider_event_id_is_not_null [name_hash]: "words_from [] p_provider_event_id_is_not_null = [n_provider_event_id, n_IS, n_NOT, n_NULL]"
  by (simp add: word_char_def p_provider_event_id_is_not_null_def n_IS_def n_NOT_def n_NULL_def n_provider_event_id_def)
lemma w_p_content_id_is_not_null [name_hash]: "words_from [] p_content_id_is_not_null = [n_content_id, n_IS, n_NOT, n_NULL]"
  by (simp add: word_char_def p_content_id_is_not_null_def n_IS_def n_NOT_def n_NULL_def n_content_id_def)

lemma sql_words_folded [name_hash]: "sql_words = [[], n_IS, n_NOT, n_NULL, n_true, n_0]"
  by (simp add: sql_words_def n_IS_def n_NOT_def n_NULL_def n_true_def n_0_def)

end
