(* ===== verification/Schema_Models.thy ===== *)
theory Schema_Models
  imports Schema_Names
begin

text \<open>
  What the SQLModel classes of \<open>backend/schema/full_schema.py\<close> expect of the database (columns, unique keys, other
  indexes, foreign keys), when a schema agrees with them, and the conflict targets of the insert statements.
\<close>

section \<open>Tables of the classes\<close>

text \<open>A column is nullable when its annotation or its \<open>nullable\<close> says so; a key or an index has columns and a predicate.\<close>

record model_table =
  mt_name :: name
  mt_columns :: "(name \<times> bool) list"
  mt_keys :: "(name list \<times> name option) list"
  mt_indexes :: "(name list \<times> name option) list"
  mt_refs :: "(name \<times> name) list"

definition model_UserRole :: model_table where
  "model_UserRole = \<lparr>mt_name = n_userrole,
     mt_columns = [(n_id, False), (n_user_id, False), (n_role_id, False)],
     mt_keys = [([n_user_id, n_role_id], None)],
     mt_indexes = [([n_user_id], None), ([n_role_id], None)],
     mt_refs = [(n_user_id, n_users), (n_role_id, n_role)]\<rparr>"

definition model_Users :: model_table where
  "model_Users = \<lparr>mt_name = n_users,
     mt_columns = [(n_id, False), (n_public_id, False), (n_email, True), (n_name, True), (n_role_version, False),
        (n_created_at, False), (n_updated_at, False), (n_deleted_at, True)],
     mt_keys = [([n_public_id], None), ([n_email], None)],
     mt_indexes = [],
     mt_refs = []\<rparr>"

definition model_UserMedia :: model_table where
  "model_UserMedia = \<lparr>mt_name = n_usermedia,
     mt_columns = [(n_id, False), (n_user_id, False), (n_profile_image_url, True), (n_profile_image_thumb_url, True)],
     mt_keys = [([n_user_id], None)],
     mt_indexes = [],
     mt_refs = [(n_user_id, n_users)]\<rparr>"

definition model_RolePermission :: model_table where
  "model_RolePermission = \<lparr>mt_name = n_rolepermission,
     mt_columns = [(n_id, False), (n_role_id, False), (n_permission_id, False)],
     mt_keys = [([n_role_id, n_permission_id], None)],
     mt_indexes = [([n_role_id], None), ([n_permission_id], None)],
     mt_refs = [(n_role_id, n_role), (n_permission_id, n_permission)]\<rparr>"

definition model_Role :: model_table where
  "model_Role = \<lparr>mt_name = n_role,
     mt_columns = [(n_id, False), (n_name, False), (n_description, True)],
     mt_keys = [([n_name], None)],
     mt_indexes = [],
     mt_refs = []\<rparr>"

definition model_Permission :: model_table where
  "model_Permission = \<lparr>mt_name = n_permission,
     mt_columns = [(n_id, False), (n_name, False), (n_description, True)],
     mt_keys = [([n_name], None)],
     mt_indexes = [],
     mt_refs = []\<rparr>"

definition model_UserPhone :: model_table where
  "model_UserPhone = \<lparr>mt_name = n_userphone,
     mt_columns = [(n_id, False), (n_user_id, False), (n_phone, False), (n_is_primary, False),
        (n_verified_at, False), (n_created_at, False)],
     mt_keys = [([n_phone], None)],
     mt_indexes = [([n_user_id], None)],
     mt_refs = [(n_user_id, n_users)]\<rparr>"

definition model_Credential :: model_table where
  "model_Credential = \<lparr>mt_name = n_credential,
     mt_columns = [(n_id, False), (n_user_id, False), (n_type, False), (n_provider, False),
        (n_provider_user_id, True), (n_provider_email, True), (n_password_hash, True), (n_created_at, False),
        (n_updated_at, False), (n_revoked_at, True)],
     mt_keys = [([n_user_id, n_provider], None), ([n_provider, n_provider_user_id], None)],
     mt_indexes = [([n_user_id], None)],
     mt_refs = [(n_user_id, n_users)]\<rparr>"

definition model_Address :: model_table where
  "model_Address = \<lparr>mt_name = n_address,
     mt_columns = [(n_id, False), (n_user_id, False), (n_line1, False), (n_line2, True), (n_city, False),
        (n_state, True), (n_name, True), (n_postal_code, False), (n_country, False), (n_phone, False),
        (n_is_default, False), (n_created_at, False), (n_updated_at, False), (n_deleted_at, True)],
     mt_keys = [],
     mt_indexes = [([n_user_id], None)],
     mt_refs = [(n_user_id, n_users)]\<rparr>"

definition model_DeviceSession :: model_table where
  "model_DeviceSession = \<lparr>mt_name = n_devicesession,
     mt_columns = [(n_id, False), (n_session_token_hash, False), (n_user_id, True), (n_public_id, False),
        (n_device_name, True), (n_device_type, True), (n_user_agent_snippet, True),
        (n_device_fingerprint_hash, True), (n_ip_first_seen, True), (n_last_seen_ip, True),
        (n_last_activity_at, True), (n_created_at, False), (n_revoked_at, True), (n_session_expires_at, False)],
     mt_keys = [([n_session_token_hash], None), ([n_public_id], None)],
     mt_indexes = [([n_user_id], None)],
     mt_refs = [(n_user_id, n_users)]\<rparr>"

definition model_DeviceAuthToken :: model_table where
  "model_DeviceAuthToken = \<lparr>mt_name = n_deviceauthtoken,
     mt_columns = [(n_id, False), (n_device_session_id, False), (n_user_id, False), (n_token_hash, False),
        (n_issued_at, False), (n_expires_at, True), (n_revoked_at, True), (n_revoked_by, True),
        (n_revoked_reason, True), (n_auth_method, False)],
     mt_keys = [([n_token_hash], None)],
     mt_indexes = [([n_device_session_id], None), ([n_user_id], None)],
     mt_refs = [(n_device_session_id, n_devicesession), (n_user_id, n_users)]\<rparr>"

definition model_ProductCategoryLink :: model_table where
  "model_ProductCategoryLink = \<lparr>mt_name = n_productcategorylink,
     mt_columns = [(n_id, False), (n_product_id, False), (n_prod_category_id, False)],
     mt_keys = [([n_product_id, n_prod_category_id], None)],
     mt_indexes = [([n_product_id], None), ([n_prod_category_id], None)],
     mt_refs = [(n_product_id, n_product), (n_prod_category_id, n_productcategory)]\<rparr>"

definition model_Product :: model_table where
  "model_Product = \<lparr>mt_name = n_product,
     mt_columns = [(n_id, False), (n_public_id, False), (n_stock_qty, False), (n_sku, True), (n_name, False),
        (n_description, True), (n_base_price, False), (n_specs, True), (n_owner_id, True), (n_created_at, False),
        (n_updated_at, False), (n_deleted_at, True)],
     mt_keys = [([n_public_id], None), ([n_name], None)],
     mt_indexes = [([n_owner_id], None)],
     mt_refs = [(n_owner_id, n_users)]\<rparr>"

definition model_ProductImage :: model_table where
  "model_ProductImage = \<lparr>mt_name = n_productimage,
     mt_columns = [(n_id, False), (n_product_id, False), (n_content_id, True), (n_public_id, False),
        (n_storage_key, True), (n_storage_provider, False), (n_bucket, True), (n_mime_type, True),
        (n_file_size, True), (n_variants, True), (n_status, False), (n_orig_filename, True), (n_sort_order, False),
        (n_alt_text, True), (n_created_at, False), (n_updated_at, False)],
     mt_keys = [([n_public_id], None), ([n_storage_key], None), ([n_content_id], Some p_content_id_is_not_null)],
     mt_indexes = [([n_product_id], None)],
     mt_refs = [(n_product_id, n_product), (n_content_id, n_imagecontent)]\<rparr>"

definition model_ImageContent :: model_table where
  "model_ImageContent = \<lparr>mt_name = n_imagecontent,
     mt_columns = [(n_id, False), (n_checksum, False), (n_provider, True), (n_public_id, False),
        (n_provider_public_id, True), (n_url, True), (n_meta, True), (n_created_at, False)],
     mt_keys = [([n_checksum], None), ([n_public_id], None)],
     mt_indexes = [],
     mt_refs = []\<rparr>"

definition model_ProductCategory :: model_table where
  "model_ProductCategory = \<lparr>mt_name = n_productcategory,
     mt_columns = [(n_id, False), (n_name, False), (n_description, True), (n_created_at, False),
        (n_updated_at, False)],
     mt_keys = [([n_name], None)],
     mt_indexes = [],
     mt_refs = []\<rparr>"

definition model_UploadsWebhookEvent :: model_table where
  "model_UploadsWebhookEvent = \<lparr>mt_name = n_uploadswebhookevent,
     mt_columns = [(n_id, False), (n_provider_event_id, False), (n_provider, True), (n_payload, False),
        (n_received_at, False), (n_processed_at, True), (n_attempts, True)],
     mt_keys = [([n_provider_event_id], None)],
     mt_indexes = [],
     mt_refs = []\<rparr>"

definition model_RoleAudit :: model_table where
  "model_RoleAudit = \<lparr>mt_name = n_roleaudit,
     mt_columns = [(n_id, False), (n_actor_user_id, True), (n_target_user_id, True), (n_old_roles, False),
        (n_new_roles, False), (n_reason, True), (n_created_at, False), (n_updated_at, False)],
     mt_keys = [],
     mt_indexes = [],
     mt_refs = [(n_actor_user_id, n_users), (n_target_user_id, n_users)]\<rparr>"

definition model_Cart :: model_table where
  "model_Cart = \<lparr>mt_name = n_cart,
     mt_columns = [(n_id, False), (n_user_id, True), (n_session_id, True), (n_created_at, False),
        (n_updated_at, False)],
     mt_keys = [([n_user_id], Some p_user_id_is_not_null), ([n_session_id], Some p_session_id_is_not_null)],
     mt_indexes = [],
     mt_refs = [(n_user_id, n_users), (n_session_id, n_devicesession)]\<rparr>"

definition model_CartItem :: model_table where
  "model_CartItem = \<lparr>mt_name = n_cartitem,
     mt_columns = [(n_id, False), (n_cart_id, True), (n_product_id, False), (n_quantity, False),
        (n_created_at, False), (n_deleted_at, True)],
     mt_keys = [([n_cart_id, n_product_id], None)],
     mt_indexes = [],
     mt_refs = [(n_cart_id, n_cart), (n_product_id, n_product)]\<rparr>"

definition model_Orders :: model_table where
  "model_Orders = \<lparr>mt_name = n_orders,
     mt_columns = [(n_id, False), (n_public_id, False), (n_ik_id, False), (n_user_id, True), (n_session_id, True),
        (n_status, False), (n_currency, False), (n_subtotal, False), (n_tax, False), (n_shipping, False),
        (n_discount, False), (n_total, False), (n_shipping_address_json, False), (n_billing_address_json, True),
        (n_payment_method, True), (n_provider_order_id, True), (n_created_at, False), (n_updated_at, False),
        (n_placed_at, True), (n_delievered_at, True)],
     mt_keys = [([n_public_id], None), ([n_ik_id], None)],
     mt_indexes = [([n_user_id], None), ([n_status], None)],
     mt_refs = [(n_user_id, n_users), (n_session_id, n_devicesession)]\<rparr>"

definition model_OrderItem :: model_table where
  "model_OrderItem = \<lparr>mt_name = n_orderitem,
     mt_columns = [(n_id, False), (n_order_id, False), (n_product_id, False), (n_sku, True), (n_quantity, False),
        (n_unit_price_snapshot, False), (n_tax_snapshot, True), (n_discount_snapshot, True), (n_meta, True)],
     mt_keys = [([n_order_id, n_product_id], None)],
     mt_indexes = [],
     mt_refs = [(n_order_id, n_orders), (n_product_id, n_product)]\<rparr>"

definition model_CheckoutSession :: model_table where
  "model_CheckoutSession = \<lparr>mt_name = n_checkoutsession,
     mt_columns = [(n_id, False), (n_public_id, False), (n_user_id, False), (n_session_id, True),
        (n_cart_snapshot, True), (n_selected_payment_method, True), (n_is_active, False), (n_expires_at, False),
        (n_created_at, False), (n_updated_at, False)],
     mt_keys = [([n_public_id], None), ([n_user_id], Some p_is_active_true)],
     mt_indexes = [([n_expires_at], None)],
     mt_refs = []\<rparr>"

definition model_InventoryReservation :: model_table where
  "model_InventoryReservation = \<lparr>mt_name = n_inventoryreservation,
     mt_columns = [(n_id, False), (n_product_id, False), (n_checkout_id, False), (n_order_id, True),
        (n_quantity, False), (n_reserved_until, True), (n_status, False), (n_created_at, False)],
     mt_keys = [([n_product_id, n_checkout_id], None)],
     mt_indexes = [],
     mt_refs = []\<rparr>"

definition model_IdempotencyKey :: model_table where
  "model_IdempotencyKey = \<lparr>mt_name = n_idempotencykey,
     mt_columns = [(n_id, False), (n_key, False), (n_cs_id, False), (n_created_by, False), (n_owner_type, True),
        (n_owner_id, True), (n_request_hash, True), (n_response_code, True), (n_response_body, True),
        (n_status, False), (n_created_at, False), (n_expires_at, True)],
     mt_keys = [([n_key], None)],
     mt_indexes = [([n_status], None), ([n_expires_at], None)],
     mt_refs = [(n_cs_id, n_checkoutsession)]\<rparr>"

definition model_Payment :: model_table where
  "model_Payment = \<lparr>mt_name = n_payment,
     mt_columns = [(n_id, False), (n_public_id, False), (n_order_id, False), (n_provider, True),
        (n_provider_payment_id, True), (n_provider_order_id, True), (n_status, False), (n_amount, False),
        (n_currency, False), (n_pay_metadata, True), (n_created_at, False), (n_paid_at, True)],
     mt_keys = [([n_public_id], None), ([n_order_id], None), ([n_provider, n_provider_order_id], None),
        ([n_provider, n_provider_payment_id], None)],
     mt_indexes = [([n_status], None)],
     mt_refs = [(n_order_id, n_orders)]\<rparr>"

definition model_PaymentAttempt :: model_table where
  "model_PaymentAttempt = \<lparr>mt_name = n_paymentattempt,
     mt_columns = [(n_id, False), (n_payment_id, False), (n_attempt_no, False), (n_status, False),
        (n_provider_response, True), (n_created_at, False)],
     mt_keys = [],
     mt_indexes = [([n_payment_id], None)],
     mt_refs = [(n_payment_id, n_payment)]\<rparr>"

definition model_PaymentWebhookEvent :: model_table where
  "model_PaymentWebhookEvent = \<lparr>mt_name = n_paymentwebhookevent,
     mt_columns = [(n_id, False), (n_provider, False), (n_provider_event_id, True), (n_order_id, True),
        (n_payload, True), (n_status, False), (n_attempts, False), (n_last_error, True), (n_processed_at, True),
        (n_created_at, False)],
     mt_keys = [([n_provider, n_provider_event_id], Some p_provider_event_id_is_not_null)],
     mt_indexes = [([n_order_id], None)],
     mt_refs = []\<rparr>"

definition model_OutboxEvent :: model_table where
  "model_OutboxEvent = \<lparr>mt_name = n_outboxevent,
     mt_columns = [(n_id, False), (n_topic, False), (n_payload, False), (n_aggregate_type, False),
        (n_aggregate_id, False), (n_status, False), (n_attempts, False), (n_next_retry_at, True),
        (n_created_at, False), (n_sent_at, True)],
     mt_keys = [([n_topic, n_aggregate_type, n_aggregate_id], None)],
     mt_indexes = [],
     mt_refs = []\<rparr>"

definition model_CommitIntent :: model_table where
  "model_CommitIntent = \<lparr>mt_name = n_commitintent,
     mt_columns = [(n_id, False), (n_aggregate_type, False), (n_aggregate_id, False), (n_reason, False),
        (n_status, False), (n_payload, True), (n_attempts, False), (n_next_retry_at, True), (n_created_at, True),
        (n_updated_at, True)],
     mt_keys = [([n_reason, n_aggregate_type, n_aggregate_id], None)],
     mt_indexes = [],
     mt_refs = []\<rparr>"

definition orm_tables :: "model_table list" where
  "orm_tables =
    [model_UserRole, model_Users, model_UserMedia, model_RolePermission, model_Role, model_Permission,
        model_UserPhone, model_Credential, model_Address, model_DeviceSession, model_DeviceAuthToken,
        model_ProductCategoryLink, model_Product, model_ProductImage, model_ImageContent, model_ProductCategory,
        model_UploadsWebhookEvent, model_RoleAudit, model_Cart, model_CartItem, model_Orders, model_OrderItem,
        model_CheckoutSession, model_InventoryReservation, model_IdempotencyKey, model_Payment,
        model_PaymentAttempt, model_PaymentWebhookEvent, model_OutboxEvent, model_CommitIntent]"

section \<open>Agreement\<close>

fun keys_of :: "db_object list \<Rightarrow> (name list \<times> name option) list" where
  "keys_of [] = []"
| "keys_of (ob # obs) = (case dbo_kind ob of
     Unique_Key \<Rightarrow> (dbo_columns ob, None) # keys_of obs
   | Is_Index u p \<Rightarrow> (if u then (dbo_columns ob, p) # keys_of obs else keys_of obs)
   | _ \<Rightarrow> keys_of obs)"

fun indexes_of :: "db_object list \<Rightarrow> (name list \<times> name option) list" where
  "indexes_of [] = []"
| "indexes_of (ob # obs) = (case dbo_kind ob of
     Is_Index u p \<Rightarrow> (if u then indexes_of obs else (dbo_columns ob, p) # indexes_of obs)
   | _ \<Rightarrow> indexes_of obs)"

fun refs_of :: "db_object list \<Rightarrow> (name \<times> name) list" where
  "refs_of [] = []"
| "refs_of (ob # obs) = (case dbo_kind ob of
     Foreign_Key r \<Rightarrow> map (\<lambda>c. (c, r)) (dbo_columns ob) @ refs_of obs
   | _ \<Rightarrow> refs_of obs)"

fun primary_of :: "db_object list \<Rightarrow> name list" where
  "primary_of [] = []"
| "primary_of (ob # obs) = (case dbo_kind ob of Primary_Key \<Rightarrow> dbo_columns ob | _ \<Rightarrow> primary_of obs)"

text \<open>Every class has the primary key \<open>id\<close>.\<close>

definition table_agrees :: "db_table \<Rightarrow> model_table \<Rightarrow> bool" where
  "table_agrees x m =
     (if primary_of (tb_objects x) = [n_id] then
        if same_members (tb_columns x) (mt_columns m) then
          if same_members (keys_of (tb_objects x)) (mt_keys m) then
            if same_members (indexes_of (tb_objects x)) (mt_indexes m) then
              same_members (refs_of (tb_objects x)) (mt_refs m)
            else False
          else False
        else False
      else False)"

fun tables_agree :: "db_table list \<Rightarrow> model_table list \<Rightarrow> bool" where
  "tables_agree s [] = True"
| "tables_agree s (m # ms) = (case find_table (mt_name m) s of
     None \<Rightarrow> False
   | Some x \<Rightarrow> if table_agrees x m then tables_agree s ms else False)"

definition agrees :: "db_table list \<Rightarrow> model_table list \<Rightarrow> bool" where
  "agrees s ms = (if has_all (map tb_name s) (map mt_name ms) then tables_agree s ms else False)"

section \<open>Conflict targets\<close>

datatype conflict_target =
    On_Columns "name list" "name option"
  | On_Constraint name

fun is_constraint :: "db_object option \<Rightarrow> bool" where
  "is_constraint None = False"
| "is_constraint (Some ob) = (case dbo_kind ob of Unique_Key \<Rightarrow> True | Primary_Key \<Rightarrow> True | _ \<Rightarrow> False)"

text \<open>PostgreSQL accepts an \<open>ON CONFLICT\<close> clause when a unique key on the columns or the named constraint exists.\<close>

fun conflict_accepted :: "db_table list \<Rightarrow> name \<times> conflict_target \<Rightarrow> bool" where
  "conflict_accepted s (t, On_Columns cs w) = (case find_table t s of
     None \<Rightarrow> False
   | Some x \<Rightarrow> infers cs w (tb_objects x))"
| "conflict_accepted s (t, On_Constraint n) = (case find_table t s of
     None \<Rightarrow> False
   | Some x \<Rightarrow> is_constraint (find_object n (tb_objects x)))"

fun refused :: "db_table list \<Rightarrow> (name \<times> conflict_target) list \<Rightarrow> (name \<times> conflict_target) list" where
  "refused s [] = []"
| "refused s (c # cs) = (if conflict_accepted s c then refused s cs else c # refused s cs)"

text \<open>The clauses of the services: sign-up, categories, orders, payments, products.\<close>

definition credential_target :: "name \<times> conflict_target" where
  "credential_target = (n_credential, On_Columns [n_user_id, n_provider] None)"

definition user_target :: "name \<times> conflict_target" where
  "user_target = (n_users, On_Columns [n_email] None)"

definition user_role_target :: "name \<times> conflict_target" where
  "user_role_target = (n_userrole, On_Columns [n_user_id, n_role_id] None)"

definition checkout_target :: "name \<times> conflict_target" where
  "checkout_target = (n_checkoutsession, On_Columns [n_user_id] (Some p_is_active_true))"

definition reservation_target :: "name \<times> conflict_target" where
  "reservation_target = (n_inventoryreservation, On_Columns [n_product_id, n_checkout_id] None)"

definition outbox_target :: "name \<times> conflict_target" where
  "outbox_target = (n_outboxevent, On_Constraint n_uq_outboxevent_topic_agtype_agid)"

definition intent_target :: "name \<times> conflict_target" where
  "intent_target = (n_commitintent, On_Constraint n_uq_commitintent_reason_agtype_agid)"

definition payment_event_target :: "name \<times> conflict_target" where
  "payment_event_target = (n_paymentwebhookevent, On_Columns [n_provider, n_provider_event_id] (Some p_provider_event_id_is_not_null))"

definition link_target :: "name \<times> conflict_target" where
  "link_target = (n_productcategorylink, On_Columns [n_product_id, n_prod_category_id] None)"

definition product_target :: "name \<times> conflict_target" where
  "product_target = (n_product, On_Columns [n_name] None)"

text \<open>The clauses of the image webhook and of the deployment seed.\<close>

definition image_event_target :: "name \<times> conflict_target" where
  "image_event_target = (n_providerwebhookevent, On_Columns [n_provider_event_id] None)"

definition seed_user_target :: "name \<times> conflict_target" where
  "seed_user_target = (n_users, On_Columns [n_email] None)"

definition seed_role_target :: "name \<times> conflict_target" where
  "seed_role_target = (n_userrole, On_Constraint n_uq_user_role_user_id_role_id)"

definition seed_credential_target :: "name \<times> conflict_target" where
  "seed_credential_target = (n_credential, On_Constraint n_uq_credential_user_type_provider)"

definition seed_product_target :: "name \<times> conflict_target" where
  "seed_product_target = (n_product, On_Columns [n_name] None)"

definition seed_link_target :: "name \<times> conflict_target" where
  "seed_link_target = (n_productcategorylink, On_Constraint n_uq_product_category)"

definition conflict_targets :: "(name \<times> conflict_target) list" where
  "conflict_targets =
    [credential_target, user_target, user_role_target, checkout_target, reservation_target, outbox_target,
        intent_target, payment_event_target, link_target, product_target, image_event_target, seed_user_target,
        seed_role_target, seed_credential_target, seed_product_target, seed_link_target]"

lemmas orm_tables_unfold = orm_tables_def
  model_UserRole_def
  model_Users_def
  model_UserMedia_def
  model_RolePermission_def
  model_Role_def
  model_Permission_def
  model_UserPhone_def
  model_Credential_def
  model_Address_def
  model_DeviceSession_def
  model_DeviceAuthToken_def
  model_ProductCategoryLink_def
  model_Product_def
  model_ProductImage_def
  model_ImageContent_def
  model_ProductCategory_def
  model_UploadsWebhookEvent_def
  model_RoleAudit_def
  model_Cart_def
  model_CartItem_def
  model_Orders_def
  model_OrderItem_def
  model_CheckoutSession_def
  model_InventoryReservation_def
  model_IdempotencyKey_def
  model_Payment_def
  model_PaymentAttempt_def
  model_PaymentWebhookEvent_def
  model_OutboxEvent_def
  model_CommitIntent_def

lemmas conflict_targets_unfold = conflict_targets_def
  credential_target_def
  user_target_def
  user_role_target_def
  checkout_target_def
  reservation_target_def
  outbox_target_def
  intent_target_def
  payment_event_target_def
  link_target_def
  product_target_def
  image_event_target_def
  seed_user_target_def
  seed_role_target_def
  seed_credential_target_def
  seed_product_target_def
  seed_link_target_def

end
