(* ===== verification/History_Catalogue.thy ===== *)
theory History_Catalogue
  imports Schema_Names
begin

text \<open>
  The migrations 1 to 28 of \<open>src/migrations/versions\<close>, in the order of their \<open>down_revision\<close>:
  users, roles, sessions, products, images and carts. Every definition lists the
  operations of one \<open>upgrade\<close> or \<open>downgrade\<close>, as they stand.
\<close>

text \<open>\<open>9c56107ee0e2_add_user_and_auth_models.py\<close>\<close>

definition up_9c56107ee0e2 :: "ddl list" where
  "up_9c56107ee0e2 =
    [Create_Table n_devicesession
       [(n_id, False, False), (n_session_token_hash, False, False), (n_device_name, True, False),
        (n_device_type, True, False), (n_user_agent_snippet, True, False),
        (n_device_fingerprint_hash, True, False), (n_ip_first_seen, True, False), (n_last_seen_ip, True, False),
        (n_last_activity_at, True, False), (n_created_at, False, False), (n_revoked_at, True, False),
        (n_session_expires_at, True, False)]
       [(None, Primary_Key, [n_id])],
     Create_Index n_ix_devicesession_session_token_hash n_devicesession [n_session_token_hash] True None,
     Create_Table n_user
       [(n_id, False, False), (n_public_id, False, False), (n_email, True, True), (n_is_admin, False, False),
        (n_created_at, False, False), (n_updated_at, False, False), (n_deleted_at, True, False),
        (n_profile_image_url, True, False), (n_profile_image_thumb_url, True, False)]
       [(None, Primary_Key, [n_id]), (None, Unique_Key, [n_email])],
     Create_Index n_ix_user_public_id n_user [n_public_id] True None,
     Create_Table n_address
       [(n_id, False, False), (n_user_id, True, False), (n_line1, False, False), (n_line2, True, False),
        (n_city, False, False), (n_state, True, False), (n_postal_code, False, False), (n_country, False, False),
        (n_phone, False, False), (n_is_default, False, False), (n_created_at, False, False),
        (n_updated_at, False, False), (n_deleted_at, True, False)]
       [(None, Foreign_Key n_user, [n_user_id]), (None, Primary_Key, [n_id])],
     Create_Index n_ix_address_user_id n_address [n_user_id] False None,
     Create_Table n_credential
       [(n_id, False, False), (n_user_id, False, False), (n_type, False, False), (n_provider, True, False),
        (n_provider_user_id, True, False), (n_provider_email, True, False), (n_password_hash, True, False),
        (n_created_at, False, False), (n_updated_at, False, False), (n_revoked_at, True, False)]
       [(None, Foreign_Key n_user, [n_user_id]), (None, Primary_Key, [n_id])],
     Create_Index n_ix_credential_user_id n_credential [n_user_id] False None,
     Create_Table n_deviceauthtoken
       [(n_id, False, False), (n_device_session_id, False, False), (n_user_id, True, False),
        (n_token_hash, False, False), (n_issued_at, False, False), (n_expires_at, True, False),
        (n_revoked_at, True, False), (n_revoked_by, True, False), (n_revoked_reason, True, False),
        (n_auth_method, False, False)]
       [(None, Foreign_Key n_devicesession, [n_device_session_id]), (None, Foreign_Key n_user, [n_user_id]),
        (None, Primary_Key, [n_id])],
     Create_Index n_ix_deviceauthtoken_device_session_id n_deviceauthtoken [n_device_session_id] False None,
     Create_Index n_ix_deviceauthtoken_token_hash n_deviceauthtoken [n_token_hash] False None,
     Create_Index n_ix_deviceauthtoken_user_id n_deviceauthtoken [n_user_id] False None]"

definition dn_9c56107ee0e2 :: "ddl list" where
  "dn_9c56107ee0e2 =
    [Drop_Index n_ix_deviceauthtoken_user_id,
     Drop_Index n_ix_deviceauthtoken_token_hash,
     Drop_Index n_ix_deviceauthtoken_device_session_id,
     Drop_Table n_deviceauthtoken,
     Drop_Index n_ix_credential_user_id,
     Drop_Table n_credential,
     Drop_Index n_ix_address_user_id,
     Drop_Table n_address,
     Drop_Index n_ix_user_public_id,
     Drop_Table n_user,
     Drop_Index n_ix_devicesession_session_token_hash,
     Drop_Index n_ix_devicesession_device_fingerprint_hash,
     Drop_Table n_devicesession]"

definition m_9c56107ee0e2 :: migration where
  "m_9c56107ee0e2 = \<lparr>revision = ''9c56107ee0e2'', down_revision = None,
     upgrade = up_9c56107ee0e2, downgrade = dn_9c56107ee0e2\<rparr>"

text \<open>\<open>fbef4fd0439f_rename_table_user_to_users.py\<close>\<close>

definition up_fbef4fd0439f :: "ddl list" where
  "up_fbef4fd0439f =
    [Rename_Table n_user n_users]"

definition dn_fbef4fd0439f :: "ddl list" where
  "dn_fbef4fd0439f =
    [Rename_Table n_users n_user]"

definition m_fbef4fd0439f :: migration where
  "m_fbef4fd0439f = \<lparr>revision = ''fbef4fd0439f'', down_revision = Some ''9c56107ee0e2'',
     upgrade = up_fbef4fd0439f, downgrade = dn_fbef4fd0439f\<rparr>"

text \<open>\<open>985e491d90ce_add_name_field_to_users_and_address.py\<close>\<close>

definition up_985e491d90ce :: "ddl list" where
  "up_985e491d90ce =
    [Add_Column n_address n_name True,
     Add_Column n_users n_name True]"

definition dn_985e491d90ce :: "ddl list" where
  "dn_985e491d90ce =
    [Drop_Column n_users n_name,
     Drop_Column n_address n_name]"

definition m_985e491d90ce :: migration where
  "m_985e491d90ce = \<lparr>revision = ''985e491d90ce'', down_revision = Some ''fbef4fd0439f'',
     upgrade = up_985e491d90ce, downgrade = dn_985e491d90ce\<rparr>"

text \<open>\<open>9c2c0d4d37b6_add_user_roles_permissions_schema.py\<close>\<close>

definition up_9c2c0d4d37b6 :: "ddl list" where
  "up_9c2c0d4d37b6 =
    [Create_Table n_permission
       [(n_id, False, False), (n_name, False, False), (n_description, True, False)]
       [(None, Primary_Key, [n_id]), (None, Unique_Key, [n_name])],
     Create_Table n_role
       [(n_id, False, False), (n_name, False, False), (n_description, True, False)]
       [(None, Primary_Key, [n_id]), (None, Unique_Key, [n_name])],
     Create_Table n_rolepermission
       [(n_id, False, False), (n_role_id, False, False), (n_permission_id, False, False)]
       [(None, Foreign_Key n_permission, [n_permission_id]), (None, Foreign_Key n_role, [n_role_id]),
        (None, Primary_Key, [n_id]),
        (Some n_uq_role_permission_role_id_permission_id, Unique_Key, [n_role_id, n_permission_id])],
     Create_Index n_ix_rolepermission_permission_id n_rolepermission [n_permission_id] False None,
     Create_Index n_ix_rolepermission_role_id n_rolepermission [n_role_id] False None,
     Create_Table n_userrole
       [(n_id, False, False), (n_user_id, False, False), (n_role_id, False, False)]
       [(None, Foreign_Key n_role, [n_role_id]), (None, Foreign_Key n_users, [n_user_id]),
        (None, Primary_Key, [n_id]), (Some n_uq_user_role_user_id_role_id, Unique_Key, [n_user_id, n_role_id])],
     Create_Index n_ix_userrole_role_id n_userrole [n_role_id] False None,
     Create_Index n_ix_userrole_user_id n_userrole [n_user_id] False None]"

definition dn_9c2c0d4d37b6 :: "ddl list" where
  "dn_9c2c0d4d37b6 =
    [Drop_Index n_ix_userrole_user_id,
     Drop_Index n_ix_userrole_role_id,
     Drop_Table n_userrole,
     Drop_Index n_ix_rolepermission_role_id,
     Drop_Index n_ix_rolepermission_permission_id,
     Drop_Table n_rolepermission,
     Drop_Table n_role,
     Drop_Table n_permission]"

definition m_9c2c0d4d37b6 :: migration where
  "m_9c2c0d4d37b6 = \<lparr>revision = ''9c2c0d4d37b6'', down_revision = Some ''985e491d90ce'',
     upgrade = up_9c2c0d4d37b6, downgrade = dn_9c2c0d4d37b6\<rparr>"

text \<open>\<open>fa33ae072ddc_make_user_id_fkeys_non_nullable.py\<close>\<close>

definition up_fa33ae072ddc :: "ddl list" where
  "up_fa33ae072ddc =
    [Set_Nullable n_address n_user_id False,
     Set_Nullable n_deviceauthtoken n_user_id False]"

definition dn_fa33ae072ddc :: "ddl list" where
  "dn_fa33ae072ddc =
    [Set_Nullable n_deviceauthtoken n_user_id True,
     Set_Nullable n_address n_user_id True]"

definition m_fa33ae072ddc :: migration where
  "m_fa33ae072ddc = \<lparr>revision = ''fa33ae072ddc'', down_revision = Some ''9c2c0d4d37b6'',
     upgrade = up_fa33ae072ddc, downgrade = dn_fa33ae072ddc\<rparr>"

text \<open>\<open>78752127d410_remove_is_admin_from_users.py\<close>\<close>

definition up_78752127d410 :: "ddl list" where
  "up_78752127d410 =
    [Drop_Column n_users n_is_admin]"

definition dn_78752127d410 :: "ddl list" where
  "dn_78752127d410 =
    [Add_Column n_users n_is_admin False]"

definition m_78752127d410 :: migration where
  "m_78752127d410 = \<lparr>revision = ''78752127d410'', down_revision = Some ''fa33ae072ddc'',
     upgrade = up_78752127d410, downgrade = dn_78752127d410\<rparr>"

text \<open>\<open>b77be959fb9a_update_phone.py\<close>\<close>

definition up_b77be959fb9a :: "ddl list" where
  "up_b77be959fb9a =
    [Create_Table n_userphone
       [(n_id, False, False), (n_user_id, False, False), (n_phone, False, False), (n_is_primary, False, False),
        (n_verified_at, False, False), (n_created_at, False, False)]
       [(None, Foreign_Key n_users, [n_user_id]), (None, Primary_Key, [n_id]), (None, Unique_Key, [n_phone])],
     Create_Index n_ix_userphone_user_id n_userphone [n_user_id] False None,
     Create_Constraint None n_credential Unique_Key [n_password_hash],
     Create_Constraint None n_credential Unique_Key [n_provider_user_id]]"

definition dn_b77be959fb9a :: "ddl list" where
  "dn_b77be959fb9a =
    [Drop_Constraint None n_credential,
     Drop_Constraint None n_credential,
     Drop_Index n_ix_userphone_user_id,
     Drop_Table n_userphone]"

definition m_b77be959fb9a :: migration where
  "m_b77be959fb9a = \<lparr>revision = ''b77be959fb9a'', down_revision = Some ''78752127d410'',
     upgrade = up_b77be959fb9a, downgrade = dn_b77be959fb9a\<rparr>"

text \<open>\<open>4636292cf99b_upadate_users_creds_userphone.py\<close>\<close>

definition up_4636292cf99b :: "ddl list" where
  "up_4636292cf99b =
    [Alter_Type n_credential n_provider_user_id,
     Alter_Type n_credential n_password_hash,
     Set_Nullable n_credential n_created_at False,
     Set_Nullable n_credential n_updated_at False,
     Drop_Constraint (Some n_credential_password_hash_key) n_credential,
     Drop_Constraint (Some n_credential_provider_user_id_key) n_credential,
     Set_Nullable n_userphone n_verified_at False,
     Set_Nullable n_userphone n_created_at False,
     Alter_Type n_users n_email,
     Alter_Type n_users n_profile_image_url,
     Alter_Type n_users n_profile_image_thumb_url,
     Drop_Index n_ix_user_public_id,
     Create_Index n_ix_users_public_id n_users [n_public_id] True None]"

definition dn_4636292cf99b :: "ddl list" where
  "dn_4636292cf99b = []"

definition m_4636292cf99b :: migration where
  "m_4636292cf99b = \<lparr>revision = ''4636292cf99b'', down_revision = Some ''b77be959fb9a'',
     upgrade = up_4636292cf99b, downgrade = dn_4636292cf99b\<rparr>"

text \<open>\<open>12d963799c5d_upadate_auth_session_and_token_tables.py\<close>\<close>

definition up_12d963799c5d :: "ddl list" where
  "up_12d963799c5d =
    [Alter_Type n_deviceauthtoken n_token_hash,
     Drop_Index n_ix_deviceauthtoken_token_hash,
     Create_Index n_ix_deviceauthtoken_token_hash n_deviceauthtoken [n_token_hash] True None,
     Drop_Constraint (Some n_deviceauthtoken_user_id_fkey) n_deviceauthtoken,
     Create_Constraint (Some n_deviceauthtoken_user_id_fkey) n_deviceauthtoken (Foreign_Key n_users) [n_user_id],
     Alter_Type n_devicesession n_session_token_hash,
     Alter_Type n_devicesession n_device_fingerprint_hash,
     Drop_Constraint (Some n_user_email_key) n_users]"

definition dn_12d963799c5d :: "ddl list" where
  "dn_12d963799c5d = []"

definition m_12d963799c5d :: migration where
  "m_12d963799c5d = \<lparr>revision = ''12d963799c5d'', down_revision = Some ''4636292cf99b'',
     upgrade = up_12d963799c5d, downgrade = dn_12d963799c5d\<rparr>"

text \<open>\<open>8f88d6a04818_add_usermedia.py\<close>\<close>

definition up_8f88d6a04818 :: "ddl list" where
  "up_8f88d6a04818 =
    [Create_Table n_usermedia
       [(n_id, False, False), (n_user_id, False, False), (n_profile_image_url, True, False),
        (n_profile_image_thumb_url, True, False)]
       [(None, Foreign_Key n_users, [n_user_id]), (None, Primary_Key, [n_id]), (None, Unique_Key, [n_user_id])],
     Drop_Column n_users n_profile_image_url,
     Drop_Column n_users n_profile_image_thumb_url]"

definition dn_8f88d6a04818 :: "ddl list" where
  "dn_8f88d6a04818 =
    [Add_Column n_users n_profile_image_thumb_url True,
     Add_Column n_users n_profile_image_url True,
     Drop_Table n_usermedia]"

definition m_8f88d6a04818 :: migration where
  "m_8f88d6a04818 = \<lparr>revision = ''8f88d6a04818'', down_revision = Some ''12d963799c5d'',
     upgrade = up_8f88d6a04818, downgrade = dn_8f88d6a04818\<rparr>"

text \<open>\<open>784f17aaae55_update_indexes.py\<close>\<close>

definition up_784f17aaae55 :: "ddl list" where
  "up_784f17aaae55 =
    [Drop_Index n_ix_deviceauthtoken_token_hash,
     Create_Index n_idx_deviceauthtoken_tokenhash_active n_deviceauthtoken [n_token_hash] False (Some p_revoked_at_is_null),
     Create_Index n_idx_users_email_active n_users [n_email] False (Some p_deleted_at_is_null)]"

definition dn_784f17aaae55 :: "ddl list" where
  "dn_784f17aaae55 =
    [Drop_Index n_idx_users_email_active,
     Drop_Index n_idx_deviceauthtoken_tokenhash_active,
     Create_Index n_ix_deviceauthtoken_token_hash n_deviceauthtoken [n_token_hash] False None]"

definition m_784f17aaae55 :: migration where
  "m_784f17aaae55 = \<lparr>revision = ''784f17aaae55'', down_revision = Some ''8f88d6a04818'',
     upgrade = up_784f17aaae55, downgrade = dn_784f17aaae55\<rparr>"

text \<open>\<open>d6349403285d_add_default_roles_and_permissions.py\<close>\<close>

definition up_d6349403285d :: "ddl list" where
  "up_d6349403285d =
    [Write_Rows n_role [n_name, n_description] None,
     Write_Rows n_permission [n_name, n_description] None,
     Write_Rows n_permission [n_id, n_name] None,
     Write_Rows n_role [n_id, n_name] None,
     Write_Rows n_rolepermission [n_role_id, n_permission_id] None]"

definition dn_d6349403285d :: "ddl list" where
  "dn_d6349403285d = []"

definition m_d6349403285d :: migration where
  "m_d6349403285d = \<lparr>revision = ''d6349403285d'', down_revision = Some ''784f17aaae55'',
     upgrade = up_d6349403285d, downgrade = dn_d6349403285d\<rparr>"

text \<open>\<open>cc31f3b133b2_add_role_version_to_users.py\<close>\<close>

definition up_cc31f3b133b2 :: "ddl list" where
  "up_cc31f3b133b2 =
    [Add_Column n_users n_role_version False]"

definition dn_cc31f3b133b2 :: "ddl list" where
  "dn_cc31f3b133b2 =
    [Drop_Column n_users n_role_version]"

definition m_cc31f3b133b2 :: migration where
  "m_cc31f3b133b2 = \<lparr>revision = ''cc31f3b133b2'', down_revision = Some ''d6349403285d'',
     upgrade = up_cc31f3b133b2, downgrade = dn_cc31f3b133b2\<rparr>"

text \<open>\<open>baa96f7c37bd_add_products_schema.py\<close>\<close>

definition up_baa96f7c37bd :: "ddl list" where
  "up_baa96f7c37bd =
    [Create_Table n_productcategory
       [(n_id, False, False), (n_name, False, False), (n_description, True, False), (n_created_at, False, False),
        (n_updated_at, False, False)]
       [(None, Primary_Key, [n_id]), (None, Unique_Key, [n_name])],
     Create_Table n_product
       [(n_id, False, False), (n_public_id, False, False), (n_stock_qty, False, False), (n_sku, True, False),
        (n_name, False, False), (n_description, True, False), (n_base_price, False, False), (n_specs, True, False),
        (n_owner_id, True, False), (n_created_at, False, False), (n_updated_at, False, False),
        (n_deleted_at, True, False)]
       [(None, Foreign_Key n_users, [n_owner_id]), (None, Primary_Key, [n_id])],
     Create_Index n_ix_product_owner_id n_product [n_owner_id] False None,
     Create_Index n_ix_product_public_id n_product [n_public_id] True None,
     Create_Table n_productcategorylink
       [(n_id, False, False), (n_product_id, False, False), (n_prod_category_id, False, False)]
       [(None, Foreign_Key n_productcategory, [n_prod_category_id]), (None, Foreign_Key n_product, [n_product_id]),
        (None, Primary_Key, [n_id]), (Some n_uq_product_category, Unique_Key, [n_product_id, n_prod_category_id])],
     Create_Index n_ix_productcategorylink_prod_category_id n_productcategorylink [n_prod_category_id] False None,
     Create_Index n_ix_productcategorylink_product_id n_productcategorylink [n_product_id] False None,
     Create_Table n_productimage
       [(n_id, False, False), (n_product_id, False, False), (n_public_id, False, False),
        (n_storage_key, False, False), (n_bucket, True, False), (n_mime_type, True, False),
        (n_file_size, True, False), (n_checksum, True, False), (n_variants, True, False), (n_status, False, False),
        (n_orig_filename, True, False), (n_sort_order, False, False), (n_alt_text, True, False),
        (n_created_at, False, False), (n_updated_at, False, False)]
       [(None, Foreign_Key n_product, [n_product_id]), (None, Primary_Key, [n_id])],
     Create_Index n_ix_productimage_product_id n_productimage [n_product_id] False None,
     Create_Index n_ix_productimage_public_id n_productimage [n_public_id] True None]"

definition dn_baa96f7c37bd :: "ddl list" where
  "dn_baa96f7c37bd =
    [Drop_Index n_ix_productimage_public_id,
     Drop_Index n_ix_productimage_product_id,
     Drop_Table n_productimage,
     Drop_Index n_ix_productcategorylink_product_id,
     Drop_Index n_ix_productcategorylink_prod_category_id,
     Drop_Table n_productcategorylink,
     Drop_Index n_ix_product_public_id,
     Drop_Index n_ix_product_owner_id,
     Drop_Table n_product,
     Drop_Table n_productcategory]"

definition m_baa96f7c37bd :: migration where
  "m_baa96f7c37bd = \<lparr>revision = ''baa96f7c37bd'', down_revision = Some ''cc31f3b133b2'',
     upgrade = up_baa96f7c37bd, downgrade = dn_baa96f7c37bd\<rparr>"

text \<open>\<open>f0d1fdde3e6e_unique_constraint_on_checksum.py\<close>\<close>

definition up_f0d1fdde3e6e :: "ddl list" where
  "up_f0d1fdde3e6e =
    [Create_Constraint None n_productimage Unique_Key [n_checksum]]"

definition dn_f0d1fdde3e6e :: "ddl list" where
  "dn_f0d1fdde3e6e =
    [Drop_Constraint None n_productimage]"

definition m_f0d1fdde3e6e :: migration where
  "m_f0d1fdde3e6e = \<lparr>revision = ''f0d1fdde3e6e'', down_revision = Some ''baa96f7c37bd'',
     upgrade = up_f0d1fdde3e6e, downgrade = dn_f0d1fdde3e6e\<rparr>"

text \<open>\<open>4d23f512513a_add_roleaudit_schema.py\<close>\<close>

definition up_4d23f512513a :: "ddl list" where
  "up_4d23f512513a =
    [Create_Table n_roleaudit
       [(n_id, False, False), (n_actor_user_id, True, False), (n_target_user_id, True, False),
        (n_old_roles, False, False), (n_new_roles, False, False), (n_reason, True, False),
        (n_created_at, False, False), (n_updated_at, False, False)]
       [(None, Foreign_Key n_users, [n_actor_user_id]), (None, Foreign_Key n_users, [n_target_user_id]),
        (None, Primary_Key, [n_id])]]"

definition dn_4d23f512513a :: "ddl list" where
  "dn_4d23f512513a =
    [Drop_Table n_roleaudit]"

definition m_4d23f512513a :: migration where
  "m_4d23f512513a = \<lparr>revision = ''4d23f512513a'', down_revision = Some ''f0d1fdde3e6e'',
     upgrade = up_4d23f512513a, downgrade = dn_4d23f512513a\<rparr>"

text \<open>\<open>25d460f457df_seed_product_categories.py\<close>\<close>

definition up_25d460f457df :: "ddl list" where
  "up_25d460f457df =
    [Write_Rows n_productcategory [n_name, n_description, n_created_at, n_updated_at] (Some [n_name])]"

definition dn_25d460f457df :: "ddl list" where
  "dn_25d460f457df =
    [Write_Rows n_productcategory [n_name] None]"

definition m_25d460f457df :: migration where
  "m_25d460f457df = \<lparr>revision = ''25d460f457df'', down_revision = Some ''4d23f512513a'',
     upgrade = up_25d460f457df, downgrade = dn_25d460f457df\<rparr>"

text \<open>\<open>fada620b607b_unique_constraint_on_product_name.py\<close>\<close>

definition up_fada620b607b :: "ddl list" where
  "up_fada620b607b = []"

definition dn_fada620b607b :: "ddl list" where
  "dn_fada620b607b = []"

definition m_fada620b607b :: migration where
  "m_fada620b607b = \<lparr>revision = ''fada620b607b'', down_revision = Some ''25d460f457df'',
     upgrade = up_fada620b607b, downgrade = dn_fada620b607b\<rparr>"

text \<open>\<open>59dcc8fe9422_unique_constraint_on_product_name_and_.py\<close>\<close>

definition up_59dcc8fe9422 :: "ddl list" where
  "up_59dcc8fe9422 =
    [Create_Constraint (Some n_uq_product_name_owner_id) n_product Unique_Key [n_owner_id, n_name]]"

definition dn_59dcc8fe9422 :: "ddl list" where
  "dn_59dcc8fe9422 =
    [Drop_Constraint (Some n_uq_product_name_owner_id) n_product]"

definition m_59dcc8fe9422 :: migration where
  "m_59dcc8fe9422 = \<lparr>revision = ''59dcc8fe9422'', down_revision = Some ''fada620b607b'',
     upgrade = up_59dcc8fe9422, downgrade = dn_59dcc8fe9422\<rparr>"

text \<open>\<open>06185d75b687_change_indexes_for_users_email_and_.py\<close>\<close>

definition up_06185d75b687 :: "ddl list" where
  "up_06185d75b687 =
    [Drop_Constraint (Some n_uq_product_name_owner_id) n_product,
     Drop_Index n_ix_product_owner_id,
     Create_Index n_ix_product_owner_id n_product [n_owner_id] True None,
     Drop_Index n_idx_users_email_active,
     Create_Constraint None n_users Unique_Key [n_email]]"

definition dn_06185d75b687 :: "ddl list" where
  "dn_06185d75b687 =
    [Drop_Constraint None n_users,
     Create_Index n_idx_users_email_active n_users [n_email] False (Some p_deleted_at_is_null_paren),
     Drop_Index n_ix_product_owner_id,
     Create_Index n_ix_product_owner_id n_product [n_owner_id] False None,
     Create_Constraint (Some n_uq_product_name_owner_id) n_product Unique_Key [n_owner_id, n_name]]"

definition m_06185d75b687 :: migration where
  "m_06185d75b687 = \<lparr>revision = ''06185d75b687'', down_revision = Some ''59dcc8fe9422'',
     upgrade = up_06185d75b687, downgrade = dn_06185d75b687\<rparr>"

text \<open>\<open>9b22228461ba_add_imagecontent_table_and_chnages_to_.py\<close>\<close>

definition up_9b22228461ba :: "ddl list" where
  "up_9b22228461ba =
    [Create_Table n_imagecontent
       [(n_id, False, False), (n_checksum, False, False), (n_owner_id, True, False), (n_public_id, False, False),
        (n_provider_public_id, True, False), (n_url, True, False), (n_meta, True, False),
        (n_created_at, False, False)]
       [(None, Foreign_Key n_users, [n_owner_id]), (None, Primary_Key, [n_id]), (None, Unique_Key, [n_checksum])],
     Create_Index n_ix_imagecontent_owner_id n_imagecontent [n_owner_id] False None,
     Create_Index n_ix_imagecontent_public_id n_imagecontent [n_public_id] True None,
     Add_Column n_productimage n_content_id False,
     Add_Column n_productimage n_storage_provider False,
     Drop_Constraint (Some n_productimage_checksum_key) n_productimage,
     Create_Constraint None n_productimage Unique_Key [n_storage_key],
     Create_Constraint None n_productimage (Foreign_Key n_imagecontent) [n_content_id],
     Drop_Column n_productimage n_checksum]"

definition dn_9b22228461ba :: "ddl list" where
  "dn_9b22228461ba =
    [Add_Column n_productimage n_checksum True,
     Drop_Constraint None n_productimage,
     Drop_Constraint None n_productimage,
     Create_Constraint (Some n_productimage_checksum_key) n_productimage Unique_Key [n_checksum],
     Drop_Column n_productimage n_storage_provider,
     Drop_Column n_productimage n_content_id,
     Drop_Index n_ix_imagecontent_public_id,
     Drop_Index n_ix_imagecontent_owner_id,
     Drop_Table n_imagecontent]"

definition m_9b22228461ba :: migration where
  "m_9b22228461ba = \<lparr>revision = ''9b22228461ba'', down_revision = Some ''06185d75b687'',
     upgrade = up_9b22228461ba, downgrade = dn_9b22228461ba\<rparr>"

text \<open>\<open>a8a7a2c5656d_make_storage_key_nullable.py\<close>\<close>

definition up_a8a7a2c5656d :: "ddl list" where
  "up_a8a7a2c5656d =
    [Set_Nullable n_productimage n_storage_key True]"

definition dn_a8a7a2c5656d :: "ddl list" where
  "dn_a8a7a2c5656d =
    [Set_Nullable n_productimage n_storage_key False]"

definition m_a8a7a2c5656d :: migration where
  "m_a8a7a2c5656d = \<lparr>revision = ''a8a7a2c5656d'', down_revision = Some ''9b22228461ba'',
     upgrade = up_a8a7a2c5656d, downgrade = dn_a8a7a2c5656d\<rparr>"

text \<open>\<open>c2b7a7d37040_add_providerwebhookevent_table.py\<close>\<close>

definition up_c2b7a7d37040 :: "ddl list" where
  "up_c2b7a7d37040 =
    [Create_Table n_providerwebhookevent
       [(n_id, False, False), (n_provider_event_id, False, False), (n_provider, False, False),
        (n_payload, False, False), (n_received_at, False, False), (n_processed, False, False),
        (n_processed_at, True, False)]
       [(None, Primary_Key, [n_id]),
        (Some n_uq_providerwebhookevent_provider_event_id, Unique_Key, [n_provider_event_id])]]"

definition dn_c2b7a7d37040 :: "ddl list" where
  "dn_c2b7a7d37040 =
    [Drop_Table n_providerwebhookevent]"

definition m_c2b7a7d37040 :: migration where
  "m_c2b7a7d37040 = \<lparr>revision = ''c2b7a7d37040'', down_revision = Some ''a8a7a2c5656d'',
     upgrade = up_c2b7a7d37040, downgrade = dn_c2b7a7d37040\<rparr>"

text \<open>\<open>221d286f97e1_add_attempts_to_providerwebhookevent.py\<close>\<close>

definition up_221d286f97e1 :: "ddl list" where
  "up_221d286f97e1 =
    [Add_Column n_providerwebhookevent n_attempts True,
     Set_Nullable n_providerwebhookevent n_provider True]"

definition dn_221d286f97e1 :: "ddl list" where
  "dn_221d286f97e1 =
    [Set_Nullable n_providerwebhookevent n_provider False,
     Drop_Column n_providerwebhookevent n_attempts]"

definition m_221d286f97e1 :: migration where
  "m_221d286f97e1 = \<lparr>revision = ''221d286f97e1'', down_revision = Some ''c2b7a7d37040'',
     upgrade = up_221d286f97e1, downgrade = dn_221d286f97e1\<rparr>"

text \<open>\<open>30391ecae7f8_remove_owner_id_from_imagecontent.py\<close>\<close>

definition up_30391ecae7f8 :: "ddl list" where
  "up_30391ecae7f8 =
    [Drop_Index n_ix_imagecontent_owner_id,
     Drop_Constraint (Some n_imagecontent_owner_id_fkey) n_imagecontent,
     Drop_Column n_imagecontent n_owner_id]"

definition dn_30391ecae7f8 :: "ddl list" where
  "dn_30391ecae7f8 =
    [Add_Column n_imagecontent n_owner_id True,
     Create_Constraint (Some n_imagecontent_owner_id_fkey) n_imagecontent (Foreign_Key n_users) [n_owner_id],
     Create_Index n_ix_imagecontent_owner_id n_imagecontent [n_owner_id] False None]"

definition m_30391ecae7f8 :: migration where
  "m_30391ecae7f8 = \<lparr>revision = ''30391ecae7f8'', down_revision = Some ''221d286f97e1'',
     upgrade = up_30391ecae7f8, downgrade = dn_30391ecae7f8\<rparr>"

text \<open>\<open>a07e0983d85b_make_content_id_in_product_image_to_be_.py\<close>\<close>

definition up_a07e0983d85b :: "ddl list" where
  "up_a07e0983d85b =
    [Set_Nullable n_productimage n_content_id True,
     Drop_Column n_providerwebhookevent n_processed]"

definition dn_a07e0983d85b :: "ddl list" where
  "dn_a07e0983d85b =
    [Add_Column n_providerwebhookevent n_processed False,
     Set_Nullable n_productimage n_content_id False]"

definition m_a07e0983d85b :: migration where
  "m_a07e0983d85b = \<lparr>revision = ''a07e0983d85b'', down_revision = Some ''30391ecae7f8'',
     upgrade = up_a07e0983d85b, downgrade = dn_a07e0983d85b\<rparr>"

text \<open>\<open>e6c9eae03d91_remove_accidentally_placed_unique_from_.py\<close>\<close>

definition up_e6c9eae03d91 :: "ddl list" where
  "up_e6c9eae03d91 =
    [Drop_Index n_ix_product_owner_id,
     Create_Index n_ix_product_owner_id n_product [n_owner_id] False None]"

definition dn_e6c9eae03d91 :: "ddl list" where
  "dn_e6c9eae03d91 =
    [Drop_Index n_ix_product_owner_id,
     Create_Index n_ix_product_owner_id n_product [n_owner_id] True None]"

definition m_e6c9eae03d91 :: migration where
  "m_e6c9eae03d91 = \<lparr>revision = ''e6c9eae03d91'', down_revision = Some ''a07e0983d85b'',
     upgrade = up_e6c9eae03d91, downgrade = dn_e6c9eae03d91\<rparr>"

text \<open>\<open>e76c07f505a3_add_carts_schema.py\<close>\<close>

definition up_e76c07f505a3 :: "ddl list" where
  "up_e76c07f505a3 =
    [Create_Table n_cart
       [(n_id, False, False), (n_user_id, True, False), (n_session_id, True, False), (n_created_at, False, False),
        (n_updated_at, False, False)]
       [(None, Foreign_Key n_devicesession, [n_session_id]), (None, Foreign_Key n_users, [n_user_id]),
        (None, Primary_Key, [n_id])],
     Create_Index n_ix_cart_session_id n_cart [n_session_id] False None,
     Create_Index n_ix_cart_user_id n_cart [n_user_id] False None,
     Create_Table n_cartitem
       [(n_id, False, False), (n_cart_id, True, False), (n_product_id, False, False), (n_quantity, False, False),
        (n_unit_price_snapshot, False, False), (n_created_at, False, False), (n_deleted_at, True, False)]
       [(None, Foreign_Key n_cart, [n_cart_id]), (None, Foreign_Key n_product, [n_product_id]),
        (None, Primary_Key, [n_id]), (Some n_uq_cart_product, Unique_Key, [n_cart_id, n_product_id])]]"

definition dn_e76c07f505a3 :: "ddl list" where
  "dn_e76c07f505a3 =
    [Drop_Table n_cartitem,
     Drop_Index n_ix_cart_user_id,
     Drop_Index n_ix_cart_session_id,
     Drop_Table n_cart]"

definition m_e76c07f505a3 :: migration where
  "m_e76c07f505a3 = \<lparr>revision = ''e76c07f505a3'', down_revision = Some ''e6c9eae03d91'',
     upgrade = up_e76c07f505a3, downgrade = dn_e76c07f505a3\<rparr>"

definition catalogue_history :: "migration list" where
  "catalogue_history =
    [m_9c56107ee0e2, m_fbef4fd0439f, m_985e491d90ce, m_9c2c0d4d37b6, m_fa33ae072ddc, m_78752127d410,
        m_b77be959fb9a, m_4636292cf99b, m_12d963799c5d, m_8f88d6a04818, m_784f17aaae55, m_d6349403285d,
        m_cc31f3b133b2, m_baa96f7c37bd, m_f0d1fdde3e6e, m_4d23f512513a, m_25d460f457df, m_fada620b607b,
        m_59dcc8fe9422, m_06185d75b687, m_9b22228461ba, m_a8a7a2c5656d, m_c2b7a7d37040, m_221d286f97e1,
        m_30391ecae7f8, m_a07e0983d85b, m_e6c9eae03d91, m_e76c07f505a3]"

text \<open>For the simplifier: unfold a migration when its turn comes.\<close>

lemmas catalogue_history_runs =
  upgrade_step [OF m_9c56107ee0e2_def] downgrade_step [OF m_9c56107ee0e2_def] arg_cong [where f = ddl_run, OF up_9c56107ee0e2_def] arg_cong [where f = ddl_run, OF dn_9c56107ee0e2_def]
  upgrade_step [OF m_fbef4fd0439f_def] downgrade_step [OF m_fbef4fd0439f_def] arg_cong [where f = ddl_run, OF up_fbef4fd0439f_def] arg_cong [where f = ddl_run, OF dn_fbef4fd0439f_def]
  upgrade_step [OF m_985e491d90ce_def] downgrade_step [OF m_985e491d90ce_def] arg_cong [where f = ddl_run, OF up_985e491d90ce_def] arg_cong [where f = ddl_run, OF dn_985e491d90ce_def]
  upgrade_step [OF m_9c2c0d4d37b6_def] downgrade_step [OF m_9c2c0d4d37b6_def] arg_cong [where f = ddl_run, OF up_9c2c0d4d37b6_def] arg_cong [where f = ddl_run, OF dn_9c2c0d4d37b6_def]
  upgrade_step [OF m_fa33ae072ddc_def] downgrade_step [OF m_fa33ae072ddc_def] arg_cong [where f = ddl_run, OF up_fa33ae072ddc_def] arg_cong [where f = ddl_run, OF dn_fa33ae072ddc_def]
  upgrade_step [OF m_78752127d410_def] downgrade_step [OF m_78752127d410_def] arg_cong [where f = ddl_run, OF up_78752127d410_def] arg_cong [where f = ddl_run, OF dn_78752127d410_def]
  upgrade_step [OF m_b77be959fb9a_def] downgrade_step [OF m_b77be959fb9a_def] arg_cong [where f = ddl_run, OF up_b77be959fb9a_def] arg_cong [where f = ddl_run, OF dn_b77be959fb9a_def]
  upgrade_step [OF m_4636292cf99b_def] downgrade_step [OF m_4636292cf99b_def] arg_cong [where f = ddl_run, OF up_4636292cf99b_def] arg_cong [where f = ddl_run, OF dn_4636292cf99b_def]
  upgrade_step [OF m_12d963799c5d_def] downgrade_step [OF m_12d963799c5d_def] arg_cong [where f = ddl_run, OF up_12d963799c5d_def] arg_cong [where f = ddl_run, OF dn_12d963799c5d_def]
  upgrade_step [OF m_8f88d6a04818_def] downgrade_step [OF m_8f88d6a04818_def] arg_cong [where f = ddl_run, OF up_8f88d6a04818_def] arg_cong [where f = ddl_run, OF dn_8f88d6a04818_def]
  upgrade_step [OF m_784f17aaae55_def] downgrade_step [OF m_784f17aaae55_def] arg_cong [where f = ddl_run, OF up_784f17aaae55_def] arg_cong [where f = ddl_run, OF dn_784f17aaae55_def]
  upgrade_step [OF m_d6349403285d_def] downgrade_step [OF m_d6349403285d_def] arg_cong [where f = ddl_run, OF up_d6349403285d_def] arg_cong [where f = ddl_run, OF dn_d6349403285d_def]
  upgrade_step [OF m_cc31f3b133b2_def] downgrade_step [OF m_cc31f3b133b2_def] arg_cong [where f = ddl_run, OF up_cc31f3b133b2_def] arg_cong [where f = ddl_run, OF dn_cc31f3b133b2_def]
  upgrade_step [OF m_baa96f7c37bd_def] downgrade_step [OF m_baa96f7c37bd_def] arg_cong [where f = ddl_run, OF up_baa96f7c37bd_def] arg_cong [where f = ddl_run, OF dn_baa96f7c37bd_def]
  upgrade_step [OF m_f0d1fdde3e6e_def] downgrade_step [OF m_f0d1fdde3e6e_def] arg_cong [where f = ddl_run, OF up_f0d1fdde3e6e_def] arg_cong [where f = ddl_run, OF dn_f0d1fdde3e6e_def]
  upgrade_step [OF m_4d23f512513a_def] downgrade_step [OF m_4d23f512513a_def] arg_cong [where f = ddl_run, OF up_4d23f512513a_def] arg_cong [where f = ddl_run, OF dn_4d23f512513a_def]
  upgrade_step [OF m_25d460f457df_def] downgrade_step [OF m_25d460f457df_def] arg_cong [where f = ddl_run, OF up_25d460f457df_def] arg_cong [where f = ddl_run, OF dn_25d460f457df_def]
  upgrade_step [OF m_fada620b607b_def] downgrade_step [OF m_fada620b607b_def] arg_cong [where f = ddl_run, OF up_fada620b607b_def] arg_cong [where f = ddl_run, OF dn_fada620b607b_def]
  upgrade_step [OF m_59dcc8fe9422_def] downgrade_step [OF m_59dcc8fe9422_def] arg_cong [where f = ddl_run, OF up_59dcc8fe9422_def] arg_cong [where f = ddl_run, OF dn_59dcc8fe9422_def]
  upgrade_step [OF m_06185d75b687_def] downgrade_step [OF m_06185d75b687_def] arg_cong [where f = ddl_run, OF up_06185d75b687_def] arg_cong [where f = ddl_run, OF dn_06185d75b687_def]
  upgrade_step [OF m_9b22228461ba_def] downgrade_step [OF m_9b22228461ba_def] arg_cong [where f = ddl_run, OF up_9b22228461ba_def] arg_cong [where f = ddl_run, OF dn_9b22228461ba_def]
  upgrade_step [OF m_a8a7a2c5656d_def] downgrade_step [OF m_a8a7a2c5656d_def] arg_cong [where f = ddl_run, OF up_a8a7a2c5656d_def] arg_cong [where f = ddl_run, OF dn_a8a7a2c5656d_def]
  upgrade_step [OF m_c2b7a7d37040_def] downgrade_step [OF m_c2b7a7d37040_def] arg_cong [where f = ddl_run, OF up_c2b7a7d37040_def] arg_cong [where f = ddl_run, OF dn_c2b7a7d37040_def]
  upgrade_step [OF m_221d286f97e1_def] downgrade_step [OF m_221d286f97e1_def] arg_cong [where f = ddl_run, OF up_221d286f97e1_def] arg_cong [where f = ddl_run, OF dn_221d286f97e1_def]
  upgrade_step [OF m_30391ecae7f8_def] downgrade_step [OF m_30391ecae7f8_def] arg_cong [where f = ddl_run, OF up_30391ecae7f8_def] arg_cong [where f = ddl_run, OF dn_30391ecae7f8_def]
  upgrade_step [OF m_a07e0983d85b_def] downgrade_step [OF m_a07e0983d85b_def] arg_cong [where f = ddl_run, OF up_a07e0983d85b_def] arg_cong [where f = ddl_run, OF dn_a07e0983d85b_def]
  upgrade_step [OF m_e6c9eae03d91_def] downgrade_step [OF m_e6c9eae03d91_def] arg_cong [where f = ddl_run, OF up_e6c9eae03d91_def] arg_cong [where f = ddl_run, OF dn_e6c9eae03d91_def]
  upgrade_step [OF m_e76c07f505a3_def] downgrade_step [OF m_e76c07f505a3_def] arg_cong [where f = ddl_run, OF up_e76c07f505a3_def] arg_cong [where f = ddl_run, OF dn_e76c07f505a3_def]

lemmas catalogue_history_links =
  chained_step [OF m_9c56107ee0e2_def]
  chained_step [OF m_fbef4fd0439f_def]
  chained_step [OF m_985e491d90ce_def]
  chained_step [OF m_9c2c0d4d37b6_def]
  chained_step [OF m_fa33ae072ddc_def]
  chained_step [OF m_78752127d410_def]
  chained_step [OF m_b77be959fb9a_def]
  chained_step [OF m_4636292cf99b_def]
  chained_step [OF m_12d963799c5d_def]
  chained_step [OF m_8f88d6a04818_def]
  chained_step [OF m_784f17aaae55_def]
  chained_step [OF m_d6349403285d_def]
  chained_step [OF m_cc31f3b133b2_def]
  chained_step [OF m_baa96f7c37bd_def]
  chained_step [OF m_f0d1fdde3e6e_def]
  chained_step [OF m_4d23f512513a_def]
  chained_step [OF m_25d460f457df_def]
  chained_step [OF m_fada620b607b_def]
  chained_step [OF m_59dcc8fe9422_def]
  chained_step [OF m_06185d75b687_def]
  chained_step [OF m_9b22228461ba_def]
  chained_step [OF m_a8a7a2c5656d_def]
  chained_step [OF m_c2b7a7d37040_def]
  chained_step [OF m_221d286f97e1_def]
  chained_step [OF m_30391ecae7f8_def]
  chained_step [OF m_a07e0983d85b_def]
  chained_step [OF m_e6c9eae03d91_def]
  chained_step [OF m_e76c07f505a3_def]

end
