(* ===== verification/History_Orders.thy ===== *)
theory History_Orders
  imports History_Catalogue
begin

text \<open>
  The migrations 29 to 67 of \<open>src/migrations/versions\<close>, in the order of their \<open>down_revision\<close>:
  orders, payments, events, and the later corrections. Every definition lists the
  operations of one \<open>upgrade\<close> or \<open>downgrade\<close>, as they stand.
\<close>

text \<open>\<open>ad81e16d8089_add_user_id_to_device_session_make_cart_.py\<close>\<close>

definition up_ad81e16d8089 :: "ddl list" where
  "up_ad81e16d8089 =
    [Drop_Constraint (Some n_cart_session_id_fkey) n_cart,
     Create_Constraint None n_cart (Foreign_Key n_devicesession) [n_session_id],
     Add_Column n_devicesession n_user_id True,
     Create_Index n_ix_devicesession_user_id n_devicesession [n_user_id] False None,
     Create_Constraint None n_devicesession (Foreign_Key n_users) [n_user_id]]"

definition dn_ad81e16d8089 :: "ddl list" where
  "dn_ad81e16d8089 =
    [Drop_Constraint None n_devicesession,
     Drop_Index n_ix_devicesession_user_id,
     Drop_Column n_devicesession n_user_id,
     Drop_Constraint None n_cart,
     Create_Constraint (Some n_cart_session_id_fkey) n_cart (Foreign_Key n_devicesession) [n_session_id]]"

definition m_ad81e16d8089 :: migration where
  "m_ad81e16d8089 = \<lparr>revision = ''ad81e16d8089'', down_revision = Some ''e76c07f505a3'',
     upgrade = up_ad81e16d8089, downgrade = dn_ad81e16d8089\<rparr>"

text \<open>\<open>6db8e701bec2_add_uniqueness_on_user_id_and_session_.py\<close>\<close>

definition up_6db8e701bec2 :: "ddl list" where
  "up_6db8e701bec2 =
    [Drop_Index n_ix_cart_session_id,
     Create_Index n_ix_cart_session_id n_cart [n_session_id] True None,
     Drop_Index n_ix_cart_user_id,
     Create_Index n_ix_cart_user_id n_cart [n_user_id] True None]"

definition dn_6db8e701bec2 :: "ddl list" where
  "dn_6db8e701bec2 =
    [Drop_Index n_ix_cart_user_id,
     Create_Index n_ix_cart_user_id n_cart [n_user_id] False None,
     Drop_Index n_ix_cart_session_id,
     Create_Index n_ix_cart_session_id n_cart [n_session_id] False None]"

definition m_6db8e701bec2 :: migration where
  "m_6db8e701bec2 = \<lparr>revision = ''6db8e701bec2'', down_revision = Some ''ad81e16d8089'',
     upgrade = up_6db8e701bec2, downgrade = dn_6db8e701bec2\<rparr>"

text \<open>\<open>bad278474755_fix_cart_and_user_link_plus_remove_cart_.py\<close>\<close>

definition up_bad278474755 :: "ddl list" where
  "up_bad278474755 =
    [Drop_Column n_cartitem n_unit_price_snapshot]"

definition dn_bad278474755 :: "ddl list" where
  "dn_bad278474755 =
    [Add_Column n_cartitem n_unit_price_snapshot False]"

definition m_bad278474755 :: migration where
  "m_bad278474755 = \<lparr>revision = ''bad278474755'', down_revision = Some ''6db8e701bec2'',
     upgrade = up_bad278474755, downgrade = dn_bad278474755\<rparr>"

text \<open>\<open>41646b24ac62_make_cart_id_on_delete_cascade.py\<close>\<close>

definition up_41646b24ac62 :: "ddl list" where
  "up_41646b24ac62 =
    [Drop_Constraint (Some n_cartitem_cart_id_fkey) n_cartitem,
     Create_Constraint None n_cartitem (Foreign_Key n_cart) [n_cart_id]]"

definition dn_41646b24ac62 :: "ddl list" where
  "dn_41646b24ac62 =
    [Drop_Constraint None n_cartitem,
     Create_Constraint (Some n_cartitem_cart_id_fkey) n_cartitem (Foreign_Key n_cart) [n_cart_id]]"

definition m_41646b24ac62 :: migration where
  "m_41646b24ac62 = \<lparr>revision = ''41646b24ac62'', down_revision = Some ''bad278474755'',
     upgrade = up_41646b24ac62, downgrade = dn_41646b24ac62\<rparr>"

text \<open>\<open>5bd854ed6dce_create_orders_schema.py\<close>\<close>

definition up_5bd854ed6dce :: "ddl list" where
  "up_5bd854ed6dce =
    [Create_Table n_checkoutsession
       [(n_id, False, False), (n_public_id, False, False), (n_user_id, True, False), (n_session_id, True, False),
        (n_cart_snapshot, True, False), (n_selected_payment_method, True, False), (n_expires_at, True, False),
        (n_created_at, False, False), (n_updated_at, False, False)]
       [(None, Primary_Key, [n_id])],
     Create_Index n_ix_checkoutsession_expires_at n_checkoutsession [n_expires_at] False None,
     Create_Index n_ix_checkoutsession_public_id n_checkoutsession [n_public_id] True None,
     Create_Index n_ix_checkoutsession_session_id n_checkoutsession [n_session_id] False None,
     Create_Index n_ix_checkoutsession_user_id n_checkoutsession [n_user_id] False None,
     Create_Table n_idempotencykey
       [(n_id, False, False), (n_key, False, False), (n_created_by, False, False), (n_owner_type, True, False),
        (n_owner_id, True, False), (n_request_hash, True, False), (n_response_code, True, False),
        (n_response_body, True, False), (n_created_at, False, False), (n_expires_at, True, False)]
       [(None, Primary_Key, [n_id])],
     Create_Index n_ix_idempotencykey_expires_at n_idempotencykey [n_expires_at] False None,
     Create_Index n_ix_idempotencykey_key n_idempotencykey [n_key] True None,
     Create_Table n_inventoryreservation
       [(n_id, False, False), (n_product_id, False, False), (n_checkout_session_id, True, False),
        (n_order_id, True, False), (n_quantity, False, False), (n_reserved_until, True, False),
        (n_status, False, False), (n_created_at, False, False)]
       [(None, Primary_Key, [n_id])],
     Create_Index n_ix_inventoryreservation_checkout_session_id n_inventoryreservation [n_checkout_session_id] False None,
     Create_Index n_ix_inventoryreservation_order_id n_inventoryreservation [n_order_id] False None,
     Create_Index n_ix_inventoryreservation_product_id n_inventoryreservation [n_product_id] False None,
     Create_Index n_ix_inventoryreservation_reserved_until n_inventoryreservation [n_reserved_until] False None,
     Create_Index n_ix_inventoryreservation_status n_inventoryreservation [n_status] False None,
     Create_Table n_order
       [(n_id, False, False), (n_public_id, False, False), (n_user_id, True, False), (n_session_id, True, False),
        (n_status, False, False), (n_currency, False, False), (n_subtotal, False, False), (n_tax, False, False),
        (n_shipping, False, False), (n_discount, False, False), (n_total, False, False),
        (n_shipping_address_json, False, False), (n_billing_address_json, True, False),
        (n_payment_method, True, False), (n_created_at, False, False), (n_updated_at, False, False),
        (n_placed_at, True, False), (n_delievered_at, True, False)]
       [(None, Foreign_Key n_devicesession, [n_session_id]), (None, Foreign_Key n_users, [n_user_id]),
        (None, Primary_Key, [n_id])],
     Create_Index n_ix_order_public_id n_order [n_public_id] True None,
     Create_Index n_ix_order_session_id n_order [n_session_id] False None,
     Create_Index n_ix_order_status n_order [n_status] False None,
     Create_Index n_ix_order_user_id n_order [n_user_id] False None,
     Create_Table n_orderitem
       [(n_id, False, False), (n_order_id, False, False), (n_product_id, False, False), (n_sku, True, False),
        (n_quantity, False, False), (n_unit_price_snapshot, False, False), (n_tax_snapshot, True, False),
        (n_discount_snapshot, True, False), (n_meta, True, False)]
       [(None, Foreign_Key n_order, [n_order_id]), (None, Foreign_Key n_product, [n_product_id]),
        (None, Primary_Key, [n_id]), (Some n_uq_order_product, Unique_Key, [n_order_id, n_product_id])]]"

definition dn_5bd854ed6dce :: "ddl list" where
  "dn_5bd854ed6dce =
    [Drop_Table n_orderitem,
     Drop_Index n_ix_order_user_id,
     Drop_Index n_ix_order_status,
     Drop_Index n_ix_order_session_id,
     Drop_Index n_ix_order_public_id,
     Drop_Table n_order,
     Drop_Index n_ix_inventoryreservation_status,
     Drop_Index n_ix_inventoryreservation_reserved_until,
     Drop_Index n_ix_inventoryreservation_product_id,
     Drop_Index n_ix_inventoryreservation_order_id,
     Drop_Index n_ix_inventoryreservation_checkout_session_id,
     Drop_Table n_inventoryreservation,
     Drop_Index n_ix_idempotencykey_key,
     Drop_Index n_ix_idempotencykey_expires_at,
     Drop_Table n_idempotencykey,
     Drop_Index n_ix_checkoutsession_user_id,
     Drop_Index n_ix_checkoutsession_session_id,
     Drop_Index n_ix_checkoutsession_public_id,
     Drop_Index n_ix_checkoutsession_expires_at,
     Drop_Table n_checkoutsession]"

definition m_5bd854ed6dce :: migration where
  "m_5bd854ed6dce = \<lparr>revision = ''5bd854ed6dce'', down_revision = Some ''41646b24ac62'',
     upgrade = up_5bd854ed6dce, downgrade = dn_5bd854ed6dce\<rparr>"

text \<open>\<open>8c5ea9794300_update_cechkout_session_user_id_non_.py\<close>\<close>

definition up_8c5ea9794300 :: "ddl list" where
  "up_8c5ea9794300 =
    [Set_Nullable n_checkoutsession n_user_id False]"

definition dn_8c5ea9794300 :: "ddl list" where
  "dn_8c5ea9794300 =
    [Set_Nullable n_checkoutsession n_user_id True]"

definition m_8c5ea9794300 :: migration where
  "m_8c5ea9794300 = \<lparr>revision = ''8c5ea9794300'', down_revision = Some ''5bd854ed6dce'',
     upgrade = up_8c5ea9794300, downgrade = dn_8c5ea9794300\<rparr>"

text \<open>\<open>62ef26213f6d_checkout_table_modifications.py\<close>\<close>

definition up_62ef26213f6d :: "ddl list" where
  "up_62ef26213f6d =
    [Add_Column n_checkoutsession n_status False,
     Drop_Index n_ix_checkoutsession_user_id,
     Create_Index n_uq_checkout_active_cart n_checkoutsession [n_user_id] True (Some p_status_0)]"

definition dn_62ef26213f6d :: "ddl list" where
  "dn_62ef26213f6d =
    [Drop_Index n_uq_checkout_active_cart,
     Create_Index n_ix_checkoutsession_user_id n_checkoutsession [n_user_id] False None,
     Drop_Column n_checkoutsession n_status]"

definition m_62ef26213f6d :: migration where
  "m_62ef26213f6d = \<lparr>revision = ''62ef26213f6d'', down_revision = Some ''8c5ea9794300'',
     upgrade = up_62ef26213f6d, downgrade = dn_62ef26213f6d\<rparr>"

text \<open>\<open>34d4cf7bec13_inventoryreservation_unique_constraint_.py\<close>\<close>

definition up_34d4cf7bec13 :: "ddl list" where
  "up_34d4cf7bec13 =
    [Add_Column n_inventoryreservation n_checkout_id False,
     Drop_Index n_ix_inventoryreservation_checkout_session_id,
     Drop_Index n_ix_inventoryreservation_product_id,
     Create_Constraint (Some n_uq_checkout_product) n_inventoryreservation Unique_Key [n_checkout_id, n_product_id],
     Drop_Column n_inventoryreservation n_checkout_session_id]"

definition dn_34d4cf7bec13 :: "ddl list" where
  "dn_34d4cf7bec13 =
    [Add_Column n_inventoryreservation n_checkout_session_id True,
     Drop_Constraint (Some n_uq_checkout_product) n_inventoryreservation,
     Create_Index n_ix_inventoryreservation_product_id n_inventoryreservation [n_product_id] False None,
     Create_Index n_ix_inventoryreservation_checkout_session_id n_inventoryreservation [n_checkout_session_id] False None,
     Drop_Column n_inventoryreservation n_checkout_id]"

definition m_34d4cf7bec13 :: migration where
  "m_34d4cf7bec13 = \<lparr>revision = ''34d4cf7bec13'', down_revision = Some ''62ef26213f6d'',
     upgrade = up_34d4cf7bec13, downgrade = dn_34d4cf7bec13\<rparr>"

text \<open>\<open>d33800a5d9d2_add_payment_and_p_aymentattempt_schema.py\<close>\<close>

definition up_d33800a5d9d2 :: "ddl list" where
  "up_d33800a5d9d2 =
    [Create_Table n_payment
       [(n_id, False, False), (n_public_id, False, False), (n_order_id, False, False), (n_provider, True, False),
        (n_provider_payment_id, True, False), (n_status, False, False), (n_amount, False, False),
        (n_currency, False, False), (n_pay_metadata, True, False), (n_created_at, False, False),
        (n_paid_at, True, False)]
       [(None, Foreign_Key n_order, [n_order_id]), (None, Primary_Key, [n_id])],
     Create_Index n_ix_payment_order_id n_payment [n_order_id] False None,
     Create_Index n_ix_payment_provider_payment_id n_payment [n_provider_payment_id] True None,
     Create_Index n_ix_payment_public_id n_payment [n_public_id] True None,
     Create_Index n_ix_payment_status n_payment [n_status] False None,
     Create_Table n_paymentattempt
       [(n_id, False, False), (n_payment_id, False, False), (n_attempt_no, False, False),
        (n_provider_response, True, False), (n_provider_event_id, True, False), (n_created_at, False, False)]
       [(None, Foreign_Key n_payment, [n_payment_id]), (None, Primary_Key, [n_id])],
     Create_Index n_ix_paymentattempt_payment_id n_paymentattempt [n_payment_id] False None,
     Create_Index n_ix_paymentattempt_provider_event_id n_paymentattempt [n_provider_event_id] False None]"

definition dn_d33800a5d9d2 :: "ddl list" where
  "dn_d33800a5d9d2 =
    [Drop_Index n_ix_paymentattempt_provider_event_id,
     Drop_Index n_ix_paymentattempt_payment_id,
     Drop_Table n_paymentattempt,
     Drop_Index n_ix_payment_status,
     Drop_Index n_ix_payment_public_id,
     Drop_Index n_ix_payment_provider_payment_id,
     Drop_Index n_ix_payment_order_id,
     Drop_Table n_payment]"

definition m_d33800a5d9d2 :: migration where
  "m_d33800a5d9d2 = \<lparr>revision = ''d33800a5d9d2'', down_revision = Some ''34d4cf7bec13'',
     upgrade = up_d33800a5d9d2, downgrade = dn_d33800a5d9d2\<rparr>"

text \<open>\<open>20190b6300c4_add_paymentwebhookevent_schema.py\<close>\<close>

definition up_20190b6300c4 :: "ddl list" where
  "up_20190b6300c4 =
    [Create_Table n_paymentwebhookevent
       [(n_id, False, False), (n_provider, True, False), (n_provider_event_id, False, False),
        (n_payload, True, False), (n_processed_at, True, False), (n_created_at, False, False)]
       [(None, Primary_Key, [n_id])],
     Create_Index n_ix_paymentwebhookevent_processed_at n_paymentwebhookevent [n_processed_at] False None,
     Create_Index n_ix_paymentwebhookevent_provider_event_id n_paymentwebhookevent [n_provider_event_id] False None,
     Drop_Index n_ix_payment_provider_payment_id,
     Create_Constraint None n_payment Unique_Key [n_provider_payment_id]]"

definition dn_20190b6300c4 :: "ddl list" where
  "dn_20190b6300c4 =
    [Drop_Constraint None n_payment,
     Create_Index n_ix_payment_provider_payment_id n_payment [n_provider_payment_id] True None,
     Drop_Index n_ix_paymentwebhookevent_provider_event_id,
     Drop_Index n_ix_paymentwebhookevent_processed_at,
     Drop_Table n_paymentwebhookevent]"

definition m_20190b6300c4 :: migration where
  "m_20190b6300c4 = \<lparr>revision = ''20190b6300c4'', down_revision = Some ''d33800a5d9d2'',
     upgrade = up_20190b6300c4, downgrade = dn_20190b6300c4\<rparr>"

text \<open>\<open>99ccf5b29f85_update_payment_attempts_schema.py\<close>\<close>

definition up_99ccf5b29f85 :: "ddl list" where
  "up_99ccf5b29f85 =
    [Add_Column n_paymentattempt n_status False,
     Create_Index n_ix_paymentwebhookevent_provider n_paymentwebhookevent [n_provider] False None]"

definition dn_99ccf5b29f85 :: "ddl list" where
  "dn_99ccf5b29f85 =
    [Drop_Index n_ix_paymentwebhookevent_provider,
     Drop_Column n_paymentattempt n_status]"

definition m_99ccf5b29f85 :: migration where
  "m_99ccf5b29f85 = \<lparr>revision = ''99ccf5b29f85'', down_revision = Some ''20190b6300c4'',
     upgrade = up_99ccf5b29f85, downgrade = dn_99ccf5b29f85\<rparr>"

text \<open>\<open>4bb9f4be5dc2_update_checkout_session_partial_index_.py\<close>\<close>

definition up_4bb9f4be5dc2 :: "ddl list" where
  "up_4bb9f4be5dc2 =
    [Set_Nullable n_checkoutsession n_expires_at False]"

definition dn_4bb9f4be5dc2 :: "ddl list" where
  "dn_4bb9f4be5dc2 =
    [Add_Column n_checkoutsession n_status False,
     Set_Nullable n_checkoutsession n_expires_at True]"

definition m_4bb9f4be5dc2 :: migration where
  "m_4bb9f4be5dc2 = \<lparr>revision = ''4bb9f4be5dc2'', down_revision = Some ''99ccf5b29f85'',
     upgrade = up_4bb9f4be5dc2, downgrade = dn_4bb9f4be5dc2\<rparr>"

text \<open>\<open>169348db3e45_update_checkout_session_partial_index_.py\<close>\<close>

definition up_169348db3e45 :: "ddl list" where
  "up_169348db3e45 =
    [Drop_Column n_checkoutsession n_status]"

definition dn_169348db3e45 :: "ddl list" where
  "dn_169348db3e45 =
    [Add_Column n_checkoutsession n_status False]"

definition m_169348db3e45 :: migration where
  "m_169348db3e45 = \<lparr>revision = ''169348db3e45'', down_revision = Some ''4bb9f4be5dc2'',
     upgrade = up_169348db3e45, downgrade = dn_169348db3e45\<rparr>"

text \<open>\<open>33a211bdeb7c_checkout_constraint_fix.py\<close>\<close>

definition up_33a211bdeb7c :: "ddl list" where
  "up_33a211bdeb7c =
    [Add_Column n_checkoutsession n_is_active False,
     Create_Index n_uq_checkout_active_cart n_checkoutsession [n_user_id] True (Some p_is_active_true)]"

definition dn_33a211bdeb7c :: "ddl list" where
  "dn_33a211bdeb7c =
    [Drop_Index n_uq_checkout_active_cart,
     Drop_Column n_checkoutsession n_is_active]"

definition m_33a211bdeb7c :: migration where
  "m_33a211bdeb7c = \<lparr>revision = ''33a211bdeb7c'', down_revision = Some ''169348db3e45'',
     upgrade = up_33a211bdeb7c, downgrade = dn_33a211bdeb7c\<rparr>"

text \<open>\<open>5d9249b804b4_order_add_provider_order_id.py\<close>\<close>

definition up_5d9249b804b4 :: "ddl list" where
  "up_5d9249b804b4 =
    [Add_Column n_order n_provider_order_id True,
     Create_Constraint None n_order Unique_Key [n_provider_order_id]]"

definition dn_5d9249b804b4 :: "ddl list" where
  "dn_5d9249b804b4 =
    [Drop_Constraint None n_order,
     Drop_Column n_order n_provider_order_id]"

definition m_5d9249b804b4 :: migration where
  "m_5d9249b804b4 = \<lparr>revision = ''5d9249b804b4'', down_revision = Some ''33a211bdeb7c'',
     upgrade = up_5d9249b804b4, downgrade = dn_5d9249b804b4\<rparr>"

text \<open>\<open>aeea1673d46a_payment_add_provider_order_id.py\<close>\<close>

definition up_aeea1673d46a :: "ddl list" where
  "up_aeea1673d46a =
    [Add_Column n_payment n_provider_order_id True,
     Create_Constraint None n_payment Unique_Key [n_provider_order_id]]"

definition dn_aeea1673d46a :: "ddl list" where
  "dn_aeea1673d46a =
    [Drop_Constraint None n_payment,
     Drop_Column n_payment n_provider_order_id]"

definition m_aeea1673d46a :: migration where
  "m_aeea1673d46a = \<lparr>revision = ''aeea1673d46a'', down_revision = Some ''5d9249b804b4'',
     upgrade = up_aeea1673d46a, downgrade = dn_aeea1673d46a\<rparr>"

text \<open>\<open>5219a19ae93d_chnage_orders_table_name.py\<close>\<close>

definition up_5219a19ae93d :: "ddl list" where
  "up_5219a19ae93d =
    [Create_Table n_orders
       [(n_id, False, False), (n_public_id, False, False), (n_user_id, True, False), (n_session_id, True, False),
        (n_status, False, False), (n_currency, False, False), (n_subtotal, False, False), (n_tax, False, False),
        (n_shipping, False, False), (n_discount, False, False), (n_total, False, False),
        (n_shipping_address_json, False, False), (n_billing_address_json, True, False),
        (n_payment_method, True, False), (n_provider_order_id, True, False), (n_created_at, False, False),
        (n_updated_at, False, False), (n_placed_at, True, False), (n_delievered_at, True, False)]
       [(None, Foreign_Key n_devicesession, [n_session_id]), (None, Foreign_Key n_users, [n_user_id]),
        (None, Primary_Key, [n_id]), (None, Unique_Key, [n_provider_order_id])],
     Create_Index n_ix_orders_public_id n_orders [n_public_id] True None,
     Create_Index n_ix_orders_session_id n_orders [n_session_id] False None,
     Create_Index n_ix_orders_status n_orders [n_status] False None,
     Create_Index n_ix_orders_user_id n_orders [n_user_id] False None,
     Drop_Index n_ix_order_public_id,
     Drop_Index n_ix_order_session_id,
     Drop_Index n_ix_order_status,
     Drop_Index n_ix_order_user_id,
     Drop_Constraint (Some n_orderitem_order_id_fkey) n_orderitem,
     Drop_Constraint (Some n_payment_order_id_fkey) n_payment,
     Drop_Table n_order,
     Create_Constraint None n_orderitem (Foreign_Key n_orders) [n_order_id],
     Create_Constraint None n_payment (Foreign_Key n_orders) [n_order_id]]"

definition dn_5219a19ae93d :: "ddl list" where
  "dn_5219a19ae93d =
    [Drop_Constraint None n_payment,
     Create_Constraint (Some n_payment_order_id_fkey) n_payment (Foreign_Key n_order) [n_order_id],
     Drop_Constraint None n_orderitem,
     Create_Constraint (Some n_orderitem_order_id_fkey) n_orderitem (Foreign_Key n_order) [n_order_id],
     Create_Table n_order
       [(n_id, False, False), (n_public_id, False, False), (n_user_id, True, False), (n_session_id, True, False),
        (n_status, False, False), (n_currency, False, False), (n_subtotal, False, False), (n_tax, False, False),
        (n_shipping, False, False), (n_discount, False, False), (n_total, False, False),
        (n_shipping_address_json, False, False), (n_billing_address_json, True, False),
        (n_payment_method, True, False), (n_created_at, False, False), (n_updated_at, False, False),
        (n_placed_at, True, False), (n_delievered_at, True, False), (n_provider_order_id, True, False)]
       [(Some n_order_session_id_fkey, Foreign_Key n_devicesession, [n_session_id]),
        (Some n_order_user_id_fkey, Foreign_Key n_users, [n_user_id]), (Some n_order_pkey, Primary_Key, [n_id]),
        (Some n_order_provider_order_id_key, Unique_Key, [n_provider_order_id])],
     Create_Index n_ix_order_user_id n_order [n_user_id] False None,
     Create_Index n_ix_order_status n_order [n_status] False None,
     Create_Index n_ix_order_session_id n_order [n_session_id] False None,
     Create_Index n_ix_order_public_id n_order [n_public_id] True None,
     Drop_Index n_ix_orders_user_id,
     Drop_Index n_ix_orders_status,
     Drop_Index n_ix_orders_session_id,
     Drop_Index n_ix_orders_public_id,
     Drop_Table n_orders]"

definition m_5219a19ae93d :: migration where
  "m_5219a19ae93d = \<lparr>revision = ''5219a19ae93d'', down_revision = Some ''aeea1673d46a'',
     upgrade = up_5219a19ae93d, downgrade = dn_5219a19ae93d\<rparr>"

text \<open>\<open>a30ed17c62fa_add_public_id_to_devicesession_as_i_key.py\<close>\<close>

definition up_a30ed17c62fa :: "ddl list" where
  "up_a30ed17c62fa =
    [Add_Column n_devicesession n_public_id True,
     Create_Index n_ix_devicesession_public_id n_devicesession [n_public_id] True None]"

definition dn_a30ed17c62fa :: "ddl list" where
  "dn_a30ed17c62fa =
    [Drop_Index n_ix_devicesession_public_id,
     Drop_Column n_devicesession n_public_id]"

definition m_a30ed17c62fa :: migration where
  "m_a30ed17c62fa = \<lparr>revision = ''a30ed17c62fa'', down_revision = Some ''5219a19ae93d'',
     upgrade = up_a30ed17c62fa, downgrade = dn_a30ed17c62fa\<rparr>"

text \<open>\<open>51b44f14deac_update_cacade_delete_cart_session_id_.py\<close>\<close>

definition up_51b44f14deac :: "ddl list" where
  "up_51b44f14deac =
    [Drop_Constraint (Some n_cart_session_id_fkey) n_cart,
     Create_Constraint None n_cart (Foreign_Key n_devicesession) [n_session_id],
     Set_Nullable n_checkoutsession n_session_id False]"

definition dn_51b44f14deac :: "ddl list" where
  "dn_51b44f14deac =
    [Set_Nullable n_checkoutsession n_session_id True,
     Drop_Constraint None n_cart,
     Create_Constraint (Some n_cart_session_id_fkey) n_cart (Foreign_Key n_devicesession) [n_session_id]]"

definition m_51b44f14deac :: migration where
  "m_51b44f14deac = \<lparr>revision = ''51b44f14deac'', down_revision = Some ''a30ed17c62fa'',
     upgrade = up_51b44f14deac, downgrade = dn_51b44f14deac\<rparr>"

text \<open>\<open>bf7da67b4b25_re_update_checkout_ds_id_to_be_nullable_.py\<close>\<close>

definition up_bf7da67b4b25 :: "ddl list" where
  "up_bf7da67b4b25 =
    [Set_Nullable n_checkoutsession n_session_id True]"

definition dn_bf7da67b4b25 :: "ddl list" where
  "dn_bf7da67b4b25 =
    [Set_Nullable n_checkoutsession n_session_id False]"

definition m_bf7da67b4b25 :: migration where
  "m_bf7da67b4b25 = \<lparr>revision = ''bf7da67b4b25'', down_revision = Some ''51b44f14deac'',
     upgrade = up_bf7da67b4b25, downgrade = dn_bf7da67b4b25\<rparr>"

text \<open>\<open>28f3f0d69a07_add_status_to_idempotency_key_table.py\<close>\<close>

definition up_28f3f0d69a07 :: "ddl list" where
  "up_28f3f0d69a07 =
    [Add_Column n_idempotencykey n_status False]"

definition dn_28f3f0d69a07 :: "ddl list" where
  "dn_28f3f0d69a07 =
    [Drop_Column n_idempotencykey n_status]"

definition m_28f3f0d69a07 :: migration where
  "m_28f3f0d69a07 = \<lparr>revision = ''28f3f0d69a07'', down_revision = Some ''bf7da67b4b25'',
     upgrade = up_28f3f0d69a07, downgrade = dn_28f3f0d69a07\<rparr>"

text \<open>\<open>4b83651788e9_create_outbox_event_table_and_modify_.py\<close>\<close>

definition up_4b83651788e9 :: "ddl list" where
  "up_4b83651788e9 =
    [Create_Table n_outboxevent
       [(n_id, False, False), (n_topic, False, False), (n_payload, False, False), (n_aggregate_type, True, False),
        (n_aggregate_id, True, False), (n_dedupe_key, False, False), (n_status, False, False),
        (n_attempts, False, False), (n_next_retry_at, True, False), (n_created_at, False, False),
        (n_sent_at, True, False)]
       [(None, Primary_Key, [n_id]), (Some n_uq_outbox_key_topic, Unique_Key, [n_dedupe_key, n_topic])],
     Add_Column n_paymentwebhookevent n_status False,
     Add_Column n_paymentwebhookevent n_attempts False,
     Add_Column n_paymentwebhookevent n_last_error True,
     Set_Nullable n_paymentwebhookevent n_provider False,
     Drop_Index n_ix_paymentwebhookevent_provider_event_id,
     Create_Constraint (Some n_uq_provider_event) n_paymentwebhookevent Unique_Key [n_provider, n_provider_event_id]]"

definition dn_4b83651788e9 :: "ddl list" where
  "dn_4b83651788e9 =
    [Drop_Constraint (Some n_uq_provider_event) n_paymentwebhookevent,
     Create_Index n_ix_paymentwebhookevent_provider_event_id n_paymentwebhookevent [n_provider_event_id] False None,
     Set_Nullable n_paymentwebhookevent n_provider True,
     Drop_Column n_paymentwebhookevent n_last_error,
     Drop_Column n_paymentwebhookevent n_attempts,
     Drop_Column n_paymentwebhookevent n_status,
     Drop_Table n_outboxevent]"

definition m_4b83651788e9 :: migration where
  "m_4b83651788e9 = \<lparr>revision = ''4b83651788e9'', down_revision = Some ''28f3f0d69a07'',
     upgrade = up_4b83651788e9, downgrade = dn_4b83651788e9\<rparr>"

text \<open>\<open>7723ee5b1391_create_commitintent_for_authorative_.py\<close>\<close>

definition up_7723ee5b1391 :: "ddl list" where
  "up_7723ee5b1391 =
    [Create_Table n_commitintent
       [(n_id, False, False), (n_aggregate_type, False, False), (n_aggregate_id, False, False),
        (n_reason, False, False), (n_status, False, False), (n_payload, True, False), (n_attempts, False, False),
        (n_next_retry_at, True, False), (n_created_at, True, False), (n_updated_at, True, False)]
       [(None, Primary_Key, [n_id]),
        (Some n_uq_commitintent_aggid_type_reason, Unique_Key, [n_aggregate_id, n_aggregate_type, n_reason])]]"

definition dn_7723ee5b1391 :: "ddl list" where
  "dn_7723ee5b1391 =
    [Drop_Table n_commitintent]"

definition m_7723ee5b1391 :: migration where
  "m_7723ee5b1391 = \<lparr>revision = ''7723ee5b1391'', down_revision = Some ''4b83651788e9'',
     upgrade = up_7723ee5b1391, downgrade = dn_7723ee5b1391\<rparr>"

text \<open>\<open>d31996c1dae4_change_unique_constraint_of_outbox.py\<close>\<close>

definition up_d31996c1dae4 :: "ddl list" where
  "up_d31996c1dae4 =
    [Drop_Constraint (Some n_uq_outbox_key_topic) n_outboxevent,
     Create_Constraint (Some n_uq_outboxevent_aggid_type_topic) n_outboxevent Unique_Key [n_aggregate_id,
        n_aggregate_type, n_topic],
     Drop_Column n_outboxevent n_dedupe_key]"

definition dn_d31996c1dae4 :: "ddl list" where
  "dn_d31996c1dae4 =
    [Add_Column n_outboxevent n_dedupe_key True,
     Drop_Constraint (Some n_uq_outboxevent_aggid_type_topic) n_outboxevent,
     Create_Constraint (Some n_uq_outbox_key_topic) n_outboxevent Unique_Key [n_dedupe_key, n_topic]]"

definition m_d31996c1dae4 :: migration where
  "m_d31996c1dae4 = \<lparr>revision = ''d31996c1dae4'', down_revision = Some ''7723ee5b1391'',
     upgrade = up_d31996c1dae4, downgrade = dn_d31996c1dae4\<rparr>"

text \<open>\<open>a7c7667cd0c5_make_outbox_agg_id_agge_type_and_device_.py\<close>\<close>

definition up_a7c7667cd0c5 :: "ddl list" where
  "up_a7c7667cd0c5 =
    [Set_Nullable n_outboxevent n_aggregate_type False,
     Set_Nullable n_outboxevent n_aggregate_id False]"

definition dn_a7c7667cd0c5 :: "ddl list" where
  "dn_a7c7667cd0c5 =
    [Set_Nullable n_outboxevent n_aggregate_id True,
     Set_Nullable n_outboxevent n_aggregate_type True]"

definition m_a7c7667cd0c5 :: migration where
  "m_a7c7667cd0c5 = \<lparr>revision = ''a7c7667cd0c5'', down_revision = Some ''d31996c1dae4'',
     upgrade = up_a7c7667cd0c5, downgrade = dn_a7c7667cd0c5\<rparr>"

text \<open>\<open>5c44ef7b953b_modify_payments_and_orders_related_.py\<close>\<close>

definition up_5c44ef7b953b :: "ddl list" where
  "up_5c44ef7b953b =
    [Drop_Index n_ix_cart_session_id,
     Create_Constraint None n_cart Unique_Key [n_session_id],
     Drop_Index n_ix_checkoutsession_session_id,
     Drop_Constraint (Some n_uq_commitintent_aggid_type_reason) n_commitintent,
     Create_Constraint (Some n_uq_commitintent_reason_agtype_agid) n_commitintent Unique_Key [n_reason,
        n_aggregate_type, n_aggregate_id],
     Create_Index n_ix_idempotencykey_status n_idempotencykey [n_status] False None,
     Drop_Index n_ix_inventoryreservation_order_id,
     Drop_Index n_ix_inventoryreservation_reserved_until,
     Drop_Index n_ix_inventoryreservation_status,
     Drop_Constraint (Some n_uq_checkout_product) n_inventoryreservation,
     Create_Constraint (Some n_uq_product_checkout) n_inventoryreservation Unique_Key [n_product_id, n_checkout_id],
     Drop_Index n_ix_orders_session_id,
     Drop_Constraint (Some n_orders_provider_order_id_key) n_orders,
     Drop_Constraint (Some n_uq_outboxevent_aggid_type_topic) n_outboxevent,
     Create_Constraint (Some n_uq_outboxevent_topic_agtype_agid) n_outboxevent Unique_Key [n_topic,
        n_aggregate_type, n_aggregate_id],
     Drop_Constraint (Some n_payment_provider_order_id_key) n_payment,
     Drop_Constraint (Some n_payment_provider_payment_id_key) n_payment,
     Create_Constraint (Some n_uq_provider_providerorder) n_payment Unique_Key [n_provider, n_provider_order_id],
     Create_Constraint (Some n_uq_provider_providerpayment) n_payment Unique_Key [n_provider, n_provider_payment_id],
     Drop_Index n_ix_paymentattempt_provider_event_id,
     Drop_Column n_paymentattempt n_provider_event_id,
     Drop_Index n_ix_paymentwebhookevent_processed_at,
     Drop_Index n_ix_paymentwebhookevent_provider]"

definition dn_5c44ef7b953b :: "ddl list" where
  "dn_5c44ef7b953b =
    [Create_Index n_ix_paymentwebhookevent_provider n_paymentwebhookevent [n_provider] False None,
     Create_Index n_ix_paymentwebhookevent_processed_at n_paymentwebhookevent [n_processed_at] False None,
     Add_Column n_paymentattempt n_provider_event_id True,
     Create_Index n_ix_paymentattempt_provider_event_id n_paymentattempt [n_provider_event_id] False None,
     Drop_Constraint (Some n_uq_provider_providerpayment) n_payment,
     Drop_Constraint (Some n_uq_provider_providerorder) n_payment,
     Create_Constraint (Some n_payment_provider_payment_id_key) n_payment Unique_Key [n_provider_payment_id],
     Create_Constraint (Some n_payment_provider_order_id_key) n_payment Unique_Key [n_provider_order_id],
     Drop_Constraint (Some n_uq_outboxevent_topic_agtype_agid) n_outboxevent,
     Create_Constraint (Some n_uq_outboxevent_aggid_type_topic) n_outboxevent Unique_Key [n_aggregate_id,
        n_aggregate_type, n_topic],
     Create_Constraint (Some n_orders_provider_order_id_key) n_orders Unique_Key [n_provider_order_id],
     Create_Index n_ix_orders_session_id n_orders [n_session_id] False None,
     Drop_Constraint (Some n_uq_product_checkout) n_inventoryreservation,
     Create_Constraint (Some n_uq_checkout_product) n_inventoryreservation Unique_Key [n_checkout_id, n_product_id],
     Create_Index n_ix_inventoryreservation_status n_inventoryreservation [n_status] False None,
     Create_Index n_ix_inventoryreservation_reserved_until n_inventoryreservation [n_reserved_until] False None,
     Create_Index n_ix_inventoryreservation_order_id n_inventoryreservation [n_order_id] False None,
     Drop_Index n_ix_idempotencykey_status,
     Drop_Constraint (Some n_uq_commitintent_reason_agtype_agid) n_commitintent,
     Create_Constraint (Some n_uq_commitintent_aggid_type_reason) n_commitintent Unique_Key [n_aggregate_id,
        n_aggregate_type, n_reason],
     Create_Index n_ix_checkoutsession_session_id n_checkoutsession [n_session_id] False None,
     Drop_Constraint None n_cart,
     Create_Index n_ix_cart_session_id n_cart [n_session_id] True None]"

definition m_5c44ef7b953b :: migration where
  "m_5c44ef7b953b = \<lparr>revision = ''5c44ef7b953b'', down_revision = Some ''a7c7667cd0c5'',
     upgrade = up_5c44ef7b953b, downgrade = dn_5c44ef7b953b\<rparr>"

text \<open>\<open>813e9a7e41a9_schema_reanalysis_changes_and_.py\<close>\<close>

definition up_813e9a7e41a9 :: "ddl list" where
  "up_813e9a7e41a9 =
    [Create_Table n_uploadswebhookevent
       [(n_id, False, False), (n_provider_event_id, False, False), (n_provider, True, False),
        (n_payload, False, False), (n_received_at, False, False), (n_processed_at, True, False),
        (n_attempts, True, False)]
       [(None, Primary_Key, [n_id]), (None, Unique_Key, [n_provider_event_id])],
     Drop_Table n_providerwebhookevent,
     Drop_Constraint (Some n_cart_session_id_key) n_cart,
     Drop_Index n_ix_cart_user_id,
     Create_Index n_uq_cart_session_id n_cart [n_session_id] True (Some p_session_id_is_not_null),
     Create_Index n_uq_cart_user_id n_cart [n_user_id] True (Some p_user_id_is_not_null),
     Drop_Index n_idx_deviceauthtoken_tokenhash_active,
     Create_Index n_ix_deviceauthtoken_token_hash n_deviceauthtoken [n_token_hash] True None,
     Set_Nullable n_devicesession n_public_id False,
     Set_Nullable n_devicesession n_session_expires_at False,
     Add_Column n_imagecontent n_provider True]"

definition dn_813e9a7e41a9 :: "ddl list" where
  "dn_813e9a7e41a9 =
    [Drop_Column n_imagecontent n_provider,
     Set_Nullable n_devicesession n_session_expires_at True,
     Set_Nullable n_devicesession n_public_id True,
     Drop_Index n_ix_deviceauthtoken_token_hash,
     Create_Index n_idx_deviceauthtoken_tokenhash_active n_deviceauthtoken [n_token_hash] False (Some p_revoked_at_is_null_paren),
     Drop_Index n_uq_cart_user_id,
     Drop_Index n_uq_cart_session_id,
     Create_Index n_ix_cart_user_id n_cart [n_user_id] True None,
     Create_Constraint (Some n_cart_session_id_key) n_cart Unique_Key [n_session_id],
     Create_Table n_providerwebhookevent
       [(n_id, False, False), (n_provider_event_id, False, False), (n_provider, True, False),
        (n_payload, False, False), (n_received_at, False, False), (n_processed_at, True, False),
        (n_attempts, True, False)]
       [(Some n_providerwebhookevent_pkey, Primary_Key, [n_id]),
        (Some n_uq_providerwebhookevent_provider_event_id, Unique_Key, [n_provider_event_id])],
     Drop_Table n_uploadswebhookevent]"

definition m_813e9a7e41a9 :: migration where
  "m_813e9a7e41a9 = \<lparr>revision = ''813e9a7e41a9'', down_revision = Some ''5c44ef7b953b'',
     upgrade = up_813e9a7e41a9, downgrade = dn_813e9a7e41a9\<rparr>"

text \<open>\<open>cba69ff98159_add_unique_constraints_in_credential_.py\<close>\<close>

definition up_cba69ff98159 :: "ddl list" where
  "up_cba69ff98159 =
    [Create_Constraint (Some n_uq_credential_provider_userid) n_credential Unique_Key [n_provider,
        n_provider_user_id],
     Create_Constraint (Some n_uq_credential_user_type_provider) n_credential Unique_Key [n_user_id, n_type,
        n_provider]]"

definition dn_cba69ff98159 :: "ddl list" where
  "dn_cba69ff98159 =
    [Drop_Constraint (Some n_uq_credential_user_type_provider) n_credential,
     Drop_Constraint (Some n_uq_credential_provider_userid) n_credential]"

definition m_cba69ff98159 :: migration where
  "m_cba69ff98159 = \<lparr>revision = ''cba69ff98159'', down_revision = Some ''813e9a7e41a9'',
     upgrade = up_cba69ff98159, downgrade = dn_cba69ff98159\<rparr>"

text \<open>\<open>6f4bd48e4aeb_add_unique_constraint_on_product_name_.py\<close>\<close>

definition up_6f4bd48e4aeb :: "ddl list" where
  "up_6f4bd48e4aeb =
    [Ensure_Unique n_product_name_key n_product [n_name]]"

definition dn_6f4bd48e4aeb :: "ddl list" where
  "dn_6f4bd48e4aeb =
    [Drop_If_Exists n_product_name_key n_product]"

definition m_6f4bd48e4aeb :: migration where
  "m_6f4bd48e4aeb = \<lparr>revision = ''6f4bd48e4aeb'', down_revision = Some ''cba69ff98159'',
     upgrade = up_6f4bd48e4aeb, downgrade = dn_6f4bd48e4aeb\<rparr>"

text \<open>\<open>be4f795acdfd_make_provider_event_id_nullable_in_.py\<close>\<close>

definition up_be4f795acdfd :: "ddl list" where
  "up_be4f795acdfd =
    [Set_Nullable n_paymentwebhookevent n_provider_event_id True]"

definition dn_be4f795acdfd :: "ddl list" where
  "dn_be4f795acdfd =
    [Set_Nullable n_paymentwebhookevent n_provider_event_id False]"

definition m_be4f795acdfd :: migration where
  "m_be4f795acdfd = \<lparr>revision = ''be4f795acdfd'', down_revision = Some ''6f4bd48e4aeb'',
     upgrade = up_be4f795acdfd, downgrade = dn_be4f795acdfd\<rparr>"

text \<open>\<open>65d0e62e3bb3_chnage_index_on_provider_provider_venet_.py\<close>\<close>

definition up_65d0e62e3bb3 :: "ddl list" where
  "up_65d0e62e3bb3 =
    [Drop_Constraint (Some n_uq_provider_event) n_paymentwebhookevent,
     Create_Index n_uq_provider_event n_paymentwebhookevent [n_provider,
        n_provider_event_id] True (Some p_provider_event_id_is_not_null)]"

definition dn_65d0e62e3bb3 :: "ddl list" where
  "dn_65d0e62e3bb3 =
    [Drop_Index n_uq_provider_event,
     Create_Constraint (Some n_uq_provider_event) n_paymentwebhookevent Unique_Key [n_provider, n_provider_event_id]]"

definition m_65d0e62e3bb3 :: migration where
  "m_65d0e62e3bb3 = \<lparr>revision = ''65d0e62e3bb3'', down_revision = Some ''be4f795acdfd'',
     upgrade = up_65d0e62e3bb3, downgrade = dn_65d0e62e3bb3\<rparr>"

text \<open>\<open>4e2185ccc4b1_add_provider_payment_id_to_payment_.py\<close>\<close>

definition up_4e2185ccc4b1 :: "ddl list" where
  "up_4e2185ccc4b1 =
    [Add_Column n_paymentwebhookevent n_provider_payment_id True]"

definition dn_4e2185ccc4b1 :: "ddl list" where
  "dn_4e2185ccc4b1 =
    [Drop_Column n_paymentwebhookevent n_provider_payment_id]"

definition m_4e2185ccc4b1 :: migration where
  "m_4e2185ccc4b1 = \<lparr>revision = ''4e2185ccc4b1'', down_revision = Some ''65d0e62e3bb3'',
     upgrade = up_4e2185ccc4b1, downgrade = dn_4e2185ccc4b1\<rparr>"

text \<open>\<open>8f7ceef6e72d_add_order_id_to_payment_webhook_event.py\<close>\<close>

definition up_8f7ceef6e72d :: "ddl list" where
  "up_8f7ceef6e72d =
    [Add_Column n_paymentwebhookevent n_order_id True,
     Create_Index n_ix_paymentwebhookevent_order_id n_paymentwebhookevent [n_order_id] False None,
     Drop_Column n_paymentwebhookevent n_provider_payment_id]"

definition dn_8f7ceef6e72d :: "ddl list" where
  "dn_8f7ceef6e72d =
    [Add_Column n_paymentwebhookevent n_provider_payment_id True,
     Drop_Index n_ix_paymentwebhookevent_order_id,
     Drop_Column n_paymentwebhookevent n_order_id]"

definition m_8f7ceef6e72d :: migration where
  "m_8f7ceef6e72d = \<lparr>revision = ''8f7ceef6e72d'', down_revision = Some ''4e2185ccc4b1'',
     upgrade = up_8f7ceef6e72d, downgrade = dn_8f7ceef6e72d\<rparr>"

text \<open>\<open>c0caf44a57d2_make_payment_table_order_id_unique.py\<close>\<close>

definition up_c0caf44a57d2 :: "ddl list" where
  "up_c0caf44a57d2 =
    [Drop_Index n_ix_payment_order_id,
     Create_Constraint None n_payment Unique_Key [n_order_id]]"

definition dn_c0caf44a57d2 :: "ddl list" where
  "dn_c0caf44a57d2 =
    [Drop_Constraint None n_payment,
     Create_Index n_ix_payment_order_id n_payment [n_order_id] False None]"

definition m_c0caf44a57d2 :: migration where
  "m_c0caf44a57d2 = \<lparr>revision = ''c0caf44a57d2'', down_revision = Some ''8f7ceef6e72d'',
     upgrade = up_c0caf44a57d2, downgrade = dn_c0caf44a57d2\<rparr>"

text \<open>\<open>66f7ee1d1e68_commitintent_status_make_it_enum_int.py\<close>\<close>

definition up_66f7ee1d1e68 :: "ddl list" where
  "up_66f7ee1d1e68 =
    [Alter_Type n_commitintent n_status]"

definition dn_66f7ee1d1e68 :: "ddl list" where
  "dn_66f7ee1d1e68 =
    [Alter_Type n_commitintent n_status]"

definition m_66f7ee1d1e68 :: migration where
  "m_66f7ee1d1e68 = \<lparr>revision = ''66f7ee1d1e68'', down_revision = Some ''c0caf44a57d2'',
     upgrade = up_66f7ee1d1e68, downgrade = dn_66f7ee1d1e68\<rparr>"

text \<open>\<open>96397f3f833a_chnage_uniqueness_constraints_on_.py\<close>\<close>

definition up_96397f3f833a :: "ddl list" where
  "up_96397f3f833a =
    [Set_Nullable n_credential n_provider False,
     Drop_Constraint (Some n_uq_credential_user_type_provider) n_credential,
     Create_Constraint (Some n_uq_credential_user_provider) n_credential Unique_Key [n_user_id, n_provider]]"

definition dn_96397f3f833a :: "ddl list" where
  "dn_96397f3f833a =
    [Drop_Constraint (Some n_uq_credential_user_provider) n_credential,
     Create_Constraint (Some n_uq_credential_user_type_provider) n_credential Unique_Key [n_user_id, n_type,
        n_provider],
     Set_Nullable n_credential n_provider True]"

definition m_96397f3f833a :: migration where
  "m_96397f3f833a = \<lparr>revision = ''96397f3f833a'', down_revision = Some ''66f7ee1d1e68'',
     upgrade = up_96397f3f833a, downgrade = dn_96397f3f833a\<rparr>"

text \<open>\<open>d1558250da25_prod_image_content_id_unique_index_.py\<close>\<close>

definition up_d1558250da25 :: "ddl list" where
  "up_d1558250da25 =
    [Create_Index n_uq_product_image_content_id n_productimage [n_content_id] True (Some p_content_id_is_not_null)]"

definition dn_d1558250da25 :: "ddl list" where
  "dn_d1558250da25 =
    [Drop_Index n_uq_product_image_content_id]"

definition m_d1558250da25 :: migration where
  "m_d1558250da25 = \<lparr>revision = ''d1558250da25'', down_revision = Some ''96397f3f833a'',
     upgrade = up_d1558250da25, downgrade = dn_d1558250da25\<rparr>"

text \<open>\<open>ae550d964457_add_unique_insertion_anchor_to_orders_.py\<close>\<close>

definition up_ae550d964457 :: "ddl list" where
  "up_ae550d964457 =
    [Add_Column n_orders n_ik_id False,
     Create_Index n_ix_orders_unq_ik_id n_orders [n_ik_id] True None]"

definition dn_ae550d964457 :: "ddl list" where
  "dn_ae550d964457 =
    [Drop_Index n_ix_orders_unq_ik_id,
     Drop_Column n_orders n_ik_id]"

definition m_ae550d964457 :: migration where
  "m_ae550d964457 = \<lparr>revision = ''ae550d964457'', down_revision = Some ''d1558250da25'',
     upgrade = up_ae550d964457, downgrade = dn_ae550d964457\<rparr>"

text \<open>\<open>d22b12ed593c_add_checkout_id_fkey_to_ikey_for_.py\<close>\<close>

definition up_d22b12ed593c :: "ddl list" where
  "up_d22b12ed593c =
    [Add_Column n_idempotencykey n_cs_id False,
     Create_Constraint (Some n_fk_idempotencykey_cs_id) n_idempotencykey (Foreign_Key n_checkoutsession) [n_cs_id],
     Drop_Index n_ix_orders_unq_ik_id,
     Create_Index n_ix_orders_ik_id n_orders [n_ik_id] True None]"

definition dn_d22b12ed593c :: "ddl list" where
  "dn_d22b12ed593c =
    [Drop_Index n_ix_orders_ik_id,
     Create_Index n_ix_orders_unq_ik_id n_orders [n_ik_id] True None,
     Drop_Constraint (Some n_fk_idempotencykey_cs_id) n_idempotencykey,
     Drop_Column n_idempotencykey n_cs_id]"

definition m_d22b12ed593c :: migration where
  "m_d22b12ed593c = \<lparr>revision = ''d22b12ed593c'', down_revision = Some ''ae550d964457'',
     upgrade = up_d22b12ed593c, downgrade = dn_d22b12ed593c\<rparr>"

definition orders_history :: "migration list" where
  "orders_history =
    [m_ad81e16d8089, m_6db8e701bec2, m_bad278474755, m_41646b24ac62, m_5bd854ed6dce, m_8c5ea9794300,
        m_62ef26213f6d, m_34d4cf7bec13, m_d33800a5d9d2, m_20190b6300c4, m_99ccf5b29f85, m_4bb9f4be5dc2,
        m_169348db3e45, m_33a211bdeb7c, m_5d9249b804b4, m_aeea1673d46a, m_5219a19ae93d, m_a30ed17c62fa,
        m_51b44f14deac, m_bf7da67b4b25, m_28f3f0d69a07, m_4b83651788e9, m_7723ee5b1391, m_d31996c1dae4,
        m_a7c7667cd0c5, m_5c44ef7b953b, m_813e9a7e41a9, m_cba69ff98159, m_6f4bd48e4aeb, m_be4f795acdfd,
        m_65d0e62e3bb3, m_4e2185ccc4b1, m_8f7ceef6e72d, m_c0caf44a57d2, m_66f7ee1d1e68, m_96397f3f833a,
        m_d1558250da25, m_ae550d964457, m_d22b12ed593c]"

text \<open>For the simplifier: unfold a migration when its turn comes.\<close>

lemmas orders_history_runs =
  upgrade_step [OF m_ad81e16d8089_def] downgrade_step [OF m_ad81e16d8089_def] arg_cong [where f = ddl_run, OF up_ad81e16d8089_def] arg_cong [where f = ddl_run, OF dn_ad81e16d8089_def]
  upgrade_step [OF m_6db8e701bec2_def] downgrade_step [OF m_6db8e701bec2_def] arg_cong [where f = ddl_run, OF up_6db8e701bec2_def] arg_cong [where f = ddl_run, OF dn_6db8e701bec2_def]
  upgrade_step [OF m_bad278474755_def] downgrade_step [OF m_bad278474755_def] arg_cong [where f = ddl_run, OF up_bad278474755_def] arg_cong [where f = ddl_run, OF dn_bad278474755_def]
  upgrade_step [OF m_41646b24ac62_def] downgrade_step [OF m_41646b24ac62_def] arg_cong [where f = ddl_run, OF up_41646b24ac62_def] arg_cong [where f = ddl_run, OF dn_41646b24ac62_def]
  upgrade_step [OF m_5bd854ed6dce_def] downgrade_step [OF m_5bd854ed6dce_def] arg_cong [where f = ddl_run, OF up_5bd854ed6dce_def] arg_cong [where f = ddl_run, OF dn_5bd854ed6dce_def]
  upgrade_step [OF m_8c5ea9794300_def] downgrade_step [OF m_8c5ea9794300_def] arg_cong [where f = ddl_run, OF up_8c5ea9794300_def] arg_cong [where f = ddl_run, OF dn_8c5ea9794300_def]
  upgrade_step [OF m_62ef26213f6d_def] downgrade_step [OF m_62ef26213f6d_def] arg_cong [where f = ddl_run, OF up_62ef26213f6d_def] arg_cong [where f = ddl_run, OF dn_62ef26213f6d_def]
  upgrade_step [OF m_34d4cf7bec13_def] downgrade_step [OF m_34d4cf7bec13_def] arg_cong [where f = ddl_run, OF up_34d4cf7bec13_def] arg_cong [where f = ddl_run, OF dn_34d4cf7bec13_def]
  upgrade_step [OF m_d33800a5d9d2_def] downgrade_step [OF m_d33800a5d9d2_def] arg_cong [where f = ddl_run, OF up_d33800a5d9d2_def] arg_cong [where f = ddl_run, OF dn_d33800a5d9d2_def]
  upgrade_step [OF m_20190b6300c4_def] downgrade_step [OF m_20190b6300c4_def] arg_cong [where f = ddl_run, OF up_20190b6300c4_def] arg_cong [where f = ddl_run, OF dn_20190b6300c4_def]
  upgrade_step [OF m_99ccf5b29f85_def] downgrade_step [OF m_99ccf5b29f85_def] arg_cong [where f = ddl_run, OF up_99ccf5b29f85_def] arg_cong [where f = ddl_run, OF dn_99ccf5b29f85_def]
  upgrade_step [OF m_4bb9f4be5dc2_def] downgrade_step [OF m_4bb9f4be5dc2_def] arg_cong [where f = ddl_run, OF up_4bb9f4be5dc2_def] arg_cong [where f = ddl_run, OF dn_4bb9f4be5dc2_def]
  upgrade_step [OF m_169348db3e45_def] downgrade_step [OF m_169348db3e45_def] arg_cong [where f = ddl_run, OF up_169348db3e45_def] arg_cong [where f = ddl_run, OF dn_169348db3e45_def]
  upgrade_step [OF m_33a211bdeb7c_def] downgrade_step [OF m_33a211bdeb7c_def] arg_cong [where f = ddl_run, OF up_33a211bdeb7c_def] arg_cong [where f = ddl_run, OF dn_33a211bdeb7c_def]
  upgrade_step [OF m_5d9249b804b4_def] downgrade_step [OF m_5d9249b804b4_def] arg_cong [where f = ddl_run, OF up_5d9249b804b4_def] arg_cong [where f = ddl_run, OF dn_5d9249b804b4_def]
  upgrade_step [OF m_aeea1673d46a_def] downgrade_step [OF m_aeea1673d46a_def] arg_cong [where f = ddl_run, OF up_aeea1673d46a_def] arg_cong [where f = ddl_run, OF dn_aeea1673d46a_def]
  upgrade_step [OF m_5219a19ae93d_def] downgrade_step [OF m_5219a19ae93d_def] arg_cong [where f = ddl_run, OF up_5219a19ae93d_def] arg_cong [where f = ddl_run, OF dn_5219a19ae93d_def]
  upgrade_step [OF m_a30ed17c62fa_def] downgrade_step [OF m_a30ed17c62fa_def] arg_cong [where f = ddl_run, OF up_a30ed17c62fa_def] arg_cong [where f = ddl_run, OF dn_a30ed17c62fa_def]
  upgrade_step [OF m_51b44f14deac_def] downgrade_step [OF m_51b44f14deac_def] arg_cong [where f = ddl_run, OF up_51b44f14deac_def] arg_cong [where f = ddl_run, OF dn_51b44f14deac_def]
  upgrade_step [OF m_bf7da67b4b25_def] downgrade_step [OF m_bf7da67b4b25_def] arg_cong [where f = ddl_run, OF up_bf7da67b4b25_def] arg_cong [where f = ddl_run, OF dn_bf7da67b4b25_def]
  upgrade_step [OF m_28f3f0d69a07_def] downgrade_step [OF m_28f3f0d69a07_def] arg_cong [where f = ddl_run, OF up_28f3f0d69a07_def] arg_cong [where f = ddl_run, OF dn_28f3f0d69a07_def]
  upgrade_step [OF m_4b83651788e9_def] downgrade_step [OF m_4b83651788e9_def] arg_cong [where f = ddl_run, OF up_4b83651788e9_def] arg_cong [where f = ddl_run, OF dn_4b83651788e9_def]
  upgrade_step [OF m_7723ee5b1391_def] downgrade_step [OF m_7723ee5b1391_def] arg_cong [where f = ddl_run, OF up_7723ee5b1391_def] arg_cong [where f = ddl_run, OF dn_7723ee5b1391_def]
  upgrade_step [OF m_d31996c1dae4_def] downgrade_step [OF m_d31996c1dae4_def] arg_cong [where f = ddl_run, OF up_d31996c1dae4_def] arg_cong [where f = ddl_run, OF dn_d31996c1dae4_def]
  upgrade_step [OF m_a7c7667cd0c5_def] downgrade_step [OF m_a7c7667cd0c5_def] arg_cong [where f = ddl_run, OF up_a7c7667cd0c5_def] arg_cong [where f = ddl_run, OF dn_a7c7667cd0c5_def]
  upgrade_step [OF m_5c44ef7b953b_def] downgrade_step [OF m_5c44ef7b953b_def] arg_cong [where f = ddl_run, OF up_5c44ef7b953b_def] arg_cong [where f = ddl_run, OF dn_5c44ef7b953b_def]
  upgrade_step [OF m_813e9a7e41a9_def] downgrade_step [OF m_813e9a7e41a9_def] arg_cong [where f = ddl_run, OF up_813e9a7e41a9_def] arg_cong [where f = ddl_run, OF dn_813e9a7e41a9_def]
  upgrade_step [OF m_cba69ff98159_def] downgrade_step [OF m_cba69ff98159_def] arg_cong [where f = ddl_run, OF up_cba69ff98159_def] arg_cong [where f = ddl_run, OF dn_cba69ff98159_def]
  upgrade_step [OF m_6f4bd48e4aeb_def] downgrade_step [OF m_6f4bd48e4aeb_def] arg_cong [where f = ddl_run, OF up_6f4bd48e4aeb_def] arg_cong [where f = ddl_run, OF dn_6f4bd48e4aeb_def]
  upgrade_step [OF m_be4f795acdfd_def] downgrade_step [OF m_be4f795acdfd_def] arg_cong [where f = ddl_run, OF up_be4f795acdfd_def] arg_cong [where f = ddl_run, OF dn_be4f795acdfd_def]
  upgrade_step [OF m_65d0e62e3bb3_def] downgrade_step [OF m_65d0e62e3bb3_def] arg_cong [where f = ddl_run, OF up_65d0e62e3bb3_def] arg_cong [where f = ddl_run, OF dn_65d0e62e3bb3_def]
  upgrade_step [OF m_4e2185ccc4b1_def] downgrade_step [OF m_4e2185ccc4b1_def] arg_cong [where f = ddl_run, OF up_4e2185ccc4b1_def] arg_cong [where f = ddl_run, OF dn_4e2185ccc4b1_def]
  upgrade_step [OF m_8f7ceef6e72d_def] downgrade_step [OF m_8f7ceef6e72d_def] arg_cong [where f = ddl_run, OF up_8f7ceef6e72d_def] arg_cong [where f = ddl_run, OF dn_8f7ceef6e72d_def]
  upgrade_step [OF m_c0caf44a57d2_def] downgrade_step [OF m_c0caf44a57d2_def] arg_cong [where f = ddl_run, OF up_c0caf44a57d2_def] arg_cong [where f = ddl_run, OF dn_c0caf44a57d2_def]
  upgrade_step [OF m_66f7ee1d1e68_def] downgrade_step [OF m_66f7ee1d1e68_def] arg_cong [where f = ddl_run, OF up_66f7ee1d1e68_def] arg_cong [where f = ddl_run, OF dn_66f7ee1d1e68_def]
  upgrade_step [OF m_96397f3f833a_def] downgrade_step [OF m_96397f3f833a_def] arg_cong [where f = ddl_run, OF up_96397f3f833a_def] arg_cong [where f = ddl_run, OF dn_96397f3f833a_def]
  upgrade_step [OF m_d1558250da25_def] downgrade_step [OF m_d1558250da25_def] arg_cong [where f = ddl_run, OF up_d1558250da25_def] arg_cong [where f = ddl_run, OF dn_d1558250da25_def]
  upgrade_step [OF m_ae550d964457_def] downgrade_step [OF m_ae550d964457_def] arg_cong [where f = ddl_run, OF up_ae550d964457_def] arg_cong [where f = ddl_run, OF dn_ae550d964457_def]
  upgrade_step [OF m_d22b12ed593c_def] downgrade_step [OF m_d22b12ed593c_def] arg_cong [where f = ddl_run, OF up_d22b12ed593c_def] arg_cong [where f = ddl_run, OF dn_d22b12ed593c_def]

lemmas orders_history_links =
  chained_step [OF m_ad81e16d8089_def]
  chained_step [OF m_6db8e701bec2_def]
  chained_step [OF m_bad278474755_def]
  chained_step [OF m_41646b24ac62_def]
  chained_step [OF m_5bd854ed6dce_def]
  chained_step [OF m_8c5ea9794300_def]
  chained_step [OF m_62ef26213f6d_def]
  chained_step [OF m_34d4cf7bec13_def]
  chained_step [OF m_d33800a5d9d2_def]
  chained_step [OF m_20190b6300c4_def]
  chained_step [OF m_99ccf5b29f85_def]
  chained_step [OF m_4bb9f4be5dc2_def]
  chained_step [OF m_169348db3e45_def]
  chained_step [OF m_33a211bdeb7c_def]
  chained_step [OF m_5d9249b804b4_def]
  chained_step [OF m_aeea1673d46a_def]
  chained_step [OF m_5219a19ae93d_def]
  chained_step [OF m_a30ed17c62fa_def]
  chained_step [OF m_51b44f14deac_def]
  chained_step [OF m_bf7da67b4b25_def]
  chained_step [OF m_28f3f0d69a07_def]
  chained_step [OF m_4b83651788e9_def]
  chained_step [OF m_7723ee5b1391_def]
  chained_step [OF m_d31996c1dae4_def]
  chained_step [OF m_a7c7667cd0c5_def]
  chained_step [OF m_5c44ef7b953b_def]
  chained_step [OF m_813e9a7e41a9_def]
  chained_step [OF m_cba69ff98159_def]
  chained_step [OF m_6f4bd48e4aeb_def]
  chained_step [OF m_be4f795acdfd_def]
  chained_step [OF m_65d0e62e3bb3_def]
  chained_step [OF m_4e2185ccc4b1_def]
  chained_step [OF m_8f7ceef6e72d_def]
  chained_step [OF m_c0caf44a57d2_def]
  chained_step [OF m_66f7ee1d1e68_def]
  chained_step [OF m_96397f3f833a_def]
  chained_step [OF m_d1558250da25_def]
  chained_step [OF m_ae550d964457_def]
  chained_step [OF m_d22b12ed593c_def]

end
