(* ===== verification/Schema_States.thy ===== *)
theory Schema_States
  imports History_Orders
begin

text \<open>
  The schemas the migrations arrive at: after the catalogue, after the last migration that a rollback cannot undo,
  and at the head; each is computed from the one before by running the machine.
\<close>

section \<open>Schemas on the way\<close>

definition catalogue_schema :: "db_table list" where
  "catalogue_schema =
    [\<lparr>tb_name = n_devicesession,
      tb_columns = [(n_id, False), (n_session_token_hash, False), (n_device_name, True), (n_device_type, True),
        (n_user_agent_snippet, True), (n_device_fingerprint_hash, True), (n_ip_first_seen, True),
        (n_last_seen_ip, True), (n_last_activity_at, True), (n_created_at, False), (n_revoked_at, True),
        (n_session_expires_at, True)],
      tb_objects =
       [\<lparr>dbo_name = n_devicesession_pkey, dbo_kind = Primary_Key, dbo_columns = [n_id]\<rparr>,
        \<lparr>dbo_name = n_ix_devicesession_session_token_hash, dbo_kind = Is_Index True None,
        dbo_columns = [n_session_token_hash]\<rparr>]\<rparr>,
     \<lparr>tb_name = n_users,
      tb_columns = [(n_id, False), (n_public_id, False), (n_email, True), (n_created_at, False),
        (n_updated_at, False), (n_deleted_at, True), (n_name, True), (n_role_version, False)],
      tb_objects =
       [\<lparr>dbo_name = n_user_pkey, dbo_kind = Primary_Key, dbo_columns = [n_id]\<rparr>,
        \<lparr>dbo_name = n_ix_users_public_id, dbo_kind = Is_Index True None, dbo_columns = [n_public_id]\<rparr>,
        \<lparr>dbo_name = n_users_email_key, dbo_kind = Unique_Key, dbo_columns = [n_email]\<rparr>]\<rparr>,
     \<lparr>tb_name = n_address,
      tb_columns = [(n_id, False), (n_user_id, False), (n_line1, False), (n_line2, True), (n_city, False),
        (n_state, True), (n_postal_code, False), (n_country, False), (n_phone, False), (n_is_default, False),
        (n_created_at, False), (n_updated_at, False), (n_deleted_at, True), (n_name, True)],
      tb_objects =
       [\<lparr>dbo_name = n_address_user_id_fkey, dbo_kind = Foreign_Key n_users, dbo_columns = [n_user_id]\<rparr>,
        \<lparr>dbo_name = n_address_pkey, dbo_kind = Primary_Key, dbo_columns = [n_id]\<rparr>,
        \<lparr>dbo_name = n_ix_address_user_id, dbo_kind = Is_Index False None,
        dbo_columns = [n_user_id]\<rparr>]\<rparr>,
     \<lparr>tb_name = n_credential,
      tb_columns = [(n_id, False), (n_user_id, False), (n_type, False), (n_provider, True),
        (n_provider_user_id, True), (n_provider_email, True), (n_password_hash, True), (n_created_at, False),
        (n_updated_at, False), (n_revoked_at, True)],
      tb_objects =
       [\<lparr>dbo_name = n_credential_user_id_fkey, dbo_kind = Foreign_Key n_users,
        dbo_columns = [n_user_id]\<rparr>,
        \<lparr>dbo_name = n_credential_pkey, dbo_kind = Primary_Key, dbo_columns = [n_id]\<rparr>,
        \<lparr>dbo_name = n_ix_credential_user_id, dbo_kind = Is_Index False None,
        dbo_columns = [n_user_id]\<rparr>]\<rparr>,
     \<lparr>tb_name = n_deviceauthtoken,
      tb_columns = [(n_id, False), (n_device_session_id, False), (n_user_id, False), (n_token_hash, False),
        (n_issued_at, False), (n_expires_at, True), (n_revoked_at, True), (n_revoked_by, True),
        (n_revoked_reason, True), (n_auth_method, False)],
      tb_objects =
       [\<lparr>dbo_name = n_deviceauthtoken_device_session_id_fkey, dbo_kind = Foreign_Key n_devicesession,
        dbo_columns = [n_device_session_id]\<rparr>,
        \<lparr>dbo_name = n_deviceauthtoken_pkey, dbo_kind = Primary_Key, dbo_columns = [n_id]\<rparr>,
        \<lparr>dbo_name = n_ix_deviceauthtoken_device_session_id, dbo_kind = Is_Index False None,
        dbo_columns = [n_device_session_id]\<rparr>,
        \<lparr>dbo_name = n_ix_deviceauthtoken_user_id, dbo_kind = Is_Index False None,
        dbo_columns = [n_user_id]\<rparr>,
        \<lparr>dbo_name = n_deviceauthtoken_user_id_fkey, dbo_kind = Foreign_Key n_users,
        dbo_columns = [n_user_id]\<rparr>,
        \<lparr>dbo_name = n_idx_deviceauthtoken_tokenhash_active,
        dbo_kind = Is_Index False (Some p_revoked_at_is_null), dbo_columns = [n_token_hash]\<rparr>]\<rparr>,
     \<lparr>tb_name = n_permission,
      tb_columns = [(n_id, False), (n_name, False), (n_description, True)],
      tb_objects =
       [\<lparr>dbo_name = n_permission_pkey, dbo_kind = Primary_Key, dbo_columns = [n_id]\<rparr>,
        \<lparr>dbo_name = n_permission_name_key, dbo_kind = Unique_Key, dbo_columns = [n_name]\<rparr>]\<rparr>,
     \<lparr>tb_name = n_role,
      tb_columns = [(n_id, False), (n_name, False), (n_description, True)],
      tb_objects =
       [\<lparr>dbo_name = n_role_pkey, dbo_kind = Primary_Key, dbo_columns = [n_id]\<rparr>,
        \<lparr>dbo_name = n_role_name_key, dbo_kind = Unique_Key, dbo_columns = [n_name]\<rparr>]\<rparr>,
     \<lparr>tb_name = n_rolepermission,
      tb_columns = [(n_id, False), (n_role_id, False), (n_permission_id, False)],
      tb_objects =
       [\<lparr>dbo_name = n_rolepermission_permission_id_fkey, dbo_kind = Foreign_Key n_permission,
        dbo_columns = [n_permission_id]\<rparr>,
        \<lparr>dbo_name = n_rolepermission_role_id_fkey, dbo_kind = Foreign_Key n_role,
        dbo_columns = [n_role_id]\<rparr>,
        \<lparr>dbo_name = n_rolepermission_pkey, dbo_kind = Primary_Key, dbo_columns = [n_id]\<rparr>,
        \<lparr>dbo_name = n_uq_role_permission_role_id_permission_id, dbo_kind = Unique_Key,
        dbo_columns = [n_role_id, n_permission_id]\<rparr>,
        \<lparr>dbo_name = n_ix_rolepermission_permission_id, dbo_kind = Is_Index False None,
        dbo_columns = [n_permission_id]\<rparr>,
        \<lparr>dbo_name = n_ix_rolepermission_role_id, dbo_kind = Is_Index False None,
        dbo_columns = [n_role_id]\<rparr>]\<rparr>,
     \<lparr>tb_name = n_userrole,
      tb_columns = [(n_id, False), (n_user_id, False), (n_role_id, False)],
      tb_objects =
       [\<lparr>dbo_name = n_userrole_role_id_fkey, dbo_kind = Foreign_Key n_role, dbo_columns = [n_role_id]\<rparr>,
        \<lparr>dbo_name = n_userrole_user_id_fkey, dbo_kind = Foreign_Key n_users, dbo_columns = [n_user_id]\<rparr>,
        \<lparr>dbo_name = n_userrole_pkey, dbo_kind = Primary_Key, dbo_columns = [n_id]\<rparr>,
        \<lparr>dbo_name = n_uq_user_role_user_id_role_id, dbo_kind = Unique_Key, dbo_columns = [n_user_id,
        n_role_id]\<rparr>,
        \<lparr>dbo_name = n_ix_userrole_role_id, dbo_kind = Is_Index False None, dbo_columns = [n_role_id]\<rparr>,
        \<lparr>dbo_name = n_ix_userrole_user_id, dbo_kind = Is_Index False None,
        dbo_columns = [n_user_id]\<rparr>]\<rparr>,
     \<lparr>tb_name = n_userphone,
      tb_columns = [(n_id, False), (n_user_id, False), (n_phone, False), (n_is_primary, False),
        (n_verified_at, False), (n_created_at, False)],
      tb_objects =
       [\<lparr>dbo_name = n_userphone_user_id_fkey, dbo_kind = Foreign_Key n_users,
        dbo_columns = [n_user_id]\<rparr>,
        \<lparr>dbo_name = n_userphone_pkey, dbo_kind = Primary_Key, dbo_columns = [n_id]\<rparr>,
        \<lparr>dbo_name = n_userphone_phone_key, dbo_kind = Unique_Key, dbo_columns = [n_phone]\<rparr>,
        \<lparr>dbo_name = n_ix_userphone_user_id, dbo_kind = Is_Index False None,
        dbo_columns = [n_user_id]\<rparr>]\<rparr>,
     \<lparr>tb_name = n_usermedia,
      tb_columns = [(n_id, False), (n_user_id, False), (n_profile_image_url, True),
        (n_profile_image_thumb_url, True)],
      tb_objects =
       [\<lparr>dbo_name = n_usermedia_user_id_fkey, dbo_kind = Foreign_Key n_users,
        dbo_columns = [n_user_id]\<rparr>,
        \<lparr>dbo_name = n_usermedia_pkey, dbo_kind = Primary_Key, dbo_columns = [n_id]\<rparr>,
        \<lparr>dbo_name = n_usermedia_user_id_key, dbo_kind = Unique_Key, dbo_columns = [n_user_id]\<rparr>]\<rparr>,
     \<lparr>tb_name = n_productcategory,
      tb_columns = [(n_id, False), (n_name, False), (n_description, True), (n_created_at, False),
        (n_updated_at, False)],
      tb_objects =
       [\<lparr>dbo_name = n_productcategory_pkey, dbo_kind = Primary_Key, dbo_columns = [n_id]\<rparr>,
        \<lparr>dbo_name = n_productcategory_name_key, dbo_kind = Unique_Key, dbo_columns = [n_name]\<rparr>]\<rparr>,
     \<lparr>tb_name = n_product,
      tb_columns = [(n_id, False), (n_public_id, False), (n_stock_qty, False), (n_sku, True), (n_name, False),
        (n_description, True), (n_base_price, False), (n_specs, True), (n_owner_id, True), (n_created_at, False),
        (n_updated_at, False), (n_deleted_at, True)],
      tb_objects =
       [\<lparr>dbo_name = n_product_owner_id_fkey, dbo_kind = Foreign_Key n_users,
        dbo_columns = [n_owner_id]\<rparr>,
        \<lparr>dbo_name = n_product_pkey, dbo_kind = Primary_Key, dbo_columns = [n_id]\<rparr>,
        \<lparr>dbo_name = n_ix_product_public_id, dbo_kind = Is_Index True None, dbo_columns = [n_public_id]\<rparr>,
        \<lparr>dbo_name = n_ix_product_owner_id, dbo_kind = Is_Index False None,
        dbo_columns = [n_owner_id]\<rparr>]\<rparr>,
     \<lparr>tb_name = n_productcategorylink,
      tb_columns = [(n_id, False), (n_product_id, False), (n_prod_category_id, False)],
      tb_objects =
       [\<lparr>dbo_name = n_productcategorylink_prod_category_id_fkey, dbo_kind = Foreign_Key n_productcategory,
        dbo_columns = [n_prod_category_id]\<rparr>,
        \<lparr>dbo_name = n_productcategorylink_product_id_fkey, dbo_kind = Foreign_Key n_product,
        dbo_columns = [n_product_id]\<rparr>,
        \<lparr>dbo_name = n_productcategorylink_pkey, dbo_kind = Primary_Key, dbo_columns = [n_id]\<rparr>,
        \<lparr>dbo_name = n_uq_product_category, dbo_kind = Unique_Key, dbo_columns = [n_product_id,
        n_prod_category_id]\<rparr>,
        \<lparr>dbo_name = n_ix_productcategorylink_prod_category_id, dbo_kind = Is_Index False None,
        dbo_columns = [n_prod_category_id]\<rparr>,
        \<lparr>dbo_name = n_ix_productcategorylink_product_id, dbo_kind = Is_Index False None,
        dbo_columns = [n_product_id]\<rparr>]\<rparr>,
     \<lparr>tb_name = n_productimage,
      tb_columns = [(n_id, False), (n_product_id, False), (n_public_id, False), (n_storage_key, True),
        (n_bucket, True), (n_mime_type, True), (n_file_size, True), (n_variants, True), (n_status, False),
        (n_orig_filename, True), (n_sort_order, False), (n_alt_text, True), (n_created_at, False),
        (n_updated_at, False), (n_content_id, True), (n_storage_provider, False)],
      tb_objects =
       [\<lparr>dbo_name = n_productimage_product_id_fkey, dbo_kind = Foreign_Key n_product,
        dbo_columns = [n_product_id]\<rparr>,
        \<lparr>dbo_name = n_productimage_pkey, dbo_kind = Primary_Key, dbo_columns = [n_id]\<rparr>,
        \<lparr>dbo_name = n_ix_productimage_product_id, dbo_kind = Is_Index False None,
        dbo_columns = [n_product_id]\<rparr>,
        \<lparr>dbo_name = n_ix_productimage_public_id, dbo_kind = Is_Index True None,
        dbo_columns = [n_public_id]\<rparr>,
        \<lparr>dbo_name = n_productimage_storage_key_key, dbo_kind = Unique_Key,
        dbo_columns = [n_storage_key]\<rparr>,
        \<lparr>dbo_name = n_productimage_content_id_fkey, dbo_kind = Foreign_Key n_imagecontent,
        dbo_columns = [n_content_id]\<rparr>]\<rparr>,
     \<lparr>tb_name = n_roleaudit,
      tb_columns = [(n_id, False), (n_actor_user_id, True), (n_target_user_id, True), (n_old_roles, False),
        (n_new_roles, False), (n_reason, True), (n_created_at, False), (n_updated_at, False)],
      tb_objects =
       [\<lparr>dbo_name = n_roleaudit_actor_user_id_fkey, dbo_kind = Foreign_Key n_users,
        dbo_columns = [n_actor_user_id]\<rparr>,
        \<lparr>dbo_name = n_roleaudit_target_user_id_fkey, dbo_kind = Foreign_Key n_users,
        dbo_columns = [n_target_user_id]\<rparr>,
        \<lparr>dbo_name = n_roleaudit_pkey, dbo_kind = Primary_Key, dbo_columns = [n_id]\<rparr>]\<rparr>,
     \<lparr>tb_name = n_imagecontent,
      tb_columns = [(n_id, False), (n_checksum, False), (n_public_id, False), (n_provider_public_id, True),
        (n_url, True), (n_meta, True), (n_created_at, False)],
      tb_objects =
       [\<lparr>dbo_name = n_imagecontent_pkey, dbo_kind = Primary_Key, dbo_columns = [n_id]\<rparr>,
        \<lparr>dbo_name = n_imagecontent_checksum_key, dbo_kind = Unique_Key, dbo_columns = [n_checksum]\<rparr>,
        \<lparr>dbo_name = n_ix_imagecontent_public_id, dbo_kind = Is_Index True None,
        dbo_columns = [n_public_id]\<rparr>]\<rparr>,
     \<lparr>tb_name = n_providerwebhookevent,
      tb_columns = [(n_id, False), (n_provider_event_id, False), (n_provider, True), (n_payload, False),
        (n_received_at, False), (n_processed_at, True), (n_attempts, True)],
      tb_objects =
       [\<lparr>dbo_name = n_providerwebhookevent_pkey, dbo_kind = Primary_Key, dbo_columns = [n_id]\<rparr>,
        \<lparr>dbo_name = n_uq_providerwebhookevent_provider_event_id, dbo_kind = Unique_Key,
        dbo_columns = [n_provider_event_id]\<rparr>]\<rparr>,
     \<lparr>tb_name = n_cart,
      tb_columns = [(n_id, False), (n_user_id, True), (n_session_id, True), (n_created_at, False),
        (n_updated_at, False)],
      tb_objects =
       [\<lparr>dbo_name = n_cart_session_id_fkey, dbo_kind = Foreign_Key n_devicesession,
        dbo_columns = [n_session_id]\<rparr>,
        \<lparr>dbo_name = n_cart_user_id_fkey, dbo_kind = Foreign_Key n_users, dbo_columns = [n_user_id]\<rparr>,
        \<lparr>dbo_name = n_cart_pkey, dbo_kind = Primary_Key, dbo_columns = [n_id]\<rparr>,
        \<lparr>dbo_name = n_ix_cart_session_id, dbo_kind = Is_Index False None, dbo_columns = [n_session_id]\<rparr>,
        \<lparr>dbo_name = n_ix_cart_user_id, dbo_kind = Is_Index False None,
        dbo_columns = [n_user_id]\<rparr>]\<rparr>,
     \<lparr>tb_name = n_cartitem,
      tb_columns = [(n_id, False), (n_cart_id, True), (n_product_id, False), (n_quantity, False),
        (n_unit_price_snapshot, False), (n_created_at, False), (n_deleted_at, True)],
      tb_objects =
       [\<lparr>dbo_name = n_cartitem_cart_id_fkey, dbo_kind = Foreign_Key n_cart, dbo_columns = [n_cart_id]\<rparr>,
        \<lparr>dbo_name = n_cartitem_product_id_fkey, dbo_kind = Foreign_Key n_product,
        dbo_columns = [n_product_id]\<rparr>,
        \<lparr>dbo_name = n_cartitem_pkey, dbo_kind = Primary_Key, dbo_columns = [n_id]\<rparr>,
        \<lparr>dbo_name = n_uq_cart_product, dbo_kind = Unique_Key, dbo_columns = [n_cart_id,
        n_product_id]\<rparr>]\<rparr>]"

definition rollback_schema :: "db_table list" where
  "rollback_schema =
    [\<lparr>tb_name = n_devicesession,
      tb_columns = [(n_id, False), (n_session_token_hash, False), (n_device_name, True), (n_device_type, True),
        (n_user_agent_snippet, True), (n_device_fingerprint_hash, True), (n_ip_first_seen, True),
        (n_last_seen_ip, True), (n_last_activity_at, True), (n_created_at, False), (n_revoked_at, True),
        (n_session_expires_at, False), (n_user_id, True), (n_public_id, False)],
      tb_objects =
       [\<lparr>dbo_name = n_devicesession_pkey, dbo_kind = Primary_Key, dbo_columns = [n_id]\<rparr>,
        \<lparr>dbo_name = n_ix_devicesession_session_token_hash, dbo_kind = Is_Index True None,
        dbo_columns = [n_session_token_hash]\<rparr>,
        \<lparr>dbo_name = n_ix_devicesession_user_id, dbo_kind = Is_Index False None,
        dbo_columns = [n_user_id]\<rparr>,
        \<lparr>dbo_name = n_devicesession_user_id_fkey, dbo_kind = Foreign_Key n_users,
        dbo_columns = [n_user_id]\<rparr>,
        \<lparr>dbo_name = n_ix_devicesession_public_id, dbo_kind = Is_Index True None,
        dbo_columns = [n_public_id]\<rparr>]\<rparr>,
     \<lparr>tb_name = n_users,
      tb_columns = [(n_id, False), (n_public_id, False), (n_email, True), (n_created_at, False),
        (n_updated_at, False), (n_deleted_at, True), (n_name, True), (n_role_version, False)],
      tb_objects =
       [\<lparr>dbo_name = n_user_pkey, dbo_kind = Primary_Key, dbo_columns = [n_id]\<rparr>,
        \<lparr>dbo_name = n_ix_users_public_id, dbo_kind = Is_Index True None, dbo_columns = [n_public_id]\<rparr>,
        \<lparr>dbo_name = n_users_email_key, dbo_kind = Unique_Key, dbo_columns = [n_email]\<rparr>]\<rparr>,
     \<lparr>tb_name = n_address,
      tb_columns = [(n_id, False), (n_user_id, False), (n_line1, False), (n_line2, True), (n_city, False),
        (n_state, True), (n_postal_code, False), (n_country, False), (n_phone, False), (n_is_default, False),
        (n_created_at, False), (n_updated_at, False), (n_deleted_at, True), (n_name, True)],
      tb_objects =
       [\<lparr>dbo_name = n_address_user_id_fkey, dbo_kind = Foreign_Key n_users, dbo_columns = [n_user_id]\<rparr>,
        \<lparr>dbo_name = n_address_pkey, dbo_kind = Primary_Key, dbo_columns = [n_id]\<rparr>,
        \<lparr>dbo_name = n_ix_address_user_id, dbo_kind = Is_Index False None,
        dbo_columns = [n_user_id]\<rparr>]\<rparr>,
     \<lparr>tb_name = n_credential,
      tb_columns = [(n_id, False), (n_user_id, False), (n_type, False), (n_provider, True),
        (n_provider_user_id, True), (n_provider_email, True), (n_password_hash, True), (n_created_at, False),
        (n_updated_at, False), (n_revoked_at, True)],
      tb_objects =
       [\<lparr>dbo_name = n_credential_user_id_fkey, dbo_kind = Foreign_Key n_users,
        dbo_columns = [n_user_id]\<rparr>,
        \<lparr>dbo_name = n_credential_pkey, dbo_kind = Primary_Key, dbo_columns = [n_id]\<rparr>,
        \<lparr>dbo_name = n_ix_credential_user_id, dbo_kind = Is_Index False None, dbo_columns = [n_user_id]\<rparr>,
        \<lparr>dbo_name = n_uq_credential_provider_userid, dbo_kind = Unique_Key, dbo_columns = [n_provider,
        n_provider_user_id]\<rparr>,
        \<lparr>dbo_name = n_uq_credential_user_type_provider, dbo_kind = Unique_Key, dbo_columns = [n_user_id,
        n_type, n_provider]\<rparr>]\<rparr>,
     \<lparr>tb_name = n_deviceauthtoken,
      tb_columns = [(n_id, False), (n_device_session_id, False), (n_user_id, False), (n_token_hash, False),
        (n_issued_at, False), (n_expires_at, True), (n_revoked_at, True), (n_revoked_by, True),
        (n_revoked_reason, True), (n_auth_method, False)],
      tb_objects =
       [\<lparr>dbo_name = n_deviceauthtoken_device_session_id_fkey, dbo_kind = Foreign_Key n_devicesession,
        dbo_columns = [n_device_session_id]\<rparr>,
        \<lparr>dbo_name = n_deviceauthtoken_pkey, dbo_kind = Primary_Key, dbo_columns = [n_id]\<rparr>,
        \<lparr>dbo_name = n_ix_deviceauthtoken_device_session_id, dbo_kind = Is_Index False None,
        dbo_columns = [n_device_session_id]\<rparr>,
        \<lparr>dbo_name = n_ix_deviceauthtoken_user_id, dbo_kind = Is_Index False None,
        dbo_columns = [n_user_id]\<rparr>,
        \<lparr>dbo_name = n_deviceauthtoken_user_id_fkey, dbo_kind = Foreign_Key n_users,
        dbo_columns = [n_user_id]\<rparr>,
        \<lparr>dbo_name = n_ix_deviceauthtoken_token_hash, dbo_kind = Is_Index True None,
        dbo_columns = [n_token_hash]\<rparr>]\<rparr>,
     \<lparr>tb_name = n_permission,
      tb_columns = [(n_id, False), (n_name, False), (n_description, True)],
      tb_objects =
       [\<lparr>dbo_name = n_permission_pkey, dbo_kind = Primary_Key, dbo_columns = [n_id]\<rparr>,
        \<lparr>dbo_name = n_permission_name_key, dbo_kind = Unique_Key, dbo_columns = [n_name]\<rparr>]\<rparr>,
     \<lparr>tb_name = n_role,
      tb_columns = [(n_id, False), (n_name, False), (n_description, True)],
      tb_objects =
       [\<lparr>dbo_name = n_role_pkey, dbo_kind = Primary_Key, dbo_columns = [n_id]\<rparr>,
        \<lparr>dbo_name = n_role_name_key, dbo_kind = Unique_Key, dbo_columns = [n_name]\<rparr>]\<rparr>,
     \<lparr>tb_name = n_rolepermission,
      tb_columns = [(n_id, False), (n_role_id, False), (n_permission_id, False)],
      tb_objects =
       [\<lparr>dbo_name = n_rolepermission_permission_id_fkey, dbo_kind = Foreign_Key n_permission,
        dbo_columns = [n_permission_id]\<rparr>,
        \<lparr>dbo_name = n_rolepermission_role_id_fkey, dbo_kind = Foreign_Key n_role,
        dbo_columns = [n_role_id]\<rparr>,
        \<lparr>dbo_name = n_rolepermission_pkey, dbo_kind = Primary_Key, dbo_columns = [n_id]\<rparr>,
        \<lparr>dbo_name = n_uq_role_permission_role_id_permission_id, dbo_kind = Unique_Key,
        dbo_columns = [n_role_id, n_permission_id]\<rparr>,
        \<lparr>dbo_name = n_ix_rolepermission_permission_id, dbo_kind = Is_Index False None,
        dbo_columns = [n_permission_id]\<rparr>,
        \<lparr>dbo_name = n_ix_rolepermission_role_id, dbo_kind = Is_Index False None,
        dbo_columns = [n_role_id]\<rparr>]\<rparr>,
     \<lparr>tb_name = n_userrole,
      tb_columns = [(n_id, False), (n_user_id, False), (n_role_id, False)],
      tb_objects =
       [\<lparr>dbo_name = n_userrole_role_id_fkey, dbo_kind = Foreign_Key n_role, dbo_columns = [n_role_id]\<rparr>,
        \<lparr>dbo_name = n_userrole_user_id_fkey, dbo_kind = Foreign_Key n_users, dbo_columns = [n_user_id]\<rparr>,
        \<lparr>dbo_name = n_userrole_pkey, dbo_kind = Primary_Key, dbo_columns = [n_id]\<rparr>,
        \<lparr>dbo_name = n_uq_user_role_user_id_role_id, dbo_kind = Unique_Key, dbo_columns = [n_user_id,
        n_role_id]\<rparr>,
        \<lparr>dbo_name = n_ix_userrole_role_id, dbo_kind = Is_Index False None, dbo_columns = [n_role_id]\<rparr>,
        \<lparr>dbo_name = n_ix_userrole_user_id, dbo_kind = Is_Index False None,
        dbo_columns = [n_user_id]\<rparr>]\<rparr>,
     \<lparr>tb_name = n_userphone,
      tb_columns = [(n_id, False), (n_user_id, False), (n_phone, False), (n_is_primary, False),
        (n_verified_at, False), (n_created_at, False)],
      tb_objects =
       [\<lparr>dbo_name = n_userphone_user_id_fkey, dbo_kind = Foreign_Key n_users,
        dbo_columns = [n_user_id]\<rparr>,
        \<lparr>dbo_name = n_userphone_pkey, dbo_kind = Primary_Key, dbo_columns = [n_id]\<rparr>,
        \<lparr>dbo_name = n_userphone_phone_key, dbo_kind = Unique_Key, dbo_columns = [n_phone]\<rparr>,
        \<lparr>dbo_name = n_ix_userphone_user_id, dbo_kind = Is_Index False None,
        dbo_columns = [n_user_id]\<rparr>]\<rparr>,
     \<lparr>tb_name = n_usermedia,
      tb_columns = [(n_id, False), (n_user_id, False), (n_profile_image_url, True),
        (n_profile_image_thumb_url, True)],
      tb_objects =
       [\<lparr>dbo_name = n_usermedia_user_id_fkey, dbo_kind = Foreign_Key n_users,
        dbo_columns = [n_user_id]\<rparr>,
        \<lparr>dbo_name = n_usermedia_pkey, dbo_kind = Primary_Key, dbo_columns = [n_id]\<rparr>,
        \<lparr>dbo_name = n_usermedia_user_id_key, dbo_kind = Unique_Key, dbo_columns = [n_user_id]\<rparr>]\<rparr>,
     \<lparr>tb_name = n_productcategory,
      tb_columns = [(n_id, False), (n_name, False), (n_description, True), (n_created_at, False),
        (n_updated_at, False)],
      tb_objects =
       [\<lparr>dbo_name = n_productcategory_pkey, dbo_kind = Primary_Key, dbo_columns = [n_id]\<rparr>,
        \<lparr>dbo_name = n_productcategory_name_key, dbo_kind = Unique_Key, dbo_columns = [n_name]\<rparr>]\<rparr>,
     \<lparr>tb_name = n_product,
      tb_columns = [(n_id, False), (n_public_id, False), (n_stock_qty, False), (n_sku, True), (n_name, False),
        (n_description, True), (n_base_price, False), (n_specs, True), (n_owner_id, True), (n_created_at, False),
        (n_updated_at, False), (n_deleted_at, True)],
      tb_objects =
       [\<lparr>dbo_name = n_product_owner_id_fkey, dbo_kind = Foreign_Key n_users,
        dbo_columns = [n_owner_id]\<rparr>,
        \<lparr>dbo_name = n_product_pkey, dbo_kind = Primary_Key, dbo_columns = [n_id]\<rparr>,
        \<lparr>dbo_name = n_ix_product_public_id, dbo_kind = Is_Index True None, dbo_columns = [n_public_id]\<rparr>,
        \<lparr>dbo_name = n_ix_product_owner_id, dbo_kind = Is_Index False None, dbo_columns = [n_owner_id]\<rparr>,
        \<lparr>dbo_name = n_product_name_key, dbo_kind = Unique_Key, dbo_columns = [n_name]\<rparr>]\<rparr>,
     \<lparr>tb_name = n_productcategorylink,
      tb_columns = [(n_id, False), (n_product_id, False), (n_prod_category_id, False)],
      tb_objects =
       [\<lparr>dbo_name = n_productcategorylink_prod_category_id_fkey, dbo_kind = Foreign_Key n_productcategory,
        dbo_columns = [n_prod_category_id]\<rparr>,
        \<lparr>dbo_name = n_productcategorylink_product_id_fkey, dbo_kind = Foreign_Key n_product,
        dbo_columns = [n_product_id]\<rparr>,
        \<lparr>dbo_name = n_productcategorylink_pkey, dbo_kind = Primary_Key, dbo_columns = [n_id]\<rparr>,
        \<lparr>dbo_name = n_uq_product_category, dbo_kind = Unique_Key, dbo_columns = [n_product_id,
        n_prod_category_id]\<rparr>,
        \<lparr>dbo_name = n_ix_productcategorylink_prod_category_id, dbo_kind = Is_Index False None,
        dbo_columns = [n_prod_category_id]\<rparr>,
        \<lparr>dbo_name = n_ix_productcategorylink_product_id, dbo_kind = Is_Index False None,
        dbo_columns = [n_product_id]\<rparr>]\<rparr>,
     \<lparr>tb_name = n_productimage,
      tb_columns = [(n_id, False), (n_product_id, False), (n_public_id, False), (n_storage_key, True),
        (n_bucket, True), (n_mime_type, True), (n_file_size, True), (n_variants, True), (n_status, False),
        (n_orig_filename, True), (n_sort_order, False), (n_alt_text, True), (n_created_at, False),
        (n_updated_at, False), (n_content_id, True), (n_storage_provider, False)],
      tb_objects =
       [\<lparr>dbo_name = n_productimage_product_id_fkey, dbo_kind = Foreign_Key n_product,
        dbo_columns = [n_product_id]\<rparr>,
        \<lparr>dbo_name = n_productimage_pkey, dbo_kind = Primary_Key, dbo_columns = [n_id]\<rparr>,
        \<lparr>dbo_name = n_ix_productimage_product_id, dbo_kind = Is_Index False None,
        dbo_columns = [n_product_id]\<rparr>,
        \<lparr>dbo_name = n_ix_productimage_public_id, dbo_kind = Is_Index True None,
        dbo_columns = [n_public_id]\<rparr>,
        \<lparr>dbo_name = n_productimage_storage_key_key, dbo_kind = Unique_Key,
        dbo_columns = [n_storage_key]\<rparr>,
        \<lparr>dbo_name = n_productimage_content_id_fkey, dbo_kind = Foreign_Key n_imagecontent,
        dbo_columns = [n_content_id]\<rparr>]\<rparr>,
     \<lparr>tb_name = n_roleaudit,
      tb_columns = [(n_id, False), (n_actor_user_id, True), (n_target_user_id, True), (n_old_roles, False),
        (n_new_roles, False), (n_reason, True), (n_created_at, False), (n_updated_at, False)],
      tb_objects =
       [\<lparr>dbo_name = n_roleaudit_actor_user_id_fkey, dbo_kind = Foreign_Key n_users,
        dbo_columns = [n_actor_user_id]\<rparr>,
        \<lparr>dbo_name = n_roleaudit_target_user_id_fkey, dbo_kind = Foreign_Key n_users,
        dbo_columns = [n_target_user_id]\<rparr>,
        \<lparr>dbo_name = n_roleaudit_pkey, dbo_kind = Primary_Key, dbo_columns = [n_id]\<rparr>]\<rparr>,
     \<lparr>tb_name = n_imagecontent,
      tb_columns = [(n_id, False), (n_checksum, False), (n_public_id, False), (n_provider_public_id, True),
        (n_url, True), (n_meta, True), (n_created_at, False), (n_provider, True)],
      tb_objects =
       [\<lparr>dbo_name = n_imagecontent_pkey, dbo_kind = Primary_Key, dbo_columns = [n_id]\<rparr>,
        \<lparr>dbo_name = n_imagecontent_checksum_key, dbo_kind = Unique_Key, dbo_columns = [n_checksum]\<rparr>,
        \<lparr>dbo_name = n_ix_imagecontent_public_id, dbo_kind = Is_Index True None,
        dbo_columns = [n_public_id]\<rparr>]\<rparr>,
     \<lparr>tb_name = n_cart,
      tb_columns = [(n_id, False), (n_user_id, True), (n_session_id, True), (n_created_at, False),
        (n_updated_at, False)],
      tb_objects =
       [\<lparr>dbo_name = n_cart_user_id_fkey, dbo_kind = Foreign_Key n_users, dbo_columns = [n_user_id]\<rparr>,
        \<lparr>dbo_name = n_cart_pkey, dbo_kind = Primary_Key, dbo_columns = [n_id]\<rparr>,
        \<lparr>dbo_name = n_cart_session_id_fkey, dbo_kind = Foreign_Key n_devicesession,
        dbo_columns = [n_session_id]\<rparr>,
        \<lparr>dbo_name = n_uq_cart_session_id, dbo_kind = Is_Index True (Some p_session_id_is_not_null),
        dbo_columns = [n_session_id]\<rparr>,
        \<lparr>dbo_name = n_uq_cart_user_id, dbo_kind = Is_Index True (Some p_user_id_is_not_null),
        dbo_columns = [n_user_id]\<rparr>]\<rparr>,
     \<lparr>tb_name = n_cartitem,
      tb_columns = [(n_id, False), (n_cart_id, True), (n_product_id, False), (n_quantity, False),
        (n_created_at, False), (n_deleted_at, True)],
      tb_objects =
       [\<lparr>dbo_name = n_cartitem_product_id_fkey, dbo_kind = Foreign_Key n_product,
        dbo_columns = [n_product_id]\<rparr>,
        \<lparr>dbo_name = n_cartitem_pkey, dbo_kind = Primary_Key, dbo_columns = [n_id]\<rparr>,
        \<lparr>dbo_name = n_uq_cart_product, dbo_kind = Unique_Key, dbo_columns = [n_cart_id, n_product_id]\<rparr>,
        \<lparr>dbo_name = n_cartitem_cart_id_fkey, dbo_kind = Foreign_Key n_cart,
        dbo_columns = [n_cart_id]\<rparr>]\<rparr>,
     \<lparr>tb_name = n_checkoutsession,
      tb_columns = [(n_id, False), (n_public_id, False), (n_user_id, False), (n_session_id, True),
        (n_cart_snapshot, True), (n_selected_payment_method, True), (n_expires_at, False), (n_created_at, False),
        (n_updated_at, False), (n_is_active, False)],
      tb_objects =
       [\<lparr>dbo_name = n_checkoutsession_pkey, dbo_kind = Primary_Key, dbo_columns = [n_id]\<rparr>,
        \<lparr>dbo_name = n_ix_checkoutsession_expires_at, dbo_kind = Is_Index False None,
        dbo_columns = [n_expires_at]\<rparr>,
        \<lparr>dbo_name = n_ix_checkoutsession_public_id, dbo_kind = Is_Index True None,
        dbo_columns = [n_public_id]\<rparr>,
        \<lparr>dbo_name = n_uq_checkout_active_cart, dbo_kind = Is_Index True (Some p_is_active_true),
        dbo_columns = [n_user_id]\<rparr>]\<rparr>,
     \<lparr>tb_name = n_idempotencykey,
      tb_columns = [(n_id, False), (n_key, False), (n_created_by, False), (n_owner_type, True), (n_owner_id, True),
        (n_request_hash, True), (n_response_code, True), (n_response_body, True), (n_created_at, False),
        (n_expires_at, True), (n_status, False)],
      tb_objects =
       [\<lparr>dbo_name = n_idempotencykey_pkey, dbo_kind = Primary_Key, dbo_columns = [n_id]\<rparr>,
        \<lparr>dbo_name = n_ix_idempotencykey_expires_at, dbo_kind = Is_Index False None,
        dbo_columns = [n_expires_at]\<rparr>,
        \<lparr>dbo_name = n_ix_idempotencykey_key, dbo_kind = Is_Index True None, dbo_columns = [n_key]\<rparr>,
        \<lparr>dbo_name = n_ix_idempotencykey_status, dbo_kind = Is_Index False None,
        dbo_columns = [n_status]\<rparr>]\<rparr>,
     \<lparr>tb_name = n_inventoryreservation,
      tb_columns = [(n_id, False), (n_product_id, False), (n_order_id, True), (n_quantity, False),
        (n_reserved_until, True), (n_status, False), (n_created_at, False), (n_checkout_id, False)],
      tb_objects =
       [\<lparr>dbo_name = n_inventoryreservation_pkey, dbo_kind = Primary_Key, dbo_columns = [n_id]\<rparr>,
        \<lparr>dbo_name = n_uq_product_checkout, dbo_kind = Unique_Key, dbo_columns = [n_product_id,
        n_checkout_id]\<rparr>]\<rparr>,
     \<lparr>tb_name = n_orderitem,
      tb_columns = [(n_id, False), (n_order_id, False), (n_product_id, False), (n_sku, True), (n_quantity, False),
        (n_unit_price_snapshot, False), (n_tax_snapshot, True), (n_discount_snapshot, True), (n_meta, True)],
      tb_objects =
       [\<lparr>dbo_name = n_orderitem_product_id_fkey, dbo_kind = Foreign_Key n_product,
        dbo_columns = [n_product_id]\<rparr>,
        \<lparr>dbo_name = n_orderitem_pkey, dbo_kind = Primary_Key, dbo_columns = [n_id]\<rparr>,
        \<lparr>dbo_name = n_uq_order_product, dbo_kind = Unique_Key, dbo_columns = [n_order_id,
        n_product_id]\<rparr>,
        \<lparr>dbo_name = n_orderitem_order_id_fkey, dbo_kind = Foreign_Key n_orders,
        dbo_columns = [n_order_id]\<rparr>]\<rparr>,
     \<lparr>tb_name = n_payment,
      tb_columns = [(n_id, False), (n_public_id, False), (n_order_id, False), (n_provider, True),
        (n_provider_payment_id, True), (n_status, False), (n_amount, False), (n_currency, False),
        (n_pay_metadata, True), (n_created_at, False), (n_paid_at, True), (n_provider_order_id, True)],
      tb_objects =
       [\<lparr>dbo_name = n_payment_pkey, dbo_kind = Primary_Key, dbo_columns = [n_id]\<rparr>,
        \<lparr>dbo_name = n_ix_payment_public_id, dbo_kind = Is_Index True None, dbo_columns = [n_public_id]\<rparr>,
        \<lparr>dbo_name = n_ix_payment_status, dbo_kind = Is_Index False None, dbo_columns = [n_status]\<rparr>,
        \<lparr>dbo_name = n_payment_order_id_fkey, dbo_kind = Foreign_Key n_orders,
        dbo_columns = [n_order_id]\<rparr>,
        \<lparr>dbo_name = n_uq_provider_providerorder, dbo_kind = Unique_Key, dbo_columns = [n_provider,
        n_provider_order_id]\<rparr>,
        \<lparr>dbo_name = n_uq_provider_providerpayment, dbo_kind = Unique_Key, dbo_columns = [n_provider,
        n_provider_payment_id]\<rparr>,
        \<lparr>dbo_name = n_payment_order_id_key, dbo_kind = Unique_Key, dbo_columns = [n_order_id]\<rparr>]\<rparr>,
     \<lparr>tb_name = n_paymentattempt,
      tb_columns = [(n_id, False), (n_payment_id, False), (n_attempt_no, False), (n_provider_response, True),
        (n_created_at, False), (n_status, False)],
      tb_objects =
       [\<lparr>dbo_name = n_paymentattempt_payment_id_fkey, dbo_kind = Foreign_Key n_payment,
        dbo_columns = [n_payment_id]\<rparr>,
        \<lparr>dbo_name = n_paymentattempt_pkey, dbo_kind = Primary_Key, dbo_columns = [n_id]\<rparr>,
        \<lparr>dbo_name = n_ix_paymentattempt_payment_id, dbo_kind = Is_Index False None,
        dbo_columns = [n_payment_id]\<rparr>]\<rparr>,
     \<lparr>tb_name = n_paymentwebhookevent,
      tb_columns = [(n_id, False), (n_provider, False), (n_provider_event_id, True), (n_payload, True),
        (n_processed_at, True), (n_created_at, False), (n_status, False), (n_attempts, False),
        (n_last_error, True), (n_order_id, True)],
      tb_objects =
       [\<lparr>dbo_name = n_paymentwebhookevent_pkey, dbo_kind = Primary_Key, dbo_columns = [n_id]\<rparr>,
        \<lparr>dbo_name = n_uq_provider_event, dbo_kind = Is_Index True (Some p_provider_event_id_is_not_null),
        dbo_columns = [n_provider, n_provider_event_id]\<rparr>,
        \<lparr>dbo_name = n_ix_paymentwebhookevent_order_id, dbo_kind = Is_Index False None,
        dbo_columns = [n_order_id]\<rparr>]\<rparr>,
     \<lparr>tb_name = n_orders,
      tb_columns = [(n_id, False), (n_public_id, False), (n_user_id, True), (n_session_id, True),
        (n_status, False), (n_currency, False), (n_subtotal, False), (n_tax, False), (n_shipping, False),
        (n_discount, False), (n_total, False), (n_shipping_address_json, False), (n_billing_address_json, True),
        (n_payment_method, True), (n_provider_order_id, True), (n_created_at, False), (n_updated_at, False),
        (n_placed_at, True), (n_delievered_at, True)],
      tb_objects =
       [\<lparr>dbo_name = n_orders_session_id_fkey, dbo_kind = Foreign_Key n_devicesession,
        dbo_columns = [n_session_id]\<rparr>,
        \<lparr>dbo_name = n_orders_user_id_fkey, dbo_kind = Foreign_Key n_users, dbo_columns = [n_user_id]\<rparr>,
        \<lparr>dbo_name = n_orders_pkey, dbo_kind = Primary_Key, dbo_columns = [n_id]\<rparr>,
        \<lparr>dbo_name = n_ix_orders_public_id, dbo_kind = Is_Index True None, dbo_columns = [n_public_id]\<rparr>,
        \<lparr>dbo_name = n_ix_orders_status, dbo_kind = Is_Index False None, dbo_columns = [n_status]\<rparr>,
        \<lparr>dbo_name = n_ix_orders_user_id, dbo_kind = Is_Index False None,
        dbo_columns = [n_user_id]\<rparr>]\<rparr>,
     \<lparr>tb_name = n_outboxevent,
      tb_columns = [(n_id, False), (n_topic, False), (n_payload, False), (n_aggregate_type, False),
        (n_aggregate_id, False), (n_status, False), (n_attempts, False), (n_next_retry_at, True),
        (n_created_at, False), (n_sent_at, True)],
      tb_objects =
       [\<lparr>dbo_name = n_outboxevent_pkey, dbo_kind = Primary_Key, dbo_columns = [n_id]\<rparr>,
        \<lparr>dbo_name = n_uq_outboxevent_topic_agtype_agid, dbo_kind = Unique_Key, dbo_columns = [n_topic,
        n_aggregate_type, n_aggregate_id]\<rparr>]\<rparr>,
     \<lparr>tb_name = n_commitintent,
      tb_columns = [(n_id, False), (n_aggregate_type, False), (n_aggregate_id, False), (n_reason, False),
        (n_status, False), (n_payload, True), (n_attempts, False), (n_next_retry_at, True), (n_created_at, True),
        (n_updated_at, True)],
      tb_objects =
       [\<lparr>dbo_name = n_commitintent_pkey, dbo_kind = Primary_Key, dbo_columns = [n_id]\<rparr>,
        \<lparr>dbo_name = n_uq_commitintent_reason_agtype_agid, dbo_kind = Unique_Key, dbo_columns = [n_reason,
        n_aggregate_type, n_aggregate_id]\<rparr>]\<rparr>,
     \<lparr>tb_name = n_uploadswebhookevent,
      tb_columns = [(n_id, False), (n_provider_event_id, False), (n_provider, True), (n_payload, False),
        (n_received_at, False), (n_processed_at, True), (n_attempts, True)],
      tb_objects =
       [\<lparr>dbo_name = n_uploadswebhookevent_pkey, dbo_kind = Primary_Key, dbo_columns = [n_id]\<rparr>,
        \<lparr>dbo_name = n_uploadswebhookevent_provider_event_id_key, dbo_kind = Unique_Key,
        dbo_columns = [n_provider_event_id]\<rparr>]\<rparr>]"

definition head_schema :: "db_table list" where
  "head_schema =
    [\<lparr>tb_name = n_devicesession,
      tb_columns = [(n_id, False), (n_session_token_hash, False), (n_device_name, True), (n_device_type, True),
        (n_user_agent_snippet, True), (n_device_fingerprint_hash, True), (n_ip_first_seen, True),
        (n_last_seen_ip, True), (n_last_activity_at, True), (n_created_at, False), (n_revoked_at, True),
        (n_session_expires_at, False), (n_user_id, True), (n_public_id, False)],
      tb_objects =
       [\<lparr>dbo_name = n_devicesession_pkey, dbo_kind = Primary_Key, dbo_columns = [n_id]\<rparr>,
        \<lparr>dbo_name = n_ix_devicesession_session_token_hash, dbo_kind = Is_Index True None,
        dbo_columns = [n_session_token_hash]\<rparr>,
        \<lparr>dbo_name = n_ix_devicesession_user_id, dbo_kind = Is_Index False None,
        dbo_columns = [n_user_id]\<rparr>,
        \<lparr>dbo_name = n_devicesession_user_id_fkey, dbo_kind = Foreign_Key n_users,
        dbo_columns = [n_user_id]\<rparr>,
        \<lparr>dbo_name = n_ix_devicesession_public_id, dbo_kind = Is_Index True None,
        dbo_columns = [n_public_id]\<rparr>]\<rparr>,
     \<lparr>tb_name = n_users,
      tb_columns = [(n_id, False), (n_public_id, False), (n_email, True), (n_created_at, False),
        (n_updated_at, False), (n_deleted_at, True), (n_name, True), (n_role_version, False)],
      tb_objects =
       [\<lparr>dbo_name = n_user_pkey, dbo_kind = Primary_Key, dbo_columns = [n_id]\<rparr>,
        \<lparr>dbo_name = n_ix_users_public_id, dbo_kind = Is_Index True None, dbo_columns = [n_public_id]\<rparr>,
        \<lparr>dbo_name = n_users_email_key, dbo_kind = Unique_Key, dbo_columns = [n_email]\<rparr>]\<rparr>,
     \<lparr>tb_name = n_address,
      tb_columns = [(n_id, False), (n_user_id, False), (n_line1, False), (n_line2, True), (n_city, False),
        (n_state, True), (n_postal_code, False), (n_country, False), (n_phone, False), (n_is_default, False),
        (n_created_at, False), (n_updated_at, False), (n_deleted_at, True), (n_name, True)],
      tb_objects =
       [\<lparr>dbo_name = n_address_user_id_fkey, dbo_kind = Foreign_Key n_users, dbo_columns = [n_user_id]\<rparr>,
        \<lparr>dbo_name = n_address_pkey, dbo_kind = Primary_Key, dbo_columns = [n_id]\<rparr>,
        \<lparr>dbo_name = n_ix_address_user_id, dbo_kind = Is_Index False None,
        dbo_columns = [n_user_id]\<rparr>]\<rparr>,
     \<lparr>tb_name = n_credential,
      tb_columns = [(n_id, False), (n_user_id, False), (n_type, False), (n_provider, False),
        (n_provider_user_id, True), (n_provider_email, True), (n_password_hash, True), (n_created_at, False),
        (n_updated_at, False), (n_revoked_at, True)],
      tb_objects =
       [\<lparr>dbo_name = n_credential_user_id_fkey, dbo_kind = Foreign_Key n_users,
        dbo_columns = [n_user_id]\<rparr>,
        \<lparr>dbo_name = n_credential_pkey, dbo_kind = Primary_Key, dbo_columns = [n_id]\<rparr>,
        \<lparr>dbo_name = n_ix_credential_user_id, dbo_kind = Is_Index False None, dbo_columns = [n_user_id]\<rparr>,
        \<lparr>dbo_name = n_uq_credential_provider_userid, dbo_kind = Unique_Key, dbo_columns = [n_provider,
        n_provider_user_id]\<rparr>,
        \<lparr>dbo_name = n_uq_credential_user_provider, dbo_kind = Unique_Key, dbo_columns = [n_user_id,
        n_provider]\<rparr>]\<rparr>,
     \<lparr>tb_name = n_deviceauthtoken,
      tb_columns = [(n_id, False), (n_device_session_id, False), (n_user_id, False), (n_token_hash, False),
        (n_issued_at, False), (n_expires_at, True), (n_revoked_at, True), (n_revoked_by, True),
        (n_revoked_reason, True), (n_auth_method, False)],
      tb_objects =
       [\<lparr>dbo_name = n_deviceauthtoken_device_session_id_fkey, dbo_kind = Foreign_Key n_devicesession,
        dbo_columns = [n_device_session_id]\<rparr>,
        \<lparr>dbo_name = n_deviceauthtoken_pkey, dbo_kind = Primary_Key, dbo_columns = [n_id]\<rparr>,
        \<lparr>dbo_name = n_ix_deviceauthtoken_device_session_id, dbo_kind = Is_Index False None,
        dbo_columns = [n_device_session_id]\<rparr>,
        \<lparr>dbo_name = n_ix_deviceauthtoken_user_id, dbo_kind = Is_Index False None,
        dbo_columns = [n_user_id]\<rparr>,
        \<lparr>dbo_name = n_deviceauthtoken_user_id_fkey, dbo_kind = Foreign_Key n_users,
        dbo_columns = [n_user_id]\<rparr>,
        \<lparr>dbo_name = n_ix_deviceauthtoken_token_hash, dbo_kind = Is_Index True None,
        dbo_columns = [n_token_hash]\<rparr>]\<rparr>,
     \<lparr>tb_name = n_permission,
      tb_columns = [(n_id, False), (n_name, False), (n_description, True)],
      tb_objects =
       [\<lparr>dbo_name = n_permission_pkey, dbo_kind = Primary_Key, dbo_columns = [n_id]\<rparr>,
        \<lparr>dbo_name = n_permission_name_key, dbo_kind = Unique_Key, dbo_columns = [n_name]\<rparr>]\<rparr>,
     \<lparr>tb_name = n_role,
      tb_columns = [(n_id, False), (n_name, False), (n_description, True)],
      tb_objects =
       [\<lparr>dbo_name = n_role_pkey, dbo_kind = Primary_Key, dbo_columns = [n_id]\<rparr>,
        \<lparr>dbo_name = n_role_name_key, dbo_kind = Unique_Key, dbo_columns = [n_name]\<rparr>]\<rparr>,
     \<lparr>tb_name = n_rolepermission,
      tb_columns = [(n_id, False), (n_role_id, False), (n_permission_id, False)],
      tb_objects =
       [\<lparr>dbo_name = n_rolepermission_permission_id_fkey, dbo_kind = Foreign_Key n_permission,
        dbo_columns = [n_permission_id]\<rparr>,
        \<lparr>dbo_name = n_rolepermission_role_id_fkey, dbo_kind = Foreign_Key n_role,
        dbo_columns = [n_role_id]\<rparr>,
        \<lparr>dbo_name = n_rolepermission_pkey, dbo_kind = Primary_Key, dbo_columns = [n_id]\<rparr>,
        \<lparr>dbo_name = n_uq_role_permission_role_id_permission_id, dbo_kind = Unique_Key,
        dbo_columns = [n_role_id, n_permission_id]\<rparr>,
        \<lparr>dbo_name = n_ix_rolepermission_permission_id, dbo_kind = Is_Index False None,
        dbo_columns = [n_permission_id]\<rparr>,
        \<lparr>dbo_name = n_ix_rolepermission_role_id, dbo_kind = Is_Index False None,
        dbo_columns = [n_role_id]\<rparr>]\<rparr>,
     \<lparr>tb_name = n_userrole,
      tb_columns = [(n_id, False), (n_user_id, False), (n_role_id, False)],
      tb_objects =
       [\<lparr>dbo_name = n_userrole_role_id_fkey, dbo_kind = Foreign_Key n_role, dbo_columns = [n_role_id]\<rparr>,
        \<lparr>dbo_name = n_userrole_user_id_fkey, dbo_kind = Foreign_Key n_users, dbo_columns = [n_user_id]\<rparr>,
        \<lparr>dbo_name = n_userrole_pkey, dbo_kind = Primary_Key, dbo_columns = [n_id]\<rparr>,
        \<lparr>dbo_name = n_uq_user_role_user_id_role_id, dbo_kind = Unique_Key, dbo_columns = [n_user_id,
        n_role_id]\<rparr>,
        \<lparr>dbo_name = n_ix_userrole_role_id, dbo_kind = Is_Index False None, dbo_columns = [n_role_id]\<rparr>,
        \<lparr>dbo_name = n_ix_userrole_user_id, dbo_kind = Is_Index False None,
        dbo_columns = [n_user_id]\<rparr>]\<rparr>,
     \<lparr>tb_name = n_userphone,
      tb_columns = [(n_id, False), (n_user_id, False), (n_phone, False), (n_is_primary, False),
        (n_verified_at, False), (n_created_at, False)],
      tb_objects =
       [\<lparr>dbo_name = n_userphone_user_id_fkey, dbo_kind = Foreign_Key n_users,
        dbo_columns = [n_user_id]\<rparr>,
        \<lparr>dbo_name = n_userphone_pkey, dbo_kind = Primary_Key, dbo_columns = [n_id]\<rparr>,
        \<lparr>dbo_name = n_userphone_phone_key, dbo_kind = Unique_Key, dbo_columns = [n_phone]\<rparr>,
        \<lparr>dbo_name = n_ix_userphone_user_id, dbo_kind = Is_Index False None,
        dbo_columns = [n_user_id]\<rparr>]\<rparr>,
     \<lparr>tb_name = n_usermedia,
      tb_columns = [(n_id, False), (n_user_id, False), (n_profile_image_url, True),
        (n_profile_image_thumb_url, True)],
      tb_objects =
       [\<lparr>dbo_name = n_usermedia_user_id_fkey, dbo_kind = Foreign_Key n_users,
        dbo_columns = [n_user_id]\<rparr>,
        \<lparr>dbo_name = n_usermedia_pkey, dbo_kind = Primary_Key, dbo_columns = [n_id]\<rparr>,
        \<lparr>dbo_name = n_usermedia_user_id_key, dbo_kind = Unique_Key, dbo_columns = [n_user_id]\<rparr>]\<rparr>,
     \<lparr>tb_name = n_productcategory,
      tb_columns = [(n_id, False), (n_name, False), (n_description, True), (n_created_at, False),
        (n_updated_at, False)],
      tb_objects =
       [\<lparr>dbo_name = n_productcategory_pkey, dbo_kind = Primary_Key, dbo_columns = [n_id]\<rparr>,
        \<lparr>dbo_name = n_productcategory_name_key, dbo_kind = Unique_Key, dbo_columns = [n_name]\<rparr>]\<rparr>,
     \<lparr>tb_name = n_product,
      tb_columns = [(n_id, False), (n_public_id, False), (n_stock_qty, False), (n_sku, True), (n_name, False),
        (n_description, True), (n_base_price, False), (n_specs, True), (n_owner_id, True), (n_created_at, False),
        (n_updated_at, False), (n_deleted_at, True)],
      tb_objects =
       [\<lparr>dbo_name = n_product_owner_id_fkey, dbo_kind = Foreign_Key n_users,
        dbo_columns = [n_owner_id]\<rparr>,
        \<lparr>dbo_name = n_product_pkey, dbo_kind = Primary_Key, dbo_columns = [n_id]\<rparr>,
        \<lparr>dbo_name = n_ix_product_public_id, dbo_kind = Is_Index True None, dbo_columns = [n_public_id]\<rparr>,
        \<lparr>dbo_name = n_ix_product_owner_id, dbo_kind = Is_Index False None, dbo_columns = [n_owner_id]\<rparr>,
        \<lparr>dbo_name = n_product_name_key, dbo_kind = Unique_Key, dbo_columns = [n_name]\<rparr>]\<rparr>,
     \<lparr>tb_name = n_productcategorylink,
      tb_columns = [(n_id, False), (n_product_id, False), (n_prod_category_id, False)],
      tb_objects =
       [\<lparr>dbo_name = n_productcategorylink_prod_category_id_fkey, dbo_kind = Foreign_Key n_productcategory,
        dbo_columns = [n_prod_category_id]\<rparr>,
        \<lparr>dbo_name = n_productcategorylink_product_id_fkey, dbo_kind = Foreign_Key n_product,
        dbo_columns = [n_product_id]\<rparr>,
        \<lparr>dbo_name = n_productcategorylink_pkey, dbo_kind = Primary_Key, dbo_columns = [n_id]\<rparr>,
        \<lparr>dbo_name = n_uq_product_category, dbo_kind = Unique_Key, dbo_columns = [n_product_id,
        n_prod_category_id]\<rparr>,
        \<lparr>dbo_name = n_ix_productcategorylink_prod_category_id, dbo_kind = Is_Index False None,
        dbo_columns = [n_prod_category_id]\<rparr>,
        \<lparr>dbo_name = n_ix_productcategorylink_product_id, dbo_kind = Is_Index False None,
        dbo_columns = [n_product_id]\<rparr>]\<rparr>,
     \<lparr>tb_name = n_productimage,
      tb_columns = [(n_id, False), (n_product_id, False), (n_public_id, False), (n_storage_key, True),
        (n_bucket, True), (n_mime_type, True), (n_file_size, True), (n_variants, True), (n_status, False),
        (n_orig_filename, True), (n_sort_order, False), (n_alt_text, True), (n_created_at, False),
        (n_updated_at, False), (n_content_id, True), (n_storage_provider, False)],
      tb_objects =
       [\<lparr>dbo_name = n_productimage_product_id_fkey, dbo_kind = Foreign_Key n_product,
        dbo_columns = [n_product_id]\<rparr>,
        \<lparr>dbo_name = n_productimage_pkey, dbo_kind = Primary_Key, dbo_columns = [n_id]\<rparr>,
        \<lparr>dbo_name = n_ix_productimage_product_id, dbo_kind = Is_Index False None,
        dbo_columns = [n_product_id]\<rparr>,
        \<lparr>dbo_name = n_ix_productimage_public_id, dbo_kind = Is_Index True None,
        dbo_columns = [n_public_id]\<rparr>,
        \<lparr>dbo_name = n_productimage_storage_key_key, dbo_kind = Unique_Key,
        dbo_columns = [n_storage_key]\<rparr>,
        \<lparr>dbo_name = n_productimage_content_id_fkey, dbo_kind = Foreign_Key n_imagecontent,
        dbo_columns = [n_content_id]\<rparr>,
        \<lparr>dbo_name = n_uq_product_image_content_id, dbo_kind = Is_Index True (Some p_content_id_is_not_null),
        dbo_columns = [n_content_id]\<rparr>]\<rparr>,
     \<lparr>tb_name = n_roleaudit,
      tb_columns = [(n_id, False), (n_actor_user_id, True), (n_target_user_id, True), (n_old_roles, False),
        (n_new_roles, False), (n_reason, True), (n_created_at, False), (n_updated_at, False)],
      tb_objects =
       [\<lparr>dbo_name = n_roleaudit_actor_user_id_fkey, dbo_kind = Foreign_Key n_users,
        dbo_columns = [n_actor_user_id]\<rparr>,
        \<lparr>dbo_name = n_roleaudit_target_user_id_fkey, dbo_kind = Foreign_Key n_users,
        dbo_columns = [n_target_user_id]\<rparr>,
        \<lparr>dbo_name = n_roleaudit_pkey, dbo_kind = Primary_Key, dbo_columns = [n_id]\<rparr>]\<rparr>,
     \<lparr>tb_name = n_imagecontent,
      tb_columns = [(n_id, False), (n_checksum, False), (n_public_id, False), (n_provider_public_id, True),
        (n_url, True), (n_meta, True), (n_created_at, False), (n_provider, True)],
      tb_objects =
       [\<lparr>dbo_name = n_imagecontent_pkey, dbo_kind = Primary_Key, dbo_columns = [n_id]\<rparr>,
        \<lparr>dbo_name = n_imagecontent_checksum_key, dbo_kind = Unique_Key, dbo_columns = [n_checksum]\<rparr>,
        \<lparr>dbo_name = n_ix_imagecontent_public_id, dbo_kind = Is_Index True None,
        dbo_columns = [n_public_id]\<rparr>]\<rparr>,
     \<lparr>tb_name = n_cart,
      tb_columns = [(n_id, False), (n_user_id, True), (n_session_id, True), (n_created_at, False),
        (n_updated_at, False)],
      tb_objects =
       [\<lparr>dbo_name = n_cart_user_id_fkey, dbo_kind = Foreign_Key n_users, dbo_columns = [n_user_id]\<rparr>,
        \<lparr>dbo_name = n_cart_pkey, dbo_kind = Primary_Key, dbo_columns = [n_id]\<rparr>,
        \<lparr>dbo_name = n_cart_session_id_fkey, dbo_kind = Foreign_Key n_devicesession,
        dbo_columns = [n_session_id]\<rparr>,
        \<lparr>dbo_name = n_uq_cart_session_id, dbo_kind = Is_Index True (Some p_session_id_is_not_null),
        dbo_columns = [n_session_id]\<rparr>,
        \<lparr>dbo_name = n_uq_cart_user_id, dbo_kind = Is_Index True (Some p_user_id_is_not_null),
        dbo_columns = [n_user_id]\<rparr>]\<rparr>,
     \<lparr>tb_name = n_cartitem,
      tb_columns = [(n_id, False), (n_cart_id, True), (n_product_id, False), (n_quantity, False),
        (n_created_at, False), (n_deleted_at, True)],
      tb_objects =
       [\<lparr>dbo_name = n_cartitem_product_id_fkey, dbo_kind = Foreign_Key n_product,
        dbo_columns = [n_product_id]\<rparr>,
        \<lparr>dbo_name = n_cartitem_pkey, dbo_kind = Primary_Key, dbo_columns = [n_id]\<rparr>,
        \<lparr>dbo_name = n_uq_cart_product, dbo_kind = Unique_Key, dbo_columns = [n_cart_id, n_product_id]\<rparr>,
        \<lparr>dbo_name = n_cartitem_cart_id_fkey, dbo_kind = Foreign_Key n_cart,
        dbo_columns = [n_cart_id]\<rparr>]\<rparr>,
     \<lparr>tb_name = n_checkoutsession,
      tb_columns = [(n_id, False), (n_public_id, False), (n_user_id, False), (n_session_id, True),
        (n_cart_snapshot, True), (n_selected_payment_method, True), (n_expires_at, False), (n_created_at, False),
        (n_updated_at, False), (n_is_active, False)],
      tb_objects =
       [\<lparr>dbo_name = n_checkoutsession_pkey, dbo_kind = Primary_Key, dbo_columns = [n_id]\<rparr>,
        \<lparr>dbo_name = n_ix_checkoutsession_expires_at, dbo_kind = Is_Index False None,
        dbo_columns = [n_expires_at]\<rparr>,
        \<lparr>dbo_name = n_ix_checkoutsession_public_id, dbo_kind = Is_Index True None,
        dbo_columns = [n_public_id]\<rparr>,
        \<lparr>dbo_name = n_uq_checkout_active_cart, dbo_kind = Is_Index True (Some p_is_active_true),
        dbo_columns = [n_user_id]\<rparr>]\<rparr>,
     \<lparr>tb_name = n_idempotencykey,
      tb_columns = [(n_id, False), (n_key, False), (n_created_by, False), (n_owner_type, True), (n_owner_id, True),
        (n_request_hash, True), (n_response_code, True), (n_response_body, True), (n_created_at, False),
        (n_expires_at, True), (n_status, False), (n_cs_id, False)],
      tb_objects =
       [\<lparr>dbo_name = n_idempotencykey_pkey, dbo_kind = Primary_Key, dbo_columns = [n_id]\<rparr>,
        \<lparr>dbo_name = n_ix_idempotencykey_expires_at, dbo_kind = Is_Index False None,
        dbo_columns = [n_expires_at]\<rparr>,
        \<lparr>dbo_name = n_ix_idempotencykey_key, dbo_kind = Is_Index True None, dbo_columns = [n_key]\<rparr>,
        \<lparr>dbo_name = n_ix_idempotencykey_status, dbo_kind = Is_Index False None,
        dbo_columns = [n_status]\<rparr>,
        \<lparr>dbo_name = n_fk_idempotencykey_cs_id, dbo_kind = Foreign_Key n_checkoutsession,
        dbo_columns = [n_cs_id]\<rparr>]\<rparr>,
     \<lparr>tb_name = n_inventoryreservation,
      tb_columns = [(n_id, False), (n_product_id, False), (n_order_id, True), (n_quantity, False),
        (n_reserved_until, True), (n_status, False), (n_created_at, False), (n_checkout_id, False)],
      tb_objects =
       [\<lparr>dbo_name = n_inventoryreservation_pkey, dbo_kind = Primary_Key, dbo_columns = [n_id]\<rparr>,
        \<lparr>dbo_name = n_uq_product_checkout, dbo_kind = Unique_Key, dbo_columns = [n_product_id,
        n_checkout_id]\<rparr>]\<rparr>,
     \<lparr>tb_name = n_orderitem,
      tb_columns = [(n_id, False), (n_order_id, False), (n_product_id, False), (n_sku, True), (n_quantity, False),
        (n_unit_price_snapshot, False), (n_tax_snapshot, True), (n_discount_snapshot, True), (n_meta, True)],
      tb_objects =
       [\<lparr>dbo_name = n_orderitem_product_id_fkey, dbo_kind = Foreign_Key n_product,
        dbo_columns = [n_product_id]\<rparr>,
        \<lparr>dbo_name = n_orderitem_pkey, dbo_kind = Primary_Key, dbo_columns = [n_id]\<rparr>,
        \<lparr>dbo_name = n_uq_order_product, dbo_kind = Unique_Key, dbo_columns = [n_order_id,
        n_product_id]\<rparr>,
        \<lparr>dbo_name = n_orderitem_order_id_fkey, dbo_kind = Foreign_Key n_orders,
        dbo_columns = [n_order_id]\<rparr>]\<rparr>,
     \<lparr>tb_name = n_payment,
      tb_columns = [(n_id, False), (n_public_id, False), (n_order_id, False), (n_provider, True),
        (n_provider_payment_id, True), (n_status, False), (n_amount, False), (n_currency, False),
        (n_pay_metadata, True), (n_created_at, False), (n_paid_at, True), (n_provider_order_id, True)],
      tb_objects =
       [\<lparr>dbo_name = n_payment_pkey, dbo_kind = Primary_Key, dbo_columns = [n_id]\<rparr>,
        \<lparr>dbo_name = n_ix_payment_public_id, dbo_kind = Is_Index True None, dbo_columns = [n_public_id]\<rparr>,
        \<lparr>dbo_name = n_ix_payment_status, dbo_kind = Is_Index False None, dbo_columns = [n_status]\<rparr>,
        \<lparr>dbo_name = n_payment_order_id_fkey, dbo_kind = Foreign_Key n_orders,
        dbo_columns = [n_order_id]\<rparr>,
        \<lparr>dbo_name = n_uq_provider_providerorder, dbo_kind = Unique_Key, dbo_columns = [n_provider,
        n_provider_order_id]\<rparr>,
        \<lparr>dbo_name = n_uq_provider_providerpayment, dbo_kind = Unique_Key, dbo_columns = [n_provider,
        n_provider_payment_id]\<rparr>,
        \<lparr>dbo_name = n_payment_order_id_key, dbo_kind = Unique_Key, dbo_columns = [n_order_id]\<rparr>]\<rparr>,
     \<lparr>tb_name = n_paymentattempt,
      tb_columns = [(n_id, False), (n_payment_id, False), (n_attempt_no, False), (n_provider_response, True),
        (n_created_at, False), (n_status, False)],
      tb_objects =
       [\<lparr>dbo_name = n_paymentattempt_payment_id_fkey, dbo_kind = Foreign_Key n_payment,
        dbo_columns = [n_payment_id]\<rparr>,
        \<lparr>dbo_name = n_paymentattempt_pkey, dbo_kind = Primary_Key, dbo_columns = [n_id]\<rparr>,
        \<lparr>dbo_name = n_ix_paymentattempt_payment_id, dbo_kind = Is_Index False None,
        dbo_columns = [n_payment_id]\<rparr>]\<rparr>,
     \<lparr>tb_name = n_paymentwebhookevent,
      tb_columns = [(n_id, False), (n_provider, False), (n_provider_event_id, True), (n_payload, True),
        (n_processed_at, True), (n_created_at, False), (n_status, False), (n_attempts, False),
        (n_last_error, True), (n_order_id, True)],
      tb_objects =
       [\<lparr>dbo_name = n_paymentwebhookevent_pkey, dbo_kind = Primary_Key, dbo_columns = [n_id]\<rparr>,
        \<lparr>dbo_name = n_uq_provider_event, dbo_kind = Is_Index True (Some p_provider_event_id_is_not_null),
        dbo_columns = [n_provider, n_provider_event_id]\<rparr>,
        \<lparr>dbo_name = n_ix_paymentwebhookevent_order_id, dbo_kind = Is_Index False None,
        dbo_columns = [n_order_id]\<rparr>]\<rparr>,
     \<lparr>tb_name = n_orders,
      tb_columns = [(n_id, False), (n_public_id, False), (n_user_id, True), (n_session_id, True),
        (n_status, False), (n_currency, False), (n_subtotal, False), (n_tax, False), (n_shipping, False),
        (n_discount, False), (n_total, False), (n_shipping_address_json, False), (n_billing_address_json, True),
        (n_payment_method, True), (n_provider_order_id, True), (n_created_at, False), (n_updated_at, False),
        (n_placed_at, True), (n_delievered_at, True), (n_ik_id, False)],
      tb_objects =
       [\<lparr>dbo_name = n_orders_session_id_fkey, dbo_kind = Foreign_Key n_devicesession,
        dbo_columns = [n_session_id]\<rparr>,
        \<lparr>dbo_name = n_orders_user_id_fkey, dbo_kind = Foreign_Key n_users, dbo_columns = [n_user_id]\<rparr>,
        \<lparr>dbo_name = n_orders_pkey, dbo_kind = Primary_Key, dbo_columns = [n_id]\<rparr>,
        \<lparr>dbo_name = n_ix_orders_public_id, dbo_kind = Is_Index True None, dbo_columns = [n_public_id]\<rparr>,
        \<lparr>dbo_name = n_ix_orders_status, dbo_kind = Is_Index False None, dbo_columns = [n_status]\<rparr>,
        \<lparr>dbo_name = n_ix_orders_user_id, dbo_kind = Is_Index False None, dbo_columns = [n_user_id]\<rparr>,
        \<lparr>dbo_name = n_ix_orders_ik_id, dbo_kind = Is_Index True None, dbo_columns = [n_ik_id]\<rparr>]\<rparr>,
     \<lparr>tb_name = n_outboxevent,
      tb_columns = [(n_id, False), (n_topic, False), (n_payload, False), (n_aggregate_type, False),
        (n_aggregate_id, False), (n_status, False), (n_attempts, False), (n_next_retry_at, True),
        (n_created_at, False), (n_sent_at, True)],
      tb_objects =
       [\<lparr>dbo_name = n_outboxevent_pkey, dbo_kind = Primary_Key, dbo_columns = [n_id]\<rparr>,
        \<lparr>dbo_name = n_uq_outboxevent_topic_agtype_agid, dbo_kind = Unique_Key, dbo_columns = [n_topic,
        n_aggregate_type, n_aggregate_id]\<rparr>]\<rparr>,
     \<lparr>tb_name = n_commitintent,
      tb_columns = [(n_id, False), (n_aggregate_type, False), (n_aggregate_id, False), (n_reason, False),
        (n_status, False), (n_payload, True), (n_attempts, False), (n_next_retry_at, True), (n_created_at, True),
        (n_updated_at, True)],
      tb_objects =
       [\<lparr>dbo_name = n_commitintent_pkey, dbo_kind = Primary_Key, dbo_columns = [n_id]\<rparr>,
        \<lparr>dbo_name = n_uq_commitintent_reason_agtype_agid, dbo_kind = Unique_Key, dbo_columns = [n_reason,
        n_aggregate_type, n_aggregate_id]\<rparr>]\<rparr>,
     \<lparr>tb_name = n_uploadswebhookevent,
      tb_columns = [(n_id, False), (n_provider_event_id, False), (n_provider, True), (n_payload, False),
        (n_received_at, False), (n_processed_at, True), (n_attempts, True)],
      tb_objects =
       [\<lparr>dbo_name = n_uploadswebhookevent_pkey, dbo_kind = Primary_Key, dbo_columns = [n_id]\<rparr>,
        \<lparr>dbo_name = n_uploadswebhookevent_provider_event_id_key, dbo_kind = Unique_Key,
        dbo_columns = [n_provider_event_id]\<rparr>]\<rparr>]"

section \<open>Running the migrations\<close>

text \<open>The migrations between these schemas.\<close>

definition mid_history :: "migration list" where
  "mid_history =
    [m_ad81e16d8089, m_6db8e701bec2, m_bad278474755, m_41646b24ac62, m_5bd854ed6dce, m_8c5ea9794300,
        m_62ef26213f6d, m_34d4cf7bec13, m_d33800a5d9d2, m_20190b6300c4, m_99ccf5b29f85, m_4bb9f4be5dc2,
        m_169348db3e45, m_33a211bdeb7c, m_5d9249b804b4, m_aeea1673d46a, m_5219a19ae93d, m_a30ed17c62fa,
        m_51b44f14deac, m_bf7da67b4b25, m_28f3f0d69a07, m_4b83651788e9, m_7723ee5b1391, m_d31996c1dae4,
        m_a7c7667cd0c5, m_5c44ef7b953b, m_813e9a7e41a9, m_cba69ff98159, m_6f4bd48e4aeb, m_be4f795acdfd,
        m_65d0e62e3bb3, m_4e2185ccc4b1, m_8f7ceef6e72d, m_c0caf44a57d2]"

definition late_history :: "migration list" where
  "late_history =
    [m_66f7ee1d1e68, m_96397f3f833a, m_d1558250da25, m_ae550d964457, m_d22b12ed593c]"

lemma orders_history_split: "orders_history = mid_history @ late_history"
  by (simp add: orders_history_def mid_history_def late_history_def)

lemma upgrade_catalogue: "upgrade_all catalogue_history [] = Inr catalogue_schema"
  unfolding catalogue_history_def catalogue_schema_def
  by (simp add: machine_simps catalogue_history_runs orders_history_runs name_hash names_differ
      del: upgrade_all.simps(2) downgrade_all.simps(2) auto_name.simps words_from.simps cong: machine_congs)

lemma upgrade_mid: "upgrade_all mid_history catalogue_schema = Inr rollback_schema"
  unfolding mid_history_def catalogue_schema_def rollback_schema_def
  by (simp add: machine_simps catalogue_history_runs orders_history_runs name_hash names_differ
      del: upgrade_all.simps(2) downgrade_all.simps(2) auto_name.simps words_from.simps cong: machine_congs)

lemma upgrade_late: "upgrade_all late_history rollback_schema = Inr head_schema"
  unfolding late_history_def rollback_schema_def head_schema_def
  by (simp add: machine_simps catalogue_history_runs orders_history_runs name_hash names_differ
      del: upgrade_all.simps(2) downgrade_all.simps(2) auto_name.simps words_from.simps cong: machine_congs)

text \<open>Rolling back, latest first, and the migration before, which cannot be rolled back.\<close>

lemma downgrade_late: "downgrade_all (rev late_history) head_schema = Inr rollback_schema"
  unfolding late_history_def rev.simps append.simps rollback_schema_def head_schema_def
  by (simp add: machine_simps catalogue_history_runs orders_history_runs name_hash names_differ
      del: upgrade_all.simps(2) downgrade_all.simps(2) auto_name.simps words_from.simps cong: machine_congs)

lemma rollback_stops: "ddl_run (downgrade m_c0caf44a57d2) rollback_schema = Inl No_Name"
  unfolding m_c0caf44a57d2_def migration.simps rollback_schema_def
  by (simp add: machine_simps catalogue_history_runs orders_history_runs name_hash names_differ
      del: upgrade_all.simps(2) downgrade_all.simps(2) auto_name.simps words_from.simps cong: machine_congs)

text \<open>A migration on its own.\<close>

lemma event_table_created: "\<exists>s. ddl_run (upgrade m_c2b7a7d37040) [] = Inr s"
  unfolding m_c2b7a7d37040_def migration.simps
  by (simp add: machine_simps catalogue_history_runs orders_history_runs name_hash names_differ
      del: upgrade_all.simps(2) downgrade_all.simps(2) auto_name.simps words_from.simps cong: machine_congs)

end
