(* ===== verification/Migrated_Schema.thy ===== *)
theory Migrated_Schema
  imports Migration_Laws Schema_Models Schema_States
begin

text \<open>
  What a deployment can rely on: the migrations build the schema the classes describe, the insert statements name
  keys it has, and how far it can be rolled back.
\<close>

section \<open>The head\<close>

lemma upgrade_all_append:
  "upgrade_all (ms @ ms') s = (case upgrade_all ms s of Inl e \<Rightarrow> Inl e | Inr s' \<Rightarrow> upgrade_all ms' s')"
  by (induction ms s rule: upgrade_all.induct) (auto split: sum.splits)

lemma downgrade_all_append:
  "downgrade_all (ms @ ms') s = (case downgrade_all ms s of Inl e \<Rightarrow> Inl e | Inr s' \<Rightarrow> downgrade_all ms' s')"
  by (induction ms s rule: downgrade_all.induct) (auto split: sum.splits)

lemma upgrade_to_head: "upgrade_all (catalogue_history @ orders_history) [] = Inr head_schema"
  by (simp add: upgrade_all_append orders_history_split upgrade_catalogue upgrade_mid upgrade_late)

lemma chained_history: "chained None (catalogue_history @ orders_history)"
  unfolding catalogue_history_def orders_history_def append.simps
  by (simp add: catalogue_history_links orders_history_links del: chained.simps(2))

lemma agrees_head: "agrees head_schema orm_tables"
  unfolding head_schema_def orm_tables_unfold
  by (simp add: agrees_def table_agrees_def same_members_def name_hash names_differ cong: table_cong object_cong)

text \<open>C6: The migrations form one chain that runs to its end on an empty database, and the schema it leaves is the
  one the classes describe: the same tables, and in each the same columns with the same nullability, primary key,
  unique keys, indexes with their predicates, and foreign keys.\<close>

theorem migrations_build_the_model:
  "chained None (catalogue_history @ orders_history) \<and>
   upgrade_all (catalogue_history @ orders_history) [] = Inr head_schema \<and>
   agrees head_schema orm_tables"
  using chained_history upgrade_to_head agrees_head by blast

text \<open>C7: Of the conflict clauses of the code, PostgreSQL refuses exactly two on the migrated schema: the image
  webhook's, whose table no longer exists, and the one of the seed's credentials, whose constraint was dropped.\<close>

theorem conflict_clauses_accepted:
  "refused head_schema conflict_targets = [image_event_target, seed_credential_target]"
  unfolding head_schema_def conflict_targets_unfold
  by (simp add: same_members_def name_hash names_differ cong: table_cong object_cong)

section \<open>Rolling back\<close>

lemma rollback_fails: "downgrade_all (rev (catalogue_history @ orders_history)) head_schema = Inl (''c0caf44a57d2'', No_Name)"
proof -
  have "\<exists>ms. mid_history = ms @ [m_c0caf44a57d2]" by (rule exI [of _ "butlast mid_history"]) (simp add: mid_history_def)
  then obtain ms where "rev (catalogue_history @ orders_history) = rev late_history @ m_c0caf44a57d2 # rev ms @ rev catalogue_history"
    by (auto simp: orders_history_split)
  then show ?thesis
    using rollback_stops by (simp add: downgrade_all_append downgrade_late) (simp add: m_c0caf44a57d2_def)
qed

text \<open>C37: The five latest migrations can be rolled back and applied again without a trace; the one before them
  cannot, since it drops a constraint without a name, so that no deployment gets back behind it.\<close>

theorem rollback_reach:
  "downgrade_all (rev late_history) head_schema = Inr rollback_schema \<and>
   upgrade_all late_history rollback_schema = Inr head_schema \<and>
   downgrade_all (rev (catalogue_history @ orders_history)) head_schema = Inl (''c0caf44a57d2'', No_Name)"
  using downgrade_late upgrade_late rollback_fails by blast







end
