(* ===== verification/Bootstrap.thy ===== *)
theory Bootstrap
  imports Seeds
begin

text \<open>
  How a deployment gets its first rows: the migration with the default roles and permissions, the one with the
  product categories, the script that makes an administrator, and the URL of the database. Descriptions are not
  columns of the model.
\<close>

section \<open>Default roles and permissions\<close>

text \<open>The dictionary \<open>seed\<close> of \<open>d6349403285d\<close>.\<close>

definition default_roles :: "string list" where
  "default_roles = [''admin'', ''seller'', ''buyer'']"

definition default_permissions :: "string list" where
  "default_permissions = [''product:read'', ''product:create'', ''product:update'', ''product:delete'', ''user:manage'']"

definition default_grants :: "(string \<times> string list) list" where
  "default_grants =
     [(''admin'', [''product:read'', ''product:create'', ''product:update'', ''product:delete'', ''user:manage'']),
      (''seller'', [''product:read'', ''product:create'', ''product:update'']),
      (''buyer'', [''product:read''])]"

text \<open>\<open>INSERT ... SELECT ... WHERE NOT EXISTS\<close>: the id is drawn for a row that is inserted only.\<close>

definition insert_absent :: "string \<Rightarrow> (database \<Rightarrow> bool) \<Rightarrow> (nat \<Rightarrow> database \<Rightarrow> database) \<Rightarrow> unit handler" where
  "insert_absent seq present add = (\<lambda>w.
     if present (db w) then query (\<lambda>_. ()) w else letM (next_id seq) (\<lambda>i. modify (add i)) w)"

definition add_default_role :: "string \<Rightarrow> unit handler" where
  "add_default_role name =
     insert_absent ''role'' (\<lambda>d. name \<in> role_name ` set (db_roles d))
       (\<lambda>i. db_roles_update (\<lambda>t. t @ [\<lparr>role_id = i, role_name = name\<rparr>]))"

definition add_default_permission :: "string \<Rightarrow> unit handler" where
  "add_default_permission pname =
     insert_absent ''permission'' (\<lambda>d. pname \<in> perm_name ` set (db_permissions d))
       (\<lambda>i. db_permissions_update (\<lambda>t. t @ [\<lparr>perm_id = i, perm_name = pname\<rparr>]))"

definition add_default_grant :: "nat \<Rightarrow> nat \<Rightarrow> unit handler" where
  "add_default_grant rid pid =
     insert_absent ''rolepermission'' (\<lambda>d. (rid, pid) \<in> (\<lambda>l. (rp_role_id l, rp_permission_id l)) ` set (db_role_permissions d))
       (\<lambda>i. db_role_permissions_update (\<lambda>t. t @ [\<lparr>rp_id = i, rp_role_id = rid, rp_permission_id = pid\<rparr>]))"

text \<open>\<open>{row[1]: row[0] for row in rows}\<close>.\<close>

definition name_ids :: "('r \<Rightarrow> string) \<Rightarrow> ('r \<Rightarrow> nat) \<Rightarrow> 'r list \<Rightarrow> string \<rightharpoonup> nat" where
  "name_ids name rid rows = map_of (rev (map (\<lambda>r. (name r, rid r)) rows))"

definition grant_all :: "(string \<rightharpoonup> nat) \<Rightarrow> (string \<rightharpoonup> nat) \<Rightarrow> string \<times> string list \<Rightarrow> unit handler" where
  "grant_all role_map perm_map g =
     (case role_map (fst g) of
        None \<Rightarrow> retM ()
      | Some rid \<Rightarrow>
          if rid = 0 then retM ()
          else forM (snd g) (\<lambda>pname. case perm_map pname of
                 None \<Rightarrow> retM ()
               | Some pid \<Rightarrow> if pid = 0 then retM () else add_default_grant rid pid))"

definition add_default_roles_and_permissions :: "unit handler" where
  "add_default_roles_and_permissions =
     doM (forM default_roles add_default_role)
    (doM (forM default_permissions add_default_permission)
    (letM (query (\<lambda>d. name_ids perm_name perm_id (db_permissions d))) (\<lambda>perm_map.
     letM (query (\<lambda>d. name_ids role_name role_id (db_roles d))) (\<lambda>role_map.
     forM default_grants (grant_all role_map perm_map)))))"

text \<open>Alembic runs the migrations in one transaction.\<close>

definition run_migration :: "unit handler \<Rightarrow> unit handler" where
  "run_migration m = with_session (begin_tx m)"

section \<open>Product categories\<close>

text \<open>One INSERT of eight rows, ON CONFLICT (name) DO NOTHING.\<close>

definition CATEGORIES :: "string list" where
  "CATEGORIES = [''snacks'', ''ladoos'', ''choco'', ''arts'', ''gadgets'', ''tshirts'', ''stunt-artist-dresses'', ''other'']"

definition category_name_key :: "product_category \<Rightarrow> string option" where
  "category_name_key c = Some (pc_name c)"

definition seed_product_categories :: "unit handler" where
  "seed_product_categories =
     letM (mapM (\<lambda>name. letM (next_id ''productcategory'') (\<lambda>i. retM \<lparr>pc_id = i, pc_name = name\<rparr>)) CATEGORIES) (\<lambda>rows.
     modify (db_categories_update (\<lambda>t. fold (insert_nothing category_name_key) rows t)))"

section \<open>The administrator\<close>

text \<open>\<open>SystemExit\<close> ends the script; nothing catches it.\<close>

datatype script_end = Done | System_Exit string

definition create_user :: "string option \<Rightarrow> string \<Rightarrow> nat handler" where
  "create_user admin_email admin_name =
     letM uuid7 (\<lambda>pid. letM now (\<lambda>t1. letM now (\<lambda>t2. letM (next_id ''users'') (\<lambda>i.
     letM (exec (\<lambda>d.
       let row = \<lparr>u_id = i, u_public_id = pid, u_email = admin_email, u_name = Some admin_name, u_role_version = 0,
                  u_created_at = t1, u_updated_at = t2, u_deleted_at = None\<rparr> in
       if conflict user_email_key row (db_users d) then Inl IntegrityError
       else Inr ((), db_users_update (\<lambda>t. t @ [row]) d))) (\<lambda>_.
     doM commit
    (doM (query (\<lambda>_. ()))
    (retM i)))))))"

definition find_or_create_user :: "string option \<Rightarrow> string \<Rightarrow> nat handler" where
  "find_or_create_user admin_email admin_name =
     letM (query (\<lambda>d. filter (\<lambda>u. u_email u = admin_email) (db_users d))) (\<lambda>rows.
     letM (liftM (one_or_none rows)) (\<lambda>found.
     case found of Some u \<Rightarrow> retM (u_id u) | None \<Rightarrow> create_user admin_email admin_name))"

text \<open>The credential is made without a provider, which is NOT NULL, so that its INSERT is always refused.\<close>

definition check_password_credential :: "crypto \<Rightarrow> nat \<Rightarrow> string \<Rightarrow> unit handler" where
  "check_password_credential cr user admin_password =
     letM (query (\<lambda>d. filter (\<lambda>c. cred_user_id c = user \<and> cred_type c = CT_PASSWORD) (db_credentials d))) (\<lambda>creds.
     letM (liftM (one_or_none creds)) (\<lambda>cred.
     case cred of
       None \<Rightarrow> exec (\<lambda>_. Inl IntegrityError)
     | Some c \<Rightarrow>
         if case cred_password_hash c of None \<Rightarrow> False | Some h \<Rightarrow> verify_password cr admin_password h
         then retM () else raiseM (RuntimeError (Text ''Invalid credentials''))))"

definition assign_admin_role :: "nat \<Rightarrow> script_end handler" where
  "assign_admin_role user =
     letM (query (\<lambda>d. filter (\<lambda>r. role_name r = ''admin'') (db_roles d))) (\<lambda>roles.
     letM (liftM (one_or_none roles)) (\<lambda>admin_role.
     case admin_role of
       None \<Rightarrow> retM (System_Exit ''Admin role missing. Run role/permission migrations first.'')
     | Some r \<Rightarrow>
         letM (query (\<lambda>d. filter (\<lambda>x. ur_user_id x = user \<and> ur_role_id x = role_id r) (db_user_roles d))) (\<lambda>links.
         letM (liftM (one_or_none links)) (\<lambda>ur.
         case ur of
           Some x \<Rightarrow> retM Done
         | None \<Rightarrow>
             letM (next_id ''userrole'') (\<lambda>k.
             doM (exec (\<lambda>d.
               let row = \<lparr>ur_id = k, ur_user_id = user, ur_role_id = role_id r\<rparr> in
               if conflict user_role_key row (db_user_roles d) then Inl IntegrityError
               else Inr ((), db_user_roles_update (\<lambda>t. t @ [row]) d)))
            (doM commit (retM Done)))))))"

definition create_admin :: "crypto \<Rightarrow> string option \<Rightarrow> string option \<Rightarrow> string \<Rightarrow> script_end handler" where
  "create_admin cr admin_email admin_password admin_name =
     (if admin_email \<in> {None, Some []} \<or> admin_password \<in> {None, Some []}
      then retM (System_Exit ''Set ADMIN_EMAIL and ADMIN_PASSWORD environment variables before running'')
      else with_session
       (letM (find_or_create_user admin_email admin_name) (\<lambda>user.
        doM (check_password_credential cr user (the admin_password))
        (assign_admin_role user))))"

section \<open>The URL of the database\<close>

definition starts_with :: "string \<Rightarrow> string \<Rightarrow> bool" where
  "starts_with p s = (take (length p) s = p)"

definition normalize_db_url :: "string option \<Rightarrow> string option" where
  "normalize_db_url url =
     (case url of
        None \<Rightarrow> None
      | Some u \<Rightarrow>
          if u = [] then None
          else if starts_with ''postgres://'' u then Some (''postgresql+asyncpg://'' @ drop (length ''postgres://'') u)
          else if starts_with ''postgresql://'' u then Some (''postgresql+asyncpg://'' @ drop (length ''postgresql://'') u)
          else Some u)"

text \<open>What is normalised stays as it is.\<close>

lemma normalize_db_url_idem: "normalize_db_url (normalize_db_url u) = normalize_db_url u"
  by (auto simp: normalize_db_url_def starts_with_def split: option.split)

section \<open>The default roles are seeded whole\<close>

lemma wp_insert_absent:
  assumes "\<And>v. P (db w) \<Longrightarrow> db v = db w \<Longrightarrow> committed v = committed w \<Longrightarrow> Q () v"
    "\<And>v i. \<not> P (db w) \<Longrightarrow> 0 < i \<Longrightarrow> db v = add i (db w) \<Longrightarrow> committed v = committed w \<Longrightarrow> Q () v"
    "\<And>e v. committed v = committed w \<Longrightarrow> E e v"
  shows "wp (insert_absent q P add) Q E w"
proof (cases "P (db w)")
  case True
  then have "wp (insert_absent q P add) Q E w = wp (query (\<lambda>_. ())) Q E w" by (simp add: insert_absent_def wp_def)
  then show ?thesis using assms True by (simp add: query_def wp_exec split: option.split)
next
  case False
  then have "wp (insert_absent q P add) Q E w = wp (letM (next_id q) (\<lambda>i. modify (add i))) Q E w"
    by (simp add: insert_absent_def wp_def)
  then show ?thesis
    by (auto simp: wp_let wp_next_id wp_modify intro!: assms(2) [OF False, of "Suc (seqs w q)"] assms(3) split: option.split)
qed

text \<open>A loop whose steps grow the database: what each step establishes holds at the end.\<close>

lemma wp_forM_grows:
  assumes step: "\<And>x v. x \<in> set xs \<Longrightarrow> committed v = c \<Longrightarrow>
      wp (f x) (\<lambda>_ v'. committed v' = c \<and> R (db v) (db v') \<and> D x (db v')) (\<lambda>_ v'. committed v' = c) v"
    and refl: "\<And>a. R a a"
    and trans: "\<And>a b e. R a b \<Longrightarrow> R b e \<Longrightarrow> R a e"
    and keeps: "\<And>x a b. D x a \<Longrightarrow> R a b \<Longrightarrow> D x b"
    and start: "committed w = c"
  shows "wp (forM xs f) (\<lambda>_ v. committed v = c \<and> R (db w) (db v) \<and> (\<forall>x\<in>set xs. D x (db v))) (\<lambda>_ v. committed v = c) w"
  using step start
proof (induction xs arbitrary: w)
  case (Cons x xs)
  have rest: "wp (forM xs f) (\<lambda>_ u. committed u = c \<and> R (db w) (db u) \<and> (\<forall>y\<in>set (x # xs). D y (db u))) (\<lambda>_ u. committed u = c) v"
    if v: "committed v = c \<and> R (db w) (db v) \<and> D x (db v)" for v
  proof -
    have "wp (forM xs f) (\<lambda>_ u. committed u = c \<and> R (db v) (db u) \<and> (\<forall>y\<in>set xs. D y (db u))) (\<lambda>_ u. committed u = c) v"
      by (rule Cons.IH) (use Cons.prems v in auto)
    then show ?thesis
    proof (rule wp_mono)
      fix u assume "committed u = c \<and> R (db v) (db u) \<and> (\<forall>y\<in>set xs. D y (db u))"
      then show "committed u = c \<and> R (db w) (db u) \<and> (\<forall>y\<in>set (x # xs). D y (db u))"
        using v trans keeps by auto
    qed
  qed
  show ?case unfolding wp_for_Cons
    by (rule wp_mono [OF Cons.prems(1)]) (use Cons.prems rest in auto)
qed (simp add: wp_simps refl)

text \<open>What the three loops add: roles and permissions that were missing, grants of the list that were missing.\<close>

definition more_roles :: "database \<Rightarrow> database \<Rightarrow> bool" where
  "more_roles d d' \<longleftrightarrow> (\<exists>rs. d' = db_roles_update (\<lambda>t. t @ rs) d \<and>
     (\<forall>r\<in>set rs. 0 < role_id r \<and> role_name r \<in> set default_roles - role_name ` set (db_roles d)))"

definition more_permissions :: "database \<Rightarrow> database \<Rightarrow> bool" where
  "more_permissions d d' \<longleftrightarrow> (\<exists>ps. d' = db_permissions_update (\<lambda>t. t @ ps) d \<and>
     (\<forall>p\<in>set ps. 0 < perm_id p \<and> perm_name p \<in> set default_permissions - perm_name ` set (db_permissions d)))"

definition grants :: "database \<Rightarrow> (nat \<times> nat) set" where
  "grants d = (\<lambda>l. (rp_role_id l, rp_permission_id l)) ` set (db_role_permissions d)"

definition wanted :: "(string \<rightharpoonup> nat) \<Rightarrow> (string \<rightharpoonup> nat) \<Rightarrow> (nat \<times> nat) set" where
  "wanted rm pm = {(i, j). \<exists>g\<in>set default_grants. \<exists>p\<in>set (snd g). rm (fst g) = Some i \<and> pm p = Some j}"

definition more_grants :: "(nat \<times> nat) set \<Rightarrow> database \<Rightarrow> database \<Rightarrow> bool" where
  "more_grants m d d' \<longleftrightarrow> (\<exists>ls. d' = db_role_permissions_update (\<lambda>t. t @ ls) d \<and>
     (\<forall>l\<in>set ls. (rp_role_id l, rp_permission_id l) \<in> m - grants d))"

lemma more_refl: "more_roles d d" "more_permissions d d" "more_grants m d d"
  unfolding more_roles_def more_permissions_def more_grants_def by (intro exI [of _ "[]"]; simp)+

lemma more_roles_trans: "more_roles a b \<Longrightarrow> more_roles b c \<Longrightarrow> more_roles a c"
  unfolding more_roles_def
proof (elim exE conjE)
  fix rs rs'
  assume "b = db_roles_update (\<lambda>t. t @ rs) a" "c = db_roles_update (\<lambda>t. t @ rs') b"
    "\<forall>r\<in>set rs. 0 < role_id r \<and> role_name r \<in> set default_roles - role_name ` set (db_roles a)"
    "\<forall>r\<in>set rs'. 0 < role_id r \<and> role_name r \<in> set default_roles - role_name ` set (db_roles b)"
  then show "\<exists>rs. c = db_roles_update (\<lambda>t. t @ rs) a \<and>
      (\<forall>r\<in>set rs. 0 < role_id r \<and> role_name r \<in> set default_roles - role_name ` set (db_roles a))"
    by (intro exI [of _ "rs @ rs'"]) (auto simp: comp_def)
qed

lemma more_permissions_trans: "more_permissions a b \<Longrightarrow> more_permissions b c \<Longrightarrow> more_permissions a c"
  unfolding more_permissions_def
proof (elim exE conjE)
  fix ps ps'
  assume "b = db_permissions_update (\<lambda>t. t @ ps) a" "c = db_permissions_update (\<lambda>t. t @ ps') b"
    "\<forall>p\<in>set ps. 0 < perm_id p \<and> perm_name p \<in> set default_permissions - perm_name ` set (db_permissions a)"
    "\<forall>p\<in>set ps'. 0 < perm_id p \<and> perm_name p \<in> set default_permissions - perm_name ` set (db_permissions b)"
  then show "\<exists>ps. c = db_permissions_update (\<lambda>t. t @ ps) a \<and>
      (\<forall>p\<in>set ps. 0 < perm_id p \<and> perm_name p \<in> set default_permissions - perm_name ` set (db_permissions a))"
    by (intro exI [of _ "ps @ ps'"]) (auto simp: comp_def)
qed

lemma more_grants_trans: "more_grants m a b \<Longrightarrow> more_grants m b c \<Longrightarrow> more_grants m a c"
  unfolding more_grants_def
proof (elim exE conjE)
  fix ls ls'
  assume "b = db_role_permissions_update (\<lambda>t. t @ ls) a" "c = db_role_permissions_update (\<lambda>t. t @ ls') b"
    "\<forall>l\<in>set ls. (rp_role_id l, rp_permission_id l) \<in> m - grants a"
    "\<forall>l\<in>set ls'. (rp_role_id l, rp_permission_id l) \<in> m - grants b"
  then show "\<exists>ls. c = db_role_permissions_update (\<lambda>t. t @ ls) a \<and>
      (\<forall>l\<in>set ls. (rp_role_id l, rp_permission_id l) \<in> m - grants a)"
    by (intro exI [of _ "ls @ ls'"]) (auto simp: grants_def comp_def)
qed

lemma names_more:
  "more_roles a b \<Longrightarrow> role_name ` set (db_roles a) \<subseteq> role_name ` set (db_roles b)"
  "more_permissions a b \<Longrightarrow> perm_name ` set (db_permissions a) \<subseteq> perm_name ` set (db_permissions b)"
  unfolding more_roles_def more_permissions_def by auto

lemma grants_more: "more_grants m a b \<Longrightarrow> grants a \<subseteq> grants b"
  unfolding more_grants_def grants_def by auto

lemma add_roles_wp:
  "wp (forM default_roles add_default_role)
     (\<lambda>_ v. committed v = committed w \<and> more_roles (db w) (db v) \<and> (\<forall>n\<in>set default_roles. n \<in> role_name ` set (db_roles (db v))))
     (\<lambda>_ v. committed v = committed w) w"
proof (rule wp_forM_grows)
  fix n and v :: state assume n: "n \<in> set default_roles" "committed v = committed w"
  show "wp (add_default_role n)
     (\<lambda>_ v'. committed v' = committed w \<and> more_roles (db v) (db v') \<and> n \<in> role_name ` set (db_roles (db v')))
     (\<lambda>_ v'. committed v' = committed w) v"
    unfolding add_default_role_def
  proof (rule wp_insert_absent)
    fix u :: state and i
    assume u: "n \<notin> role_name ` set (db_roles (db v))" "0 < i"
      "db u = db_roles_update (\<lambda>t. t @ [\<lparr>role_id = i, role_name = n\<rparr>]) (db v)" "committed u = committed v"
    then have "more_roles (db v) (db u)"
      unfolding more_roles_def using n(1) by (intro exI [of _ "[\<lparr>role_id = i, role_name = n\<rparr>]"]) simp
    then show "committed u = committed w \<and> more_roles (db v) (db u) \<and> n \<in> role_name ` set (db_roles (db u))"
      using u n(2) by simp
  qed (use n in \<open>auto simp: more_refl\<close>)
qed (use more_refl more_roles_trans names_more in \<open>blast+\<close>)

lemma add_permissions_wp:
  "wp (forM default_permissions add_default_permission)
     (\<lambda>_ v. committed v = committed w \<and> more_permissions (db w) (db v) \<and>
            (\<forall>n\<in>set default_permissions. n \<in> perm_name ` set (db_permissions (db v))))
     (\<lambda>_ v. committed v = committed w) w"
proof (rule wp_forM_grows)
  fix n and v :: state assume n: "n \<in> set default_permissions" "committed v = committed w"
  show "wp (add_default_permission n)
     (\<lambda>_ v'. committed v' = committed w \<and> more_permissions (db v) (db v') \<and> n \<in> perm_name ` set (db_permissions (db v')))
     (\<lambda>_ v'. committed v' = committed w) v"
    unfolding add_default_permission_def
  proof (rule wp_insert_absent)
    fix u :: state and i
    assume u: "n \<notin> perm_name ` set (db_permissions (db v))" "0 < i"
      "db u = db_permissions_update (\<lambda>t. t @ [\<lparr>perm_id = i, perm_name = n\<rparr>]) (db v)" "committed u = committed v"
    then have "more_permissions (db v) (db u)"
      unfolding more_permissions_def using n(1) by (intro exI [of _ "[\<lparr>perm_id = i, perm_name = n\<rparr>]"]) simp
    then show "committed u = committed w \<and> more_permissions (db v) (db u) \<and> n \<in> perm_name ` set (db_permissions (db u))"
      using u n(2) by simp
  qed (use n in \<open>auto simp: more_refl\<close>)
qed (use more_refl more_permissions_trans names_more in \<open>blast+\<close>)

lemma add_grant_wp:
  assumes "(rid, pid) \<in> m" "committed v = c"
  shows "wp (add_default_grant rid pid)
     (\<lambda>_ v'. committed v' = c \<and> more_grants m (db v) (db v') \<and> (rid, pid) \<in> grants (db v'))
     (\<lambda>_ v'. committed v' = c) v"
  unfolding add_default_grant_def
proof (rule wp_insert_absent)
  fix u :: state and i
  let ?l = "\<lparr>rp_id = i, rp_role_id = rid, rp_permission_id = pid\<rparr>"
  assume u: "(rid, pid) \<notin> (\<lambda>l. (rp_role_id l, rp_permission_id l)) ` set (db_role_permissions (db v))"
    "db u = db_role_permissions_update (\<lambda>t. t @ [?l]) (db v)" "committed u = committed v"
  then have "more_grants m (db v) (db u)"
    unfolding more_grants_def using assms(1) by (intro exI [of _ "[?l]"]) (simp add: grants_def)
  then show "committed u = c \<and> more_grants m (db v) (db u) \<and> (rid, pid) \<in> grants (db u)"
    using u assms(2) by (simp add: grants_def)
qed (use assms in \<open>auto simp: more_refl grants_def\<close>)

definition granted_all :: "(string \<rightharpoonup> nat) \<Rightarrow> (string \<rightharpoonup> nat) \<Rightarrow> string \<times> string list \<Rightarrow> database \<Rightarrow> bool" where
  "granted_all rm pm g d \<longleftrightarrow> (\<forall>p\<in>set (snd g). \<forall>i j. rm (fst g) = Some i \<and> pm p = Some j \<and> 0 < i \<and> 0 < j \<longrightarrow> (i, j) \<in> grants d)"

lemma granted_all_more: "granted_all rm pm g a \<Longrightarrow> more_grants m a b \<Longrightarrow> granted_all rm pm g b"
  unfolding granted_all_def using grants_more by blast

lemma grant_all_wp:
  assumes "g \<in> set default_grants" "committed v = c"
  shows "wp (grant_all rm pm g)
     (\<lambda>_ v'. committed v' = c \<and> more_grants (wanted rm pm) (db v) (db v') \<and> granted_all rm pm g (db v'))
     (\<lambda>_ v'. committed v' = c) v"
proof (cases "\<exists>i. rm (fst g) = Some i \<and> 0 < i")
  case False
  then have "grant_all rm pm g = retM ()" by (auto simp: grant_all_def split: option.split)
  then show ?thesis using assms(2) False by (auto simp: wp_ret more_refl granted_all_def)
next
  case True
  then obtain i where i: "rm (fst g) = Some i" "0 < i" by blast
  let ?D = "\<lambda>p d. \<forall>j. pm p = Some j \<and> 0 < j \<longrightarrow> (i, j) \<in> grants d"
  have "wp (forM (snd g) (\<lambda>p. case pm p of None \<Rightarrow> retM () | Some j \<Rightarrow> if j = 0 then retM () else add_default_grant i j))
      (\<lambda>_ v'. committed v' = c \<and> more_grants (wanted rm pm) (db v) (db v') \<and> (\<forall>p\<in>set (snd g). ?D p (db v')))
      (\<lambda>_ v'. committed v' = c) v"
  proof (rule wp_forM_grows)
    fix p and u :: state assume p: "p \<in> set (snd g)" "committed u = c"
    have "wp (add_default_grant i j)
        (\<lambda>_ v'. committed v' = c \<and> more_grants (wanted rm pm) (db u) (db v') \<and> (i, j) \<in> grants (db v'))
        (\<lambda>_ v'. committed v' = c) u" if "pm p = Some j" for j
      by (rule add_grant_wp) (use that p i assms(1) in \<open>auto simp: wanted_def\<close>)
    then show "wp (case pm p of None \<Rightarrow> retM () | Some j \<Rightarrow> if j = 0 then retM () else add_default_grant i j)
        (\<lambda>_ v'. committed v' = c \<and> more_grants (wanted rm pm) (db u) (db v') \<and> ?D p (db v'))
        (\<lambda>_ v'. committed v' = c) u"
      using p(2) by (auto simp: wp_ret more_refl split: option.split)
  qed (use more_refl more_grants_trans grants_more assms(2) in \<open>blast+\<close>)
  then show ?thesis using i by (simp add: grant_all_def granted_all_def)
qed

lemma name_ids_some:
  assumes "n \<in> name ` set rows" "\<forall>r\<in>set rows. 0 < rid r"
  shows "\<exists>i. name_ids name rid rows n = Some i \<and> 0 < i"
proof -
  have "name_ids name rid rows n \<noteq> None" using assms(1) by (auto simp: name_ids_def map_of_eq_None_iff image_image)
  then obtain i where i: "name_ids name rid rows n = Some i" by blast
  then have "(n, i) \<in> set (rev (map (\<lambda>r. (name r, rid r)) rows))" unfolding name_ids_def by (rule map_of_SomeD)
  then show ?thesis using i assms(2) by auto
qed

text \<open>The ids of roles and of permissions in a database, by name.\<close>

definition role_ids :: "database \<Rightarrow> string \<rightharpoonup> nat" where
  "role_ids d = name_ids role_name role_id (db_roles d)"

definition perm_ids :: "database \<Rightarrow> string \<rightharpoonup> nat" where
  "perm_ids d = name_ids perm_name perm_id (db_permissions d)"

text \<open>What the committed database becomes: the missing roles and permissions, then the missing grants.\<close>

definition defaults_added :: "database \<Rightarrow> database \<Rightarrow> bool" where
  "defaults_added d d' \<longleftrightarrow> (\<exists>d1 d2. more_roles d d1 \<and> more_permissions d1 d2 \<and> more_grants (wanted (role_ids d') (perm_ids d')) d2 d')"

lemma defaults_wp:
  assumes ids: "\<forall>r\<in>set (db_roles (db w)). 0 < role_id r" "\<forall>p\<in>set (db_permissions (db w)). 0 < perm_id p"
  shows "wp add_default_roles_and_permissions
     (\<lambda>_ v. committed v = committed w \<and> defaults_added (db w) (db v) \<and> wanted (role_ids (db v)) (perm_ids (db v)) \<subseteq> grants (db v) \<and>
        (\<forall>g\<in>set default_grants. \<forall>p\<in>set (snd g). role_ids (db v) (fst g) \<noteq> None \<and> perm_ids (db v) p \<noteq> None))
     (\<lambda>_ v. committed v = committed w) w"
    (is "wp _ (\<lambda>_. ?Q) _ _")
proof -
  have last: "wp (forM default_grants (grant_all (role_ids (db u)) (perm_ids (db u)))) (\<lambda>_. ?Q) (\<lambda>_ v. committed v = committed w) u'"
    if u: "committed u' = committed w" "more_roles (db w) d1" "more_permissions d1 (db u)" "db u' = db u"
      "\<forall>n\<in>set default_roles. n \<in> role_name ` set (db_roles d1)"
      "\<forall>n\<in>set default_permissions. n \<in> perm_name ` set (db_permissions (db u))" for u u' :: state and d1
  proof -
    let ?rm = "role_ids (db u)" and ?pm = "perm_ids (db u)"
    have pos: "\<forall>r\<in>set (db_roles (db u)). 0 < role_id r" "\<forall>p\<in>set (db_permissions (db u)). 0 < perm_id p"
      "db_roles d1 = db_roles (db u)"
      using u(2,3) ids by (auto simp: more_roles_def more_permissions_def)
    have names: "\<exists>i. ?rm (fst g) = Some i \<and> 0 < i" "\<exists>j. ?pm p = Some j \<and> 0 < j"
      if "g \<in> set default_grants" "p \<in> set (snd g)" for g p
      using that u(5,6) pos unfolding role_ids_def perm_ids_def
      by (intro name_ids_some; auto simp: default_grants_def default_roles_def default_permissions_def)+
    have "wp (forM default_grants (grant_all ?rm ?pm))
        (\<lambda>_ v. committed v = committed w \<and> more_grants (wanted ?rm ?pm) (db u') (db v) \<and> (\<forall>g\<in>set default_grants. granted_all ?rm ?pm g (db v)))
        (\<lambda>_ v. committed v = committed w) u'"
      by (rule wp_forM_grows) (use u(1) grant_all_wp more_refl more_grants_trans granted_all_more in \<open>blast+\<close>)
    then show ?thesis
    proof (rule wp_mono)
      fix v :: state
      assume v: "committed v = committed w \<and> more_grants (wanted ?rm ?pm) (db u') (db v) \<and> (\<forall>g\<in>set default_grants. granted_all ?rm ?pm g (db v))"
      then have same: "role_ids (db v) = ?rm" "perm_ids (db v) = ?pm"
        using u(4) by (auto simp: more_grants_def role_ids_def perm_ids_def)
      have "wanted ?rm ?pm \<subseteq> grants (db v)"
      proof (rule subrelI)
        fix i j assume "(i, j) \<in> wanted ?rm ?pm"
        then obtain g p where gp: "g \<in> set default_grants" "p \<in> set (snd g)" "?rm (fst g) = Some i" "?pm p = Some j"
          by (auto simp: wanted_def)
        then have "0 < i" "0 < j" using names [OF gp(1,2)] by auto
        with gp v show "(i, j) \<in> grants (db v)" unfolding granted_all_def by blast
      qed
      moreover have "\<forall>g\<in>set default_grants. \<forall>p\<in>set (snd g). ?rm (fst g) \<noteq> None \<and> ?pm p \<noteq> None"
        using names by (metis option.distinct(1))
      ultimately show "?Q v" using v u(2-4) unfolding same defaults_added_def by auto
    qed
  qed
  show ?thesis
    unfolding add_default_roles_and_permissions_def wp_do wp_let
  proof (rule wp_mono [OF add_roles_wp])
    fix v :: state
    assume v: "committed v = committed w \<and> more_roles (db w) (db v) \<and> (\<forall>n\<in>set default_roles. n \<in> role_name ` set (db_roles (db v)))"
    show "wp (forM default_permissions add_default_permission)
        (\<lambda>_. wp (query (\<lambda>d. name_ids perm_name perm_id (db_permissions d)))
          (\<lambda>pm. wp (query (\<lambda>d. name_ids role_name role_id (db_roles d)))
            (\<lambda>rm. wp (forM default_grants (grant_all rm pm)) (\<lambda>_. ?Q) (\<lambda>_ v. committed v = committed w))
            (\<lambda>_ v. committed v = committed w)) (\<lambda>_ v. committed v = committed w)) (\<lambda>_ v. committed v = committed w) v"
    proof (rule wp_mono [OF add_permissions_wp])
      fix u :: state
      assume u: "committed u = committed v \<and> more_permissions (db v) (db u) \<and>
          (\<forall>n\<in>set default_permissions. n \<in> perm_name ` set (db_permissions (db u)))"
      have "wp (forM default_grants (grant_all (role_ids (db u)) (perm_ids (db u)))) (\<lambda>_. ?Q) (\<lambda>_ v. committed v = committed w) u'"
        if "committed u' = committed w" "db u' = db u" for u'
        by (rule last [of u' "db v" u]) (use that u v in auto)
      then show "wp (query (\<lambda>d. name_ids perm_name perm_id (db_permissions d)))
          (\<lambda>pm. wp (query (\<lambda>d. name_ids role_name role_id (db_roles d)))
            (\<lambda>rm. wp (forM default_grants (grant_all rm pm)) (\<lambda>_. ?Q) (\<lambda>_ v. committed v = committed w))
            (\<lambda>_ v. committed v = committed w)) (\<lambda>_ v. committed v = committed w) u"
        using u v by (simp add: query_def wp_exec role_ids_def perm_ids_def split: option.split)
    qed (use v in auto)
  qed simp
qed

definition defaults_granted :: "database \<Rightarrow> bool" where
  "defaults_granted d \<longleftrightarrow> (\<forall>(r, ps)\<in>set default_grants. \<forall>p\<in>set ps. \<exists>i j. role_ids d r = Some i \<and> perm_ids d p = Some j \<and> (i, j) \<in> grants d)"

text \<open>C40: The migration with the default roles is all or nothing under any fault. When it goes through, every default
  role and permission exists, each role has its permissions, and nothing else was added: the new roles and
  permissions are those that were missing, the new grants those of the list that were missing.\<close>

theorem default_roles_seeded:
  assumes "\<forall>r\<in>set (db_roles (committed w)). 0 < role_id r" "\<forall>p\<in>set (db_permissions (committed w)). 0 < perm_id p"
  shows "wp (run_migration add_default_roles_and_permissions)
     (\<lambda>_ v. defaults_granted (committed v) \<and> defaults_added (committed w) (committed v))
     (\<lambda>_ v. committed v = committed w) w"
proof -
  have granted: "defaults_granted d"
    if "wanted (role_ids d) (perm_ids d) \<subseteq> grants d"
      "\<forall>g\<in>set default_grants. \<forall>p\<in>set (snd g). role_ids d (fst g) \<noteq> None \<and> perm_ids d p \<noteq> None" for d
    using that unfolding wanted_def defaults_granted_def by fastforce
  show ?thesis
    unfolding run_migration_def wp_with_session wp_begin_tx
    by (rule wp_mono [OF defaults_wp]) (use assms granted in \<open>auto simp: wp_commit split: option.split\<close>)
qed

text \<open>Without faults it goes through.\<close>

lemma wp_insert_absent_quiet: "quiet w \<Longrightarrow> wp (insert_absent q P add) (\<lambda>_. quiet) (\<lambda>_ _. False) w"
  by (cases "P (db w)") (simp_all add: insert_absent_def wp_def [of "\<lambda>w. _ w"] query_def modify_def letM_def next_id_def exec_def quiet_def)

lemma wp_forM_quiet:
  assumes "\<And>x v. x \<in> set xs \<Longrightarrow> quiet v \<Longrightarrow> wp (f x) (\<lambda>_. quiet) (\<lambda>_ _. False) v" "quiet w"
  shows "wp (forM xs f) (\<lambda>_. quiet) (\<lambda>_ _. False) w"
  using assms
proof (induction xs arbitrary: w)
  case (Cons x xs)
  show ?case unfolding wp_for_Cons by (rule wp_mono [OF Cons.prems(1)]) (use Cons in auto)
qed (simp add: wp_simps)

lemma default_roles_run: "quiet w \<Longrightarrow> wp (run_migration add_default_roles_and_permissions) (\<lambda>_ _. True) (\<lambda>_ _. False) w"
proof -
  assume "quiet w"
  have grant: "wp (grant_all rm pm g) (\<lambda>_. quiet) (\<lambda>_ _. False) v" if "quiet v" for rm pm g v
    using that wp_insert_absent_quiet
    by (auto simp: grant_all_def add_default_grant_def wp_ret intro!: wp_forM_quiet split: option.split)
  have grants: "wp (forM default_grants (grant_all rm pm)) (\<lambda>_. wp commit (\<lambda>_ _. True) (\<lambda>_ _. False)) (\<lambda>_ _. False) v"
    if "quiet v" for rm pm v
    by (rule wp_mono [OF wp_forM_quiet]) (use that grant in \<open>auto simp: wp_commit quiet_def\<close>)
  have perms: "wp (forM default_permissions add_default_permission)
      (\<lambda>_. wp (query (\<lambda>d. name_ids perm_name perm_id (db_permissions d))) (\<lambda>pm.
        wp (query (\<lambda>d. name_ids role_name role_id (db_roles d))) (\<lambda>rm.
        wp (forM default_grants (grant_all rm pm)) (\<lambda>_. wp commit (\<lambda>_ _. True) (\<lambda>_ _. False)) (\<lambda>_ _. False))
        (\<lambda>_ _. False)) (\<lambda>_ _. False)) (\<lambda>_ _. False) v" if "quiet v" for v
    by (rule wp_mono [OF wp_forM_quiet])
      (use that grants in \<open>auto simp: add_default_permission_def wp_insert_absent_quiet query_def wp_exec_quiet\<close>)
  have "wp (forM default_roles add_default_role) (\<lambda>_. quiet) (\<lambda>_ _. False) (w\<lparr>db := committed w, aborted := False\<rparr>)"
    using \<open>quiet w\<close> by (intro wp_forM_quiet) (auto simp: add_default_role_def wp_insert_absent_quiet quiet_reset)
  then show ?thesis
    unfolding run_migration_def wp_with_session wp_begin_tx add_default_roles_and_permissions_def wp_do wp_let
    by (rule wp_mono) (use perms in auto)
qed

lemma default_roles_seeded_witness:
  "\<exists>v. run_migration add_default_roles_and_permissions (start 0 empty_db) = (Inr (), v) \<and>
     defaults_granted (committed v) \<and> defaults_added empty_db (committed v)"
proof -
  let ?m = "run_migration add_default_roles_and_permissions"
  have "wp ?m (\<lambda>_ v. defaults_granted (committed v) \<and> defaults_added empty_db (committed v)) (\<lambda>_ v. committed v = empty_db) (start 0 empty_db)"
    using default_roles_seeded [of "start 0 empty_db"] by (simp add: empty_db_def)
  moreover have "wp ?m (\<lambda>_ _. True) (\<lambda>_ _. False) (start 0 empty_db)" by (rule default_roles_run) simp
  ultimately show ?thesis by (auto simp: wp_def split: prod.splits sum.splits)
qed

text \<open>Whatever is granted already is not granted again: a second run adds nothing.\<close>

lemma name_ids_None: "name_ids name rid rows n = Some i \<Longrightarrow> n \<in> name ` set rows"
  unfolding name_ids_def by (drule map_of_SomeD) auto

lemma defaults_added_again:
  assumes granted: "defaults_granted d" and added: "defaults_added d d'"
  shows "d' = d"
proof -
  have g: "\<exists>i j. role_ids d (fst g) = Some i \<and> perm_ids d p = Some j \<and> (i, j) \<in> grants d"
    if "g \<in> set default_grants" "p \<in> set (snd g)" for g p
    using granted that unfolding defaults_granted_def by fastforce
  have "\<exists>g\<in>set default_grants. fst g = n \<and> ''product:read'' \<in> set (snd g)" if "n \<in> set default_roles" for n
    using that by (auto simp: default_grants_def default_roles_def)
  then have roles: "set default_roles \<subseteq> role_name ` set (db_roles d)"
    using g name_ids_None unfolding role_ids_def by blast
  have "\<exists>g\<in>set default_grants. p \<in> set (snd g)" if "p \<in> set default_permissions" for p
    using that by (auto simp: default_grants_def default_permissions_def)
  then have names: "set default_permissions \<subseteq> perm_name ` set (db_permissions d)"
    using g name_ids_None unfolding perm_ids_def by blast
  from added obtain d1 d2 where d: "more_roles d d1" "more_permissions d1 d2" "more_grants (wanted (role_ids d') (perm_ids d')) d2 d'"
    unfolding defaults_added_def by blast
  obtain rs where rs: "d1 = db_roles_update (\<lambda>t. t @ rs) d"
    "\<forall>r\<in>set rs. 0 < role_id r \<and> role_name r \<in> set default_roles - role_name ` set (db_roles d)"
    using d(1) unfolding more_roles_def by blast
  then have "rs = []" using roles by (cases rs) auto
  then have d1: "d1 = d" using rs(1) by simp
  obtain ps where ps: "d2 = db_permissions_update (\<lambda>t. t @ ps) d"
    "\<forall>p\<in>set ps. 0 < perm_id p \<and> perm_name p \<in> set default_permissions - perm_name ` set (db_permissions d)"
    using d(2) unfolding d1 more_permissions_def by blast
  then have "ps = []" using names by (cases ps) auto
  then have d2: "d2 = d" using ps(1) by simp
  have "role_ids d' = role_ids d" "perm_ids d' = perm_ids d"
    using d(3) d2 by (auto simp: more_grants_def role_ids_def perm_ids_def)
  then have "wanted (role_ids d') (perm_ids d') \<subseteq> grants d"
    using g unfolding wanted_def by fastforce
  moreover obtain ls where ls: "d' = db_role_permissions_update (\<lambda>t. t @ ls) d"
    "\<forall>l\<in>set ls. (rp_role_id l, rp_permission_id l) \<in> wanted (role_ids d') (perm_ids d') - grants d"
    using d(3) unfolding d2 more_grants_def by blast
  ultimately have "ls = []" by (cases ls) auto
  then show ?thesis using ls(1) by simp
qed

section \<open>The administrator's script\<close>

text \<open>The script that makes an administrator never makes one of a user without a password credential, new or old:
  it stores the user, fails on the credential and never gets to the role, whatever else happens.\<close>

theorem admin_never_promoted:
  assumes "\<forall>u\<in>set (db_users (committed w)). u_id u \<le> seqs w ''users''"
    and "\<forall>c\<in>set (db_credentials (committed w)). cred_type c = CT_PASSWORD \<longrightarrow>
      cred_user_id c \<in> u_id ` {u \<in> set (db_users (committed w)). u_email u \<noteq> email}"
    and "inj_on u_id (set (db_users (committed w)))"
  shows "wp (create_admin cr email password name)
     (\<lambda>r v. r \<noteq> Done \<and> db_user_roles (committed v) = db_user_roles (committed w))
     (\<lambda>_ v. db_user_roles (committed v) = db_user_roles (committed w)) w"
proof -
  have new: "\<not> (cred_user_id c = Suc (seqs w ''users'') \<and> cred_type c = CT_PASSWORD)"
    if "c \<in> set (db_credentials (committed w))" for c
    using assms(1,2) that by fastforce
  have old: "\<not> (cred_user_id c = u_id u \<and> cred_type c = CT_PASSWORD)"
    if "c \<in> set (db_credentials (committed w))" "u \<in> set (db_users (committed w))" "u_email u = email" for c u
    using assms(2,3) that by (fastforce dest: inj_onD)
  have found: "u \<in> set (db_users (committed w)) \<and> u_email u = email"
    if "one_or_none (filter (\<lambda>u. u_email u = email) (db_users (committed w))) = Inr (Some u)" for u
    using that filter_is_subset [of "\<lambda>u. u_email u = email" "db_users (committed w)"]
    by (cases "filter (\<lambda>u. u_email u = email) (db_users (committed w))" rule: one_or_none.cases) (auto dest: filter_eq_ConsD)
  have created: "wp (create_user email name)
      (\<lambda>i v. db v = committed v \<and> db_user_roles (committed v) = db_user_roles (committed w) \<and>
             (\<forall>c\<in>set (db_credentials (committed v)). \<not> (cred_user_id c = i \<and> cred_type c = CT_PASSWORD)))
      (\<lambda>_ v. db_user_roles (committed v) = db_user_roles (committed w)) v"
    if "db v = committed w" "committed v = committed w" "seqs v = seqs w" for v
    using new by (simp add: create_user_def wp_simps wp_exec query_def wp_commit Let_def that split: option.split)
  have user: "wp (find_or_create_user email name)
      (\<lambda>i v. db v = committed v \<and> db_user_roles (committed v) = db_user_roles (committed w) \<and>
             (\<forall>c\<in>set (db_credentials (committed v)). \<not> (cred_user_id c = i \<and> cred_type c = CT_PASSWORD)))
      (\<lambda>_ v. db_user_roles (committed v) = db_user_roles (committed w)) (w\<lparr>db := committed w, aborted := False\<rparr>)"
    (is "wp _ ?Q ?E _")
  proof (cases "one_or_none (filter (\<lambda>u. u_email u = email) (db_users (committed w)))")
    case (Inl e)
    then show ?thesis by (simp add: find_or_create_user_def wp_let wp_lift wp_exec query_def split: option.split)
  next
    case (Inr r)
    note rows = this
    show ?thesis
    proof (cases r)
      case None
      then show ?thesis
        using rows by (simp add: find_or_create_user_def wp_let wp_lift wp_exec query_def split: option.split)
          (intro impI wp_mono [OF created]; simp)
    next
      case (Some u)
      then have u: "u \<in> set (db_users (committed w))" "u_email u = email" using found rows by auto
      have "\<forall>c\<in>set (db_credentials (committed w)). \<not> (cred_user_id c = u_id u \<and> cred_type c = CT_PASSWORD)"
        using old u by blast
      then show ?thesis
        using rows Some by (simp add: find_or_create_user_def wp_let wp_lift wp_ret wp_exec query_def split: option.split)
    qed
  qed
  have credential: "wp (check_password_credential cr i p) (\<lambda>_ _. False) (\<lambda>_ v'. committed v' = committed v) v"
    if "db v = committed v" "\<forall>c\<in>set (db_credentials (committed v)). \<not> (cred_user_id c = i \<and> cred_type c = CT_PASSWORD)"
    for i p and v :: state
  proof -
    have "filter (\<lambda>c. cred_user_id c = i \<and> cred_type c = CT_PASSWORD) (db_credentials (committed v)) = []"
      using that(2) by (auto simp: filter_empty_conv)
    then show ?thesis
      using that(1) by (simp add: check_password_credential_def wp_simps wp_exec query_def split: option.split)
  qed
  have "wp (letM (find_or_create_user email name) (\<lambda>user. doM (check_password_credential cr user p) (assign_admin_role user)))
      (\<lambda>_ _. False) (\<lambda>_ v. db_user_roles (committed v) = db_user_roles (committed w)) (w\<lparr>db := committed w, aborted := False\<rparr>)" for p
    unfolding wp_let wp_do
  proof (rule wp_mono [OF user])
    fix i and v :: state
    assume v: "db v = committed v \<and> db_user_roles (committed v) = db_user_roles (committed w) \<and>
        (\<forall>c\<in>set (db_credentials (committed v)). \<not> (cred_user_id c = i \<and> cred_type c = CT_PASSWORD))"
    show "wp (check_password_credential cr i p) (\<lambda>_. wp (assign_admin_role i) (\<lambda>_ _. False)
        (\<lambda>_ v. db_user_roles (committed v) = db_user_roles (committed w)))
        (\<lambda>_ v. db_user_roles (committed v) = db_user_roles (committed w)) v"
      by (rule wp_mono [OF credential]) (use v in auto)
  qed
  then have "wp (with_session (letM (find_or_create_user email name)
        (\<lambda>user. doM (check_password_credential cr user (the password)) (assign_admin_role user))))
      (\<lambda>r v. r \<noteq> Done \<and> db_user_roles (committed v) = db_user_roles (committed w))
      (\<lambda>_ v. db_user_roles (committed v) = db_user_roles (committed w)) w"
    unfolding wp_with_session by (rule wp_mono) auto
  then show ?thesis by (simp add: create_admin_def wp_ret)
qed

lemma admin_never_promoted_witness:
  "fst (create_admin sample_crypto (Some ''admin@shop.in'') (Some ''secret'') ''Admin'' (start 0 empty_db)) \<noteq> Inr Done \<and>
   db_user_roles (committed (snd (create_admin sample_crypto (Some ''admin@shop.in'') (Some ''secret'') ''Admin'' (start 0 empty_db)))) = []"
  using admin_never_promoted [of "start 0 empty_db" "Some ''admin@shop.in''" sample_crypto "Some ''secret''" "''Admin''"]
  by (auto simp: wp_def empty_db_def split: prod.splits sum.splits)

section \<open>The categories are there\<close>

lemma insert_nothing_names: "pc_name c \<in> pc_name ` set (insert_nothing category_name_key c t)"
  by (auto simp: insert_nothing_def conflict_def category_name_key_def set_keys_of) (metis image_eqI)

lemma insert_nothing_more: "set t \<subseteq> set (insert_nothing k c t)"
  by (auto simp: insert_nothing_def)

lemma fold_insert_names:
  "pc_name ` set rows \<union> pc_name ` set t \<subseteq> pc_name ` set (fold (insert_nothing category_name_key) rows t)"
proof (induction rows arbitrary: t)
  case (Cons c rows)
  have "insert (pc_name c) (pc_name ` set t) \<subseteq> pc_name ` set (insert_nothing category_name_key c t)"
    by (simp add: insert_nothing_names image_mono insert_nothing_more)
  also have "\<dots> \<subseteq> pc_name ` set (fold (insert_nothing category_name_key) (c # rows) t)"
    using Cons.IH [of "insert_nothing category_name_key c t"] by simp
  finally show ?case using Cons.IH [of "insert_nothing category_name_key c t"] by simp
qed simp

lemma categories_seeded:
  assumes "quiet w"
  shows "wp seed_product_categories (\<lambda>_ v. set CATEGORIES \<subseteq> pc_name ` set (db_categories (db v))) (\<lambda>_ _. False) w"
proof -
  have "wp (mapM (\<lambda>name. letM (next_id ''productcategory'') (\<lambda>i. retM \<lparr>pc_id = i, pc_name = name\<rparr>)) names)
      (\<lambda>rows v. map pc_name rows = names \<and> quiet v) (\<lambda>_ _. False) w" if "quiet w" for names and w :: state
    using that
  proof (induction names arbitrary: w)
    case (Cons n names)
    show ?case unfolding wp_mapM_Cons wp_let wp_next_id wp_ret
      by (rule wp_mono [OF Cons.IH]) (use Cons.prems in auto)
  qed (simp add: wp_simps)
  from this [OF assms] show ?thesis
    unfolding seed_product_categories_def wp_let
  proof (rule wp_mono)
    fix rows :: "product_category list" and v :: state assume v: "map pc_name rows = CATEGORIES \<and> quiet v"
    then have "set CATEGORIES = pc_name ` set rows" by (metis set_map)
    then show "wp (modify (db_categories_update (\<lambda>t. fold (insert_nothing category_name_key) rows t)))
        (\<lambda>_ v. set CATEGORIES \<subseteq> pc_name ` set (db_categories (db v))) (\<lambda>_ _. False) v"
      using v fold_insert_names [of rows "db_categories (db v)"] by (simp add: wp_modify quiet_def)
  qed
qed

end
