(* ===== verification/Thumbnails.thy ===== *)
theory Thumbnails
  imports Outbox
begin

text \<open>
  Making the thumbnail of an avatar: \<open>backend/background_workers/thumbnail_task_handler.py\<close>. Pillow is a parameter;
  files are their contents. The task with its statements on the database is in theory Outbox.
\<close>

section \<open>Pictures and files\<close>

record ('p, 'b) pillow =
  open_image :: "'b \<Rightarrow> exc + 'p"
  image_format :: "'b \<Rightarrow> string"
  image_size :: "'p \<Rightarrow> int \<times> int"
  thumbnail :: "int \<times> int \<Rightarrow> 'p \<Rightarrow> 'p"
  crop :: "int \<times> int \<times> int \<times> int \<Rightarrow> 'p \<Rightarrow> 'p"
  encode :: "string \<Rightarrow> int \<Rightarrow> 'p \<Rightarrow> 'b"

record media_settings =
  MEDIA_ROOT :: string
  PROFILE_IMG_PATH :: string
  THUMBNAIL_IMG_PATH :: string
  file_hash :: "nat \<Rightarrow> string"

type_synonym 'b disk = "string \<rightharpoonup> 'b"

text \<open>\<open>Path(a) / b\<close>: an absolute path replaces what is before it.\<close>

definition path_join :: "string \<Rightarrow> string \<Rightarrow> string" where
  "path_join a b = (if take 1 b = ''/'' then b else a @ ''/'' @ b)"

definition THUMB_SIZE :: "int \<times> int" where "THUMB_SIZE = (300, 300)"

section \<open>Resizing and cropping\<close>

definition crop_box :: "int \<times> int \<Rightarrow> int \<times> int \<Rightarrow> int \<times> int \<times> int \<times> int" where
  "crop_box target whole =
     (case whole of (w, h) \<Rightarrow> case target of (tw, th) \<Rightarrow>
        let left = max 0 ((w - tw) div 2); top = max 0 ((h - th) div 2) in (left, top, left + tw, top + th))"

definition open_and_resize_sync :: "('p, 'b) pillow \<Rightarrow> 'b \<Rightarrow> int \<times> int \<Rightarrow> exc + ('p \<times> string)" where
  "open_and_resize_sync pl src target =
     (case open_image pl src of
        Inl e \<Rightarrow> Inl e
      | Inr im \<Rightarrow>
          let m = max (fst target) (snd target); im' = thumbnail pl (m, m) im in
          Inr (crop pl (crop_box target (image_size pl im')) im', image_format pl src))"

section \<open>Saving\<close>

text \<open>What the file system does: \<open>mkdir\<close> works or not, the picture is written or something stays of the temporary
  file, the replacement works or not.\<close>

record 'b file_system =
  mkdir_ok :: bool
  torn :: "'b option option"
  replace_ok :: bool

definition save_atomic_sync :: "'b file_system \<Rightarrow> ('p, 'b) pillow \<Rightarrow> 'p \<Rightarrow> string \<Rightarrow> string \<Rightarrow> int \<Rightarrow> 'b disk \<Rightarrow> (exc + unit) \<times> 'b disk" where
  "save_atomic_sync fs pl img dest fmt quality disk =
     (let tmp = dest @ ''.tmp'' in
      if \<not> mkdir_ok fs then (Inl OSError, disk)
      else case torn fs of
          Some part \<Rightarrow> (Inl OSError, disk(tmp := part))
        | None \<Rightarrow>
            let disk' = disk(tmp \<mapsto> encode pl fmt quality img) in
            if \<not> replace_ok fs then (Inl OSError, disk') else (Inr (), (disk'(dest := disk' tmp))(tmp := None)))"

definition thumb_path :: "media_settings \<Rightarrow> string \<Rightarrow> string" where
  "thumb_path st rel_thumb = path_join (MEDIA_ROOT st) (path_join (THUMBNAIL_IMG_PATH st) rel_thumb)"

text \<open>FileNotFoundError is an OSError; nothing tells them apart.\<close>

definition process_single_row :: "media_settings \<Rightarrow> 'b file_system \<Rightarrow> ('p, 'b) pillow \<Rightarrow> nat \<Rightarrow> string \<Rightarrow> 'b disk \<Rightarrow> (exc + string) \<times> 'b disk" where
  "process_single_row st fs pl row_id image_rel disk =
     (case disk (path_join (path_join (MEDIA_ROOT st) (PROFILE_IMG_PATH st)) image_rel) of
        None \<Rightarrow> (Inl OSError, disk)
      | Some src \<Rightarrow>
          (case open_and_resize_sync pl src THUMB_SIZE of
             Inl e \<Rightarrow> (Inl e, disk)
           | Inr (thumb_img, fmt) \<Rightarrow>
               let rel_thumb = file_hash st row_id @ ''.'' @ fmt in
               (case save_atomic_sync fs pl thumb_img (thumb_path st rel_thumb) fmt 85 disk of
                  (Inl e, disk') \<Rightarrow> (Inl e, disk')
                | (Inr _, disk') \<Rightarrow> (Inr rel_thumb, disk'))))"

section \<open>Properties\<close>

text \<open>The place of the thumbnail holds what it held before or the whole new picture, the new one after a success; no
  other file but the temporary one is touched.\<close>

lemma save_atomic_whole:
  assumes "save_atomic_sync fs pl img dest fmt q disk = (r, disk')"
  shows "disk' dest = (if r = Inr () then Some (encode pl fmt q img) else disk dest)"
    and "f \<noteq> dest \<Longrightarrow> f \<noteq> dest @ ''.tmp'' \<Longrightarrow> disk' f = disk f"
    and "r = Inr () \<Longrightarrow> disk' (dest @ ''.tmp'') = None"
  using assms by (auto simp: save_atomic_sync_def Let_def split: if_splits option.splits)

text \<open>Pillow's \<open>thumbnail\<close> fits a picture into the size, so that there is nothing left to cut: the box that should take
  the middle of the picture is always the upper left square.\<close>

lemma crop_never_centred:
  assumes "w \<le> tw" "h \<le> th"
  shows "crop_box (tw, th) (w, h) = (0, 0, tw, th)"
  using assms by (simp add: crop_box_def max_def)

lemma open_and_resize_square:
  assumes "\<And>s im. fst (image_size pl (thumbnail pl s im)) \<le> fst s \<and> snd (image_size pl (thumbnail pl s im)) \<le> snd s"
    and "open_and_resize_sync pl src THUMB_SIZE = Inr (img, fmt)"
  shows "\<exists>im. open_image pl src = Inr im \<and> img = crop pl (0, 0, 300, 300) (thumbnail pl (300, 300) im)"
proof -
  have "crop_box (300, 300) (image_size pl (thumbnail pl (300, 300) im)) = (0, 0, 300, 300)" for im
    using assms(1) [of "(300, 300)" im] crop_never_centred [of "fst (image_size pl (thumbnail pl (300, 300) im))" 300]
    by (cases "image_size pl (thumbnail pl (300, 300) im)") simp
  then show ?thesis
    using assms(2) by (auto simp: open_and_resize_sync_def THUMB_SIZE_def Let_def split: sum.splits)
qed

text \<open>Every way to write the thumbnail of a row.\<close>

lemma set_thumb_rows:
  "wp (set_thumb i u t)
     (\<lambda>_ v. \<forall>m\<in>set (db_user_media (committed v)). m \<in> set (db_user_media (committed w)) \<or> um_profile_image_thumb_url m = t)
     (\<lambda>_ v. committed v = committed w) w"
  by (auto simp: set_thumb_def wp_simps wp_modify wp_commit split: option.split dest: set_upd_cases)

text \<open>A row of the media table names a thumbnail only when the picture is there: whatever fails on disk or in the
  database, after the task every row is as before, has no thumbnail, or names the file that was just saved whole.\<close>

theorem thumbnail_backed:
  assumes "process_single_row st fs pl row_id image_rel disk = (r, disk')"
  shows "wp (process_thumbnail_task (\<lambda>_ _. r) row_id user_id image_rel)
     (\<lambda>_ v. \<forall>m\<in>set (db_user_media (committed v)). m \<in> set (db_user_media (committed w)) \<or> um_profile_image_thumb_url m = None \<or>
        (\<exists>t img fmt. r = Inr t \<and> um_profile_image_thumb_url m = Some t \<and> disk' (thumb_path st t) = Some (encode pl fmt 85 img)))
     (\<lambda>_ v. committed v = committed w) w"
proof -
  have saved: "\<exists>img fmt. disk' (thumb_path st t) = Some (encode pl fmt 85 img)" if "r = Inr t" for t
    using assms that save_atomic_whole(1)
    by (fastforce simp: process_single_row_def Let_def split: option.splits sum.splits prod.splits)
  let ?P = "\<lambda>v. \<forall>m\<in>set (db_user_media (committed v)). m \<in> set (db_user_media (committed w)) \<or> um_profile_image_thumb_url m = None \<or>
        (\<exists>t img fmt. r = Inr t \<and> um_profile_image_thumb_url m = Some t \<and> disk' (thumb_path st t) = Some (encode pl fmt 85 img))"
  have some: "wp (set_thumb row_id user_id (Some t)) (\<lambda>_. ?P) (\<lambda>_ v. committed v = committed w) v"
    if "r = Inr t" "committed v = committed w" for t v
    by (rule wp_mono [OF set_thumb_rows]) (use saved that in auto)
  have none: "wp (set_thumb row_id user_id None) (\<lambda>_. ?P) (\<lambda>_ v. committed v = committed w) v"
    if "committed v = committed w" for v
    by (rule wp_mono [OF set_thumb_rows]) (use that in auto)
  have clear: "wp (if e = CancelledError then raiseM e else doM (set_thumb row_id user_id None) (retM (0::nat)))
      (\<lambda>_. ?P) (\<lambda>_ v. committed v = committed w) v" if "committed v = committed w" for e v
    using none [OF that] that by (simp add: wp_simps)
  have body: "wp (tryM (letM (liftM r) (\<lambda>t. doM (set_thumb row_id user_id (Some t)) (retM 1)))
      (\<lambda>e. if e = CancelledError then raiseM e else doM (set_thumb row_id user_id None) (retM (0::nat))))
      (\<lambda>_. ?P) (\<lambda>_ v. committed v = committed w) v" if v: "committed v = committed w" for v
  proof (cases r)
    case (Inl e)
    then show ?thesis unfolding wp_try wp_let wp_lift using clear [OF v, of e] by simp
  next
    case (Inr t)
    have "wp (set_thumb row_id user_id (Some t)) (\<lambda>_. ?P)
        (\<lambda>e. wp (if e = CancelledError then raiseM e else doM (set_thumb row_id user_id None) (retM (0::nat)))
           (\<lambda>_. ?P) (\<lambda>_ v. committed v = committed w)) v"
      by (rule wp_mono [OF some [OF Inr v]]) (use clear in auto)
    then show ?thesis unfolding wp_try wp_let wp_lift wp_do wp_ret using Inr by simp
  qed
  have task: "wp (tryM (tryM (letM (liftM r) (\<lambda>t. doM (set_thumb row_id user_id (Some t)) (retM 1)))
      (\<lambda>e. if e = CancelledError then raiseM e else doM (set_thumb row_id user_id None) (retM (0::nat)))) (\<lambda>e. retM 0))
      (\<lambda>_. ?P) (\<lambda>_ v. committed v = committed w) v" if "committed v = committed w" for v
    unfolding wp_try [of _ "\<lambda>e. retM 0"] wp_ret by (rule wp_mono [OF body [OF that]]) auto
  have "wp (with_session (SELECT_MEDIA_ID row_id)) (\<lambda>_ v. committed v = committed w) (\<lambda>_ v. committed v = committed w) w"
    by (simp add: wp_with_session SELECT_MEDIA_ID_def query_def wp_exec split: option.split)
  then show ?thesis
    unfolding process_thumbnail_task_def wp_do by (rule wp_mono) (rule task, simp_all)
qed

end
